(* ===== verification/Prelude.thy ===== *)
theory Prelude
  imports Complex_Main "HOL-Library.Monad_Syntax"
begin

text \<open>
  Shared vocabulary of the development: the result type of operations that may throw, the
  sequencing of operations over a database state, the row operations of a relational table
  (first match, conditional UPDATE), and the collections of simp rules the component theories
  add to.
\<close>

named_theorems table_simps \<open>reading and updating rows of a table\<close>
named_theorems money_simps \<open>unfolding the money operations\<close>
named_theorems status_simps \<open>status predicates and transitions of the aggregates\<close>

type_synonym uuid = string

text \<open>Instants are JavaScript Dates: milliseconds since 1970-01-01T00:00:00Z.\<close>

type_synonym instant = int

subsection \<open>Operations over a state that may throw\<close>

text \<open>
  An operation running inside an ambient transaction either throws (\<open>Inl\<close>: the transaction
  is rolled back, so no state is returned) or returns a value and the new state.
\<close>

type_synonym ('e, 'a, 's) outcome = "'e + 'a \<times> 's"

definition and_then :: "('e, 'a, 's) outcome \<Rightarrow> ('a \<Rightarrow> 's \<Rightarrow> ('e, 'b, 's) outcome) \<Rightarrow> ('e, 'b, 's) outcome" where
  "and_then m f = (case m of Inl e \<Rightarrow> Inl e | Inr (x, s) \<Rightarrow> f x s)"

lemma and_then_Inl [simp]: "and_then (Inl e) f = Inl e"
  by (simp add: and_then_def)

lemma and_then_Inr [simp]: "and_then (Inr (x, s)) f = f x s"
  by (simp add: and_then_def)

lemma and_then_eq_Inr:
  "and_then m f = Inr r \<longleftrightarrow> (\<exists>x s. m = Inr (x, s) \<and> f x s = Inr r)"
  by (auto simp: and_then_def split: sum.splits)

lemma and_then_cong [fundef_cong]:
  assumes "m = m'" and "\<And>x s. m' = Inr (x, s) \<Longrightarrow> f x s = f' x s"
  shows "and_then m f = and_then m' f'"
  using assms by (auto simp: and_then_def split: sum.splits)

subsection \<open>Rows of a table\<close>

text \<open>
  \<open>update_where\<close> is an UPDATE with a WHERE clause; \<open>update_returning\<close> is the pattern every
  repository uses for a conditional transition: the UPDATE touches the rows that match both the
  key and the guard, and when it touched none the answer is \<open>None\<close>, otherwise the row is read
  back by its key.
\<close>

definition update_where :: "('r \<Rightarrow> bool) \<Rightarrow> ('r \<Rightarrow> 'r) \<Rightarrow> 'r list \<Rightarrow> 'r list" where
  "update_where P f rows = map (\<lambda>r. if P r then f r else r) rows"

definition update_returning ::
  "('r \<Rightarrow> bool) \<Rightarrow> ('r \<Rightarrow> bool) \<Rightarrow> ('r \<Rightarrow> 'r) \<Rightarrow> 'r list \<Rightarrow> 'r option \<times> 'r list" where
  "update_returning key guard f rows =
     (if list_ex (\<lambda>r. key r \<and> guard r) rows
      then (let rows' = update_where (\<lambda>r. key r \<and> guard r) f rows in (find key rows', rows'))
      else (None, rows))"

lemma update_where_Nil [table_simps, simp]: "update_where P f [] = []"
  by (simp add: update_where_def)

lemma update_where_Cons [table_simps]:
  "update_where P f (r # rs) = (if P r then f r else r) # update_where P f rs"
  by (simp add: update_where_def)

lemma length_update_where [simp]: "length (update_where P f rows) = length rows"
  by (simp add: update_where_def)

lemma set_update_where: "set (update_where P f rows) = (\<lambda>r. if P r then f r else r) ` set rows"
  by (simp add: update_where_def)

lemma update_where_id: "(\<And>r. r \<in> set rows \<Longrightarrow> \<not> P r) \<Longrightarrow> update_where P f rows = rows"
  by (induction rows) (auto simp: update_where_Cons)

lemma map_update_where:
  "(\<And>r. P r \<Longrightarrow> g (f r) = g r) \<Longrightarrow> map g (update_where P f rows) = map g rows"
  by (auto simp: update_where_def)

lemma filter_update_where_frame:
  assumes "\<And>r. P r \<Longrightarrow> \<not> Q r" and "\<And>r. P r \<Longrightarrow> \<not> Q (f r)"
  shows "filter Q (update_where P f rows) = filter Q rows"
  using assms by (induction rows) (auto simp: update_where_Cons)

lemma find_None_iff_set: "find P xs = None \<longleftrightarrow> (\<forall>x\<in>set xs. \<not> P x)"
  by (induction xs) auto

lemma find_SomeD: "find P xs = Some x \<Longrightarrow> P x \<and> x \<in> set xs"
  by (induction xs) (auto split: if_splits)

lemma find_update_where_other:
  assumes "\<And>r. P r \<Longrightarrow> Q (f r) = Q r" and "\<And>r. Q r \<Longrightarrow> \<not> P r"
  shows "find Q (update_where P f rows) = find Q rows"
  using assms by (induction rows) (auto simp: update_where_Cons)

lemma find_unique:
  assumes "r \<in> set rows" and "P r" and uniq: "\<And>x. x \<in> set rows \<Longrightarrow> P x \<Longrightarrow> x = r"
  shows "find P rows = Some r"
proof -
  have "find P rows \<noteq> None" using assms(1,2) by (auto simp: find_None_iff_set)
  then obtain x where x: "find P rows = Some x" by auto
  then have "x = r" using find_SomeD[OF x] uniq by blast
  with x show ?thesis by simp
qed

lemma update_returning_None:
  assumes eq: "update_returning key guard f rows = (None, rows')"
    and kf: "\<And>r. key r \<Longrightarrow> key (f r)"
  shows "rows' = rows \<and> (\<forall>r\<in>set rows. key r \<longrightarrow> \<not> guard r)"
proof (cases "\<exists>r\<in>set rows. key r \<and> guard r")
  case True
  then obtain r where r: "r \<in> set rows" "key r" "guard r" by blast
  then have "f r \<in> set (update_where (\<lambda>r. key r \<and> guard r) f rows)"
    by (force simp: set_update_where)
  with kf[OF r(2)] have "find key (update_where (\<lambda>r. key r \<and> guard r) f rows) \<noteq> None"
    unfolding find_None_iff_set by blast
  with eq True show ?thesis by (simp add: update_returning_def list_ex_iff Let_def)
next
  case False
  with eq show ?thesis by (auto simp: update_returning_def list_ex_iff)
qed

lemma update_returning_Some:
  assumes "update_returning key guard f rows = (Some r', rows')"
  shows "rows' = update_where (\<lambda>r. key r \<and> guard r) f rows \<and> key r' \<and> r' \<in> set rows'
     \<and> (\<exists>r\<in>set rows. key r \<and> guard r)"
  using assms by (auto simp: update_returning_def list_ex_iff Let_def
      split: if_splits dest!: find_SomeD)

lemma snd_update_returning:
  "snd (update_returning key guard f rows) = update_where (\<lambda>r. key r \<and> guard r) f rows"
proof (cases "list_ex (\<lambda>r. key r \<and> guard r) rows")
  case True
  then show ?thesis by (simp add: update_returning_def Let_def)
next
  case False
  then have "\<And>r. r \<in> set rows \<Longrightarrow> \<not> (key r \<and> guard r)" by (auto simp: list_ex_iff)
  then have "update_where (\<lambda>r. key r \<and> guard r) f rows = rows"
    by (intro update_where_id) auto
  with False show ?thesis by (simp add: update_returning_def)
qed

text \<open>
  With a primary key the read-back row is the patched image of the one row the UPDATE matched.
\<close>

lemma update_returning_unique:
  assumes r: "r \<in> set rows" and key: "key r"
    and uniq: "\<And>x. x \<in> set rows \<Longrightarrow> key x \<Longrightarrow> x = r" and keyf: "key (f r)"
  shows "update_returning key guard f rows =
    (if guard r then (Some (f r), update_where (\<lambda>x. key x \<and> guard x) f rows) else (None, rows))"
proof (cases "guard r")
  case False
  with uniq have "\<not> list_ex (\<lambda>x. key x \<and> guard x) rows" by (auto simp: list_ex_iff)
  with False show ?thesis by (simp add: update_returning_def)
next
  case True
  have ex: "list_ex (\<lambda>x. key x \<and> guard x) rows" using True key r by (auto simp: list_ex_iff)
  have mem: "f r \<in> set (update_where (\<lambda>x. key x \<and> guard x) f rows)"
    using True key r by (force simp: set_update_where)
  have all: "y = f r" if y: "y \<in> set (update_where (\<lambda>x. key x \<and> guard x) f rows)" and ky: "key y" for y
  proof -
    from y obtain x where x: "x \<in> set rows"
      and yx: "y = (if key x \<and> guard x then f x else x)"
      unfolding set_update_where by blast
    show ?thesis
    proof (cases "key x")
      case True
      with uniq x have "x = r" by blast
      with yx True \<open>guard r\<close> show ?thesis by simp
    next
      case False
      with yx ky show ?thesis by simp
    qed
  qed
  have "find key (update_where (\<lambda>x. key x \<and> guard x) f rows) = Some (f r)"
    by (rule find_unique [where P = key, OF mem keyf]) (rule all)
  with True ex show ?thesis by (simp add: update_returning_def Let_def)
qed

subsection \<open>Stable sort by a key, as ORDER BY and Array.prototype.sort\<close>

lemma sort_key_filter_hd_min:
  "sort_key k xs = y # ys \<Longrightarrow> x \<in> set xs \<Longrightarrow> k y \<le> (k x :: 'k :: linorder)"
proof -
  assume a: "sort_key k xs = y # ys" and x: "x \<in> set xs"
  have "sorted (map k (y # ys))" using sorted_sort_key[of k xs] by (simp add: a)
  moreover have "x \<in> set (y # ys)" using x by (simp flip: a)
  ultimately show ?thesis by auto
qed

subsection \<open>Histories\<close>

text \<open>
  A history of labelled steps: every step appends what it puts on record, so that a property can speak
  of the steps that were taken.
\<close>

inductive trace :: "('s \<Rightarrow> 'l list \<Rightarrow> 's \<Rightarrow> bool) \<Rightarrow> 's \<Rightarrow> 'l list \<Rightarrow> 's \<Rightarrow> bool" for R where
  trace_none: "trace R s [] s"
| trace_step: "trace R s ls t \<Longrightarrow> R t l u \<Longrightarrow> trace R s (ls @ l) u"

lemma trace_one: "R s l t \<Longrightarrow> trace R s l t"
  using trace_step[OF trace_none, of R s l t] by simp

text \<open>An invariant that may depend on the record.\<close>

lemma trace_invariant:
  assumes "trace R s ls t" "I [] s" "\<And>ls t l u. I ls t \<Longrightarrow> R t l u \<Longrightarrow> I (ls @ l) u"
  shows "I ls t"
  using assms(1,2) by (induction rule: trace.induct) (auto intro: assms(3))

end
