(* ===== verification/Rounding.thy ===== *)
theory Rounding
  imports Prelude
begin

text \<open>
  Rounding of rationals: to the nearest integer with ties to even (ROUND_HALF_EVEN, "banker's
  rounding"), and to a number of significant digits in a base. Base 10 with 30 digits is the
  arithmetic the program configures decimal.js for; base 2 with 53 digits is that of JavaScript
  numbers.
\<close>

subsection \<open>Half-even rounding to an integer\<close>

definition half_even :: "rat \<Rightarrow> int" where
  "half_even x =
     (let f = \<lfloor>x\<rfloor>; r = x - of_int f
      in if r < 1 / 2 then f else if r > 1 / 2 then f + 1 else if even f then f else f + 1)"

lemma half_even_of_int [simp]: "half_even (of_int n) = n"
  by (simp add: half_even_def)

lemma half_even_0 [simp]: "half_even 0 = 0"
  using half_even_of_int[of 0] by simp

lemma half_even_error: "\<bar>of_int (half_even x) - x\<bar> \<le> 1 / 2"
  using of_int_floor_le[of x] floor_correct[of x] by (auto simp: half_even_def Let_def)

lemma half_even_floor: "half_even x = \<lfloor>x\<rfloor> \<or> half_even x = \<lfloor>x\<rfloor> + 1"
  by (simp add: half_even_def Let_def)

theorem half_even_nearest: "\<bar>of_int (half_even x) - x\<bar> \<le> \<bar>of_int n - x\<bar>"
proof (cases "n = half_even x")
  case False
  then have "1 \<le> \<bar>n - half_even x\<bar>" by linarith
  then have "(of_int 1 :: rat) \<le> of_int \<bar>n - half_even x\<bar>" by (simp only: of_int_le_iff)
  then have "1 \<le> \<bar>of_int n - (of_int (half_even x) :: rat)\<bar>" by simp
  with half_even_error[of x] show ?thesis by linarith
qed simp

lemma half_even_mono:
  assumes "x \<le> y"
  shows "half_even x \<le> half_even y"
proof (cases "x = y")
  case False
  show ?thesis
  proof (rule ccontr)
    assume "\<not> half_even x \<le> half_even y"
    then have "half_even y + 1 \<le> half_even x" by simp
    then have "of_int (half_even y) + 1 \<le> (of_int (half_even x) :: rat)"
      by (metis of_int_1 of_int_add of_int_le_iff)
    with half_even_error[of x] half_even_error[of y] assms have "x = y" by linarith
    with False show False by simp
  qed
qed simp

lemma half_even_le_int: "x \<le> of_int n \<Longrightarrow> half_even x \<le> n"
  using half_even_mono[of x "of_int n"] by simp

lemma half_even_ge_int: "of_int n \<le> x \<Longrightarrow> n \<le> half_even x"
  using half_even_mono[of "of_int n" x] by simp

text \<open>A tie goes to the even neighbour.\<close>

theorem half_even_tie: "even (half_even (of_int n + 1 / 2))"
proof -
  have "\<lfloor>of_int n + (1 / 2 :: rat)\<rfloor> = n" by (rule floor_unique) simp_all
  then show ?thesis by (simp add: half_even_def Let_def)
qed

subsection \<open>Numbers of a given precision\<close>

definition digits_rep :: "nat \<Rightarrow> nat \<Rightarrow> rat \<Rightarrow> bool" where
  "digits_rep b p x \<longleftrightarrow> (\<exists>m e :: int. \<bar>m\<bar> < int b ^ p \<and> x = of_int m * of_nat b powi e)"

definition nearest :: "nat \<Rightarrow> nat \<Rightarrow> rat \<Rightarrow> rat \<Rightarrow> bool" where
  "nearest b p x z \<longleftrightarrow> digits_rep b p z \<and> (\<forall>w. digits_rep b p w \<longrightarrow> \<bar>z - x\<bar> \<le> \<bar>w - x\<bar>)"

lemma nearest_exact: "nearest b p x z \<Longrightarrow> digits_rep b p x \<Longrightarrow> z = x"
  by (force simp: nearest_def)

lemma nearest_ge: "nearest b p x z \<Longrightarrow> digits_rep b p w \<Longrightarrow> w \<le> x \<Longrightarrow> w \<le> z"
  by (force simp: nearest_def abs_if split: if_splits)

lemma nearest_le: "nearest b p x z \<Longrightarrow> digits_rep b p w \<Longrightarrow> x \<le> w \<Longrightarrow> z \<le> w"
  by (force simp: nearest_def abs_if split: if_splits)

lemma nearest_mono:
  assumes "nearest b p x z" "nearest b p y z'" "x < y"
  shows "z \<le> z'"
proof (rule ccontr)
  assume "\<not> z \<le> z'"
  moreover have "\<bar>z - x\<bar> \<le> \<bar>z' - x\<bar>" "\<bar>z' - y\<bar> \<le> \<bar>z - y\<bar>"
    using assms by (auto simp: nearest_def)
  ultimately show False using \<open>x < y\<close> by (auto simp: abs_if split: if_splits)
qed

lemma digits_rep_0 [simp]: "1 < b \<Longrightarrow> digits_rep b p 0"
  unfolding digits_rep_def by (rule exI[of _ 0]) simp

lemma digits_rep_int: "\<bar>m\<bar> < int b ^ p \<Longrightarrow> digits_rep b p (of_int m)"
  unfolding digits_rep_def by (intro exI[of _ m] exI[of _ 0]) simp

lemma digits_rep_uminus [simp]: "digits_rep b p (- x) \<longleftrightarrow> digits_rep b p x"
proof -
  have "digits_rep b p x \<Longrightarrow> digits_rep b p (- x)" for x
    unfolding digits_rep_def by (metis abs_minus_cancel mult_minus_left of_int_minus)
  from this[of x] this[of "- x"] show ?thesis by auto
qed

lemma digits_rep_shift:
  assumes "1 < b" "\<bar>m\<bar> \<le> int b ^ p" "0 < p"
  shows "digits_rep b p (of_int m * of_nat b powi e)"
proof (cases "\<bar>m\<bar> < int b ^ p")
  case True
  then show ?thesis by (auto simp: digits_rep_def)
next
  case False
  obtain q where q: "p = Suc q" using \<open>0 < p\<close> by (cases p) auto
  have m: "m = sgn m * (int b * int b ^ q)"
    using False assms(2) by (metis abs_mult_sgn less_le mult.commute power_Suc q)
  have "of_int m * of_nat b powi e = of_int (sgn m * int b ^ q) * (of_nat b :: rat) powi (e + 1)"
    using assms(1) by (subst m) (simp add: power_int_add)
  moreover have "\<bar>sgn m * int b ^ q\<bar> < int b ^ p"
    using assms(1) by (auto simp: q abs_mult sgn_if)
  ultimately show ?thesis unfolding digits_rep_def by blast
qed

subsection \<open>Rounding to significant digits\<close>

text \<open>The exponent of the leading digit of a positive integer, then of a non-zero rational.\<close>

fun ilog :: "nat \<Rightarrow> nat \<Rightarrow> nat" where
  "ilog b n = (if b \<le> 1 \<or> n < b then 0 else Suc (ilog b (n div b)))"

declare ilog.simps [simp del]

definition lead_exp :: "nat \<Rightarrow> rat \<Rightarrow> int" where
  "lead_exp b x =
     (case quotient_of \<bar>x\<bar> of (n, d) \<Rightarrow>
       let k = int (ilog b (nat n)) - int (ilog b (nat d))
       in if of_nat b powi k \<le> \<bar>x\<bar> then k else k - 1)"

definition rnd_sig :: "nat \<Rightarrow> nat \<Rightarrow> rat \<Rightarrow> rat" where
  "rnd_sig b p x =
     (if x = 0 then 0
      else (let u = of_nat b powi (lead_exp b x + 1 - int p) in of_int (half_even (x / u)) * u))"

lemma ilog_bounds:
  assumes "1 < b" "0 < n"
  shows "b ^ ilog b n \<le> n \<and> n < b ^ Suc (ilog b n)"
  using assms
proof (induction b n rule: ilog.induct)
  case (1 b n)
  show ?case
  proof (cases "n < b")
    case True
    with 1(2,3) show ?thesis by (simp add: ilog.simps)
  next
    case False
    then have "0 < n div b" using 1(2) by (simp add: div_greater_zero_iff)
    with 1 False have IH: "b ^ ilog b (n div b) \<le> n div b" "n div b < b ^ Suc (ilog b (n div b))"
      by auto
    have l: "ilog b n = Suc (ilog b (n div b))" using False 1(2) by (subst ilog.simps) simp
    have "b * b ^ ilog b (n div b) \<le> b * (n div b)" using IH(1) by simp
    also have "\<dots> \<le> n" by simp
    finally have lo: "b ^ ilog b n \<le> n" by (simp add: l)
    have "n < b * (n div b + 1)" using 1(2) dividend_less_times_div[of b n] by simp
    also have "\<dots> \<le> b * b ^ Suc (ilog b (n div b))" using IH(2) by (intro mult_left_mono) simp_all
    finally have "n < b ^ Suc (ilog b n)" by (simp add: l)
    with lo show ?thesis by simp
  qed
qed

lemma powi_of_nat_less:
  fixes b :: nat
  assumes "1 < b" "i \<le> j"
  shows "(of_nat b :: rat) powi i \<le> of_nat b powi j"
  using assms by (intro power_int_increasing) simp_all

lemma lead_exp_bounds:
  assumes b: "1 < b" and x: "x \<noteq> 0"
  shows "of_nat b powi lead_exp b x \<le> \<bar>x\<bar>" "\<bar>x\<bar> < of_nat b powi (lead_exp b x + 1)"
proof -
  let ?B = "of_nat b :: rat"
  obtain n d where q: "quotient_of \<bar>x\<bar> = (n, d)" by (cases "quotient_of \<bar>x\<bar>") auto
  have d: "0 < d" using quotient_of_denom_pos[OF q] .
  have xnd: "\<bar>x\<bar> = of_int n / of_int d" using quotient_of_div[OF q] .
  with x d have n: "0 < n" by (metis zero_less_abs_iff zero_less_divide_iff of_int_0_less_iff less_asym)
  define ln where "ln = ilog b (nat n)"
  define ld where "ld = ilog b (nat d)"
  have Ln: "int b ^ ln \<le> n" "n < int b ^ Suc ln" and Ld: "int b ^ ld \<le> d" "d < int b ^ Suc ld"
    using ilog_bounds[OF b, of "nat n"] ilog_bounds[OF b, of "nat d"] n d
    unfolding ln_def ld_def
    by (auto simp: nat_le_iff zless_nat_eq_int_zless nat_less_iff le_nat_iff of_nat_power)
  have rn: "?B ^ ln \<le> of_int n" "of_int n < ?B ^ Suc ln" "?B ^ ld \<le> of_int d" "of_int d < ?B ^ Suc ld"
    using Ln Ld by (metis of_int_le_iff of_int_less_iff of_int_of_nat_eq of_int_power)+
  have B: "0 < ?B" "1 \<le> ?B" using b by auto
  have up: "\<bar>x\<bar> < ?B powi (int ln - int ld + 1)"
  proof -
    have "of_int n / of_int d < ?B ^ Suc ln / ?B ^ ld"
      using rn B d n by (intro frac_less) auto
    also have "\<dots> = ?B powi (int ln - int ld + 1)"
      using B by (simp add: power_int_diff power_int_add)
    finally show ?thesis using xnd by simp
  qed
  have lo: "?B powi (int ln - int ld - 1) \<le> \<bar>x\<bar>"
  proof -
    have "?B ^ ln / ?B ^ Suc ld \<le> of_int n / of_int d"
      using rn B d n by (intro frac_le) auto
    moreover have "?B ^ ln / ?B ^ Suc ld = ?B powi (int ln - int ld - 1)"
      using B by (simp add: power_int_diff power_int_add)
    ultimately show ?thesis using xnd by simp
  qed
  have "lead_exp b x = (if ?B powi (int ln - int ld) \<le> \<bar>x\<bar> then int ln - int ld else int ln - int ld - 1)"
    by (simp add: lead_exp_def q Let_def ln_def ld_def)
  with up lo show "?B powi lead_exp b x \<le> \<bar>x\<bar>" "\<bar>x\<bar> < ?B powi (lead_exp b x + 1)"
    by (auto simp: not_le)
qed

theorem rnd_sig_nearest:
  assumes b: "1 < b" and p: "0 < p"
  shows "nearest b p x (rnd_sig b p x)"
proof (cases "x = 0")
  case True
  with b show ?thesis by (simp add: nearest_def rnd_sig_def)
next
  case False
  let ?B = "of_nat b :: rat"
  define e where "e = lead_exp b x + 1 - int p"
  define u where "u = ?B powi e"
  define h where "h = half_even (x / u)"
  have B: "0 < ?B" using b by simp
  then have u: "0 < u" by (simp add: u_def)
  have r: "rnd_sig b p x = of_int h * u" using False by (simp add: rnd_sig_def Let_def h_def u_def e_def)
  have hi: "\<bar>x\<bar> < of_int (int b ^ p) * u" and lo: "of_int (int b ^ (p - 1)) * u \<le> \<bar>x\<bar>"
  proof -
    have "?B powi (lead_exp b x + 1) = of_int (int b ^ p) * u"
      "?B powi lead_exp b x = of_int (int b ^ (p - 1)) * u"
      using B p by (simp_all add: u_def e_def flip: power_int_of_nat power_int_add)
    with lead_exp_bounds[OF b False]
    show "\<bar>x\<bar> < of_int (int b ^ p) * u" "of_int (int b ^ (p - 1)) * u \<le> \<bar>x\<bar>" by simp_all
  qed
  have "\<bar>x / u\<bar> < of_int (int b ^ p)" using hi u by (simp add: divide_less_eq abs_divide)
  then have "x / u \<le> of_int (int b ^ p)" "of_int (- (int b ^ p)) \<le> x / u" by linarith+
  then have "h \<le> int b ^ p" "- (int b ^ p) \<le> h"
    unfolding h_def using half_even_le_int half_even_ge_int by blast+
  then have h: "\<bar>h\<bar> \<le> int b ^ p" by linarith
  have scaled: "\<bar>of_int h * u - x\<bar> \<le> \<bar>of_int k * u - x\<bar>" for k :: int
  proof -
    have "\<bar>of_int h * u - x\<bar> = \<bar>of_int h - x / u\<bar> * u" "\<bar>of_int k * u - x\<bar> = \<bar>of_int k - x / u\<bar> * u"
      using u by (simp_all add: abs_mult_pos' left_diff_distrib abs_mult_pos)
    with half_even_nearest[of "x / u" k] u show ?thesis by (simp add: h_def)
  qed
  have near: "\<bar>of_int h * u - x\<bar> \<le> \<bar>w - x\<bar>" if "digits_rep b p w" for w
  proof -
    from that obtain m f where w: "\<bar>m\<bar> < int b ^ p" "w = of_int m * ?B powi f"
      by (auto simp: digits_rep_def)
    show ?thesis
    proof (cases "e \<le> f")
      case True
      then have "w = of_int (m * int b ^ nat (f - e)) * u"
        using w B by (simp add: u_def flip: power_int_of_nat power_int_add)
      then show ?thesis using scaled by blast
    next
      case f: False
      have "\<bar>w\<bar> \<le> of_int (int b ^ p) * ?B powi f"
        using w B by (simp add: abs_mult) (metis less_imp_le of_int_abs of_int_le_iff of_int_of_nat_eq of_int_power)
      also have "\<dots> = ?B powi (int p + f)" using B by (simp add: power_int_add)
      also have "\<dots> \<le> ?B powi (int (p - 1) + e)" using f p b by (intro powi_of_nat_less) auto
      also have "\<dots> = of_int (int b ^ (p - 1)) * u" using B by (simp add: u_def power_int_add)
      finally have wc: "\<bar>w\<bar> \<le> of_int (int b ^ (p - 1)) * u" .
      define c where "c = (if 0 \<le> x then int b ^ (p - 1) else - (int b ^ (p - 1)))"
      have "\<bar>of_int c * u - x\<bar> \<le> \<bar>w - x\<bar>"
        using wc lo unfolding c_def by (auto simp: abs_if split: if_splits)
      with scaled[of c] show ?thesis by linarith
    qed
  qed
  have "digits_rep b p (of_int h * u)"
    unfolding u_def by (rule digits_rep_shift[OF b h p])
  with near show ?thesis by (simp add: r nearest_def)
qed

end
