(* ===== verification/Decimal.thy ===== *)
theory Decimal
  imports Rounding
begin

text \<open>
  The interface of decimal.js, a package the program depends on, as it is configured in
  \<open>src/shared-kernel/domain/money-kzt.ts\<close>: \<open>Decimal.set({ rounding: ROUND_HALF_EVEN,
  precision: 30 })\<close>. A Decimal is the rational it denotes, a JavaScript number the rational value
  of the double. The operations are a record of functions every money definition takes as its
  first argument; \<open>decimal_ok\<close> states what the documentation promises of them. Comparison,
  \<open>isZero\<close> and \<open>floor\<close> are exact and are written directly on rationals.
\<close>

record decimal_lib =
  d_plus :: "rat \<Rightarrow> rat \<Rightarrow> rat"
  d_minus :: "rat \<Rightarrow> rat \<Rightarrow> rat"
  d_times :: "rat \<Rightarrow> rat \<Rightarrow> rat"
  d_div :: "rat \<Rightarrow> rat \<Rightarrow> rat"
  d_toDP :: "rat \<Rightarrow> nat \<Rightarrow> rat"
  d_of_number :: "rat \<Rightarrow> rat" \<comment> \<open>\<open>new Decimal(n)\<close>: the shortest decimal that reads back as \<open>n\<close>\<close>
  d_to_number :: "rat \<Rightarrow> rat" \<comment> \<open>\<open>toNumber()\<close>: the nearest double\<close>
  d_parse :: "string \<Rightarrow> rat option" \<comment> \<open>\<open>new Decimal(s)\<close>: \<open>None\<close> when it throws or is not finite\<close>

text \<open>Amounts with two decimals of at most fifteen digits, the range of \<open>numeric(12,2)\<close> sums.\<close>

definition cents :: "rat \<Rightarrow> bool" where
  "cents x \<longleftrightarrow> (\<exists>k :: int. x = of_int k / 100 \<and> \<bar>k\<bar> \<le> 10 ^ 15)"

definition decimal_ok :: "decimal_lib \<Rightarrow> bool" where
  "decimal_ok D \<longleftrightarrow>
     (\<forall>x y. nearest 10 30 (x + y) (d_plus D x y)) \<and>
     (\<forall>x y. nearest 10 30 (x - y) (d_minus D x y)) \<and>
     (\<forall>x y. nearest 10 30 (x * y) (d_times D x y)) \<and>
     (\<forall>x y. y \<noteq> 0 \<longrightarrow> nearest 10 30 (x / y) (d_div D x y)) \<and>
     (\<forall>x n. d_toDP D x n = of_int (half_even (x * 10 ^ n)) / 10 ^ n) \<and>
     (\<forall>n :: int. \<bar>n\<bar> \<le> 10 ^ 15 \<longrightarrow>
        d_of_number D (of_int n) = of_int n \<and> d_to_number D (of_int n) = of_int n) \<and>
     (\<forall>x y. x \<le> y \<longrightarrow> d_of_number D x \<le> d_of_number D y) \<and>
     (\<forall>x y. x \<le> y \<longrightarrow> d_to_number D x \<le> d_to_number D y) \<and>
     (\<forall>x. cents x \<longrightarrow> d_of_number D (d_to_number D x) = x)"

subsection \<open>JavaScript number arithmetic\<close>

definition fl :: "rat \<Rightarrow> rat" where
  "fl = rnd_sig 2 53"

lemma fl_nearest: "nearest 2 53 x (fl x)"
  unfolding fl_def by (rule rnd_sig_nearest) simp_all

lemma fl_exact: "digits_rep 2 53 x \<Longrightarrow> fl x = x"
  using fl_nearest nearest_exact by blast

lemma fl_int: "\<bar>n\<bar> < 2 ^ 53 \<Longrightarrow> fl (of_int n) = of_int n"
  by (intro fl_exact digits_rep_int) simp

lemma fl_mono: "x \<le> y \<Longrightarrow> fl x \<le> fl y"
  using nearest_mono[OF fl_nearest fl_nearest, of x y] by (cases "x = y") auto

lemma fl_bounds: "of_int a \<le> x \<Longrightarrow> x \<le> of_int b \<Longrightarrow> \<bar>a\<bar> < 2 ^ 53 \<Longrightarrow> \<bar>b\<bar> < 2 ^ 53 \<Longrightarrow>
    of_int a \<le> fl x \<and> fl x \<le> of_int b"
  using fl_mono[of "of_int a" x] fl_mono[of x "of_int b"] fl_int[of a] fl_int[of b] by simp

subsection \<open>What the laws give\<close>

locale decimal_arith =
  fixes D :: decimal_lib
  assumes ok: "decimal_ok D"
begin

lemma near:
  "nearest 10 30 (x + y) (d_plus D x y)" "nearest 10 30 (x - y) (d_minus D x y)"
  "nearest 10 30 (x * y) (d_times D x y)" "y \<noteq> 0 \<Longrightarrow> nearest 10 30 (x / y) (d_div D x y)"
  using ok by (auto simp: decimal_ok_def)

lemma toDP: "d_toDP D x n = of_int (half_even (x * 10 ^ n)) / 10 ^ n"
  using ok by (simp add: decimal_ok_def)

lemma number_int [simp]:
  "\<bar>n\<bar> \<le> 10 ^ 15 \<Longrightarrow> d_of_number D (of_int n) = of_int n"
  "\<bar>n\<bar> \<le> 10 ^ 15 \<Longrightarrow> d_to_number D (of_int n) = of_int n"
  using ok by (simp_all add: decimal_ok_def)

lemma number_mono:
  "x \<le> y \<Longrightarrow> d_of_number D x \<le> d_of_number D y" "x \<le> y \<Longrightarrow> d_to_number D x \<le> d_to_number D y"
  using ok by (simp_all add: decimal_ok_def)

lemma number_roundtrip [simp]: "cents x \<Longrightarrow> d_of_number D (d_to_number D x) = x"
  using ok by (simp add: decimal_ok_def)

text \<open>An operation is exact when its result has at most thirty digits.\<close>

lemma exact:
  "digits_rep 10 30 (x + y) \<Longrightarrow> d_plus D x y = x + y"
  "digits_rep 10 30 (x - y) \<Longrightarrow> d_minus D x y = x - y"
  "digits_rep 10 30 (x * y) \<Longrightarrow> d_times D x y = x * y"
  "y \<noteq> 0 \<Longrightarrow> digits_rep 10 30 (x / y) \<Longrightarrow> d_div D x y = x / y"
  using near nearest_exact by blast+

text \<open>Quantising is idempotent on what is already on the grid, monotone, and off by half a unit.\<close>

lemma toDP_grid: "d_toDP D (of_int k / 10 ^ n) n = of_int k / 10 ^ n"
  by (simp add: toDP)

lemma toDP_idem [simp]: "d_toDP D (d_toDP D x n) n = d_toDP D x n"
  by (simp add: toDP)

lemma toDP_mono: "x \<le> y \<Longrightarrow> d_toDP D x n \<le> d_toDP D y n"
  by (simp add: toDP divide_right_mono half_even_mono mult_right_mono)

lemma toDP_error: "\<bar>d_toDP D x n - x\<bar> \<le> 1 / (2 * 10 ^ n)"
proof -
  have "d_toDP D x n - x = (of_int (half_even (x * 10 ^ n)) - x * 10 ^ n) / 10 ^ n"
    by (simp add: toDP diff_divide_distrib)
  also have "\<bar>\<dots>\<bar> \<le> (1 / 2) / 10 ^ n"
    unfolding abs_divide by (intro divide_mono) (use half_even_error[of "x * 10 ^ n"] in simp_all)
  finally show ?thesis by simp
qed

end

subsection \<open>A model of the library\<close>

text \<open>
  Rounding every result to thirty significant digits satisfies the laws; numbers are read and
  written exactly.
\<close>

definition decimal30 :: decimal_lib where
  "decimal30 = \<lparr>d_plus = (\<lambda>x y. rnd_sig 10 30 (x + y)), d_minus = (\<lambda>x y. rnd_sig 10 30 (x - y)),
     d_times = (\<lambda>x y. rnd_sig 10 30 (x * y)), d_div = (\<lambda>x y. rnd_sig 10 30 (x / y)),
     d_toDP = (\<lambda>x n. of_int (half_even (x * 10 ^ n)) / 10 ^ n),
     d_of_number = (\<lambda>x. x), d_to_number = (\<lambda>x. x), d_parse = (\<lambda>s. None)\<rparr>"

theorem decimal30_ok: "decimal_ok decimal30"
  by (simp add: decimal_ok_def decimal30_def rnd_sig_nearest)

interpretation d30: decimal_arith decimal30
  by unfold_locales (rule decimal30_ok)

end
