(* ===== verification/Strings.thy ===== *)
theory Strings
  imports Prelude
begin

text \<open>
  Decimal numerals and zero padding: what JavaScript's \<open>String(n)\<close>, \<open>padStart(n, '0')\<close> and
  \<open>parseInt(s, 10)\<close> do on non-negative integers and strings of digits.
\<close>

definition digit_char :: "nat \<Rightarrow> char" where
  "digit_char n = char_of (48 + n)"

definition is_digit :: "char \<Rightarrow> bool" where
  "is_digit c \<longleftrightarrow> 48 \<le> (of_char c :: nat) \<and> (of_char c :: nat) \<le> 57"

definition digit_value :: "char \<Rightarrow> nat" where
  "digit_value c = of_char c - 48"

fun nat_string :: "nat \<Rightarrow> string" where
  "nat_string n = (if n < 10 then [digit_char n] else nat_string (n div 10) @ [digit_char (n mod 10)])"

declare nat_string.simps [simp del]

definition parse_digits :: "string \<Rightarrow> nat" where
  "parse_digits s = foldl (\<lambda>acc c. 10 * acc + digit_value c) 0 s"

definition padStart0 :: "nat \<Rightarrow> string \<Rightarrow> string" where
  "padStart0 n s = replicate (n - length s) CHR ''0'' @ s"

lemma digit_char_0 [simp]: "digit_char 0 = CHR ''0''"
  by code_simp

lemma of_char_digit_char [simp]: "n < 10 \<Longrightarrow> (of_char (digit_char n) :: nat) = 48 + n"
  by (simp add: digit_char_def)

lemma is_digit_digit_char [simp]: "n < 10 \<Longrightarrow> is_digit (digit_char n)"
  by (simp add: is_digit_def)

lemma digit_value_digit_char [simp]: "n < 10 \<Longrightarrow> digit_value (digit_char n) = n"
  by (simp add: digit_value_def)

lemma digit_value_0 [simp]: "digit_value CHR ''0'' = 0"
  by (simp add: digit_value_def)

lemma is_digit_0 [simp]: "is_digit CHR ''0''"
  by (simp add: is_digit_def)

lemma parse_digits_snoc [simp]: "parse_digits (s @ [c]) = 10 * parse_digits s + digit_value c"
  by (simp add: parse_digits_def)

lemma parse_digits_Nil [simp]: "parse_digits [] = 0"
  by (simp add: parse_digits_def)

lemma parse_digits_zeros [simp]: "parse_digits (replicate n CHR ''0'' @ s) = parse_digits s"
  by (induction n) (simp_all add: parse_digits_def)

theorem parse_digits_nat_string [simp]: "parse_digits (nat_string n) = n"
proof (induction n rule: nat_string.induct)
  case (1 n)
  show ?case
  proof (cases "n < 10")
    case True
    then show ?thesis by (subst nat_string.simps) (simp add: parse_digits_def)
  next
    case False
    with 1 show ?thesis by (subst nat_string.simps) simp
  qed
qed

lemma parse_digits_padStart0 [simp]: "parse_digits (padStart0 k (nat_string n)) = n"
  by (simp add: padStart0_def)

lemma digits_nat_string: "list_all is_digit (nat_string n)"
proof (induction n rule: nat_string.induct)
  case (1 n)
  then show ?case by (subst nat_string.simps) simp
qed

lemma digits_padStart0: "list_all is_digit (padStart0 k (nat_string n))"
  using digits_nat_string[of n] by (auto simp: padStart0_def list_all_iff)

lemma length_nat_string: "0 < k \<Longrightarrow> length (nat_string n) \<le> k \<longleftrightarrow> n < 10 ^ k"
proof (induction n arbitrary: k rule: nat_string.induct)
  case (1 n)
  show ?case
  proof (cases "n < 10")
    case True
    moreover have "(10 :: nat) \<le> 10 ^ k" using 1(2) by (cases k) simp_all
    ultimately show ?thesis using 1(2) by (subst nat_string.simps) auto
  next
    case False
    show ?thesis
    proof (cases "k = 1")
      case True
      with False show ?thesis by (subst nat_string.simps) (subst nat_string.simps, simp)
    next
      case k: False
      then obtain j where j: "k = Suc j" "0 < j" using 1(2) by (cases k) auto
      have "length (nat_string (n div 10)) \<le> j \<longleftrightarrow> n div 10 < 10 ^ j"
        using 1(1) False j by blast
      moreover have "n div 10 < 10 ^ j \<longleftrightarrow> n < 10 ^ k"
        unfolding j by (simp add: div_less_iff_less_mult mult.commute)
      ultimately show ?thesis using False j by (subst nat_string.simps) simp
    qed
  qed
qed

lemma length_padStart0: "0 < k \<Longrightarrow> n < 10 ^ k \<Longrightarrow> length (padStart0 k (nat_string n)) = k"
  using length_nat_string[of k n] by (simp add: padStart0_def)

lemma length_nat_string_4: "1000 \<le> n \<Longrightarrow> n < 10000 \<Longrightarrow> length (nat_string n) = 4"
  using length_nat_string[of 4 n] length_nat_string[of 3 n] by simp

text \<open>Digit strings contain none of the separators the formats use.\<close>

lemma digit_not_sep: "list_all is_digit s \<Longrightarrow> CHR ''-'' \<notin> set s \<and> CHR '':'' \<notin> set s \<and> CHR ''T'' \<notin> set s"
  by (induction s) (auto simp: is_digit_def)

end
