(* ===== verification/Money.thy ===== *)
theory Money
  imports Decimal Strings
begin

text \<open>
  \<open>MoneyKzt\<close> of \<open>src/shared-kernel/domain/money-kzt.ts\<close> and its column transformer. An amount is
  the rational its Decimal denotes; the operations propagate decimal.js precision and quantise to
  two places only at the boundaries. What the code throws is a value of \<open>money_error\<close>.
\<close>

type_synonym kzt = rat

datatype money_error =
    KztTypeError string \<comment> \<open>the TypeErrors of \<open>fromKzt\<close>\<close>
  | DivisorIsZero \<comment> \<open>RangeError: MoneyKzt.div: divisor is zero\<close>

text \<open>What may reach \<open>fromKzt\<close>: absent values, JavaScript numbers, strings.\<close>

datatype kzt_input = KztNull | KztNaN | KztInfinity | KztNumber rat | KztString string

definition fromKzt :: "decimal_lib \<Rightarrow> kzt_input \<Rightarrow> money_error + kzt" where
  "fromKzt D n =
     (case n of
        KztNull \<Rightarrow> Inl (KztTypeError ''expected number or string'')
      | KztNaN \<Rightarrow> Inl (KztTypeError ''expected finite number'')
      | KztInfinity \<Rightarrow> Inl (KztTypeError ''expected finite number'')
      | KztNumber q \<Rightarrow> Inr (d_toDP D (d_of_number D q) 2)
      | KztString s \<Rightarrow>
          (case d_parse D s of None \<Rightarrow> Inl (KztTypeError ''cannot parse as decimal'')
           | Some d \<Rightarrow> Inr (d_toDP D d 2)))"

definition fromString :: "decimal_lib \<Rightarrow> string \<Rightarrow> money_error + kzt" where
  "fromString D s = fromKzt D (KztString s)"

text \<open>On a finite number \<open>fromKzt\<close> cannot throw; services that have one call it in this form.\<close>

definition fromKzt_number :: "decimal_lib \<Rightarrow> rat \<Rightarrow> kzt" where
  "fromKzt_number D q = d_toDP D (d_of_number D q) 2"

definition kzt_zero :: kzt where "kzt_zero = 0"

definition kzt_add :: "decimal_lib \<Rightarrow> kzt \<Rightarrow> kzt \<Rightarrow> kzt" where
  "kzt_add D a b = d_plus D a b"

definition kzt_sub :: "decimal_lib \<Rightarrow> kzt \<Rightarrow> kzt \<Rightarrow> kzt" where
  "kzt_sub D a b = d_minus D a b"

text \<open>\<open>mul\<close> and \<open>div\<close> by a JavaScript number; by a Decimal the conversion is the identity.\<close>

definition kzt_mul :: "decimal_lib \<Rightarrow> kzt \<Rightarrow> rat \<Rightarrow> kzt" where
  "kzt_mul D a factor = d_times D a (d_of_number D factor)"

definition kzt_mul_dec :: "decimal_lib \<Rightarrow> kzt \<Rightarrow> rat \<Rightarrow> kzt" where
  "kzt_mul_dec D a factor = d_times D a factor"

definition kzt_div :: "decimal_lib \<Rightarrow> kzt \<Rightarrow> rat \<Rightarrow> money_error + kzt" where
  "kzt_div D a divisor =
     (let d = d_of_number D divisor in if d = 0 then Inl DivisorIsZero else Inr (d_div D a d))"

definition kzt_round :: "decimal_lib \<Rightarrow> kzt \<Rightarrow> kzt" where
  "kzt_round D a = d_toDP D a 2"

definition roundToWholeKzt :: "decimal_lib \<Rightarrow> kzt \<Rightarrow> kzt" where
  "roundToWholeKzt D a = d_toDP D a 0"

definition isNegative :: "kzt \<Rightarrow> bool" where "isNegative a \<longleftrightarrow> a < 0"
definition isPositive :: "kzt \<Rightarrow> bool" where "isPositive a \<longleftrightarrow> a > 0"
definition isZero :: "kzt \<Rightarrow> bool" where "isZero a \<longleftrightarrow> a = 0"

definition kzt_toNumber :: "decimal_lib \<Rightarrow> kzt \<Rightarrow> rat" where
  "kzt_toNumber D a = d_to_number D (d_toDP D a 2)"

text \<open>\<open>toFixed(2)\<close>: sign, whole part and two decimals.\<close>

definition kzt_toString :: "decimal_lib \<Rightarrow> kzt \<Rightarrow> string" where
  "kzt_toString D a =
     (let c = half_even (d_toDP D a 2 * 100); n = nat \<bar>c\<bar>
      in (if c < 0 then ''-'' else '''') @ nat_string (n div 100) @ ''.''
           @ padStart0 2 (nat_string (n mod 100)))"

text \<open>
  The \<open>numeric(N,2)\<close> column transformer: what \<open>to\<close> writes is the two-place value, which \<open>from\<close>
  reads back.
\<close>

definition kzt_column :: "decimal_lib \<Rightarrow> kzt \<Rightarrow> kzt" where
  "kzt_column D a = d_toDP D a 2"

lemma kzt_predicates [money_simps]:
  "isNegative a \<longleftrightarrow> a < 0" "isPositive a \<longleftrightarrow> a > 0" "isZero a \<longleftrightarrow> a = 0" "kzt_zero = 0"
  by (simp_all add: isNegative_def isPositive_def isZero_def kzt_zero_def)

lemma fromKzt_finite: "fromKzt D (KztNumber q) = Inr (fromKzt_number D q)"
  by (simp add: fromKzt_def fromKzt_number_def)

lemma centsI: "x = of_int k / 100 \<Longrightarrow> \<bar>k\<bar> \<le> 10 ^ 15 \<Longrightarrow> cents x"
  unfolding cents_def by blast

lemma cents_rep: "cents x \<Longrightarrow> digits_rep 10 30 x"
proof -
  assume "cents x"
  then obtain k :: int where "x = of_int k / 100" "\<bar>k\<bar> \<le> 10 ^ 15" by (auto simp: cents_def)
  then have "\<bar>k\<bar> < int 10 ^ 30 \<and> x = of_int k * of_nat 10 powi (- 2)"
    by (simp add: power_int_minus)
  then show ?thesis unfolding digits_rep_def by blast
qed

lemma digits_rep_pow10: "digits_rep 10 p x \<Longrightarrow> digits_rep 10 p (x * 10 powi j)"
proof -
  assume "digits_rep 10 p x"
  then obtain m e where "\<bar>m\<bar> < int 10 ^ p" "x = of_int m * of_nat 10 powi e"
    by (auto simp: digits_rep_def)
  then have "\<bar>m\<bar> < int 10 ^ p \<and> x * 10 powi j = of_int m * of_nat 10 powi (e + j)"
    by (simp add: power_int_add)
  then show ?thesis unfolding digits_rep_def by blast
qed

lemma digits_rep_100: "digits_rep 10 p x \<Longrightarrow> digits_rep 10 p (x * 100)"
  using digits_rep_pow10[of p x 2] by simp

lemma digits_rep_frac: "\<bar>m\<bar> < 10 ^ 30 \<Longrightarrow> digits_rep 10 30 (of_int m / 10 ^ n)"
  unfolding digits_rep_def
  by (intro exI[of _ m] exI[of _ "- int n"]) (simp add: power_int_minus divide_inverse)

context decimal_arith
begin

lemma kzt_div_100: "kzt_div D a 100 = Inr (d_div D a 100)"
  using number_int(1)[of 100] by (simp add: kzt_div_def)

lemma cents_toDP: "cents a \<Longrightarrow> d_toDP D a 2 = a"
  unfolding cents_def using toDP_grid[of _ 2] by (auto simp del: power_numeral) (simp add: toDP)

lemma number_of_cents: "cents a \<Longrightarrow> d_of_number D (kzt_toNumber D a) = a"
  by (simp add: kzt_toNumber_def cents_toDP)

lemma fromKzt_toNumber: "cents a \<Longrightarrow> fromKzt_number D (kzt_toNumber D a) = a"
  by (simp add: fromKzt_number_def number_of_cents cents_toDP)

lemma kzt_column_cents: "cents a \<Longrightarrow> kzt_column D a = a"
  by (simp add: kzt_column_def cents_toDP)

lemma kzt_add_cents: "cents a \<Longrightarrow> cents b \<Longrightarrow> kzt_add D a b = a + b"
  and kzt_sub_cents: "cents a \<Longrightarrow> cents b \<Longrightarrow> kzt_sub D a b = a - b"
proof -
  assume "cents a" "cents b"
  then obtain k l :: int where k: "a = of_int k / 100" "\<bar>k\<bar> \<le> 10 ^ 15"
    and l: "b = of_int l / 100" "\<bar>l\<bar> \<le> 10 ^ 15" by (auto simp: cents_def)
  have "\<bar>k + l\<bar> < 10 ^ 30" "\<bar>k - l\<bar> < 10 ^ 30" using k(2) l(2) by simp_all
  from this[THEN digits_rep_frac[of _ 2]]
  have "digits_rep 10 30 (a + b)" "digits_rep 10 30 (a - b)"
    by (simp_all only: k(1) l(1) of_int_add of_int_diff add_divide_distrib diff_divide_distrib) simp_all
  then show "kzt_add D a b = a + b" "kzt_sub D a b = a - b"
    by (simp_all add: kzt_add_def kzt_sub_def exact)
qed

end

end
