(* ===== verification/Status_Machine.thy ===== *)
theory Status_Machine
  imports Prelude
begin

text \<open>
  What the aggregates of the program have in common: a status that moves along the edges of a
  diagram, and an identity (tenant, keys, amounts) that no transition touches. The locale is
  interpreted on the step relation of every aggregate.
\<close>

locale status_machine =
  fixes step :: "'s \<Rightarrow> 's \<Rightarrow> bool" and status :: "'s \<Rightarrow> 'st" and edge :: "'st \<Rightarrow> 'st \<Rightarrow> bool"
    and ident :: "'s \<Rightarrow> 'i"
  assumes step_edge: "step s t \<Longrightarrow> edge (status s) (status t)"
    and step_ident: "step s t \<Longrightarrow> ident t = ident s"
begin

lemma steps_ident: "step\<^sup>*\<^sup>* s t \<Longrightarrow> ident t = ident s"
  by (induction rule: rtranclp_induct) (auto dest: step_ident)

lemma steps_path: "step\<^sup>*\<^sup>* s t \<Longrightarrow> edge\<^sup>*\<^sup>* (status s) (status t)"
proof (induction rule: rtranclp_induct)
  case (step t u)
  from step(3) step_edge[OF step(2)] show ?case by (rule rtranclp.rtrancl_into_rtrancl)
qed simp

text \<open>A set of statuses no edge leaves is never left.\<close>

lemma steps_closed:
  assumes closed: "\<And>a b. a \<in> A \<Longrightarrow> edge a b \<Longrightarrow> b \<in> A"
    and "step\<^sup>*\<^sup>* s t" and "status s \<in> A"
  shows "status t \<in> A"
  using assms(2,3) by (induction rule: rtranclp_induct) (auto intro: closed dest: step_edge)

lemma terminal_stays:
  assumes "\<And>b. \<not> edge (status s) b" and "step\<^sup>*\<^sup>* s t"
  shows "t = s"
  using assms(2,1) by (induction rule: converse_rtranclp_induct) (auto dest: step_edge)

text \<open>A function of the state that every step keeps in the statuses of \<open>A\<close> is kept from then on.\<close>

lemma steps_frozen:
  assumes closed: "\<And>a b. a \<in> A \<Longrightarrow> edge a b \<Longrightarrow> b \<in> A"
    and frozen: "\<And>s t. step s t \<Longrightarrow> status s \<in> A \<Longrightarrow> f t = f s"
    and "step\<^sup>*\<^sup>* s t" and "status s \<in> A"
  shows "f t = f s"
  using assms(3,4)
proof (induction rule: rtranclp_induct)
  case (step t u)
  have "status t \<in> A" by (rule steps_closed[OF closed step(1,4)])
  with frozen step show ?case by simp
qed simp

end

end
