(* ===== verification/Invoice.thy ===== *)
theory Invoice
  imports Money Status_Machine
begin

text \<open>
  The Invoice aggregate of \<open>src/modules/billing/domain/entities/invoice.entity.ts\<close>: its state, the
  transitions (a thrown error is the left value) and the pricing formula.
\<close>

datatype InvoiceType = Monthly | Prepayment3m | Prepayment6m | Prepayment12m | Prepayment24m
  | AdditionalService | LatePickupFee | OtherInvoice

datatype InvoiceStatus = InvPending | InvPartial | InvPaid | InvOverdue | InvRefunded | InvCancelled

record InvoiceState =
  inv_id :: uuid
  inv_kindergartenId :: uuid
  inv_childId :: uuid
  inv_paymentAccountId :: uuid
  inv_tariffPlanId :: "uuid option"
  inv_invoiceType :: InvoiceType
  inv_periodStart :: instant
  inv_periodEnd :: instant
  inv_amountDue :: kzt
  inv_discountPct :: "rat option"
  inv_discountReason :: "string option"
  inv_amountAfterDiscount :: kzt
  inv_status :: InvoiceStatus
  inv_dueDate :: instant
  inv_description :: "string option"
  inv_proratedForDays :: "int option"
  inv_createdAt :: instant
  inv_updatedAt :: instant

datatype invoice_error =
    InvoiceStatusInvalid InvoiceStatus string
  | InvoiceAlreadyPaid uuid

definition invoice_isTerminal :: "InvoiceState \<Rightarrow> bool" where
  "invoice_isTerminal s \<longleftrightarrow> inv_status s = InvCancelled \<or> inv_status s = InvRefunded"

definition invoice_isPaid :: "InvoiceState \<Rightarrow> bool" where
  "invoice_isPaid s \<longleftrightarrow> inv_status s = InvPaid"

definition invoice_applyPayment :: "kzt \<Rightarrow> instant \<Rightarrow> InvoiceState \<Rightarrow> invoice_error + InvoiceState" where
  "invoice_applyPayment currentPaidSum now s =
     (if invoice_isTerminal s then Inl (InvoiceStatusInvalid (inv_status s) ''applyPayment'')
      else if isNegative currentPaidSum then Inl (InvoiceStatusInvalid (inv_status s) ''applyPayment'')
      else
        (let s1 = (if currentPaidSum \<ge> inv_amountAfterDiscount s then s\<lparr>inv_status := InvPaid\<rparr>
                   else if isPositive currentPaidSum then s\<lparr>inv_status := InvPartial\<rparr>
                   else s)
         in Inr (s1\<lparr>inv_updatedAt := now\<rparr>)))"

definition invoice_markOverdue :: "instant \<Rightarrow> InvoiceState \<Rightarrow> invoice_error + InvoiceState" where
  "invoice_markOverdue now s =
     (if inv_status s \<noteq> InvPending then Inl (InvoiceStatusInvalid (inv_status s) ''markOverdue'')
      else if now \<le> inv_dueDate s then Inl (InvoiceStatusInvalid (inv_status s) ''markOverdue'')
      else Inr (s\<lparr>inv_status := InvOverdue, inv_updatedAt := now\<rparr>))"

definition invoice_cancel :: "instant \<Rightarrow> InvoiceState \<Rightarrow> invoice_error + InvoiceState" where
  "invoice_cancel now s =
     (if inv_status s = InvPaid then Inl (InvoiceAlreadyPaid (inv_id s))
      else if inv_status s \<noteq> InvPending \<and> inv_status s \<noteq> InvPartial \<and> inv_status s \<noteq> InvOverdue
      then Inl (InvoiceStatusInvalid (inv_status s) ''cancel'')
      else Inr (s\<lparr>inv_status := InvCancelled, inv_updatedAt := now\<rparr>))"

definition invoice_applyRefund :: "kzt \<Rightarrow> instant \<Rightarrow> InvoiceState \<Rightarrow> invoice_error + InvoiceState" where
  "invoice_applyRefund refundedAmount now s =
     (if inv_status s \<noteq> InvPaid \<and> inv_status s \<noteq> InvPartial
      then Inl (InvoiceStatusInvalid (inv_status s) ''applyRefund'')
      else if refundedAmount < inv_amountAfterDiscount s
      then Inl (InvoiceStatusInvalid (inv_status s) ''applyRefund'')
      else Inr (s\<lparr>inv_status := InvRefunded, inv_updatedAt := now\<rparr>))"

text \<open>
  The pricing formula: a positive absolute discount wins over the percentage and is clamped at
  zero. \<open>100 - discountPct\<close> is a subtraction of JavaScript numbers.
\<close>

definition computeAmountAfterDiscount ::
  "decimal_lib \<Rightarrow> kzt \<Rightarrow> rat option \<Rightarrow> kzt option \<Rightarrow> money_error + kzt" where
  "computeAmountAfterDiscount D amountDue discountPct absoluteDiscountKzt =
     (if absoluteDiscountKzt \<noteq> None \<and> isPositive (the absoluteDiscountKzt) \<and> isPositive amountDue
      then (let after = kzt_sub D amountDue (the absoluteDiscountKzt)
            in Inr (if isPositive after then after else kzt_zero))
      else if discountPct = None \<or> discountPct = Some 0 then Inr amountDue
      else kzt_div D (kzt_mul D amountDue (fl (100 - the discountPct))) 100)"

subsection \<open>The state machine\<close>

inductive invoice_step :: "InvoiceState \<Rightarrow> InvoiceState \<Rightarrow> bool" where
  apply_payment: "invoice_applyPayment paid now s = Inr t \<Longrightarrow> invoice_step s t"
| mark_overdue: "invoice_markOverdue now s = Inr t \<Longrightarrow> invoice_step s t"
| cancel: "invoice_cancel now s = Inr t \<Longrightarrow> invoice_step s t"
| apply_refund: "invoice_applyRefund amount now s = Inr t \<Longrightarrow> invoice_step s t"

inductive_cases invoice_stepE: "invoice_step s t"

text \<open>The edges of the diagram the code realises.\<close>

fun invoice_edge :: "InvoiceStatus \<Rightarrow> InvoiceStatus \<Rightarrow> bool" where
  "invoice_edge InvPending b \<longleftrightarrow> b \<noteq> InvRefunded"
| "invoice_edge InvOverdue b \<longleftrightarrow> b = InvOverdue \<or> b = InvPartial \<or> b = InvPaid \<or> b = InvCancelled"
| "invoice_edge InvPartial b \<longleftrightarrow> b = InvPartial \<or> b = InvPaid \<or> b = InvCancelled \<or> b = InvRefunded"
| "invoice_edge InvPaid b \<longleftrightarrow> b = InvPaid \<or> b = InvPartial \<or> b = InvRefunded"
| "invoice_edge InvRefunded b \<longleftrightarrow> False"
| "invoice_edge InvCancelled b \<longleftrightarrow> False"

text \<open>Everything but the status and the modification time.\<close>

definition invoice_ident :: "InvoiceState \<Rightarrow> InvoiceState" where
  "invoice_ident s = s\<lparr>inv_status := InvPending, inv_updatedAt := 0\<rparr>"

lemmas invoice_ops = invoice_applyPayment_def invoice_markOverdue_def invoice_cancel_def
  invoice_applyRefund_def invoice_isTerminal_def

lemma invoice_step_edge: "invoice_step s t \<Longrightarrow> invoice_edge (inv_status s) (inv_status t)"
  by (elim invoice_stepE; cases "inv_status s")
     (auto simp: invoice_ops Let_def split: if_splits)

lemma invoice_step_ident: "invoice_step s t \<Longrightarrow> invoice_ident t = invoice_ident s"
  by (elim invoice_stepE)
     (auto simp: invoice_ops invoice_ident_def Let_def split: if_splits)

interpretation invoice: status_machine invoice_step inv_status invoice_edge invoice_ident
  by unfold_locales (rule invoice_step_edge, assumption, rule invoice_step_ident, assumption)

text \<open>Cancelled and refunded invoices never change again.\<close>

theorem invoice_terminal:
  assumes "invoice_isTerminal s" and "invoice_step\<^sup>*\<^sup>* s t"
  shows "t = s"
proof (rule invoice.terminal_stays[OF _ assms(2)])
  show "\<not> invoice_edge (inv_status s) b" for b
    using assms(1) by (auto simp: invoice_isTerminal_def)
qed

text \<open>No transition changes what was billed, to whom, or by whom.\<close>

theorem invoice_amounts_fixed:
  assumes "invoice_step\<^sup>*\<^sup>* s t"
  shows "inv_amountDue t = inv_amountDue s \<and> inv_amountAfterDiscount t = inv_amountAfterDiscount s
    \<and> inv_kindergartenId t = inv_kindergartenId s \<and> inv_childId t = inv_childId s
    \<and> inv_id t = inv_id s \<and> inv_periodStart t = inv_periodStart s"
  using invoice.steps_ident[OF assms] by (cases s; cases t) (simp add: invoice_ident_def)

text \<open>
  \<open>applyPayment\<close>: when it accepts the paid sum, the status it leaves is determined by comparing the
  sum with the amount to pay.
\<close>

theorem invoice_applyPayment_status:
  assumes "inv_status s \<in> {InvPending, InvPartial, InvPaid, InvOverdue}" and "0 \<le> paid"
  shows "\<exists>t. invoice_applyPayment paid now s = Inr t \<and> inv_updatedAt t = now
    \<and> inv_status t = (if inv_amountAfterDiscount s \<le> paid then InvPaid
                      else if 0 < paid then InvPartial else inv_status s)"
  using assms by (auto simp: invoice_ops money_simps Let_def)

text \<open>The diagram in the entity's documentation has no edge from paid back to partial; the code has.\<close>

theorem invoice_paid_to_partial:
  assumes "inv_status s = InvPaid" "0 < paid" "paid < inv_amountAfterDiscount s"
  shows "\<exists>t. invoice_step s t \<and> inv_status t = InvPartial"
proof -
  have "invoice_applyPayment paid now s = Inr (s\<lparr>inv_status := InvPartial, inv_updatedAt := now\<rparr>)" for now
    using assms by (simp add: invoice_ops money_simps Let_def)
  then show ?thesis using invoice_step.apply_payment by fastforce
qed

subsection \<open>The pricing formula\<close>

context decimal_arith
begin

lemma percent_factor_bounds:
  assumes "0 \<le> p" "p \<le> 100"
  shows "0 \<le> d_of_number D (fl (100 - p))" "d_of_number D (fl (100 - p)) \<le> 100"
proof -
  have "of_int 0 \<le> fl (100 - p) \<and> fl (100 - p) \<le> of_int 100"
    using assms by (intro fl_bounds) simp_all
  then show "0 \<le> d_of_number D (fl (100 - p))" "d_of_number D (fl (100 - p)) \<le> 100"
    using number_mono(1)[of "of_int 0" "fl (100 - p)"] number_mono(1)[of "fl (100 - p)" "of_int 100"]
      number_int(1)[of 0] number_int(1)[of 100] by simp_all
qed

lemma computeAmountAfterDiscount_bounds:
  assumes due: "0 \<le> amountDue" "digits_rep 10 30 amountDue"
    and pct: "\<And>p. discountPct = Some p \<Longrightarrow> 0 \<le> p \<and> p \<le> 100"
  shows "\<exists>r. computeAmountAfterDiscount D amountDue discountPct absKzt = Inr r \<and> 0 \<le> r \<and> r \<le> amountDue"
proof (cases "absKzt \<noteq> None \<and> 0 < the absKzt \<and> 0 < amountDue")
  case True
  then have "d_minus D amountDue (the absKzt) \<le> amountDue"
    by (intro nearest_le[OF near(2) due(2)]) simp
  with True due show ?thesis
    by (auto simp: computeAmountAfterDiscount_def money_simps Let_def kzt_sub_def)
next
  case abs: False
  show ?thesis
  proof (cases "discountPct = None \<or> discountPct = Some 0")
    case True
    with abs due show ?thesis by (auto simp: computeAmountAfterDiscount_def money_simps)
  next
    case False
    then obtain p where p: "discountPct = Some p" by auto
    define f where "f = d_of_number D (fl (100 - p))"
    have f: "0 \<le> f" "f \<le> 100" using percent_factor_bounds pct[OF p] by (auto simp: f_def)
    have "amountDue * f \<le> amountDue * 100" "0 \<le> amountDue * f"
      using f due by (simp_all add: mult_left_mono)
    then have m: "0 \<le> d_times D amountDue f" "d_times D amountDue f \<le> amountDue * 100"
      using nearest_le[OF near(3) digits_rep_100[OF due(2)]] nearest_ge[OF near(3) digits_rep_0] by simp_all
    then have "0 \<le> d_times D amountDue f / 100" "d_times D amountDue f / 100 \<le> amountDue" by simp_all
    then have "0 \<le> d_div D (d_times D amountDue f) 100" "d_div D (d_times D amountDue f) 100 \<le> amountDue"
      using nearest_le[OF near(4) due(2)] nearest_ge[OF near(4) digits_rep_0] by simp_all
    with p abs False show ?thesis
      by (auto simp: computeAmountAfterDiscount_def money_simps kzt_mul_def kzt_div_100 f_def)
  qed
qed

text \<open>For whole percentages of a two-decimal amount nothing is rounded at all.\<close>

lemma computeAmountAfterDiscount_exact:
  assumes due: "cents amountDue" and p: "0 \<le> p" "p \<le> 100"
  shows "computeAmountAfterDiscount D amountDue (Some (of_int p)) None
    = Inr (amountDue * (100 - of_int p) / 100)"
proof (cases "p = 0")
  case True
  then show ?thesis by (simp add: computeAmountAfterDiscount_def)
next
  case False
  obtain k :: int where k: "amountDue = of_int k / 100" "\<bar>k\<bar> \<le> 10 ^ 15" using due by (auto simp: cents_def)
  have "fl (100 - of_int p) = of_int (100 - p)" using p fl_int[of "100 - p"] by simp
  then have f: "d_of_number D (fl (100 - of_int p)) = of_int (100 - p)"
    using p number_int(1)[of "100 - p"] by simp
  have "\<bar>k * (100 - p)\<bar> \<le> 10 ^ 15 * 100" using k(2) p unfolding abs_mult by (intro mult_mono) simp_all
  then have small: "\<bar>k * (100 - p)\<bar> < 10 ^ 30" by simp
  have t: "d_times D amountDue (of_int (100 - p)) = amountDue * of_int (100 - p)"
    using digits_rep_frac[OF small, of 2] by (intro exact) (simp add: k(1))
  have "d_div D (amountDue * of_int (100 - p)) 100 = amountDue * of_int (100 - p) / 100"
    using digits_rep_frac[OF small, of 4] by (intro exact) (simp_all add: k(1))
  with False show ?thesis
    by (simp add: computeAmountAfterDiscount_def kzt_mul_def kzt_div_100 f[simplified] t[simplified])
qed

end

end
