(* ===== verification/Json.thy ===== *)
theory Json
  imports Prelude
begin

text \<open>
  JSON values as the program holds them in \<open>jsonb\<close> columns: an object is the list of its own
  enumerable properties in insertion order.
\<close>

datatype json = JNull | JBool bool | JNum rat | JStr string | JArr "json list"
  | JObj "(string \<times> json) list"

type_synonym json_object = "(string \<times> json) list"

text \<open>\<open>{ ...o, [k]: v }\<close>: the property is overwritten in place or appended.\<close>

fun obj_set :: "string \<Rightarrow> json \<Rightarrow> json_object \<Rightarrow> json_object" where
  "obj_set k v [] = [(k, v)]"
| "obj_set k v ((k', v') # o') = (if k' = k then (k, v) # o' else (k', v') # obj_set k v o')"

lemma map_of_obj_set: "map_of (obj_set k v obj) = (map_of obj)(k \<mapsto> v)"
  by (induction obj) auto

lemma keys_obj_set: "set (map fst (obj_set k v obj)) = insert k (set (map fst obj))"
  using dom_map_of_conv_image_fst[of "obj_set k v obj"] dom_map_of_conv_image_fst[of obj]
  by (simp add: map_of_obj_set)

lemma distinct_obj_set: "distinct (map fst obj) \<Longrightarrow> distinct (map fst (obj_set k v obj))"
proof (induction obj)
  case (Cons p obj)
  then show ?case using keys_obj_set[of k v obj] by (cases p) auto
qed simp

end
