(* ===== verification/Payment.thy ===== *)
theory Payment
  imports Money Json Status_Machine
begin

text \<open>
  The Payment aggregate of \<open>src/modules/billing/domain/entities/payment.entity.ts\<close>. The optional
  fields of the interface carry the defaults its getters supply.
\<close>

datatype PaymentProvider = MockProvider | HalykEpay | KaspiPay | TipTopPay | FreedomPay | BccProvider
  | CashProvider

datatype PaymentStatus = PayInitiated | PayProcessing | PayCompleted | PayFailed | PayRefunded

record PaymentState =
  pay_id :: uuid
  pay_kindergartenId :: uuid
  pay_invoiceId :: uuid
  pay_childId :: uuid
  pay_payerUserId :: "uuid option"
  pay_amount :: kzt
  pay_provider :: PaymentProvider
  pay_providerTxnId :: "string option"
  pay_idempotencyKey :: string
  pay_status :: PaymentStatus
  pay_providerPayload :: "json_object option"
  pay_paidAt :: "instant option"
  pay_refundId :: "uuid option"
  pay_reconciliationAttempts :: nat
  pay_lastReconciledAt :: "instant option"
  pay_nextReconciliationAt :: "instant option"
  pay_manualReviewRequiredAt :: "instant option"
  pay_refundRequired :: bool
  pay_refundReason :: "string option"
  pay_duplicateOfPaymentId :: "uuid option"
  pay_createdAt :: instant
  pay_updatedAt :: instant

datatype payment_entity_error =
    EmptyIdempotencyKey
  | PaymentStatusInvalid PaymentStatus string

definition payment_fromState :: "PaymentState \<Rightarrow> payment_entity_error + PaymentState" where
  "payment_fromState s = (if pay_idempotencyKey s = '''' then Inl EmptyIdempotencyKey else Inr s)"

definition payment_isCompleted :: "PaymentState \<Rightarrow> bool" where
  "payment_isCompleted s \<longleftrightarrow> pay_status s = PayCompleted"

definition payment_isTerminal :: "PaymentState \<Rightarrow> bool" where
  "payment_isTerminal s \<longleftrightarrow> pay_status s = PayFailed \<or> pay_status s = PayRefunded"

definition payment_markProcessing :: "instant \<Rightarrow> PaymentState \<Rightarrow> payment_entity_error + PaymentState" where
  "payment_markProcessing now s =
     (if pay_status s \<noteq> PayInitiated then Inl (PaymentStatusInvalid (pay_status s) ''markProcessing'')
      else Inr (s\<lparr>pay_status := PayProcessing, pay_updatedAt := now\<rparr>))"

definition payment_markCompleted ::
  "string \<Rightarrow> instant \<Rightarrow> PaymentState \<Rightarrow> payment_entity_error + PaymentState" where
  "payment_markCompleted providerTxnId now s =
     (if pay_status s \<noteq> PayInitiated \<and> pay_status s \<noteq> PayProcessing
      then Inl (PaymentStatusInvalid (pay_status s) ''markCompleted'')
      else Inr (s\<lparr>pay_providerTxnId := Some providerTxnId, pay_paidAt := Some now,
                  pay_status := PayCompleted, pay_updatedAt := now\<rparr>))"

definition payment_markFailed ::
  "string \<Rightarrow> instant \<Rightarrow> PaymentState \<Rightarrow> payment_entity_error + PaymentState" where
  "payment_markFailed reason now s =
     (if pay_status s \<noteq> PayInitiated \<and> pay_status s \<noteq> PayProcessing
      then Inl (PaymentStatusInvalid (pay_status s) ''markFailed'')
      else Inr (s\<lparr>pay_status := PayFailed,
                  pay_providerPayload := Some (obj_set ''failure_reason'' (JStr reason)
                    (case pay_providerPayload s of None \<Rightarrow> [] | Some p \<Rightarrow> p)),
                  pay_updatedAt := now\<rparr>))"

definition payment_markRefunded ::
  "uuid \<Rightarrow> instant \<Rightarrow> PaymentState \<Rightarrow> payment_entity_error + PaymentState" where
  "payment_markRefunded refundId now s =
     (if pay_status s \<noteq> PayCompleted
      then Inl (PaymentStatusInvalid (pay_status s) ''markRefunded'')
      else Inr (s\<lparr>pay_refundId := Some refundId, pay_status := PayRefunded, pay_updatedAt := now\<rparr>))"

subsection \<open>The state machine\<close>

inductive payment_step :: "PaymentState \<Rightarrow> PaymentState \<Rightarrow> bool" where
  processing: "payment_markProcessing now s = Inr t \<Longrightarrow> payment_step s t"
| completed: "payment_markCompleted txn now s = Inr t \<Longrightarrow> payment_step s t"
| failed: "payment_markFailed reason now s = Inr t \<Longrightarrow> payment_step s t"
| refunded: "payment_markRefunded refundId now s = Inr t \<Longrightarrow> payment_step s t"

inductive_cases payment_stepE: "payment_step s t"

fun payment_edge :: "PaymentStatus \<Rightarrow> PaymentStatus \<Rightarrow> bool" where
  "payment_edge PayInitiated b \<longleftrightarrow> b = PayProcessing \<or> b = PayCompleted \<or> b = PayFailed"
| "payment_edge PayProcessing b \<longleftrightarrow> b = PayCompleted \<or> b = PayFailed"
| "payment_edge PayCompleted b \<longleftrightarrow> b = PayRefunded"
| "payment_edge PayFailed b \<longleftrightarrow> False"
| "payment_edge PayRefunded b \<longleftrightarrow> False"

definition payment_ident :: "PaymentState \<Rightarrow> uuid \<times> uuid \<times> uuid \<times> uuid \<times> kzt \<times> string" where
  "payment_ident s = (pay_id s, pay_kindergartenId s, pay_invoiceId s, pay_childId s, pay_amount s,
     pay_idempotencyKey s)"

lemmas payment_ops = payment_markProcessing_def payment_markCompleted_def payment_markFailed_def
  payment_markRefunded_def

lemma payment_step_edge: "payment_step s t \<Longrightarrow> payment_edge (pay_status s) (pay_status t)"
  by (elim payment_stepE; cases "pay_status s") (auto simp: payment_ops split: if_splits)

lemma payment_step_ident: "payment_step s t \<Longrightarrow> payment_ident t = payment_ident s"
  by (elim payment_stepE) (auto simp: payment_ops payment_ident_def split: if_splits)

interpretation payment: status_machine payment_step pay_status payment_edge payment_ident
  by unfold_locales (rule payment_step_edge, assumption, rule payment_step_ident, assumption)

text \<open>
  Money received stays received: once completed a payment only ever becomes refunded, and the
  settlement time and provider transaction it was completed with are never overwritten.
\<close>

theorem payment_completed_stable:
  assumes "payment_isCompleted s" and "payment_step\<^sup>*\<^sup>* s t"
  shows "(payment_isCompleted t \<or> pay_status t = PayRefunded)
    \<and> pay_paidAt t = pay_paidAt s \<and> pay_providerTxnId t = pay_providerTxnId s
    \<and> payment_ident t = payment_ident s"
proof -
  let ?A = "{PayCompleted, PayRefunded}"
  have closed: "a \<in> ?A \<Longrightarrow> payment_edge a b \<Longrightarrow> b \<in> ?A" for a b by auto
  have "pay_status s \<in> ?A" using assms(1) by (simp add: payment_isCompleted_def)
  note in_A = this
  have "pay_status t \<in> ?A" by (rule payment.steps_closed[OF closed assms(2) in_A])
  moreover have "(pay_paidAt t, pay_providerTxnId t) = (pay_paidAt s, pay_providerTxnId s)"
  proof (rule payment.steps_frozen[OF closed _ assms(2) in_A,
        where f = "\<lambda>s. (pay_paidAt s, pay_providerTxnId s)"])
    show "(pay_paidAt v, pay_providerTxnId v) = (pay_paidAt u, pay_providerTxnId u)"
      if "payment_step u v" "pay_status u \<in> ?A" for u v
      using that by (elim payment_stepE) (auto simp: payment_ops split: if_splits)
  qed
  ultimately show ?thesis
    using payment.steps_ident[OF assms(2)] by (auto simp: payment_isCompleted_def)
qed

theorem payment_terminal:
  assumes "payment_isTerminal s" and "payment_step\<^sup>*\<^sup>* s t"
  shows "t = s"
proof (rule payment.terminal_stays[OF _ assms(2)])
  show "\<not> payment_edge (pay_status s) b" for b
    using assms(1) by (auto simp: payment_isTerminal_def)
qed

text \<open>A payment without settlement time was never completed: the converse of \<open>markCompleted\<close>.\<close>

definition payment_wf :: "PaymentState \<Rightarrow> bool" where
  "payment_wf s \<longleftrightarrow>
     (pay_status s \<in> {PayCompleted, PayRefunded} \<longrightarrow> pay_paidAt s \<noteq> None \<and> pay_providerTxnId s \<noteq> None) \<and>
     (pay_status s = PayRefunded \<longleftrightarrow> pay_refundId s \<noteq> None)"

lemma payment_wf_step: "payment_step s t \<Longrightarrow> payment_wf s \<Longrightarrow> payment_wf t"
  unfolding payment_wf_def
  by (cases "pay_status s"; elim payment_stepE) (simp_all add: payment_ops split: if_splits, safe, simp_all)

theorem payment_wf_steps:
  assumes "payment_step\<^sup>*\<^sup>* s t" and "payment_wf s"
  shows "payment_wf t"
  using assms by (induction rule: rtranclp_induct) (blast intro: payment_wf_step)+

end
