(* ===== verification/Refund.thy ===== *)
theory Refund
  imports Money Status_Machine
begin

text \<open>The Refund aggregate of \<open>src/modules/billing/domain/entities/refund.entity.ts\<close>.\<close>

datatype RefundStatus = RefPending | RefApproved | RefProcessed | RefRejected

record RefundState =
  ref_id :: uuid
  ref_kindergartenId :: uuid
  ref_paymentId :: uuid
  ref_invoiceId :: "uuid option"
  ref_amount :: kzt
  ref_reason :: string
  ref_status :: RefundStatus
  ref_processedBy :: "uuid option"
  ref_providerRef :: "string option"
  ref_createdAt :: instant
  ref_updatedAt :: instant

datatype refund_entity_error = RefundAlreadyProcessed RefundStatus string

definition refund_approve :: "uuid \<Rightarrow> instant \<Rightarrow> RefundState \<Rightarrow> refund_entity_error + RefundState" where
  "refund_approve processedBy now s =
     (if ref_status s \<noteq> RefPending then Inl (RefundAlreadyProcessed (ref_status s) ''approve'')
      else Inr (s\<lparr>ref_status := RefApproved, ref_processedBy := Some processedBy,
                  ref_updatedAt := now\<rparr>))"

definition refund_reject :: "string \<Rightarrow> instant \<Rightarrow> RefundState \<Rightarrow> refund_entity_error + RefundState" where
  "refund_reject reason now s =
     (if ref_status s \<noteq> RefPending then Inl (RefundAlreadyProcessed (ref_status s) ''reject'')
      else Inr (s\<lparr>ref_status := RefRejected, ref_reason := reason, ref_updatedAt := now\<rparr>))"

definition refund_process :: "string option \<Rightarrow> instant \<Rightarrow> RefundState \<Rightarrow> refund_entity_error + RefundState" where
  "refund_process providerRef now s =
     (if ref_status s \<noteq> RefApproved then Inl (RefundAlreadyProcessed (ref_status s) ''process'')
      else Inr (s\<lparr>ref_status := RefProcessed, ref_providerRef := providerRef, ref_updatedAt := now\<rparr>))"

inductive refund_step :: "RefundState \<Rightarrow> RefundState \<Rightarrow> bool" where
  approve: "refund_approve who now s = Inr t \<Longrightarrow> refund_step s t"
| reject: "refund_reject reason now s = Inr t \<Longrightarrow> refund_step s t"
| process: "refund_process ref now s = Inr t \<Longrightarrow> refund_step s t"

inductive_cases refund_stepE: "refund_step s t"

fun refund_edge :: "RefundStatus \<Rightarrow> RefundStatus \<Rightarrow> bool" where
  "refund_edge RefPending b \<longleftrightarrow> b = RefApproved \<or> b = RefRejected"
| "refund_edge RefApproved b \<longleftrightarrow> b = RefProcessed"
| "refund_edge RefProcessed b \<longleftrightarrow> False"
| "refund_edge RefRejected b \<longleftrightarrow> False"

definition refund_ident :: "RefundState \<Rightarrow> uuid \<times> uuid \<times> uuid \<times> kzt" where
  "refund_ident s = (ref_id s, ref_kindergartenId s, ref_paymentId s, ref_amount s)"

lemmas refund_ops = refund_approve_def refund_reject_def refund_process_def

lemma refund_step_edge: "refund_step s t \<Longrightarrow> refund_edge (ref_status s) (ref_status t)"
  by (elim refund_stepE; cases "ref_status s") (auto simp: refund_ops split: if_splits)

lemma refund_step_ident: "refund_step s t \<Longrightarrow> refund_ident t = refund_ident s"
  by (elim refund_stepE) (auto simp: refund_ops refund_ident_def split: if_splits)

interpretation refund: status_machine refund_step ref_status refund_edge refund_ident
  by unfold_locales (rule refund_step_edge, assumption, rule refund_step_ident, assumption)

text \<open>
  Two pairs of eyes: a refund that was pending and is now processed was approved by somebody in
  between, and that person is on record.
\<close>

theorem refund_processed_was_approved:
  assumes "refund_step\<^sup>*\<^sup>* s t" and "ref_status s = RefPending" and "ref_status t = RefProcessed"
  shows "\<exists>a b who. refund_step\<^sup>*\<^sup>* s a \<and> refund_step a b \<and> b = t \<and> ref_status a = RefApproved
    \<and> ref_processedBy a = Some who \<and> ref_processedBy t = Some who"
proof -
  have inv: "(ref_status u \<in> {RefApproved, RefProcessed} \<longrightarrow> (\<exists>who. ref_processedBy u = Some who))"
    if "refund_step\<^sup>*\<^sup>* s u" for u
    using that
  proof (induction rule: rtranclp_induct)
    case base
    with assms(2) show ?case by simp
  next
    case (step u v)
    then show ?case by (elim refund_stepE) (auto simp: refund_ops split: if_splits)
  qed
  from assms obtain a where a: "refund_step\<^sup>*\<^sup>* s a" "refund_step a t"
    by (metis RefundStatus.distinct(3) rtranclp.cases)
  then have "ref_status a = RefApproved \<and> ref_processedBy t = ref_processedBy a"
    using assms(3) by (elim refund_stepE) (auto simp: refund_ops split: if_splits)
  with inv[OF a(1)] a show ?thesis by auto
qed

end
