(* ===== verification/Calendar.thy ===== *)
theory Calendar
  imports Strings
begin

text \<open>
  The calendar the billing code computes with: JavaScript's UTC getters and \<open>Date.UTC\<close> over
  proleptic Gregorian dates, the Asia/Almaty helpers of
  \<open>src/shared-kernel/domain/value-objects/day-of-week.vo.ts\<close> (a time zone is the function giving
  its UTC offset in milliseconds at an instant, which is what Intl derives from the zone database),
  and the month arithmetic helpers of \<open>src/modules/billing/invoice.service.ts\<close>.
\<close>

subsection \<open>Civil dates and day numbers\<close>

definition ms_per_day :: int where
  "ms_per_day = 86400000"

text \<open>
  Day number of a civil date, counted from 1970-01-01 (months 1 to 12). Years are taken to start
  in March, so that the leap day is the last day of the year.
\<close>

definition days_from_civil :: "int \<Rightarrow> int \<Rightarrow> int \<Rightarrow> int" where
  "days_from_civil y m d =
     (let y' = (if m \<le> 2 then y - 1 else y);
          mp = (if m > 2 then m - 3 else m + 9)
      in 365 * y' + y' div 4 - y' div 100 + y' div 400 + (153 * mp + 2) div 5 + d - 1 - 719468)"

definition civil_of_parts :: "int \<Rightarrow> int \<Rightarrow> int \<Rightarrow> int \<Rightarrow> int \<Rightarrow> int \<times> int \<times> int" where
  "civil_of_parts n400 n100 n4 n1 doy =
     (let mp = (5 * doy + 2) div 153;
          d = doy - (153 * mp + 2) div 5 + 1;
          m = (if mp < 10 then mp + 3 else mp - 9);
          y = 400 * n400 + 100 * n100 + 4 * n4 + n1
      in (if m \<le> 2 then y + 1 else y, m, d))"

definition civil_from_days :: "int \<Rightarrow> int \<times> int \<times> int" where
  "civil_from_days z =
     (let z' = z + 719468;
          n400 = z' div 146097; r400 = z' mod 146097;
          n100 = min 3 (r400 div 36524); r100 = r400 - 36524 * n100;
          n4 = r100 div 1461; r4 = r100 mod 1461;
          n1 = min 3 (r4 div 365)
      in civil_of_parts n400 n100 n4 n1 (r4 - 365 * n1))"

definition leap_year :: "int \<Rightarrow> bool" where
  "leap_year y \<longleftrightarrow> y mod 4 = 0 \<and> (y mod 100 \<noteq> 0 \<or> y mod 400 = 0)"

definition days_in_month :: "int \<Rightarrow> int \<Rightarrow> int" where
  "days_in_month y m =
     (if m = 2 then (if leap_year y then 29 else 28)
      else if m = 4 \<or> m = 6 \<or> m = 9 \<or> m = 11 then 30 else 31)"

definition valid_civil :: "int \<Rightarrow> int \<Rightarrow> int \<Rightarrow> bool" where
  "valid_civil y m d \<longleftrightarrow> 1 \<le> m \<and> m \<le> 12 \<and> 1 \<le> d \<and> d \<le> days_in_month y m"

text \<open>The March-based year splits into centuries, four-year blocks and years.\<close>

lemma div_mod_unique:
  fixes a b q r :: int
  assumes "a = b * q + r" and "0 \<le> r" and "r < b"
  shows "a div b = q \<and> a mod b = r"
  using assms by (simp add: div_mult_self4 algebra_simps div_pos_pos_trivial)

lemma year_day_split:
  fixes n400 n100 n4 n1 doy z :: int
  assumes n100: "0 \<le> n100" "n100 \<le> 3" and n4: "0 \<le> n4" "n4 \<le> 24" and n1: "0 \<le> n1" "n1 \<le> 3"
    and doy: "0 \<le> doy" "doy \<le> 365"
    and leap: "doy = 365 \<Longrightarrow> n1 = 3 \<and> (n4 \<noteq> 24 \<or> n100 = 3)"
    and z: "z + 719468 = 146097 * n400 + 36524 * n100 + 1461 * n4 + 365 * n1 + doy"
  shows "civil_from_days z = civil_of_parts n400 n100 n4 n1 doy"
proof -
  have b1: "365 * n1 + doy \<le> 1460" "0 \<le> 365 * n1 + doy"
    using n1 doy leap by auto
  have b4: "0 \<le> 1461 * n4 + (365 * n1 + doy)" "1461 * n4 + (365 * n1 + doy) \<le> 36524"
    using n4 b1 by linarith+
  have b4': "n100 \<noteq> 3 \<Longrightarrow> 1461 * n4 + (365 * n1 + doy) \<le> 36523"
  proof -
    assume "n100 \<noteq> 3"
    show ?thesis
    proof (cases "doy = 365")
      case True
      with leap \<open>n100 \<noteq> 3\<close> have "n4 \<le> 23" using n4 by force
      with b1 show ?thesis by linarith
    next
      case False
      with doy n1 n4 show ?thesis by linarith
    qed
  qed
  have s400: "(z + 719468) div 146097 = n400 \<and>
      (z + 719468) mod 146097 = 36524 * n100 + 1461 * n4 + 365 * n1 + doy"
    using z n100 b4 by (intro div_mod_unique) linarith+
  let ?r4 = "1461 * n4 + (365 * n1 + doy)"
  have s100: "min 3 ((36524 * n100 + 1461 * n4 + 365 * n1 + doy) div 36524) = n100"
  proof (cases "n100 = 3 \<and> ?r4 = 36524")
    case True
    then have eq: "36524 * n100 + 1461 * n4 + 365 * n1 + doy = 36524 * 4" by linarith
    show ?thesis unfolding eq using True by simp
  next
    case False
    then have "?r4 < 36524" using b4 b4' by force
    then have "(36524 * n100 + 1461 * n4 + 365 * n1 + doy) div 36524 = n100"
      using b4 div_mod_unique[of "36524 * n100 + 1461 * n4 + 365 * n1 + doy" 36524 n100 ?r4]
      by (simp add: add.assoc)
    with n100 show ?thesis by simp
  qed
  have s4: "(1461 * n4 + 365 * n1 + doy) div 1461 = n4 \<and>
      (1461 * n4 + 365 * n1 + doy) mod 1461 = 365 * n1 + doy"
    using b1 by (intro div_mod_unique) linarith+
  have s1: "min 3 ((365 * n1 + doy) div 365) = n1"
  proof (cases "doy = 365")
    case True
    with leap have "n1 = 3" by blast
    with True show ?thesis by simp
  next
    case False
    with doy have "(365 * n1 + doy) div 365 = n1"
      using div_mod_unique[of "365 * n1 + doy" 365 n1 doy] by simp
    with n1 show ?thesis by simp
  qed
  have e: "36524 * n100 + 1461 * n4 + 365 * n1 + doy - 36524 * n100 = 1461 * n4 + 365 * n1 + doy"
    "365 * n1 + doy - 365 * n1 = doy" by simp_all
  show ?thesis
    unfolding civil_from_days_def Let_def
    by (simp only: s400[THEN conjunct1] s400[THEN conjunct2] s100 e s4[THEN conjunct1]
        s4[THEN conjunct2] s1)
qed

lemma year_div_split:
  fixes n400 n100 n4 n1 :: int
  assumes b: "0 \<le> n100" "n100 \<le> 3" "0 \<le> n4" "n4 \<le> 24" "0 \<le> n1" "n1 \<le> 3"
  shows "(400 * n400 + 100 * n100 + 4 * n4 + n1) div 4 = 100 * n400 + 25 * n100 + n4"
    and "(400 * n400 + 100 * n100 + 4 * n4 + n1) div 100 = 4 * n400 + n100"
    and "(400 * n400 + 100 * n100 + 4 * n4 + n1) div 400 = n400"
  using b
    div_mod_unique[of "400 * n400 + 100 * n100 + 4 * n4 + n1" 4 "100 * n400 + 25 * n100 + n4" n1]
    div_mod_unique[of "400 * n400 + 100 * n100 + 4 * n4 + n1" 100 "4 * n400 + n100" "4 * n4 + n1"]
    div_mod_unique[of "400 * n400 + 100 * n100 + 4 * n4 + n1" 400 n400 "100 * n100 + 4 * n4 + n1"]
  by auto

lemma leap_year_parts:
  fixes n400 n100 n4 n1 :: int
  assumes leap: "leap_year (400 * n400 + 100 * n100 + 4 * n4 + n1 + 1)"
    and b: "0 \<le> n100" "n100 \<le> 3" "0 \<le> n4" "n4 \<le> 24" "0 \<le> n1" "n1 \<le> 3"
  shows "n1 = 3 \<and> (n4 \<noteq> 24 \<or> n100 = 3)"
proof
  let ?y = "400 * n400 + 100 * n100 + 4 * n4 + n1 + 1"
  show n1: "n1 = 3"
  proof (rule ccontr)
    assume "n1 \<noteq> 3"
    then have "?y mod 4 = n1 + 1"
      using b div_mod_unique[of ?y 4 "100 * n400 + 25 * n100 + n4" "n1 + 1"] by simp
    with leap b show False by (simp add: leap_year_def)
  qed
  show "n4 \<noteq> 24 \<or> n100 = 3"
  proof (rule ccontr)
    assume "\<not> (n4 \<noteq> 24 \<or> n100 = 3)"
    then have "?y mod 100 = 0 \<and> ?y mod 400 = 100 * (n100 + 1)"
      using b n1 div_mod_unique[of ?y 100 "4 * n400 + n100 + 1" 0]
        div_mod_unique[of ?y 400 n400 "100 * (n100 + 1)"] by auto
    with leap b show False by (simp add: leap_year_def)
  qed
qed

text \<open>The month table: day-of-year offsets within the March-based year.\<close>

lemma month_index_cases:
  fixes mp :: int
  assumes "0 \<le> mp" "mp \<le> 11"
  shows "mp = 0 \<or> mp = 1 \<or> mp = 2 \<or> mp = 3 \<or> mp = 4 \<or> mp = 5 \<or> mp = 6 \<or> mp = 7
    \<or> mp = 8 \<or> mp = 9 \<or> mp = 10 \<or> mp = 11"
  using assms by presburger

lemma month_of_doy:
  fixes mp d :: int
  assumes "0 \<le> mp" "mp \<le> 11" "1 \<le> d" "d \<le> 31" "mp \<in> {1, 3, 6, 8} \<longrightarrow> d \<le> 30"
    "mp = 11 \<longrightarrow> d \<le> 29"
  shows "(5 * ((153 * mp + 2) div 5 + d - 1) + 2) div 153 = mp"
  using month_index_cases[OF assms(1,2)] assms(3-6) by (elim disjE) auto

theorem civil_from_days_from_civil:
  assumes "valid_civil y m d"
  shows "civil_from_days (days_from_civil y m d) = (y, m, d)"
proof -
  define y' where "y' = (if m \<le> 2 then y - 1 else y)"
  define mp where "mp = (if m > 2 then m - 3 else m + 9)"
  define doy where "doy = (153 * mp + 2) div 5 + d - 1"
  define n400 where "n400 = y' div 400"
  define n100 where "n100 = (y' mod 400) div 100"
  define n4 where "n4 = (y' mod 400 mod 100) div 4"
  define n1 where "n1 = y' mod 400 mod 100 mod 4"
  have m: "1 \<le> m" "m \<le> 12" and d: "1 \<le> d" "d \<le> days_in_month y m"
    using assms by (auto simp: valid_civil_def)
  have d31: "d \<le> 31" using d by (auto simp: days_in_month_def split: if_splits)
  have y': "y' = 400 * n400 + 100 * n100 + 4 * n4 + n1"
    using div_mult_mod_eq[of y' 400] div_mult_mod_eq[of "y' mod 400" 100]
      div_mult_mod_eq[of "y' mod 400 mod 100" 4]
    unfolding n400_def n100_def n4_def n1_def by linarith
  have b: "0 \<le> n100" "n100 \<le> 3" "0 \<le> n4" "n4 \<le> 24" "0 \<le> n1" "n1 \<le> 3"
  proof -
    have "0 \<le> y' mod 400" "y' mod 400 < 400" "0 \<le> y' mod 400 mod 100" "y' mod 400 mod 100 < 100"
      by simp_all
    then show "0 \<le> n100" "n100 \<le> 3" "0 \<le> n4" "n4 \<le> 24" "0 \<le> n1" "n1 \<le> 3"
      unfolding n100_def n4_def n1_def
      using pos_mod_bound[of 4 "y' mod 400 mod 100"] pos_mod_sign[of 4 "y' mod 400 mod 100"]
      by linarith+
  qed
  have mp: "0 \<le> mp" "mp \<le> 11" using m by (auto simp: mp_def)
  have mp30: "mp \<in> {1, 3, 6, 8} \<longrightarrow> d \<le> 30"
    using m d by (auto simp: mp_def days_in_month_def split: if_splits)
  have d11: "mp = 11 \<longrightarrow> d \<le> (if leap_year y then 29 else 28)"
    using m d by (auto simp: mp_def days_in_month_def split: if_splits)
  have doy: "0 \<le> doy" "doy \<le> 365" "doy = 365 \<longrightarrow> mp = 11 \<and> d = 29"
    using month_index_cases[OF mp] d(1) d31 mp30 d11 unfolding doy_def
    by (elim disjE; simp split: if_splits)+
  have leap: "n1 = 3 \<and> (n4 \<noteq> 24 \<or> n100 = 3)" if "doy = 365"
  proof -
    from that doy(3) have m2: "mp = 11" "d = 29" by auto
    then have "m = 2" using m by (auto simp: mp_def split: if_splits)
    moreover have "leap_year y" using d11 m2 by (auto split: if_splits)
    moreover have "y = 400 * n400 + 100 * n100 + 4 * n4 + n1 + 1"
      using y' \<open>m = 2\<close> by (simp add: y'_def)
    ultimately have "leap_year (400 * n400 + 100 * n100 + 4 * n4 + n1 + 1)" by simp
    then show ?thesis using b by (rule leap_year_parts)
  qed
  have "days_from_civil y m d + 719468 =
      146097 * n400 + 36524 * n100 + 1461 * n4 + 365 * n1 + doy"
    unfolding days_from_civil_def Let_def y'_def[symmetric] mp_def[symmetric]
    unfolding y' year_div_split[OF b] doy_def by simp
  then have split: "civil_from_days (days_from_civil y m d) = civil_of_parts n400 n100 n4 n1 doy"
    by (intro year_day_split b doy(1,2) leap)
  have "mp = 11 \<longrightarrow> d \<le> 29" using d11 by (auto split: if_splits)
  then have month: "(5 * doy + 2) div 153 = mp"
    unfolding doy_def by (rule month_of_doy[OF mp d(1) d31 mp30])
  show ?thesis
    unfolding split civil_of_parts_def Let_def month
    using m by (auto simp: mp_def doy_def y'[symmetric] y'_def)
qed

lemma days_from_civil_of_parts:
  assumes b: "0 \<le> n100" "n100 \<le> 3" "0 \<le> n4" "n4 \<le> 24" "0 \<le> n1" "n1 \<le> 3"
    and doy: "0 \<le> doy" "doy \<le> 365"
    and c: "civil_of_parts n400 n100 n4 n1 doy = (y, m, d)"
  shows "days_from_civil y m d + 719468 =
      146097 * n400 + 36524 * n100 + 1461 * n4 + 365 * n1 + doy"
proof -
  define mp where "mp = (5 * doy + 2) div 153"
  have mp: "0 \<le> mp" "mp \<le> 11" using doy unfolding mp_def by auto
  have m: "m = (if mp < 10 then mp + 3 else mp - 9)"
    and d: "d = doy - (153 * mp + 2) div 5 + 1"
    and y: "(if m \<le> 2 then y - 1 else y) = 400 * n400 + 100 * n100 + 4 * n4 + n1"
    using c by (auto simp: civil_of_parts_def Let_def mp_def)
  have m': "(if m > 2 then m - 3 else m + 9) = mp" using mp m by auto
  show ?thesis
    unfolding days_from_civil_def Let_def y m' year_div_split[OF b] d by simp
qed

theorem days_from_civil_from_days:
  assumes "civil_from_days z = (y, m, d)"
  shows "days_from_civil y m d = z"
proof -
  define r400 where "r400 = (z + 719468) mod 146097"
  define n100 where "n100 = min 3 (r400 div 36524)"
  define r100 where "r100 = r400 - 36524 * n100"
  define r4 where "r4 = r100 mod 1461"
  define n1 where "n1 = min 3 (r4 div 365)"
  have r400: "0 \<le> r400" "r400 < 146097" by (simp_all add: r400_def)
  have n100: "0 \<le> n100" "n100 \<le> 3" using r400 by (auto simp: n100_def)
  have r100: "0 \<le> r100" "r100 \<le> 36524"
    using r400 div_mult_mod_eq[of r400 36524] pos_mod_bound[of 36524 r400] pos_mod_sign[of 36524 r400]
    unfolding r100_def n100_def by (auto simp: min_def)
  have n4: "0 \<le> r100 div 1461" "r100 div 1461 \<le> 24" using r100 by auto
  have r4: "0 \<le> r4" "r4 < 1461" by (simp_all add: r4_def)
  have n1: "0 \<le> n1" "n1 \<le> 3" using r4 by (auto simp: n1_def)
  have doy: "0 \<le> r4 - 365 * n1" "r4 - 365 * n1 \<le> 365"
    using r4 div_mult_mod_eq[of r4 365] pos_mod_bound[of 365 r4] pos_mod_sign[of 365 r4]
    unfolding n1_def by (auto simp: min_def)
  have "civil_of_parts ((z + 719468) div 146097) n100 (r100 div 1461) n1 (r4 - 365 * n1) = (y, m, d)"
    using assms unfolding civil_from_days_def Let_def r400_def n100_def r100_def r4_def n1_def .
  from days_from_civil_of_parts[OF n100 n4 n1 doy this]
  show ?thesis
    using div_mult_mod_eq[of "z + 719468" 146097] div_mult_mod_eq[of r100 1461]
    unfolding r4_def r100_def r400_def by linarith
qed

lemma leap_year_of_parts:
  fixes n400 n100 n4 :: int
  assumes "n4 \<noteq> 24 \<or> n100 = 3" and b: "0 \<le> n100" "n100 \<le> 3" "0 \<le> n4" "n4 \<le> 24"
  shows "leap_year (400 * n400 + 100 * n100 + 4 * n4 + 3 + 1)"
proof -
  let ?y = "400 * n400 + 100 * n100 + 4 * n4 + 3 + 1"
  have y4: "?y mod 4 = 0" using div_mod_unique[of ?y 4 "100 * n400 + 25 * n100 + n4 + 1" 0] by simp
  show ?thesis
  proof (cases "n4 = 24")
    case True
    with assms have "?y mod 400 = 0" using div_mod_unique[of ?y 400 "n400 + 1" 0] by simp
    with y4 show ?thesis by (simp add: leap_year_def)
  next
    case False
    then have "?y mod 100 = 4 * n4 + 4"
      using b div_mod_unique[of ?y 100 "4 * n400 + n100" "4 * n4 + 4"] by simp
    with y4 b show ?thesis by (simp add: leap_year_def)
  qed
qed

lemma civil_of_parts_valid:
  assumes doy: "0 \<le> doy" "doy \<le> 365"
    and leap: "doy = 365 \<Longrightarrow> leap_year (400 * n400 + 100 * n100 + 4 * n4 + n1 + 1)"
    and c: "civil_of_parts n400 n100 n4 n1 doy = (y, m, d)"
  shows "valid_civil y m d"
proof -
  define mp where "mp = (5 * doy + 2) div 153"
  have mp: "0 \<le> mp" "mp \<le> 11" using doy unfolding mp_def by auto
  have lo: "153 * mp \<le> 5 * doy + 2" and hi: "5 * doy + 2 < 153 * mp + 153"
    unfolding mp_def by simp_all
  have m: "m = (if mp < 10 then mp + 3 else mp - 9)"
    and d: "d = doy - (153 * mp + 2) div 5 + 1"
    and y: "m \<le> 2 \<Longrightarrow> y = 400 * n400 + 100 * n100 + 4 * n4 + n1 + 1"
    using c by (auto simp: civil_of_parts_def Let_def mp_def)
  show ?thesis
    using month_index_cases[OF mp]
  proof (elim disjE)
    assume "mp = 11"
    with y m have y: "y = 400 * n400 + 100 * n100 + 4 * n4 + n1 + 1" by simp
    show ?thesis using \<open>mp = 11\<close> m d doy lo leap
      by (cases "doy = 365") (auto simp: valid_civil_def days_in_month_def y)
  qed (use m d lo hi in \<open>simp_all add: valid_civil_def days_in_month_def\<close>)
qed

theorem civil_from_days_valid:
  assumes "civil_from_days z = (y, m, d)"
  shows "valid_civil y m d"
proof -
  define r400 where "r400 = (z + 719468) mod 146097"
  define n100 where "n100 = min 3 (r400 div 36524)"
  define r100 where "r100 = r400 - 36524 * n100"
  define r4 where "r4 = r100 mod 1461"
  define n1 where "n1 = min 3 (r4 div 365)"
  have r400: "0 \<le> r400" "r400 < 146097" by (simp_all add: r400_def)
  have n100: "0 \<le> n100" "n100 \<le> 3" using r400 by (auto simp: n100_def)
  have r100: "0 \<le> r100" "r100 \<le> 36524" "n100 \<noteq> 3 \<Longrightarrow> r100 \<le> 36523"
    using r400 div_mult_mod_eq[of r400 36524] pos_mod_bound[of 36524 r400] pos_mod_sign[of 36524 r400]
    unfolding r100_def n100_def by (auto simp: min_def split: if_splits)
  have n4: "0 \<le> r100 div 1461" "r100 div 1461 \<le> 24" using r100 by auto
  have r4: "0 \<le> r4" "r4 < 1461" by (simp_all add: r4_def)
  have n1: "0 \<le> n1" "n1 \<le> 3" using r4 by (auto simp: n1_def)
  have doy: "0 \<le> r4 - 365 * n1" "r4 - 365 * n1 \<le> 365" "r4 - 365 * n1 = 365 \<Longrightarrow> n1 = 3 \<and> r4 = 1460"
    using r4 div_mult_mod_eq[of r4 365] pos_mod_bound[of 365 r4] pos_mod_sign[of 365 r4]
    unfolding n1_def by (auto simp: min_def split: if_splits)
  have leap: "leap_year (400 * ((z + 719468) div 146097) + 100 * n100 + 4 * (r100 div 1461) + n1 + 1)"
    if "r4 - 365 * n1 = 365"
  proof -
    have n1: "n1 = 3" and "r4 = 1460" using doy(3) that by auto
    then have "r100 = 1461 * (r100 div 1461) + 1460"
      using div_mult_mod_eq[of r100 1461] unfolding r4_def by linarith
    then have "r100 div 1461 \<noteq> 24 \<or> n100 = 3" using r100 by (cases "n100 = 3") auto
    from leap_year_of_parts[OF this n100 n4] n1 show ?thesis by simp
  qed
  have "civil_of_parts ((z + 719468) div 146097) n100 (r100 div 1461) n1 (r4 - 365 * n1) = (y, m, d)"
    using assms unfolding civil_from_days_def Let_def r400_def n100_def r100_def r4_def n1_def .
  from civil_of_parts_valid[OF doy(1,2) leap this] show ?thesis .
qed

subsection \<open>JavaScript Date: UTC getters and Date.UTC\<close>

definition utc_date_of :: "instant \<Rightarrow> int \<times> int \<times> int" where
  "utc_date_of t = civil_from_days (t div ms_per_day)"

definition getUTCFullYear :: "instant \<Rightarrow> int" where
  "getUTCFullYear t = fst (utc_date_of t)"

text \<open>Months are numbered from 0, as in JavaScript.\<close>

definition getUTCMonth :: "instant \<Rightarrow> int" where
  "getUTCMonth t = fst (snd (utc_date_of t)) - 1"

definition getUTCDate :: "instant \<Rightarrow> int" where
  "getUTCDate t = snd (snd (utc_date_of t))"

text \<open>Sunday is 0; 1970-01-01 was a Thursday.\<close>

definition getUTCDay :: "instant \<Rightarrow> int" where
  "getUTCDay t = (t div ms_per_day + 4) mod 7"

text \<open>
  \<open>Date.UTC\<close> accepts a month outside 0 to 11 and a day outside the month and carries them over;
  a year from 0 to 99 means 1900 to 1999.
\<close>

definition make_day :: "int \<Rightarrow> int \<Rightarrow> int \<Rightarrow> int" where
  "make_day y m d = days_from_civil (y + m div 12) (m mod 12 + 1) 1 + (d - 1)"

definition Date_UTC :: "int \<Rightarrow> int \<Rightarrow> int \<Rightarrow> instant" where
  "Date_UTC y m d = make_day (if 0 \<le> y \<and> y \<le> 99 then 1900 + y else y) m d * ms_per_day"

lemma utc_date_of_midnight [simp]: "utc_date_of (z * ms_per_day) = civil_from_days z"
  by (simp add: utc_date_of_def ms_per_day_def)

lemma days_from_civil_day: "days_from_civil y m d = days_from_civil y m 1 + (d - 1)"
  by (simp add: days_from_civil_def Let_def)

lemma make_day_civil: "1 \<le> m \<Longrightarrow> m \<le> 12 \<Longrightarrow> make_day y (m - 1) d = days_from_civil y m d"
  unfolding make_day_def by (subst (2) days_from_civil_day) simp

subsection \<open>Months\<close>

text \<open>
  \<open>month_start k\<close> is the UTC midnight of the first day of the month number \<open>k\<close>, counted from
  January of the year 0: the canonical anchors the billing code stores as \<open>period_start\<close>.
\<close>

definition month_start :: "int \<Rightarrow> instant" where
  "month_start k = days_from_civil (k div 12) (k mod 12 + 1) 1 * ms_per_day"

definition days_of_month :: "int \<Rightarrow> int" where
  "days_of_month k = days_in_month (k div 12) (k mod 12 + 1)"

lemma days_of_month_bounds: "28 \<le> days_of_month k" "days_of_month k \<le> 31"
  by (auto simp: days_of_month_def days_in_month_def)

lemma valid_month_first: "valid_civil (k div 12) (k mod 12 + 1) 1"
  using days_of_month_bounds(1)[of k] by (auto simp: valid_civil_def days_of_month_def)

lemma utc_date_of_month_start [simp]: "utc_date_of (month_start k) = (k div 12, k mod 12 + 1, 1)"
  by (simp add: month_start_def civil_from_days_from_civil valid_month_first)

lemma div_step:
  fixes y k :: int
  assumes "0 < k"
  shows "y div k = (y - 1) div k + (if y mod k = 0 then 1 else 0)"
proof (cases "y mod k = 0")
  case True
  then obtain q where q: "y = k * q" by auto
  then have "(y - 1) div k = q - 1"
    using assms div_mod_unique[of "y - 1" k "q - 1" "k - 1"] by (simp add: algebra_simps)
  with True q assms show ?thesis by simp
next
  case False
  have "(y - 1) div k = y div k"
    using div_mod_unique[of "y - 1" k "y div k" "y mod k - 1"] False assms
      pos_mod_sign[OF assms, of y] pos_mod_bound[OF assms, of y] mult_div_mod_eq[of k y]
    by force
  with False show ?thesis by simp
qed

lemma days_in_february: "days_in_month y 2 = 28 + (if y mod 4 = 0 then 1 else 0)
  - (if y mod 100 = 0 then 1 else 0) + (if y mod 400 = 0 then 1 else 0)"
proof -
  have a: "y mod 100 = 0" if "y mod 400 = 0" using mod_mod_cancel[of 100 400 y] that by simp
  have b: "y mod 4 = 0" if "y mod 100 = 0" using mod_mod_cancel[of 4 100 y] that by simp
  show ?thesis
    unfolding days_in_month_def leap_year_def
    using a b by (cases "y mod 4 = 0"; cases "y mod 100 = 0"; cases "y mod 400 = 0") simp_all
qed

lemma next_month_first:
  assumes "1 \<le> m" "m \<le> 12"
  shows "days_from_civil (if m = 12 then y + 1 else y) (if m = 12 then 1 else m + 1) 1 =
    days_from_civil y m 1 + days_in_month y m"
proof -
  have feb: "days_from_civil y 3 1 = days_from_civil y 2 1 + days_in_month y 2"
  proof -
    have d3: "days_from_civil y 3 1 = 365 * y + y div 4 - y div 100 + y div 400 - 719468"
      by (simp add: days_from_civil_def Let_def)
    have d2: "days_from_civil y 2 1 =
        365 * (y - 1) + (y - 1) div 4 - (y - 1) div 100 + (y - 1) div 400 + 337 - 719468"
      by (simp add: days_from_civil_def Let_def)
    have q: "y div 4 = (y - 1) div 4 + (if y mod 4 = 0 then 1 else 0)"
      "y div 100 = (y - 1) div 100 + (if y mod 100 = 0 then 1 else 0)"
      "y div 400 = (y - 1) div 400 + (if y mod 400 = 0 then 1 else 0)"
      by (rule div_step; simp)+
    have ar: "365 * y + (q4 + b4) - (q100 + b100) + (q400 + b400) - 719468 =
      (365 * (y - 1) + q4 - q100 + q400 + 337 - 719468) + (28 + b4 - b100 + b400)"
      for q4 b4 q100 b100 q400 b400 :: int by simp
    show ?thesis unfolding d3 d2 q days_in_february by (rule ar)
  qed
  have "m = 2 \<or> m = 1 \<or> m = 3 \<or> m = 4 \<or> m = 5 \<or> m = 6 \<or> m = 7 \<or> m = 8 \<or> m = 9 \<or> m = 10
    \<or> m = 11 \<or> m = 12" using assms by presburger
  then show ?thesis
    apply (elim disjE)
    subgoal using feb by simp
    by (simp_all add: days_from_civil_def days_in_month_def Let_def)
qed

theorem month_start_Suc: "month_start (k + 1) = month_start k + days_of_month k * ms_per_day"
proof -
  have "(k + 1) div 12 = (if k mod 12 + 1 = 12 then k div 12 + 1 else k div 12)
      \<and> (k + 1) mod 12 = (if k mod 12 + 1 = 12 then 0 else k mod 12 + 1)"
  proof (cases "k mod 12 + 1 = 12")
    case True
    have "k + 1 = 12 * (k div 12 + 1) + 0" using True mult_div_mod_eq[of 12 k] by (simp add: algebra_simps)
    then have "(k + 1) div 12 = k div 12 + 1 \<and> (k + 1) mod 12 = 0" by (rule div_mod_unique) simp_all
    with True show ?thesis by simp
  next
    case False
    have "k + 1 = 12 * (k div 12) + (k mod 12 + 1)" using mult_div_mod_eq[of 12 k] by linarith
    moreover have "0 \<le> k mod 12 + 1" "k mod 12 + 1 < 12"
      using False pos_mod_bound[of 12 k] pos_mod_sign[of 12 k] by linarith+
    ultimately have "(k + 1) div 12 = k div 12 \<and> (k + 1) mod 12 = k mod 12 + 1"
      by (intro div_mod_unique) 
    with False show ?thesis by simp
  qed
  then have "month_start (k + 1) = days_from_civil
      (if k mod 12 + 1 = 12 then k div 12 + 1 else k div 12)
      (if k mod 12 + 1 = 12 then 1 else k mod 12 + 1 + 1) 1 * ms_per_day"
    by (simp add: month_start_def)
  also have "\<dots> = (days_from_civil (k div 12) (k mod 12 + 1) 1 + days_of_month k) * ms_per_day"
    by (subst next_month_first) (simp_all add: days_of_month_def)
  finally show ?thesis by (simp add: month_start_def algebra_simps)
qed

end
