(* ===== verification/Dates.thy ===== *)
theory Dates
  imports Calendar
begin

text \<open>
  The date helpers of the program. Part one translates
  \<open>src/shared-kernel/domain/value-objects/day-of-week.vo.ts\<close>: calendar days and wall clocks in a
  time zone. A zone is the function from instants to UTC offsets in milliseconds that Intl derives
  from the zone database, so \<open>t + zone t\<close> is the wall clock at \<open>t\<close> read as if it were UTC.
  Part two translates the pure helpers at the end of \<open>src/modules/billing/invoice.service.ts\<close>.
\<close>

type_synonym zone = "instant \<Rightarrow> int"

subsection \<open>Days of the week\<close>

definition DAY_OF_WEEK_VALUES :: "string list" where
  "DAY_OF_WEEK_VALUES = [''mon'', ''tue'', ''wed'', ''thu'', ''fri'', ''sat'', ''sun'']"

definition ISO_WEEKDAY_TO_DAY :: "string list" where
  "ISO_WEEKDAY_TO_DAY = [''mon'', ''tue'', ''wed'', ''thu'', ''fri'', ''sat'', ''sun'']"

text \<open>The result is \<open>None\<close> where the code throws \<open>isoWeekday out of range\<close>.\<close>

definition dayOfWeekFromIsoWeekday :: "int \<Rightarrow> string option" where
  "dayOfWeekFromIsoWeekday n =
     (if n < 1 \<or> n > 7 then None else Some (ISO_WEEKDAY_TO_DAY ! nat (n - 1)))"

definition isDayOfWeek :: "string \<Rightarrow> bool" where
  "isDayOfWeek value \<longleftrightarrow> List.member DAY_OF_WEEK_VALUES value"

subsection \<open>Calendar days in a zone\<close>

definition local_date :: "zone \<Rightarrow> instant \<Rightarrow> int \<times> int \<times> int" where
  "local_date tz t = utc_date_of (t + tz t)"

definition p2 :: "int \<Rightarrow> string" where
  "p2 n = padStart0 2 (nat_string (nat n))"

definition iso_date_string :: "int \<times> int \<times> int \<Rightarrow> string" where
  "iso_date_string d = (case d of (y, m, dd) \<Rightarrow> nat_string (nat y) @ ''-'' @ p2 m @ ''-'' @ p2 dd)"

definition formatDateInTimezone :: "zone \<Rightarrow> instant \<Rightarrow> string" where
  "formatDateInTimezone tz t = iso_date_string (local_date tz t)"

text \<open>
  \<open>new Date(`${ymd}T00:00:00.000Z`)\<close> and \<open>Date.parse(ymd)\<close>; \<open>None\<close> is an Invalid Date. As in V8, a
  day up to 31 is accepted in every month and carried over.
\<close>

fun date_of_iso_day :: "string \<Rightarrow> instant option" where
  "date_of_iso_day [y1, y2, y3, y4, s1, m1, m2, s2, d1, d2] =
     (let y = int (parse_digits [y1, y2, y3, y4]); m = int (parse_digits [m1, m2]);
          d = int (parse_digits [d1, d2])
      in if list_all is_digit [y1, y2, y3, y4, m1, m2, d1, d2] \<and> s1 = CHR ''-'' \<and> s2 = CHR ''-''
           \<and> 1 \<le> m \<and> m \<le> 12 \<and> 1 \<le> d \<and> d \<le> 31
         then Some (make_day y (m - 1) d * ms_per_day) else None)"
| "date_of_iso_day _ = None"

definition startOfDayInTimezone :: "zone \<Rightarrow> instant \<Rightarrow> instant option" where
  "startOfDayInTimezone tz t = date_of_iso_day (formatDateInTimezone tz t)"

definition firstOfMonthInTimezone :: "zone \<Rightarrow> instant \<Rightarrow> instant option" where
  "firstOfMonthInTimezone tz t =
     (let ymd = formatDateInTimezone tz t in date_of_iso_day (take 7 ymd @ ''-01''))"

definition isoWeekdayOf :: "zone \<Rightarrow> instant \<Rightarrow> int option" where
  "isoWeekdayOf tz t = map_option (\<lambda>local. let js = getUTCDay local in if js = 0 then 7 else js)
     (startOfDayInTimezone tz t)"

text \<open>\<open>NaN >= 6\<close> is false, so an Invalid Date is no weekend day.\<close>

definition isWeekendDay :: "zone \<Rightarrow> instant \<Rightarrow> bool" where
  "isWeekendDay tz t \<longleftrightarrow> (case isoWeekdayOf tz t of None \<Rightarrow> False | Some n \<Rightarrow> n \<ge> 6)"

text \<open>The years the four-digit format covers.\<close>

definition four_digit_year :: "zone \<Rightarrow> instant \<Rightarrow> bool" where
  "four_digit_year tz t \<longleftrightarrow> 1000 \<le> fst (local_date tz t) \<and> fst (local_date tz t) \<le> 9999"

lemma length_Suc_list: "length s = Suc n \<longleftrightarrow> (\<exists>c r. s = c # r \<and> length r = n)"
  by (cases s) auto

lemma year_string:
  assumes "1000 \<le> y" "y \<le> 9999"
  obtains a b c d where "nat_string (nat y) = [a, b, c, d]" "list_all is_digit [a, b, c, d]"
    "int (parse_digits [a, b, c, d]) = y"
proof -
  have "length (nat_string (nat y)) = 4" using assms by (intro length_nat_string_4) auto
  then obtain a b c d where s: "nat_string (nat y) = [a, b, c, d]"
    by (auto simp: length_Suc_list numeral_eq_Suc)
  moreover have "list_all is_digit [a, b, c, d]" using digits_nat_string[of "nat y"] s by simp
  moreover have "int (parse_digits [a, b, c, d]) = y"
    using parse_digits_nat_string[of "nat y"] assms by (simp add: s)
  ultimately show ?thesis using that by blast
qed

lemma p2_string:
  assumes "0 \<le> n" "n \<le> 99"
  obtains a b where "p2 n = [a, b]" "list_all is_digit [a, b]" "int (parse_digits [a, b]) = n"
proof -
  have "length (p2 n) = 2" using assms by (simp add: p2_def length_padStart0)
  then obtain a b where s: "p2 n = [a, b]" by (auto simp: length_Suc_list numeral_eq_Suc)
  moreover have "list_all is_digit [a, b]" using digits_padStart0[of 2 "nat n"] s by (simp add: p2_def)
  moreover have "int (parse_digits [a, b]) = n"
    using parse_digits_padStart0[of 2 "nat n"] assms by (simp add: s flip: p2_def)
  ultimately show ?thesis using that by blast
qed

lemma days_in_month_31: "days_in_month y m \<le> 31"
  by (simp add: days_in_month_def)

lemma date_of_iso_date_string:
  assumes y: "1000 \<le> y" "y \<le> 9999" and v: "valid_civil y m d"
  shows "date_of_iso_day (iso_date_string (y, m, d)) = Some (days_from_civil y m d * ms_per_day)"
    and "take 7 (iso_date_string (y, m, d)) @ ''-01'' = iso_date_string (y, m, 1)"
proof -
  have b: "1 \<le> m" "m \<le> 12" "1 \<le> d" "d \<le> 31"
    using v days_in_month_31[of y m] by (auto simp: valid_civil_def)
  obtain y1 y2 y3 y4 where ys: "nat_string (nat y) = [y1, y2, y3, y4]"
    "list_all is_digit [y1, y2, y3, y4]" "int (parse_digits [y1, y2, y3, y4]) = y"
    using year_string[OF y] .
  obtain m1 m2 where ms: "p2 m = [m1, m2]" "list_all is_digit [m1, m2]" "int (parse_digits [m1, m2]) = m"
    using p2_string[of m] b by auto
  obtain d1 d2 where ds: "p2 d = [d1, d2]" "list_all is_digit [d1, d2]" "int (parse_digits [d1, d2]) = d"
    using p2_string[of d] b by auto
  have one: "p2 1 = ''01''" by code_simp
  show "date_of_iso_day (iso_date_string (y, m, d)) = Some (days_from_civil y m d * ms_per_day)"
    using ys ms ds b by (simp add: iso_date_string_def Let_def make_day_civil)
  show "take 7 (iso_date_string (y, m, d)) @ ''-01'' = iso_date_string (y, m, 1)"
    by (simp add: iso_date_string_def ys(1) ms(1) ds(1) one)
qed

lemma local_date_valid: "local_date tz t = (y, m, d) \<Longrightarrow> valid_civil y m d"
  by (simp add: local_date_def utc_date_of_def civil_from_days_valid)

lemma month_start_eq: "1 \<le> m \<Longrightarrow> m \<le> 12 \<Longrightarrow>
    month_start (12 * y + (m - 1)) = days_from_civil y m 1 * ms_per_day"
  using div_mod_unique[of "12 * y + (m - 1)" 12 y "m - 1"] by (simp add: month_start_def)

text \<open>The local midnight anchors denote the local calendar day and the first of its month.\<close>

theorem startOfDayInTimezone_correct:
  assumes "four_digit_year tz t"
  shows "startOfDayInTimezone tz t = Some ((t + tz t) div ms_per_day * ms_per_day)"
proof -
  obtain y m d where l: "local_date tz t = (y, m, d)" by (cases "local_date tz t") auto
  then have "days_from_civil y m d = (t + tz t) div ms_per_day"
    by (simp add: local_date_def utc_date_of_def days_from_civil_from_days)
  with assms l local_date_valid[OF l] show ?thesis
    by (simp add: startOfDayInTimezone_def formatDateInTimezone_def date_of_iso_date_string
        four_digit_year_def)
qed

theorem firstOfMonthInTimezone_correct:
  assumes "four_digit_year tz t" and l: "local_date tz t = (y, m, d)"
  shows "firstOfMonthInTimezone tz t = Some (month_start (12 * y + (m - 1)))"
proof -
  note v = local_date_valid[OF l]
  then have "valid_civil y m 1" "1 \<le> m" "m \<le> 12" by (auto simp: valid_civil_def)
  with assms v show ?thesis
    by (simp add: firstOfMonthInTimezone_def formatDateInTimezone_def Let_def
        date_of_iso_date_string month_start_eq four_digit_year_def)
qed

theorem isoWeekdayOf_correct:
  assumes "four_digit_year tz t"
  shows "isoWeekdayOf tz t = Some (((t + tz t) div ms_per_day + 3) mod 7 + 1)"
proof -
  let ?z = "(t + tz t) div ms_per_day"
  have "(let js = getUTCDay (?z * ms_per_day) in if js = 0 then 7 else js) = (?z + 3) mod 7 + 1"
  proof -
    have "getUTCDay (?z * ms_per_day) = (?z + 4) mod 7" by (simp add: getUTCDay_def ms_per_day_def)
    moreover have "(if (z + 4) mod 7 = 0 then 7 else (z + 4) mod 7) = (z + 3) mod 7 + 1" for z :: int
    proof -
      define r where "r = (z + 3) mod 7"
      have r: "0 \<le> r" "r < 7" by (simp_all add: r_def)
      have "(z + 4) mod 7 = (r + 1) mod 7"
        using mod_add_left_eq[of "z + 3" 7 1] by (simp add: r_def add.assoc)
      moreover have "(r + 1) mod 7 = (if r = 6 then 0 else r + 1)" using r by auto
      ultimately show ?thesis using r by (simp flip: r_def)
    qed
    ultimately show ?thesis by (simp add: Let_def)
  qed
  with assms show ?thesis by (simp add: isoWeekdayOf_def startOfDayInTimezone_correct)
qed

subsection \<open>Wall-clock times\<close>

definition getUTCMilliseconds :: "instant \<Rightarrow> int" where "getUTCMilliseconds t = t mod 1000"
definition getUTCSeconds :: "instant \<Rightarrow> int" where "getUTCSeconds t = t div 1000 mod 60"
definition getUTCMinutes :: "instant \<Rightarrow> int" where "getUTCMinutes t = t div 60000 mod 60"
definition getUTCHours :: "instant \<Rightarrow> int" where "getUTCHours t = t div 3600000 mod 24"

definition Date_UTC_time :: "int \<Rightarrow> int \<Rightarrow> int \<Rightarrow> int \<Rightarrow> int \<Rightarrow> int \<Rightarrow> instant" where
  "Date_UTC_time y m d hh mm ss = Date_UTC y m d + hh * 3600000 + mm * 60000 + ss * 1000"

text \<open>
  \<open>formatToParts\<close> with \<open>hourCycle: 'h23'\<close> renders the fields of the wall clock, which the code
  reads back as UTC.
\<close>

definition zoneOffsetMsAt :: "instant \<Rightarrow> zone \<Rightarrow> int" where
  "zoneOffsetMsAt t tz =
     (let local = t + tz t;
          hour = getUTCHours local;
          wallClockAsUtcMs = Date_UTC_time (getUTCFullYear local) (getUTCMonth local)
            (getUTCDate local) (if hour = 24 then 0 else hour) (getUTCMinutes local)
            (getUTCSeconds local);
          instantAtWholeSecondMs = t - getUTCMilliseconds t
      in wallClockAsUtcMs - instantAtWholeSecondMs)"

text \<open>\<open>WALL_CLOCK_TIME_RE\<close>: \<open>HH:MM\<close> or \<open>HH:MM:SS\<close>, as the two or three groups of digits.\<close>

fun WALL_CLOCK_TIME_RE :: "string \<Rightarrow> (string \<times> string \<times> string option) option" where
  "WALL_CLOCK_TIME_RE [a, b, s, c, d] =
     (if list_all is_digit [a, b, c, d] \<and> s = CHR '':'' then Some ([a, b], [c, d], None) else None)"
| "WALL_CLOCK_TIME_RE [a, b, s, c, d, s', e, f] =
     (if list_all is_digit [a, b, c, d, e, f] \<and> s = CHR '':'' \<and> s' = CHR '':''
      then Some ([a, b], [c, d], Some [e, f]) else None)"
| "WALL_CLOCK_TIME_RE _ = None"

datatype date_error =
    InvalidDate \<comment> \<open>date must be a valid Date\<close>
  | MalformedTime string \<comment> \<open>time must be HH:MM or HH:MM:SS\<close>
  | TimeOutOfRange string \<comment> \<open>time must be a wall clock in 00:00:00..23:59:59\<close>

text \<open>\<open>split('-').map(parseInt)\<close> of the rendered date gives back its three numbers.\<close>

definition combineDateAndTimeInTimezone ::
  "instant option \<Rightarrow> string \<Rightarrow> zone \<Rightarrow> date_error + instant" where
  "combineDateAndTimeInTimezone date time tz =
     (case date of None \<Rightarrow> Inl InvalidDate
      | Some dt \<Rightarrow>
     (case WALL_CLOCK_TIME_RE time of None \<Rightarrow> Inl (MalformedTime time)
      | Some (g1, g2, g3) \<Rightarrow>
     (let hours = int (parse_digits g1);
          minutes = int (parse_digits g2);
          seconds = (case g3 of None \<Rightarrow> 0 | Some s \<Rightarrow> int (parse_digits s))
      in if hours > 23 \<or> minutes > 59 \<or> seconds > 59 then Inl (TimeOutOfRange time)
     else (case local_date tz dt of (year, month, day) \<Rightarrow>
       (let wallClockAsUtcMs = Date_UTC_time year (month - 1) day hours minutes seconds;
            guessMs = wallClockAsUtcMs - zoneOffsetMsAt wallClockAsUtcMs tz
        in Inr (wallClockAsUtcMs - zoneOffsetMsAt guessMs tz))))))"

lemma year_100:
  assumes z: "days_from_civil 100 1 1 \<le> z" and c: "civil_from_days z = (y, m, d)"
  shows "100 \<le> y"
proof (rule ccontr)
  assume "\<not> 100 \<le> y"
  then have y: "y \<le> 99" by simp
  have v: "1 \<le> m" "m \<le> 12" "d \<le> 31"
    using civil_from_days_valid[OF c] days_in_month_31[of y m] by (auto simp: valid_civil_def)
  define y' where "y' = (if m \<le> 2 then y - 1 else y)"
  define mp where "mp = (if m > 2 then m - 3 else m + 9)"
  have mp: "(153 * mp + 2) div 5 \<le> 337" "m > 2 \<Longrightarrow> (153 * mp + 2) div 5 \<le> 275" using v by (auto simp: mp_def)
  have z': "z = 365 * y' + y' div 4 - y' div 100 + y' div 400 + (153 * mp + 2) div 5 + d - 1 - 719468"
    using days_from_civil_from_days[OF c] unfolding days_from_civil_def Let_def y'_def mp_def by simp
  have "days_from_civil 100 1 1 = -683003" by (simp add: days_from_civil_def)
  moreover define A B C P where "A = y' div 4" and "B = y' div 100" and "C = y' div 400"
    and "P = (153 * mp + 2) div 5"
  ultimately have c100: "days_from_civil 100 1 1 = -683003"
    and zz: "z = 365 * y' + A - B + C + P + d - 1 - 719468" using z' by simp_all
  have big: "365 * y' + A - B + C + P \<ge> 36435" using z[unfolded c100] zz v(3) by linarith
  note mp = mp[folded P_def]
  have bounds: "A * 4 \<le> y'" "y' < B * 100 + 100" "C * 400 \<le> y'" "A \<le> 24"
    using y unfolding A_def B_def C_def by (auto simp: y'_def minus_mod_eq_div_mult[symmetric])
  show False
  proof (cases "m \<le> 2")
    case True
    then have "y' \<le> 98" using y by (simp add: y'_def)
    with big bounds mp(1) show False by linarith
  next
    case False
    then have "y' \<le> 99" "P \<le> 275" using y mp(2) by (simp_all add: y'_def)
    with big bounds show False by linarith
  qed
qed

lemma time_fields:
  fixes x :: int
  shows "x div ms_per_day * ms_per_day + getUTCHours x * 3600000 + getUTCMinutes x * 60000
    + getUTCSeconds x * 1000 = x - x mod 1000"
proof -
  define s mi h d where "s = x div 1000" and "mi = s div 60" and "h = mi div 60" and "d = h div 24"
  have e: "x div 60000 = mi" "x div 3600000 = h" "x div ms_per_day = d"
    unfolding s_def mi_def h_def d_def ms_per_day_def
    by (simp_all only: zdiv_zmult2_eq[symmetric] zero_le_numeral, simp_all)
  have r: "h mod 24 = h - 24 * d" "mi mod 60 = mi - 60 * h" "s mod 60 = s - 60 * mi"
    "x mod 1000 = x - 1000 * s"
    by (simp_all add: s_def mi_def h_def d_def minus_mult_div_eq_mod)
  show ?thesis
    unfolding getUTCHours_def getUTCMinutes_def getUTCSeconds_def e[unfolded ms_per_day_def]
      s_def[symmetric] r ms_per_day_def
    by (simp add: algebra_simps)
qed

lemma Date_UTC_civil:
  assumes "100 \<le> y" "1 \<le> m" "m \<le> 12"
  shows "Date_UTC y (m - 1) d = days_from_civil y m d * ms_per_day"
  using assms by (simp add: Date_UTC_def make_day_civil)

lemma zoneOffsetMsAt_whole:
  assumes s: "1000 dvd tz t" and y: "days_from_civil 100 1 1 * ms_per_day \<le> t + tz t"
  shows "zoneOffsetMsAt t tz = tz t"
proof -
  define x where "x = t + tz t"
  obtain y m d where c: "civil_from_days (x div ms_per_day) = (y, m, d)"
    by (cases "civil_from_days (x div ms_per_day)") auto
  have "days_from_civil 100 1 1 \<le> x div ms_per_day"
    using zdiv_mono1[OF y, of ms_per_day] by (simp add: x_def ms_per_day_def)
  from year_100[OF this c] have "100 \<le> y" .
  moreover have "1 \<le> m" "m \<le> 12" using civil_from_days_valid[OF c] by (auto simp: valid_civil_def)
  ultimately have "Date_UTC y (m - 1) d = x div ms_per_day * ms_per_day"
    by (simp add: Date_UTC_civil days_from_civil_from_days[OF c])
  moreover have "getUTCHours x \<noteq> 24" using pos_mod_bound[of 24 "x div 3600000"] by (simp add: getUTCHours_def)
  moreover have "getUTCFullYear x = y" "getUTCMonth x = m - 1" "getUTCDate x = d"
    by (simp_all add: getUTCFullYear_def getUTCMonth_def getUTCDate_def utc_date_of_def c)
  moreover have "x mod 1000 = t mod 1000"
    using s by (simp add: x_def) (metis add.right_neutral dvd_imp_mod_0 mod_add_right_eq)
  moreover have "x - t = tz t" by (simp add: x_def)
  ultimately show ?thesis
    using time_fields[of x]
    by (simp add: zoneOffsetMsAt_def Let_def Date_UTC_time_def getUTCMilliseconds_def x_def[symmetric])
qed

text \<open>
  A zone with at most one offset change (Asia/Almaty moved from UTC+6 to UTC+5 on 2024-03-01, and
  so is such a zone for the dates the program handles).
\<close>

definition zone_step :: "instant \<Rightarrow> int \<Rightarrow> int \<Rightarrow> zone" where
  "zone_step T a b t = (if t < T then a else b)"

lemma zone_step_refinement:
  assumes "r + zone_step T a b r = w"
  shows "(w - zone_step T a b (w - zone_step T a b w))
    + zone_step T a b (w - zone_step T a b (w - zone_step T a b w)) = w"
  using assms by (auto simp: zone_step_def split: if_splits)


lemma is_digit_char: "is_digit c \<Longrightarrow> digit_char (digit_value c) = c \<and> digit_value c < 10"
  by (auto simp: is_digit_def digit_char_def digit_value_def)

lemma p2_digits: "is_digit a \<Longrightarrow> is_digit b \<Longrightarrow> p2 (int (parse_digits [a, b])) = [a, b]"
proof -
  assume "is_digit a" "is_digit b"
  then have a: "digit_char (digit_value a) = a" "digit_value a < 10"
    and b: "digit_char (digit_value b) = b" "digit_value b < 10" using is_digit_char by auto
  have "nat_string (10 * digit_value a + digit_value b) =
      (if digit_value a = 0 then [b] else [a, b])"
    using a b by (subst nat_string.simps, subst nat_string.simps) (auto simp: a)
  moreover have "digit_value a = 0 \<Longrightarrow> a = CHR ''0''" using a(1) by simp
  ultimately show ?thesis
    by (simp only: p2_def nat_int) (auto simp: parse_digits_def padStart0_def)
qed

definition wall_clock_string :: "int \<Rightarrow> int \<Rightarrow> int option \<Rightarrow> string" where
  "wall_clock_string h mi s = p2 h @ '':'' @ p2 mi @ (case s of None \<Rightarrow> [] | Some s \<Rightarrow> '':'' @ p2 s)"

lemma WALL_CLOCK_TIME_RE_string:
  assumes "0 \<le> h" "h \<le> 99" "0 \<le> mi" "mi \<le> 99" "\<And>x. s = Some x \<Longrightarrow> 0 \<le> x \<and> x \<le> 99"
  shows "WALL_CLOCK_TIME_RE (wall_clock_string h mi s) = Some (p2 h, p2 mi, map_option p2 s)"
proof -
  obtain a b where 1: "p2 h = [a, b]" "list_all is_digit [a, b]" using p2_string assms(1,2) by metis
  obtain c d where 2: "p2 mi = [c, d]" "list_all is_digit [c, d]" using p2_string assms(3,4) by metis
  show ?thesis
  proof (cases s)
    case None
    with 1 2 show ?thesis by (simp add: wall_clock_string_def)
  next
    case (Some x)
    obtain e f where 3: "p2 x = [e, f]" "list_all is_digit [e, f]" using p2_string assms(5) Some by metis
    with 1 2 Some show ?thesis by (simp add: wall_clock_string_def)
  qed
qed

lemma WALL_CLOCK_TIME_RE_cases:
  assumes "WALL_CLOCK_TIME_RE t = Some (g1, g2, g3)"
  shows "t = wall_clock_string (int (parse_digits g1)) (int (parse_digits g2))
      (map_option (int \<circ> parse_digits) g3)"
  using assms
  by (induction t rule: WALL_CLOCK_TIME_RE.induct)
     (auto simp: wall_clock_string_def p2_digits split: if_splits)

lemma p2_parse: "0 \<le> n \<Longrightarrow> int (parse_digits (p2 n)) = n"
  by (simp add: p2_def)

text \<open>
  The wall clock is accepted exactly when it is a zero-padded time of day, and the instant returned
  shows that wall clock on that local day, whenever the zone has such an instant.
\<close>

theorem combineDateAndTime_accepts:
  "(\<exists>r. combineDateAndTimeInTimezone (Some dt) time tz = Inr r) \<longleftrightarrow>
     (\<exists>h mi s. time = wall_clock_string h mi s \<and> 0 \<le> h \<and> h \<le> 23 \<and> 0 \<le> mi \<and> mi \<le> 59
        \<and> (\<forall>x. s = Some x \<longrightarrow> 0 \<le> x \<and> x \<le> 59))"
proof (cases "WALL_CLOCK_TIME_RE time")
  case None
  have "False" if "time = wall_clock_string h mi s" "0 \<le> h" "h \<le> 23" "0 \<le> mi" "mi \<le> 59"
    "\<forall>x. s = Some x \<longrightarrow> 0 \<le> x \<and> x \<le> 59" for h mi s
    using None that WALL_CLOCK_TIME_RE_string[of h mi s] by force
  then have "\<not> (\<exists>h mi s. time = wall_clock_string h mi s \<and> 0 \<le> h \<and> h \<le> 23 \<and> 0 \<le> mi \<and> mi \<le> 59
        \<and> (\<forall>x. s = Some x \<longrightarrow> 0 \<le> x \<and> x \<le> 59))" by blast
  with None show ?thesis by (simp add: combineDateAndTimeInTimezone_def)
next
  case (Some g)
  obtain g1 g2 g3 where g: "WALL_CLOCK_TIME_RE time = Some (g1, g2, g3)" using Some by (cases g) auto
  let ?h = "int (parse_digits g1)" and ?mi = "int (parse_digits g2)"
    and ?s = "map_option (int \<circ> parse_digits) g3"
  have time: "time = wall_clock_string ?h ?mi ?s" by (rule WALL_CLOCK_TIME_RE_cases[OF g])
  have uniq: "h = ?h \<and> mi = ?mi \<and> s = ?s"
    if "time = wall_clock_string h mi s" "0 \<le> h" "h \<le> 23" "0 \<le> mi" "mi \<le> 59"
    "\<forall>x. s = Some x \<longrightarrow> 0 \<le> x \<and> x \<le> 59" for h mi s
  proof -
    from that have "WALL_CLOCK_TIME_RE time = Some (p2 h, p2 mi, map_option p2 s)"
      using WALL_CLOCK_TIME_RE_string[of h mi s] by force
    with g have "g1 = p2 h" "g2 = p2 mi" "g3 = map_option p2 s" by auto
    with that show ?thesis by (cases s) (auto simp: p2_parse)
  qed
  have "(\<exists>r. combineDateAndTimeInTimezone (Some dt) time tz = Inr r) \<longleftrightarrow>
      ?h \<le> 23 \<and> ?mi \<le> 59 \<and> (\<forall>x. ?s = Some x \<longrightarrow> x \<le> 59)"
    by (auto simp: combineDateAndTimeInTimezone_def g Let_def not_less split: option.splits prod.splits)
  also have "\<dots> \<longleftrightarrow> (\<exists>h mi s. time = wall_clock_string h mi s \<and> 0 \<le> h \<and> h \<le> 23 \<and> 0 \<le> mi \<and> mi \<le> 59
        \<and> (\<forall>x. s = Some x \<longrightarrow> 0 \<le> x \<and> x \<le> 59))" (is "?L \<longleftrightarrow> ?R")
  proof
    assume ?L
    with time show ?R by (intro exI[of _ ?h] exI[of _ ?mi] exI[of _ ?s]) auto
  next
    assume ?R
    with uniq show ?L by blast
  qed
  finally show ?thesis .
qed

lemma days_from_civil_100: "days_from_civil 100 1 1 * ms_per_day = -59011459200000"
  by (simp add: days_from_civil_def ms_per_day_def)

lemma time_of_day:
  fixes k h mi s :: int
  assumes time: "0 \<le> h" "h \<le> 23" "0 \<le> mi" "mi \<le> 59" "0 \<le> s" "s \<le> 59"
  defines "w \<equiv> k * ms_per_day + h * 3600000 + mi * 60000 + s * 1000"
  shows "w div ms_per_day = k" "getUTCHours w = h" "getUTCMinutes w = mi" "getUTCSeconds w = s"
proof -
  have 0: "w = ms_per_day * k + (h * 3600000 + mi * 60000 + s * 1000)" by (simp add: w_def)
  from div_mod_unique[OF 0] time show "w div ms_per_day = k" by (simp add: ms_per_day_def)
  have 1: "w div 1000 = 60 * (1440 * k + 60 * h + mi) + s"
    by (simp add: w_def ms_per_day_def)
  from div_mod_unique[OF 1] time show "getUTCSeconds w = s" by (simp add: getUTCSeconds_def)
  have 2: "w = 60000 * (60 * (24 * k + h) + mi) + s * 1000" by (simp add: w_def ms_per_day_def)
  have 3: "w div 60000 = 60 * (24 * k + h) + mi"
    using div_mod_unique[OF 2] time by simp
  from div_mod_unique[OF 3] time show "getUTCMinutes w = mi" by (simp add: getUTCMinutes_def)
  have 4: "w = 3600000 * (24 * k + h) + (mi * 60000 + s * 1000)" by (simp add: w_def ms_per_day_def)
  have 5: "w div 3600000 = 24 * k + h" using div_mod_unique[OF 4] time by simp
  from div_mod_unique[OF 5] time show "getUTCHours w = h" by (simp add: getUTCHours_def)
qed

theorem combineDateAndTime_correct:
  fixes T a b dt h mi s :: int
  defines "tz \<equiv> zone_step T a b"
  assumes zone: "1000 dvd a" "1000 dvd b" "\<bar>a\<bar> < ms_per_day" "\<bar>b\<bar> < ms_per_day"
    and dt: "days_from_civil 101 1 1 * ms_per_day \<le> dt" "local_date tz dt = (y, m, d)"
    and time: "0 \<le> h" "h \<le> 23" "0 \<le> mi" "mi \<le> 59" "0 \<le> s" "s \<le> 59"
    and exists: "r0 + tz r0 = Date_UTC_time y (m - 1) d h mi s"
  shows "\<exists>r. combineDateAndTimeInTimezone (Some dt) (wall_clock_string h mi (Some s)) tz = Inr r
    \<and> local_date tz r = (y, m, d) \<and> getUTCHours (r + tz r) = h \<and> getUTCMinutes (r + tz r) = mi
    \<and> getUTCSeconds (r + tz r) = s"
proof -
  define w where "w = Date_UTC_time y (m - 1) d h mi s"
  define z where "z = (dt + tz dt) div ms_per_day"
  have off: "\<bar>tz t\<bar> < ms_per_day" "1000 dvd tz t" for t using zone by (auto simp: tz_def zone_step_def)
  have c: "civil_from_days z = (y, m, d)" using dt(2) by (simp add: z_def local_date_def utc_date_of_def)
  have late: "dt - 2 * ms_per_day \<le> z * ms_per_day"
    using off(1)[of dt] div_mult_mod_eq[of "dt + tz dt" ms_per_day]
      pos_mod_bound[of ms_per_day "dt + tz dt"] by (simp add: z_def ms_per_day_def)
  have "days_from_civil 101 1 1 * ms_per_day = -58979923200000"
    by (simp add: days_from_civil_def ms_per_day_def)
  with dt(1) late have z: "-58979923200000 - 2 * ms_per_day \<le> z * ms_per_day" by linarith
  then have "days_from_civil 100 1 1 \<le> z" by (simp add: days_from_civil_def ms_per_day_def)
  from year_100[OF this c] have y: "100 \<le> y" .
  have m: "1 \<le> m" "m \<le> 12" using civil_from_days_valid[OF c] by (auto simp: valid_civil_def)
  have w: "w = z * ms_per_day + h * 3600000 + mi * 60000 + s * 1000"
    by (simp add: w_def Date_UTC_time_def Date_UTC_civil[OF y m] days_from_civil_from_days[OF c])
  have wz: "zoneOffsetMsAt w tz = tz w" "zoneOffsetMsAt (w - tz w) tz = tz (w - tz w)"
  proof -
    have "-58979923200000 - 2 * ms_per_day \<le> w" using z time by (simp add: w)
    then have "days_from_civil 100 1 1 * ms_per_day \<le> w + tz w"
      "days_from_civil 100 1 1 * ms_per_day \<le> w - tz w + tz (w - tz w)"
      unfolding days_from_civil_100
      using off(1)[of w] off(1)[of "w - tz w"] unfolding ms_per_day_def by linarith+
    then show "zoneOffsetMsAt w tz = tz w" "zoneOffsetMsAt (w - tz w) tz = tz (w - tz w)"
      using off(2) by (blast intro: zoneOffsetMsAt_whole)+
  qed
  define r where "r = w - tz (w - tz w)"
  have r: "r + tz r = w"
    using exists zone_step_refinement[of r0 T a b w] by (simp add: r_def tz_def w_def)
  have re: "WALL_CLOCK_TIME_RE (wall_clock_string h mi (Some s)) = Some (p2 h, p2 mi, Some (p2 s))"
    using WALL_CLOCK_TIME_RE_string[of h mi "Some s"] time by simp
  have "combineDateAndTimeInTimezone (Some dt) (wall_clock_string h mi (Some s)) tz = Inr r"
    using time dt(2) wz
    by (simp add: combineDateAndTimeInTimezone_def re p2_def Let_def not_less nat_le_iff
        r_def flip: w_def)
  moreover have "local_date tz r = (y, m, d)"
    using time_of_day(1)[OF time, of z] by (simp add: local_date_def r utc_date_of_def w c)
  ultimately show ?thesis
    using time_of_day(2,3,4)[OF time, of z] by (auto simp: r w)
qed

subsection \<open>The date helpers of the invoice service\<close>

definition endOfMonth :: "instant \<Rightarrow> instant" where
  "endOfMonth d = Date_UTC (getUTCFullYear d) (getUTCMonth d + 1) 0"

text \<open>\<open>Math.round\<close> rounds half up.\<close>

definition daysBetweenInclusive :: "instant \<Rightarrow> instant \<Rightarrow> int" where
  "daysBetweenInclusive from to = (let ms = to - from in (2 * ms + 86400000) div (2 * 86400000) + 1)"

definition addDaysUtc :: "instant \<Rightarrow> int \<Rightarrow> instant" where
  "addDaysUtc d days =
     make_day (getUTCFullYear d) (getUTCMonth d) (getUTCDate d + days) * ms_per_day + d mod ms_per_day"

definition addMonthsUtc :: "instant \<Rightarrow> int \<Rightarrow> instant" where
  "addMonthsUtc d months = Date_UTC (getUTCFullYear d) (getUTCMonth d + months) (getUTCDate d)"

definition monthsBetween :: "instant \<Rightarrow> instant \<Rightarrow> int" where
  "monthsBetween from to =
     (let years = getUTCFullYear to - getUTCFullYear from;
          months = getUTCMonth to - getUTCMonth from;
          total = years * 12 + months;
          total = (if getUTCDate to < getUTCDate from then total - 1 else total)
      in max 0 total)"

definition monthKey :: "instant \<Rightarrow> string" where
  "monthKey d = nat_string (nat (getUTCFullYear d)) @ ''-'' @ p2 (getUTCMonth d + 1)"

definition toIsoDate :: "instant \<Rightarrow> string" where
  "toIsoDate d = nat_string (nat (getUTCFullYear d)) @ ''-'' @ p2 (getUTCMonth d + 1) @ ''-''
     @ p2 (getUTCDate d)"

lemma month_fields [simp]:
  "getUTCFullYear (month_start k) = k div 12" "getUTCMonth (month_start k) = k mod 12"
  "getUTCDate (month_start k) = 1"
  by (simp_all add: getUTCFullYear_def getUTCMonth_def getUTCDate_def)

lemma Date_UTC_month:
  assumes "1200 \<le> k"
  shows "Date_UTC (k div 12) (k mod 12 + n) d = month_start (k + n) + (d - 1) * ms_per_day"
proof -
  have 1: "(0 \<le> k div 12 \<and> k div 12 \<le> 99) = False"
    using zdiv_mono1[OF assms, of 12] by simp
  have 2: "(k mod 12 + n) mod 12 = (k + n) mod 12" by (simp add: mod_simps)
  have 3: "k div 12 + (k mod 12 + n) div 12 = (k + n) div 12"
  proof -
    have "k + n = 12 * (k div 12) + (k mod 12 + n)" by simp
    then have "(k + n) div 12 = (12 * (k div 12) + (k mod 12 + n)) div 12" by (rule arg_cong)
    also have "\<dots> = k div 12 + (k mod 12 + n) div 12" by (rule div_mult_self4) simp
    finally show ?thesis by simp
  qed
  show ?thesis
    by (simp only: Date_UTC_def make_day_def month_start_def 1 2 3 if_False distrib_right)
qed

theorem addMonthsUtc_month_start: "1200 \<le> k \<Longrightarrow> addMonthsUtc (month_start k) n = month_start (k + n)"
  by (simp add: addMonthsUtc_def Date_UTC_month)

theorem endOfMonth_month_start:
  "1200 \<le> k \<Longrightarrow> endOfMonth (month_start k) = month_start (k + 1) - ms_per_day"
  by (simp add: endOfMonth_def Date_UTC_month)

lemma daysBetweenInclusive_days: "daysBetweenInclusive a (a + n * ms_per_day) = n + 1"
proof -
  have "2 * (n * 86400000) + 86400000 = 172800000 * n + 86400000" for n :: int by simp
  with div_mod_unique[of "172800000 * n + 86400000" 172800000 n 86400000]
  show ?thesis by (simp add: daysBetweenInclusive_def ms_per_day_def)
qed

theorem daysBetweenInclusive_month:
  "1200 \<le> k \<Longrightarrow> daysBetweenInclusive (month_start k) (endOfMonth (month_start k)) = days_of_month k"
  using daysBetweenInclusive_days[of "month_start k" "days_of_month k - 1"]
  by (simp add: endOfMonth_month_start month_start_Suc left_diff_distrib add_diff_eq)

theorem addDaysUtc_eq: "addDaysUtc d n = d + n * ms_per_day"
proof -
  obtain y m dd where c: "civil_from_days (d div ms_per_day) = (y, m, dd)"
    by (cases "civil_from_days (d div ms_per_day)") auto
  have m: "1 \<le> m" "m \<le> 12" using civil_from_days_valid[OF c] by (auto simp: valid_civil_def)
  have "days_from_civil y m (dd + n) = days_from_civil y m dd + n"
    by (simp add: days_from_civil_def Let_def)
  then have "make_day y (m - 1) (dd + n) = d div ms_per_day + n"
    by (simp only: make_day_civil[OF m] days_from_civil_from_days[OF c])
  then have "addDaysUtc d n = (d div ms_per_day + n) * ms_per_day + d mod ms_per_day"
    by (simp add: addDaysUtc_def getUTCFullYear_def getUTCMonth_def getUTCDate_def utc_date_of_def c)
  also have "\<dots> = d div ms_per_day * ms_per_day + d mod ms_per_day + n * ms_per_day"
    by (simp only: distrib_right add.commute add.left_commute add.assoc)
  finally show ?thesis by simp
qed

lemma month_start_less: "month_start k < month_start (k + 1)"
  using days_of_month_bounds(1)[of k] by (simp add: month_start_Suc ms_per_day_def)

lemma month_start_mono_nat: "0 < n \<Longrightarrow> month_start k < month_start (k + int n)"
proof (induction n)
  case (Suc n)
  then show ?case
    using month_start_less[of "k + int n"] by (cases "n = 0") (auto simp: algebra_simps)
qed simp

theorem month_start_less_iff [simp]: "month_start j < month_start k \<longleftrightarrow> j < k"
proof -
  have l: "j < k \<Longrightarrow> month_start j < month_start k" for j k :: int
    using month_start_mono_nat[of "nat (k - j)" j] by simp
  show ?thesis
    using l[of j k] l[of k j] by (cases j k rule: linorder_cases) auto
qed

lemma month_start_eq_iff [simp]: "month_start j = month_start k \<longleftrightarrow> j = k"
  by (metis less_irrefl linorder_neqE month_start_less_iff)

lemma month_start_le_iff [simp]: "month_start j \<le> month_start k \<longleftrightarrow> j \<le> k"
  by (simp flip: not_less)

lemma monthsBetween_month_start: "monthsBetween (month_start j) (month_start k) = max 0 (k - j)"
proof -
  have "(q' - q) * 12 + (r' - r) = (12 * q' + r') - (12 * q + r)" for q q' r r' :: int by simp
  from this[of "k div 12" "j div 12" "k mod 12" "j mod 12"]
  have "(k div 12 - j div 12) * 12 + (k mod 12 - j mod 12) = k - j"
    by (simp only: mult_div_mod_eq)
  then show ?thesis by (simp only: monthsBetween_def Let_def month_fields) simp
qed

text \<open>\<open>monthKey\<close> identifies the month.\<close>

lemma append_sep_inject:
  assumes "a @ c # b = a' @ c # b'" "c \<notin> set a" "c \<notin> set a'"
  shows "a = a' \<and> b = b'"
  using assms
proof (induction a arbitrary: a')
  case Nil
  then show ?case by (cases a') auto
next
  case (Cons x a)
  then show ?case by (cases a') auto
qed

theorem monthKey_month_start:
  assumes "0 \<le> j" "0 \<le> k"
  shows "monthKey (month_start j) = monthKey (month_start k) \<longleftrightarrow> j = k"
proof
  assume eq: "monthKey (month_start j) = monthKey (month_start k)"
  have "nat_string (nat (j div 12)) = nat_string (nat (k div 12)) \<and> p2 (j mod 12 + 1) = p2 (k mod 12 + 1)"
    using eq digit_not_sep[OF digits_nat_string]
    by (intro append_sep_inject[where c = "CHR ''-''"]) (simp_all add: monthKey_def)
  then have "nat (j div 12) = nat (k div 12)" "parse_digits (p2 (j mod 12 + 1)) = parse_digits (p2 (k mod 12 + 1))"
    using parse_digits_nat_string by metis+
  then have "j div 12 = k div 12" "j mod 12 = k mod 12"
    using assms by (simp_all add: p2_def eq_nat_nat_iff)
  then show "j = k" by (metis mult_div_mod_eq)
qed simp

subsection \<open>Walking over months\<close>

lemma make_day_next:
  assumes "1 \<le> m" "m \<le> 12"
  shows "make_day y m d = days_from_civil y m d + days_in_month y m"
proof -
  have "y + m div 12 = (if m = 12 then y + 1 else y)" "m mod 12 + 1 = (if m = 12 then 1 else m + 1)"
    using assms by auto
  then have "make_day y m d = days_from_civil y m 1 + days_in_month y m + (d - 1)"
    by (simp only: make_day_def next_month_first[OF assms])
  also have "\<dots> = days_from_civil y m d + days_in_month y m"
    by (subst (2) days_from_civil_day) simp
  finally show ?thesis .
qed

lemma days_from_civil_1900: "days_from_civil y m d \<le> days_from_civil (1900 + y) m d"
proof -
  have d4: "(1900 + z) div 4 = 475 + z div 4" for z :: int
    using div_mult_self4[of 4 475 z] by simp
  have d100: "(1900 + z) div 100 = 19 + z div 100" for z :: int
    using div_mult_self4[of 100 19 z] by simp
  have d400: "z div 400 \<le> (1900 + z) div 400" for z :: int by (simp add: zdiv_mono1)
  define g where "g z = 365 * z + z div 4 - z div 100 + z div 400" for z :: int
  have g: "g z \<le> g (1900 + z)" for z unfolding g_def d4 d100 using d400[of z] by simp
  have e: "days_from_civil y m d = g (if m \<le> 2 then y - 1 else y)
      + ((153 * (if m > 2 then m - 3 else m + 9) + 2) div 5 + d - 1 - 719468)" for y
    by (simp add: days_from_civil_def Let_def g_def)
  show ?thesis unfolding e using g[of y] g[of "y - 1"] by (simp add: add_diff_eq)
qed

text \<open>A month later is later, so a walk over months ends.\<close>

lemma addMonthsUtc_greater: "d < addMonthsUtc d 1"
proof -
  obtain y m dd where c: "civil_from_days (d div ms_per_day) = (y, m, dd)"
    by (cases "civil_from_days (d div ms_per_day)") auto
  have m: "1 \<le> m" "m \<le> 12" using civil_from_days_valid[OF c] by (auto simp: valid_civil_def)
  have z: "days_from_civil y m dd = d div ms_per_day" by (rule days_from_civil_from_days[OF c])
  have dim: "28 \<le> days_in_month y m" for y by (auto simp: days_in_month_def)
  define Y where "Y = (if 0 \<le> y \<and> y \<le> 99 then 1900 + y else y)"
  have "days_from_civil y m dd \<le> days_from_civil Y m dd"
    using days_from_civil_1900[of y m dd] by (simp add: Y_def)
  then have "d div ms_per_day + 28 \<le> make_day Y m dd"
    using make_day_next[OF m, of Y dd] dim[of Y] z by linarith
  moreover have "addMonthsUtc d 1 = make_day Y m dd * ms_per_day"
    by (simp add: addMonthsUtc_def Date_UTC_def Y_def getUTCFullYear_def getUTCMonth_def getUTCDate_def
        utc_date_of_def c)
  ultimately have "(d div ms_per_day + 28) * ms_per_day \<le> addMonthsUtc d 1"
    by (simp add: ms_per_day_def)
  moreover have "d < (d div ms_per_day + 28) * ms_per_day"
    using mult_div_mod_eq[of ms_per_day d] pos_mod_bound[of ms_per_day d]
    by (simp add: ms_per_day_def)
  ultimately show ?thesis by simp
qed

function month_walk :: "instant \<Rightarrow> instant \<Rightarrow> instant list" where
  "month_walk m until = (if m \<le> until then m # month_walk (addMonthsUtc m 1) until else [])"
  by pat_completeness auto

termination
  using addMonthsUtc_greater by (relation "measure (\<lambda>(m, until). nat (until + 1 - m))") auto

declare month_walk.simps [simp del]

theorem month_walk_window:
  assumes "1200 \<le> k"
  shows "month_walk (month_start k) (endOfMonth (month_start (k + int n))) = map (\<lambda>i. month_start (k + int i)) [0..<Suc n]"
proof -
  have "month_walk (month_start (k + int i)) (month_start (k + int n + 1) - ms_per_day)
      = map (\<lambda>i. month_start (k + int i)) [i..<Suc n]" if "i \<le> Suc n" for i
    using that
  proof (induction i rule: inc_induct)
    case base
    have "\<not> month_start (k + int (Suc n)) \<le> month_start (k + int n + 1) - ms_per_day"
      by (simp add: ms_per_day_def algebra_simps)
    then show ?case by (subst month_walk.simps) simp
  next
    case (step i)
    have nxt: "addMonthsUtc (month_start (k + int i)) 1 = month_start (k + int (Suc i))"
      using addMonthsUtc_month_start[of "k + int i" 1] assms by (simp add: algebra_simps)
    have "month_start (k + int i) + 28 * ms_per_day \<le> month_start (k + int i + 1)"
      using days_of_month_bounds(1)[of "k + int i"] by (simp add: month_start_Suc ms_per_day_def)
    moreover have "month_start (k + int i + 1) \<le> month_start (k + int n + 1)" using step by simp
    moreover have "0 < ms_per_day" by (simp add: ms_per_day_def)
    ultimately have "month_start (k + int i) \<le> month_start (k + int n + 1) - ms_per_day"
      by linarith
    then show ?case
      using step by (subst month_walk.simps) (simp add: nxt upt_conv_Cons)
  qed
  from this[of 0] assms show ?thesis by (simp add: endOfMonth_month_start)
qed

end
