(* ===== verification/Conditions.thy ===== *)
theory Conditions
  imports Invoice Json Dates
begin

text \<open>
  The conditions of custom discounts: the validator of the \<open>jsonb\<close> blob and the evaluator of
  \<open>src/modules/billing/domain/discount-conditions/conditions-evaluator.ts\<close>. The unions of string
  literals of the source are strings here, checked against the same lists of known values.
\<close>

datatype cond_error = ConditionsInvalid string "string option"

datatype ComparisonOp = OpGte | OpEq

datatype LeafCondition =
    PrepaymentMonths ComparisonOp int
  | SiblingsCount ComparisonOp int
  | AgeRange int int
  | BenefitCategoryIn "string list"
  | PaymentMethodIn "string list"
  | EarlyPayment int
  | BirthdayMonth
  | DateRange string string
  | FirstInvoice
  | TariffTypes "string list"

text \<open>The catalogue default \<open>{}\<close> is \<open>CEmpty\<close>.\<close>

datatype DiscountCondition = CEmpty | CLeaf LeafCondition | CAllOf "DiscountCondition list"
  | CAnyOf "DiscountCondition list"

record EvalContext =
  ctx_invoiceType :: InvoiceType
  ctx_periodStart :: instant
  ctx_periodEnd :: instant
  ctx_amountDue :: rat
  ctx_dueDate :: instant
  ctx_childId :: uuid
  ctx_birthDate :: instant
  ctx_currentGroupId :: "uuid option"
  ctx_ageInMonths :: int
  ctx_benefitCategory :: "string option"
  ctx_siblingsInKgCount :: int
  ctx_isFirstInvoiceForChild :: bool
  ctx_paymentMethod :: "string option"
  ctx_prepaymentMonths :: "int option"
  ctx_paidEarlyDays :: "int option"
  ctx_now :: instant

definition MAX_DEPTH :: nat where "MAX_DEPTH = 3"
definition MAX_WIDTH :: nat where "MAX_WIDTH = 20"

definition KNOWN_LEAF_TYPES :: "string list" where
  "KNOWN_LEAF_TYPES = [''prepayment_months'', ''siblings_count'', ''age_range'', ''benefit_category'',
     ''payment_method'', ''early_payment'', ''birthday_month'', ''date_range'', ''first_invoice'',
     ''tariff_types'']"

definition KNOWN_BENEFIT_CATEGORIES :: "string list" where
  "KNOWN_BENEFIT_CATEGORIES = [''multi_child'', ''disability'', ''single_mother'', ''mother_heroine'']"

definition KNOWN_PAYMENT_METHODS :: "string list" where
  "KNOWN_PAYMENT_METHODS = [''kaspi_pay'', ''halyk_epay'', ''bcc'', ''cash'', ''bank_transfer'']"

definition KNOWN_INVOICE_TYPES :: "string list" where
  "KNOWN_INVOICE_TYPES = [''monthly'', ''prepayment_3m'', ''prepayment_6m'', ''prepayment_12m'',
     ''prepayment_24m'', ''additional_service'', ''late_pickup_fee'', ''other'']"

fun invoice_type_code :: "InvoiceType \<Rightarrow> string" where
  "invoice_type_code Monthly = ''monthly''"
| "invoice_type_code Prepayment3m = ''prepayment_3m''"
| "invoice_type_code Prepayment6m = ''prepayment_6m''"
| "invoice_type_code Prepayment12m = ''prepayment_12m''"
| "invoice_type_code Prepayment24m = ''prepayment_24m''"
| "invoice_type_code AdditionalService = ''additional_service''"
| "invoice_type_code LatePickupFee = ''late_pickup_fee''"
| "invoice_type_code OtherInvoice = ''other''"

subsection \<open>The schema validator\<close>

definition comparison_op :: "json option \<Rightarrow> ComparisonOp option" where
  "comparison_op v = (case v of Some (JStr s) \<Rightarrow>
      if s = ''gte'' then Some OpGte else if s = ''eq'' then Some OpEq else None | _ \<Rightarrow> None)"

definition isFiniteNonNegInt :: "json option \<Rightarrow> int option" where
  "isFiniteNonNegInt v = (case v of Some (JNum q) \<Rightarrow>
      if of_int \<lfloor>q\<rfloor> = q \<and> q \<ge> 0 then Some \<lfloor>q\<rfloor> else None | _ \<Rightarrow> None)"

fun known_string :: "string list \<Rightarrow> json \<Rightarrow> string option" where
  "known_string known (JStr s) = (if List.member known s then Some s else None)"
| "known_string known _ = None"

definition known_strings :: "string list \<Rightarrow> json option \<Rightarrow> string list option" where
  "known_strings known v = (case v of Some (JArr arr) \<Rightarrow>
      those (map (known_string known) arr) | _ \<Rightarrow> None)"

fun ISO_DATE_RE :: "string \<Rightarrow> bool" where
  "ISO_DATE_RE [y1, y2, y3, y4, s1, m1, m2, s2, d1, d2] \<longleftrightarrow>
     list_all is_digit [y1, y2, y3, y4, m1, m2, d1, d2] \<and> s1 = CHR ''-'' \<and> s2 = CHR ''-''"
| "ISO_DATE_RE _ \<longleftrightarrow> False"

definition iso_date :: "json option \<Rightarrow> string option" where
  "iso_date v = (case v of Some (JStr s) \<Rightarrow> if ISO_DATE_RE s then Some s else None | _ \<Rightarrow> None)"

definition field_error :: "string \<Rightarrow> string \<Rightarrow> cond_error" where
  "field_error path field = ConditionsInvalid ''invalid_condition_field'' (Some (path @ ''.'' @ field))"

definition iso_date_error :: "string \<Rightarrow> string \<Rightarrow> cond_error" where
  "iso_date_error path field = ConditionsInvalid ''invalid_date_format'' (Some (path @ ''.'' @ field))"

definition need :: "'a option \<Rightarrow> cond_error \<Rightarrow> ('a \<Rightarrow> cond_error + 'b) \<Rightarrow> cond_error + 'b" where
  "need v e k = (case v of None \<Rightarrow> Inl e | Some x \<Rightarrow> k x)"

definition validateLeaf :: "json_object \<Rightarrow> string \<Rightarrow> string \<Rightarrow> cond_error + LeafCondition" where
  "validateLeaf node type path =
     (let fld = map_of node; fieldErr = field_error path in
      if type = ''prepayment_months'' \<or> type = ''siblings_count'' then
        need (comparison_op (fld ''op'')) (fieldErr ''op'') (\<lambda>op.
        need (isFiniteNonNegInt (fld ''value'')) (fieldErr ''value'') (\<lambda>value.
          Inr (if type = ''prepayment_months'' then PrepaymentMonths op value else SiblingsCount op value)))
      else if type = ''age_range'' then
        need (isFiniteNonNegInt (fld ''from_months'')) (fieldErr ''from_months'') (\<lambda>from.
        need (isFiniteNonNegInt (fld ''to_months'')) (fieldErr ''to_months'') (\<lambda>to.
          if from > to then Inl (fieldErr ''from_months'') else Inr (AgeRange from to)))
      else if type = ''benefit_category'' then
        need (known_strings KNOWN_BENEFIT_CATEGORIES (fld ''in'')) (fieldErr ''in'')
          (\<lambda>arr. Inr (BenefitCategoryIn arr))
      else if type = ''payment_method'' then
        need (known_strings KNOWN_PAYMENT_METHODS (fld ''in'')) (fieldErr ''in'')
          (\<lambda>arr. Inr (PaymentMethodIn arr))
      else if type = ''early_payment'' then
        need (isFiniteNonNegInt (fld ''days_before_due'')) (fieldErr ''days_before_due'')
          (\<lambda>days. Inr (EarlyPayment days))
      else if type = ''birthday_month'' then Inr BirthdayMonth
      else if type = ''date_range'' then
        need (iso_date (fld ''from'')) (iso_date_error path ''from'') (\<lambda>from.
        need (iso_date (fld ''to'')) (iso_date_error path ''to'') (\<lambda>to.
        need (date_of_iso_day from) (iso_date_error path ''from'') (\<lambda>_.
        need (date_of_iso_day to) (iso_date_error path ''to'') (\<lambda>_. Inr (DateRange from to)))))
      else if type = ''first_invoice'' then Inr FirstInvoice
      else if type = ''tariff_types'' then
        need (known_strings KNOWN_INVOICE_TYPES (fld ''in'')) (fieldErr ''in'')
          (\<lambda>arr. Inr (TariffTypes arr))
      else Inl (ConditionsInvalid ''unknown_condition_type'' (Some path)))"

text \<open>\<open>children.map(f)\<close> with the index, up to the first call that throws.\<close>

fun traverse :: "(nat \<Rightarrow> 'a \<Rightarrow> 'e + 'b) \<Rightarrow> nat \<Rightarrow> 'a list \<Rightarrow> 'e + 'b list" where
  "traverse f i [] = Inr []"
| "traverse f i (c # cs) =
     (case f i c of Inl e \<Rightarrow> Inl e
      | Inr v \<Rightarrow> (case traverse f (Suc i) cs of Inl e \<Rightarrow> Inl e | Inr vs \<Rightarrow> Inr (v # vs)))"

lemma traverse_cong [fundef_cong]:
  "i = i' \<Longrightarrow> cs = cs' \<Longrightarrow> (\<And>j c. c \<in> set cs' \<Longrightarrow> f j c = f' j c) \<Longrightarrow> traverse f i cs = traverse f' i' cs'"
proof (induction cs arbitrary: i i' cs')
  case (Cons c cs)
  have "traverse f (Suc i) cs = traverse f' (Suc i') cs" using Cons by (intro Cons.IH) auto
  with Cons.prems show ?case by (auto split: sum.splits)
qed auto

text \<open>The key of the children of a composite node: \<open>all_of\<close> wins when both are present.\<close>

definition childKey :: "json_object \<Rightarrow> string option" where
  "childKey obj =
     (if map_of obj ''all_of'' \<noteq> None then Some ''all_of''
      else if map_of obj ''any_of'' \<noteq> None then Some ''any_of'' else None)"

definition validateTyped :: "json_object \<Rightarrow> string \<Rightarrow> cond_error + DiscountCondition" where
  "validateTyped obj path =
     (case map_of obj ''type'' of
        Some (JStr type) \<Rightarrow>
          if List.member KNOWN_LEAF_TYPES type
          then (case validateLeaf obj type path of Inl e \<Rightarrow> Inl e | Inr l \<Rightarrow> Inr (CLeaf l))
          else Inl (ConditionsInvalid ''unknown_condition_type'' (Some path))
      | _ \<Rightarrow> Inl (ConditionsInvalid ''unknown_condition_type'' (Some path)))"

function validateNode :: "json \<Rightarrow> nat \<Rightarrow> string \<Rightarrow> cond_error + DiscountCondition" where
  "validateNode node depth path =
     (if depth > MAX_DEPTH then Inl (ConditionsInvalid ''conditions_depth_limit_exceeded'' (Some path))
      else case node of
        JObj obj \<Rightarrow>
          (case childKey obj of
             Some key \<Rightarrow>
               (case map_of obj key of
                  Some (JArr children) \<Rightarrow>
                    if length children > MAX_WIDTH
                    then Inl (ConditionsInvalid ''conditions_width_limit_exceeded''
                                (Some (path @ ''.'' @ key)))
                    else
                     (case traverse (\<lambda>i c. validateNode c (depth + 1)
                              (path @ ''.'' @ key @ ''['' @ nat_string i @ '']'')) 0 children of
                        Inl e \<Rightarrow> Inl e
                      | Inr validated \<Rightarrow>
                          Inr (if key = ''all_of'' then CAllOf validated else CAnyOf validated))
                | _ \<Rightarrow> Inl (field_error path key))
           | None \<Rightarrow> validateTyped obj path)
      | _ \<Rightarrow> Inl (ConditionsInvalid ''invalid_root_shape'' (Some path)))"
  by pat_completeness auto

text \<open>The depth limit bounds the recursion.\<close>

termination
  by (relation "measure (\<lambda>(node, depth, path). Suc MAX_DEPTH - depth)") auto

declare validateNode.simps [simp del]

definition validateConditionsSchema :: "json \<Rightarrow> cond_error + DiscountCondition" where
  "validateConditionsSchema conditions =
     (case conditions of
        JObj [] \<Rightarrow> Inr CEmpty
      | JObj obj \<Rightarrow> validateNode conditions 0 ''$''
      | _ \<Rightarrow> Inl (ConditionsInvalid ''invalid_root_shape'' None))"

subsection \<open>The evaluator\<close>

definition compare_op :: "ComparisonOp \<Rightarrow> int \<Rightarrow> int \<Rightarrow> bool" where
  "compare_op op lhs rhs = (case op of OpGte \<Rightarrow> lhs \<ge> rhs | OpEq \<Rightarrow> lhs = rhs)"

text \<open>Comparisons with the NaN of an unparsable date are false.\<close>

fun evaluateLeaf :: "LeafCondition \<Rightarrow> EvalContext \<Rightarrow> bool" where
  "evaluateLeaf (PrepaymentMonths op value) ctx =
     (case ctx_prepaymentMonths ctx of None \<Rightarrow> False | Some m \<Rightarrow> compare_op op m value)"
| "evaluateLeaf (SiblingsCount op value) ctx = compare_op op (ctx_siblingsInKgCount ctx) value"
| "evaluateLeaf (AgeRange from to) ctx = (let a = ctx_ageInMonths ctx in a \<ge> from \<and> a \<le> to)"
| "evaluateLeaf (BenefitCategoryIn cats) ctx =
     (case ctx_benefitCategory ctx of None \<Rightarrow> False | Some c \<Rightarrow> List.member cats c)"
| "evaluateLeaf (PaymentMethodIn ms) ctx =
     (case ctx_paymentMethod ctx of None \<Rightarrow> False | Some m \<Rightarrow> List.member ms m)"
| "evaluateLeaf (EarlyPayment days) ctx =
     (case ctx_paidEarlyDays ctx of None \<Rightarrow> False | Some d \<Rightarrow> d \<ge> days)"
| "evaluateLeaf BirthdayMonth ctx =
     (getUTCMonth (ctx_birthDate ctx) = getUTCMonth (ctx_periodStart ctx))"
| "evaluateLeaf (DateRange from to) ctx =
     (case (date_of_iso_day from, date_of_iso_day to) of
        (Some f, Some t) \<Rightarrow> ctx_now ctx \<ge> f \<and> ctx_now ctx \<le> t + 86399999
      | _ \<Rightarrow> False)"
| "evaluateLeaf FirstInvoice ctx = ctx_isFirstInvoiceForChild ctx"
| "evaluateLeaf (TariffTypes ts) ctx = List.member ts (invoice_type_code (ctx_invoiceType ctx))"

text \<open>\<open>Array.prototype.every\<close> and \<open>some\<close> with a callback that may throw.\<close>

fun everyE :: "('a \<Rightarrow> 'e + bool) \<Rightarrow> 'a list \<Rightarrow> 'e + bool" where
  "everyE f [] = Inr True"
| "everyE f (c # cs) = (case f c of Inl e \<Rightarrow> Inl e | Inr b \<Rightarrow> if b then everyE f cs else Inr False)"

fun someE :: "('a \<Rightarrow> 'e + bool) \<Rightarrow> 'a list \<Rightarrow> 'e + bool" where
  "someE f [] = Inr False"
| "someE f (c # cs) = (case f c of Inl e \<Rightarrow> Inl e | Inr b \<Rightarrow> if b then Inr True else someE f cs)"

lemma everyE_cong [fundef_cong]:
  "cs = cs' \<Longrightarrow> (\<And>c. c \<in> set cs' \<Longrightarrow> f c = f' c) \<Longrightarrow> everyE f cs = everyE f' cs'"
  by (induction cs arbitrary: cs') (auto split: sum.splits)

lemma someE_cong [fundef_cong]:
  "cs = cs' \<Longrightarrow> (\<And>c. c \<in> set cs' \<Longrightarrow> f c = f' c) \<Longrightarrow> someE f cs = someE f' cs'"
  by (induction cs arbitrary: cs') (auto split: sum.splits)

fun evaluateConditions :: "DiscountCondition \<Rightarrow> EvalContext \<Rightarrow> nat \<Rightarrow> cond_error + bool" where
  "evaluateConditions c ctx depth =
     (if depth > MAX_DEPTH then Inl (ConditionsInvalid ''conditions_depth_limit_exceeded'' None)
      else case c of
        CEmpty \<Rightarrow> Inr True
      | CAllOf arr \<Rightarrow> everyE (\<lambda>c. evaluateConditions c ctx (depth + 1)) arr
      | CAnyOf arr \<Rightarrow> someE (\<lambda>c. evaluateConditions c ctx (depth + 1)) arr
      | CLeaf l \<Rightarrow> Inr (evaluateLeaf l ctx))"

declare evaluateConditions.simps [simp del]

subsection \<open>Accepted conditions\<close>

fun leaf_ok :: "LeafCondition \<Rightarrow> bool" where
  "leaf_ok (PrepaymentMonths op v) \<longleftrightarrow> 0 \<le> v"
| "leaf_ok (SiblingsCount op v) \<longleftrightarrow> 0 \<le> v"
| "leaf_ok (AgeRange from to) \<longleftrightarrow> 0 \<le> from \<and> from \<le> to"
| "leaf_ok (BenefitCategoryIn cs) \<longleftrightarrow> set cs \<subseteq> set KNOWN_BENEFIT_CATEGORIES"
| "leaf_ok (PaymentMethodIn ms) \<longleftrightarrow> set ms \<subseteq> set KNOWN_PAYMENT_METHODS"
| "leaf_ok (EarlyPayment d) \<longleftrightarrow> 0 \<le> d"
| "leaf_ok BirthdayMonth \<longleftrightarrow> True"
| "leaf_ok (DateRange from to) \<longleftrightarrow> date_of_iso_day from \<noteq> None \<and> date_of_iso_day to \<noteq> None"
| "leaf_ok FirstInvoice \<longleftrightarrow> True"
| "leaf_ok (TariffTypes ts) \<longleftrightarrow> set ts \<subseteq> set KNOWN_INVOICE_TYPES"

text \<open>\<open>cond_ok n c\<close>: at most \<open>n\<close> levels of nesting, at most \<open>MAX_WIDTH\<close> branches per node.\<close>

fun cond_ok :: "nat \<Rightarrow> DiscountCondition \<Rightarrow> bool" where
  "cond_ok n CEmpty \<longleftrightarrow> False"
| "cond_ok n (CLeaf l) \<longleftrightarrow> leaf_ok l"
| "cond_ok n (CAllOf cs) \<longleftrightarrow> length cs \<le> MAX_WIDTH \<and> (\<forall>c\<in>set cs. 0 < n \<and> cond_ok (n - 1) c)"
| "cond_ok n (CAnyOf cs) \<longleftrightarrow> length cs \<le> MAX_WIDTH \<and> (\<forall>c\<in>set cs. 0 < n \<and> cond_ok (n - 1) c)"

text \<open>The meaning of a condition, without depth counting or errors.\<close>

fun cond_holds :: "EvalContext \<Rightarrow> DiscountCondition \<Rightarrow> bool" where
  "cond_holds ctx CEmpty \<longleftrightarrow> True"
| "cond_holds ctx (CLeaf l) \<longleftrightarrow> evaluateLeaf l ctx"
| "cond_holds ctx (CAllOf cs) \<longleftrightarrow> (\<forall>c\<in>set cs. cond_holds ctx c)"
| "cond_holds ctx (CAnyOf cs) \<longleftrightarrow> (\<exists>c\<in>set cs. cond_holds ctx c)"

lemma known_strings_subset: "known_strings known v = Some xs \<Longrightarrow> set xs \<subseteq> set known"
proof -
  have "those (map (known_string known) arr) = Some xs \<Longrightarrow> set xs \<subseteq> set known" for arr xs
  proof (induction arr arbitrary: xs)
    case (Cons a arr)
    then show ?case
      by (cases a) (auto split: option.splits if_splits)
  qed simp
  then show "known_strings known v = Some xs \<Longrightarrow> set xs \<subseteq> set known"
    by (auto simp: known_strings_def split: option.splits json.splits)
qed

lemma isFiniteNonNegInt_nonneg: "isFiniteNonNegInt v = Some n \<Longrightarrow> 0 \<le> n"
  by (auto simp: isFiniteNonNegInt_def split: option.splits json.splits if_splits)

lemma need_eq_Inr: "need v e k = Inr r \<longleftrightarrow> (\<exists>x. v = Some x \<and> k x = Inr r)"
  by (auto simp: need_def split: option.splits)

lemma validateLeaf_ok: "validateLeaf node type path = Inr l \<Longrightarrow> leaf_ok l"
  by (auto simp: validateLeaf_def Let_def need_eq_Inr dest: known_strings_subset isFiniteNonNegInt_nonneg
      split: if_splits)

lemma traverse_Inr:
  "traverse f i cs = Inr vs \<Longrightarrow> length vs = length cs \<and> (\<forall>v\<in>set vs. \<exists>j. \<exists>c\<in>set cs. f j c = Inr v)"
  by (induction cs arbitrary: i vs) (fastforce split: sum.splits)+

lemma traverse_map_Inr:
  "(\<And>j c. c \<in> set cs \<Longrightarrow> f j (g c) = Inr c) \<Longrightarrow> traverse f i (map g cs) = Inr cs"
  by (induction cs arbitrary: i) auto

text \<open>What an accepted node looks like.\<close>

lemma validateNode_obj: "depth \<le> MAX_DEPTH \<Longrightarrow> validateNode (JObj obj) depth path =
  (case childKey obj of
     Some key \<Rightarrow>
       (case map_of obj key of
          Some (JArr children) \<Rightarrow>
            if length children > MAX_WIDTH
            then Inl (ConditionsInvalid ''conditions_width_limit_exceeded'' (Some (path @ ''.'' @ key)))
            else
             (case traverse (\<lambda>i c. validateNode c (depth + 1)
                      (path @ ''.'' @ key @ ''['' @ nat_string i @ '']'')) 0 children of
                Inl e \<Rightarrow> Inl e
              | Inr validated \<Rightarrow>
                  Inr (if key = ''all_of'' then CAllOf validated else CAnyOf validated))
        | _ \<Rightarrow> Inl (field_error path key))
   | None \<Rightarrow> validateTyped obj path)"
  by (subst validateNode.simps) (simp only: json.case not_less[symmetric] if_False)

lemma validateNode_InrE:
  assumes "validateNode node depth path = Inr c"
  obtains
    (composite) obj key children vs path' where "depth \<le> MAX_DEPTH" "node = JObj obj"
      "map_of obj key = Some (JArr children)" "length children \<le> MAX_WIDTH"
      "traverse (\<lambda>i c. validateNode c (depth + 1) (path' i)) 0 children = Inr vs"
      "c = CAllOf vs \<or> c = CAnyOf vs"
  | (leaf) obj type l where "depth \<le> MAX_DEPTH" "node = JObj obj"
      "validateLeaf obj type path = Inr l" "c = CLeaf l"
proof (cases "depth \<le> MAX_DEPTH \<and> (\<exists>obj. node = JObj obj)")
  case False
  with assms show ?thesis
    unfolding validateNode.simps[of node depth path] by (auto split: json.splits if_splits)
next
  case True
  then obtain obj where obj: "depth \<le> MAX_DEPTH" "node = JObj obj" by blast
  note unf = assms[unfolded obj(2) validateNode_obj[OF obj(1)]]
  show ?thesis
  proof (cases "childKey obj")
    case (Some key)
    with unf obtain children where ch: "map_of obj key = Some (JArr children)" "length children \<le> MAX_WIDTH"
      by (auto simp: not_less split: option.splits json.splits if_splits)
    let ?f = "\<lambda>i. path @ ''.'' @ key @ ''['' @ nat_string i @ '']''"
    from unf Some ch obtain vs
      where "traverse (\<lambda>i c. validateNode c (depth + 1) (?f i)) 0 children = Inr vs"
        "c = (if key = ''all_of'' then CAllOf vs else CAnyOf vs)"
      by (simp split: sum.splits)
    with composite[OF obj ch, of ?f vs] show ?thesis by (simp split: if_splits)
  next
    case None
    with unf show ?thesis
      using leaf[OF obj] by (auto simp: validateTyped_def split: option.splits json.splits if_splits sum.splits)
  qed
qed

lemma validateNode_ok:
  "validateNode node depth path = Inr c \<Longrightarrow> depth \<le> MAX_DEPTH \<and> cond_ok (MAX_DEPTH - depth) c"
proof (induction "Suc MAX_DEPTH - depth" arbitrary: node depth path c rule: less_induct)
  case less
  from less(2) show ?case
  proof (cases rule: validateNode_InrE)
    case (composite obj key children vs path')
    have "depth + 1 \<le> MAX_DEPTH \<and> cond_ok (MAX_DEPTH - (depth + 1)) v" if v: "v \<in> set vs" for v
    proof -
      from traverse_Inr[OF composite(5)] v
      obtain j ch where "validateNode ch (depth + 1) (path' j) = Inr v" by blast
      from less(1)[OF _ this] composite(1) show ?thesis by simp
    qed
    with composite(1,4,6) traverse_Inr[OF composite(5)] show ?thesis
      by (auto simp: Suc_le_eq)
  next
    case (leaf obj type l)
    then show ?thesis by (auto dest: validateLeaf_ok)
  qed
qed

theorem validateConditionsSchema_ok:
  "validateConditionsSchema j = Inr c \<Longrightarrow> c = CEmpty \<or> cond_ok MAX_DEPTH c"
  using validateNode_ok[of j 0 "''$''" c]
  by (auto simp: validateConditionsSchema_def split: json.splits list.splits)

lemma everyE_Inr: "(\<And>c. c \<in> set cs \<Longrightarrow> f c = Inr (P c)) \<Longrightarrow> everyE f cs = Inr (\<forall>c\<in>set cs. P c)"
  and someE_Inr: "(\<And>c. c \<in> set cs \<Longrightarrow> f c = Inr (P c)) \<Longrightarrow> someE f cs = Inr (\<exists>c\<in>set cs. P c)"
  by (induction cs) auto

text \<open>The evaluator computes the boolean meaning of every accepted condition and never throws.\<close>

lemma evaluateConditions_ok:
  "cond_ok n c \<Longrightarrow> depth + n \<le> MAX_DEPTH \<Longrightarrow> evaluateConditions c ctx depth = Inr (cond_holds ctx c)"
proof (induction n c arbitrary: depth rule: cond_ok.induct)
  case (3 n cs)
  then have "everyE (\<lambda>c. evaluateConditions c ctx (depth + 1)) cs = Inr (\<forall>c\<in>set cs. cond_holds ctx c)"
    by (intro everyE_Inr) (auto simp: Ball_def)
  with 3(3) show ?case by (simp add: evaluateConditions.simps[of _ _ depth])
next
  case (4 n cs)
  then have "someE (\<lambda>c. evaluateConditions c ctx (depth + 1)) cs = Inr (\<exists>c\<in>set cs. cond_holds ctx c)"
    by (intro someE_Inr) (auto simp: Ball_def)
  with 4(3) show ?case by (simp add: evaluateConditions.simps[of _ _ depth])
qed (simp_all add: evaluateConditions.simps)

theorem evaluateConditions_accepted:
  assumes "validateConditionsSchema j = Inr c"
  shows "evaluateConditions c ctx 0 = Inr (cond_holds ctx c)"
  using validateConditionsSchema_ok[OF assms] evaluateConditions_ok[of MAX_DEPTH c 0 ctx]
  by (auto simp: evaluateConditions.simps[of CEmpty])

subsection \<open>Conditions written back\<close>

text \<open>
  The canonical blob of a condition, which is what is stored; validating it again, as every
  hydration of the aggregate does, gives the same condition.
\<close>

fun op_json :: "ComparisonOp \<Rightarrow> json" where
  "op_json OpGte = JStr ''gte''"
| "op_json OpEq = JStr ''eq''"

fun leaf_json :: "LeafCondition \<Rightarrow> json_object" where
  "leaf_json (PrepaymentMonths op v) =
     [(''type'', JStr ''prepayment_months''), (''op'', op_json op), (''value'', JNum (of_int v))]"
| "leaf_json (SiblingsCount op v) =
     [(''type'', JStr ''siblings_count''), (''op'', op_json op), (''value'', JNum (of_int v))]"
| "leaf_json (AgeRange from to) =
     [(''type'', JStr ''age_range''), (''from_months'', JNum (of_int from)), (''to_months'', JNum (of_int to))]"
| "leaf_json (BenefitCategoryIn cs) = [(''type'', JStr ''benefit_category''), (''in'', JArr (map JStr cs))]"
| "leaf_json (PaymentMethodIn ms) = [(''type'', JStr ''payment_method''), (''in'', JArr (map JStr ms))]"
| "leaf_json (EarlyPayment d) = [(''type'', JStr ''early_payment''), (''days_before_due'', JNum (of_int d))]"
| "leaf_json BirthdayMonth = [(''type'', JStr ''birthday_month'')]"
| "leaf_json (DateRange from to) =
     [(''type'', JStr ''date_range''), (''from'', JStr from), (''to'', JStr to)]"
| "leaf_json FirstInvoice = [(''type'', JStr ''first_invoice'')]"
| "leaf_json (TariffTypes ts) = [(''type'', JStr ''tariff_types''), (''in'', JArr (map JStr ts))]"

fun cond_json :: "DiscountCondition \<Rightarrow> json" where
  "cond_json CEmpty = JObj []"
| "cond_json (CLeaf l) = JObj (leaf_json l)"
| "cond_json (CAllOf cs) = JObj [(''all_of'', JArr (map cond_json cs))]"
| "cond_json (CAnyOf cs) = JObj [(''any_of'', JArr (map cond_json cs))]"

lemma those_known: "set xs \<subseteq> set known \<Longrightarrow> those (map (known_string known \<circ> JStr) xs) = Some xs"
  by (induction xs) auto

lemma iso_date_RE: "date_of_iso_day s \<noteq> None \<Longrightarrow> ISO_DATE_RE s"
  by (induction s rule: date_of_iso_day.induct) (auto simp: Let_def split: if_splits)

lemma validateTyped_json: "leaf_ok l \<Longrightarrow> validateTyped (leaf_json l) path = Inr (CLeaf l)"
proof (cases l)
  case (PrepaymentMonths op v)
  moreover assume "leaf_ok l"
  ultimately show ?thesis
    by (cases op) (simp_all add: validateTyped_def KNOWN_LEAF_TYPES_def validateLeaf_def Let_def
        need_def comparison_op_def isFiniteNonNegInt_def)
next
  case (SiblingsCount op v)
  moreover assume "leaf_ok l"
  ultimately show ?thesis
    by (cases op) (simp_all add: validateTyped_def KNOWN_LEAF_TYPES_def validateLeaf_def Let_def
        need_def comparison_op_def isFiniteNonNegInt_def)
qed (auto simp: validateTyped_def KNOWN_LEAF_TYPES_def validateLeaf_def Let_def need_def
    isFiniteNonNegInt_def known_strings_def those_known iso_date_def iso_date_RE)

lemma childKey_leaf_json: "childKey (leaf_json l) = None"
  by (cases l) (simp_all add: childKey_def)

lemma validateNode_json:
  "cond_ok n c \<Longrightarrow> depth + n \<le> MAX_DEPTH \<Longrightarrow> validateNode (cond_json c) depth path = Inr c"
proof (induction n c arbitrary: depth path rule: cond_ok.induct)
  case (3 n cs)
  have "traverse (\<lambda>i c. validateNode c (depth + 1)
      (path @ ''.'' @ ''all_of'' @ ''['' @ nat_string i @ '']'')) 0 (map cond_json cs) = Inr cs"
    using 3 by (intro traverse_map_Inr) auto
  with 3(2,3) show ?case by (simp add: validateNode_obj childKey_def)
next
  case (4 n cs)
  have "traverse (\<lambda>i c. validateNode c (depth + 1)
      (path @ ''.'' @ ''any_of'' @ ''['' @ nat_string i @ '']'')) 0 (map cond_json cs) = Inr cs"
    using 4 by (intro traverse_map_Inr) auto
  with 4(2,3) show ?case by (simp add: validateNode_obj childKey_def)
qed (simp_all add: validateNode_obj childKey_leaf_json validateTyped_json)

theorem validate_cond_json:
  assumes "c = CEmpty \<or> cond_ok MAX_DEPTH c"
  shows "validateConditionsSchema (cond_json c) = Inr c"
proof (cases "c = CEmpty")
  case False
  with assms have "validateNode (cond_json c) 0 ''$'' = Inr c"
    using validateNode_json[of MAX_DEPTH c 0] by simp
  moreover obtain p obj where "cond_json c = JObj (p # obj)"
    using False by (cases c; simp) (case_tac x2; simp)
  ultimately show ?thesis by (simp add: validateConditionsSchema_def)
qed (simp add: validateConditionsSchema_def)

end
