(* ===== verification/Custom_Discount.thy ===== *)
theory Custom_Discount
  imports Conditions Status_Machine
begin

text \<open>
  The CustomDiscount aggregate and its application ledger entry
  (\<open>src/modules/billing/domain/entities/custom-discount.entity.ts\<close> and
  \<open>custom-discount-application.entity.ts\<close>).
\<close>

datatype CustomDiscountStatus = CdDraft | CdActive | CdPaused | CdExpired | CdCancelled

datatype CustomDiscountType = Percentage | FixedAmount

text \<open>A target type the column may hold but the code does not know is \<open>TargetUnknown\<close>.\<close>

datatype CustomDiscountTargetType = TargetAll | TargetGroups | TargetChildren | TargetTariffTypes
  | TargetAgeRange | TargetUnknown string

type_synonym LocalisedText = "(string \<times> string) list"

record CustomDiscountState =
  cd_id :: uuid
  cd_kindergartenId :: uuid
  cd_name :: LocalisedText
  cd_description :: "LocalisedText option"
  cd_discountType :: CustomDiscountType
  cd_amount :: kzt
  cd_conditions :: DiscountCondition
  cd_targetType :: CustomDiscountTargetType
  cd_targetIds :: "string list option"
  cd_validFrom :: instant
  cd_validUntil :: "instant option"
  cd_maxUsesPerChild :: "int option"
  cd_totalMaxUses :: "int option"
  cd_usedCount :: int
  cd_priority :: int
  cd_stackable :: bool
  cd_notifyOnActivation :: bool
  cd_notificationTitle :: "LocalisedText option"
  cd_notificationBody :: "LocalisedText option"
  cd_status :: CustomDiscountStatus
  cd_createdBy :: "uuid option"
  cd_createdAt :: instant
  cd_updatedAt :: instant

datatype discount_error =
    DiscountAmountInvalid kzt
  | DiscountValidityInvalid instant instant
  | DiscountUsedCountInvalid
  | DiscountPriorityInvalid
  | DiscountTargetInvalid CustomDiscountTargetType string
  | DiscountConditionsInvalid cond_error
  | DiscountStatusInvalid CustomDiscountStatus string

definition target_error :: "CustomDiscountTargetType \<Rightarrow> string list option \<Rightarrow> string option" where
  "target_error tgt ids =
     (case tgt of
        TargetUnknown u \<Rightarrow> Some ''unknown_target_type''
      | TargetAll \<Rightarrow> if ids \<noteq> None \<and> ids \<noteq> Some [] then Some ''target_ids_must_be_empty'' else None
      | TargetAgeRange \<Rightarrow> None
      | _ \<Rightarrow> if ids = None \<or> ids = Some [] then Some ''target_ids_required'' else None)"

text \<open>
  The constructor. \<open>conditions\<close> is the untyped blob; the state keeps the validated condition.
\<close>

definition customDiscount_fromState ::
  "CustomDiscountState \<Rightarrow> json \<Rightarrow> discount_error + CustomDiscountState" where
  "customDiscount_fromState s conditions =
     (if \<not> isPositive (cd_amount s) then Inl (DiscountAmountInvalid (cd_amount s))
      else if cd_validUntil s \<noteq> None \<and> the (cd_validUntil s) \<le> cd_validFrom s
      then Inl (DiscountValidityInvalid (cd_validFrom s) (the (cd_validUntil s)))
      else if cd_usedCount s < 0 then Inl DiscountUsedCountInvalid
      else if cd_priority s < 0 then Inl DiscountPriorityInvalid
      else
        (case target_error (cd_targetType s) (cd_targetIds s) of
           Some slug \<Rightarrow> Inl (DiscountTargetInvalid (cd_targetType s) slug)
         | None \<Rightarrow>
             (case validateConditionsSchema conditions of
                Inl e \<Rightarrow> Inl (DiscountConditionsInvalid e)
              | Inr c \<Rightarrow> Inr (s\<lparr>cd_conditions := c\<rparr>))))"

definition customDiscount_isActive :: "instant \<Rightarrow> CustomDiscountState \<Rightarrow> bool" where
  "customDiscount_isActive now s \<longleftrightarrow>
     (if cd_status s \<noteq> CdActive then False
      else if now < cd_validFrom s then False
      else if cd_validUntil s \<noteq> None \<and> now > the (cd_validUntil s) then False
      else True)"

definition customDiscount_isExpiredByDate :: "instant \<Rightarrow> CustomDiscountState \<Rightarrow> bool" where
  "customDiscount_isExpiredByDate now s \<longleftrightarrow> cd_validUntil s \<noteq> None \<and> now > the (cd_validUntil s)"

definition customDiscount_isUsageLimitReached :: "CustomDiscountState \<Rightarrow> bool" where
  "customDiscount_isUsageLimitReached s \<longleftrightarrow>
     cd_totalMaxUses s \<noteq> None \<and> cd_usedCount s \<ge> the (cd_totalMaxUses s)"

definition customDiscount_isTerminal :: "CustomDiscountState \<Rightarrow> bool" where
  "customDiscount_isTerminal s \<longleftrightarrow> cd_status s = CdExpired \<or> cd_status s = CdCancelled"

definition customDiscount_activate :: "instant \<Rightarrow> CustomDiscountState \<Rightarrow> discount_error + CustomDiscountState" where
  "customDiscount_activate now s =
     (if cd_status s \<noteq> CdDraft then Inl (DiscountStatusInvalid (cd_status s) ''activate'')
      else Inr (s\<lparr>cd_status := CdActive, cd_updatedAt := now\<rparr>))"

definition customDiscount_pause :: "instant \<Rightarrow> CustomDiscountState \<Rightarrow> discount_error + CustomDiscountState" where
  "customDiscount_pause now s =
     (if cd_status s \<noteq> CdActive then Inl (DiscountStatusInvalid (cd_status s) ''pause'')
      else Inr (s\<lparr>cd_status := CdPaused, cd_updatedAt := now\<rparr>))"

definition customDiscount_resume :: "instant \<Rightarrow> CustomDiscountState \<Rightarrow> discount_error + CustomDiscountState" where
  "customDiscount_resume now s =
     (if cd_status s \<noteq> CdPaused then Inl (DiscountStatusInvalid (cd_status s) ''resume'')
      else Inr (s\<lparr>cd_status := CdActive, cd_updatedAt := now\<rparr>))"

definition customDiscount_cancel :: "instant \<Rightarrow> CustomDiscountState \<Rightarrow> discount_error + CustomDiscountState" where
  "customDiscount_cancel now s =
     (if cd_status s \<noteq> CdDraft \<and> cd_status s \<noteq> CdActive \<and> cd_status s \<noteq> CdPaused
      then Inl (DiscountStatusInvalid (cd_status s) ''cancel'')
      else Inr (s\<lparr>cd_status := CdCancelled, cd_updatedAt := now\<rparr>))"

definition customDiscount_markExpired :: "instant \<Rightarrow> CustomDiscountState \<Rightarrow> discount_error + CustomDiscountState" where
  "customDiscount_markExpired now s =
     (if cd_status s \<noteq> CdActive \<and> cd_status s \<noteq> CdPaused
      then Inl (DiscountStatusInvalid (cd_status s) ''markExpired'')
      else Inr (s\<lparr>cd_status := CdExpired, cd_updatedAt := now\<rparr>))"

record CustomDiscountApplicationState =
  cda_id :: uuid
  cda_kindergartenId :: uuid
  cda_customDiscountId :: uuid
  cda_invoiceId :: uuid
  cda_invoiceLineItemId :: "uuid option"
  cda_childId :: uuid
  cda_amountApplied :: kzt
  cda_appliedAt :: instant

definition customDiscountApplication_fromState ::
  "CustomDiscountApplicationState \<Rightarrow> discount_error + CustomDiscountApplicationState" where
  "customDiscountApplication_fromState s =
     (if \<not> isPositive (cda_amountApplied s) then Inl (DiscountAmountInvalid (cda_amountApplied s))
      else Inr s)"

subsection \<open>The state machine\<close>

inductive discount_step :: "CustomDiscountState \<Rightarrow> CustomDiscountState \<Rightarrow> bool" where
  activate: "customDiscount_activate now s = Inr t \<Longrightarrow> discount_step s t"
| pause: "customDiscount_pause now s = Inr t \<Longrightarrow> discount_step s t"
| resume: "customDiscount_resume now s = Inr t \<Longrightarrow> discount_step s t"
| cancel: "customDiscount_cancel now s = Inr t \<Longrightarrow> discount_step s t"
| expire: "customDiscount_markExpired now s = Inr t \<Longrightarrow> discount_step s t"

inductive_cases discount_stepE: "discount_step s t"

fun discount_edge :: "CustomDiscountStatus \<Rightarrow> CustomDiscountStatus \<Rightarrow> bool" where
  "discount_edge CdDraft b \<longleftrightarrow> b = CdActive \<or> b = CdCancelled"
| "discount_edge CdActive b \<longleftrightarrow> b = CdPaused \<or> b = CdCancelled \<or> b = CdExpired"
| "discount_edge CdPaused b \<longleftrightarrow> b = CdActive \<or> b = CdCancelled \<or> b = CdExpired"
| "discount_edge CdExpired b \<longleftrightarrow> False"
| "discount_edge CdCancelled b \<longleftrightarrow> False"

definition discount_ident :: "CustomDiscountState \<Rightarrow> CustomDiscountState" where
  "discount_ident s = s\<lparr>cd_status := CdDraft, cd_updatedAt := 0\<rparr>"

lemmas discount_ops = customDiscount_activate_def customDiscount_pause_def customDiscount_resume_def
  customDiscount_cancel_def customDiscount_markExpired_def

lemma discount_step_edge: "discount_step s t \<Longrightarrow> discount_edge (cd_status s) (cd_status t)"
  by (elim discount_stepE; cases "cd_status s") (auto simp: discount_ops split: if_splits)

lemma discount_step_ident: "discount_step s t \<Longrightarrow> discount_ident t = discount_ident s"
  by (elim discount_stepE) (auto simp: discount_ops discount_ident_def split: if_splits)

interpretation discount: status_machine discount_step cd_status discount_edge discount_ident
  by unfold_locales (rule discount_step_edge, assumption, rule discount_step_ident, assumption)

theorem discount_terminal:
  assumes "customDiscount_isTerminal s" and "discount_step\<^sup>*\<^sup>* s t"
  shows "t = s"
proof (rule discount.terminal_stays[OF _ assms(2)])
  show "\<not> discount_edge (cd_status s) b" for b
    using assms(1) by (auto simp: customDiscount_isTerminal_def)
qed

text \<open>Only the active step makes a discount applicable; a paused or ended one is not.\<close>

lemma isActive_iff:
  "customDiscount_isActive now s \<longleftrightarrow> cd_status s = CdActive \<and> cd_validFrom s \<le> now
     \<and> (\<forall>u. cd_validUntil s = Some u \<longrightarrow> now \<le> u)"
  by (auto simp: customDiscount_isActive_def)

subsection \<open>Hydration\<close>

text \<open>What the constructor guarantees of the discounts the rest of the program sees.\<close>

definition discount_wf :: "CustomDiscountState \<Rightarrow> bool" where
  "discount_wf s \<longleftrightarrow> 0 < cd_amount s \<and> 0 \<le> cd_usedCount s \<and> 0 \<le> cd_priority s
     \<and> (\<forall>u. cd_validUntil s = Some u \<longrightarrow> cd_validFrom s < u)
     \<and> target_error (cd_targetType s) (cd_targetIds s) = None
     \<and> (cd_conditions s = CEmpty \<or> cond_ok MAX_DEPTH (cd_conditions s))"

theorem customDiscount_fromState_wf:
  assumes "customDiscount_fromState s raw = Inr t"
  shows "discount_wf t" and "t = s\<lparr>cd_conditions := cd_conditions t\<rparr>"
proof -
  from assms obtain c where v: "validateConditionsSchema raw = Inr c" and t: "t = s\<lparr>cd_conditions := c\<rparr>"
    and wf: "0 < cd_amount s" "0 \<le> cd_usedCount s" "0 \<le> cd_priority s"
      "\<not> (cd_validUntil s \<noteq> None \<and> the (cd_validUntil s) \<le> cd_validFrom s)"
      "target_error (cd_targetType s) (cd_targetIds s) = None"
    by (auto simp: customDiscount_fromState_def money_simps simp del: not_None_eq
        split: if_splits option.splits sum.splits)
  have "c = CEmpty \<or> cond_ok MAX_DEPTH c" using v by (rule validateConditionsSchema_ok)
  moreover have "\<forall>u. cd_validUntil s = Some u \<longrightarrow> cd_validFrom s < u" using wf(4) by auto
  ultimately show "discount_wf t" using wf t by (simp add: discount_wf_def)
  show "t = s\<lparr>cd_conditions := cd_conditions t\<rparr>" using t by simp
qed

text \<open>Storing a hydrated discount and hydrating it again gives the same discount.\<close>

theorem customDiscount_rehydrate:
  assumes "discount_wf s"
  shows "customDiscount_fromState s (cond_json (cd_conditions s)) = Inr s"
proof -
  have "validateConditionsSchema (cond_json (cd_conditions s)) = Inr (cd_conditions s)"
    using assms by (intro validate_cond_json) (simp add: discount_wf_def)
  with assms show ?thesis
    by (auto simp: customDiscount_fromState_def discount_wf_def money_simps)
qed

end
