(* ===== verification/Ledger.thy ===== *)
theory Ledger
  imports Money Dates
begin

text \<open>
  The remaining billing aggregates, all under \<open>src/modules/billing/domain/entities/\<close>: invoice line
  items, per-child payment accounts, tariff plans and tariff assignments. A constructor that throws
  is a \<open>fromState\<close> returning the left value.
\<close>

subsection \<open>Invoice line items\<close>

record InvoiceLineItemState =
  li_id :: uuid
  li_invoiceId :: uuid
  li_kindergartenId :: uuid
  li_description :: string
  li_tariffPlanId :: "uuid option"
  li_quantity :: rat
  li_unitPrice :: kzt
  li_lineTotal :: kzt
  li_createdAt :: instant

datatype line_item_error = QuantityNotPositive | UnitPriceNegative | LineTotalNegative
  | LineTotalMismatch kzt kzt

definition lineItem_fromState ::
  "decimal_lib \<Rightarrow> InvoiceLineItemState \<Rightarrow> line_item_error + InvoiceLineItemState" where
  "lineItem_fromState D s =
     (if \<not> li_quantity s > 0 then Inl QuantityNotPositive
      else if isNegative (li_unitPrice s) then Inl UnitPriceNegative
      else if isNegative (li_lineTotal s) then Inl LineTotalNegative
      else
        (let expected = kzt_mul D (li_unitPrice s) (li_quantity s);
             drift = kzt_sub D (li_lineTotal s) expected;
             driftAbs = (if isNegative drift then kzt_sub D kzt_zero drift else drift)
         in if driftAbs > fromKzt_number D (fl (1 / 100))
            then Inl (LineTotalMismatch (li_lineTotal s) expected) else Inr s))"

definition lineItem_compute :: "decimal_lib \<Rightarrow> rat \<Rightarrow> kzt \<Rightarrow> kzt" where
  "lineItem_compute D quantity unitPrice = kzt_mul D unitPrice quantity"

subsection \<open>Payment accounts\<close>

record PaymentAccountState =
  acc_id :: uuid
  acc_kindergartenId :: uuid
  acc_childId :: uuid
  acc_balance :: kzt
  acc_createdAt :: instant
  acc_updatedAt :: instant

datatype account_error = CreditNotPositive | DebitNotPositive

definition account_credit ::
  "decimal_lib \<Rightarrow> kzt \<Rightarrow> instant \<Rightarrow> PaymentAccountState \<Rightarrow> account_error + PaymentAccountState" where
  "account_credit D amount now s =
     (if \<not> isPositive amount then Inl CreditNotPositive
      else Inr (s\<lparr>acc_balance := kzt_add D (acc_balance s) amount, acc_updatedAt := now\<rparr>))"

definition account_debit ::
  "decimal_lib \<Rightarrow> kzt \<Rightarrow> instant \<Rightarrow> PaymentAccountState \<Rightarrow> account_error + PaymentAccountState" where
  "account_debit D amount now s =
     (if \<not> isPositive amount then Inl DebitNotPositive
      else Inr (s\<lparr>acc_balance := kzt_sub D (acc_balance s) amount, acc_updatedAt := now\<rparr>))"

subsection \<open>Tariff plans and assignments\<close>

datatype TariffType = TariffMonthly | TariffAdditionalService | TariffLatePickupFee
  | TariffPrepayment3m | TariffPrepayment6m | TariffPrepayment12m | TariffPrepayment24m | TariffOther

datatype TariffAppliesTo = AppliesAllChildren | AppliesGroup | AppliesAgeRange | AppliesIndividual

record DiscountRules =
  sibling_discount_pct :: "rat option"
  prepay_3m_pct :: "rat option"
  prepay_6m_pct :: "rat option"
  prepay_12m_pct :: "rat option"
  prepay_24m_pct :: "rat option"
  benefit_category :: "string option"

record TariffPlanState =
  tp_id :: uuid
  tp_kindergartenId :: uuid
  tp_name :: string
  tp_description :: "(string \<times> string) list"
  tp_tariffType :: TariffType
  tp_amount :: kzt
  tp_currency :: string
  tp_appliesTo :: TariffAppliesTo
  tp_groupId :: "uuid option"
  tp_ageMinMonths :: "int option"
  tp_ageMaxMonths :: "int option"
  tp_isActive :: bool
  tp_validFrom :: instant
  tp_validUntil :: "instant option"
  tp_discountRules :: DiscountRules
  tp_createdAt :: instant
  tp_updatedAt :: instant

datatype tariff_error = TariffGroupRequired | TariffAgesRequired | TariffAgesInverted
  | TariffValidityInverted | AssignmentAmountNegative | AssignmentValidityInverted

definition tariffPlan_fromState :: "TariffPlanState \<Rightarrow> tariff_error + TariffPlanState" where
  "tariffPlan_fromState s =
     (if tp_appliesTo s = AppliesGroup \<and> tp_groupId s = None then Inl TariffGroupRequired
      else if tp_appliesTo s = AppliesAgeRange \<and> (tp_ageMinMonths s = None \<or> tp_ageMaxMonths s = None)
      then Inl TariffAgesRequired
      else if tp_appliesTo s = AppliesAgeRange \<and> the (tp_ageMinMonths s) > the (tp_ageMaxMonths s)
      then Inl TariffAgesInverted
      else if tp_validUntil s \<noteq> None \<and> the (tp_validUntil s) < tp_validFrom s
      then Inl TariffValidityInverted
      else Inr s)"

definition toDateOnlyUtc :: "instant \<Rightarrow> instant" where
  "toDateOnlyUtc d = Date_UTC (getUTCFullYear d) (getUTCMonth d) (getUTCDate d)"

definition tariffPlan_deactivate :: "instant \<Rightarrow> TariffPlanState \<Rightarrow> TariffPlanState" where
  "tariffPlan_deactivate now s =
     s\<lparr>tp_isActive := False, tp_validUntil := Some (toDateOnlyUtc now), tp_updatedAt := now\<rparr>"

record TariffAssignmentState =
  ta_id :: uuid
  ta_kindergartenId :: uuid
  ta_childId :: uuid
  ta_tariffPlanId :: uuid
  ta_customAmount :: "kzt option"
  ta_customReason :: "string option"
  ta_validFrom :: instant
  ta_validUntil :: "instant option"
  ta_assignedBy :: uuid
  ta_createdAt :: instant
  ta_updatedAt :: instant

definition tariffAssignment_fromState ::
  "TariffAssignmentState \<Rightarrow> tariff_error + TariffAssignmentState" where
  "tariffAssignment_fromState s =
     (if ta_customAmount s \<noteq> None \<and> isNegative (the (ta_customAmount s))
      then Inl AssignmentAmountNegative
      else if ta_validUntil s \<noteq> None \<and> the (ta_validUntil s) < ta_validFrom s
      then Inl AssignmentValidityInverted
      else Inr s)"

definition tariffAssignment_close :: "instant \<Rightarrow> TariffAssignmentState \<Rightarrow> TariffAssignmentState" where
  "tariffAssignment_close now s =
     (let s1 = (if ta_validUntil s = None then s\<lparr>ta_validUntil := Some (toDateOnlyUtc now)\<rparr> else s)
      in s1\<lparr>ta_updatedAt := now\<rparr>)"

definition effectiveAmount :: "TariffAssignmentState \<Rightarrow> TariffPlanState \<Rightarrow> kzt" where
  "effectiveAmount s tariffPlan =
     (case ta_customAmount s of None \<Rightarrow> tp_amount tariffPlan | Some a \<Rightarrow> a)"

subsection \<open>Facts\<close>

text \<open>Crediting an amount and debiting it again restores the balance.\<close>

context decimal_arith
begin

lemma credit_debit:
  assumes "cents (acc_balance s)" "cents a" "0 < a" "cents (acc_balance s + a)"
  shows "\<exists>s'. account_credit D a now s = Inr s' \<and> acc_balance s' = acc_balance s + a
    \<and> (\<exists>s''. account_debit D a now' s' = Inr s'' \<and> acc_balance s'' = acc_balance s)"
  using assms by (simp add: account_credit_def account_debit_def money_simps kzt_add_cents kzt_sub_cents)

text \<open>A line item built with \<open>compute\<close> from whole quantities always passes its constructor.\<close>

lemma lineItem_compute_accepted:
  assumes q: "li_quantity s = of_int n" "0 < n" "n \<le> 10 ^ 13" and p: "0 \<le> li_unitPrice s"
    and t: "li_lineTotal s = lineItem_compute D (li_quantity s) (li_unitPrice s)"
  shows "lineItem_fromState D s = Inr s"
proof -
  have "0 \<le> d_times D (li_unitPrice s) (of_int n)"
    using nearest_ge[OF near(3) digits_rep_0] q p by simp
  moreover have "d_minus D x x = 0" for x using exact(2)[of x x] by simp
  moreover have "0 \<le> d_of_number D (fl (1 / 100))"
    using number_mono(1)[of "of_int 0" "fl (1 / 100)"] number_int(1)[of 0] fl_mono[of "of_int 0" "1 / 100"]
      fl_int[of 0] by simp
  then have "0 \<le> fromKzt_number D (fl (1 / 100))"
    using toDP_mono[of 0 "d_of_number D (fl (1 / 100))" 2] toDP_grid[of 0 2] by (simp add: fromKzt_number_def)
  ultimately show ?thesis
    using q p number_int(1)[of n]
    by (simp add: lineItem_fromState_def t lineItem_compute_def kzt_mul_def kzt_sub_def money_simps Let_def)
qed

end

text \<open>Closing an assignment twice keeps the first closing date.\<close>

lemma tariffAssignment_close_idem:
  "ta_validUntil (tariffAssignment_close t2 (tariffAssignment_close t1 s)) =
   ta_validUntil (tariffAssignment_close t1 s)"
  by (simp add: tariffAssignment_close_def Let_def)

lemma toDateOnlyUtc_midnight:
  assumes "days_from_civil 100 1 1 * ms_per_day \<le> d"
  shows "toDateOnlyUtc d = d div ms_per_day * ms_per_day"
proof -
  obtain y m dd where c: "civil_from_days (d div ms_per_day) = (y, m, dd)"
    by (cases "civil_from_days (d div ms_per_day)") auto
  have "days_from_civil 100 1 1 \<le> d div ms_per_day"
    using zdiv_mono1[OF assms, of ms_per_day] by (simp add: ms_per_day_def)
  from year_100[OF this c] have y: "100 \<le> y" .
  have m: "1 \<le> m" "m \<le> 12" using civil_from_days_valid[OF c] by (auto simp: valid_civil_def)
  show ?thesis
    using Date_UTC_civil[OF y m, of dd] days_from_civil_from_days[OF c]
    by (simp add: toDateOnlyUtc_def getUTCFullYear_def getUTCMonth_def getUTCDate_def utc_date_of_def c)
qed

end
