(* ===== verification/Discount_Engine.thy ===== *)
theory Discount_Engine
  imports Custom_Discount Ledger "HOL-Library.Product_Lexorder" "HOL-Library.Sublist"
begin

text \<open>
  The discount engine (\<open>src/modules/billing/infrastructure/discount-engine/\<close>): which sibling,
  prepayment and custom discounts apply to an invoice, in which order they stack, and the amounts.
\<close>

record CustomDiscountSnapshot =
  snap_id :: uuid
  snap_name :: LocalisedText
  snap_discountType :: CustomDiscountType
  snap_amount :: kzt
  snap_conditions :: DiscountCondition
  snap_targetType :: CustomDiscountTargetType
  snap_targetIds :: "string list option"
  snap_priority :: int
  snap_stackable :: bool
  snap_maxUsesPerChild :: "int option"
  snap_totalMaxUses :: "int option"
  snap_usedCount :: int
  snap_createdAt :: instant

record ChildContext =
  cc_birthDate :: instant
  cc_ageInMonths :: int
  cc_currentGroupId :: "uuid option"
  cc_benefitCategory :: "string option"

record FamilyContext =
  fc_siblingsInKgCount :: int
  fc_isFirstInvoiceForChild :: bool

record DiscountEvaluationInput =
  dei_invoiceId :: uuid
  dei_invoiceType :: InvoiceType
  dei_childId :: uuid
  dei_kindergartenId :: uuid
  dei_amountDue :: kzt
  dei_periodStart :: instant
  dei_periodEnd :: instant
  dei_dueDate :: "instant option"
  dei_tariffPlanId :: uuid
  dei_discountRules :: DiscountRules
  dei_siblingsCount :: "int option"
  dei_prepaymentMonths :: "int option"
  dei_customDiscounts :: "CustomDiscountSnapshot list option"
  dei_childContext :: "ChildContext option"
  dei_familyContext :: "FamilyContext option"
  dei_paymentMethodCode :: "string option"
  dei_paidEarlyDays :: "int option"

record CustomApplication =
  ca_customDiscountId :: uuid
  ca_amountApplied :: rat
  ca_reason :: string

record DiscountEvaluationResult =
  der_discountPct :: "rat option"
  der_discountReason :: "string option"
  der_appliedRules :: "string list"
  der_customApplicationsToWrite :: "CustomApplication list"
  der_customDiscountAmount :: "rat option"

record AppliedCustom =
  ac_snapshot :: CustomDiscountSnapshot
  ac_amountApplied :: kzt
  ac_reason :: string

definition buildEvalContext :: "decimal_lib \<Rightarrow> DiscountEvaluationInput \<Rightarrow> EvalContext option" where
  "buildEvalContext D input =
     (case (dei_childContext input, dei_familyContext input) of
        (Some child, Some family) \<Rightarrow> Some \<lparr>
          ctx_invoiceType = dei_invoiceType input,
          ctx_periodStart = dei_periodStart input,
          ctx_periodEnd = dei_periodEnd input,
          ctx_amountDue = kzt_toNumber D (dei_amountDue input),
          ctx_dueDate = (case dei_dueDate input of None \<Rightarrow> dei_periodEnd input | Some d \<Rightarrow> d),
          ctx_childId = dei_childId input,
          ctx_birthDate = cc_birthDate child,
          ctx_currentGroupId = cc_currentGroupId child,
          ctx_ageInMonths = cc_ageInMonths child,
          ctx_benefitCategory = cc_benefitCategory child,
          ctx_siblingsInKgCount = fc_siblingsInKgCount family,
          ctx_isFirstInvoiceForChild = fc_isFirstInvoiceForChild family,
          ctx_paymentMethod = dei_paymentMethodCode input,
          ctx_prepaymentMonths = dei_prepaymentMonths input,
          ctx_paidEarlyDays = dei_paidEarlyDays input,
          ctx_now = dei_periodStart input \<rparr>
      | _ \<Rightarrow> None)"

text \<open>A discount whose evaluation throws is skipped.\<close>

definition matchCustomDiscounts ::
  "decimal_lib \<Rightarrow> DiscountEvaluationInput \<Rightarrow> CustomDiscountSnapshot list" where
  "matchCustomDiscounts D input =
     (case dei_customDiscounts input of
        None \<Rightarrow> []
      | Some customs \<Rightarrow>
          (case buildEvalContext D input of
             None \<Rightarrow> []
           | Some ctx \<Rightarrow>
               filter (\<lambda>snap. evaluateConditions (snap_conditions snap) ctx 0 = Inr True) customs))"

text \<open>\<open>Array.prototype.sort\<close> is stable; the comparator orders by priority down, then by age.\<close>

definition sort_matches :: "CustomDiscountSnapshot list \<Rightarrow> CustomDiscountSnapshot list" where
  "sort_matches matches = sort_key (\<lambda>s. (- snap_priority s, snap_createdAt s)) matches"

definition stacking_winners :: "CustomDiscountSnapshot list \<Rightarrow> CustomDiscountSnapshot list" where
  "stacking_winners ordered =
     (if \<not> snap_stackable (hd ordered) then [hd ordered] else takeWhile snap_stackable ordered)"

definition discount_reason :: "CustomDiscountSnapshot \<Rightarrow> string" where
  "discount_reason snap =
     (case map_of (snap_name snap) ''ru'' of
        Some r \<Rightarrow> r
      | None \<Rightarrow> (case snap_name snap of [] \<Rightarrow> snap_id snap | (k, v) # _ \<Rightarrow> v))"

definition raw_amount :: "decimal_lib \<Rightarrow> kzt \<Rightarrow> kzt \<Rightarrow> CustomDiscountSnapshot \<Rightarrow> money_error + kzt" where
  "raw_amount D amountDue remaining snap =
     (case snap_discountType snap of
        Percentage \<Rightarrow> kzt_div D (kzt_mul D amountDue (kzt_toNumber D (snap_amount snap))) 100
      | FixedAmount \<Rightarrow> Inr (if snap_amount snap \<le> remaining then snap_amount snap else remaining))"

fun apply_winners :: "decimal_lib \<Rightarrow> kzt \<Rightarrow> kzt \<Rightarrow> CustomDiscountSnapshot list
    \<Rightarrow> money_error + AppliedCustom list" where
  "apply_winners D amountDue alreadyStacked [] = Inr []"
| "apply_winners D amountDue alreadyStacked (snap # rest) =
     (let remaining = kzt_sub D amountDue alreadyStacked in
      if \<not> isPositive remaining then Inr []
      else (case raw_amount D amountDue remaining snap of
              Inl e \<Rightarrow> Inl e
            | Inr raw \<Rightarrow>
                (let amountApplied = (if raw > remaining then remaining else raw) in
                 if \<not> isPositive amountApplied then apply_winners D amountDue alreadyStacked rest
                 else (case apply_winners D amountDue (kzt_add D alreadyStacked amountApplied) rest of
                         Inl e \<Rightarrow> Inl e
                       | Inr applied \<Rightarrow>
                           Inr (\<lparr>ac_snapshot = snap, ac_amountApplied = amountApplied,
                                 ac_reason = discount_reason snap\<rparr> # applied)))))"

definition applyStackingAndAmounts ::
  "decimal_lib \<Rightarrow> kzt \<Rightarrow> CustomDiscountSnapshot list \<Rightarrow> money_error + AppliedCustom list" where
  "applyStackingAndAmounts D amountDue matches =
     (if matches = [] then Inr []
      else apply_winners D amountDue kzt_zero (stacking_winners (sort_matches matches)))"

text \<open>The sibling and prepayment rules: percentage, reason and rule identifier.\<close>

definition sibling_rule :: "DiscountEvaluationInput \<Rightarrow> (rat \<times> string \<times> string) list" where
  "sibling_rule input =
     (let siblings = (case dei_familyContext input of
            Some f \<Rightarrow> Some (fc_siblingsInKgCount f) | None \<Rightarrow> dei_siblingsCount input)
      in case (siblings, sibling_discount_pct (dei_discountRules input)) of
           (Some n, Some pct) \<Rightarrow>
             if n > 1 \<and> pct > 0 then [(pct, ''sibling_discount'', ''sibling'')] else []
         | _ \<Rightarrow> [])"

definition prepay_pct :: "DiscountRules \<Rightarrow> int \<Rightarrow> rat option" where
  "prepay_pct rules months =
     (if months = 3 then prepay_3m_pct rules else if months = 6 then prepay_6m_pct rules
      else if months = 12 then prepay_12m_pct rules else if months = 24 then prepay_24m_pct rules
      else None)"

definition prepay_rule :: "DiscountEvaluationInput \<Rightarrow> (rat \<times> string \<times> string) list" where
  "prepay_rule input =
     (case dei_prepaymentMonths input of
        None \<Rightarrow> []
      | Some months \<Rightarrow>
          (case prepay_pct (dei_discountRules input) months of
             None \<Rightarrow> []
           | Some pct \<Rightarrow>
               (let code = ''prepay_'' @ nat_string (nat months) @ ''m''
                in if pct > 0 then [(pct, code, code)] else [])))"

fun join_comma :: "string list \<Rightarrow> string" where
  "join_comma [] = ''''"
| "join_comma [s] = s"
| "join_comma (s # t # ss) = s @ '','' @ join_comma (t # ss)"

definition customPct :: "decimal_lib \<Rightarrow> kzt \<Rightarrow> kzt \<Rightarrow> money_error + rat" where
  "customPct D customKzt amountDue =
     (if isPositive amountDue
      then (case kzt_div D (kzt_mul D customKzt 100) (kzt_toNumber D amountDue) of
              Inl e \<Rightarrow> Inl e | Inr q \<Rightarrow> Inr (kzt_toNumber D q))
      else Inr 0)"

definition engine_result :: "decimal_lib \<Rightarrow> (rat \<times> string \<times> string) list \<Rightarrow> AppliedCustom list \<Rightarrow> kzt
    \<Rightarrow> rat \<Rightarrow> DiscountEvaluationResult" where
  "engine_result D basic customApplied customKzt totalPct =
     (let reasonParts = map (\<lambda>(pct, reason, rule). reason) basic @ map ac_reason customApplied in
      \<lparr>der_discountPct = (if totalPct > 0 then Some totalPct else None),
       der_discountReason = (if reasonParts \<noteq> [] then Some (join_comma reasonParts) else None),
       der_appliedRules = map (\<lambda>(pct, reason, rule). rule) basic
         @ map (\<lambda>c. ''custom:'' @ snap_id (ac_snapshot c)) customApplied,
       der_customApplicationsToWrite = map (\<lambda>c. \<lparr>ca_customDiscountId = snap_id (ac_snapshot c),
         ca_amountApplied = kzt_toNumber D (ac_amountApplied c), ca_reason = ac_reason c\<rparr>) customApplied,
       der_customDiscountAmount =
         (if isPositive customKzt then Some (kzt_toNumber D customKzt) else None)\<rparr>)"

definition evaluateSync ::
  "decimal_lib \<Rightarrow> DiscountEvaluationInput \<Rightarrow> money_error + DiscountEvaluationResult" where
  "evaluateSync D input =
     (let basic = sibling_rule input @ prepay_rule input; amountDue = dei_amountDue input in
      case applyStackingAndAmounts D amountDue (matchCustomDiscounts D input) of
        Inl e \<Rightarrow> Inl e
      | Inr customApplied \<Rightarrow>
          if basic = [] \<and> customApplied = []
          then Inr \<lparr>der_discountPct = None, der_discountReason = None, der_appliedRules = [],
                    der_customApplicationsToWrite = [], der_customDiscountAmount = None\<rparr>
          else
            (let basicPct = min 100 (foldl (\<lambda>s (pct, reason, rule). fl (s + pct)) 0 basic);
                 customKzt = foldl (\<lambda>s c. kzt_add D s (ac_amountApplied c)) kzt_zero customApplied
             in case customPct D customKzt amountDue of
                  Inl e \<Rightarrow> Inl e
                | Inr cPct \<Rightarrow>
                    Inr (engine_result D basic customApplied customKzt (min 100 (fl (basicPct + cPct))))))"

subsection \<open>Stacking\<close>

lemma set_sort_matches [simp]: "set (sort_matches ms) = set ms"
  by (simp add: sort_matches_def)

lemma stacking_winners_subset: "set (stacking_winners (sort_matches ms)) \<subseteq> set ms" if "ms \<noteq> []"
proof -
  have "sort_matches ms \<noteq> []" using that set_sort_matches[of ms] by (metis set_empty)
  then have "hd (sort_matches ms) \<in> set ms" using hd_in_set set_sort_matches by blast
  then show ?thesis by (auto simp: stacking_winners_def dest: set_takeWhileD)
qed

text \<open>The gate: two winners are both stackable; a non-stackable winner is the top match alone.\<close>

lemma stacking_winners_gate:
  "length (stacking_winners (sort_matches ms)) \<ge> 2 \<Longrightarrow> s \<in> set (stacking_winners (sort_matches ms)) \<Longrightarrow> snap_stackable s"
  by (auto simp: stacking_winners_def dest: set_takeWhileD split: if_splits)

text \<open>No match that lost had a higher priority than the top winner.\<close>

lemma stacking_winners_top:
  assumes "ms \<noteq> []" and "s \<in> set ms"
  shows "\<exists>w ws. stacking_winners (sort_matches ms) = w # ws \<and> snap_priority s \<le> snap_priority w"
proof -
  obtain w rest where r: "sort_matches ms = w # rest"
    using assms(1) set_sort_matches[of ms] by (cases "sort_matches ms") auto
  have "(- snap_priority w, snap_createdAt w) \<le> (- snap_priority s, snap_createdAt s)"
    using sort_key_filter_hd_min[OF r[unfolded sort_matches_def] assms(2)] .
  then have "snap_priority s \<le> snap_priority w" by (auto simp: less_eq_prod_def)
  then show ?thesis by (auto simp: r stacking_winners_def)
qed

subsection \<open>Amounts\<close>

text \<open>Amounts with at most six decimals: products of two-decimal amounts, over a hundred.\<close>

definition micros :: "rat \<Rightarrow> bool" where
  "micros x \<longleftrightarrow> (\<exists>k :: int. x = of_int k / 10 ^ 6)"

lemma micros_add: "micros x \<Longrightarrow> micros y \<Longrightarrow> micros (x + y)"
  and micros_diff: "micros x \<Longrightarrow> micros y \<Longrightarrow> micros (x - y)"
  unfolding micros_def
  by (auto simp: add_divide_distrib[symmetric] diff_divide_distrib[symmetric]
      simp del: of_int_add of_int_diff simp flip: of_int_add of_int_diff)

lemma micros_0 [simp]: "micros 0"
  unfolding micros_def by (rule exI[of _ 0]) simp

lemma cents_micros: "cents x \<Longrightarrow> micros x"
proof -
  assume "cents x"
  then obtain k :: int where "x = of_int k / 100" by (auto simp: cents_def)
  then have "x = of_int (k * 10 ^ 4) / 10 ^ 6" by simp
  then show ?thesis unfolding micros_def by blast
qed

lemma micros_rep:
  assumes "micros x" "\<bar>x\<bar> \<le> 10 ^ 20"
  shows "digits_rep 10 30 x"
proof -
  obtain k :: int where k: "x = of_int k / 10 ^ 6" using assms(1) by (auto simp: micros_def)
  have "\<bar>of_int k :: rat\<bar> \<le> 10 ^ 26" using assms(2) by (simp add: k abs_divide)
  then have "(of_int \<bar>k\<bar> :: rat) \<le> of_int (10 ^ 26)" by simp
  then have "\<bar>k\<bar> \<le> 10 ^ 26" by (simp only: of_int_le_iff)
  then have "\<bar>k\<bar> < 10 ^ 30" by simp
  from digits_rep_frac[OF this, of 6] show ?thesis by (simp add: k)
qed

lemma cents_bound: "cents x \<Longrightarrow> \<bar>x\<bar> \<le> 10 ^ 13"
proof -
  assume "cents x"
  then obtain k :: int where k: "x = of_int k / 100" "\<bar>k\<bar> \<le> 10 ^ 15" by (auto simp: cents_def)
  then have "(of_int \<bar>k\<bar> :: rat) \<le> of_int (10 ^ 15)" by (simp only: of_int_le_iff)
  with k(1) show ?thesis by (simp add: abs_divide)
qed

lemma digits_rep_frac_le:
  assumes "\<bar>m\<bar> \<le> 10 ^ 30"
  shows "digits_rep 10 30 (of_int m / 10 ^ n)"
proof -
  have "of_int m / 10 ^ n = (of_int m * of_nat 10 powi (- int n) :: rat)"
    by (simp add: power_int_minus divide_inverse)
  with digits_rep_shift[of 10 m 30 "- int n"] assms show ?thesis by simp
qed

text \<open>What the engine may be given: two-decimal positive amounts.\<close>

definition snap_ok :: "CustomDiscountSnapshot \<Rightarrow> bool" where
  "snap_ok s \<longleftrightarrow> cents (snap_amount s) \<and> 0 < snap_amount s"

context decimal_arith
begin

lemma raw_amount_percentage:
  assumes due: "cents due" and a: "cents (snap_amount s)" and p: "snap_discountType s = Percentage"
  shows "raw_amount D due remaining s = Inr (due * snap_amount s / 100)" "micros (due * snap_amount s / 100)"
proof -
  obtain k l :: int where k: "due = of_int k / 100" "\<bar>k\<bar> \<le> 10 ^ 15"
    and l: "snap_amount s = of_int l / 100" "\<bar>l\<bar> \<le> 10 ^ 15" using due a by (auto simp: cents_def)
  have "\<bar>k * l\<bar> \<le> 10 ^ 15 * 10 ^ 15" unfolding abs_mult using k(2) l(2) by (intro mult_mono) simp_all
  then have kl: "\<bar>k * l\<bar> \<le> 10 ^ 30" by simp
  note number_of_cents[OF a]
  moreover have "d_times D due (snap_amount s) = due * snap_amount s"
    using digits_rep_frac_le[OF kl, of 4] by (intro exact) (simp add: k(1) l(1))
  moreover have "d_div D (due * snap_amount s) 100 = due * snap_amount s / 100"
    using digits_rep_frac_le[OF kl, of 6] by (intro exact) (simp_all add: k(1) l(1))
  ultimately show "raw_amount D due remaining s = Inr (due * snap_amount s / 100)"
    by (simp add: raw_amount_def p kzt_mul_def kzt_div_100)
  show "micros (due * snap_amount s / 100)"
    unfolding micros_def by (rule exI[of _ "k * l"]) (simp add: k(1) l(1))
qed

lemma raw_amount_ok:
  assumes due: "cents due" "0 < due" and s: "snap_ok s" and r: "micros remaining" "0 < remaining"
  shows "\<exists>raw. raw_amount D due remaining s = Inr raw \<and> micros raw \<and> 0 < raw"
proof (cases "snap_discountType s")
  case Percentage
  with raw_amount_percentage[OF due(1) _ Percentage] s due(2) show ?thesis
    by (intro exI[of _ "due * snap_amount s / 100"]) (simp add: snap_ok_def)
next
  case FixedAmount
  with s r show ?thesis by (auto simp: raw_amount_def snap_ok_def cents_micros)
qed

lemma apply_winners_ok:
  assumes due: "cents due" "0 < due" and ws: "\<forall>s\<in>set ws. snap_ok s"
    and st: "micros st" "0 \<le> st" "st \<le> due"
  shows "\<exists>applied. apply_winners D due st ws = Inr applied \<and> subseq (map ac_snapshot applied) ws
    \<and> (\<forall>c\<in>set applied. 0 < ac_amountApplied c \<and> micros (ac_amountApplied c))
    \<and> st + sum_list (map ac_amountApplied applied) \<le> due
    \<and> foldl (\<lambda>s c. kzt_add D s (ac_amountApplied c)) st applied = st + sum_list (map ac_amountApplied applied)"
  using ws st
proof (induction ws arbitrary: st)
  case (Cons s ws)
  have big: "due \<le> 10 ^ 13" using cents_bound[OF due(1)] by simp
  let ?rem = "due - st"
  have m_rem: "micros ?rem" using cents_micros[OF due(1)] Cons.prems by (blast intro: micros_diff)
  have "digits_rep 10 30 ?rem" using m_rem Cons.prems due big by (intro micros_rep) auto
  then have rem: "kzt_sub D due st = ?rem" by (simp add: kzt_sub_def exact)
  show ?case
  proof (cases "0 < ?rem")
    case False
    then have "apply_winners D due st (s # ws) = Inr []" by (simp add: rem money_simps Let_def)
    with Cons.prems show ?thesis by simp
  next
    case True
    obtain raw where raw: "raw_amount D due ?rem s = Inr raw" "micros raw" "0 < raw"
      using raw_amount_ok[OF due _ m_rem True] Cons.prems by auto
    define amt where "amt = (if raw > ?rem then ?rem else raw)"
    have amt: "0 < amt" "amt \<le> ?rem" "micros amt" using raw True m_rem by (auto simp: amt_def)
    have m: "micros (st + amt)" using Cons.prems amt by (blast intro: micros_add)
    have "digits_rep 10 30 (st + amt)" using m amt Cons.prems due big by (intro micros_rep) auto
    then have add: "kzt_add D st amt = st + amt" by (simp add: kzt_add_def exact)
    obtain applied where IH: "apply_winners D due (st + amt) ws = Inr applied"
      "subseq (map ac_snapshot applied) ws"
      "\<forall>c\<in>set applied. 0 < ac_amountApplied c \<and> micros (ac_amountApplied c)"
      "(st + amt) + sum_list (map ac_amountApplied applied) \<le> due"
      "foldl (\<lambda>s c. kzt_add D s (ac_amountApplied c)) (st + amt) applied
        = (st + amt) + sum_list (map ac_amountApplied applied)"
      using Cons.IH[of "st + amt"] Cons.prems amt m by auto
    then show ?thesis
      using True amt
      by (simp add: rem money_simps raw(1) Let_def add flip: amt_def)
  qed
qed simp


text \<open>The whole stacking step: never throws, and what it grants adds up to at most the amount due.\<close>

lemma applyStacking_ok:
  assumes due: "cents due" "0 < due" and ms: "\<forall>s\<in>set ms. snap_ok s"
  shows "\<exists>applied. applyStackingAndAmounts D due ms = Inr applied
    \<and> (ms \<noteq> [] \<longrightarrow> subseq (map ac_snapshot applied) (stacking_winners (sort_matches ms)))
    \<and> (\<forall>c\<in>set applied. ac_snapshot c \<in> set ms \<and> 0 < ac_amountApplied c \<and> micros (ac_amountApplied c))
    \<and> sum_list (map ac_amountApplied applied) \<le> due
    \<and> foldl (\<lambda>s c. kzt_add D s (ac_amountApplied c)) kzt_zero applied = sum_list (map ac_amountApplied applied)"
proof (cases "ms = []")
  case True
  with due show ?thesis by (simp add: applyStackingAndAmounts_def money_simps)
next
  case False
  let ?ws = "stacking_winners (sort_matches ms)"
  have ws: "\<forall>s\<in>set ?ws. snap_ok s" using stacking_winners_subset[OF False] ms by blast
  obtain applied where a: "apply_winners D due 0 ?ws = Inr applied" "subseq (map ac_snapshot applied) ?ws"
    "\<forall>c\<in>set applied. 0 < ac_amountApplied c \<and> micros (ac_amountApplied c)"
    "sum_list (map ac_amountApplied applied) \<le> due"
    "foldl (\<lambda>s c. kzt_add D s (ac_amountApplied c)) 0 applied = sum_list (map ac_amountApplied applied)"
    using apply_winners_ok[OF due ws micros_0] due by auto
  have "s \<in> set ?ws" if "s \<in> set (map ac_snapshot applied)" for s
    using list_emb_set[OF a(2) that] by blast
  then have "\<forall>c\<in>set applied. ac_snapshot c \<in> set ms"
    using stacking_winners_subset[OF False] by force
  with a False show ?thesis by (simp add: applyStackingAndAmounts_def money_simps)
qed


lemma kzt_toNumber_nonneg: "0 \<le> x \<Longrightarrow> 0 \<le> kzt_toNumber D x"
  using toDP_mono[of 0 x 2] toDP_grid[of 0 2] number_mono(2)[of "of_int 0" "d_toDP D x 2"] number_int(2)[of 0]
  by (simp add: kzt_toNumber_def)

lemma customPct_ok:
  assumes "0 \<le> customKzt" "cents due" "0 < due"
  shows "\<exists>q. customPct D customKzt due = Inr q \<and> 0 \<le> q"
proof -
  note due = number_of_cents[OF assms(2)]
  have "0 \<le> d_times D customKzt (d_of_number D 100)"
    using nearest_ge[OF near(3) digits_rep_0] number_int(1)[of 100] assms(1) by simp
  then have "0 \<le> d_div D (d_times D customKzt (d_of_number D 100)) due"
    using nearest_ge[OF near(4) digits_rep_0] assms(3) by simp
  with due assms(3) show ?thesis
    by (simp add: customPct_def money_simps kzt_div_def kzt_mul_def Let_def kzt_toNumber_nonneg)
qed

lemma foldl_basic_nonneg:
  "(\<forall>(pct, reason, rule)\<in>set basic. 0 \<le> pct) \<Longrightarrow> 0 \<le> s \<Longrightarrow>
    0 \<le> foldl (\<lambda>s (pct, reason, rule). fl (s + pct)) s basic"
proof (induction basic arbitrary: s)
  case (Cons b basic)
  obtain pct reason rule where b: "b = (pct, reason, rule)" by (cases b)
  have "0 \<le> fl (s + pct)" using Cons.prems fl_mono[of 0 "s + pct"] fl_int[of 0] by (simp add: b)
  with Cons show ?case by (simp add: b)
qed simp

lemma basic_rules_positive: "(pct, reason, rule) \<in> set (sibling_rule input @ prepay_rule input) \<Longrightarrow> 0 < pct"
  by (auto simp: sibling_rule_def prepay_rule_def Let_def split: option.splits if_splits)

text \<open>
  The engine returns on every well-formed input; the percentage it reports is positive and at most
  a hundred.
\<close>

lemma evaluateSync_ok:
  assumes due: "cents (dei_amountDue input)" "0 < dei_amountDue input"
    and snaps: "\<And>ms. dei_customDiscounts input = Some ms \<Longrightarrow> \<forall>s\<in>set ms. snap_ok s"
  shows "\<exists>r. evaluateSync D input = Inr r \<and> (\<forall>p. der_discountPct r = Some p \<longrightarrow> 0 < p \<and> p \<le> 100)"
proof -
  let ?ms = "matchCustomDiscounts D input" and ?basic = "sibling_rule input @ prepay_rule input"
  have "\<forall>s\<in>set ?ms. snap_ok s"
  proof (cases "dei_customDiscounts input")
    case (Some customs)
    with snaps[OF Some] show ?thesis
      by (cases "buildEvalContext D input") (simp_all add: matchCustomDiscounts_def)
  qed (simp add: matchCustomDiscounts_def)
  from applyStacking_ok[OF due this] obtain applied where
    a: "applyStackingAndAmounts D (dei_amountDue input) ?ms = Inr applied"
      "\<forall>c\<in>set applied. 0 < ac_amountApplied c"
      "foldl (\<lambda>s c. kzt_add D s (ac_amountApplied c)) kzt_zero applied = sum_list (map ac_amountApplied applied)"
    by blast
  have "0 \<le> sum_list (map ac_amountApplied applied)" using a(2) by (intro sum_list_nonneg) auto
  from customPct_ok[OF this due] obtain q where q:
    "customPct D (sum_list (map ac_amountApplied applied)) (dei_amountDue input) = Inr q" "0 \<le> q" by blast
  define b where "b = foldl (\<lambda>s (pct, reason, rule). fl (s + pct)) 0 ?basic"
  show ?thesis
  proof (cases "?basic = [] \<and> applied = []")
    case True
    then show ?thesis by (simp add: evaluateSync_def Let_def a(1))
  next
    case False
    then have "evaluateSync D input =
        Inr (engine_result D ?basic applied (sum_list (map ac_amountApplied applied)) (min 100 (fl (min 100 b + q))))"
      by (auto simp: evaluateSync_def Let_def a(1,3) q(1) b_def)
    then show ?thesis by (auto simp: engine_result_def Let_def)
  qed
qed

end

end
