(* ===== verification/Child.thy ===== *)
theory Child
  imports Status_Machine Strings
begin

text \<open>
  The Child aggregate and its status history
  (\<open>src/modules/child/domain/entities/child.entity.ts\<close>, \<open>child-status-history.entity.ts\<close>) with the
  value objects they parse (\<open>src/shared-kernel/domain/value-objects/\<close>).
\<close>

subsection \<open>Text\<close>

definition js_space :: "char \<Rightarrow> bool" where
  "js_space c \<longleftrightarrow> (let n = of_char c :: nat in 9 \<le> n \<and> n \<le> 13 \<or> n = 32 \<or> n = 160)"

definition trim :: "string \<Rightarrow> string" where
  "trim s = rev (dropWhile js_space (rev (dropWhile js_space s)))"

definition hex_digit :: "char \<Rightarrow> bool" where
  "hex_digit c \<longleftrightarrow> (let n = of_char c :: nat in 48 \<le> n \<and> n \<le> 57 \<or> 97 \<le> n \<and> n \<le> 102 \<or> 65 \<le> n \<and> n \<le> 70)"

text \<open>\<open>UUID_RE\<close>, case-insensitive.\<close>

definition UUID_RE :: "string \<Rightarrow> bool" where
  "UUID_RE s \<longleftrightarrow> length s = 36 \<and> list_all (\<lambda>i. if i \<in> {8, 13, 18, 23} then s ! i = CHR ''-'' else hex_digit (s ! i)) [0..<36]"

definition IIN_RE :: "string \<Rightarrow> bool" where
  "IIN_RE s \<longleftrightarrow> length s = 12 \<and> list_all is_digit s"

subsection \<open>The child\<close>

datatype Gender = Male | Female

datatype ChildStatus = CardCreated | ChildActive | ChildArchived

record ChildState =
  ch_id :: uuid
  ch_kindergartenId :: uuid
  ch_iin :: "string option"
  ch_fullName :: string
  ch_dateOfBirth :: instant
  ch_gender :: "Gender option"
  ch_photoUrl :: "string option"
  ch_status :: ChildStatus
  ch_currentGroupId :: "uuid option"
  ch_enrollmentDate :: "instant option"
  ch_archivedAt :: "instant option"
  ch_archiveReason :: "string option"
  ch_medicalNotes :: "string option"
  ch_allergyNotes :: "string option"
  ch_createdAt :: instant
  ch_updatedAt :: instant

datatype child_error =
    InvalidChildProfile string
  | ArchivedChildNotTransferable uuid
  | GroupTransferToSelf
  | InvalidChildStatusTransition ChildStatus ChildStatus
  | ChildAlreadyArchived uuid
  | ArchiveReasonRequired uuid
  | ChildNotArchived uuid
  | HistoryInvalidTransition ChildStatus ChildStatus
  | HistoryMissingArchiveReason

definition validateGroupId :: "uuid option \<Rightarrow> bool" where
  "validateGroupId groupId \<longleftrightarrow> (case groupId of None \<Rightarrow> True | Some g \<Rightarrow> UUID_RE g)"

definition profile_error :: "string \<Rightarrow> instant \<Rightarrow> instant \<Rightarrow> child_error option" where
  "profile_error fullName dateOfBirth now =
     (if trim fullName = [] then Some (InvalidChildProfile ''full_name'')
      else if dateOfBirth > now then Some (InvalidChildProfile ''date_of_birth'') else None)"

text \<open>A fresh card; \<open>draft\<close> carries the fields of the input.\<close>

definition child_createNew :: "ChildState \<Rightarrow> instant \<Rightarrow> child_error + ChildState" where
  "child_createNew draft now =
     (case profile_error (ch_fullName draft) (ch_dateOfBirth draft) now of
        Some e \<Rightarrow> Inl e
      | None \<Rightarrow>
          if \<not> validateGroupId (ch_currentGroupId draft) then Inl (InvalidChildProfile ''current_group_id'')
          else Inr (draft\<lparr>ch_status := CardCreated, ch_enrollmentDate := None, ch_archivedAt := None,
                 ch_archiveReason := None, ch_createdAt := now, ch_updatedAt := now\<rparr>))"

text \<open>A field of a patch: absent (\<open>None\<close>), or the new value.\<close>

record UpdateChildProfilePatch =
  up_fullName :: "string option"
  up_iin :: "string option option"
  up_dateOfBirth :: "instant option"
  up_gender :: "Gender option option"
  up_photoUrl :: "string option option"
  up_medicalNotes :: "string option option"
  up_allergyNotes :: "string option option"

definition patched :: "'a option \<Rightarrow> 'a \<Rightarrow> 'a" where
  "patched p old = (case p of None \<Rightarrow> old | Some new \<Rightarrow> new)"

definition child_updateProfile :: "UpdateChildProfilePatch \<Rightarrow> instant \<Rightarrow> ChildState \<Rightarrow> child_error + ChildState" where
  "child_updateProfile patch now s =
     (if (case up_fullName patch of None \<Rightarrow> False | Some n \<Rightarrow> trim n = [])
      then Inl (InvalidChildProfile ''full_name'')
      else if (case up_dateOfBirth patch of None \<Rightarrow> False | Some d \<Rightarrow> d > now)
      then Inl (InvalidChildProfile ''date_of_birth'')
      else Inr (s\<lparr>ch_fullName := patched (up_fullName patch) (ch_fullName s),
             ch_dateOfBirth := patched (up_dateOfBirth patch) (ch_dateOfBirth s),
             ch_iin := patched (up_iin patch) (ch_iin s), ch_gender := patched (up_gender patch) (ch_gender s),
             ch_photoUrl := patched (up_photoUrl patch) (ch_photoUrl s),
             ch_medicalNotes := patched (up_medicalNotes patch) (ch_medicalNotes s),
             ch_allergyNotes := patched (up_allergyNotes patch) (ch_allergyNotes s), ch_updatedAt := now\<rparr>))"

definition child_updatePhoto :: "string option \<Rightarrow> instant \<Rightarrow> ChildState \<Rightarrow> ChildState" where
  "child_updatePhoto photoUrl now s = s\<lparr>ch_photoUrl := photoUrl, ch_updatedAt := now\<rparr>"

definition child_transferToGroup :: "uuid \<Rightarrow> instant \<Rightarrow> ChildState \<Rightarrow> child_error + ChildState" where
  "child_transferToGroup toGroupId now s =
     (if ch_status s = ChildArchived then Inl (ArchivedChildNotTransferable (ch_id s))
      else if \<not> validateGroupId (Some toGroupId) then Inl (InvalidChildProfile ''current_group_id'')
      else if ch_currentGroupId s = Some toGroupId then Inl GroupTransferToSelf
      else Inr (s\<lparr>ch_currentGroupId := Some toGroupId, ch_updatedAt := now\<rparr>))"

definition child_assignToGroup :: "uuid \<Rightarrow> instant \<Rightarrow> ChildState \<Rightarrow> child_error + ChildState" where
  "child_assignToGroup groupId now s =
     (if \<not> validateGroupId (Some groupId) then Inl (InvalidChildProfile ''current_group_id'')
      else Inr (s\<lparr>ch_currentGroupId := Some groupId, ch_updatedAt := now\<rparr>))"

definition child_unassignFromGroup :: "instant \<Rightarrow> ChildState \<Rightarrow> ChildState" where
  "child_unassignFromGroup now s = s\<lparr>ch_currentGroupId := None, ch_updatedAt := now\<rparr>"

definition child_activate :: "instant \<Rightarrow> ChildState \<Rightarrow> child_error + ChildState" where
  "child_activate now s =
     (if ch_status s \<noteq> CardCreated then Inl (InvalidChildStatusTransition (ch_status s) ChildActive)
      else Inr (s\<lparr>ch_status := ChildActive, ch_enrollmentDate := Some now, ch_updatedAt := now\<rparr>))"

definition ARCHIVE_REASON_MAX_LENGTH :: nat where "ARCHIVE_REASON_MAX_LENGTH = 500"

definition archive_reason_ok :: "string \<Rightarrow> bool" where
  "archive_reason_ok trimmed \<longleftrightarrow> trimmed \<noteq> [] \<and> length trimmed \<le> ARCHIVE_REASON_MAX_LENGTH"

definition child_archive :: "instant \<Rightarrow> string \<Rightarrow> ChildState \<Rightarrow> child_error + ChildState" where
  "child_archive now reason s =
     (if ch_status s = ChildArchived then Inl (ChildAlreadyArchived (ch_id s))
      else if ch_status s \<noteq> ChildActive then Inl (InvalidChildStatusTransition (ch_status s) ChildArchived)
      else
        (let trimmed = trim reason in
         if \<not> archive_reason_ok trimmed then Inl (ArchiveReasonRequired (ch_id s))
         else Inr (s\<lparr>ch_status := ChildArchived, ch_archivedAt := Some now,
                     ch_archiveReason := Some trimmed, ch_updatedAt := now\<rparr>)))"

definition child_reactivate :: "instant \<Rightarrow> ChildState \<Rightarrow> child_error + ChildState" where
  "child_reactivate now s =
     (if ch_status s \<noteq> ChildArchived then Inl (ChildNotArchived (ch_id s))
      else Inr (s\<lparr>ch_status := ChildActive, ch_archivedAt := None, ch_archiveReason := None,
                  ch_updatedAt := now\<rparr>))"

subsection \<open>Status history\<close>

record ChildStatusHistoryState =
  hi_id :: uuid
  hi_kindergartenId :: uuid
  hi_childId :: uuid
  hi_previousStatus :: ChildStatus
  hi_newStatus :: ChildStatus
  hi_previousArchiveReason :: "string option"
  hi_archiveReason :: "string option"
  hi_changedByUserId :: uuid
  hi_changedAt :: instant
  hi_createdAt :: instant

definition ALLOWED_TRANSITIONS :: "(ChildStatus \<times> ChildStatus) list" where
  "ALLOWED_TRANSITIONS = [(ChildActive, ChildArchived), (ChildArchived, ChildActive), (CardCreated, ChildActive)]"

definition history_record :: "ChildStatusHistoryState \<Rightarrow> child_error + ChildStatusHistoryState" where
  "history_record input =
     (if \<not> List.member ALLOWED_TRANSITIONS (hi_previousStatus input, hi_newStatus input)
      then Inl (HistoryInvalidTransition (hi_previousStatus input) (hi_newStatus input))
      else if hi_newStatus input = ChildArchived \<and> (hi_archiveReason input = None \<or> hi_archiveReason input = Some [])
      then Inl HistoryMissingArchiveReason
      else Inr (input\<lparr>hi_createdAt := hi_changedAt input\<rparr>))"

subsection \<open>The state machine\<close>

inductive child_step :: "ChildState \<Rightarrow> ChildState \<Rightarrow> bool" where
  profile: "child_updateProfile patch now s = Inr t \<Longrightarrow> child_step s t"
| photo: "child_step s (child_updatePhoto url now s)"
| transfer: "child_transferToGroup g now s = Inr t \<Longrightarrow> child_step s t"
| assign: "child_assignToGroup g now s = Inr t \<Longrightarrow> child_step s t"
| unassign: "child_step s (child_unassignFromGroup now s)"
| activate: "child_activate now s = Inr t \<Longrightarrow> child_step s t"
| archive: "child_archive now reason s = Inr t \<Longrightarrow> child_step s t"
| reactivate: "child_reactivate now s = Inr t \<Longrightarrow> child_step s t"

inductive_cases child_stepE: "child_step s t"

lemmas child_ops = child_updateProfile_def child_updatePhoto_def child_transferToGroup_def
  child_assignToGroup_def child_unassignFromGroup_def child_activate_def child_archive_def
  child_reactivate_def Let_def

definition child_edge :: "ChildStatus \<Rightarrow> ChildStatus \<Rightarrow> bool" where
  "child_edge a b \<longleftrightarrow> a = b \<or> (a, b) \<in> set ALLOWED_TRANSITIONS"

definition child_ident :: "ChildState \<Rightarrow> uuid \<times> uuid \<times> instant" where
  "child_ident s = (ch_id s, ch_kindergartenId s, ch_createdAt s)"

lemma child_step_edge: "child_step s t \<Longrightarrow> child_edge (ch_status s) (ch_status t)"
  by (elim child_stepE; cases "ch_status s")
    (auto simp: child_ops child_edge_def ALLOWED_TRANSITIONS_def split: if_splits)

lemma child_step_ident: "child_step s t \<Longrightarrow> child_ident t = child_ident s"
  by (elim child_stepE) (auto simp: child_ops child_ident_def split: if_splits)

interpretation child: status_machine child_step ch_status child_edge child_ident
  by unfold_locales (rule child_step_edge, assumption, rule child_step_ident, assumption)

text \<open>
  What every reachable child satisfies: archived exactly when the archive columns are filled, with a
  reason of 1 to 500 characters; a card that was ever activated has an enrolment date.
\<close>

definition child_wf :: "ChildState \<Rightarrow> bool" where
  "child_wf s \<longleftrightarrow>
     (ch_status s = ChildArchived \<longleftrightarrow> ch_archivedAt s \<noteq> None) \<and>
     (ch_archivedAt s = None \<longleftrightarrow> ch_archiveReason s = None) \<and>
     (\<forall>r. ch_archiveReason s = Some r \<longrightarrow> archive_reason_ok r) \<and>
     (ch_status s = CardCreated \<longleftrightarrow> ch_enrollmentDate s = None)"

lemma child_createNew_wf: "child_createNew d now = Inr s \<Longrightarrow> child_wf s"
  by (auto simp: child_createNew_def child_wf_def split: option.splits if_splits)

lemma child_wf_step: "child_step s t \<Longrightarrow> child_wf s \<Longrightarrow> child_wf t"
  by (elim child_stepE) (auto simp: child_ops child_wf_def split: if_splits)

theorem child_wf_steps:
  assumes "child_step\<^sup>*\<^sup>* s t" and "child_wf s"
  shows "child_wf t"
  using assms by (induction rule: rtranclp_induct) (auto intro: child_wf_step)

text \<open>Every change of status is one the audit table accepts.\<close>

theorem child_step_recordable:
  assumes "child_step s t" "ch_status t \<noteq> ch_status s" "child_wf s"
  shows "\<exists>r. history_record \<lparr>hi_id = i, hi_kindergartenId = ch_kindergartenId s, hi_childId = ch_id s,
      hi_previousStatus = ch_status s, hi_newStatus = ch_status t,
      hi_previousArchiveReason = ch_archiveReason s, hi_archiveReason = ch_archiveReason t,
      hi_changedByUserId = u, hi_changedAt = now, hi_createdAt = c\<rparr> = Inr r"
proof -
  have e: "(ch_status s, ch_status t) \<in> set ALLOWED_TRANSITIONS"
    using child_step_edge[OF assms(1)] assms(2) by (auto simp: child_edge_def)
  have w: "child_wf t" by (rule child_wf_step[OF assms(1,3)])
  show ?thesis
    using e w by (auto simp: history_record_def child_wf_def archive_reason_ok_def)
qed

end
