(* ===== verification/Guardian.thy ===== *)
theory Guardian
  imports Child Json "HOL-Library.AList"
begin

text \<open>
  Guardians of a child (\<open>src/modules/child/domain/entities/child-guardian.entity.ts\<close>) and their
  permissions (\<open>src/shared-kernel/domain/value-objects/guardian-permissions.vo.ts\<close>).
\<close>

subsection \<open>Permissions\<close>

datatype GuardianRelation = PrimaryGuardian | SecondaryGuardian | NannyGuardian

definition TOGGLEABLE_PERMISSION_KEYS :: "string list" where
  "TOGGLEABLE_PERMISSION_KEYS = [''view_timeline'', ''view_payments'', ''pay_invoices'', ''view_diagnostics'',
     ''view_content'', ''view_cctv'', ''receive_push_non_pickup'', ''create_requests'']"

definition LOCKED_PERMISSION_KEYS :: "string list" where
  "LOCKED_PERMISSION_KEYS = [''prepayment'', ''trusted_people_manage'']"

definition ALL_PERMISSION_KEYS :: "string list" where
  "ALL_PERMISSION_KEYS = TOGGLEABLE_PERMISSION_KEYS @ LOCKED_PERMISSION_KEYS"

type_synonym permissions = "(string \<times> bool) list"

definition default_permission :: "GuardianRelation \<Rightarrow> string \<Rightarrow> bool" where
  "default_permission role key =
     (case role of
        PrimaryGuardian \<Rightarrow> True
      | SecondaryGuardian \<Rightarrow> \<not> List.member LOCKED_PERMISSION_KEYS key
      | NannyGuardian \<Rightarrow> key = ''view_timeline'')"

definition permissions_defaults :: "GuardianRelation \<Rightarrow> permissions" where
  "permissions_defaults role = map (\<lambda>k. (k, default_permission role k)) ALL_PERMISSION_KEYS"

datatype permission_error = UnknownPermissionKey string | LockedPermissionKey string

fun permissions_fromObject :: "json_object \<Rightarrow> permission_error + permissions" where
  "permissions_fromObject [] = Inr []"
| "permissions_fromObject ((key, value) # rest) =
     (if \<not> List.member ALL_PERMISSION_KEYS key then Inl (UnknownPermissionKey key)
      else (case value of
        JBool b \<Rightarrow> (case permissions_fromObject rest of Inl e \<Rightarrow> Inl e | Inr out \<Rightarrow> Inr ((key, b) # out))
      | _ \<Rightarrow> Inl (UnknownPermissionKey key)))"

text \<open>\<open>{ ...a, ...b }\<close>\<close>

definition overlay :: "permissions \<Rightarrow> permissions \<Rightarrow> permissions" where
  "overlay a b = foldl (\<lambda>acc (k, v). AList.update k v acc) a b"

definition permissions_merge :: "permissions \<Rightarrow> permissions \<Rightarrow> permission_error + permissions" where
  "permissions_merge overrides patch =
     (case find (\<lambda>(key, v). List.member LOCKED_PERMISSION_KEYS key) patch of
        Some (key, v) \<Rightarrow> Inl (LockedPermissionKey key)
      | None \<Rightarrow> Inr (overlay overrides patch))"

definition permissions_effective :: "permissions \<Rightarrow> GuardianRelation \<Rightarrow> permissions" where
  "permissions_effective overrides role = overlay (permissions_defaults role) overrides"

definition permissions_overridesAgainst :: "permissions \<Rightarrow> GuardianRelation \<Rightarrow> permissions" where
  "permissions_overridesAgainst overrides role = filter (\<lambda>(k, v). default_permission role k \<noteq> v) overrides"

lemma map_of_overlay: "map_of (overlay a b) = map_of a ++ map_of (rev b)"
  unfolding overlay_def
proof (induction b arbitrary: a)
  case (Cons p b)
  then show ?case by (cases p) (simp add: update_conv' map_add_def fun_eq_iff split: option.splits)
qed simp

lemma map_of_defaults:
  "map_of (permissions_defaults role) k = (if k \<in> set ALL_PERMISSION_KEYS then Some (default_permission role k) else None)"
  unfolding permissions_defaults_def by (auto simp: map_of_map_keys map_of_eq_None_iff map_of_map_restrict)

text \<open>The override wins, the default of the role otherwise; every key has an answer.\<close>

theorem permissions_effective_lookup:
  assumes "k \<in> set ALL_PERMISSION_KEYS"
  shows "map_of (permissions_effective overrides role) k =
    (case map_of (rev overrides) k of None \<Rightarrow> Some (default_permission role k) | Some v \<Rightarrow> Some v)"
  using assms by (simp add: permissions_effective_def map_of_overlay map_of_defaults map_add_def split: option.splits)

subsection \<open>The guardian\<close>

datatype GuardianStatus = PendingApproval | GuardianApproved | GuardianRejected | GuardianRevoked

record ChildGuardianState =
  gd_id :: uuid
  gd_kindergartenId :: uuid
  gd_childId :: uuid
  gd_userId :: uuid
  gd_role :: GuardianRelation
  gd_status :: GuardianStatus
  gd_hasApprovalRights :: bool
  gd_approvedBy :: "uuid option"
  gd_approvedAt :: "instant option"
  gd_revokedBy :: "uuid option"
  gd_revokedAt :: "instant option"
  gd_canPickup :: bool
  gd_permissions :: permissions
  gd_permissionsUpdatedBy :: "uuid option"
  gd_permissionsUpdatedAt :: "instant option"
  gd_createdAt :: instant
  gd_updatedAt :: instant

datatype guardian_error =
    GuardianIdNotUuid uuid
  | InvalidGuardianStatusTransition GuardianStatus string
  | PrimaryCannotSelfUnlink uuid uuid
  | GuardianNotApproved uuid GuardianStatus
  | PermissionErr permission_error

definition guardian_createPending ::
  "uuid \<Rightarrow> uuid \<Rightarrow> uuid \<Rightarrow> uuid \<Rightarrow> GuardianRelation \<Rightarrow> bool option \<Rightarrow> instant \<Rightarrow> guardian_error + ChildGuardianState" where
  "guardian_createPending i kg childId userId role canPickup now =
     (if \<not> UUID_RE i then Inl (GuardianIdNotUuid i)
      else Inr \<lparr>gd_id = i, gd_kindergartenId = kg, gd_childId = childId, gd_userId = userId, gd_role = role,
        gd_status = PendingApproval, gd_hasApprovalRights = False, gd_approvedBy = None, gd_approvedAt = None,
        gd_revokedBy = None, gd_revokedAt = None, gd_canPickup = (case canPickup of None \<Rightarrow> True | Some b \<Rightarrow> b),
        gd_permissions = [], gd_permissionsUpdatedBy = None, gd_permissionsUpdatedAt = None,
        gd_createdAt = now, gd_updatedAt = now\<rparr>)"

definition guardian_approve :: "uuid \<Rightarrow> instant \<Rightarrow> bool \<Rightarrow> ChildGuardianState \<Rightarrow> guardian_error + ChildGuardianState" where
  "guardian_approve by now grantApprovalRights s =
     (if gd_status s \<noteq> PendingApproval then Inl (InvalidGuardianStatusTransition (gd_status s) ''approved'')
      else Inr (s\<lparr>gd_status := GuardianApproved, gd_approvedAt := Some now, gd_approvedBy := Some by,
             gd_hasApprovalRights := (if grantApprovalRights then True else gd_hasApprovalRights s),
             gd_updatedAt := now\<rparr>))"

definition guardian_reject :: "instant \<Rightarrow> ChildGuardianState \<Rightarrow> guardian_error + ChildGuardianState" where
  "guardian_reject now s =
     (if gd_status s \<noteq> PendingApproval then Inl (InvalidGuardianStatusTransition (gd_status s) ''rejected'')
      else Inr (s\<lparr>gd_status := GuardianRejected, gd_updatedAt := now\<rparr>))"

definition guardian_revoke :: "uuid \<Rightarrow> instant \<Rightarrow> ChildGuardianState \<Rightarrow> guardian_error + ChildGuardianState" where
  "guardian_revoke by now s =
     (if gd_status s \<noteq> PendingApproval \<and> gd_status s \<noteq> GuardianApproved
      then Inl (InvalidGuardianStatusTransition (gd_status s) ''revoked'')
      else Inr (s\<lparr>gd_status := GuardianRevoked, gd_revokedAt := Some now, gd_revokedBy := Some by, gd_updatedAt := now\<rparr>))"

definition guardian_autoApproveAsPrimary :: "instant \<Rightarrow> ChildGuardianState \<Rightarrow> guardian_error + ChildGuardianState" where
  "guardian_autoApproveAsPrimary now s =
     (if gd_role s \<noteq> PrimaryGuardian then Inl (InvalidGuardianStatusTransition (gd_status s) ''approved'')
      else if gd_status s \<noteq> PendingApproval then Inl (InvalidGuardianStatusTransition (gd_status s) ''approved'')
      else Inr (s\<lparr>gd_status := GuardianApproved, gd_approvedAt := Some now, gd_approvedBy := Some (gd_userId s),
             gd_hasApprovalRights := True, gd_updatedAt := now\<rparr>))"

definition guardian_revokeBySelf :: "instant \<Rightarrow> ChildGuardianState \<Rightarrow> guardian_error + ChildGuardianState" where
  "guardian_revokeBySelf now s =
     (if gd_role s = PrimaryGuardian then Inl (PrimaryCannotSelfUnlink (gd_childId s) (gd_userId s))
      else if gd_status s \<noteq> GuardianApproved then Inl (InvalidGuardianStatusTransition (gd_status s) ''revoked'')
      else Inr (s\<lparr>gd_status := GuardianRevoked, gd_revokedAt := Some now, gd_revokedBy := Some (gd_userId s),
             gd_updatedAt := now\<rparr>))"

definition guardian_updateRoleAndPickup ::
  "GuardianRelation option \<Rightarrow> bool option \<Rightarrow> instant \<Rightarrow> ChildGuardianState \<Rightarrow> guardian_error + ChildGuardianState" where
  "guardian_updateRoleAndPickup role canPickup now s =
     (if gd_status s = GuardianRevoked
      then Inl (InvalidGuardianStatusTransition (gd_status s) ''role_or_pickup_update'')
      else Inr (s\<lparr>gd_role := patched role (gd_role s), gd_canPickup := patched canPickup (gd_canPickup s),
             gd_updatedAt := now\<rparr>))"

definition guardian_applyPermissionsPatch ::
  "permissions \<Rightarrow> uuid \<Rightarrow> instant \<Rightarrow> ChildGuardianState \<Rightarrow> guardian_error + ChildGuardianState" where
  "guardian_applyPermissionsPatch patch by now s =
     (if gd_status s \<noteq> GuardianApproved then Inl (GuardianNotApproved (gd_id s) (gd_status s))
      else (case permissions_merge (gd_permissions s) patch of
              Inl e \<Rightarrow> Inl (PermissionErr e)
            | Inr merged \<Rightarrow> Inr (s\<lparr>gd_permissions := merged, gd_permissionsUpdatedAt := Some now,
                gd_permissionsUpdatedBy := Some by, gd_updatedAt := now\<rparr>)))"

definition guardian_resetPermissions :: "uuid \<Rightarrow> instant \<Rightarrow> ChildGuardianState \<Rightarrow> guardian_error + ChildGuardianState" where
  "guardian_resetPermissions by now s =
     (if gd_status s \<noteq> GuardianApproved then Inl (GuardianNotApproved (gd_id s) (gd_status s))
      else Inr (s\<lparr>gd_permissions := [], gd_permissionsUpdatedAt := Some now,
             gd_permissionsUpdatedBy := Some by, gd_updatedAt := now\<rparr>))"

definition guardian_toggleApprovalRights :: "bool \<Rightarrow> instant \<Rightarrow> ChildGuardianState \<Rightarrow> guardian_error + ChildGuardianState" where
  "guardian_toggleApprovalRights grant now s =
     (if gd_status s \<noteq> GuardianApproved then Inl (GuardianNotApproved (gd_id s) (gd_status s))
      else Inr (s\<lparr>gd_hasApprovalRights := grant, gd_updatedAt := now\<rparr>))"

subsection \<open>The state machine\<close>

inductive guardian_step :: "ChildGuardianState \<Rightarrow> ChildGuardianState \<Rightarrow> bool" where
  approve: "guardian_approve who now grant s = Inr t \<Longrightarrow> guardian_step s t"
| reject: "guardian_reject now s = Inr t \<Longrightarrow> guardian_step s t"
| revoke: "guardian_revoke who now s = Inr t \<Longrightarrow> guardian_step s t"
| auto_approve: "guardian_autoApproveAsPrimary now s = Inr t \<Longrightarrow> guardian_step s t"
| self_revoke: "guardian_revokeBySelf now s = Inr t \<Longrightarrow> guardian_step s t"
| role_pickup: "guardian_updateRoleAndPickup role pickup now s = Inr t \<Longrightarrow> guardian_step s t"
| permissions: "guardian_applyPermissionsPatch patch who now s = Inr t \<Longrightarrow> guardian_step s t"
| reset: "guardian_resetPermissions who now s = Inr t \<Longrightarrow> guardian_step s t"
| toggle: "guardian_toggleApprovalRights grant now s = Inr t \<Longrightarrow> guardian_step s t"

inductive_cases guardian_stepE: "guardian_step s t"

lemmas guardian_ops = guardian_approve_def guardian_reject_def guardian_revoke_def
  guardian_autoApproveAsPrimary_def guardian_revokeBySelf_def guardian_updateRoleAndPickup_def
  guardian_applyPermissionsPatch_def guardian_resetPermissions_def guardian_toggleApprovalRights_def

fun guardian_edge :: "GuardianStatus \<Rightarrow> GuardianStatus \<Rightarrow> bool" where
  "guardian_edge PendingApproval b \<longleftrightarrow> True"
| "guardian_edge GuardianApproved b \<longleftrightarrow> b = GuardianApproved \<or> b = GuardianRevoked"
| "guardian_edge GuardianRejected b \<longleftrightarrow> b = GuardianRejected"
| "guardian_edge GuardianRevoked b \<longleftrightarrow> False"

definition guardian_ident :: "ChildGuardianState \<Rightarrow> uuid \<times> uuid \<times> uuid \<times> uuid" where
  "guardian_ident s = (gd_id s, gd_kindergartenId s, gd_childId s, gd_userId s)"

lemma guardian_step_edge: "guardian_step s t \<Longrightarrow> guardian_edge (gd_status s) (gd_status t)"
  by (elim guardian_stepE; cases "gd_status s") (auto simp: guardian_ops split: if_splits sum.splits)

lemma guardian_step_ident: "guardian_step s t \<Longrightarrow> guardian_ident t = guardian_ident s"
  by (elim guardian_stepE) (auto simp: guardian_ops guardian_ident_def split: if_splits sum.splits)

interpretation guardian: status_machine guardian_step gd_status guardian_edge guardian_ident
  by unfold_locales (rule guardian_step_edge, assumption, rule guardian_step_ident, assumption)

text \<open>
  A revoked guardian is final; a rejected one stays rejected. Approval and revocation leave their
  author on record, and no step ever overrides a locked permission: only the role decides who may
  prepay or manage trusted people.
\<close>

theorem guardian_revoked_final:
  assumes "gd_status s = GuardianRevoked" and "guardian_step\<^sup>*\<^sup>* s t"
  shows "t = s"
  using assms by (intro guardian.terminal_stays) auto

theorem guardian_rejected_stays:
  assumes "gd_status s = GuardianRejected" and "guardian_step\<^sup>*\<^sup>* s t"
  shows "gd_status t = GuardianRejected"
proof -
  have closed: "b \<in> {GuardianRejected}" if "a \<in> {GuardianRejected}" "guardian_edge a b" for a b
    using that by simp
  have "gd_status t \<in> {GuardianRejected}"
    using guardian.steps_closed[OF closed assms(2)] assms(1) by simp
  then show ?thesis by simp
qed

definition unlocked :: "permissions \<Rightarrow> bool" where
  "unlocked p \<longleftrightarrow> list_all (\<lambda>(k, v). \<not> List.member LOCKED_PERMISSION_KEYS k) p"

definition guardian_wf :: "ChildGuardianState \<Rightarrow> bool" where
  "guardian_wf s \<longleftrightarrow>
     (gd_status s = GuardianApproved \<longrightarrow> gd_approvedBy s \<noteq> None \<and> gd_approvedAt s \<noteq> None) \<and>
     (gd_status s = GuardianRevoked \<longleftrightarrow> gd_revokedAt s \<noteq> None) \<and>
     (gd_revokedBy s = None \<longleftrightarrow> gd_revokedAt s = None) \<and>
     (gd_hasApprovalRights s \<longrightarrow> gd_approvedBy s \<noteq> None) \<and>
     unlocked (gd_permissions s)"

lemma keys_overlay: "fst ` set (overlay a b) = fst ` set a \<union> fst ` set b"
proof -
  have "dom (map_of (overlay a b)) = dom (map_of a) \<union> dom (map_of (rev b))"
    by (auto simp: map_of_overlay)
  then show ?thesis by (simp add: dom_map_of_conv_image_fst)
qed

lemma merge_unlocked:
  assumes "permissions_merge p patch = Inr q" "unlocked p"
  shows "unlocked q"
proof -
  have q: "q = overlay p patch" and np: "\<forall>(k, v)\<in>set patch. k \<notin> set LOCKED_PERMISSION_KEYS"
    using assms(1) by (auto simp: permissions_merge_def find_None_iff_set split: option.splits)
  have "k \<notin> set LOCKED_PERMISSION_KEYS" if "(k, v) \<in> set q" for k v
  proof -
    have "k \<in> fst ` set p \<union> fst ` set patch" using that unfolding q keys_overlay[symmetric] by (rule image_eqI[of _ fst, rotated]) simp
    with np assms(2) show ?thesis by (auto simp: unlocked_def list_all_iff)
  qed
  then show ?thesis by (auto simp: unlocked_def list_all_iff)
qed

lemma guardian_createPending_wf: "guardian_createPending i kg c u r p now = Inr s \<Longrightarrow> guardian_wf s"
  by (auto simp: guardian_createPending_def guardian_wf_def unlocked_def split: if_splits)

lemma guardian_wf_step: "guardian_step s t \<Longrightarrow> guardian_wf s \<Longrightarrow> guardian_wf t"
proof (elim guardian_stepE, goal_cases)
  case (7 patch who now)
  then show ?case
    using merge_unlocked by (auto simp: guardian_ops guardian_wf_def split: if_splits sum.splits)
next
  case (8 who now)
  then show ?case by (auto simp: guardian_ops guardian_wf_def unlocked_def split: if_splits)
qed (simp_all add: guardian_ops guardian_wf_def split: if_splits, auto)

theorem guardian_wf_steps:
  assumes "guardian_step\<^sup>*\<^sup>* s t" and "guardian_wf s"
  shows "guardian_wf t"
  using assms by (induction rule: rtranclp_induct) (auto intro: guardian_wf_step)

theorem guardian_locked_permissions:
  assumes "guardian_wf s" "k \<in> set LOCKED_PERMISSION_KEYS"
  shows "map_of (permissions_effective (gd_permissions s) (gd_role s)) k = Some (gd_role s = PrimaryGuardian)"
proof -
  have "map_of (rev (gd_permissions s)) k = None"
    using assms by (force simp: guardian_wf_def unlocked_def list_all_iff map_of_eq_None_iff)
  moreover have "k \<in> set ALL_PERMISSION_KEYS" using assms(2) by (simp add: ALL_PERMISSION_KEYS_def)
  moreover have "default_permission r k = (r = PrimaryGuardian)" for r
    using assms(2) by (cases r) (auto simp: default_permission_def LOCKED_PERMISSION_KEYS_def)
  ultimately show ?thesis by (simp add: permissions_effective_lookup)
qed

end
