(* ===== verification/Holiday.thy ===== *)
theory Holiday
  imports Prelude
begin

text \<open>Non-working days of a kindergarten (\<open>src/modules/billing/domain/entities/kindergarten-holiday.entity.ts\<close>).\<close>

record KindergartenHolidayState =
  ho_id :: uuid
  ho_kindergartenId :: uuid
  ho_date :: instant
  ho_name :: "(string \<times> string) list"
  ho_isBillable :: bool
  ho_createdAt :: instant
  ho_updatedAt :: instant

definition holiday_fromState :: "KindergartenHolidayState \<Rightarrow> KindergartenHolidayState option" where
  "holiday_fromState s = (if ho_name s = [] then None else Some s)"

end
