(* ===== verification/Billing_Db.thy ===== *)
theory Billing_Db
  imports Invoice Payment Refund Discount_Engine Guardian Holiday
begin

text \<open>
  The relational state of the billing and child modules and the operations over it: the tables (one
  list of rows each, a row is the aggregate's state), the outbox, the jobs enqueued, the advisory
  locks taken so far in the transaction, and how far the clock and the UUID generator have been read.
  The tables follow \<open>src/database/migrations/1777886401000-B13BillingAndInvoices.ts\<close>,
  \<open>1777890000000-B16CustomDiscounts.ts\<close> and \<open>1777593604000-ChildrenAndGuardians.ts\<close>: money columns are \<open>numeric(12,2)\<close>, date columns hold days,
  CHECK and UNIQUE constraints make an INSERT throw. Foreign keys and row-level security are not
  modelled (every query filters by tenant itself).
\<close>

subsection \<open>Errors, events, state\<close>

datatype billing_error =
    InvoiceNotFound uuid
  | InvoiceErr invoice_error
  | PrepaymentPartialNotAllowed uuid InvoiceType rat
  | PrepaymentBlockedOutstandingDebt rat
  | PrepaymentBlockedPartialPrepayment uuid rat
  | PrepaymentBlockedWindowOverlap "string list"
  | BadRequest string
  | PaymentNotFound uuid
  | PaymentErr payment_entity_error
  | PaymentIdempotencyConflict string
  | PaymentProviderError PaymentProvider string
  | KaspiRefundHistoryAckRequired
  | PaymentAccountNotFound uuid
  | AccountErr account_error
  | RefundNotFound uuid
  | RefundErr refund_entity_error
  | InvariantViolation string
  | TariffAssignmentNotFound uuid
  | TariffPlanNotFound string
  | ChildArchivedDuringRun uuid
  | LineItemErr line_item_error
  | DiscountErr discount_error
  | ApplicationAmountInvalid
  | MoneyErr money_error
  | CustomDiscountNotFound uuid
  | DbCheckViolation string
  | DbUniqueViolation string
  | ChildErr child_error
  | ChildNotFound uuid
  | ChildIinAlreadyExists string
  | ChildActivationRequiresTariff uuid
  | ChildAccessDenied uuid uuid
  | ChildNotFoundForIin string
  | MultipleChildrenForIin string
  | ParentLinkRateLimit
  | GuardianErr guardian_error
  | GuardianNotFound uuid
  | GuardianStatusConflict uuid GuardianStatus
  | DuplicateGuardian uuid uuid
  | AlreadyLinkedToChild uuid uuid
  | AlreadyPendingForChild uuid uuid
  | MaxApprovalRightsExceeded uuid
  | NotPrimaryGuardian uuid uuid
  | PrimaryCannotSelfRevoke uuid
  | GroupNotFound uuid
  | NotFound string uuid
  | HolidayAlreadyExists uuid string
  | ProgrammingError string
  | BccNotConnected
  | BccCheckoutExpired
  | PaymentProviderUnavailable PaymentProvider
  | Forbidden string
  | TariffErr tariff_error
  | TariffPlanOverlap TariffType TariffAppliesTo "uuid option"
  | TariffAssignmentOverlap uuid
  | ChildNotYetArchived uuid

datatype billing_event =
    InvoiceCreatedEv uuid uuid uuid InvoiceType rat string instant instant
  | InvoiceCancelledEv uuid uuid uuid "string option"
  | InvoicePaidEv uuid uuid uuid rat instant
  | PaymentCompletedEv uuid uuid uuid uuid rat PaymentProvider instant
  | PaymentFailedEv uuid uuid uuid uuid rat PaymentProvider string
  | PaymentRefundRequiredEv uuid uuid "uuid option" uuid uuid rat string "uuid list"
  | RefundProcessedEv uuid uuid uuid uuid uuid rat uuid
  | PaymentRefundedEv uuid uuid uuid uuid rat uuid
  | DiscountActivatedEv uuid uuid LocalisedText "uuid list" LocalisedText LocalisedText
  | ChildTransferredEv uuid uuid "uuid option" uuid uuid "uuid list"
  | ChildArchivedEv uuid uuid instant string uuid
  | ChildReactivatedEv uuid uuid instant uuid
  | GuardianPendingApprovalEv uuid uuid string uuid uuid GuardianRelation
  | GuardianApprovedEv uuid uuid uuid uuid bool
  | GuardianRejectedEv uuid uuid uuid uuid
  | GuardianRevokedEv uuid uuid uuid uuid
  | GuardianSelfRevokedEv uuid uuid uuid instant
  | InvoiceOverdueEv uuid uuid uuid rat string int
  | PermissionsUpdatedEv uuid uuid uuid uuid permissions

record child_group_history =
  gh_kindergartenId :: uuid
  gh_childId :: uuid
  gh_fromGroupId :: "uuid option"
  gh_toGroupId :: uuid
  gh_transferredByStaffId :: uuid
  gh_reason :: "string option"
  gh_transferredAt :: instant

text \<open>A job of the lifecycle queue: tenant, child and the moment of the archive.\<close>

type_synonym lifecycle_job = "uuid \<times> uuid \<times> instant"

record billing_db =
  db_invoices :: "InvoiceState list"
  db_lineItems :: "InvoiceLineItemState list"
  db_payments :: "PaymentState list"
  db_refunds :: "RefundState list"
  db_accounts :: "PaymentAccountState list"
  db_discounts :: "CustomDiscountState list"
  db_applications :: "CustomDiscountApplicationState list"
  db_plans :: "TariffPlanState list"
  db_assignments :: "TariffAssignmentState list"
  db_holidays :: "KindergartenHolidayState list"
  db_children :: "ChildState list"
  db_guardians :: "ChildGuardianState list"
  db_statusHistory :: "ChildStatusHistoryState list"
  db_groupHistory :: "child_group_history list"
  db_kindergartens :: "(uuid \<times> bool) list" \<comment> \<open>id, and whether it is archived\<close>
  db_groups :: "(uuid \<times> uuid) list" \<comment> \<open>tenant and id of every group\<close>
  db_users :: "(uuid \<times> string) list" \<comment> \<open>id and phone of every user\<close>
  db_outbox :: "billing_event list"
  db_jobs :: "lifecycle_job list"
  db_locks :: "string list"
  db_clockReads :: nat
  db_uuidDraws :: nat

text \<open>
  What the code asks of the outside: decimal.js, the clock and \<open>randomUUID\<close> (the n-th answer of
  each), the time zones of the program and of the database session, what a concurrent transaction
  may have committed when a locking re-read runs, the staff members the notifications go to, and the
  payment providers that are configured.
\<close>

record billing_env =
  env_decimal :: decimal_lib
  env_clock :: "nat \<Rightarrow> instant"
  env_uuid :: "nat \<Rightarrow> uuid"
  env_zone :: zone
  env_sessionZone :: zone
  env_archivedMeanwhile :: "uuid \<Rightarrow> uuid \<Rightarrow> bool"
  env_admins :: "uuid \<Rightarrow> uuid list"
  env_enabledProviders :: "PaymentProvider list"
  env_bccActive :: "uuid \<Rightarrow> bool"

subsection \<open>Operations\<close>

type_synonym 'a op = "billing_db \<Rightarrow> (billing_error, 'a, billing_db) outcome"

definition returnM :: "'a \<Rightarrow> 'a op" where "returnM x = (\<lambda>db. Inr (x, db))"
definition throwM :: "billing_error \<Rightarrow> 'a op" where "throwM e = (\<lambda>db. Inl e)"
definition bindM :: "'a op \<Rightarrow> ('a \<Rightarrow> 'b op) \<Rightarrow> 'b op" where "bindM m k = (\<lambda>db. and_then (m db) k)"
definition readM :: "(billing_db \<Rightarrow> 'a) \<Rightarrow> 'a op" where "readM f = (\<lambda>db. Inr (f db, db))"
definition modifyM :: "(billing_db \<Rightarrow> billing_db) \<Rightarrow> unit op" where "modifyM f = (\<lambda>db. Inr ((), f db))"

text \<open>A repository lookup whose miss throws, and a domain call that may throw.\<close>

definition orThrow :: "'a option \<Rightarrow> billing_error \<Rightarrow> 'a op" where
  "orThrow v e = (case v of None \<Rightarrow> throwM e | Some x \<Rightarrow> returnM x)"

definition liftE :: "('e \<Rightarrow> billing_error) \<Rightarrow> 'e + 'a \<Rightarrow> 'a op" where
  "liftE f v = (case v of Inl e \<Rightarrow> throwM (f e) | Inr x \<Rightarrow> returnM x)"

primrec forM :: "'a list \<Rightarrow> ('a \<Rightarrow> unit op) \<Rightarrow> unit op" where
  "forM [] f = returnM ()"
| "forM (x # xs) f = bindM (f x) (\<lambda>_. forM xs f)"

definition whenM :: "bool \<Rightarrow> unit op \<Rightarrow> unit op" where
  "whenM b m = (if b then m else returnM ())"

text \<open>A call whose error is caught: the savepoint undoes what it did.\<close>

definition catchM :: "'a op \<Rightarrow> (billing_error \<Rightarrow> 'a op) \<Rightarrow> 'a op" where
  "catchM m h = (\<lambda>db. case m db of Inl e \<Rightarrow> h e db | Inr r \<Rightarrow> Inr r)"

text \<open>Loops that collect results, or keep those the body accepts.\<close>

primrec mapM :: "('a \<Rightarrow> 'b op) \<Rightarrow> 'a list \<Rightarrow> 'b list op" where
  "mapM f [] = returnM []"
| "mapM f (x # xs) = bindM (f x) (\<lambda>y. bindM (mapM f xs) (\<lambda>ys. returnM (y # ys)))"

definition nowM :: "billing_env \<Rightarrow> instant op" where
  "nowM E = (\<lambda>db. Inr (env_clock E (db_clockReads db), db\<lparr>db_clockReads := Suc (db_clockReads db)\<rparr>))"

definition randomUUID :: "billing_env \<Rightarrow> uuid op" where
  "randomUUID E = (\<lambda>db. Inr (env_uuid E (db_uuidDraws db), db\<lparr>db_uuidDraws := Suc (db_uuidDraws db)\<rparr>))"

definition emitM :: "billing_event \<Rightarrow> unit op" where
  "emitM ev = modifyM (\<lambda>db. db\<lparr>db_outbox := db_outbox db @ [ev]\<rparr>)"

definition lockM :: "string \<Rightarrow> unit op" where
  "lockM scope = modifyM (\<lambda>db. db\<lparr>db_locks := db_locks db @ [scope]\<rparr>)"

named_theorems op_simps \<open>running an operation on a state\<close>

lemma op_run [op_simps]:
  "returnM x db = Inr (x, db)" "throwM e db = Inl e" "readM f db = Inr (f db, db)"
  "modifyM g db = Inr ((), g db)"
  "nowM E db = Inr (env_clock E (db_clockReads db), db\<lparr>db_clockReads := Suc (db_clockReads db)\<rparr>)"
  "randomUUID E db = Inr (env_uuid E (db_uuidDraws db), db\<lparr>db_uuidDraws := Suc (db_uuidDraws db)\<rparr>)"
  "emitM ev db = Inr ((), db\<lparr>db_outbox := db_outbox db @ [ev]\<rparr>)"
  "lockM s db = Inr ((), db\<lparr>db_locks := db_locks db @ [s]\<rparr>)"
  "orThrow None err db = Inl err" "orThrow (Some x) err db = Inr (x, db)"
  "liftE h (Inl e0) db = Inl (h e0)" "liftE h (Inr x) db = Inr (x, db)"
  "whenM False m db = Inr ((), db)" "whenM True m db = m db"
  by (simp_all add: returnM_def throwM_def readM_def modifyM_def nowM_def randomUUID_def emitM_def
      lockM_def orThrow_def liftE_def whenM_def)

lemma bindM_run [op_simps]: "bindM m k db = and_then (m db) k"
  by (simp add: bindM_def)

text \<open>Reasoning about a run: what holds of every result, and which parts of the state it keeps.\<close>

definition keeps :: "(billing_db \<Rightarrow> 'k) \<Rightarrow> 'a op \<Rightarrow> bool" where
  "keeps f m \<longleftrightarrow> (\<forall>db x db'. m db = Inr (x, db') \<longrightarrow> f db' = f db)"

lemma keepsD: "keeps f m \<Longrightarrow> m db = Inr (x, db') \<Longrightarrow> f db' = f db"
  by (auto simp: keeps_def)

lemma keeps_bind: "keeps f m \<Longrightarrow> (\<And>x. keeps f (k x)) \<Longrightarrow> keeps f (bindM m k)"
  unfolding keeps_def bindM_def by (auto simp: and_then_eq_Inr)

lemma keeps_basic:
  "keeps f (returnM x)" "keeps f (throwM e)" "keeps f (readM g)" "keeps f (orThrow v e)"
  "keeps f (liftE h w)"
  by (auto simp: keeps_def op_simps returnM_def throwM_def readM_def orThrow_def liftE_def
      split: option.splits sum.splits)

lemma keeps_modify: "(\<And>db. f (g db) = f db) \<Longrightarrow> keeps f (modifyM g)"
  by (auto simp: keeps_def op_simps)

lemma keeps_when: "keeps f m \<Longrightarrow> keeps f (whenM b m)"
  by (cases b) (simp_all add: whenM_def keeps_basic)

lemma keeps_forM: "(\<And>x. x \<in> set xs \<Longrightarrow> keeps f (g x)) \<Longrightarrow> keeps f (forM xs g)"
  by (induction xs) (simp_all add: keeps_basic keeps_bind)

lemma keeps_mapM: "(\<And>x. x \<in> set xs \<Longrightarrow> keeps f (g x)) \<Longrightarrow> keeps f (mapM g xs)"
  by (induction xs) (simp_all add: keeps_basic keeps_bind)

lemma keeps_catch:
  assumes m: "keeps f m" and h: "\<And>e. keeps f (h e)"
  shows "keeps f (catchM m h)"
  unfolding keeps_def
proof (intro allI impI)
  fix db x db'
  assume r: "catchM m h db = Inr (x, db')"
  show "f db' = f db"
  proof (cases "m db")
    case (Inl e)
    with r h[of e] show ?thesis by (simp add: catchM_def keeps_def)
  next
    case (Inr y)
    with r m show ?thesis by (simp add: catchM_def keeps_def)
  qed
qed

subsection \<open>Compare and set\<close>

text \<open>
  The conditional UPDATE every repository transition is built from: \<open>WHERE id = ? AND
  kindergarten_id = ? AND status IN (...) RETURNING *\<close>, then the row read back.
\<close>

definition cas :: "('r \<Rightarrow> uuid) \<Rightarrow> ('r \<Rightarrow> uuid) \<Rightarrow> ('r \<Rightarrow> 'st) \<Rightarrow> uuid \<Rightarrow> uuid \<Rightarrow> 'st list
    \<Rightarrow> ('r \<Rightarrow> 'r) \<Rightarrow> 'r list \<Rightarrow> 'r option \<times> 'r list" where
  "cas kgOf idOf statusOf kg i expected patch rows =
     update_returning (\<lambda>r. idOf r = i \<and> kgOf r = kg) (\<lambda>r. List.member expected (statusOf r)) patch rows"

text \<open>
  The contract of a table with statuses: \<open>transition expected patch next\<close> lists the conditional
  UPDATEs the code issues on it; each keeps the key, sets the status and leaves the expected ones.
\<close>

locale status_table =
  fixes kgOf :: "'r \<Rightarrow> uuid" and idOf :: "'r \<Rightarrow> uuid" and statusOf :: "'r \<Rightarrow> 'st"
    and transition :: "'st list \<Rightarrow> ('r \<Rightarrow> 'r) \<Rightarrow> 'st \<Rightarrow> bool"
  assumes patch_key: "transition expected patch next \<Longrightarrow> kgOf (patch r) = kgOf r \<and> idOf (patch r) = idOf r"
    and patch_status: "transition expected patch next \<Longrightarrow> statusOf (patch r) = next"
    and leaves: "transition expected patch next \<Longrightarrow> next \<notin> set expected"
begin

abbreviation "attempt kg i expected patch rows \<equiv> cas kgOf idOf statusOf kg i expected patch rows"

text \<open>A transition that succeeds cannot succeed again: of two racing writers one wins.\<close>

lemma cas_once:
  assumes t: "transition expected patch next"
    and first: "attempt kg i expected patch rows = (Some r, rows')"
  shows "attempt kg i expected patch rows' = (None, rows')"
proof -
  have rows': "rows' = update_where (\<lambda>r. (idOf r = i \<and> kgOf r = kg) \<and> List.member expected (statusOf r)) patch rows"
    using update_returning_Some[OF first[unfolded cas_def]] by simp
  have "\<not> ((idOf x = i \<and> kgOf x = kg) \<and> List.member expected (statusOf x))" if "x \<in> set rows'" for x
    using that patch_status[OF t] leaves[OF t] by (auto simp: rows' set_update_where split: if_splits)
  then show ?thesis by (auto simp: cas_def update_returning_def list_ex_iff)
qed

text \<open>Failure changes nothing, and means no row with that key is in an expected status.\<close>

lemma cas_None:
  assumes "transition expected patch next" "attempt kg i expected patch rows = (None, rows')"
  shows "rows' = rows \<and> (\<forall>r\<in>set rows. idOf r = i \<longrightarrow> kgOf r = kg \<longrightarrow> statusOf r \<notin> set expected)"
  using update_returning_None[OF assms(2)[unfolded cas_def]] patch_key[OF assms(1)] by auto

text \<open>Other tenants and other rows are never touched.\<close>

lemma cas_tenant:
  assumes "transition expected patch next" "kg' \<noteq> kg"
  shows "filter (\<lambda>r. kgOf r = kg') (snd (attempt kg i expected patch rows)) = filter (\<lambda>r. kgOf r = kg') rows"
  unfolding cas_def snd_update_returning using assms patch_key[OF assms(1)]
  by (intro filter_update_where_frame) auto

lemma cas_keys:
  assumes "transition expected patch next"
  shows "map (\<lambda>r. (kgOf r, idOf r)) (snd (attempt kg i expected patch rows)) = map (\<lambda>r. (kgOf r, idOf r)) rows"
  unfolding cas_def snd_update_returning using patch_key[OF assms] by (intro map_update_where) auto

lemma cas_find_other:
  assumes "transition expected patch next" "j \<noteq> i"
  shows "find (\<lambda>r. idOf r = j \<and> kgOf r = kg') (snd (attempt kg i expected patch rows))
       = find (\<lambda>r. idOf r = j \<and> kgOf r = kg') rows"
  unfolding cas_def snd_update_returning using assms(2) patch_key[OF assms(1)]
  by (intro find_update_where_other) auto

text \<open>On a table with unique ids: the outcome by the status of the row.\<close>

lemma cas_unique:
  assumes t: "transition expected patch next"
    and r: "find (\<lambda>r. idOf r = i \<and> kgOf r = kg) rows = Some r" and uniq: "distinct (map idOf rows)"
  shows "attempt kg i expected patch rows =
    (if statusOf r \<in> set expected
     then (Some (patch r), map (\<lambda>x. if idOf x = i then patch x else x) rows) else (None, rows))"
proof -
  note fd = find_SomeD[OF r]
  have one: "x = r" if "x \<in> set rows" "idOf x = i" for x
    using that fd uniq by (auto simp: distinct_map dest: inj_onD)
  have upd: "update_where (\<lambda>x. (idOf x = i \<and> kgOf x = kg) \<and> List.member expected (statusOf x)) patch rows
      = map (\<lambda>x. if idOf x = i then patch x else x) rows" if "statusOf r \<in> set expected"
    unfolding update_where_def using one that fd by (intro map_cong) auto
  show ?thesis
    unfolding cas_def
    by (subst update_returning_unique[where r = r]) (use fd one patch_key[OF t] upd in auto)
qed

text \<open>Ids stay unique.\<close>

lemma cas_distinct:
  assumes "transition expected patch next" "distinct (map idOf rows)"
  shows "distinct (map idOf (snd (attempt kg i expected patch rows)))"
proof -
  have "map idOf (snd (attempt kg i expected patch rows)) = map snd (map (\<lambda>r. (kgOf r, idOf r)) (snd (attempt kg i expected patch rows)))"
    by simp
  also have "\<dots> = map idOf rows" unfolding cas_keys[OF assms(1)] by simp
  finally show ?thesis using assms(2) by simp
qed

end

end
