(* ===== verification/Billing_Repo.thy ===== *)
theory Billing_Repo
  imports Billing_Db "HOL-Library.List_Lexorder" "HOL-Library.Char_ord"
begin

text \<open>
  The repositories of the billing module
  (\<open>src/modules/billing/infrastructure/persistence/relational/repositories/\<close>), one definition per
  query. A SELECT is a function of the state, an UPDATE or INSERT an operation. ORDER BY is a
  stable sort over insertion order (uuid columns compare like their text). A name is the repository's table and the method's name.
\<close>

subsection \<open>Columns\<close>

text \<open>A date column holds the UTC day: \<open>toIsoDate\<close> on the way in, \<open>toDate\<close> on the way out.\<close>

definition toDateColumn :: "instant \<Rightarrow> instant" where
  "toDateColumn d = d div ms_per_day * ms_per_day"

text \<open>A numeric literal read back with \<open>Number\<close>.\<close>

definition sql_number :: "decimal_lib \<Rightarrow> kzt \<Rightarrow> rat" where
  "sql_number D q = d_to_number D q"

subsection \<open>Invoices\<close>

definition PREPAYMENT_TYPES :: "InvoiceType list" where
  "PREPAYMENT_TYPES = [Prepayment3m, Prepayment6m, Prepayment12m, Prepayment24m]"

definition isPrepayment :: "InvoiceType \<Rightarrow> bool" where
  "isPrepayment t \<longleftrightarrow> t \<in> set PREPAYMENT_TYPES"

definition invoice_row :: "decimal_lib \<Rightarrow> InvoiceState \<Rightarrow> InvoiceState" where
  "invoice_row D s = s\<lparr>inv_periodStart := toDateColumn (inv_periodStart s),
     inv_periodEnd := toDateColumn (inv_periodEnd s), inv_dueDate := toDateColumn (inv_dueDate s),
     inv_amountDue := kzt_column D (inv_amountDue s),
     inv_amountAfterDiscount := kzt_column D (inv_amountAfterDiscount s)\<rparr>"

definition invoice_checks :: "InvoiceState \<Rightarrow> bool" where
  "invoice_checks r \<longleftrightarrow> inv_amountDue r \<ge> 0 \<and> inv_amountAfterDiscount r \<ge> 0
     \<and> (case inv_discountPct r of None \<Rightarrow> True | Some p \<Rightarrow> p \<ge> 0 \<and> p \<le> 100)
     \<and> (case inv_proratedForDays r of None \<Rightarrow> True | Some n \<Rightarrow> n \<ge> 0)
     \<and> inv_periodEnd r \<ge> inv_periodStart r"

definition lineItem_row :: "decimal_lib \<Rightarrow> InvoiceLineItemState \<Rightarrow> InvoiceLineItemState" where
  "lineItem_row D s = s\<lparr>li_unitPrice := kzt_column D (li_unitPrice s), li_lineTotal := kzt_column D (li_lineTotal s)\<rparr>"

definition lineItem_checks :: "InvoiceLineItemState \<Rightarrow> bool" where
  "lineItem_checks r \<longleftrightarrow> li_quantity r > 0 \<and> li_unitPrice r \<ge> 0 \<and> li_lineTotal r \<ge> 0"

text \<open>INSERT into a table with primary key \<open>idOf\<close> and CHECK constraints.\<close>

definition insertable :: "('r \<Rightarrow> uuid) \<Rightarrow> ('r \<Rightarrow> bool) \<Rightarrow> string \<Rightarrow> 'r list \<Rightarrow> 'r list \<Rightarrow> billing_error option" where
  "insertable idOf checks table news rows =
     (if \<not> list_all checks news then Some (DbCheckViolation table)
      else if \<not> distinct (map idOf news) \<or> \<not> list_all (\<lambda>n. \<not> list_ex (\<lambda>r. idOf r = idOf n) rows) news
      then Some (DbUniqueViolation table) else None)"

definition invoices_create :: "decimal_lib \<Rightarrow> InvoiceState \<Rightarrow> InvoiceLineItemState list \<Rightarrow> InvoiceState op" where
  "invoices_create D invoice lineItems db =
     (case insertable inv_id invoice_checks ''invoices'' [invoice_row D invoice] (db_invoices db) of
        Some e \<Rightarrow> Inl e
      | None \<Rightarrow>
          (let items = map (lineItem_row D) lineItems
           in case insertable li_id lineItem_checks ''invoice_line_items'' items (db_lineItems db) of
                Some e \<Rightarrow> Inl e
              | None \<Rightarrow> Inr (invoice, db\<lparr>db_invoices := db_invoices db @ [invoice_row D invoice],
                                    db_lineItems := db_lineItems db @ items\<rparr>)))"

definition invoices_findById :: "uuid \<Rightarrow> uuid \<Rightarrow> billing_db \<Rightarrow> InvoiceState option" where
  "invoices_findById kg i db = find (\<lambda>r. inv_id r = i \<and> inv_kindergartenId r = kg) (db_invoices db)"

text \<open>
  \<open>findByChildId\<close>, newest first (\<open>created_at DESC, id DESC\<close>), with the period filter of the payment
  calendar when it is given.
\<close>

definition invoices_findByChildId ::
  "uuid \<Rightarrow> uuid \<Rightarrow> (instant \<times> instant) option \<Rightarrow> billing_db \<Rightarrow> InvoiceState list" where
  "invoices_findByChildId kg child period db =
     rev (sort_key (\<lambda>r. (inv_createdAt r, inv_id r))
       (filter (\<lambda>r. inv_kindergartenId r = kg \<and> inv_childId r = child
          \<and> (case period of None \<Rightarrow> True
             | Some (ps, pe) \<Rightarrow> inv_periodStart r \<ge> ps \<and> inv_periodEnd r \<le> pe)) (db_invoices db)))"

definition invoices_existsMonthlyForPeriod :: "uuid \<Rightarrow> instant \<Rightarrow> billing_db \<Rightarrow> bool" where
  "invoices_existsMonthlyForPeriod kg periodStart db =
     list_ex (\<lambda>r. inv_kindergartenId r = kg \<and> inv_periodStart r = toDateColumn periodStart
        \<and> inv_invoiceType r = Monthly) (db_invoices db)"

definition completed_payments :: "uuid \<Rightarrow> uuid \<Rightarrow> billing_db \<Rightarrow> PaymentState list" where
  "completed_payments kg invoice db =
     filter (\<lambda>p. pay_kindergartenId p = kg \<and> pay_invoiceId p = invoice \<and> pay_status p = PayCompleted)
       (db_payments db)"

definition invoices_getPaidSumForInvoice :: "decimal_lib \<Rightarrow> uuid \<Rightarrow> uuid \<Rightarrow> billing_db \<Rightarrow> rat" where
  "invoices_getPaidSumForInvoice D kg invoice db =
     sql_number D (sum_list (map pay_amount (completed_payments kg invoice db)))"

text \<open>The map has an entry for every requested invoice with a completed payment.\<close>

definition invoices_getPaidSumsForInvoices ::
  "decimal_lib \<Rightarrow> uuid \<Rightarrow> uuid list \<Rightarrow> billing_db \<Rightarrow> uuid \<rightharpoonup> rat" where
  "invoices_getPaidSumsForInvoices D kg ids db =
     (\<lambda>i. if List.member ids i \<and> completed_payments kg i db \<noteq> []
          then Some (invoices_getPaidSumForInvoice D kg i db) else None)"

definition invoices_getOutstandingByChild ::
  "decimal_lib \<Rightarrow> uuid \<Rightarrow> uuid list \<Rightarrow> billing_db \<Rightarrow> uuid \<rightharpoonup> rat" where
  "invoices_getOutstandingByChild D kg children db =
     (\<lambda>c. let rows = filter (\<lambda>r. inv_kindergartenId r = kg \<and> inv_childId r = c
                \<and> inv_status r \<noteq> InvCancelled \<and> inv_status r \<noteq> InvRefunded) (db_invoices db)
          in if List.member children c \<and> rows \<noteq> []
             then Some (sql_number D (sum_list (map (\<lambda>r. max (inv_amountAfterDiscount r
                    - sum_list (map pay_amount (completed_payments kg (inv_id r) db))) 0) rows)))
             else None)"

definition invoice_set :: "InvoiceStatus \<Rightarrow> instant \<Rightarrow> InvoiceState \<Rightarrow> InvoiceState" where
  "invoice_set next now r = r\<lparr>inv_status := next, inv_updatedAt := now\<rparr>"

definition invoices_transitionStatusConditional ::
  "uuid \<Rightarrow> uuid \<Rightarrow> InvoiceStatus list \<Rightarrow> InvoiceStatus \<Rightarrow> instant \<Rightarrow> InvoiceState option op" where
  "invoices_transitionStatusConditional kg i expected next now db =
     (let (res, rows) = cas inv_kindergartenId inv_id inv_status kg i expected (invoice_set next now) (db_invoices db)
      in Inr (res, db\<lparr>db_invoices := rows\<rparr>))"

definition invoices_markPaidConditional :: "uuid \<Rightarrow> uuid \<Rightarrow> instant \<Rightarrow> InvoiceState option op" where
  "invoices_markPaidConditional kg i now =
     invoices_transitionStatusConditional kg i [InvPending, InvPartial, InvOverdue] InvPaid now"

definition invoices_markPartialConditional :: "uuid \<Rightarrow> uuid \<Rightarrow> instant \<Rightarrow> InvoiceState option op" where
  "invoices_markPartialConditional kg i now =
     invoices_transitionStatusConditional kg i [InvPending, InvOverdue] InvPartial now"

definition invoices_markCancelledConditional :: "uuid \<Rightarrow> uuid \<Rightarrow> instant \<Rightarrow> InvoiceState option op" where
  "invoices_markCancelledConditional kg i now =
     invoices_transitionStatusConditional kg i [InvPending, InvPartial, InvOverdue] InvCancelled now"

definition invoices_markRefundedConditional :: "uuid \<Rightarrow> uuid \<Rightarrow> instant \<Rightarrow> InvoiceState option op" where
  "invoices_markRefundedConditional kg i now =
     invoices_transitionStatusConditional kg i [InvPaid, InvPartial] InvRefunded now"

definition invoices_markOverdueConditional :: "uuid \<Rightarrow> uuid \<Rightarrow> instant \<Rightarrow> InvoiceState option op" where
  "invoices_markOverdueConditional kg i now =
     invoices_transitionStatusConditional kg i [InvPending, InvPartial] InvOverdue now"

text \<open>\<open>today\<close> is the local day the cron passes as \<open>YYYY-MM-DD\<close>; the flipped rows are returned.\<close>

definition overdue_due :: "uuid \<Rightarrow> instant \<Rightarrow> InvoiceState \<Rightarrow> bool" where
  "overdue_due kg today r \<longleftrightarrow> inv_kindergartenId r = kg
     \<and> (inv_status r = InvPending \<or> inv_status r = InvPartial) \<and> inv_dueDate r < today"

definition invoices_markOverdueBatch ::
  "decimal_lib \<Rightarrow> uuid \<Rightarrow> instant \<Rightarrow> instant \<Rightarrow> (uuid \<times> uuid \<times> rat \<times> instant) list op" where
  "invoices_markOverdueBatch D kg today now db =
     Inr (map (\<lambda>r. (inv_id r, inv_childId r, sql_number D (inv_amountAfterDiscount r), inv_dueDate r))
            (filter (overdue_due kg today) (db_invoices db)),
          db\<lparr>db_invoices := update_where (overdue_due kg today) (invoice_set InvOverdue now) (db_invoices db)\<rparr>)"

definition invoices_acquireMonthlyGenerationAdvisoryLock :: "uuid \<Rightarrow> instant \<Rightarrow> unit op" where
  "invoices_acquireMonthlyGenerationAdvisoryLock kg periodStart =
     lockM (''billing:monthly:'' @ kg @ '':'' @ take 7 (iso_date_string (utc_date_of periodStart)))"

definition invoices_acquireChildPrepaymentAdvisoryLock :: "uuid \<Rightarrow> uuid \<Rightarrow> unit op" where
  "invoices_acquireChildPrepaymentAdvisoryLock kg child = lockM (''billing:prepayment:'' @ kg @ '':'' @ child)"

definition unpaid_status :: "InvoiceStatus \<Rightarrow> bool" where
  "unpaid_status s \<longleftrightarrow> s = InvPending \<or> s = InvOverdue \<or> s = InvPartial"

definition invoices_findCurrentInvoiceForChildAt ::
  "uuid \<Rightarrow> uuid \<Rightarrow> instant \<Rightarrow> billing_db \<Rightarrow> InvoiceState option" where
  "invoices_findCurrentInvoiceForChildAt kg child atDate db =
     (case sort_key (\<lambda>r. - inv_periodStart r)
        (filter (\<lambda>r. inv_kindergartenId r = kg \<and> inv_childId r = child
           \<and> inv_periodStart r \<le> toDateColumn atDate \<and> inv_periodEnd r \<ge> toDateColumn atDate
           \<and> unpaid_status (inv_status r)) (db_invoices db)) of
        [] \<Rightarrow> None | r # _ \<Rightarrow> Some r)"

definition invoices_findUnpaidNonPrepaymentByChild :: "uuid \<Rightarrow> uuid \<Rightarrow> billing_db \<Rightarrow> InvoiceState list" where
  "invoices_findUnpaidNonPrepaymentByChild kg child db =
     sort_key (\<lambda>r. (inv_dueDate r, inv_id r)) (filter (\<lambda>r. inv_kindergartenId r = kg \<and> inv_childId r = child
        \<and> unpaid_status (inv_status r) \<and> \<not> isPrepayment (inv_invoiceType r)) (db_invoices db))"

definition invoices_findPaidPrepaymentsByChild ::
  "uuid \<Rightarrow> uuid \<Rightarrow> instant \<Rightarrow> billing_db \<Rightarrow> InvoiceState list" where
  "invoices_findPaidPrepaymentsByChild kg child periodEndFrom db =
     sort_key (\<lambda>r. (inv_periodStart r, inv_id r)) (filter (\<lambda>r. inv_kindergartenId r = kg \<and> inv_childId r = child
        \<and> isPrepayment (inv_invoiceType r) \<and> inv_status r = InvPaid
        \<and> inv_periodEnd r \<ge> toDateColumn periodEndFrom) (db_invoices db))"

definition invoices_listChildIdsWithPaidPrepaymentCovering :: "uuid \<Rightarrow> instant \<Rightarrow> billing_db \<Rightarrow> uuid list" where
  "invoices_listChildIdsWithPaidPrepaymentCovering kg periodStart db =
     remdups (map inv_childId (filter (\<lambda>r. inv_kindergartenId r = kg \<and> isPrepayment (inv_invoiceType r)
        \<and> inv_status r = InvPaid \<and> inv_periodStart r \<le> toDateColumn periodStart
        \<and> inv_periodEnd r \<ge> toDateColumn periodStart) (db_invoices db)))"

definition invoices_findMonthlyInWindow ::
  "uuid \<Rightarrow> uuid \<Rightarrow> instant \<Rightarrow> instant \<Rightarrow> billing_db \<Rightarrow> InvoiceState list" where
  "invoices_findMonthlyInWindow kg child windowStart windowEnd db =
     sort_key (\<lambda>r. (inv_periodStart r, inv_id r)) (filter (\<lambda>r. inv_kindergartenId r = kg \<and> inv_childId r = child
        \<and> inv_invoiceType r = Monthly \<and> (unpaid_status (inv_status r) \<or> inv_status r = InvPaid)
        \<and> inv_periodStart r \<ge> toDateColumn windowStart \<and> inv_periodStart r \<le> toDateColumn windowEnd)
        (db_invoices db))"

definition invoices_findUnpaidPrepaymentsByChild :: "uuid \<Rightarrow> uuid \<Rightarrow> billing_db \<Rightarrow> InvoiceState list" where
  "invoices_findUnpaidPrepaymentsByChild kg child db =
     sort_key (\<lambda>r. (inv_createdAt r, inv_id r)) (filter (\<lambda>r. inv_kindergartenId r = kg \<and> inv_childId r = child
        \<and> isPrepayment (inv_invoiceType r) \<and> unpaid_status (inv_status r)) (db_invoices db))"

subsection \<open>Payments\<close>

definition payment_row :: "decimal_lib \<Rightarrow> PaymentState \<Rightarrow> PaymentState" where
  "payment_row D s = s\<lparr>pay_amount := kzt_column D (pay_amount s), pay_refundRequired := False,
     pay_refundReason := None, pay_duplicateOfPaymentId := None\<rparr>"

text \<open>
  The INSERT leaves the double-payment columns at their defaults. A clash of idempotency keys (of
  any tenant) is the conflict error; the savepoint keeps the transaction usable.
\<close>

definition payments_create :: "decimal_lib \<Rightarrow> PaymentState \<Rightarrow> PaymentState op" where
  "payments_create D payment db =
     (case insertable pay_id (\<lambda>r. pay_amount r > 0) ''payments'' [payment_row D payment] (db_payments db) of
        Some e \<Rightarrow> Inl e
      | None \<Rightarrow>
          if list_ex (\<lambda>r. pay_idempotencyKey r = pay_idempotencyKey payment) (db_payments db)
          then Inl (PaymentIdempotencyConflict (pay_idempotencyKey payment))
          else Inr (payment, db\<lparr>db_payments := db_payments db @ [payment_row D payment]\<rparr>))"

definition payments_findById :: "uuid \<Rightarrow> uuid \<Rightarrow> billing_db \<Rightarrow> PaymentState option" where
  "payments_findById kg i db = find (\<lambda>r. pay_id r = i \<and> pay_kindergartenId r = kg) (db_payments db)"

definition payments_findByIdempotencyKey :: "uuid \<Rightarrow> string \<Rightarrow> billing_db \<Rightarrow> PaymentState option" where
  "payments_findByIdempotencyKey kg key db =
     find (\<lambda>r. pay_kindergartenId r = kg \<and> pay_idempotencyKey r = key) (db_payments db)"

definition payments_findByInvoiceId :: "uuid \<Rightarrow> uuid \<Rightarrow> billing_db \<Rightarrow> PaymentState list" where
  "payments_findByInvoiceId kg invoice db =
     sort_key (\<lambda>r. - pay_createdAt r)
       (filter (\<lambda>r. pay_kindergartenId r = kg \<and> pay_invoiceId r = invoice) (db_payments db))"

definition payments_findByProviderTxnId ::
  "uuid \<Rightarrow> PaymentProvider \<Rightarrow> string \<Rightarrow> billing_db \<Rightarrow> PaymentState option" where
  "payments_findByProviderTxnId kg provider txn db =
     find (\<lambda>r. pay_kindergartenId r = kg \<and> pay_provider r = provider \<and> pay_providerTxnId r = Some txn)
       (db_payments db)"

definition payments_transitionConditional ::
  "uuid \<Rightarrow> uuid \<Rightarrow> PaymentStatus list \<Rightarrow> (PaymentState \<Rightarrow> PaymentState) \<Rightarrow> PaymentState option op" where
  "payments_transitionConditional kg i expected patch db =
     (let (res, rows) = cas pay_kindergartenId pay_id pay_status kg i expected patch (db_payments db)
      in Inr (res, db\<lparr>db_payments := rows\<rparr>))"

definition completed_patch ::
  "string \<Rightarrow> instant \<Rightarrow> json_object option \<Rightarrow> instant \<Rightarrow> PaymentState \<Rightarrow> PaymentState" where
  "completed_patch txn paidAt payload now r = r\<lparr>pay_status := PayCompleted, pay_providerTxnId := Some txn,
     pay_paidAt := Some paidAt, pay_providerPayload := payload, pay_nextReconciliationAt := None,
     pay_updatedAt := now\<rparr>"

definition payments_markCompletedConditional ::
  "uuid \<Rightarrow> uuid \<Rightarrow> string \<Rightarrow> instant \<Rightarrow> json_object option \<Rightarrow> instant \<Rightarrow> PaymentState option op" where
  "payments_markCompletedConditional kg i txn paidAt payload now =
     payments_transitionConditional kg i [PayInitiated, PayProcessing] (completed_patch txn paidAt payload now)"

definition failed_patch :: "string \<Rightarrow> json_object option \<Rightarrow> instant \<Rightarrow> PaymentState \<Rightarrow> PaymentState" where
  "failed_patch reason payload now r = r\<lparr>pay_status := PayFailed,
     pay_providerPayload := Some (obj_set ''failure_reason'' (JStr reason)
       (case payload of None \<Rightarrow> [] | Some p \<Rightarrow> p)),
     pay_nextReconciliationAt := None, pay_updatedAt := now\<rparr>"

definition payments_markFailedConditional ::
  "uuid \<Rightarrow> uuid \<Rightarrow> string \<Rightarrow> json_object option \<Rightarrow> instant \<Rightarrow> PaymentState option op" where
  "payments_markFailedConditional kg i reason payload now =
     payments_transitionConditional kg i [PayInitiated, PayProcessing] (failed_patch reason payload now)"

text \<open>An unconditional UPDATE by key.\<close>

definition payments_updateProviderPayload ::
  "uuid \<Rightarrow> uuid \<Rightarrow> json_object \<Rightarrow> instant \<Rightarrow> PaymentState option op" where
  "payments_updateProviderPayload kg i payload now db =
     (let (res, rows) = update_returning (\<lambda>r. pay_id r = i \<and> pay_kindergartenId r = kg) (\<lambda>_. True)
            (\<lambda>r. r\<lparr>pay_providerPayload := Some payload, pay_updatedAt := now\<rparr>) (db_payments db)
      in Inr (res, db\<lparr>db_payments := rows\<rparr>))"

definition obj_merge :: "json_object \<Rightarrow> json_object \<Rightarrow> json_object" where
  "obj_merge a b = foldl (\<lambda>acc (k, v). obj_set k v acc) a b"

definition processing_patch ::
  "json_object option \<Rightarrow> instant \<Rightarrow> string option \<Rightarrow> json_object option \<Rightarrow> PaymentState \<Rightarrow> PaymentState" where
  "processing_patch current now txn payload r =
     (let r1 = r\<lparr>pay_status := PayProcessing, pay_updatedAt := now\<rparr>;
          r2 = (case txn of None \<Rightarrow> r1 | Some t \<Rightarrow> r1\<lparr>pay_providerTxnId := Some t\<rparr>)
      in case payload of None \<Rightarrow> r2
         | Some p \<Rightarrow> r2\<lparr>pay_providerPayload :=
             Some (obj_merge (case current of None \<Rightarrow> [] | Some c \<Rightarrow> c) p)\<rparr>)"

definition payments_markProcessingConditional ::
  "uuid \<Rightarrow> uuid \<Rightarrow> instant \<Rightarrow> string option \<Rightarrow> json_object option \<Rightarrow> PaymentState option op" where
  "payments_markProcessingConditional kg i now txn payload db =
     payments_transitionConditional kg i [PayInitiated]
       (processing_patch (Option.bind (payments_findById kg i db) pay_providerPayload) now txn payload) db"

definition refunded_patch :: "uuid \<Rightarrow> instant \<Rightarrow> PaymentState \<Rightarrow> PaymentState" where
  "refunded_patch refundId now r = r\<lparr>pay_status := PayRefunded, pay_refundId := Some refundId, pay_updatedAt := now\<rparr>"

definition payments_markRefundedConditional :: "uuid \<Rightarrow> uuid \<Rightarrow> uuid \<Rightarrow> instant \<Rightarrow> PaymentState option op" where
  "payments_markRefundedConditional kg i refundId now =
     payments_transitionConditional kg i [PayCompleted] (refunded_patch refundId now)"

definition refund_required_patch :: "string \<Rightarrow> uuid \<Rightarrow> instant \<Rightarrow> PaymentState \<Rightarrow> PaymentState" where
  "refund_required_patch reason dup now r = r\<lparr>pay_refundRequired := True, pay_refundReason := Some reason,
     pay_duplicateOfPaymentId := Some dup, pay_updatedAt := now\<rparr>"

definition payments_markRefundRequired ::
  "uuid \<Rightarrow> uuid \<Rightarrow> string \<Rightarrow> uuid \<Rightarrow> instant \<Rightarrow> PaymentState option op" where
  "payments_markRefundRequired kg i reason dup now db =
     (let (res, rows) = update_returning (\<lambda>r. pay_id r = i \<and> pay_kindergartenId r = kg) (\<lambda>_. True)
            (refund_required_patch reason dup now) (db_payments db)
      in Inr (res, db\<lparr>db_payments := rows\<rparr>))"

text \<open>The reconciliation schedule of BCC payments.\<close>

definition bcc_open :: "PaymentState \<Rightarrow> bool" where
  "bcc_open r \<longleftrightarrow> pay_provider r = BccProvider \<and> pay_status r = PayProcessing \<and> pay_manualReviewRequiredAt r = None"

definition payments_scheduleBccReconciliation ::
  "uuid \<Rightarrow> uuid \<Rightarrow> instant \<Rightarrow> instant \<Rightarrow> PaymentState option op" where
  "payments_scheduleBccReconciliation kg i nextAt now db =
     (let (res, rows) = update_returning (\<lambda>r. pay_id r = i \<and> pay_kindergartenId r = kg) bcc_open
            (\<lambda>r. r\<lparr>pay_nextReconciliationAt := Some nextAt, pay_updatedAt := now\<rparr>) (db_payments db)
      in Inr (res, db\<lparr>db_payments := rows\<rparr>))"

definition payments_claimBccReconciliation ::
  "uuid \<Rightarrow> uuid \<Rightarrow> instant \<Rightarrow> instant \<Rightarrow> PaymentState option op" where
  "payments_claimBccReconciliation kg i now leaseUntil db =
     (let (res, rows) = update_returning (\<lambda>r. pay_id r = i \<and> pay_kindergartenId r = kg)
            (\<lambda>r. bcc_open r \<and> (case pay_nextReconciliationAt r of None \<Rightarrow> False | Some t \<Rightarrow> t \<le> now))
            (\<lambda>r. r\<lparr>pay_reconciliationAttempts := pay_reconciliationAttempts r + 1,
               pay_lastReconciledAt := Some now, pay_nextReconciliationAt := Some leaseUntil,
               pay_updatedAt := now\<rparr>) (db_payments db)
      in Inr (res, db\<lparr>db_payments := rows\<rparr>))"

definition payments_markBccManualReview :: "uuid \<Rightarrow> uuid \<Rightarrow> instant \<Rightarrow> bool op" where
  "payments_markBccManualReview kg i now db =
     (let key = (\<lambda>r. (pay_id r = i \<and> pay_kindergartenId r = kg) \<and> bcc_open r)
      in Inr (length (filter key (db_payments db)) = 1,
              db\<lparr>db_payments := update_where key (\<lambda>r. r\<lparr>pay_manualReviewRequiredAt := Some now,
                 pay_nextReconciliationAt := None, pay_updatedAt := now\<rparr>) (db_payments db)\<rparr>))"

definition payments_acquirePaymentAdvisoryLock :: "uuid \<Rightarrow> uuid \<Rightarrow> unit op" where
  "payments_acquirePaymentAdvisoryLock kg invoice = lockM (''billing:payment:'' @ kg @ '':'' @ invoice)"

subsection \<open>Refunds\<close>

definition refunds_create :: "decimal_lib \<Rightarrow> RefundState \<Rightarrow> RefundState op" where
  "refunds_create D refund db =
     (let row = refund\<lparr>ref_amount := kzt_column D (ref_amount refund)\<rparr>
      in case insertable ref_id (\<lambda>r. ref_amount r > 0) ''refunds'' [row] (db_refunds db) of
           Some e \<Rightarrow> Inl e
         | None \<Rightarrow> Inr (refund, db\<lparr>db_refunds := db_refunds db @ [row]\<rparr>))"

definition refunds_findById :: "uuid \<Rightarrow> uuid \<Rightarrow> billing_db \<Rightarrow> RefundState option" where
  "refunds_findById kg i db = find (\<lambda>r. ref_id r = i \<and> ref_kindergartenId r = kg) (db_refunds db)"

definition refunds_transitionConditional ::
  "uuid \<Rightarrow> uuid \<Rightarrow> RefundStatus list \<Rightarrow> (RefundState \<Rightarrow> RefundState) \<Rightarrow> RefundState option op" where
  "refunds_transitionConditional kg i expected patch db =
     (let (res, rows) = cas ref_kindergartenId ref_id ref_status kg i expected patch (db_refunds db)
      in Inr (res, db\<lparr>db_refunds := rows\<rparr>))"

definition approved_patch :: "uuid \<Rightarrow> instant \<Rightarrow> RefundState \<Rightarrow> RefundState" where
  "approved_patch who now r = r\<lparr>ref_status := RefApproved, ref_processedBy := Some who, ref_updatedAt := now\<rparr>"

definition rejected_patch :: "string \<Rightarrow> instant \<Rightarrow> RefundState \<Rightarrow> RefundState" where
  "rejected_patch reason now r = r\<lparr>ref_status := RefRejected, ref_reason := reason, ref_updatedAt := now\<rparr>"

definition processed_patch :: "string option \<Rightarrow> instant \<Rightarrow> RefundState \<Rightarrow> RefundState" where
  "processed_patch providerRef now r = r\<lparr>ref_status := RefProcessed, ref_providerRef := providerRef, ref_updatedAt := now\<rparr>"

definition refunds_markApprovedConditional :: "uuid \<Rightarrow> uuid \<Rightarrow> uuid \<Rightarrow> instant \<Rightarrow> RefundState option op" where
  "refunds_markApprovedConditional kg i who now = refunds_transitionConditional kg i [RefPending] (approved_patch who now)"

definition refunds_markRejectedConditional :: "uuid \<Rightarrow> uuid \<Rightarrow> string \<Rightarrow> instant \<Rightarrow> RefundState option op" where
  "refunds_markRejectedConditional kg i reason now = refunds_transitionConditional kg i [RefPending] (rejected_patch reason now)"

definition refunds_markProcessedConditional ::
  "uuid \<Rightarrow> uuid \<Rightarrow> string option \<Rightarrow> instant \<Rightarrow> RefundState option op" where
  "refunds_markProcessedConditional kg i providerRef now =
     refunds_transitionConditional kg i [RefApproved] (processed_patch providerRef now)"

definition refunds_getProcessedRefundsSumForInvoice :: "decimal_lib \<Rightarrow> uuid \<Rightarrow> uuid \<Rightarrow> billing_db \<Rightarrow> rat" where
  "refunds_getProcessedRefundsSumForInvoice D kg invoice db =
     sql_number D (sum_list (map ref_amount (filter (\<lambda>r. ref_kindergartenId r = kg
        \<and> ref_invoiceId r = Some invoice \<and> ref_status r = RefProcessed) (db_refunds db))))"

definition refunds_acquireRefundProcessAdvisoryLock :: "uuid \<Rightarrow> uuid \<Rightarrow> unit op" where
  "refunds_acquireRefundProcessAdvisoryLock kg refundId = lockM (''billing:refund:'' @ kg @ '':'' @ refundId)"

subsection \<open>Payment accounts\<close>

text \<open>The id and the timestamps of a fresh account are column defaults.\<close>

definition accounts_findByChildId :: "uuid \<Rightarrow> uuid \<Rightarrow> billing_db \<Rightarrow> PaymentAccountState option" where
  "accounts_findByChildId kg child db =
     find (\<lambda>r. acc_childId r = child \<and> acc_kindergartenId r = kg) (db_accounts db)"

definition accounts_findOrCreateForChild :: "billing_env \<Rightarrow> uuid \<Rightarrow> uuid \<Rightarrow> PaymentAccountState op" where
  "accounts_findOrCreateForChild E kg child =
     bindM (readM (accounts_findByChildId kg child)) (\<lambda>existing.
     case existing of
       Some a \<Rightarrow> returnM a
     | None \<Rightarrow>
         bindM (randomUUID E) (\<lambda>i.
         bindM (nowM E) (\<lambda>now.
         let a = \<lparr>acc_id = i, acc_kindergartenId = kg, acc_childId = child, acc_balance = 0,
                  acc_createdAt = now, acc_updatedAt = now\<rparr>
         in bindM (modifyM (\<lambda>db. db\<lparr>db_accounts := db_accounts db @ [a]\<rparr>)) (\<lambda>_. returnM a))))"

definition accounts_findById :: "uuid \<Rightarrow> uuid \<Rightarrow> billing_db \<Rightarrow> PaymentAccountState option" where
  "accounts_findById kg i db = find (\<lambda>r. acc_id r = i \<and> acc_kindergartenId r = kg) (db_accounts db)"

definition accounts_save :: "decimal_lib \<Rightarrow> PaymentAccountState \<Rightarrow> PaymentAccountState op" where
  "accounts_save D s db =
     Inr (s, db\<lparr>db_accounts := update_where (\<lambda>r. acc_id r = acc_id s \<and> acc_kindergartenId r = acc_kindergartenId s)
        (\<lambda>r. r\<lparr>acc_balance := kzt_column D (acc_balance s), acc_updatedAt := acc_updatedAt s\<rparr>) (db_accounts db)\<rparr>)"

definition accounts_acquireBalanceAdvisoryLock :: "uuid \<Rightarrow> uuid \<Rightarrow> unit op" where
  "accounts_acquireBalanceAdvisoryLock kg accountId = lockM (''billing:account:'' @ accountId)"

end
