(* ===== verification/Discount_Repo.thy ===== *)
theory Discount_Repo
  imports Billing_Repo
begin

text \<open>
  The repositories of custom discounts and their application ledger, of tariff plans and tariff
  assignments, and the contract of compare-and-set on the four tables with statuses.
\<close>

subsection \<open>Custom discounts\<close>

text \<open>
  A raw JavaScript number bound to a \<open>numeric(12,2)\<close> parameter: PostgreSQL rounds ties away from
  zero (the money transformer is not involved).
\<close>

definition pg_numeric2 :: "rat \<Rightarrow> rat" where
  "pg_numeric2 q = (if q < 0 then - of_int \<lfloor>- q * 100 + 1 / 2\<rfloor> / 100 else of_int \<lfloor>q * 100 + 1 / 2\<rfloor> / 100)"

definition discount_checks :: "CustomDiscountState \<Rightarrow> bool" where
  "discount_checks r \<longleftrightarrow> cd_amount r > 0
     \<and> (case cd_validUntil r of None \<Rightarrow> True | Some u \<Rightarrow> u > cd_validFrom r)
     \<and> cd_usedCount r \<ge> 0 \<and> cd_priority r \<ge> 0"

text \<open>
  \<open>input\<close> carries the fields of \<open>CreateCustomDiscountInput\<close>; \<open>amount\<close> and \<open>conditions\<close> are
  the raw number and blob. The row is read back through the constructor, which may throw.
\<close>

definition discounts_create ::
  "billing_env \<Rightarrow> CustomDiscountState \<Rightarrow> rat \<Rightarrow> json \<Rightarrow> CustomDiscountState op" where
  "discounts_create E input amount conditions =
     bindM (randomUUID E) (\<lambda>i.
     bindM (nowM E) (\<lambda>now.
     let row = input\<lparr>cd_id := i, cd_amount := pg_numeric2 (d_of_number (env_decimal E) amount),
           cd_usedCount := 0, cd_status := CdDraft, cd_createdAt := now, cd_updatedAt := now\<rparr>
     in bindM (liftE DiscountErr (customDiscount_fromState row conditions)) (\<lambda>d. \<lambda>db.
          case insertable cd_id discount_checks ''custom_discounts'' [d] (db_discounts db) of
            Some e \<Rightarrow> Inl e
          | None \<Rightarrow> Inr (d, db\<lparr>db_discounts := db_discounts db @ [d]\<rparr>))))"

definition discounts_findById :: "uuid \<Rightarrow> uuid \<Rightarrow> billing_db \<Rightarrow> CustomDiscountState option" where
  "discounts_findById kg i db = find (\<lambda>r. cd_id r = i \<and> cd_kindergartenId r = kg) (db_discounts db)"

definition discount_set :: "CustomDiscountStatus \<Rightarrow> instant \<Rightarrow> CustomDiscountState \<Rightarrow> CustomDiscountState" where
  "discount_set next now r = r\<lparr>cd_status := next, cd_updatedAt := now\<rparr>"

definition discounts_transitionStatus ::
  "uuid \<Rightarrow> uuid \<Rightarrow> CustomDiscountStatus list \<Rightarrow> CustomDiscountStatus \<Rightarrow> instant \<Rightarrow> CustomDiscountState option op" where
  "discounts_transitionStatus kg i from to now db =
     (let (res, rows) = cas cd_kindergartenId cd_id cd_status kg i from (discount_set to now) (db_discounts db)
      in Inr (res, db\<lparr>db_discounts := rows\<rparr>))"

text \<open>The guarded counter updates: the answer is whether a row matched.\<close>

definition guarded_update ::
  "(CustomDiscountState \<Rightarrow> bool) \<Rightarrow> (CustomDiscountState \<Rightarrow> CustomDiscountState) \<Rightarrow> bool op" where
  "guarded_update P f db =
     Inr (list_ex P (db_discounts db), db\<lparr>db_discounts := update_where P f (db_discounts db)\<rparr>)"

definition discounts_incrementUsedCount :: "billing_env \<Rightarrow> uuid \<Rightarrow> uuid \<Rightarrow> int \<Rightarrow> bool op" where
  "discounts_incrementUsedCount E kg i n =
     bindM (nowM E) (\<lambda>now.
       guarded_update (\<lambda>r. cd_id r = i \<and> cd_kindergartenId r = kg
           \<and> (case cd_totalMaxUses r of None \<Rightarrow> True | Some m \<Rightarrow> cd_usedCount r + n \<le> m))
         (\<lambda>r. r\<lparr>cd_usedCount := cd_usedCount r + n, cd_updatedAt := now\<rparr>))"

definition discounts_tryReserveUsage :: "billing_env \<Rightarrow> uuid \<Rightarrow> uuid \<Rightarrow> bool op" where
  "discounts_tryReserveUsage E kg i =
     bindM (nowM E) (\<lambda>now.
       guarded_update (\<lambda>r. cd_id r = i \<and> cd_kindergartenId r = kg
           \<and> (case cd_totalMaxUses r of None \<Rightarrow> True | Some m \<Rightarrow> cd_usedCount r < m))
         (\<lambda>r. r\<lparr>cd_usedCount := cd_usedCount r + 1, cd_updatedAt := now\<rparr>))"

definition discounts_releaseUsage :: "billing_env \<Rightarrow> uuid \<Rightarrow> uuid \<Rightarrow> unit op" where
  "discounts_releaseUsage E kg i =
     bindM (nowM E) (\<lambda>now.
     bindM (guarded_update (\<lambda>r. cd_id r = i \<and> cd_kindergartenId r = kg)
         (\<lambda>r. r\<lparr>cd_usedCount := max (cd_usedCount r - 1) 0, cd_updatedAt := now\<rparr>))
       (\<lambda>_. returnM ()))"

definition discounts_findActiveCustomDiscounts :: "uuid \<Rightarrow> instant \<Rightarrow> billing_db \<Rightarrow> CustomDiscountState list" where
  "discounts_findActiveCustomDiscounts kg now db =
     sort_key (\<lambda>r. (- cd_priority r, cd_createdAt r))
       (filter (\<lambda>r. cd_kindergartenId r = kg \<and> cd_status r = CdActive \<and> cd_validFrom r \<le> now
          \<and> (case cd_validUntil r of None \<Rightarrow> True | Some u \<Rightarrow> u > now)) (db_discounts db))"

definition expired_by :: "uuid \<Rightarrow> instant \<Rightarrow> CustomDiscountState \<Rightarrow> bool" where
  "expired_by kg now r \<longleftrightarrow> cd_kindergartenId r = kg \<and> (cd_status r = CdActive \<or> cd_status r = CdPaused)
     \<and> (case cd_validUntil r of None \<Rightarrow> False | Some u \<Rightarrow> u \<le> now)"

definition discounts_markExpiredBatch :: "uuid \<Rightarrow> instant \<Rightarrow> uuid list op" where
  "discounts_markExpiredBatch kg now db =
     Inr (map cd_id (filter (expired_by kg now) (db_discounts db)),
          db\<lparr>db_discounts := update_where (expired_by kg now) (discount_set CdExpired now) (db_discounts db)\<rparr>)"

definition discounts_acquireDiscountActivationAdvisoryLock :: "uuid \<Rightarrow> uuid \<Rightarrow> unit op" where
  "discounts_acquireDiscountActivationAdvisoryLock kg i = lockM (''discount:activation:'' @ kg @ '':'' @ i)"

definition discounts_acquireDiscountApplyAdvisoryLock :: "uuid \<Rightarrow> uuid \<Rightarrow> uuid \<Rightarrow> unit op" where
  "discounts_acquireDiscountApplyAdvisoryLock kg customDiscountId child =
     lockM (''discount:apply:'' @ kg @ '':'' @ child @ '':'' @ customDiscountId)"

subsection \<open>Discount applications\<close>

definition applications_create ::
  "billing_env \<Rightarrow> uuid \<Rightarrow> uuid \<Rightarrow> uuid \<Rightarrow> uuid option \<Rightarrow> uuid \<Rightarrow> rat \<Rightarrow> CustomDiscountApplicationState op" where
  "applications_create E kg customDiscountId invoiceId lineItemId child amountApplied =
     bindM (randomUUID E) (\<lambda>i.
     bindM (nowM E) (\<lambda>appliedAt. \<lambda>db.
     let row = \<lparr>cda_id = i, cda_kindergartenId = kg, cda_customDiscountId = customDiscountId,
           cda_invoiceId = invoiceId, cda_invoiceLineItemId = lineItemId, cda_childId = child,
           cda_amountApplied = kzt_column (env_decimal E) (fromKzt_number (env_decimal E) amountApplied),
           cda_appliedAt = appliedAt\<rparr>
     in case insertable cda_id (\<lambda>r. cda_amountApplied r > 0) ''custom_discount_applications'' [row] (db_applications db) of
          Some e \<Rightarrow> Inl e
        | None \<Rightarrow> Inr (row, db\<lparr>db_applications := db_applications db @ [row]\<rparr>)))"

text \<open>
  The LEFT JOIN yields one joined row per application when invoice ids are unique: it is counted
  when the invoice is missing or not voided.
\<close>

definition applications_countByChildAndDiscount :: "uuid \<Rightarrow> uuid \<Rightarrow> uuid \<Rightarrow> billing_db \<Rightarrow> int" where
  "applications_countByChildAndDiscount kg child customDiscountId db =
     int (length (filter (\<lambda>a. cda_kindergartenId a = kg \<and> cda_childId a = child
        \<and> cda_customDiscountId a = customDiscountId
        \<and> (case invoices_findById (cda_kindergartenId a) (cda_invoiceId a) db of
             None \<Rightarrow> True | Some i \<Rightarrow> inv_status i \<noteq> InvCancelled \<and> inv_status i \<noteq> InvRefunded))
        (db_applications db)))"

definition applications_listByInvoiceId :: "uuid \<Rightarrow> uuid \<Rightarrow> billing_db \<Rightarrow> CustomDiscountApplicationState list" where
  "applications_listByInvoiceId kg invoiceId db =
     sort_key (\<lambda>a. (cda_appliedAt a, cda_id a)) (filter (\<lambda>a. cda_kindergartenId a = kg \<and> cda_invoiceId a = invoiceId) (db_applications db))"

subsection \<open>Tariff plans and assignments\<close>

definition in_window :: "instant \<Rightarrow> instant \<Rightarrow> instant option \<Rightarrow> bool" where
  "in_window d from until \<longleftrightarrow> from \<le> d \<and> (case until of None \<Rightarrow> True | Some u \<Rightarrow> u \<ge> d)"

text \<open>
  A plan read by its id passes the constructor of the aggregate, which refuses a row whose window is
  the wrong way round; the queries by date never return such a row.
\<close>

definition plan_by_id :: "uuid \<Rightarrow> uuid \<Rightarrow> billing_db \<Rightarrow> TariffPlanState option" where
  "plan_by_id kg i db = find (\<lambda>r. tp_id r = i \<and> tp_kindergartenId r = kg) (db_plans db)"

definition plans_findById :: "uuid \<Rightarrow> uuid \<Rightarrow> TariffPlanState option op" where
  "plans_findById kg i =
     bindM (readM (plan_by_id kg i)) (\<lambda>found.
     case found of
       None \<Rightarrow> returnM None
     | Some r \<Rightarrow> bindM (liftE TariffErr (tariffPlan_fromState r)) (\<lambda>s. returnM (Some s)))"

definition plans_findActiveByType :: "uuid \<Rightarrow> TariffType \<Rightarrow> instant \<Rightarrow> billing_db \<Rightarrow> TariffPlanState option" where
  "plans_findActiveByType kg tariffType atDate db =
     (case sort_key (\<lambda>r. - tp_validFrom r) (filter (\<lambda>r. tp_kindergartenId r = kg \<and> tp_tariffType r = tariffType
         \<and> tp_isActive r \<and> in_window (toDateColumn atDate) (tp_validFrom r) (tp_validUntil r)) (db_plans db)) of
        [] \<Rightarrow> None | r # _ \<Rightarrow> Some r)"

text \<open>The overlap test of the catalogue and of the assignments: an open end is infinity.\<close>

definition windows_overlap :: "instant \<Rightarrow> instant option \<Rightarrow> instant \<Rightarrow> instant option \<Rightarrow> bool" where
  "windows_overlap rowFrom rowUntil from until \<longleftrightarrow>
     (case until of
        None \<Rightarrow> (case rowUntil of None \<Rightarrow> True | Some u \<Rightarrow> u \<ge> from)
      | Some un \<Rightarrow> rowFrom \<le> un \<and> (case rowUntil of None \<Rightarrow> True | Some u \<Rightarrow> u \<ge> from))"

definition plans_existsOverlap ::
  "uuid \<Rightarrow> TariffType \<Rightarrow> TariffAppliesTo \<Rightarrow> uuid option \<Rightarrow> instant \<Rightarrow> instant option \<Rightarrow> uuid option \<Rightarrow> billing_db \<Rightarrow> bool" where
  "plans_existsOverlap kg tariffType appliesTo groupId validFrom validUntil excludeId db \<longleftrightarrow>
     (if appliesTo = AppliesIndividual then False
      else list_ex (\<lambda>r. tp_kindergartenId r = kg \<and> tp_tariffType r = tariffType \<and> tp_isActive r
         \<and> tp_appliesTo r = appliesTo \<and> (appliesTo = AppliesGroup \<longrightarrow> tp_groupId r = groupId)
         \<and> windows_overlap (tp_validFrom r) (tp_validUntil r) (toDateColumn validFrom) (map_option toDateColumn validUntil)
         \<and> (case excludeId of None \<Rightarrow> True | Some x \<Rightarrow> tp_id r \<noteq> x)) (db_plans db))"

definition assignments_findActiveForChild :: "uuid \<Rightarrow> uuid \<Rightarrow> instant \<Rightarrow> billing_db \<Rightarrow> TariffAssignmentState option" where
  "assignments_findActiveForChild kg child atDate db =
     (case sort_key (\<lambda>r. - ta_validFrom r) (filter (\<lambda>r. ta_kindergartenId r = kg \<and> ta_childId r = child
         \<and> in_window (toDateColumn atDate) (ta_validFrom r) (ta_validUntil r)) (db_assignments db)) of
        [] \<Rightarrow> None | r # _ \<Rightarrow> Some r)"

definition assignments_findAllActiveAtDate :: "uuid \<Rightarrow> instant \<Rightarrow> billing_db \<Rightarrow> TariffAssignmentState list" where
  "assignments_findAllActiveAtDate kg atDate db =
     sort_key (\<lambda>r. (ta_childId r, - ta_validFrom r)) (filter (\<lambda>r. ta_kindergartenId r = kg
         \<and> in_window (toDateColumn atDate) (ta_validFrom r) (ta_validUntil r)) (db_assignments db))"

definition assignments_existsOverlap ::
  "uuid \<Rightarrow> uuid \<Rightarrow> instant \<Rightarrow> instant option \<Rightarrow> uuid option \<Rightarrow> billing_db \<Rightarrow> bool" where
  "assignments_existsOverlap kg child validFrom validUntil excludeId db \<longleftrightarrow>
     list_ex (\<lambda>r. ta_kindergartenId r = kg \<and> ta_childId r = child
        \<and> windows_overlap (ta_validFrom r) (ta_validUntil r) (toDateColumn validFrom) (map_option toDateColumn validUntil)
        \<and> (case excludeId of None \<Rightarrow> True | Some x \<Rightarrow> ta_id r \<noteq> x)) (db_assignments db)"

definition closes :: "uuid \<Rightarrow> uuid \<Rightarrow> instant \<Rightarrow> TariffAssignmentState \<Rightarrow> bool" where
  "closes kg child day r \<longleftrightarrow> ta_kindergartenId r = kg \<and> ta_childId r = child
     \<and> (case ta_validUntil r of None \<Rightarrow> True | Some u \<Rightarrow> u > day)"

definition assignments_closeActiveForChild :: "uuid \<Rightarrow> uuid \<Rightarrow> instant \<Rightarrow> nat op" where
  "assignments_closeActiveForChild kg child validUntil db =
     (let day = toDateColumn validUntil
      in Inr (length (filter (closes kg child day) (db_assignments db)),
              db\<lparr>db_assignments := update_where (closes kg child day)
                 (\<lambda>r. r\<lparr>ta_validUntil := Some day, ta_updatedAt := validUntil\<rparr>) (db_assignments db)\<rparr>))"

subsection \<open>The compare-and-set contract\<close>

text \<open>The conditional transitions the code issues on each table.\<close>

inductive invoice_transition ::
  "InvoiceStatus list \<Rightarrow> (InvoiceState \<Rightarrow> InvoiceState) \<Rightarrow> InvoiceStatus \<Rightarrow> bool" where
  "invoice_transition [InvPending, InvPartial, InvOverdue] (invoice_set InvPaid now) InvPaid"
| "invoice_transition [InvPending, InvOverdue] (invoice_set InvPartial now) InvPartial"
| "invoice_transition [InvPending, InvPartial, InvOverdue] (invoice_set InvCancelled now) InvCancelled"
| "invoice_transition [InvPaid, InvPartial] (invoice_set InvRefunded now) InvRefunded"
| "invoice_transition [InvPending, InvPartial] (invoice_set InvOverdue now) InvOverdue"

inductive payment_transition ::
  "PaymentStatus list \<Rightarrow> (PaymentState \<Rightarrow> PaymentState) \<Rightarrow> PaymentStatus \<Rightarrow> bool" where
  "payment_transition [PayInitiated, PayProcessing] (completed_patch txn paidAt payload now) PayCompleted"
| "payment_transition [PayInitiated, PayProcessing] (failed_patch reason payload now) PayFailed"
| "payment_transition [PayInitiated] (processing_patch current now txno payload) PayProcessing"
| "payment_transition [PayCompleted] (refunded_patch refundId now) PayRefunded"

inductive refund_transition ::
  "RefundStatus list \<Rightarrow> (RefundState \<Rightarrow> RefundState) \<Rightarrow> RefundStatus \<Rightarrow> bool" where
  "refund_transition [RefPending] (approved_patch who now) RefApproved"
| "refund_transition [RefPending] (rejected_patch reason now) RefRejected"
| "refund_transition [RefApproved] (processed_patch providerRef now) RefProcessed"

inductive discount_transition ::
  "CustomDiscountStatus list \<Rightarrow> (CustomDiscountState \<Rightarrow> CustomDiscountState) \<Rightarrow> CustomDiscountStatus \<Rightarrow> bool" where
  "discount_transition [CdDraft] (discount_set CdActive now) CdActive"
| "discount_transition [CdActive] (discount_set CdPaused now) CdPaused"
| "discount_transition [CdPaused] (discount_set CdActive now) CdActive"
| "discount_transition [CdDraft, CdActive, CdPaused] (discount_set CdCancelled now) CdCancelled"

lemmas patch_defs = invoice_set_def completed_patch_def failed_patch_def processing_patch_def
  refunded_patch_def approved_patch_def rejected_patch_def processed_patch_def discount_set_def

interpretation invoices: status_table inv_kindergartenId inv_id inv_status invoice_transition
  by unfold_locales (auto simp: patch_defs elim!: invoice_transition.cases)

interpretation payments: status_table pay_kindergartenId pay_id pay_status payment_transition
  by unfold_locales (auto simp: patch_defs Let_def split: option.splits elim!: payment_transition.cases)

interpretation refunds: status_table ref_kindergartenId ref_id ref_status refund_transition
  by unfold_locales (auto simp: patch_defs elim!: refund_transition.cases)

interpretation discounts: status_table cd_kindergartenId cd_id cd_status discount_transition
  by unfold_locales (auto simp: patch_defs elim!: discount_transition.cases)

end
