(* ===== verification/Payment_Service.thy ===== *)
theory Payment_Service
  imports Discount_Repo
begin

text \<open>
  \<open>src/modules/billing/payment.service.ts\<close> and \<open>payment-account.service.ts\<close>: crediting and
  debiting the per-child account, settling a payment (webhook, poller, synchronous provider),
  failing it, initiating it. Provider adapters, queues, the fiscal receipt port and logging are
  outside: a provider's answer is an argument. An operation stands for one run of the ambient
  transaction, so a throw leaves no state.
\<close>

subsection \<open>Accounts\<close>

definition creditFromPayment :: "billing_env \<Rightarrow> uuid \<Rightarrow> uuid \<Rightarrow> kzt \<Rightarrow> PaymentAccountState op" where
  "creditFromPayment E kg accountId amount =
     bindM (accounts_acquireBalanceAdvisoryLock kg accountId) (\<lambda>_.
     bindM (readM (accounts_findById kg accountId)) (\<lambda>found.
     bindM (orThrow found (PaymentAccountNotFound accountId)) (\<lambda>account.
     bindM (nowM E) (\<lambda>now.
     bindM (liftE AccountErr (account_credit (env_decimal E) amount now account)) (\<lambda>account'.
     accounts_save (env_decimal E) account')))))"

definition debitForRefund :: "billing_env \<Rightarrow> uuid \<Rightarrow> uuid \<Rightarrow> kzt \<Rightarrow> PaymentAccountState op" where
  "debitForRefund E kg accountId amount =
     bindM (accounts_acquireBalanceAdvisoryLock kg accountId) (\<lambda>_.
     bindM (readM (accounts_findById kg accountId)) (\<lambda>found.
     bindM (orThrow found (PaymentAccountNotFound accountId)) (\<lambda>account.
     bindM (nowM E) (\<lambda>now.
     bindM (liftE AccountErr (account_debit (env_decimal E) amount now account)) (\<lambda>account'.
     accounts_save (env_decimal E) account')))))"

subsection \<open>Released discount slots, covered months\<close>

definition releaseCustomDiscountUsagesForInvoice :: "billing_env \<Rightarrow> uuid \<Rightarrow> uuid \<Rightarrow> unit op" where
  "releaseCustomDiscountUsagesForInvoice E kg invoiceId =
     bindM (readM (applications_listByInvoiceId kg invoiceId)) (\<lambda>apps.
     forM apps (\<lambda>app.
       bindM (readM (discounts_findById kg (cda_customDiscountId app))) (\<lambda>discount.
       whenM (case discount of None \<Rightarrow> False | Some d \<Rightarrow> cd_totalMaxUses d \<noteq> None)
         (discounts_releaseUsage E kg (cda_customDiscountId app)))))"

text \<open>
  Cancelling the unpaid monthly invoices a settled prepayment covers. The same code stands in
  \<open>PaymentService.cancelMonthliesCoveredByPrepayment\<close> and
  \<open>InvoiceService.cancelCoveredMonthliesForPrepayment\<close>.
\<close>

definition holds_money :: "(uuid \<rightharpoonup> rat) \<Rightarrow> InvoiceState \<Rightarrow> bool" where
  "holds_money paidSums m \<longleftrightarrow> (case paidSums (inv_id m) of None \<Rightarrow> False | Some paid \<Rightarrow> paid > 0)"

definition cancelMonthliesCoveredByPrepayment :: "billing_env \<Rightarrow> uuid \<Rightarrow> InvoiceState \<Rightarrow> instant \<Rightarrow> unit op" where
  "cancelMonthliesCoveredByPrepayment E kg prepayment now =
     bindM (invoices_acquireChildPrepaymentAdvisoryLock kg (inv_childId prepayment)) (\<lambda>_.
     bindM (forM (month_walk (inv_periodStart prepayment) (inv_periodEnd prepayment))
       (\<lambda>mStart. invoices_acquireMonthlyGenerationAdvisoryLock kg mStart)) (\<lambda>_.
     bindM (readM (invoices_findMonthlyInWindow kg (inv_childId prepayment)
       (inv_periodStart prepayment) (inv_periodEnd prepayment))) (\<lambda>overlapped.
     bindM (readM (invoices_getPaidSumsForInvoices (env_decimal E) kg (map inv_id overlapped))) (\<lambda>paidSums.
     forM overlapped (\<lambda>monthly.
       if inv_status monthly = InvPaid \<or> inv_status monthly = InvPartial \<or> holds_money paidSums monthly
       then returnM ()
       else
         bindM (invoices_markCancelledConditional kg (inv_id monthly) now) (\<lambda>cancelled.
         if cancelled = None then returnM ()
         else
           bindM (releaseCustomDiscountUsagesForInvoice E kg (inv_id monthly)) (\<lambda>_.
           emitM (InvoiceCancelledEv kg (inv_id monthly) (inv_childId monthly)
                    (Some ''covered_by_prepayment''))))))))) "

subsection \<open>Settlement\<close>

datatype WebhookStatus = WhProcessing | WhCompleted | WhFailed

record VerifyWebhookResult =
  vw_providerPaymentId :: string
  vw_status :: WebhookStatus
  vw_raw :: json_object
  vw_failureReason :: "string option"

definition mergeMissingProviderFields :: "json_object option \<Rightarrow> json_object \<Rightarrow> json_object" where
  "mergeMissingProviderFields current observation =
     foldl (\<lambda>merged (key, value). case map_of merged key of
              None \<Rightarrow> obj_set key value merged | Some JNull \<Rightarrow> obj_set key value merged | _ \<Rightarrow> merged)
       (case current of None \<Rightarrow> [] | Some c \<Rightarrow> c) observation"

definition payload_of :: "PaymentState \<Rightarrow> json_object" where
  "payload_of p = (case pay_providerPayload p of None \<Rightarrow> [] | Some obj \<Rightarrow> obj)"

definition notifyRefundRequiredToAdmins ::
  "billing_env \<Rightarrow> uuid \<Rightarrow> PaymentState \<Rightarrow> uuid option \<Rightarrow> string \<Rightarrow> unit op" where
  "notifyRefundRequiredToAdmins E kg payment dup reason =
     (let recipients = remdups (env_admins E kg)
      in whenM (recipients \<noteq> [])
        (emitM (PaymentRefundRequiredEv kg (pay_id payment) dup (pay_invoiceId payment) (pay_childId payment)
           (kzt_toNumber (env_decimal E) (pay_amount payment)) reason recipients)))"

definition escalateSettleIntoVoidInvoice :: "billing_env \<Rightarrow> uuid \<Rightarrow> PaymentState \<Rightarrow> uuid \<Rightarrow> unit op" where
  "escalateSettleIntoVoidInvoice E kg payment invoiceId =
     bindM (readM (invoices_findById kg invoiceId)) (\<lambda>reread.
     whenM (case reread of None \<Rightarrow> False | Some i \<Rightarrow> inv_status i = InvCancelled \<or> inv_status i = InvRefunded)
       (notifyRefundRequiredToAdmins E kg payment None ''settled_into_cancelled_invoice''))"

text \<open>
  The invoice side of a settlement: which flip is attempted for the paid sum, and the result of
  the flip to paid.
\<close>

definition flipInvoice ::
  "billing_env \<Rightarrow> uuid \<Rightarrow> PaymentState \<Rightarrow> InvoiceState \<Rightarrow> kzt \<Rightarrow> instant \<Rightarrow> InvoiceState option op" where
  "flipInvoice E kg updated invoice paidSum now =
     (if paidSum \<ge> inv_amountAfterDiscount invoice then
        bindM (whenM (isPrepayment (inv_invoiceType invoice))
          (invoices_acquireChildPrepaymentAdvisoryLock kg (inv_childId invoice))) (\<lambda>_.
        bindM (invoices_markPaidConditional kg (inv_id invoice) now) (\<lambda>paidFlip.
        bindM (whenM (paidFlip = None) (escalateSettleIntoVoidInvoice E kg updated (inv_id invoice))) (\<lambda>_.
        returnM paidFlip)))
      else if isPositive paidSum \<and> (inv_status invoice = InvPending \<or> inv_status invoice = InvOverdue) then
        bindM (invoices_markPartialConditional kg (inv_id invoice) now) (\<lambda>flipped.
        bindM (whenM (flipped = None) (escalateSettleIntoVoidInvoice E kg updated (inv_id invoice))) (\<lambda>_.
        returnM None))
      else if isPositive paidSum \<and> (inv_status invoice = InvCancelled \<or> inv_status invoice = InvRefunded) then
        bindM (escalateSettleIntoVoidInvoice E kg updated (inv_id invoice)) (\<lambda>_. returnM None)
      else returnM None)"

text \<open>The duplicate check: the earliest other completed payment of the invoice, if any.\<close>

definition earlierCompleted :: "PaymentState \<Rightarrow> PaymentState list \<Rightarrow> PaymentState option" where
  "earlierCompleted updated siblings =
     (case sort_key pay_createdAt (filter (\<lambda>p. pay_id p \<noteq> pay_id updated \<and> pay_status p = PayCompleted) siblings) of
        [] \<Rightarrow> None | p # _ \<Rightarrow> Some p)"

definition flagDoublePayment :: "billing_env \<Rightarrow> uuid \<Rightarrow> PaymentState \<Rightarrow> uuid \<Rightarrow> instant \<Rightarrow> unit op" where
  "flagDoublePayment E kg updated invoiceId now =
     bindM (readM (payments_findByInvoiceId kg invoiceId)) (\<lambda>siblings.
     case earlierCompleted updated siblings of
       None \<Rightarrow> returnM ()
     | Some earlier \<Rightarrow>
         bindM (payments_markRefundRequired kg (pay_id updated) ''double_payment'' (pay_id earlier) now) (\<lambda>_.
         notifyRefundRequiredToAdmins E kg updated (Some (pay_id earlier)) ''double_payment''))"

text \<open>What happens once this call has flipped the payment to completed.\<close>

definition settleInvoice :: "billing_env \<Rightarrow> uuid \<Rightarrow> PaymentState \<Rightarrow> uuid \<Rightarrow> instant \<Rightarrow> unit op" where
  "settleInvoice E kg updated invoiceId now =
     bindM (readM (invoices_findById kg invoiceId)) (\<lambda>found.
     bindM (orThrow found (InvoiceNotFound invoiceId)) (\<lambda>invoice.
     bindM (readM (\<lambda>db. fromKzt_number (env_decimal E)
       (invoices_getPaidSumForInvoice (env_decimal E) kg invoiceId db))) (\<lambda>paidSum.
     bindM (flipInvoice E kg updated invoice paidSum now) (\<lambda>paidFlip.
     bindM (whenM (paidFlip \<noteq> None \<and> isPrepayment (inv_invoiceType invoice))
       (cancelMonthliesCoveredByPrepayment E kg invoice now)) (\<lambda>_.
     bindM (creditFromPayment E kg (inv_paymentAccountId invoice) (pay_amount updated)) (\<lambda>_.
     bindM (flagDoublePayment E kg updated invoiceId now) (\<lambda>_.
     let paidAt = (case pay_paidAt updated of None \<Rightarrow> now | Some t \<Rightarrow> t) in
     bindM (emitM (PaymentCompletedEv kg (pay_id updated) (inv_childId invoice) (inv_id invoice)
       (kzt_toNumber (env_decimal E) (pay_amount updated)) (pay_provider updated) paidAt)) (\<lambda>_.
     whenM (paidSum \<ge> inv_amountAfterDiscount invoice)
       (emitM (InvoicePaidEv kg (inv_id invoice) (inv_childId invoice)
          (kzt_toNumber (env_decimal E) (inv_amountAfterDiscount invoice)) paidAt))))))))))"

definition applyCompletedPayment :: "billing_env \<Rightarrow> uuid \<Rightarrow> uuid \<Rightarrow> VerifyWebhookResult \<Rightarrow> PaymentState op" where
  "applyCompletedPayment E kg paymentId verified =
     bindM (readM (payments_findById kg paymentId)) (\<lambda>found.
     bindM (orThrow found (PaymentNotFound paymentId)) (\<lambda>current.
     bindM (payments_acquirePaymentAdvisoryLock kg (pay_invoiceId current)) (\<lambda>_.
     bindM (readM (payments_findById kg paymentId)) (\<lambda>found.
     bindM (orThrow found (PaymentNotFound paymentId)) (\<lambda>reread.
     if pay_status reread = PayCompleted \<or> pay_status reread = PayRefunded then
       bindM (nowM E) (\<lambda>now.
       bindM (payments_updateProviderPayload kg paymentId
         (mergeMissingProviderFields (pay_providerPayload reread) (vw_raw verified)) now) (\<lambda>updated.
       returnM (case updated of None \<Rightarrow> reread | Some u \<Rightarrow> u)))
     else
       bindM (nowM E) (\<lambda>now.
       bindM (payments_markCompletedConditional kg paymentId (vw_providerPaymentId verified) now
         (Some (obj_merge (payload_of reread) (vw_raw verified))) now) (\<lambda>flipped.
       case flipped of
         None \<Rightarrow> bindM (readM (payments_findById kg paymentId)) (\<lambda>after. orThrow after (PaymentNotFound paymentId))
       | Some updated \<Rightarrow>
           bindM (settleInvoice E kg updated (pay_invoiceId current) now) (\<lambda>_. returnM updated))))))))"

definition applyFailedPayment :: "billing_env \<Rightarrow> uuid \<Rightarrow> uuid \<Rightarrow> VerifyWebhookResult \<Rightarrow> PaymentState op" where
  "applyFailedPayment E kg paymentId verified =
     (let reason = (case vw_failureReason verified of None \<Rightarrow> ''webhook_failed'' | Some r \<Rightarrow> r) in
     bindM (readM (payments_findById kg paymentId)) (\<lambda>found.
     bindM (orThrow found (PaymentNotFound paymentId)) (\<lambda>current.
     bindM (payments_acquirePaymentAdvisoryLock kg (pay_invoiceId current)) (\<lambda>_.
     bindM (readM (payments_findById kg paymentId)) (\<lambda>found.
     bindM (orThrow found (PaymentNotFound paymentId)) (\<lambda>reread.
     if pay_status reread = PayFailed \<or> pay_status reread = PayCompleted \<or> pay_status reread = PayRefunded
     then returnM reread
     else
       bindM (nowM E) (\<lambda>now.
       bindM (payments_markFailedConditional kg paymentId reason
         (Some (obj_merge (payload_of reread) (vw_raw verified))) now) (\<lambda>flipped.
       case flipped of
         None \<Rightarrow> bindM (readM (payments_findById kg paymentId)) (\<lambda>after. orThrow after (PaymentNotFound paymentId))
       | Some updated \<Rightarrow>
           bindM (emitM (PaymentFailedEv kg (pay_id updated) (pay_childId updated) (pay_invoiceId updated)
             (kzt_toNumber (env_decimal E) (pay_amount updated)) (pay_provider updated) reason)) (\<lambda>_.
           returnM updated)))))))))"

definition applyProviderObservation :: "billing_env \<Rightarrow> uuid \<Rightarrow> uuid \<Rightarrow> json_object \<Rightarrow> PaymentState op" where
  "applyProviderObservation E kg paymentId raw =
     bindM (readM (payments_findById kg paymentId)) (\<lambda>found.
     bindM (orThrow found (PaymentNotFound paymentId)) (\<lambda>payment.
     bindM (payments_acquirePaymentAdvisoryLock kg (pay_invoiceId payment)) (\<lambda>_.
     bindM (readM (payments_findById kg paymentId)) (\<lambda>found.
     bindM (orThrow found (PaymentNotFound paymentId)) (\<lambda>reread.
     if pay_status reread \<noteq> PayInitiated \<and> pay_status reread \<noteq> PayProcessing then returnM reread
     else
       bindM (nowM E) (\<lambda>now.
       bindM (payments_updateProviderPayload kg paymentId (obj_merge (payload_of reread) raw) now) (\<lambda>updated.
       returnM (case updated of None \<Rightarrow> reread | Some u \<Rightarrow> u))))))))"

text \<open>The kg-scoped part of \<open>processWebhook\<close>, and the poller's entry point.\<close>

definition settleVerified :: "billing_env \<Rightarrow> uuid \<Rightarrow> uuid \<Rightarrow> VerifyWebhookResult \<Rightarrow> PaymentState op" where
  "settleVerified E kg paymentId verified =
     (case vw_status verified of
        WhFailed \<Rightarrow> applyFailedPayment E kg paymentId verified
      | WhProcessing \<Rightarrow> applyProviderObservation E kg paymentId (vw_raw verified)
      | WhCompleted \<Rightarrow> applyCompletedPayment E kg paymentId verified)"

definition settleFromKaspiPoller :: "billing_env \<Rightarrow> uuid \<Rightarrow> uuid \<Rightarrow> VerifyWebhookResult \<Rightarrow> PaymentState op" where
  "settleFromKaspiPoller E kg paymentId terminal =
     (if vw_status terminal = WhFailed then applyFailedPayment E kg paymentId terminal
      else applyCompletedPayment E kg paymentId terminal)"

definition payment_service_markFailed :: "billing_env \<Rightarrow> uuid \<Rightarrow> uuid \<Rightarrow> string \<Rightarrow> PaymentState op" where
  "payment_service_markFailed E kg paymentId reason =
     bindM (readM (payments_findById kg paymentId)) (\<lambda>found.
     bindM (orThrow found (PaymentNotFound paymentId)) (\<lambda>existing.
     bindM (nowM E) (\<lambda>now.
     bindM (payments_markFailedConditional kg paymentId reason None now) (\<lambda>updated.
     orThrow updated (PaymentErr (PaymentStatusInvalid (pay_status existing) ''markFailed''))))))"

end
