(* ===== verification/Billing_Frames.thy ===== *)
theory Billing_Frames
  imports Payment_Service
begin

text \<open>
  Which parts of the state an operation leaves alone. \<open>keeps f m\<close> says that every run of \<open>m\<close>
  that returns gives a state with the same \<open>f\<close>; the rules below reduce it along the structure of
  an operation, so that a frame fact about a service is one line.
\<close>

lemma map_update_returning:
  "(\<And>r. key r \<Longrightarrow> guard r \<Longrightarrow> g (f r) = g r) \<Longrightarrow> map g (snd (update_returning key guard f rows)) = map g rows"
  unfolding snd_update_returning by (rule map_update_where) simp

named_theorems frame \<open>rules for keeps\<close>

lemma keeps_if [frame]: "keeps f m \<Longrightarrow> keeps f n \<Longrightarrow> keeps f (if b then m else n)"
  by simp

lemma keeps_option [frame]: "keeps f m \<Longrightarrow> (\<And>x. keeps f (k x)) \<Longrightarrow> keeps f (case v of None \<Rightarrow> m | Some x \<Rightarrow> k x)"
  by (cases v) simp_all

lemma keeps_let [frame]: "(\<And>x. keeps f (k x)) \<Longrightarrow> keeps f (let x = v in k x)"
  by simp

lemmas [frame] = keeps_bind keeps_basic keeps_modify keeps_when keeps_forM keeps_mapM keeps_catch

lemma keeps_now [frame]: "(\<And>db x. f (db\<lparr>db_clockReads := x\<rparr>) = f db) \<Longrightarrow> keeps f (nowM E)"
  by (auto simp: keeps_def op_simps)

lemma keeps_uuid [frame]: "(\<And>db x. f (db\<lparr>db_uuidDraws := x\<rparr>) = f db) \<Longrightarrow> keeps f (randomUUID E)"
  by (auto simp: keeps_def op_simps)

lemma keeps_emit [frame]: "(\<And>db x. f (db\<lparr>db_outbox := x\<rparr>) = f db) \<Longrightarrow> keeps f (emitM ev)"
  by (auto simp: keeps_def op_simps)

lemma keeps_lock [frame]: "(\<And>db x. f (db\<lparr>db_locks := x\<rparr>) = f db) \<Longrightarrow> keeps f (lockM s)"
  by (auto simp: keeps_def op_simps)

lemmas lock_defs = invoices_acquireMonthlyGenerationAdvisoryLock_def
  invoices_acquireChildPrepaymentAdvisoryLock_def payments_acquirePaymentAdvisoryLock_def
  refunds_acquireRefundProcessAdvisoryLock_def accounts_acquireBalanceAdvisoryLock_def
  discounts_acquireDiscountActivationAdvisoryLock_def discounts_acquireDiscountApplyAdvisoryLock_def

lemmas invoice_flip_defs = invoices_markPaidConditional_def invoices_markPartialConditional_def
  invoices_markCancelledConditional_def invoices_markRefundedConditional_def
  invoices_markOverdueConditional_def

lemmas payment_flip_defs = payments_markCompletedConditional_def payments_markFailedConditional_def
  payments_markRefundedConditional_def

lemmas refund_flip_defs = refunds_markApprovedConditional_def refunds_markRejectedConditional_def
  refunds_markProcessedConditional_def

lemma keeps_invoice_flip [frame]:
  "(\<And>db x. f (db\<lparr>db_invoices := x\<rparr>) = f db) \<Longrightarrow> keeps f (invoices_transitionStatusConditional kg i expected nxt now)"
  by (auto simp: keeps_def invoices_transitionStatusConditional_def Let_def split: prod.splits)

lemma keeps_payment_flip [frame]:
  "(\<And>db x. f (db\<lparr>db_payments := x\<rparr>) = f db) \<Longrightarrow> keeps f (payments_transitionConditional kg i expected patch)"
  by (auto simp: keeps_def payments_transitionConditional_def Let_def split: prod.splits)

lemma keeps_refund_flip [frame]:
  "(\<And>db x. f (db\<lparr>db_refunds := x\<rparr>) = f db) \<Longrightarrow> keeps f (refunds_transitionConditional kg i expected patch)"
  by (auto simp: keeps_def refunds_transitionConditional_def Let_def split: prod.splits)

lemma keeps_discount_flip [frame]:
  "(\<And>db x. f (db\<lparr>db_discounts := x\<rparr>) = f db) \<Longrightarrow> keeps f (discounts_transitionStatus kg i from to now)"
  by (auto simp: keeps_def discounts_transitionStatus_def Let_def split: prod.splits)

lemma keeps_payload [frame]:
  "(\<And>db x. f (db\<lparr>db_payments := x\<rparr>) = f db) \<Longrightarrow> keeps f (payments_updateProviderPayload kg i p now)"
  by (auto simp: keeps_def payments_updateProviderPayload_def Let_def split: prod.splits)

lemma keeps_refundRequired [frame]:
  "(\<And>db x. f (db\<lparr>db_payments := x\<rparr>) = f db) \<Longrightarrow> keeps f (payments_markRefundRequired kg i r d now)"
  by (auto simp: keeps_def payments_markRefundRequired_def Let_def split: prod.splits)

lemma keeps_payments_create [frame]:
  "(\<And>db x. f (db\<lparr>db_payments := x\<rparr>) = f db) \<Longrightarrow> keeps f (payments_create D p)"
  by (auto simp: keeps_def payments_create_def split: option.splits if_splits)

lemma keeps_accounts_save [frame]:
  "(\<And>db x. f (db\<lparr>db_accounts := x\<rparr>) = f db) \<Longrightarrow> keeps f (accounts_save D a)"
  by (auto simp: keeps_def accounts_save_def)

lemma keeps_guarded [frame]:
  "(\<And>db x. f (db\<lparr>db_discounts := x\<rparr>) = f db) \<Longrightarrow> keeps f (guarded_update P g)"
  by (auto simp: keeps_def guarded_update_def)

subsection \<open>Operations that cannot throw\<close>

definition total :: "'a op \<Rightarrow> bool" where
  "total m \<longleftrightarrow> (\<forall>db. \<exists>x db'. m db = Inr (x, db'))"

named_theorems totals \<open>rules for total\<close>

lemma totalE:
  assumes "total m" obtains x db' where "m db = Inr (x, db')"
  using assms unfolding total_def by blast

lemma total_bind [totals]: "total m \<Longrightarrow> (\<And>x. total (k x)) \<Longrightarrow> total (bindM m k)"
  unfolding total_def by (metis bindM_run and_then_Inr)

lemma total_basic [totals]: "total (returnM x)" "total (readM g)" "total (modifyM h)" "total (nowM E)"
  "total (randomUUID E)" "total (emitM ev)" "total (lockM s)"
  by (auto simp: total_def op_simps)

lemma total_when [totals]: "total m \<Longrightarrow> total (whenM b m)"
  by (cases b) (simp_all add: whenM_def totals)

lemma total_forM [totals]: "(\<And>x. x \<in> set xs \<Longrightarrow> total (g x)) \<Longrightarrow> total (forM xs g)"
  by (induction xs) (simp_all add: totals)

lemma total_if [totals]: "total m \<Longrightarrow> total n \<Longrightarrow> total (if b then m else n)"
  by simp

lemma total_option [totals]: "total m \<Longrightarrow> (\<And>x. total (k x)) \<Longrightarrow> total (case v of None \<Rightarrow> m | Some x \<Rightarrow> k x)"
  by (cases v) simp_all

lemma total_updates [totals]:
  "total (invoices_transitionStatusConditional kg i expected nxt now)"
  "total (payments_transitionConditional kg i pexpected patch)"
  "total (refunds_transitionConditional kg i rexpected rpatch)"
  "total (discounts_transitionStatus kg i from to now)"
  "total (payments_updateProviderPayload kg i p now)" "total (payments_markRefundRequired kg i r d now)"
  "total (accounts_save D a)" "total (guarded_update P g)"
  by (auto simp: total_def invoices_transitionStatusConditional_def payments_transitionConditional_def
      refunds_transitionConditional_def discounts_transitionStatus_def payments_updateProviderPayload_def
      payments_markRefundRequired_def accounts_save_def guarded_update_def Let_def split: prod.splits)

subsection \<open>Releasing slots, cancelling covered months\<close>

lemma keeps_release [frame]:
  assumes "\<And>db x. f (db\<lparr>db_discounts := x\<rparr>) = f db" "\<And>db x. f (db\<lparr>db_clockReads := x\<rparr>) = f db"
  shows "keeps f (releaseCustomDiscountUsagesForInvoice E kg i)"
  unfolding releaseCustomDiscountUsagesForInvoice_def discounts_releaseUsage_def by (intro frame assms)

lemma total_release [totals]: "total (releaseCustomDiscountUsagesForInvoice E kg i)"
  unfolding releaseCustomDiscountUsagesForInvoice_def discounts_releaseUsage_def by (intro totals)

lemma keeps_cancelMonthlies [frame]:
  assumes "\<And>db x. f (db\<lparr>db_discounts := x\<rparr>) = f db" "\<And>db x. f (db\<lparr>db_clockReads := x\<rparr>) = f db"
    "\<And>db x. f (db\<lparr>db_locks := x\<rparr>) = f db" "\<And>db x. f (db\<lparr>db_outbox := x\<rparr>) = f db"
    "\<And>kg i nxt. keeps f (invoices_transitionStatusConditional kg i [InvPending, InvPartial, InvOverdue] nxt now)"
  shows "keeps f (cancelMonthliesCoveredByPrepayment E kg p now)"
  unfolding cancelMonthliesCoveredByPrepayment_def lock_defs invoice_flip_defs by (intro frame assms)

lemma total_cancelMonthlies [totals]: "total (cancelMonthliesCoveredByPrepayment E kg p now)"
  unfolding cancelMonthliesCoveredByPrepayment_def lock_defs invoice_flip_defs by (intro totals)

subsection \<open>Settlement\<close>

lemma keeps_notifyAdmins [frame]:
  "(\<And>db x. f (db\<lparr>db_outbox := x\<rparr>) = f db) \<Longrightarrow> keeps f (notifyRefundRequiredToAdmins E kg p d r)"
  unfolding notifyRefundRequiredToAdmins_def by (intro frame)

lemma total_notifyAdmins [totals]: "total (notifyRefundRequiredToAdmins E kg p d r)"
  unfolding notifyRefundRequiredToAdmins_def Let_def by (intro totals)

lemma keeps_escalate [frame]:
  "(\<And>db x. f (db\<lparr>db_outbox := x\<rparr>) = f db) \<Longrightarrow> keeps f (escalateSettleIntoVoidInvoice E kg p i)"
  unfolding escalateSettleIntoVoidInvoice_def by (intro frame)

lemma total_escalate [totals]: "total (escalateSettleIntoVoidInvoice E kg p i)"
  unfolding escalateSettleIntoVoidInvoice_def by (intro totals)

lemma keeps_flipInvoice [frame]:
  assumes "\<And>db x. f (db\<lparr>db_outbox := x\<rparr>) = f db" "\<And>db x. f (db\<lparr>db_locks := x\<rparr>) = f db"
    "\<And>i expected nxt. keeps f (invoices_transitionStatusConditional kg i expected nxt now)"
  shows "keeps f (flipInvoice E kg p v s now)"
  unfolding flipInvoice_def lock_defs invoice_flip_defs by (intro frame assms)

lemma total_flipInvoice [totals]: "total (flipInvoice E kg p v s now)"
  unfolding flipInvoice_def lock_defs invoice_flip_defs by (intro totals)

lemma keeps_flagDouble [frame]:
  assumes "\<And>db x. f (db\<lparr>db_outbox := x\<rparr>) = f db" "\<And>i r d. keeps f (payments_markRefundRequired kg i r d now)"
  shows "keeps f (flagDoublePayment E kg p i now)"
  unfolding flagDoublePayment_def by (intro frame assms)

lemma total_flagDouble [totals]: "total (flagDoublePayment E kg p i now)"
  unfolding flagDoublePayment_def by (intro totals)

end
