(* ===== verification/Settlement.thy ===== *)
theory Settlement
  imports Billing_Frames
begin

text \<open>
  What settling a payment does to the books: the account is credited once, replays change nothing
  but the stored payload, and the tables of other tenants are never written.
\<close>

subsection \<open>Views of the state\<close>

text \<open>Balances, what was paid, and which account an invoice belongs to.\<close>

definition balances :: "billing_db \<Rightarrow> (uuid \<times> uuid \<times> kzt) list" where
  "balances db = map (\<lambda>r. (acc_kindergartenId r, acc_id r, acc_balance r)) (db_accounts db)"

definition paid_view :: "billing_db \<Rightarrow> (uuid \<times> uuid \<times> uuid \<times> kzt \<times> PaymentStatus) list" where
  "paid_view db = map (\<lambda>p. (pay_kindergartenId p, pay_id p, pay_invoiceId p, pay_amount p, pay_status p)) (db_payments db)"

definition billed_view :: "billing_db \<Rightarrow> (uuid \<times> uuid \<times> uuid \<times> kzt) list" where
  "billed_view db = map (\<lambda>i. (inv_kindergartenId i, inv_id i, inv_paymentAccountId i, inv_amountAfterDiscount i)) (db_invoices db)"

text \<open>Primary keys are unique, and stored amounts fit their columns.\<close>

definition keys_ok :: "billing_db \<Rightarrow> bool" where
  "keys_ok db \<longleftrightarrow> distinct (map inv_id (db_invoices db)) \<and> distinct (map pay_id (db_payments db))
     \<and> distinct (map ref_id (db_refunds db)) \<and> distinct (map acc_id (db_accounts db))
     \<and> distinct (map cd_id (db_discounts db))"

lemma keeps_billed_flip [frame]: "keeps billed_view (invoices_transitionStatusConditional kg i expected nxt now)"
  by (simp add: keeps_def invoices_transitionStatusConditional_def billed_view_def cas_def case_prod_beta
      map_update_returning invoice_set_def)

lemma keeps_paid_refundRequired [frame]: "keeps paid_view (payments_markRefundRequired kg i r d now)"
  by (simp add: keeps_def payments_markRefundRequired_def paid_view_def case_prod_beta
      map_update_returning refund_required_patch_def)

lemma keeps_paid_payload [frame]: "keeps paid_view (payments_updateProviderPayload kg i p now)"
  by (simp add: keeps_def payments_updateProviderPayload_def paid_view_def case_prod_beta map_update_returning)

subsection \<open>Crediting\<close>

text \<open>The effect of the accounts' read-modify-write on the balances.\<close>

definition credited :: "uuid \<Rightarrow> kzt \<Rightarrow> (uuid \<times> uuid \<times> kzt) list \<Rightarrow> (uuid \<times> uuid \<times> kzt) list" where
  "credited a amount bs = map (\<lambda>(k, i, b). (k, i, if i = a then b + amount else b)) bs"

lemma save_balances:
  assumes acc: "accounts_findById kg a db = Some acc" and uniq: "distinct (map acc_id (db_accounts db))"
  shows "map (\<lambda>r. (acc_kindergartenId r, acc_id r, acc_balance r))
      (update_where (\<lambda>r. acc_id r = a \<and> acc_kindergartenId r = kg)
        (\<lambda>r. r\<lparr>acc_balance := acc_balance acc + d, acc_updatedAt := now\<rparr>) (db_accounts db))
    = credited a d (balances db)"
proof -
  note fd = find_SomeD[OF acc[unfolded accounts_findById_def]]
  have one: "r = acc" if "r \<in> set (db_accounts db)" "acc_id r = a" for r
    using that fd uniq by (auto simp: distinct_map dest: inj_onD)
  show ?thesis
    unfolding update_where_def balances_def credited_def map_map comp_def
    by (rule map_cong) (use one fd in auto)
qed

lemma credit_run:
  assumes D: "decimal_ok (env_decimal E)" and acc: "accounts_findById kg a db = Some acc"
    and uniq: "distinct (map acc_id (db_accounts db))"
    and amt: "cents (acc_balance acc)" "cents amount" "cents (acc_balance acc + amount)" "0 < amount"
  shows "\<exists>acc' n l rows. creditFromPayment E kg a amount db =
      Inr (acc', db\<lparr>db_clockReads := n, db_locks := l, db_accounts := rows\<rparr>)
    \<and> map (\<lambda>r. (acc_kindergartenId r, acc_id r, acc_balance r)) rows = credited a amount (balances db)"
proof -
  note fd = find_SomeD[OF acc[unfolded accounts_findById_def]]
  let ?now = "env_clock E (db_clockReads db)"
  define acc' where "acc' = acc\<lparr>acc_balance := acc_balance acc + amount, acc_updatedAt := ?now\<rparr>"
  have "account_credit (env_decimal E) amount ?now acc = Inr acc'"
    using amt decimal_arith.kzt_add_cents[OF decimal_arith.intro[OF D] amt(1,2)]
    by (simp add: account_credit_def money_simps acc'_def)
  then have "creditFromPayment E kg a amount db = Inr (acc', db\<lparr>db_clockReads := Suc (db_clockReads db),
      db_locks := db_locks db @ [''billing:account:'' @ a],
      db_accounts := update_where (\<lambda>r. acc_id r = a \<and> acc_kindergartenId r = kg)
        (\<lambda>r. r\<lparr>acc_balance := acc_balance acc + amount, acc_updatedAt := ?now\<rparr>) (db_accounts db)\<rparr>)"
    using acc fd decimal_arith.kzt_column_cents[OF decimal_arith.intro[OF D] amt(3)]
    by (simp add: creditFromPayment_def op_simps lock_defs accounts_findById_def accounts_save_def acc'_def)
  with save_balances[OF acc uniq] show ?thesis by blast
qed

lemma debit_run:
  assumes D: "decimal_ok (env_decimal E)" and acc: "accounts_findById kg a db = Some acc"
    and uniq: "distinct (map acc_id (db_accounts db))"
    and amt: "cents (acc_balance acc)" "cents amount" "cents (acc_balance acc - amount)" "0 < amount"
  shows "\<exists>acc' n l rows. debitForRefund E kg a amount db =
      Inr (acc', db\<lparr>db_clockReads := n, db_locks := l, db_accounts := rows\<rparr>)
    \<and> map (\<lambda>r. (acc_kindergartenId r, acc_id r, acc_balance r)) rows = credited a (- amount) (balances db)"
proof -
  note fd = find_SomeD[OF acc[unfolded accounts_findById_def]]
  let ?now = "env_clock E (db_clockReads db)"
  define acc' where "acc' = acc\<lparr>acc_balance := acc_balance acc + - amount, acc_updatedAt := ?now\<rparr>"
  have "account_debit (env_decimal E) amount ?now acc = Inr acc'"
    using amt decimal_arith.kzt_sub_cents[OF decimal_arith.intro[OF D] amt(1,2)]
    by (simp add: account_debit_def money_simps acc'_def)
  moreover have "kzt_column (env_decimal E) (acc_balance acc + - amount) = acc_balance acc + - amount"
    using decimal_arith.kzt_column_cents[OF decimal_arith.intro[OF D] amt(3)] by simp
  ultimately have "debitForRefund E kg a amount db = Inr (acc', db\<lparr>db_clockReads := Suc (db_clockReads db),
      db_locks := db_locks db @ [''billing:account:'' @ a],
      db_accounts := update_where (\<lambda>r. acc_id r = a \<and> acc_kindergartenId r = kg)
        (\<lambda>r. r\<lparr>acc_balance := acc_balance acc + - amount, acc_updatedAt := ?now\<rparr>) (db_accounts db)\<rparr>)"
    using acc fd
    by (simp add: debitForRefund_def op_simps lock_defs accounts_findById_def accounts_save_def acc'_def
        del: add_uminus_conv_diff)
  with save_balances[OF acc uniq] show ?thesis by blast
qed

subsection \<open>One settlement\<close>

lemma accounts_findById_cong: "db_accounts db = db_accounts db' \<Longrightarrow> accounts_findById kg a db = accounts_findById kg a db'"
  by (simp add: accounts_findById_def)

lemma view_updates [simp]:
  "paid_view (db\<lparr>db_outbox := ev\<rparr>) = paid_view db" "paid_view (db\<lparr>db_locks := l\<rparr>) = paid_view db"
  "paid_view (db\<lparr>db_clockReads := n\<rparr>) = paid_view db" "paid_view (db\<lparr>db_discounts := ds\<rparr>) = paid_view db"
  "paid_view (db\<lparr>db_accounts := as\<rparr>) = paid_view db" "paid_view (db\<lparr>db_invoices := is\<rparr>) = paid_view db"
  "billed_view (db\<lparr>db_outbox := ev\<rparr>) = billed_view db" "billed_view (db\<lparr>db_locks := l\<rparr>) = billed_view db"
  "billed_view (db\<lparr>db_clockReads := n\<rparr>) = billed_view db" "billed_view (db\<lparr>db_discounts := ds\<rparr>) = billed_view db"
  "billed_view (db\<lparr>db_accounts := as\<rparr>) = billed_view db" "billed_view (db\<lparr>db_payments := ps\<rparr>) = billed_view db"
  "balances (db\<lparr>db_outbox := ev\<rparr>) = balances db" "balances (db\<lparr>db_locks := l\<rparr>) = balances db"
  "balances (db\<lparr>db_clockReads := n\<rparr>) = balances db" "balances (db\<lparr>db_payments := ps\<rparr>) = balances db"
  by (simp_all add: paid_view_def billed_view_def balances_def)

text \<open>The parts of the settlement that are not the credit leave the books alone.\<close>

definition books :: "billing_db \<Rightarrow> PaymentAccountState list \<times> (uuid \<times> uuid \<times> uuid \<times> kzt \<times> PaymentStatus) list
    \<times> (uuid \<times> uuid \<times> uuid \<times> kzt) list \<times> RefundState list" where
  "books db = (db_accounts db, paid_view db, billed_view db, db_refunds db)"

lemma books_updates [simp]:
  "books (db\<lparr>db_outbox := ev\<rparr>) = books db" "books (db\<lparr>db_locks := l\<rparr>) = books db"
  "books (db\<lparr>db_clockReads := n\<rparr>) = books db" "books (db\<lparr>db_discounts := ds\<rparr>) = books db"
  by (simp_all add: books_def)

lemma keeps_books_updates [frame]:
  "keeps books (invoices_transitionStatusConditional kg i expected nxt now)"
  "keeps books (payments_markRefundRequired kg j r d now)"
  "keeps books (payments_updateProviderPayload kg j p now)"
proof -
  have "keeps db_accounts (invoices_transitionStatusConditional kg i expected nxt now)"
    "keeps paid_view (invoices_transitionStatusConditional kg i expected nxt now)"
    "keeps db_refunds (invoices_transitionStatusConditional kg i expected nxt now)"
    by (intro frame; simp)+
  then show "keeps books (invoices_transitionStatusConditional kg i expected nxt now)"
    using keeps_billed_flip[of kg i expected nxt now] by (simp add: keeps_def books_def)
  have "keeps db_accounts (payments_markRefundRequired kg j r d now)"
    "keeps billed_view (payments_markRefundRequired kg j r d now)"
    "keeps db_refunds (payments_markRefundRequired kg j r d now)"
    by (intro frame; simp)+
  then show "keeps books (payments_markRefundRequired kg j r d now)"
    using keeps_paid_refundRequired[of kg j r d now] by (simp add: keeps_def books_def)
  have "keeps db_accounts (payments_updateProviderPayload kg j p now)"
    "keeps billed_view (payments_updateProviderPayload kg j p now)"
    "keeps db_refunds (payments_updateProviderPayload kg j p now)"
    by (intro frame; simp)+
  then show "keeps books (payments_updateProviderPayload kg j p now)"
    using keeps_paid_payload[of kg j p now] by (simp add: keeps_def books_def)
qed

lemma keeps_books_parts:
  "keeps books (flipInvoice E kg p v s now)"
  "keeps books (whenM b (cancelMonthliesCoveredByPrepayment E kg v now))"
  by (intro frame; simp)+

definition settlement_tail :: "billing_env \<Rightarrow> uuid \<Rightarrow> PaymentState \<Rightarrow> InvoiceState \<Rightarrow> kzt \<Rightarrow> uuid \<Rightarrow> instant \<Rightarrow> unit op" where
  "settlement_tail E kg p v paidSum i now = bindM (flagDoublePayment E kg p i now) (\<lambda>_.
     let paidAt = (case pay_paidAt p of None \<Rightarrow> now | Some t \<Rightarrow> t) in
     bindM (emitM (PaymentCompletedEv kg (pay_id p) (inv_childId v) (inv_id v)
       (kzt_toNumber (env_decimal E) (pay_amount p)) (pay_provider p) paidAt)) (\<lambda>_.
     whenM (paidSum \<ge> inv_amountAfterDiscount v)
       (emitM (InvoicePaidEv kg (inv_id v) (inv_childId v)
          (kzt_toNumber (env_decimal E) (inv_amountAfterDiscount v)) paidAt))))"

lemma total_tail: "total (settlement_tail E kg p v s i now)"
  unfolding settlement_tail_def Let_def by (intro totals)

lemma keeps_books_tail: "keeps books (settlement_tail E kg p v s i now)"
  unfolding settlement_tail_def by (intro frame) simp_all

lemma settleInvoice_run:
  assumes D: "decimal_ok (env_decimal E)" and invoice: "invoices_findById kg i db = Some v"
    and acc: "accounts_findById kg (inv_paymentAccountId v) db = Some acc"
    and uniq: "distinct (map acc_id (db_accounts db))"
    and amt: "cents (acc_balance acc)" "cents (pay_amount p)" "cents (acc_balance acc + pay_amount p)" "0 < pay_amount p"
  shows "\<exists>db'. settleInvoice E kg p i now db = Inr ((), db')
    \<and> balances db' = credited (inv_paymentAccountId v) (pay_amount p) (balances db)
    \<and> paid_view db' = paid_view db \<and> billed_view db' = billed_view db \<and> db_refunds db' = db_refunds db"
proof -
  let ?sum = "fromKzt_number (env_decimal E) (invoices_getPaidSumForInvoice (env_decimal E) kg i db)"
  let ?hook = "\<lambda>x. whenM (x \<noteq> None \<and> isPrepayment (inv_invoiceType v)) (cancelMonthliesCoveredByPrepayment E kg v now)"
  obtain x db1 where r1: "flipInvoice E kg p v ?sum now db = Inr (x, db1)"
    using totalE[OF total_flipInvoice] by blast
  obtain y db2 where r2: "?hook x db1 = Inr (y, db2)"
    using totalE[OF total_when[OF total_cancelMonthlies]] by blast
  have k1: "books db1 = books db" and k2: "books db2 = books db1"
    using keeps_books_parts(1)[unfolded keeps_def] keeps_books_parts(2)[unfolded keeps_def] r1 r2 by blast+
  have "accounts_findById kg (inv_paymentAccountId v) db2 = Some acc"
    using acc k1 k2 accounts_findById_cong[of db2 db] by (simp add: books_def)
  moreover have "distinct (map acc_id (db_accounts db2))" using uniq k1 k2 by (simp add: books_def)
  ultimately obtain a n l rows where
    r3: "creditFromPayment E kg (inv_paymentAccountId v) (pay_amount p) db2 =
      Inr (a, db2\<lparr>db_clockReads := n, db_locks := l, db_accounts := rows\<rparr>)"
    and bal: "map (\<lambda>r. (acc_kindergartenId r, acc_id r, acc_balance r)) rows =
      credited (inv_paymentAccountId v) (pay_amount p) (balances db2)"
    using credit_run[OF D _ _ amt] by blast
  let ?db3 = "db2\<lparr>db_clockReads := n, db_locks := l, db_accounts := rows\<rparr>"
  obtain z db4 where r4: "settlement_tail E kg p v ?sum i now ?db3 = Inr (z, db4)"
    using totalE[OF total_tail] by blast
  have "settleInvoice E kg p i now db = settlement_tail E kg p v ?sum i now ?db3"
    using invoice by (simp add: settleInvoice_def op_simps r1 r2 r3 settlement_tail_def del: not_None_eq)
  moreover have "books db4 = books ?db3"
    using keeps_books_tail[unfolded keeps_def] r4 by blast
  ultimately show ?thesis
    using r4 k1 k2 bal by (intro exI[of _ db4]) (simp add: books_def balances_def)
qed

definition settled :: "uuid \<Rightarrow> (uuid \<times> uuid \<times> uuid \<times> kzt \<times> PaymentStatus) list
    \<Rightarrow> (uuid \<times> uuid \<times> uuid \<times> kzt \<times> PaymentStatus) list" where
  "settled pid ps = map (\<lambda>(k, i, n, a, st). (k, i, n, a, if i = pid then PayCompleted else st)) ps"

lemma completed_patch_fields [simp]:
  "pay_amount (completed_patch t pa pl n p) = pay_amount p" "pay_id (completed_patch t pa pl n p) = pay_id p"
  "pay_kindergartenId (completed_patch t pa pl n p) = pay_kindergartenId p"
  "pay_invoiceId (completed_patch t pa pl n p) = pay_invoiceId p"
  "pay_status (completed_patch t pa pl n p) = PayCompleted"
  "pay_createdAt (completed_patch t pa pl n p) = pay_createdAt p"
  by (simp_all add: completed_patch_def)

lemma markCompleted_run:
  assumes p: "payments_findById kg pid db = Some p" and opn: "pay_status p \<in> {PayInitiated, PayProcessing}"
    and uniq: "distinct (map pay_id (db_payments db))"
  shows "payments_markCompletedConditional kg pid txn paidAt payload now db =
    Inr (Some (completed_patch txn paidAt payload now p),
         db\<lparr>db_payments := map (\<lambda>x. if pay_id x = pid then completed_patch txn paidAt payload now x else x) (db_payments db)\<rparr>)"
  unfolding payments_markCompletedConditional_def payments_transitionConditional_def
  using payments.cas_unique[OF payment_transition.intros(1) p[unfolded payments_findById_def] uniq] opn
  by auto

lemma findById_completed:
  assumes p: "payments_findById kg pid db = Some p" and uniq: "distinct (map pay_id (db_payments db))"
    and view: "paid_view db' = settled pid (paid_view db)"
  shows "\<exists>p'. payments_findById kg pid db' = Some p' \<and> pay_status p' = PayCompleted
    \<and> distinct (map pay_id (db_payments db'))"
proof -
  note fd = find_SomeD[OF p[unfolded payments_findById_def]]
  let ?v = "\<lambda>p. (pay_kindergartenId p, pay_id p, pay_invoiceId p, pay_amount p, pay_status p)"
  have ids: "map pay_id (db_payments db') = map pay_id (db_payments db)"
    using arg_cong[OF view, of "map (\<lambda>(k, i, n, a, st). i)"]
    by (simp add: paid_view_def settled_def comp_def case_prod_beta)
  have "?v p \<in> set (paid_view db)" using fd by (force simp: paid_view_def)
  then have "(kg, pid, pay_invoiceId p, pay_amount p, PayCompleted) \<in> set (paid_view db')"
    using fd unfolding view settled_def by force
  then obtain q where q: "q \<in> set (db_payments db')" "pay_kindergartenId q = kg" "pay_id q = pid"
    "pay_status q = PayCompleted" unfolding paid_view_def by auto
  have "payments_findById kg pid db' = Some q"
    unfolding payments_findById_def
  proof (rule find_unique[OF q(1)])
    show "x = q" if "x \<in> set (db_payments db')" "pay_id x = pid \<and> pay_kindergartenId x = kg" for x
      using that q ids uniq by (metis distinct_map inj_onD)
  qed (use q in simp)
  with q ids uniq show ?thesis by simp
qed

text \<open>A settlement of an open payment completes it and credits its amount to the invoice's account.\<close>

lemma settlement_credits:
  assumes D: "decimal_ok (env_decimal E)" and keys: "keys_ok db"
    and p: "payments_findById kg pid db = Some p" and opn: "pay_status p \<in> {PayInitiated, PayProcessing}"
    and invoice: "invoices_findById kg (pay_invoiceId p) db = Some v"
    and acc: "accounts_findById kg (inv_paymentAccountId v) db = Some acc"
    and amt: "cents (acc_balance acc)" "cents (pay_amount p)" "cents (acc_balance acc + pay_amount p)" "0 < pay_amount p"
  shows "\<exists>p' db'. applyCompletedPayment E kg pid verified db = Inr (p', db')
    \<and> pay_status p' = PayCompleted \<and> pay_amount p' = pay_amount p
    \<and> balances db' = credited (inv_paymentAccountId v) (pay_amount p) (balances db)
    \<and> paid_view db' = settled pid (paid_view db)
    \<and> billed_view db' = billed_view db \<and> db_refunds db' = db_refunds db"
proof -
  let ?now = "env_clock E (db_clockReads db)"
  let ?lock = "''billing:payment:'' @ kg @ '':'' @ pay_invoiceId p"
  let ?patch = "completed_patch (vw_providerPaymentId verified) ?now (Some (obj_merge (payload_of p) (vw_raw verified))) ?now"
  let ?rows = "map (\<lambda>x. if pay_id x = pid then ?patch x else x) (db_payments db)"
  let ?db1 = "db\<lparr>db_locks := db_locks db @ [?lock], db_clockReads := Suc (db_clockReads db), db_payments := ?rows\<rparr>"
  have run: "applyCompletedPayment E kg pid verified db =
      and_then (settleInvoice E kg (?patch p) (pay_invoiceId p) ?now ?db1) (\<lambda>_ s. Inr (?patch p, s))"
    using p opn keys
    by (auto simp: applyCompletedPayment_def op_simps lock_defs payments_findById_def keys_ok_def
        markCompleted_run[unfolded payments_findById_def, where p = p] returnM_def)
  obtain db' where r: "settleInvoice E kg (?patch p) (pay_invoiceId p) ?now ?db1 = Inr ((), db')"
    "balances db' = credited (inv_paymentAccountId v) (pay_amount p) (balances ?db1)"
    "paid_view db' = paid_view ?db1" "billed_view db' = billed_view ?db1" "db_refunds db' = db_refunds ?db1"
    using settleInvoice_run[OF D, of kg "pay_invoiceId p" ?db1 v acc "?patch p" ?now, unfolded completed_patch_fields] invoice acc amt keys
    by (auto simp: invoices_findById_def accounts_findById_def keys_ok_def)
  have "paid_view ?db1 = settled pid (paid_view db)"
    by (auto simp: paid_view_def settled_def)
  with r run show ?thesis
    by (intro exI[of _ "?patch p"] exI[of _ db']) simp
qed

text \<open>A replay of a settled payment changes no book, no invoice and sends nothing.\<close>

lemma settlement_replay:
  assumes p: "payments_findById kg pid db = Some p" and fin: "pay_status p \<in> {PayCompleted, PayRefunded}"
  shows "\<exists>p' db'. applyCompletedPayment E kg pid verified db = Inr (p', db')
    \<and> books db' = books db \<and> db_invoices db' = db_invoices db \<and> db_discounts db' = db_discounts db
    \<and> db_outbox db' = db_outbox db"
proof -
  let ?m = "bindM (nowM E) (\<lambda>now. bindM (payments_updateProviderPayload kg pid
         (mergeMissingProviderFields (pay_providerPayload p) (vw_raw verified)) now) (\<lambda>updated.
       returnM (case updated of None \<Rightarrow> p | Some u \<Rightarrow> u)))"
  let ?db1 = "db\<lparr>db_locks := db_locks db @ [''billing:payment:'' @ kg @ '':'' @ pay_invoiceId p]\<rparr>"
  have run: "applyCompletedPayment E kg pid verified db = ?m ?db1"
    using p fin by (auto simp: applyCompletedPayment_def op_simps lock_defs payments_findById_def)
  have "total ?m" by (intro totals)
  then obtain x db' where r: "?m ?db1 = Inr (x, db')" by (rule totalE)
  have "keeps books ?m" "keeps db_invoices ?m" "keeps db_discounts ?m" "keeps db_outbox ?m"
    by (intro frame; simp)+
  with r have "books db' = books ?db1" "db_invoices db' = db_invoices ?db1" "db_discounts db' = db_discounts ?db1"
    "db_outbox db' = db_outbox ?db1" unfolding keeps_def by blast+
  with run r show ?thesis by auto
qed

end
