(* ===== verification/Refund_Service.thy ===== *)
theory Refund_Service
  imports Settlement
begin

text \<open>
  \<open>src/modules/billing/refund.service.ts\<close>: creating, approving, rejecting and processing a refund.
  The provider's answer to the refund call is an argument: the reason it threw, or its reference.
\<close>

definition BCC_REFUND_WINDOW_MS :: int where
  "BCC_REFUND_WINDOW_MS = 30 * 24 * 60 * 60 * 1000"

definition bcc_window_expired :: "PaymentState \<Rightarrow> instant \<Rightarrow> bool" where
  "bcc_window_expired payment now \<longleftrightarrow> pay_provider payment = BccProvider
     \<and> (case pay_paidAt payment of None \<Rightarrow> False | Some t \<Rightarrow> now - t > BCC_REFUND_WINDOW_MS)"

definition refund_create :: "billing_env \<Rightarrow> uuid \<Rightarrow> uuid \<Rightarrow> rat \<Rightarrow> string \<Rightarrow> RefundState op" where
  "refund_create E kg paymentId inputAmount reason =
     bindM (readM (payments_findById kg paymentId)) (\<lambda>found.
     bindM (orThrow found (PaymentNotFound paymentId)) (\<lambda>payment.
     if pay_status payment \<noteq> PayCompleted
     then throwM (PaymentErr (PaymentStatusInvalid (pay_status payment) ''create_refund''))
     else
       (let amount = fromKzt_number (env_decimal E) inputAmount in
        if \<not> isPositive amount \<or> amount > pay_amount payment
        then throwM (InvariantViolation ''refund_amount_invalid'')
        else
          bindM (nowM E) (\<lambda>now.
          if bcc_window_expired payment now then throwM (InvariantViolation ''bcc_refund_window_expired'')
          else
            bindM (randomUUID E) (\<lambda>i.
            refunds_create (env_decimal E)
              \<lparr>ref_id = i, ref_kindergartenId = kg, ref_paymentId = pay_id payment,
               ref_invoiceId = Some (pay_invoiceId payment), ref_amount = amount, ref_reason = reason,
               ref_status = RefPending, ref_processedBy = None, ref_providerRef = None,
               ref_createdAt = now, ref_updatedAt = now\<rparr>)))))"

text \<open>A lost conditional flip is reported as not found or as already processed.\<close>

definition refund_lost :: "uuid \<Rightarrow> uuid \<Rightarrow> string \<Rightarrow> RefundState option \<Rightarrow> RefundState op" where
  "refund_lost kg refundId operation updated =
     (case updated of
        Some r \<Rightarrow> returnM r
      | None \<Rightarrow>
          bindM (readM (refunds_findById kg refundId)) (\<lambda>existing.
          case existing of
            None \<Rightarrow> throwM (RefundNotFound refundId)
          | Some r \<Rightarrow> throwM (RefundErr (RefundAlreadyProcessed (ref_status r) operation))))"

definition refund_service_approve :: "billing_env \<Rightarrow> uuid \<Rightarrow> uuid \<Rightarrow> uuid \<Rightarrow> RefundState op" where
  "refund_service_approve E kg refundId processedBy =
     bindM (nowM E) (\<lambda>now.
     bindM (refunds_markApprovedConditional kg refundId processedBy now) (refund_lost kg refundId ''approve''))"

definition refund_service_reject :: "billing_env \<Rightarrow> uuid \<Rightarrow> uuid \<Rightarrow> string \<Rightarrow> RefundState op" where
  "refund_service_reject E kg refundId reason =
     bindM (nowM E) (\<lambda>now.
     bindM (refunds_markRejectedConditional kg refundId reason now) (refund_lost kg refundId ''reject''))"

definition approved_or_throw :: "uuid \<Rightarrow> RefundState option \<Rightarrow> RefundState op" where
  "approved_or_throw refundId found =
     bindM (orThrow found (RefundNotFound refundId)) (\<lambda>refund.
     if ref_status refund \<noteq> RefApproved
     then throwM (RefundErr (RefundAlreadyProcessed (ref_status refund) ''process''))
     else returnM refund)"

text \<open>Step 3: which flip of the invoice the net of completed payments over processed refunds calls for.\<close>

definition unwindInvoice :: "billing_env \<Rightarrow> uuid \<Rightarrow> InvoiceState \<Rightarrow> instant \<Rightarrow> unit op" where
  "unwindInvoice E kg invoice now =
     (let D = env_decimal E in
     bindM (readM (\<lambda>db. fromKzt_number D (invoices_getPaidSumForInvoice D kg (inv_id invoice) db))) (\<lambda>paidSum.
     bindM (readM (\<lambda>db. fromKzt_number D (refunds_getProcessedRefundsSumForInvoice D kg (inv_id invoice) db))) (\<lambda>priorRefundedSum.
     let effectiveNet = kzt_sub D paidSum priorRefundedSum in
     if \<not> isPositive effectiveNet
     then bindM (invoices_markRefundedConditional kg (inv_id invoice) now) (\<lambda>_. returnM ())
     else if effectiveNet < inv_amountAfterDiscount invoice
     then bindM (invoices_markPartialConditional kg (inv_id invoice) now) (\<lambda>_. returnM ())
     else returnM ())))"

definition refund_service_process ::
  "billing_env \<Rightarrow> uuid \<Rightarrow> uuid \<Rightarrow> bool \<Rightarrow> string + string \<Rightarrow> RefundState op" where
  "refund_service_process E kg refundId acknowledgeKaspiHistoryChecked providerAnswer =
     bindM (readM (refunds_findById kg refundId)) (\<lambda>found.
     bindM (approved_or_throw refundId found) (\<lambda>refund.
     bindM (refunds_acquireRefundProcessAdvisoryLock kg (ref_id refund)) (\<lambda>_.
     bindM (readM (refunds_findById kg (ref_id refund))) (\<lambda>locked.
     bindM (approved_or_throw (ref_id refund) locked) (\<lambda>_.
     bindM (readM (payments_findById kg (ref_paymentId refund))) (\<lambda>foundPayment.
     bindM (orThrow foundPayment (PaymentNotFound (ref_paymentId refund))) (\<lambda>payment.
     if pay_status payment \<noteq> PayCompleted
     then throwM (PaymentErr (PaymentStatusInvalid (pay_status payment) ''process_refund''))
     else if pay_provider payment = KaspiPay \<and> \<not> acknowledgeKaspiHistoryChecked
     then throwM KaspiRefundHistoryAckRequired
     else
       (case providerAnswer of
          Inl reason \<Rightarrow> throwM (PaymentProviderError (pay_provider payment) reason)
        | Inr providerRefundId \<Rightarrow>
            bindM (nowM E) (\<lambda>now.
            bindM (refunds_markProcessedConditional kg (ref_id refund) (Some providerRefundId) now) (\<lambda>flipped.
            bindM (orThrow flipped (RefundErr (RefundAlreadyProcessed (ref_status refund) ''process''))) (\<lambda>processed.
            bindM (payments_markRefundedConditional kg (pay_id payment) (ref_id processed) now) (\<lambda>_.
            bindM (readM (invoices_findById kg (pay_invoiceId payment))) (\<lambda>foundInvoice.
            bindM (orThrow foundInvoice (InvoiceNotFound (pay_invoiceId payment))) (\<lambda>invoice.
            bindM (unwindInvoice E kg invoice now) (\<lambda>_.
            bindM (debitForRefund E kg (inv_paymentAccountId invoice) (ref_amount processed)) (\<lambda>_.
            let amount = kzt_toNumber (env_decimal E) (ref_amount processed) in
            bindM (emitM (RefundProcessedEv kg (ref_id processed) (pay_id payment) (inv_childId invoice)
              (inv_id invoice) amount (case ref_processedBy processed of None \<Rightarrow> [] | Some w \<Rightarrow> w))) (\<lambda>_.
            bindM (emitM (PaymentRefundedEv kg (pay_id payment) (inv_childId invoice) (inv_id invoice)
              amount (ref_id processed))) (\<lambda>_.
            returnM processed)))))))))))))))))) "

end
