(* ===== verification/Refund_Books.thy ===== *)
theory Refund_Books
  imports Refund_Service
begin

text \<open>
  What processing a refund does: to the invoice (\<open>unwindInvoice\<close>), to the account balance, and to
  the payment and the refund.
\<close>

subsection \<open>Unwinding the invoice\<close>

context decimal_arith
begin

lemma fromKzt_sql: "cents a \<Longrightarrow> fromKzt_number D (sql_number D a) = a"
  by (simp add: fromKzt_number_def sql_number_def cents_toDP)

end

definition completed_sum :: "uuid \<Rightarrow> uuid \<Rightarrow> billing_db \<Rightarrow> kzt" where
  "completed_sum kg i db = sum_list (map pay_amount (completed_payments kg i db))"

definition refunded_sum :: "uuid \<Rightarrow> uuid \<Rightarrow> billing_db \<Rightarrow> kzt" where
  "refunded_sum kg i db = sum_list (map ref_amount (filter (\<lambda>r. ref_kindergartenId r = kg
     \<and> ref_invoiceId r = Some i \<and> ref_status r = RefProcessed) (db_refunds db)))"

text \<open>The status the unwinding leaves, by the net of completed payments over processed refunds.\<close>

definition unwound :: "kzt \<Rightarrow> kzt \<Rightarrow> InvoiceStatus \<Rightarrow> InvoiceStatus" where
  "unwound net due s =
     (if net \<le> 0 then (if s = InvPaid \<or> s = InvPartial then InvRefunded else s)
      else if net < due then (if s = InvPending \<or> s = InvOverdue then InvPartial else s)
      else s)"

lemma flip_run:
  assumes v: "invoices_findById kg i db = Some v" and uniq: "distinct (map inv_id (db_invoices db))"
    and t: "invoice_transition expected (invoice_set nxt now) nxt"
  shows "invoices_transitionStatusConditional kg i expected nxt now db =
    (if inv_status v \<in> set expected
     then Inr (Some (invoice_set nxt now v),
       db\<lparr>db_invoices := map (\<lambda>x. if inv_id x = i then invoice_set nxt now x else x) (db_invoices db)\<rparr>)
     else Inr (None, db))"
  unfolding invoices_transitionStatusConditional_def
    invoices.cas_unique[OF t v[unfolded invoices_findById_def] uniq] by simp

lemma find_flipped:
  assumes "invoices_findById kg i db = Some v"
  shows "invoices_findById kg i
      (db\<lparr>db_invoices := map (\<lambda>x. if inv_id x = i then invoice_set nxt now x else x) (db_invoices db)\<rparr>)
    = Some (invoice_set nxt now v)"
proof -
  have "find (\<lambda>r. inv_id r = i \<and> inv_kindergartenId r = kg)
      (map (\<lambda>x. if inv_id x = i then invoice_set nxt now x else x) xs)
    = map_option (invoice_set nxt now) (find (\<lambda>r. inv_id r = i \<and> inv_kindergartenId r = kg) xs)" for xs
    by (induction xs) (auto simp: invoice_set_def)
  with assms show ?thesis by (simp add: invoices_findById_def)
qed

lemma flip_status:
  assumes v: "invoices_findById kg i db = Some v" and uniq: "distinct (map inv_id (db_invoices db))"
    and t: "invoice_transition expected (invoice_set nxt now) nxt"
  shows "\<exists>x db' v'. invoices_transitionStatusConditional kg i expected nxt now db = Inr (x, db')
    \<and> invoices_findById kg i db' = Some v' \<and> inv_status v' = (if inv_status v \<in> set expected then nxt else inv_status v)"
  unfolding flip_run[OF assms] using v find_flipped[OF v, of nxt now] by (simp add: invoice_set_def)

lemma unwindInvoice_run:
  assumes D: "decimal_ok (env_decimal E)" and v: "invoices_findById kg (inv_id v) db = Some v"
    and uniq: "distinct (map inv_id (db_invoices db))"
    and amt: "cents (completed_sum kg (inv_id v) db)" "cents (refunded_sum kg (inv_id v) db)"
  shows "\<exists>db' v'. unwindInvoice E kg v now db = Inr ((), db') \<and> books db' = books db
    \<and> invoices_findById kg (inv_id v) db' = Some v'
    \<and> inv_status v' = unwound (completed_sum kg (inv_id v) db - refunded_sum kg (inv_id v) db)
                        (inv_amountAfterDiscount v) (inv_status v)"
proof -
  let ?D = "env_decimal E"
  let ?net = "completed_sum kg (inv_id v) db - refunded_sum kg (inv_id v) db"
  have net: "kzt_sub ?D (fromKzt_number ?D (invoices_getPaidSumForInvoice ?D kg (inv_id v) db))
      (fromKzt_number ?D (refunds_getProcessedRefundsSumForInvoice ?D kg (inv_id v) db)) = ?net"
    using decimal_arith.fromKzt_sql[OF decimal_arith.intro[OF D]] decimal_arith.kzt_sub_cents[OF decimal_arith.intro[OF D]] amt
    by (simp add: invoices_getPaidSumForInvoice_def refunds_getProcessedRefundsSumForInvoice_def
        completed_sum_def refunded_sum_def)
  have run: "unwindInvoice E kg v now db =
      (if ?net \<le> 0 then and_then (invoices_markRefundedConditional kg (inv_id v) now db) (\<lambda>_. returnM ())
       else if ?net < inv_amountAfterDiscount v then and_then (invoices_markPartialConditional kg (inv_id v) now db) (\<lambda>_. returnM ())
       else Inr ((), db))"
    by (simp add: unwindInvoice_def Let_def op_simps net money_simps not_less)
  have k: "keeps books (unwindInvoice E kg v now)"
    unfolding unwindInvoice_def Let_def invoice_flip_defs
    by (intro keeps_bind keeps_if keeps_basic keeps_books_updates)
  consider "?net \<le> 0" | "0 < ?net" "?net < inv_amountAfterDiscount v" | "0 < ?net" "inv_amountAfterDiscount v \<le> ?net"
    by linarith
  then obtain db' v' where r: "unwindInvoice E kg v now db = Inr ((), db')"
    "invoices_findById kg (inv_id v) db' = Some v'"
    "inv_status v' = unwound ?net (inv_amountAfterDiscount v) (inv_status v)"
  proof cases
    case 1
    obtain x db' v' where "invoices_markRefundedConditional kg (inv_id v) now db = Inr (x, db')"
      "invoices_findById kg (inv_id v) db' = Some v'"
      "inv_status v' = (if inv_status v \<in> set [InvPaid, InvPartial] then InvRefunded else inv_status v)"
      using flip_status[OF v uniq invoice_transition.intros(4)] unfolding invoice_flip_defs by blast
    with 1 run that show ?thesis by (auto simp: unwound_def returnM_def)
  next
    case 2
    obtain x db' v' where "invoices_markPartialConditional kg (inv_id v) now db = Inr (x, db')"
      "invoices_findById kg (inv_id v) db' = Some v'"
      "inv_status v' = (if inv_status v \<in> set [InvPending, InvOverdue] then InvPartial else inv_status v)"
      using flip_status[OF v uniq invoice_transition.intros(2)] unfolding invoice_flip_defs by blast
    with 2 run that show ?thesis by (auto simp: unwound_def returnM_def)
  next
    case 3
    with run that v show ?thesis by (auto simp: unwound_def)
  qed
  with k show ?thesis unfolding keeps_def by blast
qed

subsection \<open>Sums over a table of which one row changes\<close>

lemma sum_map_one:
  fixes g :: "'r \<Rightarrow> rat"
  assumes "distinct (map k xs)" "x \<in> set xs"
  shows "sum_list (map g (map (\<lambda>y. if k y = k x then f y else y) xs)) = sum_list (map g xs) - g x + g (f x)"
  using assms
proof (induction xs)
  case (Cons y ys)
  show ?case
  proof (cases "y = x")
    case True
    have "map (\<lambda>z. if k z = k x then f z else z) ys = ys"
      using Cons.prems True by (intro map_idI) (auto simp: image_iff)
    with True show ?thesis by simp
  next
    case False
    with Cons.prems have "k y \<noteq> k x" "x \<in> set ys" by auto
    with Cons show ?thesis by simp
  qed
qed simp

lemma completed_sum_refunded:
  assumes p: "payments_findById kg pid db = Some p" and uniq: "distinct (map pay_id (db_payments db))"
    and comp: "pay_status p = PayCompleted"
  shows "completed_sum kg (pay_invoiceId p)
      (db\<lparr>db_payments := map (\<lambda>x. if pay_id x = pid then refunded_patch rid now x else x) (db_payments db)\<rparr>)
    = completed_sum kg (pay_invoiceId p) db - pay_amount p"
proof -
  note fd = find_SomeD[OF p[unfolded payments_findById_def]]
  let ?g = "\<lambda>x. if pay_kindergartenId x = kg \<and> pay_invoiceId x = pay_invoiceId p \<and> pay_status x = PayCompleted
    then pay_amount x else 0"
  have "sum_list (map ?g (map (\<lambda>x. if pay_id x = pay_id p then refunded_patch rid now x else x) (db_payments db)))
      = sum_list (map ?g (db_payments db)) - ?g p + ?g (refunded_patch rid now p)"
    using fd by (intro sum_map_one[OF uniq]) simp
  with fd comp show ?thesis
    by (simp add: completed_sum_def completed_payments_def sum_list_map_filter' refunded_patch_def)
qed

lemma refunded_sum_processed:
  assumes r: "refunds_findById kg rid db = Some r" and uniq: "distinct (map ref_id (db_refunds db))"
    and st: "ref_status r \<noteq> RefProcessed" and i: "ref_invoiceId r = Some i"
  shows "refunded_sum kg i
      (db\<lparr>db_refunds := map (\<lambda>x. if ref_id x = rid then processed_patch ref now x else x) (db_refunds db)\<rparr>)
    = refunded_sum kg i db + ref_amount r"
proof -
  note fd = find_SomeD[OF r[unfolded refunds_findById_def]]
  let ?g = "\<lambda>x. if ref_kindergartenId x = kg \<and> ref_invoiceId x = Some i \<and> ref_status x = RefProcessed
    then ref_amount x else 0"
  have "sum_list (map ?g (map (\<lambda>x. if ref_id x = ref_id r then processed_patch ref now x else x) (db_refunds db)))
      = sum_list (map ?g (db_refunds db)) - ?g r + ?g (processed_patch ref now r)"
    using fd by (intro sum_map_one[OF uniq]) simp
  with fd st i show ?thesis
    by (simp add: refunded_sum_def sum_list_map_filter' processed_patch_def)
qed

subsection \<open>Processing\<close>

definition processed_row :: "uuid \<Rightarrow> string \<Rightarrow> instant \<Rightarrow> RefundState list \<Rightarrow> RefundState list" where
  "processed_row rid ref now rows = map (\<lambda>x. if ref_id x = rid then processed_patch (Some ref) now x else x) rows"

definition repaid :: "uuid \<Rightarrow> (uuid \<times> uuid \<times> uuid \<times> kzt \<times> PaymentStatus) list
    \<Rightarrow> (uuid \<times> uuid \<times> uuid \<times> kzt \<times> PaymentStatus) list" where
  "repaid pid ps = map (\<lambda>(k, i, n, a, st). (k, i, n, a, if i = pid then PayRefunded else st)) ps"

lemma markProcessed_run:
  assumes "refunds_findById kg rid db = Some r" "distinct (map ref_id (db_refunds db))" "ref_status r = RefApproved"
  shows "refunds_markProcessedConditional kg rid (Some ref) now db =
    Inr (Some (processed_patch (Some ref) now r), db\<lparr>db_refunds := processed_row rid ref now (db_refunds db)\<rparr>)"
  unfolding refunds_markProcessedConditional_def refunds_transitionConditional_def processed_row_def
  using refunds.cas_unique[OF refund_transition.intros(3) assms(1)[unfolded refunds_findById_def] assms(2)] assms(3)
  by simp

lemma markRefunded_run:
  assumes "payments_findById kg pid db = Some p" "distinct (map pay_id (db_payments db))" "pay_status p = PayCompleted"
  shows "payments_markRefundedConditional kg pid rid now db =
    Inr (Some (refunded_patch rid now p),
      db\<lparr>db_payments := map (\<lambda>x. if pay_id x = pid then refunded_patch rid now x else x) (db_payments db)\<rparr>)"
  unfolding payments_markRefundedConditional_def payments_transitionConditional_def
  using payments.cas_unique[OF payment_transition.intros(4) assms(1)[unfolded payments_findById_def] assms(2)] assms(3)
  by simp

lemma processed_patch_fields [simp]:
  "ref_amount (processed_patch x n r) = ref_amount r" "ref_id (processed_patch x n r) = ref_id r"
  "ref_status (processed_patch x n r) = RefProcessed"
  by (simp_all add: processed_patch_def)

text \<open>
  A refund of a completed payment whose provider accepted it: the refund is processed, the payment
  refunded, the account debited by the refund, and the invoice unwound by the net of what is left.
\<close>

lemma refund_process_run:
  assumes D: "decimal_ok (env_decimal E)" and keys: "keys_ok db"
    and r: "refunds_findById kg rid db = Some r" "ref_status r = RefApproved" "ref_invoiceId r = Some (pay_invoiceId p)"
    and p: "payments_findById kg (ref_paymentId r) db = Some p" "pay_status p = PayCompleted"
    and kaspi: "pay_provider p = KaspiPay \<longrightarrow> ack"
    and v: "invoices_findById kg (pay_invoiceId p) db = Some v"
    and acc: "accounts_findById kg (inv_paymentAccountId v) db = Some acc"
    and amt: "cents (acc_balance acc)" "cents (ref_amount r)" "cents (acc_balance acc - ref_amount r)" "0 < ref_amount r"
    and sums: "cents (completed_sum kg (inv_id v) db - pay_amount p)" "cents (refunded_sum kg (inv_id v) db + ref_amount r)"
  shows "\<exists>x db' v'. refund_service_process E kg rid ack (Inr ref) db = Inr (x, db')
    \<and> ref_status x = RefProcessed
    \<and> db_refunds db' = processed_row rid ref (env_clock E (db_clockReads db)) (db_refunds db)
    \<and> paid_view db' = repaid (pay_id p) (paid_view db) \<and> billed_view db' = billed_view db
    \<and> balances db' = credited (inv_paymentAccountId v) (- ref_amount r) (balances db)
    \<and> invoices_findById kg (inv_id v) db' = Some v'
    \<and> inv_status v' = unwound (completed_sum kg (inv_id v) db - pay_amount p - (refunded_sum kg (inv_id v) db + ref_amount r))
                        (inv_amountAfterDiscount v) (inv_status v)"
proof -
  let ?now = "env_clock E (db_clockReads db)"
  let ?db1 = "db\<lparr>db_locks := db_locks db @ [''billing:refund:'' @ kg @ '':'' @ rid], db_clockReads := Suc (db_clockReads db),
      db_refunds := processed_row rid ref ?now (db_refunds db),
      db_payments := map (\<lambda>x. if pay_id x = pay_id p then refunded_patch rid ?now x else x) (db_payments db)\<rparr>"
  note rd = find_SomeD[OF r(1)[unfolded refunds_findById_def]]
  note pd = find_SomeD[OF p(1)[unfolded payments_findById_def]]
  note vd = find_SomeD[OF v[unfolded invoices_findById_def]]
  have uniq: "distinct (map inv_id (db_invoices ?db1))" "distinct (map pay_id (db_payments db))"
    "distinct (map ref_id (db_refunds db))" "distinct (map acc_id (db_accounts db))"
    using keys by (simp_all add: keys_ok_def)
  have sums1: "completed_sum kg (inv_id v) ?db1 = completed_sum kg (inv_id v) db - pay_amount p"
    "refunded_sum kg (inv_id v) ?db1 = refunded_sum kg (inv_id v) db + ref_amount r"
    using completed_sum_refunded[OF p(1) uniq(2) p(2), of rid ?now] refunded_sum_processed[OF r(1) uniq(3), of "pay_invoiceId p" "Some ref" ?now]
      r pd vd by (simp_all add: completed_sum_def completed_payments_def refunded_sum_def processed_row_def)
  have v1: "invoices_findById kg (inv_id v) ?db1 = Some v" using v vd by (simp add: invoices_findById_def)
  obtain db2 v2 where unw: "unwindInvoice E kg v ?now ?db1 = Inr ((), db2)" "books db2 = books ?db1"
    "invoices_findById kg (inv_id v) db2 = Some v2"
    "inv_status v2 = unwound (completed_sum kg (inv_id v) db - pay_amount p - (refunded_sum kg (inv_id v) db + ref_amount r))
                        (inv_amountAfterDiscount v) (inv_status v)"
    using unwindInvoice_run[OF D v1 uniq(1), of ?now] sums unfolding sums1 by blast
  have accs: "db_accounts db2 = db_accounts db" using unw(2) by (simp add: books_def)
  have acc2: "accounts_findById kg (inv_paymentAccountId v) db2 = Some acc"
    using acc accounts_findById_cong[OF accs] by simp
  obtain a n l rows where deb: "debitForRefund E kg (inv_paymentAccountId v) (ref_amount r) db2 =
      Inr (a, db2\<lparr>db_clockReads := n, db_locks := l, db_accounts := rows\<rparr>)"
    and bal: "map (\<lambda>r. (acc_kindergartenId r, acc_id r, acc_balance r)) rows =
      credited (inv_paymentAccountId v) (- ref_amount r) (balances db2)"
    using debit_run[OF D acc2 _ amt] uniq(4) accs by auto
  define dbL where "dbL = db\<lparr>db_locks := db_locks db @ [''billing:refund:'' @ kg @ '':'' @ rid]\<rparr>"
  define dbN where "dbN = dbL\<lparr>db_clockReads := Suc (db_clockReads dbL)\<rparr>"
  define dbR where "dbR = dbN\<lparr>db_refunds := processed_row rid ref ?now (db_refunds db)\<rparr>"
  define dbP where "dbP = ?db1"
  have lock: "refunds_acquireRefundProcessAdvisoryLock kg rid db = Inr ((), dbL)"
    by (simp add: refunds_acquireRefundProcessAdvisoryLock_def lockM_def modifyM_def dbL_def)
  have rL: "refunds_findById kg rid dbL = Some r" and pL: "payments_findById kg (ref_paymentId r) dbL = Some p"
    using r p by (simp_all add: dbL_def refunds_findById_def payments_findById_def)
  have now: "nowM E dbL = Inr (?now, dbN)" by (simp add: nowM_def dbN_def dbL_def)
  have rN: "refunds_findById kg rid dbN = Some r" and tabs: "db_refunds dbN = db_refunds db" "db_payments dbR = db_payments db"
    and pR: "payments_findById kg (ref_paymentId r) dbR = Some p"
    using r p by (simp_all add: dbR_def dbN_def dbL_def refunds_findById_def payments_findById_def)
  have proc: "refunds_markProcessedConditional kg rid (Some ref) ?now dbN = Inr (Some (processed_patch (Some ref) ?now r), dbR)"
    using markProcessed_run[OF rN _ r(2)] uniq(3) by (simp add: tabs dbR_def)
  have paid: "payments_markRefundedConditional kg (ref_paymentId r) rid ?now dbR = Inr (Some (refunded_patch rid ?now p), dbP)"
    using markRefunded_run[OF pR _ p(2)] uniq(2) pd by (simp add: tabs dbR_def dbN_def dbL_def dbP_def)
  have vP: "invoices_findById kg (pay_invoiceId p) dbP = Some v" using v by (simp add: invoices_findById_def dbP_def)
  define db3 where "db3 = db2\<lparr>db_clockReads := n, db_locks := l, db_accounts := rows\<rparr>"
  define add_event where "add_event ev s = s\<lparr>db_outbox := db_outbox s @ [ev]\<rparr>" for ev and s :: billing_db
  have emit: "emitM ev s = Inr ((), add_event ev s)" for ev s by (simp add: emitM_def modifyM_def add_event_def)
  note steps = lock rL pL now proc paid vP unw(1)[folded dbP_def] deb[folded db3_def] emit op_run(1-4,9-14) bindM_run
  have "\<exists>e1 e2. refund_service_process E kg rid ack (Inr ref) db =
      Inr (processed_patch (Some ref) ?now r, add_event e2 (add_event e1 db3))"
    using r p kaspi rd pd by (simp add: refund_service_process_def approved_or_throw_def steps Let_def) (intro exI, rule refl)
  then obtain e1 e2 where run: "refund_service_process E kg rid ack (Inr ref) db =
      Inr (processed_patch (Some ref) ?now r, add_event e2 (add_event e1 db3))"
    by blast
  define db4 where "db4 = add_event e2 (add_event e1 db3)"
  have f4: "db_refunds db4 = db_refunds db2" "db_payments db4 = db_payments db2" "db_invoices db4 = db_invoices db2"
      "db_accounts db4 = rows"
    by (simp_all add: db4_def add_event_def db3_def)
  have pv: "paid_view ?db1 = repaid (pay_id p) (paid_view db)"
    by (auto simp: paid_view_def repaid_def refunded_patch_def)
  have b2: "paid_view db2 = repaid (pay_id p) (paid_view db)" "billed_view db2 = billed_view db"
      "db_refunds db2 = processed_row rid ref ?now (db_refunds db)"
    using unw(2) pv by (simp_all add: books_def billed_view_def)
  have views: "paid_view db4 = paid_view db2" "billed_view db4 = billed_view db2"
      "balances db4 = credited (inv_paymentAccountId v) (- ref_amount r) (balances db)"
      "invoices_findById kg (inv_id v) db4 = Some v2"
    using f4 bal accs unw(3) by (simp_all add: paid_view_def billed_view_def balances_def invoices_findById_def)
  show ?thesis
    using run[folded db4_def] f4(1) views b2 unw(4)
    by (intro exI[of _ "processed_patch (Some ref) ?now r"] exI[of _ db4] exI[of _ v2]) simp
qed

end
