(* ===== verification/Bookkeeping.thy ===== *)
theory Bookkeeping
  imports Refund_Books
begin

text \<open>
  The account balances agree with the payments and refunds: a balance is the sum of the settled
  payments of the account's invoices minus the sum of the processed refunds of those payments.
  Settlement and refund processing keep it so.
\<close>

type_synonym paid_entry = "uuid \<times> uuid \<times> uuid \<times> kzt \<times> PaymentStatus"
type_synonym billed_entry = "uuid \<times> uuid \<times> uuid \<times> kzt"

definition billed_to :: "uuid \<Rightarrow> billed_entry list \<Rightarrow> uuid \<Rightarrow> uuid \<Rightarrow> bool" where
  "billed_to a bs kg i \<longleftrightarrow> list_ex (\<lambda>(k, n, acc, due). k = kg \<and> n = i \<and> acc = a) bs"

definition money_in :: "uuid \<Rightarrow> billed_entry list \<Rightarrow> paid_entry \<Rightarrow> kzt" where
  "money_in a bs = (\<lambda>(k, i, n, am, st). if (st = PayCompleted \<or> st = PayRefunded) \<and> billed_to a bs k n then am else 0)"

definition money_out :: "uuid \<Rightarrow> billed_entry list \<Rightarrow> RefundState \<Rightarrow> kzt" where
  "money_out a bs r = (case ref_invoiceId r of None \<Rightarrow> 0
     | Some n \<Rightarrow> if ref_status r = RefProcessed \<and> billed_to a bs (ref_kindergartenId r) n then ref_amount r else 0)"

definition ledger_balance :: "uuid \<Rightarrow> billing_db \<Rightarrow> kzt" where
  "ledger_balance a db = sum_list (map (money_in a (billed_view db)) (paid_view db))
     - sum_list (map (money_out a (billed_view db)) (db_refunds db))"

definition ledger_ok :: "billing_db \<Rightarrow> bool" where
  "ledger_ok db \<longleftrightarrow> list_all (\<lambda>(k, a, b). b = ledger_balance a db) (balances db)"

lemma ledger_okI:
  assumes ok: "ledger_ok db" and bal: "balances db' = credited acc d (balances db)"
    and bump: "\<And>a. ledger_balance a db' = ledger_balance a db + (if a = acc then d else 0)"
  shows "ledger_ok db'"
  using ok unfolding ledger_ok_def bal credited_def by (auto simp: list_all_iff bump)

text \<open>On a table with unique invoice ids, an invoice is billed to the one account its row names.\<close>

lemma billed_to_unique:
  assumes v: "invoices_findById kg i db = Some v" and uniq: "distinct (map inv_id (db_invoices db))"
  shows "billed_to a (billed_view db) kg i \<longleftrightarrow> a = inv_paymentAccountId v"
proof -
  note fd = find_SomeD[OF v[unfolded invoices_findById_def]]
  have one: "w = v" if "w \<in> set (db_invoices db)" "inv_id w = i" for w
    using that fd uniq by (auto simp: distinct_map dest: inj_onD)
  show ?thesis
    using fd one by (auto simp: billed_to_def billed_view_def list_ex_iff)
qed

lemma sum_settled:
  assumes p: "payments_findById kg pid db = Some p" and opn: "pay_status p \<in> {PayInitiated, PayProcessing}"
    and uniq: "distinct (map pay_id (db_payments db))"
  shows "sum_list (map (money_in a bs) (settled pid (paid_view db)))
    = sum_list (map (money_in a bs) (paid_view db)) + (if billed_to a bs kg (pay_invoiceId p) then pay_amount p else 0)"
proof -
  note fd = find_SomeD[OF p[unfolded payments_findById_def]]
  let ?v = "\<lambda>p. (pay_kindergartenId p, pay_id p, pay_invoiceId p, pay_amount p, pay_status p)"
  let ?f = "\<lambda>(k, i, n, a, st). (k, i, n, a, PayCompleted)"
  have eq: "settled pid (paid_view db) = map (\<lambda>y. if fst (snd y) = fst (snd (?v p)) then ?f y else y) (paid_view db)"
    using fd by (auto simp: settled_def)
  have "distinct (map (fst \<circ> snd) (paid_view db))" using uniq by (simp add: paid_view_def comp_def)
  moreover have "?v p \<in> set (paid_view db)" using fd by (auto simp: paid_view_def)
  ultimately show ?thesis
    unfolding eq using sum_map_one[of "fst \<circ> snd" "paid_view db" "?v p" "money_in a bs" ?f] fd opn
    by (auto simp: money_in_def)
qed

lemma sum_repaid:
  assumes p: "payments_findById kg pid db = Some p" and comp: "pay_status p = PayCompleted"
    and uniq: "distinct (map pay_id (db_payments db))"
  shows "sum_list (map (money_in a bs) (repaid pid (paid_view db))) = sum_list (map (money_in a bs) (paid_view db))"
proof -
  note fd = find_SomeD[OF p[unfolded payments_findById_def]]
  have "x = p" if "x \<in> set (db_payments db)" "pay_id x = pid" for x
    using that fd uniq by (auto simp: distinct_map dest: inj_onD)
  then show ?thesis
    unfolding repaid_def paid_view_def map_map
    by (intro arg_cong[of _ _ sum_list] map_cong) (use comp in \<open>auto simp: money_in_def\<close>)
qed

lemma sum_processed:
  assumes r: "refunds_findById kg rid db = Some r" and st: "ref_status r = RefApproved"
    and i: "ref_invoiceId r = Some i" and uniq: "distinct (map ref_id (db_refunds db))"
  shows "sum_list (map (money_out a bs) (processed_row rid ref now (db_refunds db)))
    = sum_list (map (money_out a bs) (db_refunds db)) + (if billed_to a bs kg i then ref_amount r else 0)"
proof -
  note fd = find_SomeD[OF r[unfolded refunds_findById_def]]
  show ?thesis
    using sum_map_one[OF uniq, of r "money_out a bs" "processed_patch (Some ref) now"] fd st i
    by (auto simp: processed_row_def money_out_def processed_patch_def)
qed

text \<open>Settling a payment keeps the books in balance.\<close>

lemma settlement_ledger:
  assumes D: "decimal_ok (env_decimal E)" and keys: "keys_ok db" and ok: "ledger_ok db"
    and p: "payments_findById kg pid db = Some p" and opn: "pay_status p \<in> {PayInitiated, PayProcessing}"
    and invoice: "invoices_findById kg (pay_invoiceId p) db = Some v"
    and acc: "accounts_findById kg (inv_paymentAccountId v) db = Some acc"
    and amt: "cents (acc_balance acc)" "cents (pay_amount p)" "cents (acc_balance acc + pay_amount p)" "0 < pay_amount p"
  shows "\<exists>p' db'. applyCompletedPayment E kg pid verified db = Inr (p', db') \<and> ledger_ok db'"
proof -
  obtain p' db' where run: "applyCompletedPayment E kg pid verified db = Inr (p', db')"
    "balances db' = credited (inv_paymentAccountId v) (pay_amount p) (balances db)"
    "paid_view db' = settled pid (paid_view db)" "billed_view db' = billed_view db" "db_refunds db' = db_refunds db"
    using settlement_credits[OF D keys p opn invoice acc amt] by blast
  have "ledger_balance a db' = ledger_balance a db + (if a = inv_paymentAccountId v then pay_amount p else 0)" for a
    using sum_settled[OF p opn, of a "billed_view db"] billed_to_unique[OF invoice, of a] keys
    by (simp add: ledger_balance_def run keys_ok_def)
  with run ledger_okI[OF ok run(2)] show ?thesis by blast
qed

text \<open>So does processing a refund, whatever it does to the invoice.\<close>

lemma refund_ledger:
  assumes D: "decimal_ok (env_decimal E)" and keys: "keys_ok db" and ok: "ledger_ok db"
    and r: "refunds_findById kg rid db = Some r" "ref_status r = RefApproved" "ref_invoiceId r = Some (pay_invoiceId p)"
    and p: "payments_findById kg (ref_paymentId r) db = Some p" "pay_status p = PayCompleted"
    and kaspi: "pay_provider p = KaspiPay \<longrightarrow> ack"
    and v: "invoices_findById kg (pay_invoiceId p) db = Some v"
    and acc: "accounts_findById kg (inv_paymentAccountId v) db = Some acc"
    and amt: "cents (acc_balance acc)" "cents (ref_amount r)" "cents (acc_balance acc - ref_amount r)" "0 < ref_amount r"
    and sums: "cents (completed_sum kg (inv_id v) db - pay_amount p)" "cents (refunded_sum kg (inv_id v) db + ref_amount r)"
  shows "\<exists>x db'. refund_service_process E kg rid ack (Inr ref) db = Inr (x, db') \<and> ledger_ok db'"
proof -
  obtain x db' where run: "refund_service_process E kg rid ack (Inr ref) db = Inr (x, db')"
    "db_refunds db' = processed_row rid ref (env_clock E (db_clockReads db)) (db_refunds db)"
    "paid_view db' = repaid (pay_id p) (paid_view db)" "billed_view db' = billed_view db"
    "balances db' = credited (inv_paymentAccountId v) (- ref_amount r) (balances db)"
    using refund_process_run[OF D keys r p kaspi v acc amt sums] by blast
  have pid: "pay_id p = ref_paymentId r" using find_SomeD[OF p(1)[unfolded payments_findById_def]] by simp
  have "ledger_balance a db' = ledger_balance a db + (if a = inv_paymentAccountId v then - ref_amount r else 0)" for a
    using sum_repaid[OF p, of a "billed_view db"] sum_processed[OF r, of a "billed_view db" ref]
      billed_to_unique[OF v, of a] keys pid
    by (simp add: ledger_balance_def run keys_ok_def)
  with run ledger_okI[OF ok run(5)] show ?thesis by blast
qed

end
