(* ===== verification/Whole_Tenge.thy ===== *)
theory Whole_Tenge
  imports Discount_Engine "HOL-Library.Multiset"
begin

text \<open>
  \<open>distributeWholeTenge\<close> of \<open>src/modules/billing/invoice.service.ts\<close>: the largest-remainder split of
  a prepayment total into one whole-tenge share per month. The weights are Decimals (billable-day
  fractions), so the quotas carry rounding errors; the theorem is that for the prepayment horizons
  these never reach a whole tenge: the shares always sum to the total and the guard that would
  throw is unreachable.
\<close>

subsection \<open>The allocation\<close>

text \<open>\<open>order\<close>: indices by descending remainder, ties to the earlier month.\<close>

definition remainder_order :: "rat list \<Rightarrow> nat list" where
  "remainder_order remainders =
     map snd (sort_key (\<lambda>(r, i). (- r, i)) (zip remainders [0..<length remainders]))"

fun hand_out :: "nat list \<Rightarrow> rat \<Rightarrow> rat list \<Rightarrow> rat list" where
  "hand_out [] leftover floors = floors"
| "hand_out (i # is) leftover floors =
     (if leftover \<le> 0 then floors
      else hand_out is (fl (leftover - 1)) (floors[i := fl (floors ! i + 1)]))"

datatype tenge_error = PrepaymentShareSumMismatch

definition quota :: "decimal_lib \<Rightarrow> rat \<Rightarrow> rat \<Rightarrow> rat \<Rightarrow> rat" where
  "quota D totalKzt weightSum w = d_div D (d_times D w (d_of_number D totalKzt)) weightSum"

definition distributeWholeTenge :: "decimal_lib \<Rightarrow> kzt \<Rightarrow> rat list \<Rightarrow> tenge_error + kzt list" where
  "distributeWholeTenge D amount weights =
     (let totalKzt = kzt_toNumber D amount;
          weightSum = foldl (d_plus D) 0 weights
      in if weightSum = 0 \<or> totalKzt = 0 then Inr (map (\<lambda>_. kzt_zero) weights)
         else
           (let raws = map (quota D totalKzt weightSum) weights;
                floors = map (\<lambda>raw. d_to_number D (of_int \<lfloor>raw\<rfloor>)) raws;
                remainders = map (\<lambda>raw. d_minus D raw (of_int \<lfloor>raw\<rfloor>)) raws;
                floorSum = foldl (\<lambda>acc f. fl (acc + f)) 0 floors;
                leftover = fl (totalKzt - floorSum);
                shares = map (fromKzt_number D) (hand_out (remainder_order remainders) leftover floors);
                sum = foldl (kzt_add D) kzt_zero shares
            in if sum \<noteq> amount then Inl PrepaymentShareSumMismatch else Inr shares))"

subsection \<open>Relative error\<close>

lemma rnd_sig_rel:
  assumes b: "1 < b"
  shows "\<bar>rnd_sig b p x - x\<bar> \<le> \<bar>x\<bar> * of_nat b powi (1 - int p)"
proof (cases "x = 0")
  case True
  then show ?thesis by (simp add: rnd_sig_def)
next
  case False
  let ?B = "of_nat b :: rat"
  define u where "u = ?B powi (lead_exp b x + 1 - int p)"
  define h where "h = half_even (x / u)"
  have B: "0 < ?B" using b by simp
  then have u: "0 < u" by (simp add: u_def)
  have "\<bar>of_int h * u - x\<bar> = \<bar>of_int h - x / u\<bar> * u"
    using u by (simp add: abs_mult_pos' left_diff_distrib abs_mult_pos)
  also have "\<dots> \<le> 1 / 2 * u" using half_even_error[of "x / u"] u unfolding h_def by (intro mult_right_mono) simp_all
  also have "\<dots> \<le> u" using u by simp
  also have "u = ?B powi lead_exp b x * ?B powi (1 - int p)"
    using B by (simp add: u_def power_int_add[symmetric] algebra_simps)
  also have "\<dots> \<le> \<bar>x\<bar> * ?B powi (1 - int p)"
    using lead_exp_bounds(1)[OF b False] B by (intro mult_right_mono) simp_all
  finally show ?thesis using False by (simp add: rnd_sig_def Let_def h_def u_def)
qed

lemma nearest_rel:
  assumes "nearest b p x z" "1 < b" "0 < p"
  shows "\<bar>z - x\<bar> \<le> \<bar>x\<bar> * of_nat b powi (1 - int p)"
proof -
  have "\<bar>z - x\<bar> \<le> \<bar>rnd_sig b p x - x\<bar>"
    using assms rnd_sig_nearest[OF assms(2,3), of x] by (auto simp: nearest_def)
  with rnd_sig_rel[OF assms(2), of p x] show ?thesis by linarith
qed

text \<open>The rounding unit of thirty digits.\<close>

definition eps :: rat where "eps = 1 / 10 ^ 29"

lemma eps_bounds: "0 < eps" "eps < 1" by (simp_all add: eps_def)

lemma power_eps:
  assumes "n \<le> 1000"
  shows "1 - of_nat n * eps \<le> (1 - eps) ^ n \<and> (1 + eps) ^ n \<le> 1 + 2 * of_nat n * eps"
  using assms
proof (induction n)
  case (Suc n)
  have e: "0 < eps" "eps < 1" using eps_bounds by auto
  have "(1 - of_nat n * eps) * (1 - eps) \<le> (1 - eps) ^ n * (1 - eps)"
    using Suc.IH[OF Suc_leD[OF Suc.prems]] e by (intro mult_right_mono) simp_all
  moreover have "1 - of_nat (Suc n) * eps \<le> (1 - of_nat n * eps) * (1 - eps)"
    using e by (simp add: algebra_simps)
  ultimately have lo: "1 - of_nat (Suc n) * eps \<le> (1 - eps) ^ Suc n" by (simp add: mult.commute)
  have "of_nat n \<le> (1000 :: rat)" using Suc.prems by (metis Suc_leD of_nat_le_iff of_nat_numeral)
  then have "of_nat n * (2 * eps) \<le> 1000 * (2 * eps)" using e by (intro mult_right_mono) simp_all
  then have "2 * of_nat n * eps \<le> 1" by (simp add: eps_def)
  then have "2 * of_nat n * eps * eps \<le> 1 * eps" using e by (intro mult_right_mono) simp_all
  then have "(1 + 2 * of_nat n * eps) * (1 + eps) \<le> 1 + 2 * of_nat (Suc n) * eps"
    by (simp add: algebra_simps)
  moreover have "(1 + eps) ^ n * (1 + eps) \<le> (1 + 2 * of_nat n * eps) * (1 + eps)"
    using Suc.IH[OF Suc_leD[OF Suc.prems]] e by (intro mult_right_mono) simp_all
  ultimately have "(1 + eps) ^ Suc n \<le> 1 + 2 * of_nat (Suc n) * eps" by (simp add: mult.commute)
  with lo show ?case ..
qed simp

lemma near_rel:
  assumes "nearest 10 30 x z" "0 \<le> x"
  shows "x * (1 - eps) \<le> z" "z \<le> x * (1 + eps)"
proof -
  have e: "(of_nat 10 :: rat) powi (1 - int 30) = eps" by (simp add: eps_def power_int_def power_one_over)
  have "\<bar>z - x\<bar> \<le> x * eps" using nearest_rel[OF assms(1)] assms(2) unfolding e by simp
  then show "x * (1 - eps) \<le> z" "z \<le> x * (1 + eps)"
    unfolding abs_le_iff right_diff_distrib distrib_left by linarith+
qed

subsection \<open>Handing out the leftover\<close>

fun give :: "nat list \<Rightarrow> int \<Rightarrow> int list \<Rightarrow> int list" where
  "give [] l ks = ks"
| "give (i # is) l ks = (if l \<le> 0 then ks else give is (l - 1) (ks[i := ks ! i + 1]))"

lemma hand_out_give:
  assumes "distinct is" "set is \<subseteq> {..<length ks}" "\<forall>i\<in>set is. \<bar>ks ! i\<bar> \<le> 10 ^ 14" "\<bar>l\<bar> \<le> 10 ^ 14"
  shows "hand_out is (of_int l) (map of_int ks) = map of_int (give is l ks)"
  using assms
proof (induction "is" arbitrary: l ks)
  case (Cons i "is")
  show ?case
  proof (cases "l \<le> 0")
    case False
    have 1: "fl (of_int l - 1) = of_int (l - 1)" using fl_int[of "l - 1"] Cons.prems(4) False by simp
    have "\<bar>ks ! i\<bar> \<le> 10 ^ 14" using Cons.prems(3) by simp
    then have "\<bar>ks ! i + 1\<bar> < 2 ^ 53" by simp
    from fl_int[OF this] have 2: "fl (of_int (ks ! i) + 1) = of_int (ks ! i + 1)" by simp
    have "hand_out is (of_int (l - 1)) (map of_int (ks[i := ks ! i + 1])) = map of_int (give is (l - 1) (ks[i := ks ! i + 1]))"
      using Cons.prems False by (intro Cons.IH) (auto simp: nth_list_update split: if_splits)
    with False Cons.prems(2) show ?thesis by (simp add: 1 2 map_update)
  qed simp
qed simp

lemma length_give [simp]: "length (give is l ks) = length ks"
  by (induction "is" l ks rule: give.induct) simp_all

lemma sum_list_bump:
  fixes ks :: "int list"
  shows "i < length ks \<Longrightarrow> sum_list (ks[i := ks ! i + 1]) = sum_list ks + 1"
  by (induction ks arbitrary: i) (auto simp: less_Suc_eq_0_disj)

lemma sum_give:
  assumes "set is \<subseteq> {..<length ks}" "0 \<le> l" "l \<le> int (length is)"
  shows "sum_list (give is l ks) = sum_list ks + l"
  using assms by (induction "is" l ks rule: give.induct) (auto simp: sum_list_bump)

lemma give_nth:
  assumes "distinct is" "set is \<subseteq> {..<length ks}" "j < length ks"
  shows "give is l ks ! j = ks ! j \<or> (j \<in> set is \<and> give is l ks ! j = ks ! j + 1)"
  using assms
proof (induction "is" l ks rule: give.induct)
  case (2 i "is" l ks)
  then show ?case by (auto simp: nth_list_update split: if_splits)
qed simp

lemma remainder_order_perm: "distinct (remainder_order rs)" "set (remainder_order rs) = {..<length rs}"
proof -
  have "mset (map snd (sort_key k xs)) = mset (map snd xs)" for k :: "rat \<times> nat \<Rightarrow> rat \<times> nat" and xs
    by (simp only: mset_map mset_sort)
  then have "mset (remainder_order rs) = mset [0..<length rs]"
    by (simp only: remainder_order_def map_snd_zip length_upt diff_zero)
  then show "distinct (remainder_order rs)" "set (remainder_order rs) = {..<length rs}"
    using mset_eq_imp_distinct_iff mset_eq_setD by (metis distinct_upt, metis atLeast_upt)
qed

subsection \<open>The quotas\<close>

context decimal_arith
begin

text \<open>A running Decimal sum of non-negative terms.\<close>

lemma sum_bounds:
  assumes "\<forall>w\<in>set ws. 0 \<le> w" "0 \<le> S" "S * (1 - eps) ^ n \<le> W" "W \<le> S * (1 + eps) ^ n"
  shows "(S + sum_list ws) * (1 - eps) ^ (n + length ws) \<le> foldl (d_plus D) W ws
    \<and> foldl (d_plus D) W ws \<le> (S + sum_list ws) * (1 + eps) ^ (n + length ws)"
  using assms
proof (induction ws arbitrary: S W n)
  case (Cons w ws)
  have e: "0 < eps" "eps < 1" using eps_bounds by auto
  have W: "0 \<le> W" using Cons.prems(2,3) e by (intro order_trans[OF _ Cons.prems(3)]) simp
  have w: "0 \<le> w" using Cons.prems(1) by simp
  have p: "(1 - eps) ^ n \<le> 1" "1 \<le> (1 + eps) ^ n" using e by (simp_all add: power_le_one)
  have "(S + w) * (1 - eps) ^ n \<le> W + w" "W + w \<le> (S + w) * (1 + eps) ^ n"
    using Cons.prems(3,4) mult_left_mono[OF p(1) w] mult_left_mono[OF p(2) w] by (simp_all add: algebra_simps)
  then have "(S + w) * (1 - eps) ^ n * (1 - eps) \<le> (W + w) * (1 - eps)"
    "(W + w) * (1 + eps) \<le> (S + w) * (1 + eps) ^ n * (1 + eps)"
    using e by (auto intro!: mult_right_mono)
  then have step: "(S + w) * (1 - eps) ^ Suc n \<le> d_plus D W w" "d_plus D W w \<le> (S + w) * (1 + eps) ^ Suc n"
    using near_rel[OF near(1)[of W w]] W w by (simp_all add: ac_simps) (linarith+)?
  show ?case
    using Cons.IH[OF _ _ step] Cons.prems(1,2) w by (simp add: ac_simps)
qed simp

lemma quota_bounds:
  assumes "0 \<le> w" "0 \<le> T" "0 < W" "d_of_number D T = T"
  shows "w * T / W * (1 - eps)\<^sup>2 \<le> quota D T W w" "quota D T W w \<le> w * T / W * (1 + eps)\<^sup>2"
proof -
  let ?m = "d_times D w T"
  have e: "0 < eps" "eps < 1" using eps_bounds by auto
  have x: "0 \<le> w * T" using assms by simp
  have m: "w * T * (1 - eps) \<le> ?m" "?m \<le> w * T * (1 + eps)" using near_rel[OF near(3) x] by auto
  have m0: "0 \<le> ?m" using x e by (intro order_trans[OF _ m(1)]) simp
  have q: "?m / W * (1 - eps) \<le> quota D T W w" "quota D T W w \<le> ?m / W * (1 + eps)"
    using near_rel[OF near(4)[of W ?m]] m0 assms(3,4) by (simp_all add: quota_def)
  have "w * T * (1 - eps) / W * (1 - eps) \<le> ?m / W * (1 - eps)" "?m / W * (1 + eps) \<le> w * T * (1 + eps) / W * (1 + eps)"
    using m assms(3) e by (auto intro!: mult_right_mono divide_right_mono)
  with q show "w * T / W * (1 - eps)\<^sup>2 \<le> quota D T W w" "quota D T W w \<le> w * T / W * (1 + eps)\<^sup>2"
    by (simp_all add: power2_eq_square field_simps)
qed

text \<open>Up to 24 months and a million millions of tenge, the quotas sum to within a thousandth of the total.\<close>

lemma quota_near:
  assumes w: "0 \<le> w" "w \<le> S" and T: "0 \<le> T" "T \<le> 10 ^ 12" "d_of_number D T = T" and S: "0 < S"
    and W: "S * (1 - eps) ^ 24 \<le> W" "W \<le> S * (1 + eps) ^ 24"
  shows "\<bar>quota D T W w - w * T / S\<bar> \<le> w / S / 1000"
proof -
  have e: "0 < eps" "eps < 1" using eps_bounds by auto
  have W0: "0 < W" using W(1) S e by (intro less_le_trans[OF _ W(1)]) simp
  have "(1 - 1 / 10 ^ 15) * (1 + eps) ^ 24 \<le> (1 - 1 / 10 ^ 15) * (1 + 48 * eps)"
    "(1 + 1 / 10 ^ 15) * (1 - 24 * eps) \<le> (1 + 1 / 10 ^ 15) * (1 - eps) ^ 24"
    using power_eps[of 24] by (simp_all add: eps_def)
  moreover have "(1 - 1 / 10 ^ 15) * (1 + 48 * eps) \<le> 1 - 2 * eps" "1 - 2 * eps \<le> (1 - eps)\<^sup>2"
    "1 + 3 * eps \<le> (1 + 1 / 10 ^ 15) * (1 - 24 * eps)" "(1 + eps)\<^sup>2 \<le> 1 + 3 * eps"
    by (simp_all add: eps_def power2_eq_square)
  ultimately have "(1 - 1 / 10 ^ 15) * (1 + eps) ^ 24 \<le> (1 - eps)\<^sup>2" "(1 + eps)\<^sup>2 \<le> (1 + 1 / 10 ^ 15) * (1 - eps) ^ 24"
    by linarith+
  then have lo: "1 - 1 / 10 ^ 15 \<le> (1 - eps)\<^sup>2 / (1 + eps) ^ 24" and hi: "(1 + eps)\<^sup>2 / (1 - eps) ^ 24 \<le> 1 + 1 / 10 ^ 15"
    using e by (simp_all add: pos_le_divide_eq pos_divide_le_eq)
  let ?x = "w * T / S"
  have x: "0 \<le> ?x" using w T S by simp
  have SW: "1 / (1 + eps) ^ 24 \<le> S / W" "S / W \<le> 1 / (1 - eps) ^ 24"
    using W W0 S e by (simp_all add: field_simps)
  have eq: "w * T / W = ?x * (S / W)" using S by simp
  define c :: rat where "c = 1 / 10 ^ 15"
  note lo = lo[folded c_def] and hi = hi[folded c_def]
  have "1 - c \<le> (1 - eps)\<^sup>2 * (S / W)" using order_trans[OF lo] mult_left_mono[OF SW(1), of "(1 - eps)\<^sup>2"] by simp
  then have "?x * (1 - c) \<le> ?x * ((1 - eps)\<^sup>2 * (S / W))" using x by (rule mult_left_mono)
  also have "\<dots> \<le> quota D T W w"
    using quota_bounds(1)[OF w(1) T(1) W0 T(3)] S unfolding eq by (simp add: ac_simps)
  finally have 1: "?x * (1 - c) \<le> quota D T W w" .
  have "quota D T W w \<le> ?x * ((1 + eps)\<^sup>2 * (S / W))"
    using quota_bounds(2)[OF w(1) T(1) W0 T(3)] S unfolding eq by (simp add: ac_simps)
  also have "(1 + eps)\<^sup>2 * (S / W) \<le> 1 + c" using order_trans[OF _ hi] mult_left_mono[OF SW(2), of "(1 + eps)\<^sup>2"] by simp
  then have "?x * ((1 + eps)\<^sup>2 * (S / W)) \<le> ?x * (1 + c)" using x by (rule mult_left_mono)
  finally have 2: "quota D T W w \<le> ?x * (1 + c)" .
  have "w / S * T \<le> w / S * 10 ^ 12" using w S T by (intro mult_left_mono) simp_all
  from mult_right_mono[OF this, of c] have "?x * c \<le> w / S / 1000" by (simp add: c_def)
  with 1 2 show ?thesis unfolding abs_le_iff right_diff_distrib distrib_left by linarith
qed

lemma weightSum_bounds:
  assumes "\<forall>w\<in>set ws. 0 \<le> w" "length ws \<le> 24"
  shows "sum_list ws * (1 - eps) ^ 24 \<le> foldl (d_plus D) 0 ws" "foldl (d_plus D) 0 ws \<le> sum_list ws * (1 + eps) ^ 24"
proof -
  have e: "0 < eps" "eps < 1" using eps_bounds by auto
  have S: "0 \<le> sum_list ws" using assms(1) by (intro sum_list_nonneg) auto
  have b: "sum_list ws * (1 - eps) ^ length ws \<le> foldl (d_plus D) 0 ws"
    "foldl (d_plus D) 0 ws \<le> sum_list ws * (1 + eps) ^ length ws"
    using sum_bounds[OF assms(1), of 0 0 0] by simp_all
  have "sum_list ws * (1 - eps) ^ 24 \<le> sum_list ws * (1 - eps) ^ length ws"
    using assms(2) S e by (intro mult_left_mono power_decreasing) simp_all
  moreover have "sum_list ws * (1 + eps) ^ length ws \<le> sum_list ws * (1 + eps) ^ 24"
    using assms(2) S e by (intro mult_left_mono power_increasing) simp_all
  ultimately show "sum_list ws * (1 - eps) ^ 24 \<le> foldl (d_plus D) 0 ws"
    "foldl (d_plus D) 0 ws \<le> sum_list ws * (1 + eps) ^ 24" using b by linarith+
qed

text \<open>Integers pass through every number and money operation unchanged.\<close>

lemma kzt_of_int:
  assumes "\<bar>k\<bar> \<le> 10 ^ 13"
  shows "kzt_toNumber D (of_int k) = of_int k" "fromKzt_number D (of_int k) = of_int k"
proof -
  have t: "d_toDP D (of_int k) 2 = of_int k" using toDP[of "of_int k" 2] half_even_of_int[of "k * 100"] by simp
  have "\<bar>k\<bar> \<le> 10 ^ 15" using assms by simp
  with t show "kzt_toNumber D (of_int k) = of_int k" "fromKzt_number D (of_int k) = of_int k"
    by (simp_all add: kzt_toNumber_def fromKzt_number_def)
qed

lemma foldl_fl_ints:
  assumes "\<forall>k\<in>set ks. 0 \<le> k" "0 \<le> a" "a + sum_list ks \<le> 10 ^ 13"
  shows "foldl (\<lambda>acc f. fl (acc + f)) (of_int a) (map of_int ks) = of_int (a + sum_list ks)"
  using assms
proof (induction ks arbitrary: a)
  case (Cons k ks)
  have nn: "0 \<le> sum_list ks" using Cons.prems(1) by (intro sum_list_nonneg) auto
  then have "\<bar>a + k\<bar> < 2 ^ 53" using Cons.prems by simp
  from fl_int[OF this] have "fl (of_int a + of_int k) = of_int (a + k)" by simp
  with Cons.IH[of "a + k"] Cons.prems show ?case by (simp add: ac_simps)
qed simp

lemma cents_of_int: "\<bar>k\<bar> \<le> 10 ^ 13 \<Longrightarrow> cents (of_int k)"
  by (rule centsI[of _ "k * 100"]) (simp_all add: abs_mult)

lemma foldl_add_ints:
  assumes "\<forall>k\<in>set ks. 0 \<le> k" "0 \<le> a" "a + sum_list ks \<le> 10 ^ 13"
  shows "foldl (kzt_add D) (of_int a) (map of_int ks) = of_int (a + sum_list ks)"
  using assms
proof (induction ks arbitrary: a)
  case (Cons k ks)
  have nn: "0 \<le> sum_list ks" using Cons.prems(1) by (intro sum_list_nonneg) auto
  then have "kzt_add D (of_int a) (of_int k) = of_int (a + k)"
    using Cons.prems by (subst kzt_add_cents) (simp_all add: cents_of_int)
  with Cons.IH[of "a + k"] Cons.prems show ?case by (simp add: ac_simps)
qed simp

text \<open>
  The floors of quotas that sum to within a tenth of \<open>T\<close> leave at least nothing and at most one
  tenge per month to hand out.
\<close>

lemma leftover_range:
  fixes qs :: "rat list"
  assumes "\<bar>sum_list qs - of_int T\<bar> \<le> 1 / 10"
  shows "0 \<le> T - sum_list (map floor qs)" "T - sum_list (map floor qs) \<le> int (length qs)"
proof -
  have "of_int (sum_list (map floor qs)) \<le> sum_list qs" by (induction qs) (auto simp: add_mono)
  moreover have "sum_list qs \<le> of_int (sum_list (map floor qs)) + of_nat (length qs)"
  proof (induction qs)
    case (Cons q qs)
    have "q \<le> of_int \<lfloor>q\<rfloor> + 1" by linarith
    with Cons show ?case by simp
  qed simp
  ultimately have "(of_int (sum_list (map floor qs)) :: rat) < of_int (T + 1)"
    "of_int T < (of_int (sum_list (map floor qs) + int (length qs) + 1) :: rat)"
    using assms[unfolded abs_le_iff] unfolding of_int_add of_int_1 of_int_of_nat_eq by linarith+
  then show "0 \<le> T - sum_list (map floor qs)" "T - sum_list (map floor qs) \<le> int (length qs)"
    unfolding of_int_less_iff by linarith+
qed

lemma near_floor:
  fixes q :: rat
  assumes "\<bar>q - x\<bar> \<le> d" "d \<le> 1 / 1000" "k = \<lfloor>q\<rfloor> \<or> k = \<lfloor>q\<rfloor> + 1"
  shows "\<bar>of_int k - x\<bar> \<le> 101 / 100"
proof -
  have "of_int \<lfloor>q\<rfloor> \<le> q" "q < of_int \<lfloor>q\<rfloor> + 1" by linarith+
  moreover have "(of_int k :: rat) = of_int \<lfloor>q\<rfloor> \<or> (of_int k :: rat) = of_int \<lfloor>q\<rfloor> + 1" using assms(3) by auto
  ultimately show ?thesis using assms(1,2) unfolding abs_le_iff by linarith
qed

text \<open>
  The split of a whole total: it returns, the shares are whole and non-negative, they sum to the
  total, and each is within a tenge (and a hundredth) of the month's exact quota.
\<close>

lemma distributeWholeTenge_ok:
  assumes T: "0 \<le> T" "T \<le> 10 ^ 12" and ws: "\<forall>w\<in>set ws. 0 \<le> w" "length ws \<le> 24"
    and pos: "0 < sum_list ws"
  shows "\<exists>ks. distributeWholeTenge D (of_int T) ws = Inr (map of_int ks)
    \<and> length ks = length ws \<and> sum_list ks = T \<and> (\<forall>k\<in>set ks. 0 \<le> k)
    \<and> (\<forall>i<length ws. \<bar>of_int (ks ! i) - ws ! i * of_int T / sum_list ws\<bar> \<le> 101 / 100)"
proof (cases "T = 0")
  case True
  have "kzt_toNumber D (of_int 0) = of_int 0" by (intro kzt_of_int) simp
  then have "distributeWholeTenge D (of_int T) ws = Inr (map (\<lambda>_. 0) ws)"
    using True by (simp add: distributeWholeTenge_def Let_def money_simps)
  moreover have "sum_list (map (\<lambda>_. 0 :: int) ws) = 0" by (induction ws) simp_all
  ultimately show ?thesis using True by (intro exI[of _ "map (\<lambda>_. 0) ws"]) auto
next
  case False
  let ?T = "of_int T :: rat" and ?S = "sum_list ws"
  define W where "W = foldl (d_plus D) 0 ws"
  note Wb = weightSum_bounds[OF ws, folded W_def]
  have W0: "0 < W" using Wb(1) pos eps_bounds by (intro less_le_trans[OF _ Wb(1)]) simp
  have T13: "\<bar>T\<bar> \<le> 10 ^ 13" using T by simp
  have num: "d_of_number D ?T = ?T" using T by (intro number_int) simp
  define qs where "qs = map (quota D ?T W) ws"
  have "?T \<le> of_int (10 ^ 12)" using T(2) by (simp only: of_int_le_iff)
  then have T0: "0 \<le> ?T" "?T \<le> 10 ^ 12" using T(1) by simp_all
  have near: "\<bar>quota D ?T W w - w * ?T / ?S\<bar> \<le> w / ?S / 1000" if "w \<in> set ws" for w
    using ws(1) that member_le_sum_list[OF that] T0 num pos Wb by (intro quota_near) auto
  have qs0: "0 \<le> quota D ?T W w" if "w \<in> set ws" for w
  proof -
    have w: "0 \<le> w" using ws(1) that by blast
    then have "0 \<le> w * ?T / W * (1 - eps)\<^sup>2" using T0(1) W0 by simp
    with quota_bounds(1)[OF w T0(1) W0 num] show ?thesis by linarith
  qed
  have "\<bar>sum_list qs - ?T\<bar> \<le> 1 / 10"
  proof -
    have "\<bar>sum_list (map (quota D ?T W) xs) - sum_list xs * ?T / ?S\<bar> \<le> sum_list xs / ?S / 1000" if "set xs \<subseteq> set ws" for xs
      using that
    proof (induction xs)
      case (Cons x xs)
      then have "\<bar>quota D ?T W x - x * ?T / ?S\<bar> \<le> x / ?S / 1000"
        "\<bar>sum_list (map (quota D ?T W) xs) - sum_list xs * ?T / ?S\<bar> \<le> sum_list xs / ?S / 1000"
        using near by auto
      then show ?case by (simp add: abs_le_iff add_divide_distrib distrib_right) 
    qed simp
    from this[of ws] pos show ?thesis by (simp add: qs_def)
  qed
  note lr = leftover_range[OF this]
  define fs where "fs = map floor qs"
  define os where "os = remainder_order (map (\<lambda>raw. d_minus D raw (of_int \<lfloor>raw\<rfloor>)) qs)"
  define ks where "ks = give os (T - sum_list fs) fs"
  have len: "length fs = length ws" "length qs = length ws" by (simp_all add: fs_def qs_def)
  have fs0: "\<forall>k\<in>set fs. 0 \<le> k" using qs0 by (auto simp: fs_def qs_def)
  have "0 \<le> sum_list fs" using fs0 by (intro sum_list_nonneg) auto
  with lr(1) have fsT: "sum_list fs \<le> T" "0 \<le> sum_list fs" by (simp_all add: fs_def)
  have fsle: "k \<le> T" if "k \<in> set fs" for k using member_le_sum_list[OF that] fs0 fsT(1) by auto
  have os: "distinct os" "set os = {..<length ws}" "length os = length ws"
    using remainder_order_perm[of "map (\<lambda>raw. d_minus D raw (of_int \<lfloor>raw\<rfloor>)) qs"] len distinct_card[of os]
    by (auto simp: os_def)
  have sum: "sum_list ks = T"
    using sum_give[of os fs "T - sum_list fs"] lr os len by (simp add: ks_def fs_def)
  have nth: "ks ! i = fs ! i \<or> ks ! i = fs ! i + 1" if "i < length ws" for i
    using give_nth[OF os(1), of fs i "T - sum_list fs"] os len that by (auto simp: ks_def)
  have lk: "length ks = length ws" by (simp add: ks_def len)
  have "0 \<le> ks ! i" if "i < length ws" for i
    using nth[OF that] fs0[THEN bspec, OF nth_mem, of i] that len by auto
  then have ks0: "\<forall>k\<in>set ks. 0 \<le> k" using lk by (auto simp: in_set_conv_nth)
  have kT: "k \<le> T" if "k \<in> set ks" for k using member_le_sum_list[OF that] ks0 sum by auto
  have floors: "map (\<lambda>raw. d_to_number D (of_int \<lfloor>raw\<rfloor>)) qs = map of_int fs"
  proof -
    have "d_to_number D (of_int k) = of_int k" if "k \<in> set fs" for k
      using fs0 fsle[OF that] that T by (intro number_int(2)) auto
    then show ?thesis by (auto simp: fs_def)
  qed
  have left: "fl (?T - of_int (sum_list fs)) = of_int (T - sum_list fs)"
    using fl_int[of "T - sum_list fs"] fsT T by simp
  have fsum: "foldl (\<lambda>acc f. fl (acc + f)) 0 (map of_int fs) = of_int (sum_list fs)"
    using foldl_fl_ints[OF fs0, of 0] fsT T by simp
  have hand: "hand_out os (of_int (T - sum_list fs)) (map of_int fs) = map of_int ks"
  proof -
    have "\<bar>fs ! i\<bar> \<le> 10 ^ 14" if "i < length ws" for i
      using fs0[THEN bspec, OF nth_mem, of i] fsle[OF nth_mem, of i] that len T by simp
    moreover have "\<bar>T - sum_list fs\<bar> \<le> 10 ^ 14" using fsT T by simp
    ultimately show ?thesis unfolding ks_def using os len by (intro hand_out_give) auto
  qed
  have shares: "map (fromKzt_number D) (map of_int ks) = map of_int ks"
  proof -
    have "fromKzt_number D (of_int k) = of_int k" if "k \<in> set ks" for k
      using ks0 kT[OF that] that T by (intro kzt_of_int(2)) auto
    then show ?thesis by (auto intro: map_idI)
  qed
  have ssum: "foldl (kzt_add D) kzt_zero (map of_int ks) = of_int (sum_list ks)"
    using foldl_add_ints[OF ks0, of 0] sum T by (simp add: money_simps)
  have "distributeWholeTenge D ?T ws = Inr (map of_int ks)"
    using False W0 unfolding distributeWholeTenge_def kzt_of_int(1)[OF T13] Let_def W_def[symmetric] qs_def[symmetric]
      floors fsum left os_def[symmetric] hand shares ssum sum by simp
  moreover have "\<bar>of_int (ks ! i) - ws ! i * ?T / ?S\<bar> \<le> 101 / 100" if i: "i < length ws" for i
  proof -
    have w: "ws ! i \<in> set ws" "ws ! i / ?S \<le> 1"
      using i ws(1) member_le_sum_list[of "ws ! i" ws] pos by (auto simp: divide_le_eq)
    have "fs ! i = \<lfloor>quota D ?T W (ws ! i)\<rfloor>" using i by (simp add: fs_def qs_def)
    with nth[OF i] near[OF w(1)] w(2) show ?thesis
      by (intro near_floor[of "quota D ?T W (ws ! i)" _ "ws ! i / ?S / 1000"]) auto
  qed
  ultimately show ?thesis using sum lk ks0 by blast
qed

end

end
