(* ===== verification/Invoice_Service.thy ===== *)
theory Invoice_Service
  imports Bookkeeping Whole_Tenge
begin

text \<open>
  The administrative operations of \<open>src/modules/billing/invoice.service.ts\<close>: one-off invoices, late
  pickup fees, cash receipts and cancellation. A database default or a call of \<open>randomUUID\<close> takes
  the next UUID, \<open>clock.now()\<close> the next reading of the clock.
\<close>

subsection \<open>Strings and events\<close>

text \<open>\<open>Date.prototype.toISOString\<close> for years 0 to 9999, and its first ten characters.\<close>

definition iso_day :: "instant \<Rightarrow> string" where
  "iso_day t = iso_date_string (utc_date_of t)"

definition toISOString :: "instant \<Rightarrow> string" where
  "toISOString t = iso_day t @ ''T'' @ p2 (getUTCHours t) @ '':'' @ p2 (getUTCMinutes t) @ '':''
     @ p2 (getUTCSeconds t) @ ''.'' @ padStart0 3 (nat_string (nat (getUTCMilliseconds t))) @ ''Z''"

text \<open>The em dash of the generated descriptions, in UTF-8.\<close>

definition em_dash :: string where
  "em_dash = map char_of [226 :: nat, 128, 148]"

definition emitInvoiceCreated :: "billing_env \<Rightarrow> InvoiceState \<Rightarrow> unit op" where
  "emitInvoiceCreated E invoice =
     emitM (InvoiceCreatedEv (inv_kindergartenId invoice) (inv_id invoice) (inv_childId invoice)
       (inv_invoiceType invoice) (kzt_toNumber (env_decimal E) (inv_amountAfterDiscount invoice))
       (iso_day (inv_dueDate invoice)) (inv_periodStart invoice) (inv_periodEnd invoice))"

definition invoice_service_get :: "uuid \<Rightarrow> uuid \<Rightarrow> InvoiceState op" where
  "invoice_service_get kg i = bindM (readM (invoices_findById kg i)) (\<lambda>found. orThrow found (InvoiceNotFound i))"

definition ensureForChild :: "billing_env \<Rightarrow> uuid \<Rightarrow> uuid \<Rightarrow> PaymentAccountState op" where
  "ensureForChild E kg child = accounts_findOrCreateForChild E kg child"

subsection \<open>One-off invoices\<close>

record CreateOneOffInvoiceInput =
  co_childId :: uuid
  co_invoiceType :: InvoiceType
  co_amountDue :: rat
  co_dueDate :: instant
  co_periodStart :: instant
  co_periodEnd :: instant
  co_description :: "string option"
  co_lineItems :: "(string \<times> rat \<times> rat \<times> uuid option) list"
  co_discountPct :: "rat option"
  co_discountReason :: "string option"
  co_tariffPlanId :: "uuid option"

definition one_off_item ::
  "billing_env \<Rightarrow> uuid \<Rightarrow> uuid \<Rightarrow> instant \<Rightarrow> string \<times> rat \<times> rat \<times> uuid option \<Rightarrow> InvoiceLineItemState op" where
  "one_off_item E kg invoiceId now = (\<lambda>(description, quantity, unitPrice, tariffPlanId).
     (let D = env_decimal E; unitPriceMk = fromKzt_number D unitPrice in
      bindM (randomUUID E) (\<lambda>i.
      liftE LineItemErr (lineItem_fromState D
        \<lparr>li_id = i, li_invoiceId = invoiceId, li_kindergartenId = kg, li_description = description,
         li_tariffPlanId = tariffPlanId, li_quantity = quantity, li_unitPrice = unitPriceMk,
         li_lineTotal = lineItem_compute D quantity unitPriceMk, li_createdAt = now\<rparr>))))"

definition createOneOff :: "billing_env \<Rightarrow> uuid \<Rightarrow> CreateOneOffInvoiceInput \<Rightarrow> InvoiceState op" where
  "createOneOff E kg input =
     (let D = env_decimal E in
     bindM (nowM E) (\<lambda>now.
     bindM (ensureForChild E kg (co_childId input)) (\<lambda>account.
     let amountDue = fromKzt_number D (co_amountDue input) in
     bindM (liftE MoneyErr (computeAmountAfterDiscount D amountDue (co_discountPct input) None)) (\<lambda>after.
     bindM (randomUUID E) (\<lambda>invoiceId.
     let invoice = \<lparr>inv_id = invoiceId, inv_kindergartenId = kg, inv_childId = co_childId input,
           inv_paymentAccountId = acc_id account, inv_tariffPlanId = co_tariffPlanId input,
           inv_invoiceType = co_invoiceType input, inv_periodStart = co_periodStart input,
           inv_periodEnd = co_periodEnd input, inv_amountDue = amountDue,
           inv_discountPct = co_discountPct input, inv_discountReason = co_discountReason input,
           inv_amountAfterDiscount = roundToWholeKzt D after, inv_status = InvPending,
           inv_dueDate = co_dueDate input, inv_description = co_description input,
           inv_proratedForDays = None, inv_createdAt = now, inv_updatedAt = now\<rparr> in
     bindM (mapM (one_off_item E kg invoiceId now) (co_lineItems input)) (\<lambda>lineItems.
     bindM (invoices_create D invoice lineItems) (\<lambda>persisted.
     bindM (emitInvoiceCreated E persisted) (\<lambda>_.
     returnM persisted))))))))"

subsection \<open>Late pickup fees\<close>

definition LATE_PICKUP_DUE_DAYS :: int where "LATE_PICKUP_DUE_DAYS = 7"

record GenerateLatePickupInvoiceInput =
  lp_childId :: uuid
  lp_expectedTime :: string
  lp_actualTime :: string
  lp_date :: instant
  lp_lateFeeAmountKzt :: "rat option"

definition late_fee :: "billing_env \<Rightarrow> uuid \<Rightarrow> GenerateLatePickupInvoiceInput \<Rightarrow> (kzt \<times> uuid option) op" where
  "late_fee E kg input =
     bindM (readM (plans_findActiveByType kg TariffLatePickupFee (lp_date input))) (\<lambda>tariffPlan.
     case tariffPlan of
       Some plan \<Rightarrow> returnM (tp_amount plan, Some (tp_id plan))
     | None \<Rightarrow>
         (case lp_lateFeeAmountKzt input of
            Some fee \<Rightarrow> returnM (fromKzt_number (env_decimal E) fee, None)
          | None \<Rightarrow> throwM (TariffPlanNotFound ''late_pickup_fee'')))"

definition generateLatePickupInvoice ::
  "billing_env \<Rightarrow> uuid \<Rightarrow> GenerateLatePickupInvoiceInput \<Rightarrow> InvoiceState op" where
  "generateLatePickupInvoice E kg input =
     (let D = env_decimal E in
     bindM (nowM E) (\<lambda>now.
     bindM (late_fee E kg input) (\<lambda>(amount, tariffPlanId).
     bindM (ensureForChild E kg (lp_childId input)) (\<lambda>account.
     let description = ''Late pickup fee '' @ em_dash @ '' date '' @ iso_day (lp_date input) @ '', expected ''
           @ lp_expectedTime input @ '', actual '' @ lp_actualTime input in
     bindM (randomUUID E) (\<lambda>invoiceId.
     let invoice = \<lparr>inv_id = invoiceId, inv_kindergartenId = kg, inv_childId = lp_childId input,
           inv_paymentAccountId = acc_id account, inv_tariffPlanId = tariffPlanId,
           inv_invoiceType = LatePickupFee, inv_periodStart = lp_date input, inv_periodEnd = lp_date input,
           inv_amountDue = amount, inv_discountPct = None, inv_discountReason = None,
           inv_amountAfterDiscount = amount, inv_status = InvPending,
           inv_dueDate = addDaysUtc (lp_date input) LATE_PICKUP_DUE_DAYS, inv_description = Some description,
           inv_proratedForDays = None, inv_createdAt = now, inv_updatedAt = now\<rparr> in
     bindM (randomUUID E) (\<lambda>i.
     bindM (liftE LineItemErr (lineItem_fromState D
        \<lparr>li_id = i, li_invoiceId = invoiceId, li_kindergartenId = kg, li_description = description,
         li_tariffPlanId = tariffPlanId, li_quantity = 1, li_unitPrice = amount,
         li_lineTotal = lineItem_compute D 1 amount, li_createdAt = now\<rparr>)) (\<lambda>lineItem.
     bindM (invoices_create D invoice [lineItem]) (\<lambda>persisted.
     bindM (emitInvoiceCreated E persisted) (\<lambda>_.
     returnM persisted)))))))))"

subsection \<open>Cash receipts\<close>

record ManualMarkPaidInput =
  mm_paidAt :: "instant option"
  mm_payerUserId :: "uuid option"
  mm_note :: "string option"
  mm_amount :: "rat option"

definition cash_payment :: "uuid \<Rightarrow> uuid \<Rightarrow> InvoiceState \<Rightarrow> kzt \<Rightarrow> ManualMarkPaidInput \<Rightarrow> instant \<Rightarrow> PaymentState" where
  "cash_payment i kg invoice amount input now =
     \<lparr>pay_id = i, pay_kindergartenId = kg, pay_invoiceId = inv_id invoice, pay_childId = inv_childId invoice,
      pay_payerUserId = mm_payerUserId input, pay_amount = amount, pay_provider = CashProvider,
      pay_providerTxnId = None, pay_idempotencyKey = ''cash:'' @ inv_id invoice @ '':'' @ toISOString now,
      pay_status = PayCompleted,
      pay_providerPayload = Some [(''note'', (case mm_note input of None \<Rightarrow> JNull | Some n \<Rightarrow> JStr n)),
        (''marked_by'', JStr ''admin_manual'')],
      pay_paidAt = Some (case mm_paidAt input of None \<Rightarrow> now | Some t \<Rightarrow> t), pay_refundId = None,
      pay_reconciliationAttempts = 0, pay_lastReconciledAt = None, pay_nextReconciliationAt = None,
      pay_manualReviewRequiredAt = None, pay_refundRequired = False, pay_refundReason = None,
      pay_duplicateOfPaymentId = None, pay_createdAt = now, pay_updatedAt = now\<rparr>"

definition record_cash ::
  "billing_env \<Rightarrow> uuid \<Rightarrow> InvoiceState \<Rightarrow> kzt \<Rightarrow> ManualMarkPaidInput \<Rightarrow> instant \<Rightarrow> PaymentState op" where
  "record_cash E kg invoice amount input now =
     bindM (randomUUID E) (\<lambda>i.
     bindM (liftE PaymentErr (payment_fromState (cash_payment i kg invoice amount input now))) (\<lambda>cashPayment.
     bindM (payments_create (env_decimal E) cashPayment) (\<lambda>_. returnM cashPayment)))"

definition notify_cash :: "billing_env \<Rightarrow> uuid \<Rightarrow> InvoiceState \<Rightarrow> PaymentState \<Rightarrow> unit op" where
  "notify_cash E kg invoice p =
     emitM (PaymentCompletedEv kg (pay_id p) (inv_childId invoice) (inv_id invoice)
       (kzt_toNumber (env_decimal E) (pay_amount p)) CashProvider (case pay_paidAt p of None \<Rightarrow> 0 | Some t \<Rightarrow> t))"

text \<open>A lost flip, disambiguated by a second read.\<close>

definition flip_lost :: "uuid \<Rightarrow> uuid \<Rightarrow> string \<Rightarrow> 'a op" where
  "flip_lost kg invoiceId operation =
     bindM (readM (invoices_findById kg invoiceId)) (\<lambda>existing.
     bindM (orThrow existing (InvoiceNotFound invoiceId)) (\<lambda>e.
     throwM (InvoiceErr (if inv_status e = InvPaid then InvoiceAlreadyPaid invoiceId
                         else InvoiceStatusInvalid (inv_status e) operation))))"

definition partial_flip :: "uuid \<Rightarrow> InvoiceState \<Rightarrow> instant \<Rightarrow> InvoiceState op" where
  "partial_flip kg invoice now =
     (if inv_status invoice = InvPartial then returnM invoice
      else
        bindM (invoices_markPartialConditional kg (inv_id invoice) now) (\<lambda>flipped.
        case flipped of
          Some v \<Rightarrow> returnM v
        | None \<Rightarrow>
            bindM (readM (invoices_findById kg (inv_id invoice))) (\<lambda>found.
            bindM (orThrow found (InvoiceNotFound (inv_id invoice))) (\<lambda>reread.
            if inv_status reread = InvPartial then returnM reread
            else throwM (InvoiceErr (if inv_status reread = InvPaid then InvoiceAlreadyPaid (inv_id invoice)
                                     else InvoiceStatusInvalid (inv_status reread) ''manualMarkPaid''))))))"

definition recordPartialCashPayment ::
  "billing_env \<Rightarrow> uuid \<Rightarrow> InvoiceState \<Rightarrow> kzt \<Rightarrow> ManualMarkPaidInput \<Rightarrow> instant \<Rightarrow> InvoiceState op" where
  "recordPartialCashPayment E kg invoice amount input now =
     bindM (partial_flip kg invoice now) (\<lambda>updated.
     bindM (record_cash E kg updated amount input now) (\<lambda>cashPayment.
     bindM (creditFromPayment E kg (inv_paymentAccountId updated) amount) (\<lambda>_.
     bindM (notify_cash E kg updated cashPayment) (\<lambda>_.
     returnM updated))))"

definition settle_cash ::
  "billing_env \<Rightarrow> uuid \<Rightarrow> uuid \<Rightarrow> kzt \<Rightarrow> ManualMarkPaidInput \<Rightarrow> instant \<Rightarrow> InvoiceState op" where
  "settle_cash E kg invoiceId residual input now =
     bindM (invoices_markPaidConditional kg invoiceId now) (\<lambda>flipped.
     case flipped of
       None \<Rightarrow> flip_lost kg invoiceId ''manualMarkPaid''
     | Some updated \<Rightarrow>
         bindM (whenM (isPrepayment (inv_invoiceType updated)) (cancelMonthliesCoveredByPrepayment E kg updated now)) (\<lambda>_.
         bindM (record_cash E kg updated (if isPositive residual then residual else inv_amountAfterDiscount updated) input now) (\<lambda>cashPayment.
         bindM (whenM (isPositive residual)
           (bindM (creditFromPayment E kg (inv_paymentAccountId updated) residual) (\<lambda>_. returnM ()))) (\<lambda>_.
         bindM (notify_cash E kg updated cashPayment) (\<lambda>_.
         bindM (emitM (InvoicePaidEv kg (inv_id updated) (inv_childId updated)
           (kzt_toNumber (env_decimal E) (inv_amountAfterDiscount updated))
           (case mm_paidAt input of None \<Rightarrow> now | Some t \<Rightarrow> t))) (\<lambda>_.
         returnM updated))))))"

text \<open>The checks on an explicit amount; the answer is the amount of a partial receipt, if it is one.\<close>

definition cash_amount ::
  "billing_env \<Rightarrow> InvoiceState \<Rightarrow> kzt \<Rightarrow> rat option \<Rightarrow> kzt option op" where
  "cash_amount E invoice residual amount =
     (case amount of
        None \<Rightarrow> returnM None
      | Some a \<Rightarrow>
          (let inputAmount = fromKzt_number (env_decimal E) a in
           if inv_status invoice = InvPaid then throwM (InvoiceErr (InvoiceAlreadyPaid (inv_id invoice)))
           else if \<not> unpaid_status (inv_status invoice)
           then throwM (InvoiceErr (InvoiceStatusInvalid (inv_status invoice) ''manualMarkPaid''))
           else if \<not> isPositive inputAmount \<or> inputAmount > residual
           then throwM (InvoiceErr (InvoiceStatusInvalid (inv_status invoice) ''amount_mismatch_partial''))
           else if isPrepayment (inv_invoiceType invoice) \<and> inputAmount \<noteq> residual
           then throwM (PrepaymentPartialNotAllowed (inv_id invoice) (inv_invoiceType invoice)
             (kzt_toNumber (env_decimal E) residual))
           else returnM (if inputAmount \<noteq> residual then Some inputAmount else None)))"

definition manualMarkPaid :: "billing_env \<Rightarrow> uuid \<Rightarrow> uuid \<Rightarrow> ManualMarkPaidInput \<Rightarrow> InvoiceState op" where
  "manualMarkPaid E kg invoiceId input =
     (let D = env_decimal E in
     bindM (nowM E) (\<lambda>now.
     bindM (readM (invoices_findById kg invoiceId)) (\<lambda>found.
     bindM (orThrow found (InvoiceNotFound invoiceId)) (\<lambda>existing.
     bindM (whenM (isPrepayment (inv_invoiceType existing))
       (invoices_acquireChildPrepaymentAdvisoryLock kg (inv_childId existing))) (\<lambda>_.
     bindM (readM (\<lambda>db. fromKzt_number D (invoices_getPaidSumForInvoice D kg invoiceId db))) (\<lambda>priorPaidSum.
     let residual = kzt_sub D (inv_amountAfterDiscount existing) priorPaidSum in
     bindM (cash_amount E existing residual (mm_amount input)) (\<lambda>partial.
     case partial of
       Some amount \<Rightarrow> recordPartialCashPayment E kg existing amount input now
     | None \<Rightarrow> settle_cash E kg invoiceId residual input now)))))))"

definition invoice_service_cancel :: "billing_env \<Rightarrow> uuid \<Rightarrow> uuid \<Rightarrow> string option \<Rightarrow> InvoiceState op" where
  "invoice_service_cancel E kg invoiceId reason =
     bindM (nowM E) (\<lambda>now.
     bindM (invoices_markCancelledConditional kg invoiceId now) (\<lambda>flipped.
     case flipped of
       None \<Rightarrow> flip_lost kg invoiceId ''cancel''
     | Some updated \<Rightarrow>
         bindM (releaseCustomDiscountUsagesForInvoice E kg (inv_id updated)) (\<lambda>_.
         bindM (emitM (InvoiceCancelledEv kg (inv_id updated) (inv_childId updated) reason)) (\<lambda>_.
         returnM updated))))"

subsection \<open>Cancelling\<close>

lemma flip_lost_run:
  assumes "invoices_findById kg i db = Some v"
  shows "flip_lost kg i op_name db = Inl (InvoiceErr (if inv_status v = InvPaid then InvoiceAlreadyPaid i
    else InvoiceStatusInvalid (inv_status v) op_name))"
  using assms by (simp add: flip_lost_def op_simps)

text \<open>
  Cancelling an existing invoice: an unpaid one is cancelled, and only it; a paid, cancelled or
  refunded one is refused with the matching error.
\<close>

lemma cancel_run:
  assumes v: "invoices_findById kg i db = Some v" and uniq: "distinct (map inv_id (db_invoices db))"
  shows "if unpaid_status (inv_status v)
    then \<exists>w db'. invoice_service_cancel E kg i reason db = Inr (w, db') \<and> inv_status w = InvCancelled
      \<and> db_invoices db' = map (\<lambda>x. if inv_id x = i then invoice_set InvCancelled (env_clock E (db_clockReads db)) x else x) (db_invoices db)
      \<and> db_outbox db' = db_outbox db @ [InvoiceCancelledEv kg i (inv_childId v) reason]
    else invoice_service_cancel E kg i reason db = Inl (InvoiceErr (if inv_status v = InvPaid then InvoiceAlreadyPaid i
      else InvoiceStatusInvalid (inv_status v) ''cancel''))"
proof -
  let ?now = "env_clock E (db_clockReads db)" and ?db1 = "db\<lparr>db_clockReads := Suc (db_clockReads db)\<rparr>"
  have v1: "invoices_findById kg i ?db1 = Some v" using v by (simp add: invoices_findById_def)
  note fd = find_SomeD[OF v[unfolded invoices_findById_def]]
  note flip = flip_run[OF v1 _ invoice_transition.intros(3)[of ?now], folded invoices_markCancelledConditional_def]
  show ?thesis
  proof (cases "unpaid_status (inv_status v)")
    case True
    then have st: "inv_status v \<in> set [InvPending, InvPartial, InvOverdue]" by (auto simp: unpaid_status_def)
    let ?db2 = "?db1\<lparr>db_invoices := map (\<lambda>x. if inv_id x = i then invoice_set InvCancelled ?now x else x) (db_invoices db)\<rparr>"
    have f: "invoices_markCancelledConditional kg i ?now ?db1 = Inr (Some (invoice_set InvCancelled ?now v), ?db2)"
      using flip uniq st by simp
    obtain x db3 where r: "releaseCustomDiscountUsagesForInvoice E kg i ?db2 = Inr (x, db3)"
      using totalE[OF total_release] by blast
    have "keeps db_invoices (releaseCustomDiscountUsagesForInvoice E kg i)"
      "keeps db_outbox (releaseCustomDiscountUsagesForInvoice E kg i)" by (intro frame; simp)+
    with r have "db_invoices db3 = db_invoices ?db2" "db_outbox db3 = db_outbox ?db2" unfolding keeps_def by blast+
    with r f fd True show ?thesis
      by (auto simp: invoice_service_cancel_def op_simps invoice_set_def)
  next
    case False
    then have st: "inv_status v \<notin> set [InvPending, InvPartial, InvOverdue]" by (auto simp: unpaid_status_def)
    then have "invoices_markCancelledConditional kg i ?now ?db1 = Inr (None, ?db1)" using flip uniq by simp
    with False show ?thesis by (simp add: invoice_service_cancel_def op_simps flip_lost_run[OF v1])
  qed
qed

subsection \<open>Cash receipts\<close>

text \<open>
  An invoice of nothing cannot be settled by cash: the receipt would be a payment of zero, which the
  table refuses, so the whole transaction is rolled back.
\<close>

lemma zero_invoice_cash:
  assumes D: "decimal_ok (env_decimal E)" and v: "invoices_findById kg i db = Some v"
    and uniq: "distinct (map inv_id (db_invoices db))"
    and zero: "inv_amountAfterDiscount v = 0" "completed_payments kg i db = []"
    and st: "unpaid_status (inv_status v)" and np: "\<not> isPrepayment (inv_invoiceType v)"
  shows "manualMarkPaid E kg i \<lparr>mm_paidAt = t, mm_payerUserId = u, mm_note = n, mm_amount = None\<rparr> db
    = Inl (DbCheckViolation ''payments'')"
proof -
  let ?D = "env_decimal E"
  let ?now = "env_clock E (db_clockReads db)" and ?db1 = "db\<lparr>db_clockReads := Suc (db_clockReads db)\<rparr>"
  have c0: "cents 0" by (rule centsI[of _ 0]) simp_all
  note d = decimal_arith.intro[OF D]
  have sum0: "fromKzt_number ?D (invoices_getPaidSumForInvoice ?D kg i ?db1) = 0"
    using decimal_arith.fromKzt_sql[OF d c0] zero(2) by (simp add: invoices_getPaidSumForInvoice_def completed_payments_def)
  have res: "kzt_sub ?D 0 0 = 0" using decimal_arith.kzt_sub_cents[OF d c0 c0] by simp
  have col: "kzt_column ?D 0 = 0" using decimal_arith.kzt_column_cents[OF d c0] .
  have v1: "invoices_findById kg i ?db1 = Some v" using v by (simp add: invoices_findById_def)
  have f: "invoices_markPaidConditional kg i ?now ?db1 = Inr (Some (invoice_set InvPaid ?now v),
      ?db1\<lparr>db_invoices := map (\<lambda>x. if inv_id x = i then invoice_set InvPaid ?now x else x) (db_invoices db)\<rparr>)"
    using flip_run[OF v1 _ invoice_transition.intros(1)[of ?now], folded invoices_markPaidConditional_def] uniq st
    by (auto simp: unpaid_status_def)
  show ?thesis
    using v v1 np zero(1)
    by (simp add: manualMarkPaid_def op_simps sum0 res cash_amount_def settle_cash_def f money_simps invoice_set_def
        record_cash_def cash_payment_def payment_fromState_def payments_create_def insertable_def payment_row_def col Let_def)
qed

text \<open>
  Settling the residual of an unpaid invoice by cash: one completed payment of the residual is
  recorded and its amount credited, so the books stay in balance.
\<close>

definition fresh_receipt :: "billing_env \<Rightarrow> uuid \<Rightarrow> instant \<Rightarrow> billing_db \<Rightarrow> bool" where
  "fresh_receipt E i now db \<longleftrightarrow> list_all (\<lambda>p. pay_id p \<noteq> env_uuid E (db_uuidDraws db)
     \<and> pay_idempotencyKey p \<noteq> ''cash:'' @ i @ '':'' @ toISOString now) (db_payments db)"

lemma record_cash_run:
  assumes D: "decimal_ok (env_decimal E)" and fresh: "fresh_receipt E (inv_id v) now db"
    and amt: "cents amount" "0 < amount"
  shows "record_cash E kg v amount input now db =
    Inr (cash_payment (env_uuid E (db_uuidDraws db)) kg v amount input now,
      db\<lparr>db_uuidDraws := Suc (db_uuidDraws db),
         db_payments := db_payments db @ [cash_payment (env_uuid E (db_uuidDraws db)) kg v amount input now]\<rparr>)"
proof -
  have "kzt_column (env_decimal E) amount = amount"
    using decimal_arith.kzt_column_cents[OF decimal_arith.intro[OF D] amt(1)] .
  moreover have "\<not> list_ex (\<lambda>p. pay_id p = env_uuid E (db_uuidDraws db)) (db_payments db)"
    "\<not> list_ex (\<lambda>p. pay_idempotencyKey p = ''cash:'' @ inv_id v @ '':'' @ toISOString now) (db_payments db)"
    using fresh by (auto simp: fresh_receipt_def list_all_iff list_ex_iff)
  ultimately show ?thesis
    using amt by (simp add: record_cash_def op_simps cash_payment_def payment_fromState_def payments_create_def
        insertable_def payment_row_def)
qed

lemma settle_cash_run:
  assumes D: "decimal_ok (env_decimal E)" and v: "invoices_findById kg i db = Some v"
    and uniq: "distinct (map inv_id (db_invoices db))" "distinct (map acc_id (db_accounts db))"
    and st: "unpaid_status (inv_status v)" and fresh: "fresh_receipt E i now db"
    and acc: "accounts_findById kg (inv_paymentAccountId v) db = Some acc"
    and amt: "cents (acc_balance acc)" "cents residual" "cents (acc_balance acc + residual)" "0 < residual"
  shows "\<exists>w db'. settle_cash E kg i residual input now db = Inr (w, db') \<and> inv_status w = InvPaid
    \<and> paid_view db' = paid_view db @ [(kg, env_uuid E (db_uuidDraws db), i, residual, PayCompleted)]
    \<and> balances db' = credited (inv_paymentAccountId v) residual (balances db)
    \<and> billed_view db' = billed_view db \<and> db_refunds db' = db_refunds db"
proof -
  note fd = find_SomeD[OF v[unfolded invoices_findById_def]]
  let ?w = "invoice_set InvPaid now v"
  let ?db1 = "db\<lparr>db_invoices := map (\<lambda>x. if inv_id x = i then invoice_set InvPaid now x else x) (db_invoices db)\<rparr>"
  have f: "invoices_markPaidConditional kg i now db = Inr (Some ?w, ?db1)"
    using flip_run[OF v uniq(1) invoice_transition.intros(1)[of now], folded invoices_markPaidConditional_def] st
    by (auto simp: unpaid_status_def)
  have w: "inv_id ?w = i" "inv_paymentAccountId ?w = inv_paymentAccountId v" "inv_childId ?w = inv_childId v"
    "inv_invoiceType ?w = inv_invoiceType v" "inv_status ?w = InvPaid" using fd by (simp_all add: invoice_set_def)
  let ?hook = "whenM (isPrepayment (inv_invoiceType v)) (cancelMonthliesCoveredByPrepayment E kg ?w now)"
  obtain x db2 where r2: "?hook ?db1 = Inr (x, db2)" using totalE[OF total_when[OF total_cancelMonthlies]] by blast
  have kb: "keeps books (invoices_transitionStatusConditional kg i [InvPending, InvPartial, InvOverdue] InvPaid now)" "keeps books ?hook"
    by (rule keeps_books_updates) (rule keeps_books_parts)
  have "keeps db_payments ?hook" "keeps db_uuidDraws ?hook" by (intro frame; simp)+
  with r2 have p2: "db_payments db2 = db_payments db" "db_uuidDraws db2 = db_uuidDraws db" unfolding keeps_def by fastforce+
  have k2: "books db2 = books db"
    using kb f r2 unfolding keeps_def invoices_markPaidConditional_def by fastforce
  have fresh2: "fresh_receipt E (inv_id ?w) now db2" using fresh by (simp add: fresh_receipt_def p2 w)
  let ?cash = "cash_payment (env_uuid E (db_uuidDraws db2)) kg ?w residual input now"
  let ?db3 = "db2\<lparr>db_uuidDraws := Suc (db_uuidDraws db2), db_payments := db_payments db2 @ [?cash]\<rparr>"
  have r3: "record_cash E kg ?w residual input now db2 = Inr (?cash, ?db3)"
    using record_cash_run[OF D fresh2 amt(2,4)] .
  have "accounts_findById kg (inv_paymentAccountId v) ?db3 = Some acc"
    using acc k2 accounts_findById_cong[of ?db3 db] by (simp add: books_def)
  moreover have "distinct (map acc_id (db_accounts ?db3))" using uniq(2) k2 by (simp add: books_def)
  ultimately obtain a n l rows where
    r4: "creditFromPayment E kg (inv_paymentAccountId v) residual ?db3 =
      Inr (a, ?db3\<lparr>db_clockReads := n, db_locks := l, db_accounts := rows\<rparr>)"
    and bal: "map (\<lambda>r. (acc_kindergartenId r, acc_id r, acc_balance r)) rows =
      credited (inv_paymentAccountId v) residual (balances ?db3)"
    using credit_run[OF D _ _ amt] by blast
  have "\<exists>ev. settle_cash E kg i residual input now db =
      Inr (?w, ?db3\<lparr>db_clockReads := n, db_locks := l, db_accounts := rows, db_outbox := ev\<rparr>)"
    using amt(4) by (simp add: settle_cash_def op_simps f w r2 r3 r4 notify_cash_def money_simps) blast
  then obtain ev where run: "settle_cash E kg i residual input now db =
      Inr (?w, ?db3\<lparr>db_clockReads := n, db_locks := l, db_accounts := rows, db_outbox := ev\<rparr>)" by blast
  have "balances db2 = balances db" using k2 by (simp add: books_def balances_def)
  with run bal k2 w p2 show ?thesis
    by (intro exI[of _ ?w] exI[of _ "?db3\<lparr>db_clockReads := n, db_locks := l, db_accounts := rows, db_outbox := ev\<rparr>"])
       (simp add: books_def paid_view_def billed_view_def cash_payment_def balances_def)
qed

text \<open>So the ledger invariant survives a cash settlement.\<close>

lemma cash_ledger:
  assumes ok: "ledger_ok db" and v: "invoices_findById kg i db = Some v"
    and uniq: "distinct (map inv_id (db_invoices db))"
    and after: "paid_view db' = paid_view db @ [(kg, pid, i, d, PayCompleted)]"
      "balances db' = credited (inv_paymentAccountId v) d (balances db)"
      "billed_view db' = billed_view db" "db_refunds db' = db_refunds db"
  shows "ledger_ok db'"
proof -
  have "ledger_balance a db' = ledger_balance a db + (if a = inv_paymentAccountId v then d else 0)" for a
    using billed_to_unique[OF v uniq, of a] by (simp add: ledger_balance_def after money_in_def)
  with ledger_okI[OF ok after(2)] show ?thesis by blast
qed

end
