(* ===== verification/Child_Repo.thy ===== *)
theory Child_Repo
  imports Discount_Repo
begin

text \<open>
  The repositories of children, guardians and the status history
  (\<open>src/modules/child/infrastructure/persistence/relational/repositories/\<close>) and of holidays
  (\<open>src/modules/billing/infrastructure/persistence/relational/repositories/\<close>).
\<close>

subsection \<open>Children\<close>

definition children_findById :: "uuid \<Rightarrow> uuid \<Rightarrow> billing_db \<Rightarrow> ChildState option" where
  "children_findById kg i db = find (\<lambda>r. ch_id r = i \<and> ch_kindergartenId r = kg) (db_children db)"

definition children_findByKindergartenAndIin :: "uuid \<Rightarrow> string \<Rightarrow> billing_db \<Rightarrow> ChildState option" where
  "children_findByKindergartenAndIin kg iin db =
     find (\<lambda>r. ch_kindergartenId r = kg \<and> ch_iin r = Some iin) (db_children db)"

text \<open>The partial unique index on (tenant, IIN).\<close>

definition iin_taken :: "ChildState \<Rightarrow> ChildState list \<Rightarrow> bool" where
  "iin_taken s rows \<longleftrightarrow> ch_iin s \<noteq> None
     \<and> list_ex (\<lambda>r. ch_id r \<noteq> ch_id s \<and> ch_kindergartenId r = ch_kindergartenId s \<and> ch_iin r = ch_iin s) rows"

definition children_create :: "ChildState \<Rightarrow> unit op" where
  "children_create s db =
     (if list_ex (\<lambda>r. ch_id r = ch_id s) (db_children db) then Inl (DbUniqueViolation ''children'')
      else if iin_taken s (db_children db) then Inl (ChildIinAlreadyExists (the (ch_iin s)))
      else Inr ((), db\<lparr>db_children := db_children db @ [s]\<rparr>))"

text \<open>The UPDATE of a whole row by its key (\<open>created_at\<close> is not written; \<open>updated_at\<close> is the ORM's).\<close>

definition children_update :: "ChildState \<Rightarrow> unit op" where
  "children_update s db =
     (let P = (\<lambda>r. ch_id r = ch_id s \<and> ch_kindergartenId r = ch_kindergartenId s) in
      if list_ex P (db_children db) \<and> iin_taken s (db_children db) then Inl (ChildIinAlreadyExists (the (ch_iin s)))
      else Inr ((), db\<lparr>db_children := update_where P (\<lambda>r. s\<lparr>ch_createdAt := ch_createdAt r\<rparr>) (db_children db)\<rparr>))"

definition children_recordGroupTransfer ::
  "uuid \<Rightarrow> uuid \<Rightarrow> uuid option \<Rightarrow> uuid \<Rightarrow> uuid \<Rightarrow> string option \<Rightarrow> instant \<Rightarrow> unit op" where
  "children_recordGroupTransfer kg child fromGroup toGroup staff reason atT =
     modifyM (\<lambda>db. db\<lparr>db_groupHistory := db_groupHistory db @
       [\<lparr>gh_kindergartenId = kg, gh_childId = child, gh_fromGroupId = fromGroup, gh_toGroupId = toGroup,
         gh_transferredByStaffId = staff, gh_reason = reason, gh_transferredAt = atT\<rparr>]\<rparr>)"

definition children_listGroupHistory :: "uuid \<Rightarrow> uuid \<Rightarrow> billing_db \<Rightarrow> child_group_history list" where
  "children_listGroupHistory kg child db =
     sort_key gh_transferredAt (filter (\<lambda>h. gh_kindergartenId h = kg \<and> gh_childId h = child) (db_groupHistory db))"

text \<open>The conditional transitions, and the second read that tells a miss from a wrong status.\<close>

definition archive_patch :: "instant \<Rightarrow> string \<Rightarrow> ChildState \<Rightarrow> ChildState" where
  "archive_patch atT reason r = r\<lparr>ch_status := ChildArchived, ch_archivedAt := Some atT,
     ch_archiveReason := Some reason, ch_updatedAt := atT\<rparr>"

definition reactivate_patch :: "instant \<Rightarrow> ChildState \<Rightarrow> ChildState" where
  "reactivate_patch atT r = r\<lparr>ch_status := ChildActive, ch_archivedAt := None, ch_archiveReason := None,
     ch_updatedAt := atT\<rparr>"

definition activate_patch :: "instant \<Rightarrow> ChildState \<Rightarrow> ChildState" where
  "activate_patch atT r = r\<lparr>ch_status := ChildActive, ch_enrollmentDate := Some (toDateColumn atT), ch_updatedAt := atT\<rparr>"

datatype child_result = ChildDone ChildState | ChildMissing | ChildWrongStatus

definition children_transition ::
  "uuid \<Rightarrow> uuid \<Rightarrow> ChildStatus \<Rightarrow> (ChildState \<Rightarrow> ChildState) \<Rightarrow> child_result op" where
  "children_transition kg i expected patch db =
     (let (res, rows) = cas ch_kindergartenId ch_id ch_status kg i [expected] patch (db_children db) in
      case res of
        Some r \<Rightarrow> Inr (ChildDone r, db\<lparr>db_children := rows\<rparr>)
      | None \<Rightarrow> Inr (if children_findById kg i db = None then ChildMissing else ChildWrongStatus, db))"

definition children_archive :: "uuid \<Rightarrow> uuid \<Rightarrow> instant \<Rightarrow> string \<Rightarrow> child_result op" where
  "children_archive kg i atT reason = children_transition kg i ChildActive (archive_patch atT reason)"

definition children_reactivate :: "uuid \<Rightarrow> uuid \<Rightarrow> instant \<Rightarrow> child_result op" where
  "children_reactivate kg i atT = children_transition kg i ChildArchived (reactivate_patch atT)"

definition children_activate :: "uuid \<Rightarrow> uuid \<Rightarrow> instant \<Rightarrow> child_result op" where
  "children_activate kg i atT = children_transition kg i CardCreated (activate_patch atT)"

text \<open>The locking re-read sees what a concurrent transaction has committed meanwhile.\<close>

definition children_existsActiveByIdForUpdate :: "billing_env \<Rightarrow> uuid \<Rightarrow> uuid \<Rightarrow> billing_db \<Rightarrow> bool" where
  "children_existsActiveByIdForUpdate E kg i db \<longleftrightarrow>
     list_ex (\<lambda>r. ch_id r = i \<and> ch_kindergartenId r = kg \<and> ch_status r \<noteq> ChildArchived) (db_children db)
     \<and> \<not> env_archivedMeanwhile E kg i"

definition active_ids :: "(ChildState \<Rightarrow> bool) \<Rightarrow> uuid \<Rightarrow> billing_db \<Rightarrow> uuid list" where
  "active_ids P kg db = map ch_id (filter (\<lambda>r. ch_kindergartenId r = kg \<and> ch_status r \<noteq> ChildArchived \<and> P r) (db_children db))"

definition children_listAllActiveIdsByKg :: "uuid \<Rightarrow> billing_db \<Rightarrow> uuid list" where
  "children_listAllActiveIdsByKg kg db = sort (active_ids (\<lambda>_. True) kg db)"

definition children_listActiveIdsByGroupIds :: "uuid \<Rightarrow> uuid list \<Rightarrow> billing_db \<Rightarrow> uuid list" where
  "children_listActiveIdsByGroupIds kg groupIds db =
     (if groupIds = [] then []
      else active_ids (\<lambda>r. case ch_currentGroupId r of None \<Rightarrow> False | Some g \<Rightarrow> List.member groupIds g) kg db)"

definition children_findActiveIdsInKg :: "uuid \<Rightarrow> uuid list \<Rightarrow> billing_db \<Rightarrow> uuid list" where
  "children_findActiveIdsInKg kg ids db =
     (if ids = [] then [] else active_ids (\<lambda>r. List.member ids (ch_id r)) kg db)"

text \<open>
  PostgreSQL's \<open>AGE\<close> between a timestamp, shown in the zone of the session, and a date: whole years and
  months, with the sign of the difference.
\<close>

definition age_months :: "int \<times> int \<times> int \<Rightarrow> int \<Rightarrow> int \<times> int \<times> int \<Rightarrow> int \<Rightarrow> int" where
  "age_months a ta b tb =
     (case (a, b) of ((y, m, d), (y', m', d')) \<Rightarrow>
        12 * (y - y') + (m - m') - (if (d, ta) < (d', tb) then 1 else 0))"

definition pg_age_months :: "zone \<Rightarrow> instant \<Rightarrow> instant \<Rightarrow> int" where
  "pg_age_months tz now dob =
     (let local = now + tz now; a = utc_date_of local; ta = local mod ms_per_day; b = utc_date_of dob in
      if dob \<le> local then age_months a ta b 0 else - age_months b 0 a ta)"

definition children_listActiveIdsInKgInAgeRange ::
  "billing_env \<Rightarrow> uuid \<Rightarrow> int \<Rightarrow> int \<Rightarrow> instant \<Rightarrow> billing_db \<Rightarrow> uuid list" where
  "children_listActiveIdsInKgInAgeRange E kg fromMonths toMonths now db =
     active_ids (\<lambda>r. let age = pg_age_months (env_sessionZone E) now (ch_dateOfBirth r)
       in fromMonths \<le> age \<and> age \<le> toMonths) kg db"

definition assignments_listActiveChildIdsByTariffPlanIds ::
  "uuid \<Rightarrow> uuid list \<Rightarrow> instant \<Rightarrow> billing_db \<Rightarrow> uuid list" where
  "assignments_listActiveChildIdsByTariffPlanIds kg planIds now db =
     (if planIds = [] then []
      else remdups (map ta_childId (filter (\<lambda>r. ta_kindergartenId r = kg \<and> List.member planIds (ta_tariffPlanId r)
        \<and> in_window (toDateColumn now) (ta_validFrom r) (ta_validUntil r)) (db_assignments db))))"

subsection \<open>Status history\<close>

definition statusHistory_recordStatusChange :: "ChildStatusHistoryState \<Rightarrow> unit op" where
  "statusHistory_recordStatusChange r db =
     (if list_ex (\<lambda>h. hi_id h = hi_id r) (db_statusHistory db) then Inl (DbUniqueViolation ''child_status_history'')
      else Inr ((), db\<lparr>db_statusHistory := db_statusHistory db @ [r]\<rparr>))"

definition statusHistory_listForChild :: "uuid \<Rightarrow> uuid \<Rightarrow> nat \<Rightarrow> nat \<Rightarrow> billing_db \<Rightarrow> ChildStatusHistoryState list \<times> nat" where
  "statusHistory_listForChild kg child limit offset db =
     (let rows = rev (sort_key (\<lambda>h. (hi_changedAt h, hi_id h))
            (filter (\<lambda>h. hi_kindergartenId h = kg \<and> hi_childId h = child) (db_statusHistory db)))
      in (take limit (drop offset rows), length rows))"

subsection \<open>Guardians\<close>

definition guardians_findById :: "uuid \<Rightarrow> uuid \<Rightarrow> billing_db \<Rightarrow> ChildGuardianState option" where
  "guardians_findById kg i db = find (\<lambda>r. gd_id r = i \<and> gd_kindergartenId r = kg) (db_guardians db)"

definition guardians_findByChildId :: "uuid \<Rightarrow> uuid \<Rightarrow> billing_db \<Rightarrow> ChildGuardianState list" where
  "guardians_findByChildId kg child db =
     sort_key gd_createdAt (filter (\<lambda>r. gd_kindergartenId r = kg \<and> gd_childId r = child) (db_guardians db))"

definition guardians_findActiveByChildAndUser :: "uuid \<Rightarrow> uuid \<Rightarrow> uuid \<Rightarrow> billing_db \<Rightarrow> ChildGuardianState option" where
  "guardians_findActiveByChildAndUser kg child user db =
     find (\<lambda>r. gd_kindergartenId r = kg \<and> gd_childId r = child \<and> gd_userId r = user
       \<and> gd_status r \<noteq> GuardianRevoked) (db_guardians db)"

text \<open>The partial unique index: one guardian per child and user that is not revoked.\<close>

definition guardian_clash :: "ChildGuardianState \<Rightarrow> ChildGuardianState list \<Rightarrow> bool" where
  "guardian_clash s rows \<longleftrightarrow> gd_status s \<noteq> GuardianRevoked
     \<and> list_ex (\<lambda>r. gd_id r \<noteq> gd_id s \<and> gd_childId r = gd_childId s \<and> gd_userId r = gd_userId s
         \<and> gd_status r \<noteq> GuardianRevoked) rows"

definition guardians_create :: "ChildGuardianState \<Rightarrow> unit op" where
  "guardians_create s db =
     (if list_ex (\<lambda>r. gd_id r = gd_id s) (db_guardians db) \<or> guardian_clash s (db_guardians db)
      then Inl (DbUniqueViolation ''child_guardians'')
      else Inr ((), db\<lparr>db_guardians := db_guardians db @ [s]\<rparr>))"

text \<open>
  Both UPDATEs write every mutable column of the aggregate; the first one whatever the row has become
  since it was read, the second one only while the status is still the expected one.
\<close>

definition guardian_columns :: "ChildGuardianState \<Rightarrow> ChildGuardianState \<Rightarrow> ChildGuardianState" where
  "guardian_columns s r = s\<lparr>gd_id := gd_id r, gd_kindergartenId := gd_kindergartenId r,
     gd_childId := gd_childId r, gd_userId := gd_userId r, gd_createdAt := gd_createdAt r\<rparr>"

definition guardians_update :: "ChildGuardianState \<Rightarrow> unit op" where
  "guardians_update s db =
     (let P = (\<lambda>r. gd_id r = gd_id s \<and> gd_kindergartenId r = gd_kindergartenId s) in
      if list_ex P (db_guardians db) \<and> guardian_clash s (db_guardians db)
      then Inl (DbUniqueViolation ''child_guardians'')
      else Inr ((), db\<lparr>db_guardians := update_where P (guardian_columns s) (db_guardians db)\<rparr>))"

definition guardians_updateWithExpectedStatus :: "ChildGuardianState \<Rightarrow> GuardianStatus \<Rightarrow> bool op" where
  "guardians_updateWithExpectedStatus s expected db =
     (let P = (\<lambda>r. gd_id r = gd_id s \<and> gd_kindergartenId r = gd_kindergartenId s \<and> gd_status r = expected);
          hit = list_ex P (db_guardians db) in
      if hit \<and> guardian_clash s (db_guardians db) then Inl (DbUniqueViolation ''child_guardians'')
      else Inr (hit, db\<lparr>db_guardians := update_where P (guardian_columns s) (db_guardians db)\<rparr>))"

definition approver_of :: "uuid \<Rightarrow> uuid \<Rightarrow> ChildGuardianState \<Rightarrow> bool" where
  "approver_of kg child r \<longleftrightarrow> gd_kindergartenId r = kg \<and> gd_childId r = child
     \<and> gd_status r = GuardianApproved \<and> gd_hasApprovalRights r"

definition guardians_countApprovalRights :: "uuid \<Rightarrow> uuid \<Rightarrow> billing_db \<Rightarrow> nat" where
  "guardians_countApprovalRights kg child db = length (filter (approver_of kg child) (db_guardians db))"

definition guardians_acquireApprovalRightsLock :: "uuid \<Rightarrow> uuid \<Rightarrow> unit op" where
  "guardians_acquireApprovalRightsLock kg child = lockM (''approval-rights:'' @ kg @ '':'' @ child)"

definition guardians_findPendingForPrimary :: "uuid \<Rightarrow> uuid \<Rightarrow> billing_db \<Rightarrow> ChildGuardianState list" where
  "guardians_findPendingForPrimary kg primary db =
     sort_key gd_createdAt (filter (\<lambda>r. gd_kindergartenId r = kg \<and> gd_status r = PendingApproval
       \<and> list_ex (\<lambda>p. gd_kindergartenId p = kg \<and> gd_userId p = primary \<and> gd_role p = PrimaryGuardian
            \<and> gd_status p = GuardianApproved \<and> gd_childId p = gd_childId r) (db_guardians db)) (db_guardians db))"

definition guardians_findPendingForPrimaryCrossTenant :: "uuid \<Rightarrow> billing_db \<Rightarrow> ChildGuardianState list" where
  "guardians_findPendingForPrimaryCrossTenant primary db =
     sort_key gd_createdAt (filter (\<lambda>r. gd_status r = PendingApproval
       \<and> list_ex (\<lambda>p. gd_userId p = primary \<and> gd_role p = PrimaryGuardian
            \<and> gd_status p = GuardianApproved \<and> gd_childId p = gd_childId r) (db_guardians db)) (db_guardians db))"

definition guardians_findApprovedByUser :: "uuid \<Rightarrow> uuid \<Rightarrow> billing_db \<Rightarrow> ChildGuardianState list" where
  "guardians_findApprovedByUser kg user db =
     sort_key gd_createdAt (filter (\<lambda>r. gd_kindergartenId r = kg \<and> gd_userId r = user
       \<and> gd_status r = GuardianApproved) (db_guardians db))"

definition active_guardian :: "ChildGuardianState \<Rightarrow> bool" where
  "active_guardian r \<longleftrightarrow> gd_status r = GuardianApproved \<and> gd_revokedAt r = None"

definition guardians_countSiblingsInKgForChild :: "uuid \<Rightarrow> uuid \<Rightarrow> billing_db \<Rightarrow> int" where
  "guardians_countSiblingsInKgForChild kg child db =
     int (length (remdups (map gd_childId (filter (\<lambda>g2. gd_kindergartenId g2 = kg \<and> gd_childId g2 \<noteq> child
        \<and> active_guardian g2
        \<and> list_ex (\<lambda>g1. gd_kindergartenId g1 = kg \<and> gd_childId g1 = child \<and> gd_userId g1 = gd_userId g2
             \<and> active_guardian g1) (db_guardians db)
        \<and> list_ex (\<lambda>c. ch_id c = gd_childId g2 \<and> ch_kindergartenId c = kg \<and> ch_status c \<noteq> ChildArchived) (db_children db))
       (db_guardians db)))))"

definition guardians_findApprovedUserIdsBySomeChildIds :: "uuid \<Rightarrow> uuid list \<Rightarrow> billing_db \<Rightarrow> uuid list" where
  "guardians_findApprovedUserIdsBySomeChildIds kg childIds db =
     remdups (map gd_userId (filter (\<lambda>r. gd_kindergartenId r = kg \<and> List.member childIds (gd_childId r)
        \<and> active_guardian r \<and> gd_role r \<noteq> NannyGuardian) (db_guardians db)))"

subsection \<open>Holidays\<close>

definition holiday_same_day :: "uuid \<Rightarrow> instant \<Rightarrow> KindergartenHolidayState \<Rightarrow> bool" where
  "holiday_same_day kg day r \<longleftrightarrow> ho_kindergartenId r = kg \<and> ho_date r = day"

text \<open>UNIQUE (kindergarten, date) makes the INSERT fail; id and timestamps are column defaults.\<close>

definition holidays_create ::
  "billing_env \<Rightarrow> uuid \<Rightarrow> instant \<Rightarrow> (string \<times> string) list \<Rightarrow> bool \<Rightarrow> KindergartenHolidayState op" where
  "holidays_create E kg date name isBillable =
     bindM (randomUUID E) (\<lambda>i.
     bindM (nowM E) (\<lambda>now. \<lambda>db.
       (let row = \<lparr>ho_id = i, ho_kindergartenId = kg, ho_date = toDateColumn date, ho_name = name,
              ho_isBillable = isBillable, ho_createdAt = now, ho_updatedAt = now\<rparr> in
        if list_ex (\<lambda>r. ho_id r = i) (db_holidays db) then Inl (DbUniqueViolation ''kindergarten_holidays'')
        else if list_ex (holiday_same_day kg (toDateColumn date)) (db_holidays db)
        then Inl (HolidayAlreadyExists kg (iso_date_string (utc_date_of date)))
        else if holiday_fromState row = None then Inl (ProgrammingError ''KindergartenHoliday: name must contain at least one locale key'')
        else Inr (row, db\<lparr>db_holidays := db_holidays db @ [row]\<rparr>))))"

record holiday_patch =
  hp_date :: "instant option"
  hp_name :: "(string \<times> string) list option"
  hp_isBillable :: "bool option"

definition holidays_update ::
  "uuid \<Rightarrow> uuid \<Rightarrow> holiday_patch \<Rightarrow> instant \<Rightarrow> KindergartenHolidayState option op" where
  "holidays_update kg i patch now db =
     (let key = (\<lambda>r. ho_id r = i \<and> ho_kindergartenId r = kg);
          set = (\<lambda>r. r\<lparr>ho_date := patched (map_option toDateColumn (hp_date patch)) (ho_date r),
             ho_name := patched (hp_name patch) (ho_name r),
             ho_isBillable := patched (hp_isBillable patch) (ho_isBillable r), ho_updatedAt := now\<rparr>) in
      case (find key (db_holidays db), hp_date patch) of
        (None, _) \<Rightarrow> Inr (None, db)
      | (Some r, Some d) \<Rightarrow>
          if list_ex (\<lambda>x. ho_id x \<noteq> i \<and> holiday_same_day kg (toDateColumn d) x) (db_holidays db)
          then Inl (HolidayAlreadyExists kg (iso_date_string (utc_date_of d)))
          else if holiday_fromState (set r) = None then Inl (ProgrammingError ''KindergartenHoliday: name must contain at least one locale key'')
          else Inr (Some (set r), db\<lparr>db_holidays := update_where key set (db_holidays db)\<rparr>)
      | (Some r, None) \<Rightarrow>
          if holiday_fromState (set r) = None then Inl (ProgrammingError ''KindergartenHoliday: name must contain at least one locale key'')
          else Inr (Some (set r), db\<lparr>db_holidays := update_where key set (db_holidays db)\<rparr>))"

definition holidays_delete :: "uuid \<Rightarrow> uuid \<Rightarrow> unit op" where
  "holidays_delete kg i = modifyM (\<lambda>db. db\<lparr>db_holidays :=
     filter (\<lambda>r. \<not> (ho_id r = i \<and> ho_kindergartenId r = kg)) (db_holidays db)\<rparr>)"

definition holidays_findById :: "uuid \<Rightarrow> uuid \<Rightarrow> billing_db \<Rightarrow> KindergartenHolidayState option" where
  "holidays_findById kg i db = find (\<lambda>r. ho_id r = i \<and> ho_kindergartenId r = kg) (db_holidays db)"

definition holidays_list ::
  "uuid \<Rightarrow> instant option \<Rightarrow> instant option \<Rightarrow> bool option \<Rightarrow> billing_db \<Rightarrow> KindergartenHolidayState list" where
  "holidays_list kg fromDate toDate isBillable db =
     sort_key ho_date (filter (\<lambda>r. ho_kindergartenId r = kg
        \<and> (case fromDate of None \<Rightarrow> True | Some d \<Rightarrow> ho_date r \<ge> d)
        \<and> (case toDate of None \<Rightarrow> True | Some d \<Rightarrow> ho_date r \<le> d)
        \<and> (case isBillable of None \<Rightarrow> True | Some b \<Rightarrow> ho_isBillable r = b)) (db_holidays db))"

definition holidays_countNonBillableInRange :: "uuid \<Rightarrow> instant \<Rightarrow> instant \<Rightarrow> billing_db \<Rightarrow> int" where
  "holidays_countNonBillableInRange kg periodStart periodEnd db =
     int (length (filter (\<lambda>r. ho_kindergartenId r = kg \<and> \<not> ho_isBillable r
        \<and> ho_date r \<ge> toDateColumn periodStart \<and> ho_date r \<le> toDateColumn periodEnd) (db_holidays db)))"

text \<open>
  The table invariant: a tenant has at most one holiday a day, and a date column holds whole days. So
  a period never has more non-billable days than days.
\<close>

definition holidays_ok :: "billing_db \<Rightarrow> bool" where
  "holidays_ok db \<longleftrightarrow> distinct (map (\<lambda>r. (ho_kindergartenId r, ho_date r)) (db_holidays db))
     \<and> list_all (\<lambda>r. ho_date r mod ms_per_day = 0) (db_holidays db)"

lemma days_in_range:
  fixes xs :: "int list"
  assumes "distinct xs" "\<And>x. x \<in> set xs \<Longrightarrow> x mod ms_per_day = 0 \<and> a * ms_per_day \<le> x \<and> x \<le> b * ms_per_day" "a \<le> b + 1"
  shows "int (length xs) \<le> b - a + 1"
proof -
  have "set xs \<subseteq> (\<lambda>d. d * ms_per_day) ` {a..b}"
  proof
    fix x assume "x \<in> set xs"
    then have x: "x mod ms_per_day = 0" "a * ms_per_day \<le> x" "x \<le> b * ms_per_day" using assms(2) by auto
    then have e: "x = (x div ms_per_day) * ms_per_day" using div_mult_mod_eq[of x ms_per_day] by simp
    have "a * ms_per_day \<le> (x div ms_per_day) * ms_per_day" "(x div ms_per_day) * ms_per_day \<le> b * ms_per_day"
      using x e by simp_all
    then have "x div ms_per_day \<in> {a..b}" by (simp add: ms_per_day_def)
    with e show "x \<in> (\<lambda>d. d * ms_per_day) ` {a..b}" by blast
  qed
  then have "card (set xs) \<le> card ((\<lambda>d. d * ms_per_day) ` {a..b})" by (rule card_mono[rotated]) simp
  also have "\<dots> \<le> card {a..b}" by (rule card_image_le) simp
  also have "\<dots> = nat (b - a + 1)" by simp
  finally show ?thesis using assms(1,3) by (simp add: distinct_card)
qed

theorem holidays_within_days:
  assumes ok: "holidays_ok db" and le: "periodStart div ms_per_day \<le> periodEnd div ms_per_day"
  shows "holidays_countNonBillableInRange kg periodStart periodEnd db
    \<le> periodEnd div ms_per_day - periodStart div ms_per_day + 1"
proof -
  let ?hs = "filter (\<lambda>r. ho_kindergartenId r = kg \<and> \<not> ho_isBillable r
        \<and> ho_date r \<ge> toDateColumn periodStart \<and> ho_date r \<le> toDateColumn periodEnd) (db_holidays db)"
  have "distinct (map (\<lambda>r. (ho_kindergartenId r, ho_date r)) ?hs)"
    using ok unfolding holidays_ok_def by (simp add: distinct_map_filter)
  then have "distinct (map ho_date ?hs)" by (auto simp: distinct_map inj_on_def)
  then have "int (length (map ho_date ?hs)) \<le> periodEnd div ms_per_day - periodStart div ms_per_day + 1"
    by (rule days_in_range) (use ok le in \<open>auto simp: holidays_ok_def list_all_iff toDateColumn_def\<close>)
  then show ?thesis by (simp add: holidays_countNonBillableInRange_def)
qed

subsection \<open>The compare-and-set contract of the children\<close>

inductive child_transition :: "ChildStatus list \<Rightarrow> (ChildState \<Rightarrow> ChildState) \<Rightarrow> ChildStatus \<Rightarrow> bool" where
  archive: "child_transition [ChildActive] (archive_patch atT reason) ChildArchived"
| reactivate: "child_transition [ChildArchived] (reactivate_patch atT) ChildActive"
| activate: "child_transition [CardCreated] (activate_patch atT) ChildActive"

inductive_cases child_transitionE: "child_transition expected patch nxt"

interpretation children: status_table ch_kindergartenId ch_id ch_status child_transition
  by unfold_locales (auto elim!: child_transitionE simp: archive_patch_def reactivate_patch_def activate_patch_def)

end
