(* ===== verification/Discount_Targets.thy ===== *)
theory Discount_Targets
  imports Child_Repo
begin

text \<open>
  Which children a discount is meant for (\<open>src/modules/billing/discount-target-resolver.ts\<close>).
\<close>

fun walkForAgeRange :: "DiscountCondition \<Rightarrow> int \<Rightarrow> (int \<times> int) option"
  and walk_first :: "DiscountCondition list \<Rightarrow> int \<Rightarrow> (int \<times> int) option" where
  "walkForAgeRange c depth =
     (if depth > 3 then None
      else (case c of
          CEmpty \<Rightarrow> None
        | CAllOf cs \<Rightarrow> walk_first cs (depth + 1)
        | CAnyOf cs \<Rightarrow> walk_first cs (depth + 1)
        | CLeaf (AgeRange f t) \<Rightarrow> Some (f, t)
        | CLeaf _ \<Rightarrow> None))"
| "walk_first [] depth = None"
| "walk_first (c # cs) depth =
     (case walkForAgeRange c depth of Some r \<Rightarrow> Some r | None \<Rightarrow> walk_first cs depth)"

definition resolveByTargetType ::
  "billing_env \<Rightarrow> uuid \<Rightarrow> CustomDiscountTargetType \<Rightarrow> string list option \<Rightarrow> DiscountCondition \<Rightarrow> uuid list op" where
  "resolveByTargetType E kg targetType targetIds conditions =
     (let ids = (case targetIds of None \<Rightarrow> [] | Some xs \<Rightarrow> xs) in
      case targetType of
        TargetAll \<Rightarrow> readM (children_listAllActiveIdsByKg kg)
      | TargetGroups \<Rightarrow> readM (children_listActiveIdsByGroupIds kg ids)
      | TargetChildren \<Rightarrow> readM (children_findActiveIdsInKg kg ids)
      | TargetTariffTypes \<Rightarrow>
          if ids = [] then returnM []
          else bindM (nowM E) (\<lambda>now. readM (assignments_listActiveChildIdsByTariffPlanIds kg ids now))
      | TargetAgeRange \<Rightarrow>
          (case walkForAgeRange conditions 0 of
             None \<Rightarrow> returnM []
           | Some (fromMonths, toMonths) \<Rightarrow>
               bindM (nowM E) (\<lambda>now. readM (children_listActiveIdsInKgInAgeRange E kg fromMonths toMonths now)))
      | TargetUnknown t \<Rightarrow> returnM [])"

definition resolveTargetChildIds :: "billing_env \<Rightarrow> uuid \<Rightarrow> CustomDiscountState \<Rightarrow> uuid list op" where
  "resolveTargetChildIds E kg d =
     bindM (resolveByTargetType E kg (cd_targetType d) (cd_targetIds d) (cd_conditions d)) (\<lambda>ids.
     returnM (remdups ids))"

primrec filterDiscountsForChild ::
  "billing_env \<Rightarrow> uuid \<Rightarrow> uuid \<Rightarrow> CustomDiscountSnapshot list \<Rightarrow> CustomDiscountSnapshot list op" where
  "filterDiscountsForChild E kg childId [] = returnM []"
| "filterDiscountsForChild E kg childId (snap # snaps) =
     bindM (resolveByTargetType E kg (snap_targetType snap) (snap_targetIds snap) (snap_conditions snap)) (\<lambda>ids.
     bindM (filterDiscountsForChild E kg childId snaps) (\<lambda>out.
     returnM (if List.member ids childId then snap # out else out)))"

text \<open>
  A resolved child is a child of the tenant, and not an archived one, unless the discount targets
  tariff plans: those are taken from the assignments, whoever they belong to.
\<close>

lemma active_ids_sound:
  "i \<in> set (active_ids P kg db) \<longleftrightarrow> (\<exists>r\<in>set (db_children db). ch_id r = i \<and> ch_kindergartenId r = kg
      \<and> ch_status r \<noteq> ChildArchived \<and> P r)"
  by (auto simp: active_ids_def)

lemmas target_lists = children_listAllActiveIdsByKg_def children_listActiveIdsByGroupIds_def
  children_findActiveIdsInKg_def children_listActiveIdsInKgInAgeRange_def

theorem targets_active:
  assumes "resolveByTargetType E kg t ids c db = Inr (xs, db')" "t \<noteq> TargetTariffTypes" "i \<in> set xs"
  shows "\<exists>r\<in>set (db_children db). ch_id r = i \<and> ch_kindergartenId r = kg \<and> ch_status r \<noteq> ChildArchived"
  using assms
  by (cases t; auto simp: resolveByTargetType_def op_simps target_lists active_ids_sound
      simp del: walkForAgeRange.simps split: option.splits if_splits; blast)

end
