(* ===== verification/Billing_Run.thy ===== *)
theory Billing_Run
  imports Bookkeeping Whole_Tenge Invoice_Service Discount_Targets
begin

text \<open>
  Generated invoices (\<open>src/modules/billing/invoice.service.ts\<close>): the inputs of the discount engine
  with the reservation of capped discounts, the shared builder, the monthly run over all active
  tariff assignments and the first invoice of an enrolment. The optional dependencies of the
  service are wired, as they are in the application.
\<close>

subsection \<open>Inputs of the discount engine\<close>

definition toSnapshot :: "CustomDiscountState \<Rightarrow> CustomDiscountSnapshot" where
  "toSnapshot d = \<lparr>snap_id = cd_id d, snap_name = cd_name d, snap_discountType = cd_discountType d,
     snap_amount = cd_amount d, snap_conditions = cd_conditions d, snap_targetType = cd_targetType d,
     snap_targetIds = cd_targetIds d, snap_priority = cd_priority d, snap_stackable = cd_stackable d,
     snap_maxUsesPerChild = cd_maxUsesPerChild d, snap_totalMaxUses = cd_totalMaxUses d,
     snap_usedCount = cd_usedCount d, snap_createdAt = cd_createdAt d\<rparr>"

text \<open>
  The two capacity guards on one discount: whether it stays eligible, and whether a slot of its
  total cap was reserved. A preview (\<open>reserve\<close> false) takes no lock and reserves nothing.
\<close>

definition per_child_guard :: "uuid \<Rightarrow> uuid \<Rightarrow> bool \<Rightarrow> CustomDiscountSnapshot \<Rightarrow> bool op" where
  "per_child_guard kg child reserve snap =
     (case snap_maxUsesPerChild snap of
        None \<Rightarrow> returnM True
      | Some m \<Rightarrow>
          bindM (whenM reserve (discounts_acquireDiscountApplyAdvisoryLock kg (snap_id snap) child)) (\<lambda>_.
          bindM (readM (applications_countByChildAndDiscount kg child (snap_id snap))) (\<lambda>used.
          returnM (used < m))))"

definition total_guard :: "billing_env \<Rightarrow> uuid \<Rightarrow> bool \<Rightarrow> CustomDiscountSnapshot \<Rightarrow> (bool \<times> bool) op" where
  "total_guard E kg reserve snap =
     (case snap_totalMaxUses snap of
        None \<Rightarrow> returnM (True, False)
      | Some m \<Rightarrow>
          if \<not> reserve then returnM (snap_usedCount snap < m, False)
          else bindM (discounts_tryReserveUsage E kg (snap_id snap)) (\<lambda>reserved. returnM (reserved, reserved)))"

primrec admit :: "billing_env \<Rightarrow> uuid \<Rightarrow> uuid \<Rightarrow> bool \<Rightarrow> CustomDiscountSnapshot list
    \<Rightarrow> (CustomDiscountSnapshot list \<times> uuid list) op" where
  "admit E kg child reserve [] = returnM ([], [])"
| "admit E kg child reserve (snap # snaps) =
     bindM (per_child_guard kg child reserve snap) (\<lambda>below.
     bindM (if below then total_guard E kg reserve snap else returnM (False, False)) (\<lambda>(eligible, reserved).
     bindM (admit E kg child reserve snaps) (\<lambda>(es, rs).
     returnM (if eligible then snap # es else es, if reserved then snap_id snap # rs else rs))))"

record custom_inputs =
  ci_customDiscounts :: "CustomDiscountSnapshot list"
  ci_childContext :: "ChildContext option"
  ci_familyContext :: FamilyContext
  ci_reservedDiscountIds :: "uuid list"

definition first_invoice :: "uuid \<Rightarrow> uuid \<Rightarrow> billing_db \<Rightarrow> bool" where
  "first_invoice kg child db \<longleftrightarrow> list_all (\<lambda>p. inv_status p = InvCancelled) (invoices_findByChildId kg child None db)"

definition buildCustomDiscountInputs ::
  "billing_env \<Rightarrow> uuid \<Rightarrow> uuid \<Rightarrow> instant \<Rightarrow> bool \<Rightarrow> custom_inputs op" where
  "buildCustomDiscountInputs E kg childId now reserve =
     bindM (readM (discounts_findActiveCustomDiscounts kg now)) (\<lambda>active.
     bindM (filterDiscountsForChild E kg childId (map toSnapshot active)) (\<lambda>targeted.
     bindM (admit E kg childId reserve targeted) (\<lambda>(eligible, reservedIds).
     bindM (readM (children_findById kg childId)) (\<lambda>child.
     bindM (readM (first_invoice kg childId)) (\<lambda>noPriors.
     bindM (readM (guardians_countSiblingsInKgForChild kg childId)) (\<lambda>siblings.
     returnM \<lparr>ci_customDiscounts = eligible,
       ci_childContext = map_option (\<lambda>c. \<lparr>cc_birthDate = ch_dateOfBirth c,
         cc_ageInMonths = monthsBetween (ch_dateOfBirth c) now, cc_currentGroupId = ch_currentGroupId c,
         cc_benefitCategory = None\<rparr>) child,
       ci_familyContext = \<lparr>fc_siblingsInKgCount = (if child = None then 0 else siblings),
         fc_isFirstInvoiceForChild = (if child = None then True else noPriors)\<rparr>,
       ci_reservedDiscountIds = reservedIds\<rparr>))))))"

definition releaseUnusedReservations :: "billing_env \<Rightarrow> uuid \<Rightarrow> uuid list \<Rightarrow> DiscountEvaluationResult \<Rightarrow> unit op" where
  "releaseUnusedReservations E kg reservedIds discount =
     (let winners = map ca_customDiscountId (der_customApplicationsToWrite discount) in
      forM reservedIds (\<lambda>i. whenM (\<not> List.member winners i) (discounts_releaseUsage E kg i)))"

definition persistCustomDiscountApplications ::
  "billing_env \<Rightarrow> uuid \<Rightarrow> InvoiceState \<Rightarrow> uuid \<Rightarrow> DiscountEvaluationResult \<Rightarrow> unit op" where
  "persistCustomDiscountApplications E kg invoice lineItemId discount =
     forM (der_customApplicationsToWrite discount) (\<lambda>app.
       bindM (applications_create E kg (ca_customDiscountId app) (inv_id invoice) (Some lineItemId)
         (inv_childId invoice) (ca_amountApplied app)) (\<lambda>_. returnM ()))"

subsection \<open>The shared builder\<close>

record generate_args =
  ga_assignment :: TariffAssignmentState
  ga_tariffPlan :: TariffPlanState
  ga_invoiceType :: InvoiceType
  ga_periodStart :: instant
  ga_periodEnd :: instant
  ga_dueDate :: instant
  ga_totalDays :: int
  ga_nonBillableHolidays :: int
  ga_prepaymentMonths :: "int option"
  ga_proratedBillableDays :: "int option"

definition engine_input :: "uuid \<Rightarrow> generate_args \<Rightarrow> kzt \<Rightarrow> custom_inputs \<Rightarrow> DiscountEvaluationInput" where
  "engine_input kg a baseAmount customCtx =
     \<lparr>dei_invoiceId = ''pending'', dei_invoiceType = ga_invoiceType a, dei_childId = ta_childId (ga_assignment a),
      dei_kindergartenId = kg, dei_amountDue = baseAmount, dei_periodStart = ga_periodStart a,
      dei_periodEnd = ga_periodEnd a, dei_dueDate = Some (ga_dueDate a), dei_tariffPlanId = tp_id (ga_tariffPlan a),
      dei_discountRules = tp_discountRules (ga_tariffPlan a), dei_siblingsCount = None,
      dei_prepaymentMonths = ga_prepaymentMonths a, dei_customDiscounts = Some (ci_customDiscounts customCtx),
      dei_childContext = ci_childContext customCtx, dei_familyContext = Some (ci_familyContext customCtx),
      dei_paymentMethodCode = None, dei_paidEarlyDays = None\<rparr>"

definition discounted :: "decimal_lib \<Rightarrow> kzt \<Rightarrow> DiscountEvaluationResult \<Rightarrow> money_error + kzt" where
  "discounted D baseAmount discount =
     computeAmountAfterDiscount D baseAmount (der_discountPct discount)
       (map_option (fromKzt_number D) (der_customDiscountAmount discount))"

text \<open>Pro-rata by billable days, then the whole-tenge sink.\<close>

definition effective_days :: "int \<Rightarrow> int option \<Rightarrow> int \<Rightarrow> int" where
  "effective_days totalDays prorated holidays =
     max 0 ((case prorated of None \<Rightarrow> totalDays | Some n \<Rightarrow> n) - holidays)"

definition prorate :: "decimal_lib \<Rightarrow> kzt \<Rightarrow> int \<Rightarrow> int \<Rightarrow> money_error + kzt \<times> int option" where
  "prorate D amount effective totalDays =
     (if effective \<noteq> totalDays \<and> totalDays > 0
      then (case kzt_div D (kzt_mul D amount (of_int effective)) (of_int totalDays) of
              Inl e \<Rightarrow> Inl e | Inr q \<Rightarrow> Inr (roundToWholeKzt D q, Some effective))
      else Inr (roundToWholeKzt D amount, None))"

text \<open>
  \<open>None\<close> is the error \<open>ChildArchivedDuringRunError\<close>: the monthly run catches it outside any
  savepoint, so what the builder has done before stays done.
\<close>

definition generateAndPersistInvoice :: "billing_env \<Rightarrow> uuid \<Rightarrow> generate_args \<Rightarrow> InvoiceState option op" where
  "generateAndPersistInvoice E kg a =
     (let D = env_decimal E; plan = ga_tariffPlan a; child = ta_childId (ga_assignment a);
          baseAmount = effectiveAmount (ga_assignment a) plan in
     bindM (nowM E) (\<lambda>now.
     bindM (ensureForChild E kg child) (\<lambda>account.
     bindM (buildCustomDiscountInputs E kg child now True) (\<lambda>customCtx.
     bindM (liftE MoneyErr (evaluateSync D (engine_input kg a baseAmount customCtx))) (\<lambda>discount.
     bindM (releaseUnusedReservations E kg (ci_reservedDiscountIds customCtx) discount) (\<lambda>_.
     bindM (liftE MoneyErr (discounted D baseAmount discount)) (\<lambda>after.
     bindM (liftE MoneyErr (prorate D after
       (effective_days (ga_totalDays a) (ga_proratedBillableDays a) (ga_nonBillableHolidays a)) (ga_totalDays a)))
       (\<lambda>(amountAfter, proratedForDays).
     bindM (randomUUID E) (\<lambda>invoiceId.
     let invoice = \<lparr>inv_id = invoiceId, inv_kindergartenId = kg, inv_childId = child,
           inv_paymentAccountId = acc_id account, inv_tariffPlanId = Some (tp_id plan),
           inv_invoiceType = ga_invoiceType a, inv_periodStart = ga_periodStart a, inv_periodEnd = ga_periodEnd a,
           inv_amountDue = baseAmount, inv_discountPct = der_discountPct discount,
           inv_discountReason = der_discountReason discount, inv_amountAfterDiscount = amountAfter,
           inv_status = InvPending, inv_dueDate = ga_dueDate a, inv_description = None,
           inv_proratedForDays = proratedForDays, inv_createdAt = now, inv_updatedAt = now\<rparr> in
     bindM (randomUUID E) (\<lambda>lineId.
     bindM (liftE LineItemErr (lineItem_fromState D
        \<lparr>li_id = lineId, li_invoiceId = invoiceId, li_kindergartenId = kg, li_description = tp_name plan,
         li_tariffPlanId = Some (tp_id plan), li_quantity = 1, li_unitPrice = baseAmount,
         li_lineTotal = lineItem_compute D 1 baseAmount, li_createdAt = now\<rparr>)) (\<lambda>lineItem.
     bindM (readM (children_existsActiveByIdForUpdate E kg child)) (\<lambda>stillActive.
     if ga_invoiceType a = Monthly \<and> \<not> stillActive then returnM None
     else
       bindM (invoices_create D invoice [lineItem]) (\<lambda>persisted.
       bindM (persistCustomDiscountApplications E kg persisted lineId discount) (\<lambda>_.
       bindM (emitInvoiceCreated E persisted) (\<lambda>_.
       returnM (Some persisted))))))))))))))))"

subsection \<open>The monthly run\<close>

definition DEFAULT_DUE_DAY :: int where "DEFAULT_DUE_DAY = 10"

definition due_date :: "instant \<Rightarrow> instant" where
  "due_date periodStart = Date_UTC (getUTCFullYear periodStart) (getUTCMonth periodStart) DEFAULT_DUE_DAY"

text \<open>One assignment of the loop: whether an invoice was generated.\<close>

definition monthly_one ::
  "billing_env \<Rightarrow> uuid \<Rightarrow> instant \<Rightarrow> int \<Rightarrow> uuid list \<Rightarrow> TariffAssignmentState \<Rightarrow> bool op" where
  "monthly_one E kg periodStart nonBillable covered a =
     (if List.member covered (ta_childId a) then returnM False
      else
        bindM (readM (children_findById kg (ta_childId a))) (\<lambda>child.
        if (case child of None \<Rightarrow> True | Some c \<Rightarrow> ch_status c = ChildArchived) then returnM False
        else
          bindM (plans_findById kg (ta_tariffPlanId a)) (\<lambda>tariffPlan.
          case tariffPlan of
            None \<Rightarrow> returnM False
          | Some plan \<Rightarrow>
              (let periodEnd = endOfMonth periodStart in
               bindM (generateAndPersistInvoice E kg
                 \<lparr>ga_assignment = a, ga_tariffPlan = plan, ga_invoiceType = Monthly,
                  ga_periodStart = periodStart, ga_periodEnd = periodEnd, ga_dueDate = due_date periodStart,
                  ga_totalDays = daysBetweenInclusive periodStart periodEnd,
                  ga_nonBillableHolidays = nonBillable,
                  ga_prepaymentMonths = None, ga_proratedBillableDays = None\<rparr>) (\<lambda>res.
               returnM (res \<noteq> None))))))"

primrec monthly_loop ::
  "billing_env \<Rightarrow> uuid \<Rightarrow> instant \<Rightarrow> int \<Rightarrow> uuid list \<Rightarrow> TariffAssignmentState list \<Rightarrow> (nat \<times> nat) op" where
  "monthly_loop E kg periodStart nonBillable covered [] = returnM (0, 0)"
| "monthly_loop E kg periodStart nonBillable covered (a # as) =
     bindM (monthly_one E kg periodStart nonBillable covered a) (\<lambda>generated.
     bindM (monthly_loop E kg periodStart nonBillable covered as) (\<lambda>(g, s).
     returnM (if generated then (Suc g, s) else (g, Suc s))))"

definition generateMonthly :: "billing_env \<Rightarrow> uuid \<Rightarrow> instant \<Rightarrow> (nat \<times> nat) op" where
  "generateMonthly E kg periodStart =
     bindM (invoices_acquireMonthlyGenerationAdvisoryLock kg periodStart) (\<lambda>_.
     bindM (readM (assignments_findAllActiveAtDate kg periodStart)) (\<lambda>assignments.
     if assignments = [] then returnM (0, 0)
     else
       bindM (readM (invoices_existsMonthlyForPeriod kg periodStart)) (\<lambda>exists.
       if exists then returnM (0, length assignments)
       else
         bindM (readM (holidays_countNonBillableInRange kg periodStart (endOfMonth periodStart))) (\<lambda>nonBillable.
         bindM (readM (invoices_listChildIdsWithPaidPrepaymentCovering kg periodStart)) (\<lambda>covered.
         monthly_loop E kg periodStart nonBillable covered assignments)))))"

subsection \<open>The first invoice of an enrolment\<close>

definition generateFirstInvoice :: "billing_env \<Rightarrow> uuid \<Rightarrow> uuid \<Rightarrow> instant \<Rightarrow> InvoiceState op" where
  "generateFirstInvoice E kg childId enrollmentDate =
     bindM (readM (assignments_findActiveForChild kg childId enrollmentDate)) (\<lambda>found.
     bindM (orThrow found (TariffAssignmentNotFound childId)) (\<lambda>a.
     bindM (plans_findById kg (ta_tariffPlanId a)) (\<lambda>foundPlan.
     bindM (orThrow foundPlan (TariffPlanNotFound (ta_tariffPlanId a))) (\<lambda>plan.
     bindM (orThrow (firstOfMonthInTimezone (env_zone E) enrollmentDate) (InvariantViolation ''Invalid Date'')) (\<lambda>periodStart.
     let periodEnd = endOfMonth periodStart in
     bindM (readM (holidays_countNonBillableInRange kg enrollmentDate periodEnd)) (\<lambda>nonBillable.
     bindM (generateAndPersistInvoice E kg
       \<lparr>ga_assignment = a, ga_tariffPlan = plan, ga_invoiceType = Monthly,
        ga_periodStart = enrollmentDate, ga_periodEnd = periodEnd, ga_dueDate = due_date periodStart,
        ga_totalDays = daysBetweenInclusive periodStart periodEnd,
        ga_nonBillableHolidays = nonBillable, ga_prepaymentMonths = None,
        ga_proratedBillableDays = Some (daysBetweenInclusive enrollmentDate periodEnd)\<rparr>) (\<lambda>res.
     orThrow res (ChildArchivedDuringRun childId))))))))"

end
