(* ===== verification/Prepayment.thy ===== *)
theory Prepayment
  imports Billing_Run
begin

text \<open>
  Prepayments (\<open>src/modules/billing/invoice.service.ts\<close>): the quote (debt block, window shifted past
  the months already covered, holiday-adjusted month prices, one discount evaluation, whole-tenge
  shares) and the invoice built from it. The window search is shown to end.
\<close>

subsection \<open>Horizons\<close>

datatype horizon = Months3 | Months6 | Months12 | Months24

definition horizon_months :: "horizon \<Rightarrow> int" where
  "horizon_months h = (case h of Months3 \<Rightarrow> 3 | Months6 \<Rightarrow> 6 | Months12 \<Rightarrow> 12 | Months24 \<Rightarrow> 24)"

definition horizon_type :: "horizon \<Rightarrow> InvoiceType" where
  "horizon_type h = (case h of Months3 \<Rightarrow> Prepayment3m | Months6 \<Rightarrow> Prepayment6m
     | Months12 \<Rightarrow> Prepayment12m | Months24 \<Rightarrow> Prepayment24m)"

subsection \<open>The quote\<close>

record PrepaymentQuoteMonth =
  pm_periodStart :: instant
  pm_periodEnd :: instant
  pm_baseAmount :: kzt
  pm_holidayDays :: int
  pm_amountShare :: kzt

record PrepaymentQuoteComputed =
  pq_windowStart :: instant
  pq_windowEnd :: instant
  pq_months :: "PrepaymentQuoteMonth list"
  pq_discountPct :: "rat option"
  pq_discountResult :: DiscountEvaluationResult
  pq_reservedDiscountIds :: "uuid list"
  pq_baseTotal :: kzt
  pq_total :: kzt
  pq_tariffPlan :: TariffPlanState
  pq_assignment :: TariffAssignmentState

datatype PrepaymentQuote =
    QuoteOutstandingDebt rat
  | QuotePartialPrepayment uuid rat
  | QuoteWindowOverlap "string list"
  | QuoteComputed PrepaymentQuoteComputed

text \<open>The remainder over the unpaid invoices that are no prepayments; \<open>None\<close> when there is none.\<close>

definition remaining_debt :: "decimal_lib \<Rightarrow> (uuid \<rightharpoonup> rat) \<Rightarrow> kzt \<Rightarrow> InvoiceState \<Rightarrow> kzt" where
  "remaining_debt D paidSums outstanding v =
     (let paid = fromKzt_number D (case paidSums (inv_id v) of None \<Rightarrow> 0 | Some q \<Rightarrow> q);
          remaining = kzt_sub D (inv_amountAfterDiscount v) paid
      in if isPositive remaining then kzt_add D outstanding remaining else outstanding)"

definition computeOutstandingDebt :: "decimal_lib \<Rightarrow> uuid \<Rightarrow> uuid \<Rightarrow> billing_db \<Rightarrow> kzt option" where
  "computeOutstandingDebt D kg childId db =
     (let unpaid = invoices_findUnpaidNonPrepaymentByChild kg childId db;
          paidSums = invoices_getPaidSumsForInvoices D kg (map inv_id unpaid) db
      in if unpaid = [] then None else Some (foldl (remaining_debt D paidSums) kzt_zero unpaid))"

definition findMoneyHoldingPrepayment ::
  "decimal_lib \<Rightarrow> uuid \<Rightarrow> InvoiceState list \<Rightarrow> billing_db \<Rightarrow> (InvoiceState \<times> rat) option" where
  "findMoneyHoldingPrepayment D kg stale db =
     (let paidSums = invoices_getPaidSumsForInvoices D kg (map inv_id stale) db in
      map_option (\<lambda>v. (v, case paidSums (inv_id v) of None \<Rightarrow> 0 | Some q \<Rightarrow> q))
        (find (holds_money paidSums) stale))"

text \<open>The months already covered by paid prepayments, and the walk past them.\<close>

definition covered_month_keys :: "InvoiceState list \<Rightarrow> string list" where
  "covered_month_keys paid = map monthKey (concat (map (\<lambda>p. month_walk (inv_periodStart p) (inv_periodEnd p)) paid))"

function shift_window :: "string list \<Rightarrow> instant \<Rightarrow> instant" where
  "shift_window covered w =
     (if List.member covered (monthKey w) then shift_window covered (addMonthsUtc w 1) else w)"
  by pat_completeness auto

text \<open>
  The walk ends: a month that is covered lies in one of the years written in the covered keys.
\<close>

definition key_year :: "string \<Rightarrow> nat" where
  "key_year s = parse_digits (takeWhile is_digit s)"

lemma key_year_monthKey: "key_year (monthKey w) = nat (getUTCFullYear w)"
proof -
  have d: "\<forall>c\<in>set (nat_string n). is_digit c" for n using digits_nat_string[of n] by (simp add: list_all_iff)
  have "takeWhile is_digit (monthKey w) = nat_string (nat (getUTCFullYear w))"
    unfolding monthKey_def using d by (simp add: takeWhile_append2 is_digit_def)
  then show ?thesis by (simp add: key_year_def)
qed

lemma days_of_year_bound:
  assumes v: "valid_civil y m d" and Y: "y \<le> Y" "0 \<le> Y"
  shows "days_from_civil y m d \<le> 366 * Y + 400"
proof -
  let ?y = "if m \<le> 2 then y - 1 else y" and ?mp = "if m > 2 then m - 3 else m + 9"
  have m: "1 \<le> m" "m \<le> 12" and d: "d \<le> 31" using v days_in_month_31[of y m] by (auto simp: valid_civil_def)
  have y: "?y \<le> Y" using Y by auto
  have a: "365 * ?y + ?y div 4 - ?y div 100 + ?y div 400 \<le> 366 * Y + 1"
    using y Y(2) div_mult_mod_eq[of ?y 4] pos_mod_bound[of 4 ?y] pos_mod_sign[of 4 ?y]
      div_mult_mod_eq[of ?y 100] pos_mod_bound[of 100 ?y] pos_mod_sign[of 100 ?y]
      div_mult_mod_eq[of ?y 400] pos_mod_bound[of 400 ?y] pos_mod_sign[of 400 ?y] by linarith
  have b: "(153 * ?mp + 2) div 5 \<le> (153 * 11 + 2) div 5" using m by (intro zdiv_mono1) auto
  from a b d show ?thesis unfolding days_from_civil_def Let_def by simp
qed


lemma instant_of_year_bound:
  assumes "getUTCFullYear w \<le> Y" "0 \<le> Y"
  shows "w < (366 * Y + 401) * ms_per_day"
proof -
  obtain y m d where c: "civil_from_days (w div ms_per_day) = (y, m, d)" by (metis prod_cases3)
  then have "days_from_civil y m d \<le> 366 * Y + 400"
    using assms civil_from_days_valid[OF c] by (intro days_of_year_bound) (simp_all add: getUTCFullYear_def utc_date_of_def)
  then have "w div ms_per_day < 366 * Y + 401" using days_from_civil_from_days[OF c] by simp
  then show ?thesis using div_mult_mod_eq[of w ms_per_day] by (simp add: ms_per_day_def)
qed

definition covered_end :: "string list \<Rightarrow> instant" where
  "covered_end covered = (366 * int (sum_list (map key_year covered)) + 401) * ms_per_day"

lemma covered_before_end:
  assumes "monthKey w \<in> set covered"
  shows "w < covered_end covered"
proof -
  have "nat (getUTCFullYear w) \<in> set (map key_year covered)"
    unfolding set_map key_year_monthKey[symmetric] using assms by (rule imageI)
  then have "nat (getUTCFullYear w) \<le> sum_list (map key_year covered)" by (rule member_le_sum_list) simp
  then show ?thesis unfolding covered_end_def by (intro instant_of_year_bound) auto
qed

termination shift_window
proof (relation "measure (\<lambda>(covered, w). nat (covered_end covered - w))")
  fix covered w
  assume "List.member covered (monthKey w)"
  then have "w < covered_end covered" by (intro covered_before_end) simp
  with addMonthsUtc_greater[of w]
  have "nat (covered_end covered - addMonthsUtc w 1) < nat (covered_end covered - w)" by linarith
  then show "((covered, addMonthsUtc w 1), covered, w) \<in> measure (\<lambda>(covered, w). nat (covered_end covered - w))"
    by (simp only: in_measure case_prod_conv)
qed simp

declare shift_window.simps [simp del]

text \<open>The window starts at the first month, from the given one on, that no paid prepayment covers.\<close>

theorem shift_window_first:
  assumes "1200 \<le> k"
  shows "\<exists>n. shift_window covered (month_start k) = month_start (k + int n)
    \<and> monthKey (month_start (k + int n)) \<notin> set covered
    \<and> (\<forall>i<n. monthKey (month_start (k + int i)) \<in> set covered)"
  using assms
proof (induction covered w \<equiv> "month_start k" arbitrary: k rule: shift_window.induct)
  case (1 covered)
  show ?case
  proof (cases "monthKey (month_start k) \<in> set covered")
    case False
    then show ?thesis by (intro exI[of _ 0]) (simp add: shift_window.simps[of covered "month_start k"])
  next
    case True
    with 1 obtain n where n: "shift_window covered (month_start (k + 1)) = month_start (k + 1 + int n)"
      "monthKey (month_start (k + 1 + int n)) \<notin> set covered"
      "\<forall>i<n. monthKey (month_start (k + 1 + int i)) \<in> set covered"
      using addMonthsUtc_month_start[of k 1] by fastforce
    have "monthKey (month_start (k + int i)) \<in> set covered" if "i < Suc n" for i
      using n(3) True that by (cases i) (auto simp: add.assoc)
    with n True 1(2) show ?thesis
      by (intro exI[of _ "Suc n"])
        (simp add: shift_window.simps[of covered "month_start k"] addMonthsUtc_month_start add.assoc)
  qed
qed


subsection \<open>Month prices\<close>

text \<open>
  One month of the window: its price by billable days at full precision, and the weight of its
  share. The divisions are by the number of days of a month.
\<close>

definition month_entry ::
  "decimal_lib \<Rightarrow> uuid \<Rightarrow> billing_db \<Rightarrow> kzt \<Rightarrow> instant \<Rightarrow> money_error + PrepaymentQuoteMonth \<times> rat" where
  "month_entry D kg db monthlyAmount mStart =
     (let mEnd = endOfMonth mStart;
          totalDays = daysBetweenInclusive mStart mEnd;
          holidayDays = holidays_countNonBillableInRange kg mStart mEnd db;
          effectiveDays = max 0 (totalDays - holidayDays)
      in case kzt_div D (kzt_mul D monthlyAmount (of_int effectiveDays)) (of_int totalDays) of
           Inl e \<Rightarrow> Inl e
         | Inr baseAmount \<Rightarrow>
             Inr (\<lparr>pm_periodStart = mStart, pm_periodEnd = mEnd, pm_baseAmount = baseAmount,
                   pm_holidayDays = holidayDays, pm_amountShare = kzt_zero\<rparr>,
                  d_div D (d_of_number D (of_int effectiveDays)) (d_of_number D (of_int totalDays))))"

primrec month_entries ::
  "decimal_lib \<Rightarrow> uuid \<Rightarrow> billing_db \<Rightarrow> kzt \<Rightarrow> instant list \<Rightarrow> money_error + (PrepaymentQuoteMonth \<times> rat) list" where
  "month_entries D kg db monthlyAmount [] = Inr []"
| "month_entries D kg db monthlyAmount (m # ms) =
     (case month_entry D kg db monthlyAmount m of Inl e \<Rightarrow> Inl e
      | Inr x \<Rightarrow> (case month_entries D kg db monthlyAmount ms of Inl e \<Rightarrow> Inl e | Inr xs \<Rightarrow> Inr (x # xs)))"

definition window_months :: "instant \<Rightarrow> int \<Rightarrow> instant list" where
  "window_months windowStart months = map (\<lambda>i. addMonthsUtc windowStart (int i)) [0..<nat months]"

definition base_total :: "decimal_lib \<Rightarrow> PrepaymentQuoteMonth list \<Rightarrow> kzt" where
  "base_total D entries = foldl (\<lambda>acc m. kzt_add D acc (pm_baseAmount m)) kzt_zero entries"

text \<open>Steps 3 to 6 of the quote, once the window is known.\<close>

definition price_window :: "billing_env \<Rightarrow> uuid \<Rightarrow> uuid \<Rightarrow> horizon \<Rightarrow> bool \<Rightarrow> instant
    \<Rightarrow> TariffAssignmentState \<Rightarrow> TariffPlanState \<Rightarrow> instant \<Rightarrow> PrepaymentQuoteComputed op" where
  "price_window E kg childId h reserve now a plan windowStart =
     (let D = env_decimal E; months = horizon_months h;
          windowEnd = endOfMonth (addMonthsUtc windowStart (months - 1)) in
     bindM (readM (\<lambda>db. month_entries D kg db (effectiveAmount a plan) (window_months windowStart months))) (\<lambda>prices.
     bindM (liftE MoneyErr prices) (\<lambda>entries.
     let baseTotal = base_total D (map fst entries) in
     bindM (buildCustomDiscountInputs E kg childId now reserve) (\<lambda>customCtx.
     bindM (liftE MoneyErr (evaluateSync D
       \<lparr>dei_invoiceId = ''pending'', dei_invoiceType = horizon_type h, dei_childId = childId,
        dei_kindergartenId = kg, dei_amountDue = baseTotal, dei_periodStart = windowStart,
        dei_periodEnd = windowEnd, dei_dueDate = None, dei_tariffPlanId = tp_id plan,
        dei_discountRules = tp_discountRules plan, dei_siblingsCount = None,
        dei_prepaymentMonths = Some months, dei_customDiscounts = Some (ci_customDiscounts customCtx),
        dei_childContext = ci_childContext customCtx, dei_familyContext = Some (ci_familyContext customCtx),
        dei_paymentMethodCode = None, dei_paidEarlyDays = None\<rparr>)) (\<lambda>discount.
     bindM (releaseUnusedReservations E kg (ci_reservedDiscountIds customCtx) discount) (\<lambda>_.
     bindM (liftE MoneyErr (discounted D baseTotal discount)) (\<lambda>amountAfter.
     let sum = roundToWholeKzt D amountAfter in
     bindM (liftE (\<lambda>_. InvariantViolation ''prepayment_share_sum_mismatch'')
       (distributeWholeTenge D sum (map snd entries))) (\<lambda>shares.
     returnM \<lparr>pq_windowStart = windowStart, pq_windowEnd = windowEnd,
       pq_months = map2 (\<lambda>m share. m\<lparr>pm_amountShare := share\<rparr>) (map fst entries) shares,
       pq_discountPct = der_discountPct discount, pq_discountResult = discount,
       pq_reservedDiscountIds = ci_reservedDiscountIds customCtx, pq_baseTotal = baseTotal,
       pq_total = sum, pq_tariffPlan = plan, pq_assignment = a\<rparr>))))))))"

definition computePrepaymentQuote ::
  "billing_env \<Rightarrow> uuid \<Rightarrow> uuid \<Rightarrow> horizon \<Rightarrow> bool \<Rightarrow> PrepaymentQuote op" where
  "computePrepaymentQuote E kg childId h reserve =
     (let D = env_decimal E; months = horizon_months h in
     bindM (nowM E) (\<lambda>now.
     bindM (readM (assignments_findActiveForChild kg childId now)) (\<lambda>foundAssignment.
     bindM (orThrow foundAssignment (TariffAssignmentNotFound childId)) (\<lambda>a.
     bindM (plans_findById kg (ta_tariffPlanId a)) (\<lambda>foundPlan.
     bindM (orThrow foundPlan (TariffPlanNotFound (ta_tariffPlanId a))) (\<lambda>plan.
     bindM (orThrow (prepay_pct (tp_discountRules plan) months) (BadRequest ''prepayment_horizon_not_configured'')) (\<lambda>_.
     bindM (readM (computeOutstandingDebt D kg childId)) (\<lambda>outstanding.
     case outstanding of
       Some debt \<Rightarrow> returnM (QuoteOutstandingDebt (kzt_toNumber D (kzt_round D debt)))
     | None \<Rightarrow>
         bindM (readM (invoices_findUnpaidPrepaymentsByChild kg childId)) (\<lambda>stale.
         bindM (readM (findMoneyHoldingPrepayment D kg stale)) (\<lambda>holding.
         case holding of
           Some (v, paidAmount) \<Rightarrow> returnM (QuotePartialPrepayment (inv_id v) paidAmount)
         | None \<Rightarrow>
             bindM (orThrow (firstOfMonthInTimezone (env_zone E) now) (InvariantViolation ''Invalid Date'')) (\<lambda>firstOfMonth.
             let nextMonth = addMonthsUtc firstOfMonth 1 in
             bindM (readM (invoices_findPaidPrepaymentsByChild kg childId nextMonth)) (\<lambda>paidPrepayments.
             let covered = covered_month_keys paidPrepayments;
                 windowStart = shift_window covered nextMonth;
                 overlapping = filter (List.member covered) (map monthKey (window_months windowStart months)) in
             if overlapping \<noteq> [] then returnM (QuoteWindowOverlap overlapping)
             else bindM (price_window E kg childId h reserve now a plan windowStart) (\<lambda>q.
               returnM (QuoteComputed q))))))))))))))"

subsection \<open>The prepayment invoice\<close>

definition cancel_stale :: "billing_env \<Rightarrow> uuid \<Rightarrow> instant \<Rightarrow> InvoiceState list \<Rightarrow> unit op" where
  "cancel_stale E kg now stale =
     forM stale (\<lambda>old.
       bindM (invoices_markCancelledConditional kg (inv_id old) now) (\<lambda>cancelled.
       if cancelled = None then returnM () else releaseCustomDiscountUsagesForInvoice E kg (inv_id old)))"

definition unblocked :: "PrepaymentQuote \<Rightarrow> PrepaymentQuoteComputed op" where
  "unblocked quote =
     (case quote of
        QuotePartialPrepayment i paid \<Rightarrow> throwM (PrepaymentBlockedPartialPrepayment i paid)
      | QuoteWindowOverlap months \<Rightarrow> throwM (PrepaymentBlockedWindowOverlap months)
      | QuoteOutstandingDebt debt \<Rightarrow> throwM (PrepaymentBlockedOutstandingDebt debt)
      | QuoteComputed q \<Rightarrow> returnM q)"

definition share_item ::
  "billing_env \<Rightarrow> uuid \<Rightarrow> uuid \<Rightarrow> TariffPlanState \<Rightarrow> instant \<Rightarrow> nat \<times> PrepaymentQuoteMonth \<Rightarrow> InvoiceLineItemState op" where
  "share_item E kg invoiceId plan now = (\<lambda>(i, m).
     bindM (randomUUID E) (\<lambda>itemId.
     liftE LineItemErr (lineItem_fromState (env_decimal E)
       \<lparr>li_id = itemId, li_invoiceId = invoiceId, li_kindergartenId = kg,
        li_description = ''Prepayment '' @ monthKey (pm_periodStart m) @ '' '' @ em_dash @ '' '' @ tp_name plan,
        li_tariffPlanId = Some (tp_id plan), li_quantity = 1, li_unitPrice = pm_amountShare m,
        li_lineTotal = pm_amountShare m, li_createdAt = now + int i\<rparr>)))"

definition prepayment_invoice ::
  "billing_env \<Rightarrow> uuid \<Rightarrow> uuid \<Rightarrow> uuid \<Rightarrow> uuid \<Rightarrow> horizon \<Rightarrow> PrepaymentQuoteComputed \<Rightarrow> instant \<Rightarrow> InvoiceState" where
  "prepayment_invoice E invoiceId kg childId accountId h q now =
     \<lparr>inv_id = invoiceId, inv_kindergartenId = kg, inv_childId = childId, inv_paymentAccountId = accountId,
      inv_tariffPlanId = Some (tp_id (pq_tariffPlan q)), inv_invoiceType = horizon_type h,
      inv_periodStart = pq_windowStart q, inv_periodEnd = pq_windowEnd q,
      inv_amountDue = kzt_round (env_decimal E) (pq_baseTotal q),
      inv_discountPct = der_discountPct (pq_discountResult q),
      inv_discountReason = der_discountReason (pq_discountResult q),
      inv_amountAfterDiscount = pq_total q, inv_status = InvPending, inv_dueDate = addDaysUtc now 7,
      inv_description = Some (''Prepayment '' @ nat_string (nat (horizon_months h)) @ ''m '' @ em_dash @ '' ''
        @ toIsoDate (pq_windowStart q) @ ''..'' @ toIsoDate (pq_windowEnd q)),
      inv_proratedForDays = None, inv_createdAt = now, inv_updatedAt = now\<rparr>"

definition prepayInvoice :: "billing_env \<Rightarrow> uuid \<Rightarrow> uuid \<Rightarrow> horizon \<Rightarrow> InvoiceState op" where
  "prepayInvoice E kg childId h =
     (let D = env_decimal E in
     bindM (nowM E) (\<lambda>now.
     bindM (invoices_acquireChildPrepaymentAdvisoryLock kg childId) (\<lambda>_.
     bindM (readM (computeOutstandingDebt D kg childId)) (\<lambda>outstanding.
     case outstanding of
       Some debt \<Rightarrow> throwM (PrepaymentBlockedOutstandingDebt (kzt_toNumber D (kzt_round D debt)))
     | None \<Rightarrow>
         bindM (readM (invoices_findUnpaidPrepaymentsByChild kg childId)) (\<lambda>stale.
         bindM (readM (findMoneyHoldingPrepayment D kg stale)) (\<lambda>holding.
         case holding of
           Some (v, paidAmount) \<Rightarrow> throwM (PrepaymentBlockedPartialPrepayment (inv_id v) paidAmount)
         | None \<Rightarrow>
             bindM (cancel_stale E kg now stale) (\<lambda>_.
             bindM (computePrepaymentQuote E kg childId h True) (\<lambda>quote.
             bindM (unblocked quote) (\<lambda>q.
             bindM (ensureForChild E kg childId) (\<lambda>account.
             bindM (randomUUID E) (\<lambda>invoiceId.
             bindM (mapM (share_item E kg invoiceId (pq_tariffPlan q) now) (enumerate 0 (pq_months q))) (\<lambda>lineItems.
             bindM (invoices_create D (prepayment_invoice E invoiceId kg childId (acc_id account) h q now) lineItems) (\<lambda>persisted.
             bindM (persistCustomDiscountApplications E kg persisted (li_id (hd lineItems)) (pq_discountResult q)) (\<lambda>_.
             bindM (emitInvoiceCreated E persisted) (\<lambda>_.
             returnM persisted)))))))))))))))"

end
