(* ===== verification/Payment_Calendar.thy ===== *)
theory Payment_Calendar
  imports Prepayment
begin

text \<open>
  The payment calendar of a child (\<open>buildPaymentCalendar\<close> in
  \<open>src/modules/billing/invoice.service.ts\<close>): the months ahead, each backed by a paid prepayment that
  covers it, by an invoice of the month, or projected from the tariff.
\<close>

subsection \<open>Line items of several invoices\<close>

definition lineItems_listByInvoiceIds :: "uuid \<Rightarrow> uuid list \<Rightarrow> billing_db \<Rightarrow> InvoiceLineItemState list" where
  "lineItems_listByInvoiceIds kg invoiceIds db =
     sort_key (\<lambda>r. (li_invoiceId r, li_createdAt r))
       (filter (\<lambda>r. li_kindergartenId r = kg \<and> List.member invoiceIds (li_invoiceId r)) (db_lineItems db))"

definition lineItems_listByInvoice :: "uuid \<Rightarrow> uuid \<Rightarrow> billing_db \<Rightarrow> InvoiceLineItemState list" where
  "lineItems_listByInvoice kg invoiceId db =
     sort_key li_createdAt (filter (\<lambda>r. li_kindergartenId r = kg \<and> li_invoiceId r = invoiceId) (db_lineItems db))"

subsection \<open>The calendar\<close>

datatype ProjectedStatus = Actual InvoiceStatus | Projected

record PaymentCalendarMonthEntry =
  pc_periodStart :: string
  pc_periodEnd :: string
  pc_invoiceId :: "uuid option"
  pc_projectedStatus :: ProjectedStatus
  pc_amountAfterDiscount :: "rat option"
  pc_dueDate :: "string option"
  pc_isProjection :: bool
  pc_holidaysAffected :: int
  pc_invoiceType :: "InvoiceType option"

text \<open>The Map built in the loop: a monthly invoice replaces a fee, a prepayment replaces anything.\<close>

definition bucket :: "(string \<rightharpoonup> InvoiceState) \<Rightarrow> InvoiceState \<Rightarrow> (string \<rightharpoonup> InvoiceState)" where
  "bucket byMonthKey v =
     (let key = monthKey (inv_periodStart v) in
      if (case byMonthKey key of
            None \<Rightarrow> True
          | Some existing \<Rightarrow> inv_invoiceType v = Monthly \<and> inv_invoiceType existing \<noteq> Monthly)
         \<or> isPrepayment (inv_invoiceType v)
      then byMonthKey(key \<mapsto> v) else byMonthKey)"

definition month_share :: "decimal_lib \<Rightarrow> InvoiceState \<Rightarrow> InvoiceLineItemState list \<Rightarrow> nat \<Rightarrow> nat \<Rightarrow> money_error + kzt" where
  "month_share D p items n i =
     (if length items = n then Inr (li_lineTotal (items ! i))
      else kzt_div D (inv_amountAfterDiscount p) (of_nat n))"

fun spread :: "decimal_lib \<Rightarrow> InvoiceState \<Rightarrow> InvoiceLineItemState list \<Rightarrow> nat \<Rightarrow> (nat \<times> instant) list
    \<Rightarrow> (string \<rightharpoonup> InvoiceState \<times> kzt) \<Rightarrow> money_error + (string \<rightharpoonup> InvoiceState \<times> kzt)" where
  "spread D p items n [] coverage = Inr coverage"
| "spread D p items n ((i, m) # ms) coverage =
     (case month_share D p items n i of Inl e \<Rightarrow> Inl e
      | Inr share \<Rightarrow> spread D p items n ms (coverage(monthKey m \<mapsto> (p, share))))"

fun spread_all :: "decimal_lib \<Rightarrow> InvoiceLineItemState list \<Rightarrow> InvoiceState list
    \<Rightarrow> (string \<rightharpoonup> InvoiceState \<times> kzt) \<Rightarrow> money_error + (string \<rightharpoonup> InvoiceState \<times> kzt)" where
  "spread_all D lineItems [] coverage = Inr coverage"
| "spread_all D lineItems (p # ps) coverage =
     (let windowMonths = month_walk (inv_periodStart p) (inv_periodEnd p);
          items = sort_key li_createdAt (filter (\<lambda>r. li_invoiceId r = inv_id p) lineItems)
      in case spread D p items (length windowMonths) (enumerate 0 windowMonths) coverage of
           Inl e \<Rightarrow> Inl e | Inr coverage' \<Rightarrow> spread_all D lineItems ps coverage')"

definition calendar_entry :: "decimal_lib \<Rightarrow> uuid \<Rightarrow> billing_db \<Rightarrow> (string \<rightharpoonup> InvoiceState \<times> kzt) \<Rightarrow> (string \<rightharpoonup> InvoiceState)
    \<Rightarrow> rat option \<Rightarrow> instant \<Rightarrow> PaymentCalendarMonthEntry" where
  "calendar_entry D kg db coverage byMonthKey projectedAmount mStart =
     (let mEnd = endOfMonth mStart; holidaysAffected = holidays_countNonBillableInRange kg mStart mEnd db in
      case coverage (monthKey mStart) of
        Some (p, share) \<Rightarrow>
          \<lparr>pc_periodStart = toIsoDate mStart, pc_periodEnd = toIsoDate mEnd, pc_invoiceId = Some (inv_id p),
           pc_projectedStatus = Actual InvPaid, pc_amountAfterDiscount = Some (kzt_toNumber D (kzt_round D share)),
           pc_dueDate = Some (toIsoDate (inv_dueDate p)), pc_isProjection = False,
           pc_holidaysAffected = holidaysAffected, pc_invoiceType = Some (inv_invoiceType p)\<rparr>
      | None \<Rightarrow>
          (case byMonthKey (monthKey mStart) of
             Some matching \<Rightarrow>
               \<lparr>pc_periodStart = toIsoDate mStart, pc_periodEnd = toIsoDate mEnd, pc_invoiceId = Some (inv_id matching),
                pc_projectedStatus = Actual (inv_status matching),
                pc_amountAfterDiscount = Some (kzt_toNumber D (inv_amountAfterDiscount matching)),
                pc_dueDate = Some (toIsoDate (inv_dueDate matching)), pc_isProjection = False,
                pc_holidaysAffected = holidaysAffected, pc_invoiceType = Some (inv_invoiceType matching)\<rparr>
           | None \<Rightarrow>
               \<lparr>pc_periodStart = toIsoDate mStart, pc_periodEnd = toIsoDate mEnd, pc_invoiceId = None,
                pc_projectedStatus = Projected, pc_amountAfterDiscount = projectedAmount,
                pc_dueDate = None, pc_isProjection = True,
                pc_holidaysAffected = holidaysAffected, pc_invoiceType = None\<rparr>))"

definition projected_amount :: "decimal_lib \<Rightarrow> uuid \<Rightarrow> uuid \<Rightarrow> instant \<Rightarrow> rat option op" where
  "projected_amount D kg childId today =
     bindM (readM (assignments_findActiveForChild kg childId today)) (\<lambda>found.
     case found of
       None \<Rightarrow> returnM None
     | Some a \<Rightarrow> bindM (plans_findById kg (ta_tariffPlanId a)) (\<lambda>plan.
         returnM (map_option (\<lambda>plan. kzt_toNumber D (effectiveAmount a plan)) plan)))"

definition buildPaymentCalendar ::
  "billing_env \<Rightarrow> uuid \<Rightarrow> uuid \<Rightarrow> int \<Rightarrow> PaymentCalendarMonthEntry list op" where
  "buildPaymentCalendar E kg childId monthsAhead =
     (let D = env_decimal E in
      if monthsAhead < 1 \<or> monthsAhead > 24 then throwM (BadRequest ''months_ahead_out_of_range'')
      else
        bindM (nowM E) (\<lambda>today.
        bindM (orThrow (firstOfMonthInTimezone (env_zone E) today) (InvariantViolation ''Invalid Date'')) (\<lambda>startMonth.
        let endMonth = endOfMonth (addMonthsUtc startMonth (monthsAhead - 1)) in
        bindM (readM (invoices_findByChildId kg childId (Some (startMonth, endMonth)))) (\<lambda>invoices.
        let byMonthKey = foldl bucket Map.empty invoices in
        bindM (readM (invoices_findPaidPrepaymentsByChild kg childId startMonth)) (\<lambda>paidPrepayments.
        bindM (readM (lineItems_listByInvoiceIds kg (map inv_id paidPrepayments))) (\<lambda>lineItems.
        bindM (liftE MoneyErr (spread_all D lineItems paidPrepayments Map.empty)) (\<lambda>coverage.
        bindM (projected_amount D kg childId today) (\<lambda>projectedAmount.
        readM (\<lambda>db. map (calendar_entry D kg db coverage byMonthKey projectedAmount)
          (window_months startMonth monthsAhead))))))))))"

end
