(* ===== verification/Discount_Service.thy ===== *)
theory Discount_Service
  imports Discount_Targets Billing_Frames
begin

text \<open>
  The catalogue of custom discounts (\<open>src/modules/billing/custom-discount.service.ts\<close>): creation and
  edits of drafts, the state machine at the edge of the database, activation with its notification.
\<close>

subsection \<open>Creation\<close>

record CreateCustomDiscountServiceInput =
  cin_name :: LocalisedText
  cin_description :: "LocalisedText option"
  cin_discountType :: CustomDiscountType
  cin_amount :: rat
  cin_conditions :: json
  cin_targetType :: CustomDiscountTargetType
  cin_targetIds :: "string list option"
  cin_validFrom :: instant
  cin_validUntil :: "instant option"
  cin_maxUsesPerChild :: "int option"
  cin_totalMaxUses :: "int option"
  cin_priority :: "int option"
  cin_stackable :: "bool option"
  cin_notifyOnActivation :: "bool option"
  cin_notificationTitle :: "LocalisedText option"
  cin_notificationBody :: "LocalisedText option"

definition default :: "'a option \<Rightarrow> 'a \<Rightarrow> 'a" where
  "default v d = (case v of None \<Rightarrow> d | Some x \<Rightarrow> x)"

definition draft_of ::
  "decimal_lib \<Rightarrow> uuid \<Rightarrow> CreateCustomDiscountServiceInput \<Rightarrow> uuid option \<Rightarrow> instant \<Rightarrow> CustomDiscountState" where
  "draft_of D kg input createdBy now =
     \<lparr>cd_id = ''00000000-0000-0000-0000-000000000000'', cd_kindergartenId = kg, cd_name = cin_name input,
      cd_description = cin_description input, cd_discountType = cin_discountType input,
      cd_amount = fromKzt_number D (cin_amount input), cd_conditions = CEmpty,
      cd_targetType = cin_targetType input, cd_targetIds = cin_targetIds input,
      cd_validFrom = cin_validFrom input, cd_validUntil = cin_validUntil input,
      cd_maxUsesPerChild = cin_maxUsesPerChild input, cd_totalMaxUses = cin_totalMaxUses input, cd_usedCount = 0,
      cd_priority = default (cin_priority input) 100, cd_stackable = default (cin_stackable input) False,
      cd_notifyOnActivation = default (cin_notifyOnActivation input) True,
      cd_notificationTitle = cin_notificationTitle input, cd_notificationBody = cin_notificationBody input,
      cd_status = CdDraft, cd_createdBy = createdBy, cd_createdAt = now, cd_updatedAt = now\<rparr>"

definition discount_service_create ::
  "billing_env \<Rightarrow> uuid \<Rightarrow> CreateCustomDiscountServiceInput \<Rightarrow> uuid option \<Rightarrow> CustomDiscountState op" where
  "discount_service_create E kg input createdBy =
     bindM (nowM E) (\<lambda>transientNow.
     let draft = draft_of (env_decimal E) kg input createdBy transientNow in
     bindM (liftE DiscountErr (customDiscount_fromState draft (cin_conditions input))) (\<lambda>_.
     discounts_create E draft (cin_amount input) (cin_conditions input)))"

subsection \<open>Edits of a draft\<close>

record UpdateCustomDiscountPatch =
  dp_name :: "LocalisedText option"
  dp_description :: "LocalisedText option option"
  dp_discountType :: "CustomDiscountType option"
  dp_amount :: "rat option"
  dp_conditions :: "json option"
  dp_targetType :: "CustomDiscountTargetType option"
  dp_targetIds :: "string list option option"
  dp_validFrom :: "instant option"
  dp_validUntil :: "instant option option"
  dp_maxUsesPerChild :: "int option option"
  dp_totalMaxUses :: "int option option"
  dp_priority :: "int option"
  dp_stackable :: "bool option"
  dp_notifyOnActivation :: "bool option"
  dp_notificationTitle :: "LocalisedText option option"
  dp_notificationBody :: "LocalisedText option option"

text \<open>The transient aggregate of the six fields that are validated again.\<close>

definition merged :: "decimal_lib \<Rightarrow> UpdateCustomDiscountPatch \<Rightarrow> CustomDiscountState \<Rightarrow> CustomDiscountState" where
  "merged D p s = s\<lparr>cd_name := patched (dp_name p) (cd_name s),
     cd_description := patched (dp_description p) (cd_description s),
     cd_discountType := patched (dp_discountType p) (cd_discountType s),
     cd_amount := patched (map_option (fromKzt_number D) (dp_amount p)) (cd_amount s),
     cd_targetType := patched (dp_targetType p) (cd_targetType s),
     cd_targetIds := patched (dp_targetIds p) (cd_targetIds s),
     cd_validFrom := patched (dp_validFrom p) (cd_validFrom s),
     cd_validUntil := patched (dp_validUntil p) (cd_validUntil s)\<rparr>"

definition conditions_of :: "UpdateCustomDiscountPatch \<Rightarrow> CustomDiscountState \<Rightarrow> json" where
  "conditions_of p s = patched (dp_conditions p) (cond_json (cd_conditions s))"

definition revalidates :: "UpdateCustomDiscountPatch \<Rightarrow> bool" where
  "revalidates p \<longleftrightarrow> dp_conditions p \<noteq> None \<or> dp_targetType p \<noteq> None \<or> dp_targetIds p \<noteq> None
     \<or> dp_amount p \<noteq> None \<or> dp_validFrom p \<noteq> None \<or> dp_validUntil p \<noteq> None"

text \<open>The row the repository writes, and reads back through the constructor.\<close>

definition discount_row :: "decimal_lib \<Rightarrow> UpdateCustomDiscountPatch \<Rightarrow> instant \<Rightarrow> CustomDiscountState \<Rightarrow> CustomDiscountState" where
  "discount_row D p now s = (merged D p s)\<lparr>cd_amount := patched (map_option (\<lambda>a. kzt_column D (fromKzt_number D a)) (dp_amount p)) (cd_amount s),
     cd_maxUsesPerChild := patched (dp_maxUsesPerChild p) (cd_maxUsesPerChild s),
     cd_totalMaxUses := patched (dp_totalMaxUses p) (cd_totalMaxUses s),
     cd_priority := patched (dp_priority p) (cd_priority s), cd_stackable := patched (dp_stackable p) (cd_stackable s),
     cd_notifyOnActivation := patched (dp_notifyOnActivation p) (cd_notifyOnActivation s),
     cd_notificationTitle := patched (dp_notificationTitle p) (cd_notificationTitle s),
     cd_notificationBody := patched (dp_notificationBody p) (cd_notificationBody s), cd_updatedAt := now\<rparr>"

definition discounts_update ::
  "billing_env \<Rightarrow> uuid \<Rightarrow> uuid \<Rightarrow> UpdateCustomDiscountPatch \<Rightarrow> CustomDiscountStatus \<Rightarrow> CustomDiscountState option op" where
  "discounts_update E kg i p expectedStatus =
     bindM (nowM E) (\<lambda>now db.
       case find (\<lambda>r. cd_id r = i \<and> cd_kindergartenId r = kg \<and> cd_status r = expectedStatus) (db_discounts db) of
         None \<Rightarrow> Inr (None, db)
       | Some s \<Rightarrow>
           (let row = discount_row (env_decimal E) p now s in
            if \<not> discount_checks row then Inl (DbCheckViolation ''custom_discounts'')
            else (case customDiscount_fromState row (conditions_of p s) of
                    Inl e \<Rightarrow> Inl (DiscountErr e)
                  | Inr d \<Rightarrow> Inr (Some d, db\<lparr>db_discounts :=
                      update_where (\<lambda>r. cd_id r = i \<and> cd_kindergartenId r = kg \<and> cd_status r = expectedStatus) (\<lambda>_. d)
                        (db_discounts db)\<rparr>))))"

definition discount_lost :: "uuid \<Rightarrow> uuid \<Rightarrow> string \<Rightarrow> CustomDiscountState option \<Rightarrow> CustomDiscountState op" where
  "discount_lost kg i operation flipped =
     (case flipped of
        Some d \<Rightarrow> returnM d
      | None \<Rightarrow>
          bindM (readM (discounts_findById kg i)) (\<lambda>fresh.
          bindM (orThrow fresh (CustomDiscountNotFound i)) (\<lambda>d.
          throwM (DiscountErr (DiscountStatusInvalid (cd_status d) operation)))))"

definition discount_service_update ::
  "billing_env \<Rightarrow> uuid \<Rightarrow> uuid \<Rightarrow> UpdateCustomDiscountPatch \<Rightarrow> CustomDiscountState op" where
  "discount_service_update E kg i patch =
     bindM (readM (discounts_findById kg i)) (\<lambda>found.
     bindM (orThrow found (CustomDiscountNotFound i)) (\<lambda>existing.
     if cd_status existing \<noteq> CdDraft then throwM (DiscountErr (DiscountStatusInvalid (cd_status existing) ''update''))
     else
       bindM (if revalidates patch
              then bindM (liftE DiscountErr (customDiscount_fromState (merged (env_decimal E) patch existing)
                     (conditions_of patch existing))) (\<lambda>_. returnM ())
              else returnM ()) (\<lambda>_.
       bindM (discounts_update E kg i patch CdDraft) (discount_lost kg i ''update''))))"

subsection \<open>Transitions\<close>

definition announce :: "billing_env \<Rightarrow> uuid \<Rightarrow> CustomDiscountState \<Rightarrow> unit op" where
  "announce E kg d =
     (case (cd_notificationTitle d, cd_notificationBody d) of
        (Some title, Some body) \<Rightarrow>
          whenM (cd_notifyOnActivation d)
            (bindM (resolveTargetChildIds E kg d) (\<lambda>targets.
             whenM (targets \<noteq> []) (emitM (DiscountActivatedEv kg (cd_id d) (cd_name d) targets title body))))
      | _ \<Rightarrow> returnM ())"

definition discount_service_activate :: "billing_env \<Rightarrow> uuid \<Rightarrow> uuid \<Rightarrow> CustomDiscountState op" where
  "discount_service_activate E kg i =
     bindM (nowM E) (\<lambda>now.
     bindM (discounts_acquireDiscountActivationAdvisoryLock kg i) (\<lambda>_.
     bindM (readM (discounts_findById kg i)) (\<lambda>found.
     bindM (orThrow found (CustomDiscountNotFound i)) (\<lambda>locked.
     if cd_status locked \<noteq> CdDraft then throwM (DiscountErr (DiscountStatusInvalid (cd_status locked) ''activate''))
     else
       bindM (discounts_transitionStatus kg i [CdDraft] CdActive now) (\<lambda>flipped.
       bindM (orThrow flipped (DiscountErr (DiscountStatusInvalid (cd_status locked) ''activate''))) (\<lambda>d.
       bindM (announce E kg d) (\<lambda>_.
       returnM d)))))))"

definition simpleTransition ::
  "billing_env \<Rightarrow> uuid \<Rightarrow> uuid \<Rightarrow> CustomDiscountStatus list \<Rightarrow> CustomDiscountStatus \<Rightarrow> string \<Rightarrow> CustomDiscountState op" where
  "simpleTransition E kg i from to operation =
     bindM (nowM E) (\<lambda>now.
     bindM (discounts_transitionStatus kg i from to now) (discount_lost kg i operation))"

definition discount_service_pause :: "billing_env \<Rightarrow> uuid \<Rightarrow> uuid \<Rightarrow> CustomDiscountState op" where
  "discount_service_pause E kg i = simpleTransition E kg i [CdActive] CdPaused ''pause''"

definition discount_service_resume :: "billing_env \<Rightarrow> uuid \<Rightarrow> uuid \<Rightarrow> CustomDiscountState op" where
  "discount_service_resume E kg i = simpleTransition E kg i [CdPaused] CdActive ''resume''"

definition discount_service_cancel :: "billing_env \<Rightarrow> uuid \<Rightarrow> uuid \<Rightarrow> CustomDiscountState op" where
  "discount_service_cancel E kg i = simpleTransition E kg i [CdDraft, CdActive, CdPaused] CdCancelled ''cancel''"

definition discount_service_expireOverdue :: "uuid \<Rightarrow> instant \<Rightarrow> uuid list op" where
  "discount_service_expireOverdue kg now = discounts_markExpiredBatch kg now"

subsection \<open>Reads\<close>

definition applications_getStatsForDiscount :: "decimal_lib \<Rightarrow> uuid \<Rightarrow> uuid \<Rightarrow> billing_db \<Rightarrow> nat \<times> rat" where
  "applications_getStatsForDiscount D kg i db =
     (let rows = filter (\<lambda>a. cda_kindergartenId a = kg \<and> cda_customDiscountId a = i) (db_applications db)
      in (length rows, sql_number D (sum_list (map cda_amountApplied rows))))"

definition discount_service_getById ::
  "decimal_lib \<Rightarrow> uuid \<Rightarrow> uuid \<Rightarrow> (CustomDiscountState \<times> (nat \<times> rat)) op" where
  "discount_service_getById D kg i =
     bindM (readM (discounts_findById kg i)) (\<lambda>found.
     bindM (orThrow found (CustomDiscountNotFound i)) (\<lambda>d.
     bindM (readM (applications_getStatsForDiscount D kg i)) (\<lambda>stats. returnM (d, stats))))"

end
