(* ===== verification/Child_Service.thy ===== *)
theory Child_Service
  imports Child_Repo
begin

text \<open>
  The lifecycle of a child (\<open>src/modules/child/child.service.ts\<close>): the card, its group, archive,
  reactivation and activation, with the history rows, the closing of the tariff assignments
  (\<open>src/modules/billing/infrastructure/billing-lifecycle.adapter.ts\<close>), the events and the pro-rata
  refund job. Branded identifiers are parsed where the code parses them.
\<close>

subsection \<open>Identifiers and lookups\<close>

definition parse_uuid :: "string \<Rightarrow> uuid \<Rightarrow> unit op" where
  "parse_uuid label i = (if UUID_RE i then returnM () else throwM (InvariantViolation (label @ '' must be UUID'')))"

definition parse_iin :: "string \<Rightarrow> unit op" where
  "parse_iin raw = (if IIN_RE raw then returnM () else throwM (InvariantViolation ''iin must be 12 digits''))"

definition groups_findById :: "uuid \<Rightarrow> uuid \<Rightarrow> billing_db \<Rightarrow> bool" where
  "groups_findById kg groupId db \<longleftrightarrow> List.member (db_groups db) (kg, groupId)"

definition child_or_throw :: "uuid \<Rightarrow> uuid \<Rightarrow> ChildState op" where
  "child_or_throw kg childId = bindM (readM (children_findById kg childId)) (\<lambda>found. orThrow found (ChildNotFound childId))"

definition group_or_throw :: "uuid \<Rightarrow> uuid \<Rightarrow> unit op" where
  "group_or_throw kg groupId = bindM (readM (groups_findById kg groupId)) (\<lambda>found.
     if found then returnM () else throwM (GroupNotFound groupId))"

text \<open>The IIN is looked up within the tenant; the row of the child itself does not count.\<close>

definition iin_free :: "uuid \<Rightarrow> string \<Rightarrow> uuid option \<Rightarrow> unit op" where
  "iin_free kg iin self =
     bindM (readM (children_findByKindergartenAndIin kg iin)) (\<lambda>existing.
     case existing of
       None \<Rightarrow> returnM ()
     | Some c \<Rightarrow> if self = Some (ch_id c) then returnM () else throwM (ChildIinAlreadyExists iin))"

subsection \<open>The card\<close>

record CreateChildInput =
  cc_fullName :: string
  cc_iin :: "string option"
  cc_dateOfBirth :: instant
  cc_gender :: "Gender option"
  cc_photoUrl :: "string option"
  cc_groupId :: "uuid option"
  cc_medicalNotes :: "string option"
  cc_allergyNotes :: "string option"

definition card_of :: "uuid \<Rightarrow> uuid \<Rightarrow> CreateChildInput \<Rightarrow> instant \<Rightarrow> ChildState" where
  "card_of i kg input now =
     \<lparr>ch_id = i, ch_kindergartenId = kg, ch_iin = cc_iin input, ch_fullName = cc_fullName input,
      ch_dateOfBirth = cc_dateOfBirth input, ch_gender = cc_gender input, ch_photoUrl = cc_photoUrl input,
      ch_status = CardCreated, ch_currentGroupId = cc_groupId input, ch_enrollmentDate = None,
      ch_archivedAt = None, ch_archiveReason = None, ch_medicalNotes = cc_medicalNotes input,
      ch_allergyNotes = cc_allergyNotes input, ch_createdAt = now, ch_updatedAt = now\<rparr>"

definition createChild :: "billing_env \<Rightarrow> uuid \<Rightarrow> CreateChildInput \<Rightarrow> ChildState op" where
  "createChild E kg input =
     bindM (parse_uuid ''kindergarten_id'' kg) (\<lambda>_.
     bindM (case cc_iin input of None \<Rightarrow> returnM () | Some iin \<Rightarrow> parse_iin iin) (\<lambda>_.
     bindM (case cc_groupId input of None \<Rightarrow> returnM () | Some g \<Rightarrow> group_or_throw kg g) (\<lambda>_.
     bindM (case cc_iin input of None \<Rightarrow> returnM () | Some iin \<Rightarrow> iin_free kg iin None) (\<lambda>_.
     bindM (randomUUID E) (\<lambda>i.
     bindM (parse_uuid ''child_id'' i) (\<lambda>_.
     bindM (nowM E) (\<lambda>now.
     bindM (liftE ChildErr (child_createNew (card_of i kg input now) now)) (\<lambda>child.
     bindM (children_create child) (\<lambda>_.
     returnM child)))))))))"

definition getChild :: "uuid \<Rightarrow> uuid \<Rightarrow> (ChildState \<times> ChildGuardianState list) op" where
  "getChild kg childId =
     bindM (child_or_throw kg childId) (\<lambda>child.
     bindM (readM (guardians_findByChildId kg childId)) (\<lambda>guardians.
     returnM (child, guardians)))"

definition updateChildProfile :: "billing_env \<Rightarrow> uuid \<Rightarrow> uuid \<Rightarrow> UpdateChildProfilePatch \<Rightarrow> ChildState op" where
  "updateChildProfile E kg childId patch =
     bindM (child_or_throw kg childId) (\<lambda>child.
     bindM (case up_iin patch of
              Some (Some iin) \<Rightarrow> bindM (parse_iin iin) (\<lambda>_. iin_free kg iin (Some (ch_id child)))
            | _ \<Rightarrow> returnM ()) (\<lambda>_.
     bindM (nowM E) (\<lambda>now.
     bindM (liftE ChildErr (child_updateProfile patch now child)) (\<lambda>updated.
     bindM (children_update updated) (\<lambda>_.
     returnM updated)))))"

definition updateChildPhoto :: "billing_env \<Rightarrow> uuid \<Rightarrow> uuid \<Rightarrow> string option \<Rightarrow> ChildState op" where
  "updateChildPhoto E kg childId photoUrl =
     bindM (child_or_throw kg childId) (\<lambda>child.
     bindM (nowM E) (\<lambda>now.
     let updated = child_updatePhoto photoUrl now child in
     bindM (children_update updated) (\<lambda>_. returnM updated)))"

subsection \<open>The group\<close>

definition assignChildToGroup :: "billing_env \<Rightarrow> uuid \<Rightarrow> uuid \<Rightarrow> uuid \<Rightarrow> ChildState op" where
  "assignChildToGroup E kg childId groupId =
     bindM (child_or_throw kg childId) (\<lambda>child.
     bindM (group_or_throw kg groupId) (\<lambda>_.
     bindM (nowM E) (\<lambda>now.
     bindM (liftE ChildErr (child_assignToGroup groupId now child)) (\<lambda>updated.
     bindM (children_update updated) (\<lambda>_. returnM updated)))))"

definition unassignChildFromGroup :: "billing_env \<Rightarrow> uuid \<Rightarrow> uuid \<Rightarrow> ChildState op" where
  "unassignChildFromGroup E kg childId =
     bindM (child_or_throw kg childId) (\<lambda>child.
     bindM (nowM E) (\<lambda>now.
     let updated = child_unassignFromGroup now child in
     bindM (children_update updated) (\<lambda>_. returnM updated)))"

definition approved_users :: "uuid \<Rightarrow> uuid \<Rightarrow> billing_db \<Rightarrow> uuid list" where
  "approved_users kg childId db =
     map gd_userId (filter (\<lambda>g. gd_status g = GuardianApproved) (guardians_findByChildId kg childId db))"

definition transferChildToGroup ::
  "billing_env \<Rightarrow> uuid \<Rightarrow> uuid \<Rightarrow> uuid \<Rightarrow> uuid \<Rightarrow> string option \<Rightarrow> ChildState op" where
  "transferChildToGroup E kg childId toGroupId transferredByStaffId reason =
     bindM (parse_uuid ''kindergarten_id'' kg) (\<lambda>_.
     bindM (child_or_throw kg childId) (\<lambda>child.
     bindM (group_or_throw kg toGroupId) (\<lambda>_.
     bindM (nowM E) (\<lambda>now.
     bindM (liftE ChildErr (child_transferToGroup toGroupId now child)) (\<lambda>updated.
     bindM (children_update updated) (\<lambda>_.
     bindM (children_recordGroupTransfer kg childId (ch_currentGroupId child) toGroupId transferredByStaffId reason now) (\<lambda>_.
     bindM (readM (approved_users kg childId)) (\<lambda>recipients.
     bindM (emitM (ChildTransferredEv kg childId (ch_currentGroupId child) toGroupId transferredByStaffId recipients)) (\<lambda>_.
     returnM updated)))))))))"

definition listChildGroupHistory :: "uuid \<Rightarrow> uuid \<Rightarrow> child_group_history list op" where
  "listChildGroupHistory kg childId =
     bindM (child_or_throw kg childId) (\<lambda>_. readM (children_listGroupHistory kg childId))"

definition listStatusHistory :: "uuid \<Rightarrow> uuid \<Rightarrow> nat \<Rightarrow> nat \<Rightarrow> (ChildStatusHistoryState list \<times> nat) op" where
  "listStatusHistory kg childId limit offset =
     bindM (child_or_throw kg childId) (\<lambda>_. readM (statusHistory_listForChild kg childId limit offset))"

subsection \<open>Archive, reactivation, activation\<close>

text \<open>The history row of a transition; its creation time is a column default.\<close>

definition record_transition ::
  "billing_env \<Rightarrow> uuid \<Rightarrow> uuid \<Rightarrow> ChildStatus \<Rightarrow> ChildStatus \<Rightarrow> string option \<Rightarrow> string option \<Rightarrow> uuid \<Rightarrow> instant \<Rightarrow> unit op" where
  "record_transition E kg childId previous new previousReason reason changedBy now =
     bindM (randomUUID E) (\<lambda>i.
     bindM (liftE ChildErr (history_record
       \<lparr>hi_id = i, hi_kindergartenId = kg, hi_childId = childId, hi_previousStatus = previous,
        hi_newStatus = new, hi_previousArchiveReason = previousReason, hi_archiveReason = reason,
        hi_changedByUserId = changedBy, hi_changedAt = now, hi_createdAt = now\<rparr>)) (\<lambda>r.
     statusHistory_recordStatusChange r))"

definition closeActiveTariffAssignmentsForChild :: "uuid \<Rightarrow> uuid \<Rightarrow> instant \<Rightarrow> nat op" where
  "closeActiveTariffAssignmentsForChild kg childId validUntil = assignments_closeActiveForChild kg childId validUntil"

definition hasActiveTariffAssignmentForChild :: "uuid \<Rightarrow> uuid \<Rightarrow> instant \<Rightarrow> billing_db \<Rightarrow> bool" where
  "hasActiveTariffAssignmentForChild kg childId atDate db \<longleftrightarrow> assignments_findActiveForChild kg childId atDate db \<noteq> None"

text \<open>The lifecycle queue, wired as in the application; a failing enqueue is only logged.\<close>

definition enqueue_refund_job :: "uuid \<Rightarrow> uuid \<Rightarrow> instant \<Rightarrow> unit op" where
  "enqueue_refund_job kg childId archivedAt = modifyM (\<lambda>db. db\<lparr>db_jobs := db_jobs db @ [(kg, childId, archivedAt)]\<rparr>)"

definition child_done :: "child_result \<Rightarrow> uuid \<Rightarrow> billing_error \<Rightarrow> ChildState op" where
  "child_done res childId wrong =
     (case res of ChildDone c \<Rightarrow> returnM c | ChildMissing \<Rightarrow> throwM (ChildNotFound childId) | ChildWrongStatus \<Rightarrow> throwM wrong)"

definition archiveChild :: "billing_env \<Rightarrow> uuid \<Rightarrow> uuid \<Rightarrow> string \<Rightarrow> uuid \<Rightarrow> uuid \<Rightarrow> ChildState op" where
  "archiveChild E kg childId reason archivedByStaffId changedByUserId =
     (let trimmedReason = trim reason in
      if trimmedReason = [] \<or> 500 < length trimmedReason then throwM (ChildErr (ArchiveReasonRequired childId))
      else
        bindM (nowM E) (\<lambda>now.
        bindM (children_archive kg childId now trimmedReason) (\<lambda>result.
        bindM (child_done result childId (ChildErr (ChildAlreadyArchived childId))) (\<lambda>child.
        bindM (record_transition E kg childId ChildActive ChildArchived None (Some trimmedReason) changedByUserId now) (\<lambda>_.
        bindM (closeActiveTariffAssignmentsForChild kg childId now) (\<lambda>_.
        bindM (emitM (ChildArchivedEv kg childId now trimmedReason archivedByStaffId)) (\<lambda>_.
        bindM (enqueue_refund_job kg childId now) (\<lambda>_.
        returnM child))))))))"

definition reactivateChild :: "billing_env \<Rightarrow> uuid \<Rightarrow> uuid \<Rightarrow> uuid \<Rightarrow> uuid \<Rightarrow> ChildState op" where
  "reactivateChild E kg childId reactivatedByStaffId changedByUserId =
     bindM (nowM E) (\<lambda>now.
     bindM (readM (children_findById kg childId)) (\<lambda>before.
     let previousArchiveReason = (case before of None \<Rightarrow> None | Some c \<Rightarrow> ch_archiveReason c) in
     bindM (children_reactivate kg childId now) (\<lambda>result.
     bindM (child_done result childId (ChildErr (ChildNotArchived childId))) (\<lambda>child.
     bindM (record_transition E kg childId ChildArchived ChildActive previousArchiveReason None changedByUserId now) (\<lambda>_.
     bindM (emitM (ChildReactivatedEv kg childId now reactivatedByStaffId)) (\<lambda>_.
     returnM child))))))"

definition activateChild :: "billing_env \<Rightarrow> uuid \<Rightarrow> uuid \<Rightarrow> uuid \<Rightarrow> ChildState op" where
  "activateChild E kg childId changedByUserId =
     bindM (nowM E) (\<lambda>now.
     bindM (child_or_throw kg childId) (\<lambda>existing.
     if ch_status existing \<noteq> CardCreated
     then throwM (ChildErr (InvalidChildStatusTransition (ch_status existing) ChildActive))
     else
       bindM (readM (hasActiveTariffAssignmentForChild kg childId now)) (\<lambda>hasTariff.
       if \<not> hasTariff then throwM (ChildActivationRequiresTariff childId)
       else
         bindM (children_activate kg childId now) (\<lambda>result.
         bindM (child_done result childId (ChildErr (InvalidChildStatusTransition (ch_status existing) ChildActive))) (\<lambda>child.
         bindM (record_transition E kg childId CardCreated ChildActive None None changedByUserId now) (\<lambda>_.
         returnM child))))))"

end
