(* ===== verification/Guardian_Service.thy ===== *)
theory Guardian_Service
  imports Child_Service
begin

text \<open>
  The guardians of a child (\<open>src/modules/child/child.service.ts\<close>): invitation, approval, rejection
  and revocation by staff and by the primary guardian, self-service linking and unlinking, approval
  rights and permissions; and the automatic approval of primaries on login
  (\<open>autoApprovePendingPrimaries\<close> in \<open>src/modules/auth/auth.service.ts\<close>).
\<close>

subsection \<open>Repository lookups used here\<close>

definition children_findByIinCrossTenant :: "string \<Rightarrow> billing_db \<Rightarrow> ChildState list" where
  "children_findByIinCrossTenant iin db =
     rev (sort_key ch_createdAt (filter (\<lambda>r. ch_iin r = Some iin \<and> ch_status r \<noteq> ChildArchived) (db_children db)))"

definition children_findByIdsCrossTenant :: "uuid list \<Rightarrow> billing_db \<Rightarrow> ChildState list" where
  "children_findByIdsCrossTenant ids db = filter (\<lambda>r. List.member ids (ch_id r)) (db_children db)"

definition guardians_findPendingPrimaryByUserIdCrossTenant :: "uuid \<Rightarrow> billing_db \<Rightarrow> ChildGuardianState list" where
  "guardians_findPendingPrimaryByUserIdCrossTenant userId db =
     sort_key gd_createdAt (filter (\<lambda>r. gd_userId r = userId \<and> gd_role r = PrimaryGuardian
       \<and> gd_status r = PendingApproval) (db_guardians db))"

definition guardians_findApprovedActiveByUserIdCrossTenant ::
  "uuid \<Rightarrow> uuid option \<Rightarrow> billing_db \<Rightarrow> ChildGuardianState list" where
  "guardians_findApprovedActiveByUserIdCrossTenant userId kg db =
     sort_key gd_createdAt (filter (\<lambda>r. gd_userId r = userId \<and> active_guardian r
       \<and> (case kg of None \<Rightarrow> True | Some k \<Rightarrow> gd_kindergartenId r = k)) (db_guardians db))"

definition guardians_findApprovedActivePickupGuardian ::
  "uuid \<Rightarrow> uuid \<Rightarrow> uuid \<Rightarrow> billing_db \<Rightarrow> ChildGuardianState option" where
  "guardians_findApprovedActivePickupGuardian kg childId userId db =
     find (\<lambda>r. gd_kindergartenId r = kg \<and> gd_childId r = childId \<and> gd_userId r = userId
       \<and> active_guardian r \<and> gd_canPickup r) (db_guardians db)"

definition guardians_findApprovedActiveByUserAndChild ::
  "uuid \<Rightarrow> uuid \<Rightarrow> uuid \<Rightarrow> billing_db \<Rightarrow> ChildGuardianState option" where
  "guardians_findApprovedActiveByUserAndChild kg childId userId db =
     find (\<lambda>r. gd_kindergartenId r = kg \<and> gd_childId r = childId \<and> gd_userId r = userId
       \<and> active_guardian r) (db_guardians db)"

text \<open>Users by id and phone; \<open>upsertByPhone\<close> creates the missing one.\<close>

definition users_findById :: "uuid \<Rightarrow> billing_db \<Rightarrow> (uuid \<times> string) option" where
  "users_findById i db = find (\<lambda>u. fst u = i) (db_users db)"

definition users_findByPhone :: "string \<Rightarrow> billing_db \<Rightarrow> (uuid \<times> string) option" where
  "users_findByPhone phone db = find (\<lambda>u. snd u = phone) (db_users db)"

definition users_upsertByPhone :: "billing_env \<Rightarrow> string \<Rightarrow> (uuid \<times> string) op" where
  "users_upsertByPhone E phone =
     bindM (readM (users_findByPhone phone)) (\<lambda>existing.
     case existing of
       Some u \<Rightarrow> returnM u
     | None \<Rightarrow>
         bindM (randomUUID E) (\<lambda>i.
         bindM (modifyM (\<lambda>db. db\<lparr>db_users := db_users db @ [(i, phone)]\<rparr>)) (\<lambda>_.
         returnM (i, phone))))"

text \<open>\<open>E164_RE\<close>\<close>

definition E164_RE :: "string \<Rightarrow> bool" where
  "E164_RE s \<longleftrightarrow> 3 \<le> length s \<and> length s \<le> 16 \<and> s ! 0 = CHR ''+'' \<and> s ! 1 \<noteq> CHR ''0''
     \<and> list_all is_digit (tl s)"

definition parse_phone :: "string \<Rightarrow> unit op" where
  "parse_phone raw = (if E164_RE raw then returnM () else throwM (InvariantViolation ''phone must be E.164''))"

subsection \<open>Steps shared by the operations\<close>

definition approved_primary :: "uuid \<Rightarrow> uuid \<Rightarrow> billing_db \<Rightarrow> ChildGuardianState option" where
  "approved_primary kg childId db =
     find (\<lambda>g. gd_role g = PrimaryGuardian \<and> gd_status g = GuardianApproved) (guardians_findByChildId kg childId db)"

definition announce_pending ::
  "uuid \<Rightarrow> ChildState \<Rightarrow> uuid \<Rightarrow> GuardianRelation \<Rightarrow> unit op" where
  "announce_pending kg child requester role =
     bindM (readM (approved_primary kg (ch_id child))) (\<lambda>primary.
     case primary of
       None \<Rightarrow> returnM ()
     | Some p \<Rightarrow> emitM (GuardianPendingApprovalEv kg (ch_id child) (ch_fullName child) (gd_userId p) requester role))"

definition assertCallerIsApprovedPrimary :: "uuid \<Rightarrow> uuid \<Rightarrow> uuid \<Rightarrow> unit op" where
  "assertCallerIsApprovedPrimary kg childId userId =
     bindM (readM (guardians_findActiveByChildAndUser kg childId userId)) (\<lambda>caller.
     if (case caller of None \<Rightarrow> False | Some c \<Rightarrow> gd_role c = PrimaryGuardian \<and> gd_status c = GuardianApproved)
     then returnM () else throwM (NotPrimaryGuardian userId childId))"

text \<open>A guardian of the tenant, of that child where staff names one.\<close>

definition guardian_or_throw :: "uuid \<Rightarrow> uuid option \<Rightarrow> uuid \<Rightarrow> ChildGuardianState op" where
  "guardian_or_throw kg childId guardianId =
     bindM (readM (guardians_findById kg guardianId)) (\<lambda>found.
     bindM (orThrow found (GuardianNotFound guardianId)) (\<lambda>g.
     case childId of
       None \<Rightarrow> returnM g
     | Some c \<Rightarrow> bindM (parse_uuid ''child_id'' c) (\<lambda>_.
         if gd_childId g = c then returnM g else throwM (GuardianNotFound guardianId))))"

text \<open>The guarded write of a transition, and the conflict it reports.\<close>

definition write_guarded :: "ChildGuardianState \<Rightarrow> ChildGuardianState \<Rightarrow> unit op" where
  "write_guarded before after =
     bindM (guardians_updateWithExpectedStatus after (gd_status before)) (\<lambda>ok.
     if ok then returnM () else throwM (GuardianStatusConflict (gd_id before) (gd_status before)))"

text \<open>At most two approvers: the advisory lock makes count and grant one step.\<close>

definition check_approval_cap :: "uuid \<Rightarrow> uuid \<Rightarrow> unit op" where
  "check_approval_cap kg childId =
     bindM (guardians_acquireApprovalRightsLock kg childId) (\<lambda>_.
     bindM (readM (guardians_countApprovalRights kg childId)) (\<lambda>current.
     if 2 \<le> current then throwM (MaxApprovalRightsExceeded childId) else returnM ()))"

subsection \<open>Invitation and staff\<close>

record InviteGuardianInput =
  ig_childId :: uuid
  ig_userPhone :: "string option"
  ig_userId :: "uuid option"
  ig_role :: GuardianRelation
  ig_canPickup :: "bool option"
  ig_invitedByUserId :: uuid

definition invited_user :: "billing_env \<Rightarrow> InviteGuardianInput \<Rightarrow> uuid op" where
  "invited_user E input =
     (case ig_userPhone input of
        Some phone \<Rightarrow>
          bindM (parse_phone phone) (\<lambda>_.
          bindM (users_upsertByPhone E phone) (\<lambda>u.
          bindM (parse_uuid ''user_id'' (fst u)) (\<lambda>_. returnM (fst u))))
      | None \<Rightarrow>
          (let i = the (ig_userId input) in
           bindM (parse_uuid ''user_id'' i) (\<lambda>_.
           bindM (readM (users_findById i)) (\<lambda>u.
           if u = None then throwM (NotFound ''user'' i) else returnM i))))"

definition inviteGuardian :: "billing_env \<Rightarrow> uuid \<Rightarrow> InviteGuardianInput \<Rightarrow> ChildGuardianState op" where
  "inviteGuardian E kg input =
     (let childId = ig_childId input in
      if (ig_userPhone input = None) = (ig_userId input = None)
      then throwM (ProgrammingError ''inviteGuardian: provide exactly one of userPhone or userId'')
      else
        bindM (parse_uuid ''kindergarten_id'' kg) (\<lambda>_.
        bindM (parse_uuid ''child_id'' childId) (\<lambda>_.
        bindM (child_or_throw kg childId) (\<lambda>child.
        bindM (invited_user E input) (\<lambda>userId.
        bindM (readM (guardians_findActiveByChildAndUser kg childId userId)) (\<lambda>dup.
        if dup \<noteq> None then throwM (DuplicateGuardian childId userId)
        else
          bindM (randomUUID E) (\<lambda>i.
          bindM (nowM E) (\<lambda>now.
          bindM (liftE GuardianErr (guardian_createPending i kg childId userId (ig_role input) (ig_canPickup input) now)) (\<lambda>guardian.
          bindM (guardians_create guardian) (\<lambda>_.
          bindM (announce_pending kg child (ig_invitedByUserId input) (ig_role input)) (\<lambda>_.
          returnM guardian)))))))))))"

definition updateGuardianRoleAndPickup ::
  "billing_env \<Rightarrow> uuid \<Rightarrow> uuid \<Rightarrow> uuid \<Rightarrow> GuardianRelation option \<Rightarrow> bool option \<Rightarrow> ChildGuardianState op" where
  "updateGuardianRoleAndPickup E kg childId guardianId role canPickup =
     bindM (guardian_or_throw kg (Some childId) guardianId) (\<lambda>guardian.
     bindM (nowM E) (\<lambda>now.
     bindM (liftE GuardianErr (guardian_updateRoleAndPickup role canPickup now guardian)) (\<lambda>updated.
     bindM (guardians_update updated) (\<lambda>_. returnM updated))))"

definition revokeGuardianByAdmin :: "billing_env \<Rightarrow> uuid \<Rightarrow> uuid \<Rightarrow> uuid \<Rightarrow> uuid \<Rightarrow> ChildGuardianState op" where
  "revokeGuardianByAdmin E kg childId guardianId revokedByUserId =
     bindM (parse_uuid ''kindergarten_id'' kg) (\<lambda>_.
     bindM (guardian_or_throw kg (Some childId) guardianId) (\<lambda>guardian.
     bindM (parse_uuid ''user_id'' revokedByUserId) (\<lambda>_.
     bindM (nowM E) (\<lambda>now.
     bindM (liftE GuardianErr (guardian_revoke revokedByUserId now guardian)) (\<lambda>updated.
     bindM (write_guarded guardian updated) (\<lambda>_.
     bindM (emitM (GuardianRevokedEv kg (gd_childId updated) (gd_userId updated) revokedByUserId)) (\<lambda>_.
     returnM updated)))))))"

definition approveGuardianByAdmin :: "billing_env \<Rightarrow> uuid \<Rightarrow> uuid \<Rightarrow> uuid \<Rightarrow> uuid \<Rightarrow> bool \<Rightarrow> ChildGuardianState op" where
  "approveGuardianByAdmin E kg childId guardianId approvedByUserId grantApprovalRights =
     bindM (parse_uuid ''kindergarten_id'' kg) (\<lambda>_.
     bindM (guardian_or_throw kg (Some childId) guardianId) (\<lambda>guardian.
     bindM (parse_uuid ''user_id'' approvedByUserId) (\<lambda>_.
     let isPrimary = gd_role guardian = PrimaryGuardian; grant = (if isPrimary then True else grantApprovalRights) in
     bindM (whenM (grant \<and> \<not> isPrimary) (check_approval_cap kg (gd_childId guardian))) (\<lambda>_.
     bindM (nowM E) (\<lambda>now.
     bindM (liftE GuardianErr (guardian_approve approvedByUserId now grant guardian)) (\<lambda>updated.
     bindM (write_guarded guardian updated) (\<lambda>_.
     bindM (emitM (GuardianApprovedEv kg (gd_childId updated) (gd_userId updated) approvedByUserId (gd_hasApprovalRights updated))) (\<lambda>_.
     returnM updated))))))))"

definition rejectGuardianByAdmin :: "billing_env \<Rightarrow> uuid \<Rightarrow> uuid \<Rightarrow> uuid \<Rightarrow> uuid \<Rightarrow> ChildGuardianState op" where
  "rejectGuardianByAdmin E kg childId guardianId rejectedByUserId =
     bindM (parse_uuid ''kindergarten_id'' kg) (\<lambda>_.
     bindM (guardian_or_throw kg (Some childId) guardianId) (\<lambda>guardian.
     bindM (nowM E) (\<lambda>now.
     bindM (liftE GuardianErr (guardian_reject now guardian)) (\<lambda>updated.
     bindM (write_guarded guardian updated) (\<lambda>_.
     bindM (emitM (GuardianRejectedEv kg (gd_childId updated) (gd_userId updated) rejectedByUserId)) (\<lambda>_.
     returnM updated))))))"

subsection \<open>The primary guardian\<close>

text \<open>What every operation of a primary starts with.\<close>

definition guardian_of_primary :: "uuid \<Rightarrow> uuid \<Rightarrow> uuid \<Rightarrow> ChildGuardianState op" where
  "guardian_of_primary kg primaryUserId guardianId =
     bindM (guardian_or_throw kg None guardianId) (\<lambda>guardian.
     bindM (assertCallerIsApprovedPrimary kg (gd_childId guardian) primaryUserId) (\<lambda>_.
     returnM guardian))"

definition approveGuardian :: "billing_env \<Rightarrow> uuid \<Rightarrow> uuid \<Rightarrow> uuid \<Rightarrow> bool \<Rightarrow> ChildGuardianState op" where
  "approveGuardian E kg primaryUserId guardianId grantApprovalRights =
     bindM (parse_uuid ''kindergarten_id'' kg) (\<lambda>_.
     bindM (parse_uuid ''user_id'' primaryUserId) (\<lambda>_.
     bindM (guardian_of_primary kg primaryUserId guardianId) (\<lambda>guardian.
     bindM (whenM grantApprovalRights (check_approval_cap kg (gd_childId guardian))) (\<lambda>_.
     bindM (nowM E) (\<lambda>now.
     bindM (liftE GuardianErr (guardian_approve primaryUserId now grantApprovalRights guardian)) (\<lambda>updated.
     bindM (write_guarded guardian updated) (\<lambda>_.
     bindM (emitM (GuardianApprovedEv kg (gd_childId updated) (gd_userId updated) primaryUserId (gd_hasApprovalRights updated))) (\<lambda>_.
     returnM updated))))))))"

definition rejectGuardian :: "billing_env \<Rightarrow> uuid \<Rightarrow> uuid \<Rightarrow> uuid \<Rightarrow> ChildGuardianState op" where
  "rejectGuardian E kg primaryUserId guardianId =
     bindM (parse_uuid ''kindergarten_id'' kg) (\<lambda>_.
     bindM (parse_uuid ''user_id'' primaryUserId) (\<lambda>_.
     bindM (guardian_of_primary kg primaryUserId guardianId) (\<lambda>guardian.
     bindM (nowM E) (\<lambda>now.
     bindM (liftE GuardianErr (guardian_reject now guardian)) (\<lambda>updated.
     bindM (write_guarded guardian updated) (\<lambda>_.
     bindM (emitM (GuardianRejectedEv kg (gd_childId updated) (gd_userId updated) primaryUserId)) (\<lambda>_.
     returnM updated)))))))"

definition revokeGuardianByPrimary :: "billing_env \<Rightarrow> uuid \<Rightarrow> uuid \<Rightarrow> uuid \<Rightarrow> ChildGuardianState op" where
  "revokeGuardianByPrimary E kg primaryUserId guardianId =
     bindM (parse_uuid ''kindergarten_id'' kg) (\<lambda>_.
     bindM (parse_uuid ''user_id'' primaryUserId) (\<lambda>_.
     bindM (guardian_of_primary kg primaryUserId guardianId) (\<lambda>guardian.
     if gd_userId guardian = primaryUserId then throwM (PrimaryCannotSelfRevoke primaryUserId)
     else
       bindM (nowM E) (\<lambda>now.
       bindM (liftE GuardianErr (guardian_revoke primaryUserId now guardian)) (\<lambda>updated.
       bindM (write_guarded guardian updated) (\<lambda>_.
       bindM (emitM (GuardianRevokedEv kg (gd_childId updated) (gd_userId updated) primaryUserId)) (\<lambda>_.
       returnM updated)))))))"

definition toggleGuardianApprovalRights :: "billing_env \<Rightarrow> uuid \<Rightarrow> uuid \<Rightarrow> uuid \<Rightarrow> bool \<Rightarrow> ChildGuardianState op" where
  "toggleGuardianApprovalRights E kg primaryUserId guardianId grant =
     bindM (parse_uuid ''user_id'' primaryUserId) (\<lambda>_.
     bindM (guardian_of_primary kg primaryUserId guardianId) (\<lambda>guardian.
     bindM (whenM (grant \<and> \<not> gd_hasApprovalRights guardian) (check_approval_cap kg (gd_childId guardian))) (\<lambda>_.
     bindM (nowM E) (\<lambda>now.
     bindM (liftE GuardianErr (guardian_toggleApprovalRights grant now guardian)) (\<lambda>updated.
     bindM (guardians_update updated) (\<lambda>_. returnM updated))))))"

text \<open>Writing permissions, and the effective ones that are announced.\<close>

definition save_permissions :: "uuid \<Rightarrow> uuid \<Rightarrow> ChildGuardianState \<Rightarrow> (ChildGuardianState \<times> permissions) op" where
  "save_permissions kg primaryUserId updated =
     bindM (guardians_update updated) (\<lambda>_.
     let effective = permissions_effective (gd_permissions updated) (gd_role updated) in
     bindM (emitM (PermissionsUpdatedEv kg (gd_childId updated) (gd_userId updated) primaryUserId effective)) (\<lambda>_.
     returnM (updated, effective)))"

definition updateGuardianPermissions ::
  "billing_env \<Rightarrow> uuid \<Rightarrow> uuid \<Rightarrow> uuid \<Rightarrow> json_object \<Rightarrow> (ChildGuardianState \<times> permissions) op" where
  "updateGuardianPermissions E kg primaryUserId guardianId perms =
     bindM (parse_uuid ''kindergarten_id'' kg) (\<lambda>_.
     bindM (parse_uuid ''user_id'' primaryUserId) (\<lambda>_.
     bindM (liftE (\<lambda>e. GuardianErr (PermissionErr e)) (permissions_fromObject perms)) (\<lambda>patch.
     bindM (guardian_of_primary kg primaryUserId guardianId) (\<lambda>guardian.
     bindM (nowM E) (\<lambda>now.
     bindM (liftE GuardianErr (guardian_applyPermissionsPatch patch primaryUserId now guardian)) (\<lambda>updated.
     save_permissions kg primaryUserId updated))))))"

definition resetGuardianPermissions :: "billing_env \<Rightarrow> uuid \<Rightarrow> uuid \<Rightarrow> uuid \<Rightarrow> (ChildGuardianState \<times> permissions) op" where
  "resetGuardianPermissions E kg primaryUserId guardianId =
     bindM (parse_uuid ''kindergarten_id'' kg) (\<lambda>_.
     bindM (parse_uuid ''user_id'' primaryUserId) (\<lambda>_.
     bindM (guardian_of_primary kg primaryUserId guardianId) (\<lambda>guardian.
     bindM (nowM E) (\<lambda>now.
     bindM (liftE GuardianErr (guardian_resetPermissions primaryUserId now guardian)) (\<lambda>updated.
     save_permissions kg primaryUserId updated)))))"

subsection \<open>Self service\<close>

text \<open>
  Linking a child by its IIN, across tenants; \<open>exceeded\<close> is the answer of the rate limiter.
\<close>

definition linkChildByIin ::
  "billing_env \<Rightarrow> bool \<Rightarrow> uuid \<Rightarrow> string \<Rightarrow> GuardianRelation \<Rightarrow> bool option \<Rightarrow> (ChildGuardianState \<times> ChildState) op" where
  "linkChildByIin E exceeded callerUserId iin role canPickup =
     bindM (parse_uuid ''user_id'' callerUserId) (\<lambda>_.
     if exceeded then throwM ParentLinkRateLimit
     else
       bindM (readM (children_findByIinCrossTenant iin)) (\<lambda>candidates.
       case candidates of
         [] \<Rightarrow> throwM (ChildNotFoundForIin iin)
       | [child] \<Rightarrow>
           (let kg = ch_kindergartenId child in
            if \<not> UUID_RE kg then throwM (ProgrammingError (''invalid_kindergarten_id: '' @ kg))
            else
              bindM (readM (guardians_findActiveByChildAndUser kg (ch_id child) callerUserId)) (\<lambda>existing.
              case existing of
                Some g \<Rightarrow> throwM (if gd_status g = GuardianApproved then AlreadyLinkedToChild (ch_id child) callerUserId
                                   else AlreadyPendingForChild (ch_id child) callerUserId)
              | None \<Rightarrow>
                  bindM (randomUUID E) (\<lambda>i.
                  bindM (parse_uuid ''child_id'' (ch_id child)) (\<lambda>_.
                  bindM (nowM E) (\<lambda>now.
                  bindM (liftE GuardianErr (guardian_createPending i kg (ch_id child) callerUserId role
                    (Some (case canPickup of None \<Rightarrow> False | Some b \<Rightarrow> b)) now)) (\<lambda>guardian.
                  bindM (guardians_create guardian) (\<lambda>_.
                  bindM (announce_pending kg child callerUserId role) (\<lambda>_.
                  returnM (guardian, child)))))))))
       | _ # _ # _ \<Rightarrow> throwM (MultipleChildrenForIin iin)))"

definition selfUnlinkFromChild :: "billing_env \<Rightarrow> uuid \<Rightarrow> uuid \<Rightarrow> uuid \<Rightarrow> unit op" where
  "selfUnlinkFromChild E kg callerUserId childId =
     bindM (readM (guardians_findActiveByChildAndUser kg childId callerUserId)) (\<lambda>found.
     case found of
       None \<Rightarrow> throwM (ChildAccessDenied callerUserId childId)
     | Some guardian \<Rightarrow>
         if gd_status guardian \<noteq> GuardianApproved then throwM (ChildAccessDenied callerUserId childId)
         else
           bindM (nowM E) (\<lambda>revokedAt.
           bindM (liftE GuardianErr (guardian_revokeBySelf revokedAt guardian)) (\<lambda>updated.
           bindM (write_guarded guardian updated) (\<lambda>_.
           emitM (GuardianSelfRevokedEv kg childId callerUserId revokedAt)))))"

definition listMyChildren :: "uuid \<Rightarrow> uuid \<Rightarrow> billing_db \<Rightarrow> ChildState list" where
  "listMyChildren kg userId db =
     List.map_filter (\<lambda>g. children_findById kg (gd_childId g) db) (guardians_findApprovedByUser kg userId db)"

definition listMyChildrenCrossTenant :: "uuid \<Rightarrow> billing_db \<Rightarrow> ChildState list" where
  "listMyChildrenCrossTenant userId db =
     children_findByIdsCrossTenant (map gd_childId (guardians_findApprovedActiveByUserIdCrossTenant userId None db)) db"

text \<open>Primaries that were seeded by the enrolment are approved when their owner logs in.\<close>

definition auto_approve_one :: "instant \<Rightarrow> ChildGuardianState \<Rightarrow> unit op" where
  "auto_approve_one now guardian =
     (if \<not> UUID_RE (gd_kindergartenId guardian) then returnM ()
      else
        bindM (liftE GuardianErr (guardian_autoApproveAsPrimary now guardian)) (\<lambda>updated.
        bindM (guardians_update updated) (\<lambda>_.
        emitM (GuardianApprovedEv (gd_kindergartenId updated) (gd_childId updated) (gd_userId updated)
          (gd_userId updated) (gd_hasApprovalRights updated)))))"

definition autoApprovePendingPrimaries :: "uuid \<Rightarrow> instant \<Rightarrow> unit op" where
  "autoApprovePendingPrimaries userId now =
     bindM (readM (guardians_findPendingPrimaryByUserIdCrossTenant userId)) (\<lambda>pending.
     forM pending (auto_approve_one now))"

end
