(* ===== verification/Payment_Initiation.thy ===== *)
theory Payment_Initiation
  imports Guardian_Service Invoice_Service
begin

text \<open>
  Initiating a payment (\<open>initiate\<close>, \<open>assertCanPay\<close> and \<open>recallInFlightKaspiForPayer\<close> of
  \<open>src/modules/billing/payment.service.ts\<close>; \<open>payment-provider.registry.ts\<close>). What the adapter of the
  provider answers is an argument: the reason of a failure, or its result; so is the checkout address it
  still holds for a known payment. Recalling an operation at
  the provider and the polling queues are outside the model.
\<close>

subsection \<open>Who may pay\<close>

definition assertCanPay :: "uuid \<Rightarrow> uuid \<Rightarrow> uuid \<Rightarrow> unit op" where
  "assertCanPay kg userId childId =
     bindM (readM (guardians_findApprovedActiveByUserAndChild kg childId userId)) (\<lambda>found.
     bindM (orThrow found (Forbidden ''not_a_guardian'')) (\<lambda>guardian.
     if gd_role guardian = NannyGuardian then throwM (Forbidden ''nanny_cannot_pay'')
     else if map_of (permissions_effective (gd_permissions guardian) (gd_role guardian)) ''pay_invoices'' \<noteq> Some True
     then throwM (Forbidden ''secondary_pay_not_allowed'')
     else returnM ()))"

subsection \<open>Initiating\<close>

datatype PaymentInitiationMode = FullPayment | PartialPayment

record InitiatePaymentInput =
  ip_invoiceId :: uuid
  ip_amount :: rat
  ip_paymentMode :: PaymentInitiationMode
  ip_provider :: PaymentProvider
  ip_idempotencyKey :: string
  ip_payerUserId :: "uuid option"

datatype CreatePaymentStatus = CreateInitiated | CreateCompleted | CreateFailed

record CreatePaymentResult =
  cp_providerPaymentId :: string
  cp_redirectUrl :: "string option"
  cp_deeplink :: "string option"
  cp_providerPayload :: "json_object option"
  cp_status :: CreatePaymentStatus

record InitiatePaymentResult =
  ir_payment :: PaymentState
  ir_redirectUrl :: "string option"
  ir_deeplink :: "string option"

definition forInitiation :: "billing_env \<Rightarrow> PaymentProvider \<Rightarrow> unit op" where
  "forInitiation E provider =
     (if List.member (env_enabledProviders E) provider then returnM () else throwM (PaymentProviderUnavailable provider))"

definition str_prop :: "string \<Rightarrow> PaymentState \<Rightarrow> string option" where
  "str_prop k p = (case map_of (payload_of p) k of Some (JStr s) \<Rightarrow> Some s | _ \<Rightarrow> None)"

definition readRedirectFromPayload :: "PaymentState \<Rightarrow> InitiatePaymentResult" where
  "readRedirectFromPayload p = \<lparr>ir_payment = p, ir_redirectUrl = str_prop ''redirect_url'' p, ir_deeplink = str_prop ''deeplink'' p\<rparr>"

text \<open>
  The answer for a key that is known already. BCC is asked for its checkout: the address built from the
  token the checkout store still holds for the payment, none once the token is consumed or has expired.
\<close>

definition getExistingPaymentContinuation :: "string option \<Rightarrow> string op" where
  "getExistingPaymentContinuation checkout = orThrow checkout BccCheckoutExpired"

definition known_payment :: "string option \<Rightarrow> PaymentState \<Rightarrow> InitiatePaymentResult op" where
  "known_payment checkout p =
     (if pay_provider p = BccProvider
      then bindM (getExistingPaymentContinuation checkout) (\<lambda>url.
           returnM \<lparr>ir_payment = p, ir_redirectUrl = Some url, ir_deeplink = None\<rparr>)
      else returnM (readRedirectFromPayload p))"

text \<open>The guards on the invoice and the amount.\<close>

definition payable :: "billing_env \<Rightarrow> InvoiceState \<Rightarrow> unit op" where
  "payable E invoice =
     (if inv_status invoice = InvPaid \<or> inv_status invoice = InvRefunded
      then throwM (InvoiceErr (InvoiceAlreadyPaid (inv_id invoice)))
      else if \<not> unpaid_status (inv_status invoice)
      then throwM (InvoiceErr (InvoiceStatusInvalid (inv_status invoice) ''initiate_payment''))
      else returnM ())"

definition amount_guard :: "billing_env \<Rightarrow> InvoiceState \<Rightarrow> PaymentInitiationMode \<Rightarrow> kzt \<Rightarrow> kzt \<Rightarrow> unit op" where
  "amount_guard E invoice mode remaining amount =
     (if \<not> isPositive remaining then throwM (InvoiceErr (InvoiceAlreadyPaid (inv_id invoice)))
      else if mode = PartialPayment \<and> isPrepayment (inv_invoiceType invoice)
      then throwM (PrepaymentPartialNotAllowed (inv_id invoice) (inv_invoiceType invoice)
        (kzt_toNumber (env_decimal E) remaining))
      else if mode = FullPayment \<and> amount \<noteq> remaining
      then throwM (InvoiceErr (InvoiceStatusInvalid (inv_status invoice) ''amount_mismatch_full''))
      else if mode = PartialPayment \<and> (\<not> isPositive amount \<or> amount > remaining)
      then throwM (InvoiceErr (InvoiceStatusInvalid (inv_status invoice) ''amount_mismatch_partial''))
      else returnM ())"

text \<open>Earlier requests of the same payer for the same invoice, still in flight at Kaspi.\<close>

definition in_flight_kaspi :: "uuid \<Rightarrow> PaymentState \<Rightarrow> bool" where
  "in_flight_kaspi payer p \<longleftrightarrow> (pay_status p = PayInitiated \<or> pay_status p = PayProcessing)
     \<and> pay_provider p = KaspiPay \<and> pay_payerUserId p = Some payer"

definition recallInFlightKaspiForPayer :: "billing_env \<Rightarrow> uuid \<Rightarrow> uuid \<Rightarrow> uuid \<Rightarrow> unit op" where
  "recallInFlightKaspiForPayer E kg invoiceId payerUserId =
     bindM (readM (payments_findByInvoiceId kg invoiceId)) (\<lambda>existing.
     bindM (nowM E) (\<lambda>now.
     forM (filter (in_flight_kaspi payerUserId) existing) (\<lambda>prev.
       bindM (payments_markFailedConditional kg (pay_id prev) ''superseded_by_new_payment'' None now) (\<lambda>_. returnM ()))))"

definition initiated_payment :: "uuid \<Rightarrow> uuid \<Rightarrow> InvoiceState \<Rightarrow> kzt \<Rightarrow> InitiatePaymentInput \<Rightarrow> instant \<Rightarrow> PaymentState" where
  "initiated_payment i kg invoice amount input now =
     \<lparr>pay_id = i, pay_kindergartenId = kg, pay_invoiceId = inv_id invoice, pay_childId = inv_childId invoice,
      pay_payerUserId = ip_payerUserId input, pay_amount = amount, pay_provider = ip_provider input,
      pay_providerTxnId = None, pay_idempotencyKey = ip_idempotencyKey input, pay_status = PayInitiated,
      pay_providerPayload = None, pay_paidAt = None, pay_refundId = None,
      pay_reconciliationAttempts = 0, pay_lastReconciledAt = None, pay_nextReconciliationAt = None,
      pay_manualReviewRequiredAt = None, pay_refundRequired = False, pay_refundReason = None,
      pay_duplicateOfPaymentId = None, pay_createdAt = now, pay_updatedAt = now\<rparr>"

definition redirect_payload :: "PaymentProvider \<Rightarrow> CreatePaymentResult \<Rightarrow> json_object" where
  "redirect_payload provider r =
     obj_merge ((case cp_redirectUrl r of Some u \<Rightarrow> if u \<noteq> [] \<and> provider \<noteq> BccProvider then [(''redirect_url'', JStr u)] else [] | None \<Rightarrow> [])
        @ (case cp_deeplink r of Some u \<Rightarrow> if u \<noteq> [] then [(''deeplink'', JStr u)] else [] | None \<Rightarrow> []))
       (case cp_providerPayload r of None \<Rightarrow> [] | Some obj \<Rightarrow> obj)"

definition BCC_RECONCILIATION_INITIAL_DELAY_MS :: int where
  "BCC_RECONCILIATION_INITIAL_DELAY_MS = 5 * 60000"

text \<open>What is done with the provider's answer.\<close>

definition apply_answer :: "billing_env \<Rightarrow> uuid \<Rightarrow> PaymentState \<Rightarrow> CreatePaymentResult \<Rightarrow> PaymentState op" where
  "apply_answer E kg p r =
     (let payload = redirect_payload (pay_provider p) r in
      case cp_status r of
        CreateCompleted \<Rightarrow>
          applyCompletedPayment E kg (pay_id p) \<lparr>vw_providerPaymentId = cp_providerPaymentId r,
            vw_status = WhCompleted, vw_raw = obj_set ''status'' (JStr ''completed'') payload, vw_failureReason = None\<rparr>
      | CreateFailed \<Rightarrow>
          bindM (nowM E) (\<lambda>now.
          bindM (payments_markFailedConditional kg (pay_id p) ''provider_returned_failed''
            (Some (obj_set ''status'' (JStr ''failed'') payload)) now) (\<lambda>failed.
          returnM (case failed of None \<Rightarrow> p | Some f \<Rightarrow> f)))
      | CreateInitiated \<Rightarrow>
          bindM (nowM E) (\<lambda>updatedNow.
          bindM (payments_markProcessingConditional kg (pay_id p) updatedNow (Some (cp_providerPaymentId r)) (Some payload)) (\<lambda>_.
          bindM (readM (payments_findById kg (pay_id p))) (\<lambda>refreshed.
          let payment = (case refreshed of None \<Rightarrow> p | Some q \<Rightarrow> q) in
          if pay_provider p = BccProvider
          then bindM (payments_scheduleBccReconciliation kg (pay_id payment)
                 (pay_createdAt payment + BCC_RECONCILIATION_INITIAL_DELAY_MS) updatedNow) (\<lambda>scheduled.
               returnM (case scheduled of None \<Rightarrow> payment | Some q \<Rightarrow> q))
          else returnM payment))))"

text \<open>The INSERT runs in a savepoint: losing the race for the key re-reads the winner of the tenant.\<close>

definition create_or_known :: "billing_env \<Rightarrow> uuid \<Rightarrow> PaymentState \<Rightarrow> (PaymentState + PaymentState) op" where
  "create_or_known E kg p =
     catchM (bindM (payments_create (env_decimal E) p) (\<lambda>created. returnM (Inr created)))
       (\<lambda>err. case err of
          PaymentIdempotencyConflict k \<Rightarrow>
            bindM (readM (payments_findByIdempotencyKey kg (pay_idempotencyKey p))) (\<lambda>winner.
            case winner of None \<Rightarrow> throwM err | Some w \<Rightarrow> returnM (Inl w))
        | _ \<Rightarrow> throwM err)"

definition initiate_new ::
  "billing_env \<Rightarrow> uuid \<Rightarrow> InitiatePaymentInput \<Rightarrow> string + CreatePaymentResult \<Rightarrow> InitiatePaymentResult op" where
  "initiate_new E kg input answer =
     (let D = env_decimal E in
     bindM (forInitiation E (ip_provider input)) (\<lambda>_.
     bindM (if ip_provider input = BccProvider \<and> \<not> env_bccActive E kg then throwM BccNotConnected else returnM ()) (\<lambda>_.
     bindM (invoice_service_get kg (ip_invoiceId input)) (\<lambda>invoice.
     bindM (payable E invoice) (\<lambda>_.
     bindM (readM (\<lambda>db. fromKzt_number D (invoices_getPaidSumForInvoice D kg (inv_id invoice) db))) (\<lambda>paidSum.
     let remaining = kzt_sub D (inv_amountAfterDiscount invoice) paidSum;
         amount = fromKzt_number D (ip_amount input) in
     bindM (amount_guard E invoice (ip_paymentMode input) remaining amount) (\<lambda>_.
     bindM (case ip_payerUserId input of
              Some payer \<Rightarrow> whenM (ip_provider input = KaspiPay \<and> payer \<noteq> []) (recallInFlightKaspiForPayer E kg (inv_id invoice) payer)
            | None \<Rightarrow> returnM ()) (\<lambda>_.
     bindM (nowM E) (\<lambda>now.
     bindM (randomUUID E) (\<lambda>i.
     bindM (liftE PaymentErr (payment_fromState (initiated_payment i kg invoice amount input now))) (\<lambda>draft.
     bindM (create_or_known E kg draft) (\<lambda>created.
     case created of
       Inl winner \<Rightarrow> returnM (readRedirectFromPayload winner)
     | Inr payment \<Rightarrow>
         (case answer of
            Inl reason \<Rightarrow>
              bindM (payments_markFailedConditional kg (pay_id payment) reason None now) (\<lambda>_.
              throwM (PaymentProviderError (ip_provider input) reason))
          | Inr r \<Rightarrow>
              bindM (apply_answer E kg payment r) (\<lambda>p.
              returnM \<lparr>ir_payment = p, ir_redirectUrl = cp_redirectUrl r, ir_deeplink = cp_deeplink r\<rparr>))))))))))))))"

definition initiate ::
  "billing_env \<Rightarrow> uuid \<Rightarrow> InitiatePaymentInput \<Rightarrow> string option
    \<Rightarrow> string + CreatePaymentResult \<Rightarrow> InitiatePaymentResult op" where
  "initiate E kg input checkout answer =
     bindM (readM (payments_findByIdempotencyKey kg (ip_idempotencyKey input))) (\<lambda>existing.
     case existing of
       Some p \<Rightarrow> known_payment checkout p
     | None \<Rightarrow> initiate_new E kg input answer)"

end
