(* ===== verification/Tariff_Service.thy ===== *)
theory Tariff_Service
  imports Child_Repo
begin

text \<open>
  The tariff catalogue and the assignments of tariffs to children
  (\<open>src/modules/billing/tariff-plan.service.ts\<close>, \<open>tariff-assignment.service.ts\<close> and their
  repositories), and holidays (\<open>holiday.service.ts\<close>). Rows read back pass the constructors of the
  aggregates, so a window written the wrong way round makes the operation throw.
\<close>

subsection \<open>The catalogue\<close>

record CreateTariffPlanInput =
  ctp_name :: string
  ctp_description :: "(string \<times> string) list option"
  ctp_tariffType :: TariffType
  ctp_amount :: rat
  ctp_currency :: "string option"
  ctp_appliesTo :: TariffAppliesTo
  ctp_groupId :: "uuid option"
  ctp_ageMinMonths :: "int option"
  ctp_ageMaxMonths :: "int option"
  ctp_validFrom :: instant
  ctp_validUntil :: "instant option"
  ctp_discountRules :: "DiscountRules option"

definition no_rules :: DiscountRules where
  "no_rules = \<lparr>sibling_discount_pct = None, prepay_3m_pct = None, prepay_6m_pct = None, prepay_12m_pct = None,
     prepay_24m_pct = None, benefit_category = None\<rparr>"

definition plan_of :: "decimal_lib \<Rightarrow> uuid \<Rightarrow> uuid \<Rightarrow> CreateTariffPlanInput \<Rightarrow> instant \<Rightarrow> TariffPlanState" where
  "plan_of D i kg input now =
     \<lparr>tp_id = i, tp_kindergartenId = kg, tp_name = ctp_name input,
      tp_description = (case ctp_description input of None \<Rightarrow> [] | Some d \<Rightarrow> d),
      tp_tariffType = ctp_tariffType input, tp_amount = fromKzt_number D (ctp_amount input),
      tp_currency = (case ctp_currency input of None \<Rightarrow> ''KZT'' | Some c \<Rightarrow> c),
      tp_appliesTo = ctp_appliesTo input, tp_groupId = ctp_groupId input,
      tp_ageMinMonths = ctp_ageMinMonths input, tp_ageMaxMonths = ctp_ageMaxMonths input, tp_isActive = True,
      tp_validFrom = ctp_validFrom input, tp_validUntil = ctp_validUntil input,
      tp_discountRules = (case ctp_discountRules input of None \<Rightarrow> no_rules | Some r \<Rightarrow> r),
      tp_createdAt = now, tp_updatedAt = now\<rparr>"

text \<open>What is stored of it: whole days and two decimals.\<close>

definition plan_row :: "decimal_lib \<Rightarrow> TariffPlanState \<Rightarrow> TariffPlanState" where
  "plan_row D s = s\<lparr>tp_amount := kzt_column D (tp_amount s), tp_validFrom := toDateColumn (tp_validFrom s),
     tp_validUntil := map_option toDateColumn (tp_validUntil s)\<rparr>"

text \<open>The CHECK constraints of the table.\<close>

definition plan_checked :: "TariffPlanState \<Rightarrow> bool" where
  "plan_checked r \<longleftrightarrow> 0 \<le> tp_amount r \<and> (case tp_ageMinMonths r of None \<Rightarrow> True | Some n \<Rightarrow> 0 \<le> n)
     \<and> (case tp_ageMaxMonths r of None \<Rightarrow> True | Some n \<Rightarrow> 0 \<le> n)"

definition plans_create :: "decimal_lib \<Rightarrow> TariffPlanState \<Rightarrow> unit op" where
  "plans_create D s db =
     (if list_ex (\<lambda>r. tp_id r = tp_id s) (db_plans db) then Inl (DbUniqueViolation ''tariff_plans'')
      else if \<not> plan_checked (plan_row D s) then Inl (DbCheckViolation ''tariff_plans'')
      else Inr ((), db\<lparr>db_plans := db_plans db @ [plan_row D s]\<rparr>))"

text \<open>The names of the two enums in the scope of the lock.\<close>

fun tariffType_name :: "TariffType \<Rightarrow> string" where
  "tariffType_name TariffMonthly = ''monthly''"
| "tariffType_name TariffAdditionalService = ''additional_service''"
| "tariffType_name TariffLatePickupFee = ''late_pickup_fee''"
| "tariffType_name TariffPrepayment3m = ''prepayment_3m''"
| "tariffType_name TariffPrepayment6m = ''prepayment_6m''"
| "tariffType_name TariffPrepayment12m = ''prepayment_12m''"
| "tariffType_name TariffPrepayment24m = ''prepayment_24m''"
| "tariffType_name TariffOther = ''other''"

fun appliesTo_name :: "TariffAppliesTo \<Rightarrow> string" where
  "appliesTo_name AppliesAllChildren = ''all_children''"
| "appliesTo_name AppliesGroup = ''group''"
| "appliesTo_name AppliesAgeRange = ''age_range''"
| "appliesTo_name AppliesIndividual = ''individual''"

definition plans_acquireOverlapAdvisoryLock :: "uuid \<Rightarrow> TariffType \<Rightarrow> TariffAppliesTo \<Rightarrow> uuid option \<Rightarrow> unit op" where
  "plans_acquireOverlapAdvisoryLock kg tariffType appliesTo groupId =
     lockM (''tariff-overlap:'' @ kg @ '':'' @ tariffType_name tariffType @ '':'' @ appliesTo_name appliesTo @ '':'' @ (case groupId of None \<Rightarrow> ''null'' | Some g \<Rightarrow> g))"

definition tariffPlan_create :: "billing_env \<Rightarrow> uuid \<Rightarrow> CreateTariffPlanInput \<Rightarrow> TariffPlanState op" where
  "tariffPlan_create E kg input =
     bindM (nowM E) (\<lambda>now.
     bindM (plans_acquireOverlapAdvisoryLock kg (ctp_tariffType input) (ctp_appliesTo input) (ctp_groupId input)) (\<lambda>_.
     bindM (readM (plans_existsOverlap kg (ctp_tariffType input) (ctp_appliesTo input) (ctp_groupId input)
       (ctp_validFrom input) (ctp_validUntil input) None)) (\<lambda>overlaps.
     if overlaps then throwM (TariffPlanOverlap (ctp_tariffType input) (ctp_appliesTo input) (ctp_groupId input))
     else
       bindM (randomUUID E) (\<lambda>i.
       bindM (liftE TariffErr (tariffPlan_fromState (plan_of (env_decimal E) i kg input now))) (\<lambda>plan.
       bindM (plans_create (env_decimal E) plan) (\<lambda>_.
       returnM plan))))))"

record UpdateTariffPlanPatch =
  utp_name :: "string option"
  utp_description :: "(string \<times> string) list option"
  utp_amount :: "rat option"
  utp_appliesTo :: "TariffAppliesTo option"
  utp_groupId :: "uuid option option"
  utp_ageMinMonths :: "int option option"
  utp_ageMaxMonths :: "int option option"
  utp_isActive :: "bool option"
  utp_validFrom :: "instant option"
  utp_validUntil :: "instant option option"
  utp_discountRules :: "DiscountRules option"

definition plan_patch :: "decimal_lib \<Rightarrow> UpdateTariffPlanPatch \<Rightarrow> instant \<Rightarrow> TariffPlanState \<Rightarrow> TariffPlanState" where
  "plan_patch D patch now r =
     r\<lparr>tp_name := patched (utp_name patch) (tp_name r), tp_description := patched (utp_description patch) (tp_description r),
       tp_amount := patched (map_option (\<lambda>a. kzt_column D (fromKzt_number D a)) (utp_amount patch)) (tp_amount r),
       tp_appliesTo := patched (utp_appliesTo patch) (tp_appliesTo r), tp_groupId := patched (utp_groupId patch) (tp_groupId r),
       tp_ageMinMonths := patched (utp_ageMinMonths patch) (tp_ageMinMonths r),
       tp_ageMaxMonths := patched (utp_ageMaxMonths patch) (tp_ageMaxMonths r),
       tp_isActive := patched (utp_isActive patch) (tp_isActive r),
       tp_validFrom := patched (map_option toDateColumn (utp_validFrom patch)) (tp_validFrom r),
       tp_validUntil := patched (map_option (map_option toDateColumn) (utp_validUntil patch)) (tp_validUntil r),
       tp_discountRules := patched (utp_discountRules patch) (tp_discountRules r), tp_updatedAt := now\<rparr>"

text \<open>The UPDATE by key, and the row read back through the constructor.\<close>

definition plans_update ::
  "decimal_lib \<Rightarrow> uuid \<Rightarrow> uuid \<Rightarrow> UpdateTariffPlanPatch \<Rightarrow> instant \<Rightarrow> TariffPlanState option op" where
  "plans_update D kg i patch now db =
     (let (res, rows) = update_returning (\<lambda>r. tp_id r = i \<and> tp_kindergartenId r = kg) (\<lambda>_. True)
            (plan_patch D patch now) (db_plans db)
      in case res of
           None \<Rightarrow> Inr (None, db\<lparr>db_plans := rows\<rparr>)
         | Some r \<Rightarrow> if \<not> plan_checked r then Inl (DbCheckViolation ''tariff_plans'')
             else (case tariffPlan_fromState r of Inl e \<Rightarrow> Inl (TariffErr e)
                      | Inr s \<Rightarrow> Inr (Some s, db\<lparr>db_plans := rows\<rparr>)))"

definition plans_save :: "decimal_lib \<Rightarrow> TariffPlanState \<Rightarrow> unit op" where
  "plans_save D s = modifyM (\<lambda>db. db\<lparr>db_plans := update_where (\<lambda>r. tp_id r = tp_id s \<and> tp_kindergartenId r = tp_kindergartenId s)
     (\<lambda>r. (plan_row D s)\<lparr>tp_tariffType := tp_tariffType r, tp_currency := tp_currency r, tp_createdAt := tp_createdAt r\<rparr>) (db_plans db)\<rparr>)"

definition tariffPlan_get :: "uuid \<Rightarrow> uuid \<Rightarrow> TariffPlanState op" where
  "tariffPlan_get kg i = bindM (plans_findById kg i) (\<lambda>found. orThrow found (TariffPlanNotFound i))"

record ListTariffPlansFilter =
  lf_isActive :: "bool option"
  lf_tariffType :: "TariffType option"
  lf_groupId :: "uuid option option"

definition plans_list :: "uuid \<Rightarrow> ListTariffPlansFilter \<Rightarrow> TariffPlanState list op" where
  "plans_list kg f =
     bindM (readM (\<lambda>db. rev (sort_key (\<lambda>r. (tp_createdAt r, tp_id r)) (filter (\<lambda>r. tp_kindergartenId r = kg
       \<and> (case lf_isActive f of None \<Rightarrow> True | Some b \<Rightarrow> tp_isActive r = b)
       \<and> (case lf_tariffType f of None \<Rightarrow> True | Some t \<Rightarrow> tp_tariffType r = t)
       \<and> (case lf_groupId f of None \<Rightarrow> True | Some g \<Rightarrow> tp_groupId r = g)) (db_plans db))))) (\<lambda>rows.
     mapM (\<lambda>r. liftE TariffErr (tariffPlan_fromState r)) rows)"

definition tariffPlan_write :: "decimal_lib \<Rightarrow> uuid \<Rightarrow> uuid \<Rightarrow> UpdateTariffPlanPatch \<Rightarrow> instant \<Rightarrow> TariffPlanState op" where
  "tariffPlan_write D kg i patch now =
     bindM (plans_update D kg i patch now) (\<lambda>updated. orThrow updated (TariffPlanNotFound i))"

definition tariffPlan_update :: "billing_env \<Rightarrow> uuid \<Rightarrow> uuid \<Rightarrow> UpdateTariffPlanPatch \<Rightarrow> TariffPlanState op" where
  "tariffPlan_update E kg i patch =
     bindM (nowM E) (\<lambda>now.
     if utp_validFrom patch = None \<and> utp_validUntil patch = None then tariffPlan_write (env_decimal E) kg i patch now
     else
       bindM (tariffPlan_get kg i) (\<lambda>existing.
       bindM (plans_acquireOverlapAdvisoryLock kg (tp_tariffType existing) (tp_appliesTo existing) (tp_groupId existing)) (\<lambda>_.
       bindM (readM (plans_existsOverlap kg (tp_tariffType existing) (tp_appliesTo existing) (tp_groupId existing)
         (patched (utp_validFrom patch) (tp_validFrom existing)) (patched (utp_validUntil patch) (tp_validUntil existing)) (Some i))) (\<lambda>overlaps.
       if overlaps then throwM (TariffPlanOverlap (tp_tariffType existing) (tp_appliesTo existing) (tp_groupId existing))
       else tariffPlan_write (env_decimal E) kg i patch now))))"

definition tariffPlan_service_deactivate :: "billing_env \<Rightarrow> uuid \<Rightarrow> uuid \<Rightarrow> TariffPlanState op" where
  "tariffPlan_service_deactivate E kg i =
     bindM (tariffPlan_get kg i) (\<lambda>plan.
     bindM (nowM E) (\<lambda>now.
     let updated = tariffPlan_deactivate now plan in
     bindM (plans_save (env_decimal E) updated) (\<lambda>_. returnM updated)))"

subsection \<open>Assignments\<close>

record AssignTariffInput =
  at_childId :: uuid
  at_tariffPlanId :: uuid
  at_customAmount :: "rat option"
  at_customReason :: "string option"
  at_validFrom :: instant
  at_validUntil :: "instant option"
  at_assignedBy :: uuid

text \<open>Reads pass the constructor of the aggregate, as those of the catalogue do.\<close>

definition assignment_by_id :: "uuid \<Rightarrow> uuid \<Rightarrow> billing_db \<Rightarrow> TariffAssignmentState option" where
  "assignment_by_id kg i db = find (\<lambda>r. ta_id r = i \<and> ta_kindergartenId r = kg) (db_assignments db)"

definition assignments_findById :: "uuid \<Rightarrow> uuid \<Rightarrow> TariffAssignmentState option op" where
  "assignments_findById kg i =
     bindM (readM (assignment_by_id kg i)) (\<lambda>found.
     case found of
       None \<Rightarrow> returnM None
     | Some r \<Rightarrow> bindM (liftE TariffErr (tariffAssignment_fromState r)) (\<lambda>s. returnM (Some s)))"

definition assignments_list :: "uuid \<Rightarrow> uuid option \<Rightarrow> TariffAssignmentState list op" where
  "assignments_list kg childId =
     bindM (readM (\<lambda>db. rev (sort_key (\<lambda>r. (ta_createdAt r, ta_id r)) (filter (\<lambda>r. ta_kindergartenId r = kg
       \<and> (case childId of None \<Rightarrow> True | Some c \<Rightarrow> ta_childId r = c)) (db_assignments db))))) (\<lambda>rows.
     mapM (\<lambda>r. liftE TariffErr (tariffAssignment_fromState r)) rows)"

definition assignment_checked :: "TariffAssignmentState \<Rightarrow> bool" where
  "assignment_checked r \<longleftrightarrow> (case ta_customAmount r of None \<Rightarrow> True | Some a \<Rightarrow> 0 \<le> a)"

definition assignments_acquireAssignChildAdvisoryLock :: "uuid \<Rightarrow> uuid \<Rightarrow> unit op" where
  "assignments_acquireAssignChildAdvisoryLock kg child = lockM (''billing:tariff-assign:'' @ kg @ '':'' @ child)"

definition assignments_create ::
  "billing_env \<Rightarrow> uuid \<Rightarrow> AssignTariffInput \<Rightarrow> TariffAssignmentState op" where
  "assignments_create E kg input =
     (let D = env_decimal E in
     bindM (randomUUID E) (\<lambda>i.
     bindM (nowM E) (\<lambda>now. \<lambda>db.
       let row = \<lparr>ta_id = i, ta_kindergartenId = kg, ta_childId = at_childId input, ta_tariffPlanId = at_tariffPlanId input,
             ta_customAmount = map_option (\<lambda>a. kzt_column D (fromKzt_number D a)) (at_customAmount input),
             ta_customReason = at_customReason input, ta_validFrom = toDateColumn (at_validFrom input),
             ta_validUntil = map_option toDateColumn (at_validUntil input), ta_assignedBy = at_assignedBy input,
             ta_createdAt = now, ta_updatedAt = now\<rparr>
       in if list_ex (\<lambda>r. ta_id r = i) (db_assignments db) then Inl (DbUniqueViolation ''tariff_assignments'')
          else if \<not> assignment_checked row then Inl (DbCheckViolation ''tariff_assignments'')
          else case tariffAssignment_fromState row of Inl e \<Rightarrow> Inl (TariffErr e)
               | Inr s \<Rightarrow> Inr (s, db\<lparr>db_assignments := db_assignments db @ [row]\<rparr>))))"

definition assign :: "billing_env \<Rightarrow> uuid \<Rightarrow> AssignTariffInput \<Rightarrow> TariffAssignmentState op" where
  "assign E kg input =
     bindM (tariffPlan_get kg (at_tariffPlanId input)) (\<lambda>_.
     bindM (assignments_acquireAssignChildAdvisoryLock kg (at_childId input)) (\<lambda>_.
     bindM (readM (assignments_existsOverlap kg (at_childId input) (at_validFrom input) (at_validUntil input) None)) (\<lambda>overlap.
     if overlap then throwM (TariffAssignmentOverlap (at_childId input)) else assignments_create E kg input)))"

record UpdateTariffAssignmentPatch =
  uta_tariffPlanId :: "uuid option"
  uta_customAmount :: "rat option option"
  uta_customReason :: "string option option"
  uta_validFrom :: "instant option"
  uta_validUntil :: "instant option option"

definition assignment_patch ::
  "decimal_lib \<Rightarrow> UpdateTariffAssignmentPatch \<Rightarrow> instant \<Rightarrow> TariffAssignmentState \<Rightarrow> TariffAssignmentState" where
  "assignment_patch D patch now r =
     r\<lparr>ta_tariffPlanId := patched (uta_tariffPlanId patch) (ta_tariffPlanId r),
       ta_customAmount := patched (map_option (map_option (\<lambda>a. kzt_column D (fromKzt_number D a))) (uta_customAmount patch)) (ta_customAmount r),
       ta_customReason := patched (uta_customReason patch) (ta_customReason r),
       ta_validFrom := patched (map_option toDateColumn (uta_validFrom patch)) (ta_validFrom r),
       ta_validUntil := patched (map_option (map_option toDateColumn) (uta_validUntil patch)) (ta_validUntil r),
       ta_updatedAt := now\<rparr>"

definition assignments_update ::
  "decimal_lib \<Rightarrow> uuid \<Rightarrow> uuid \<Rightarrow> UpdateTariffAssignmentPatch \<Rightarrow> instant \<Rightarrow> TariffAssignmentState option op" where
  "assignments_update D kg i patch now db =
     (let (res, rows) = update_returning (\<lambda>r. ta_id r = i \<and> ta_kindergartenId r = kg) (\<lambda>_. True)
            (assignment_patch D patch now) (db_assignments db)
      in case res of
           None \<Rightarrow> Inr (None, db\<lparr>db_assignments := rows\<rparr>)
         | Some r \<Rightarrow> if \<not> assignment_checked r then Inl (DbCheckViolation ''tariff_assignments'')
             else (case tariffAssignment_fromState r of Inl e \<Rightarrow> Inl (TariffErr e)
                      | Inr s \<Rightarrow> Inr (Some s, db\<lparr>db_assignments := rows\<rparr>)))"

definition assignments_save :: "decimal_lib \<Rightarrow> TariffAssignmentState \<Rightarrow> unit op" where
  "assignments_save D s = modifyM (\<lambda>db. db\<lparr>db_assignments :=
     update_where (\<lambda>r. ta_id r = ta_id s \<and> ta_kindergartenId r = ta_kindergartenId s)
       (\<lambda>r. r\<lparr>ta_tariffPlanId := ta_tariffPlanId s, ta_customAmount := map_option (kzt_column D) (ta_customAmount s),
          ta_customReason := ta_customReason s, ta_validFrom := toDateColumn (ta_validFrom s),
          ta_validUntil := map_option toDateColumn (ta_validUntil s), ta_updatedAt := ta_updatedAt s\<rparr>) (db_assignments db)\<rparr>)"

definition assignment_get :: "uuid \<Rightarrow> uuid \<Rightarrow> TariffAssignmentState op" where
  "assignment_get kg i = bindM (assignments_findById kg i) (\<lambda>found. orThrow found (TariffAssignmentNotFound i))"

text \<open>The checks of an edit: a new plan must exist, a new window must be free.\<close>

definition plan_check :: "uuid \<Rightarrow> TariffAssignmentState \<Rightarrow> UpdateTariffAssignmentPatch \<Rightarrow> unit op" where
  "plan_check kg existing patch =
     (case uta_tariffPlanId patch of
        None \<Rightarrow> returnM ()
      | Some p \<Rightarrow> if p \<noteq> ta_tariffPlanId existing then bindM (tariffPlan_get kg p) (\<lambda>_. returnM ()) else returnM ())"

definition window_check :: "uuid \<Rightarrow> uuid \<Rightarrow> TariffAssignmentState \<Rightarrow> UpdateTariffAssignmentPatch \<Rightarrow> unit op" where
  "window_check kg i existing patch =
     (if uta_validFrom patch = None \<and> uta_validUntil patch = None then returnM ()
      else
        bindM (assignments_acquireAssignChildAdvisoryLock kg (ta_childId existing)) (\<lambda>_.
        bindM (readM (assignments_existsOverlap kg (ta_childId existing)
          (patched (uta_validFrom patch) (ta_validFrom existing)) (patched (uta_validUntil patch) (ta_validUntil existing)) (Some i))) (\<lambda>overlap.
        if overlap then throwM (TariffAssignmentOverlap (ta_childId existing)) else returnM ())))"

definition assignment_update :: "billing_env \<Rightarrow> uuid \<Rightarrow> uuid \<Rightarrow> UpdateTariffAssignmentPatch \<Rightarrow> TariffAssignmentState op" where
  "assignment_update E kg i patch =
     bindM (assignment_get kg i) (\<lambda>existing.
     bindM (plan_check kg existing patch) (\<lambda>_.
     bindM (window_check kg i existing patch) (\<lambda>_.
     bindM (nowM E) (\<lambda>now.
     bindM (assignments_update (env_decimal E) kg i patch now) (\<lambda>updated.
     orThrow updated (TariffAssignmentNotFound i))))))"

definition assignment_close :: "billing_env \<Rightarrow> uuid \<Rightarrow> uuid \<Rightarrow> TariffAssignmentState op" where
  "assignment_close E kg i =
     bindM (assignment_get kg i) (\<lambda>existing.
     bindM (nowM E) (\<lambda>now.
     let updated = tariffAssignment_close now existing in
     bindM (assignments_save (env_decimal E) updated) (\<lambda>_. returnM updated)))"

subsection \<open>Holidays\<close>

definition holiday_service_create :: "billing_env \<Rightarrow> uuid \<Rightarrow> instant \<Rightarrow> (string \<times> string) list \<Rightarrow> bool option \<Rightarrow> KindergartenHolidayState op" where
  "holiday_service_create E kg date name isBillable =
     holidays_create E kg date name (case isBillable of None \<Rightarrow> False | Some b \<Rightarrow> b)"

definition holiday_service_update :: "billing_env \<Rightarrow> uuid \<Rightarrow> uuid \<Rightarrow> holiday_patch \<Rightarrow> KindergartenHolidayState op" where
  "holiday_service_update E kg i patch =
     bindM (nowM E) (\<lambda>now.
     bindM (holidays_update kg i patch now) (\<lambda>updated.
     orThrow updated (NotFound ''kindergarten_holiday'' i)))"

definition holiday_service_get :: "uuid \<Rightarrow> uuid \<Rightarrow> KindergartenHolidayState op" where
  "holiday_service_get kg i =
     bindM (readM (holidays_findById kg i)) (\<lambda>found. orThrow found (NotFound ''kindergarten_holiday'' i))"

definition holiday_service_delete :: "uuid \<Rightarrow> uuid \<Rightarrow> unit op" where
  "holiday_service_delete kg i = bindM (holiday_service_get kg i) (\<lambda>_. holidays_delete kg i)"

end
