(* ===== verification/Billing_Jobs.thy ===== *)
theory Billing_Jobs
  imports Billing_Run
begin

text \<open>
  The background workers of billing: the monthly run and the overdue run over all tenants
  (\<open>monthly-billing.processor.ts\<close>, \<open>overdue-invoice.processor.ts\<close>) and the pro-rata refund of an
  archived child (\<open>pro-rata-refund.processor.ts\<close>). Every tenant runs in a transaction of its own: an
  error undoes that tenant's work, is counted, and the loop goes on.
\<close>

subsection \<open>The loop over tenants\<close>

definition listAllKindergartens :: "billing_db \<Rightarrow> uuid list" where
  "listAllKindergartens db = sort (map fst (filter (\<lambda>(i, archived). \<not> archived) (db_kindergartens db)))"

definition per_tenant :: "(uuid \<Rightarrow> nat op) \<Rightarrow> uuid \<Rightarrow> (nat \<times> nat) op" where
  "per_tenant run kg = catchM (bindM (run kg) (\<lambda>n. returnM (n, 0))) (\<lambda>_. returnM (0, 1))"

primrec over_tenants :: "(uuid \<Rightarrow> nat op) \<Rightarrow> uuid list \<Rightarrow> (nat \<times> nat) op" where
  "over_tenants run [] = returnM (0, 0)"
| "over_tenants run (kg # kgs) =
     bindM (per_tenant run kg) (\<lambda>(n, e).
     bindM (over_tenants run kgs) (\<lambda>(ns, es).
     returnM (n + ns, e + es)))"

record tick_summary =
  ts_kindergartensProcessed :: nat
  ts_done :: nat
  ts_errors :: nat

definition tick :: "(uuid \<Rightarrow> nat op) \<Rightarrow> tick_summary op" where
  "tick run =
     bindM (readM listAllKindergartens) (\<lambda>kgIds.
     bindM (over_tenants run kgIds) (\<lambda>(n, e).
     returnM \<lparr>ts_kindergartensProcessed = length kgIds, ts_done = n, ts_errors = e\<rparr>))"

subsection \<open>Monthly billing\<close>

text \<open>The period comes from the payload of a manual run or from the clock.\<close>

definition computePeriodStart :: "billing_env \<Rightarrow> instant option \<Rightarrow> instant op" where
  "computePeriodStart E payload =
     (case payload of
        Some d \<Rightarrow> returnM (Date_UTC (getUTCFullYear d) (getUTCMonth d) 1)
      | None \<Rightarrow>
          bindM (nowM E) (\<lambda>now.
          orThrow (firstOfMonthInTimezone (env_zone E) now) (InvariantViolation ''Invalid Date'')))"

definition monthly_billing_process :: "billing_env \<Rightarrow> instant option \<Rightarrow> tick_summary op" where
  "monthly_billing_process E payload =
     bindM (computePeriodStart E payload) (\<lambda>periodStart.
     tick (\<lambda>kg. bindM (generateMonthly E kg periodStart) (\<lambda>(generated, skipped). returnM generated)))"

subsection \<open>Overdue invoices\<close>

definition computeDaysOverdue :: "instant \<Rightarrow> instant \<Rightarrow> int" where
  "computeDaysOverdue due now = max 0 ((now - due) div ms_per_day)"

definition overdue_run :: "billing_env \<Rightarrow> instant \<Rightarrow> uuid \<Rightarrow> nat op" where
  "overdue_run E now kg =
     (let today = startOfDayInTimezone (env_zone E) now in
     bindM (orThrow today (InvariantViolation ''Invalid Date'')) (\<lambda>day.
     bindM (lockM (''billing:overdue:'' @ kg @ '':'' @ toIsoDate day)) (\<lambda>_.
     bindM (invoices_markOverdueBatch (env_decimal E) kg day now) (\<lambda>flipped.
     bindM (forM flipped (\<lambda>(i, childId, amountAfterDiscount, dueDate).
       emitM (InvoiceOverdueEv kg i childId amountAfterDiscount (toIsoDate dueDate) (computeDaysOverdue dueDate now)))) (\<lambda>_.
     returnM (length flipped))))))"

definition overdue_process :: "billing_env \<Rightarrow> instant option \<Rightarrow> tick_summary op" where
  "overdue_process E payload =
     bindM (case payload of Some now \<Rightarrow> returnM now | None \<Rightarrow> nowM E) (\<lambda>now. tick (overdue_run E now))"

end
