(* ===== verification/Pro_Rata_Refund.thy ===== *)
theory Pro_Rata_Refund
  imports Child_Repo Refund_Service
begin

text \<open>
  The pro-rata refund of an archived child (\<open>src/modules/billing/pro-rata-refund.processor.ts\<close>). A
  job that finds the archive not yet committed throws, and the queue retries it.
\<close>

subsection \<open>Queries\<close>

definition PRO_RATA_COMMIT_GRACE_MS :: int where "PRO_RATA_COMMIT_GRACE_MS = 60000"
definition PRO_RATA_REFUND_REASON :: string where "PRO_RATA_REFUND_REASON = ''pro_rata_archive''"

definition refunds_acquireProRataAdvisoryLock :: "uuid \<Rightarrow> uuid \<Rightarrow> unit op" where
  "refunds_acquireProRataAdvisoryLock kg child = lockM (''billing:pro-rata:'' @ kg @ '':'' @ child)"

definition refunds_findPendingProRataForChildSinceArchive :: "uuid \<Rightarrow> uuid \<Rightarrow> instant \<Rightarrow> billing_db \<Rightarrow> RefundState list" where
  "refunds_findPendingProRataForChildSinceArchive kg child since db =
     rev (sort_key ref_createdAt (filter (\<lambda>r. ref_kindergartenId r = kg \<and> ref_reason r = PRO_RATA_REFUND_REASON
       \<and> ref_createdAt r \<ge> since
       \<and> list_ex (\<lambda>i. Some (inv_id i) = ref_invoiceId r \<and> inv_childId i = child) (db_invoices db)) (db_refunds db)))"

subsection \<open>Days\<close>

text \<open>\<open>Math.round\<close> of a difference of two midnights in days.\<close>

definition days_between_midnights :: "instant \<Rightarrow> instant \<Rightarrow> int" where
  "days_between_midnights a b = \<lfloor>of_int (b - a) / of_int ms_per_day + 1 / 2 :: rat\<rfloor>"

record billable_days =
  bd_totalBillableDays :: int
  bd_refundableDays :: int

definition computeBillableDays ::
  "zone \<Rightarrow> uuid \<Rightarrow> instant \<Rightarrow> instant \<Rightarrow> instant \<Rightarrow> billing_db \<Rightarrow> billable_days option" where
  "computeBillableDays tz kg periodStart periodEnd archivedAt db =
     (case (startOfDayInTimezone tz periodStart, startOfDayInTimezone tz periodEnd, startOfDayInTimezone tz archivedAt) of
        (Some startLocal, Some endLocal, Some archivedLocal) \<Rightarrow>
          (let totalDays = days_between_midnights startLocal endLocal + 1;
               rawArchivedDays = days_between_midnights startLocal archivedLocal + 1;
               archivedDays = max 0 (min totalDays rawArchivedDays);
               nonBillableTotal = holidays_countNonBillableInRange kg startLocal endLocal db;
               nonBillableBeforeArchive =
                 (if archivedDays > 0 then holidays_countNonBillableInRange kg startLocal archivedLocal db else 0);
               totalBillableDays = max 0 (totalDays - nonBillableTotal);
               archivedBillableDays = max 0 (archivedDays - nonBillableBeforeArchive)
           in Some \<lparr>bd_totalBillableDays = totalBillableDays,
                bd_refundableDays = max 0 (totalBillableDays - archivedBillableDays)\<rparr>)
      | _ \<Rightarrow> None)"

subsection \<open>The job\<close>

datatype ProRataSkipReason = SkipChildNotArchived | SkipRefundAlreadyExists | SkipNoCurrentInvoice
  | SkipNoBillableDays | SkipAmountNotPositive | SkipNoPayment

datatype ProRataRefundOutcome = ProRataCreated uuid rat uuid | ProRataSkipped ProRataSkipReason

definition pro_rata_refund :: "uuid \<Rightarrow> uuid \<Rightarrow> PaymentState \<Rightarrow> InvoiceState \<Rightarrow> kzt \<Rightarrow> instant \<Rightarrow> RefundState" where
  "pro_rata_refund i kg p v amount now =
     \<lparr>ref_id = i, ref_kindergartenId = kg, ref_paymentId = pay_id p, ref_invoiceId = Some (inv_id v),
      ref_amount = amount, ref_reason = PRO_RATA_REFUND_REASON, ref_status = RefPending, ref_processedBy = None,
      ref_providerRef = None, ref_createdAt = now, ref_updatedAt = now\<rparr>"

definition create_pro_rata ::
  "billing_env \<Rightarrow> uuid \<Rightarrow> InvoiceState \<Rightarrow> kzt \<Rightarrow> ProRataRefundOutcome op" where
  "create_pro_rata E kg invoice refundAmount =
     bindM (readM (payments_findByInvoiceId kg (inv_id invoice))) (\<lambda>payments.
     case find (\<lambda>p. pay_status p = PayCompleted) payments of
       None \<Rightarrow> returnM (ProRataSkipped SkipNoPayment)
     | Some targetPayment \<Rightarrow>
         bindM (randomUUID E) (\<lambda>refundId.
         bindM (nowM E) (\<lambda>now.
         bindM (refunds_create (env_decimal E) (pro_rata_refund refundId kg targetPayment invoice refundAmount now)) (\<lambda>_.
         returnM (ProRataCreated refundId (kzt_toNumber (env_decimal E) refundAmount) (inv_id invoice))))))"

definition refund_invoice ::
  "billing_env \<Rightarrow> uuid \<Rightarrow> instant \<Rightarrow> InvoiceState \<Rightarrow> ProRataRefundOutcome op" where
  "refund_invoice E kg archivedAt invoice =
     bindM (readM (computeBillableDays (env_zone E) kg (inv_periodStart invoice) (inv_periodEnd invoice) archivedAt)) (\<lambda>found.
     bindM (orThrow found (InvariantViolation ''Invalid Date'')) (\<lambda>days.
     if bd_totalBillableDays days \<le> 0 then returnM (ProRataSkipped SkipNoBillableDays)
     else
       bindM (liftE MoneyErr (kzt_div (env_decimal E)
         (kzt_mul (env_decimal E) (inv_amountAfterDiscount invoice) (of_int (bd_refundableDays days)))
         (of_int (bd_totalBillableDays days)))) (\<lambda>refundAmount.
       if \<not> isPositive refundAmount then returnM (ProRataSkipped SkipAmountNotPositive)
       else create_pro_rata E kg invoice refundAmount)))"

definition computeAndCreate :: "billing_env \<Rightarrow> uuid \<Rightarrow> uuid \<Rightarrow> instant \<Rightarrow> ProRataRefundOutcome op" where
  "computeAndCreate E kg childId archivedAt =
     bindM (refunds_acquireProRataAdvisoryLock kg childId) (\<lambda>_.
     bindM (readM (children_findById kg childId)) (\<lambda>child.
     if (case child of None \<Rightarrow> True | Some c \<Rightarrow> ch_status c \<noteq> ChildArchived)
     then
       bindM (nowM E) (\<lambda>now.
       if max 0 (now - archivedAt) < PRO_RATA_COMMIT_GRACE_MS then throwM (ChildNotYetArchived childId)
       else returnM (ProRataSkipped SkipChildNotArchived))
     else
       bindM (readM (refunds_findPendingProRataForChildSinceArchive kg childId archivedAt)) (\<lambda>existing.
       if existing \<noteq> [] then returnM (ProRataSkipped SkipRefundAlreadyExists)
       else
         bindM (readM (invoices_findCurrentInvoiceForChildAt kg childId archivedAt)) (\<lambda>found.
         case found of
           None \<Rightarrow> returnM (ProRataSkipped SkipNoCurrentInvoice)
         | Some invoice \<Rightarrow> refund_invoice E kg archivedAt invoice))))"

end
