(* ===== verification/Delivery_Order.thy ===== *)
theory Delivery_Order
  imports Bookkeeping
begin

text \<open>
  What a provider may do to one payment: deliver any verdicts, any number of times, in any order, on
  the webhook or through the poller (\<open>processWebhook\<close>, \<open>applyCompletedPayment\<close>,
  \<open>applyFailedPayment\<close> and \<open>applyProviderObservation\<close> of \<open>src/modules/billing/payment.service.ts\<close>).
  The first terminal verdict decides, and the account is credited once or not at all.
\<close>

definition deliver :: "billing_env \<Rightarrow> uuid \<Rightarrow> uuid \<Rightarrow> VerifyWebhookResult \<Rightarrow> unit op" where
  "deliver E kg pid verified = bindM (settleVerified E kg pid verified) (\<lambda>_. returnM ())"

text \<open>The specification: the status the deliveries leave the payment in.\<close>

fun verdict :: "PaymentStatus \<Rightarrow> WebhookStatus list \<Rightarrow> PaymentStatus" where
  "verdict s [] = s"
| "verdict s (w # ws) =
     (if s = PayInitiated \<or> s = PayProcessing
      then verdict (case w of WhCompleted \<Rightarrow> PayCompleted | WhFailed \<Rightarrow> PayFailed | WhProcessing \<Rightarrow> s) ws
      else s)"

lemma verdict_final: "s \<notin> {PayInitiated, PayProcessing} \<Longrightarrow> verdict s ws = s"
  by (cases ws) auto

lemma view_ids:
  "paid_view db' = paid_view db \<Longrightarrow> map pay_id (db_payments db') = map pay_id (db_payments db)"
  "billed_view db' = billed_view db \<Longrightarrow> map inv_id (db_invoices db') = map inv_id (db_invoices db)"
  by (drule arg_cong[of _ _ "map (\<lambda>(k, i, n, a, st). i)"], simp add: paid_view_def comp_def case_prod_beta)
    (drule arg_cong[of _ _ "map (\<lambda>(k, i, a, d). i)"], simp add: billed_view_def comp_def case_prod_beta)

lemma keys_ok_books:
  assumes "books db' = books db" "db_discounts db' = db_discounts db" "keys_ok db"
  shows "keys_ok db'"
  using assms view_ids[of db' db] by (simp add: keys_ok_def books_def)

text \<open>The row of a payment is found with its status wherever the view of the payments is the same.\<close>

lemma find_by_view:
  assumes p: "payments_findById kg pid db = Some p" and uniq: "distinct (map pay_id (db_payments db))"
    and view: "paid_view db' = paid_view db"
  shows "\<exists>q. payments_findById kg pid db' = Some q \<and> pay_status q = pay_status p
    \<and> pay_invoiceId q = pay_invoiceId p \<and> pay_amount q = pay_amount p"
proof -
  note fd = find_SomeD[OF p[unfolded payments_findById_def]]
  let ?v = "\<lambda>p. (pay_kindergartenId p, pay_id p, pay_invoiceId p, pay_amount p, pay_status p)"
  have ids: "map pay_id (db_payments db') = map pay_id (db_payments db)"
    by (rule view_ids(1)[OF view])
  have "?v p \<in> set (paid_view db')" using fd unfolding view by (force simp: paid_view_def)
  then obtain q where q: "q \<in> set (db_payments db')" "?v q = ?v p" unfolding paid_view_def by auto
  have "payments_findById kg pid db' = Some q"
    unfolding payments_findById_def
  proof (rule find_unique[OF q(1)])
    show "x = q" if "x \<in> set (db_payments db')" "pay_id x = pid \<and> pay_kindergartenId x = kg" for x
      using that q fd ids uniq by (metis (mono_tags, lifting) distinct_map inj_onD prod.inject)
  qed (use q fd in simp)
  with q show ?thesis by auto
qed

text \<open>A payment that has its verdict: no delivery touches the books, the invoices or the slots.\<close>

definition untouched :: "billing_db \<Rightarrow> billing_db \<Rightarrow> bool" where
  "untouched db' db \<longleftrightarrow> books db' = books db \<and> db_invoices db' = db_invoices db \<and> db_discounts db' = db_discounts db
     \<and> db_outbox db' = db_outbox db"

lemma observe_untouched:
  assumes p: "payments_findById kg pid db = Some p"
  shows "\<exists>x db'. applyProviderObservation E kg pid raw db = Inr (x, db') \<and> untouched db' db"
proof -
  let ?db1 = "db\<lparr>db_locks := db_locks db @ [''billing:payment:'' @ kg @ '':'' @ pay_invoiceId p]\<rparr>"
  let ?m = "if pay_status p \<noteq> PayInitiated \<and> pay_status p \<noteq> PayProcessing then returnM p
     else
       bindM (nowM E) (\<lambda>now.
       bindM (payments_updateProviderPayload kg pid (obj_merge (payload_of p) raw) now) (\<lambda>updated.
       returnM (case updated of None \<Rightarrow> p | Some u \<Rightarrow> u)))"
  have run: "applyProviderObservation E kg pid raw db = ?m ?db1"
    using p by (auto simp: applyProviderObservation_def op_simps lock_defs payments_findById_def)
  have "total ?m" by (intro totals)
  then obtain x db' where r: "?m ?db1 = Inr (x, db')" by (rule totalE)
  have "keeps books ?m" "keeps db_invoices ?m" "keeps db_discounts ?m" "keeps db_outbox ?m"
    by (intro frame; simp)+
  with r have "untouched db' ?db1" unfolding keeps_def untouched_def by blast
  with run r show ?thesis by (auto simp: untouched_def)
qed

text \<open>An open payment that fails: only its status changes.\<close>

definition failed_view :: "uuid \<Rightarrow> paid_entry list \<Rightarrow> paid_entry list" where
  "failed_view pid ps = map (\<lambda>(k, i, n, a, st). (k, i, n, a, if i = pid then PayFailed else st)) ps"

lemma markFailed_run:
  assumes p: "payments_findById kg pid db = Some p" and opn: "pay_status p \<in> {PayInitiated, PayProcessing}"
    and uniq: "distinct (map pay_id (db_payments db))"
  shows "payments_markFailedConditional kg pid reason payload now db =
    Inr (Some (failed_patch reason payload now p),
         db\<lparr>db_payments := map (\<lambda>x. if pay_id x = pid then failed_patch reason payload now x else x) (db_payments db)\<rparr>)"
proof -
  have t: "payment_transition [PayInitiated, PayProcessing] (failed_patch reason payload now) PayFailed"
    by (rule payment_transition.intros)
  show ?thesis
    unfolding payments_markFailedConditional_def payments_transitionConditional_def
    using payments.cas_unique[OF t p[unfolded payments_findById_def] uniq] opn by auto
qed


lemma fail_open:
  assumes keys: "keys_ok db" and p: "payments_findById kg pid db = Some p"
    and opn: "pay_status p \<in> {PayInitiated, PayProcessing}"
  shows "\<exists>x db'. applyFailedPayment E kg pid verified db = Inr (x, db') \<and> db_accounts db' = db_accounts db
    \<and> keys_ok db' \<and> (\<exists>q. payments_findById kg pid db' = Some q \<and> pay_status q = PayFailed)"
proof -
  let ?payload = "Some (obj_merge (payload_of p) (vw_raw verified))"
  let ?now = "env_clock E (db_clockReads db)"
  define reason where "reason = (case vw_failureReason verified of None \<Rightarrow> ''webhook_failed'' | Some r \<Rightarrow> r)"
  define db1 where "db1 = db\<lparr>db_locks := db_locks db @ [''billing:payment:'' @ kg @ '':'' @ pay_invoiceId p],
    db_clockReads := Suc (db_clockReads db)\<rparr>"
  define u where "u = failed_patch reason ?payload ?now p"
  define db2 where "db2 = db1\<lparr>db_payments := map (\<lambda>x. if pay_id x = pid then failed_patch reason ?payload ?now x else x) (db_payments db)\<rparr>"
  define db3 where "db3 = db2\<lparr>db_outbox := db_outbox db2 @ [PaymentFailedEv kg (pay_id u) (pay_childId u) (pay_invoiceId u)
             (kzt_toNumber (env_decimal E) (pay_amount u)) (pay_provider u) reason]\<rparr>"
  have p1: "payments_findById kg pid db1 = Some p" and u1: "distinct (map pay_id (db_payments db1))"
    using p keys by (simp_all add: db1_def payments_findById_def keys_ok_def)
  have mark: "payments_markFailedConditional kg pid reason ?payload ?now db1 = Inr (Some u, db2)"
    using markFailed_run[OF p1 opn u1, of reason ?payload ?now] by (simp add: u_def db2_def db1_def)
  have "applyFailedPayment E kg pid verified db
    = and_then (payments_markFailedConditional kg pid reason ?payload ?now db1) (\<lambda>flipped.
       case flipped of
         None \<Rightarrow> bindM (readM (payments_findById kg pid)) (\<lambda>after. orThrow after (PaymentNotFound pid))
       | Some updated \<Rightarrow>
           bindM (emitM (PaymentFailedEv kg (pay_id updated) (pay_childId updated) (pay_invoiceId updated)
             (kzt_toNumber (env_decimal E) (pay_amount updated)) (pay_provider updated) reason)) (\<lambda>_.
           returnM updated))"
    using p opn unfolding applyFailedPayment_def reason_def[symmetric] Let_def
    by (auto simp: op_simps lock_defs payments_findById_def db1_def)
  then have run: "applyFailedPayment E kg pid verified db = Inr (u, db3)"
    by (simp add: mark op_simps db3_def)
  have "find (\<lambda>r. pay_id r = pid \<and> pay_kindergartenId r = kg) (db_payments db2) = Some u"
  proof -
    have "find (\<lambda>r. pay_id r = pid \<and> pay_kindergartenId r = kg) (map (\<lambda>x. if pay_id x = pid then failed_patch reason ?payload ?now x else x) xs)
      = map_option (failed_patch reason ?payload ?now) (find (\<lambda>r. pay_id r = pid \<and> pay_kindergartenId r = kg) xs)" for xs
      by (induction xs) (auto simp: failed_patch_def)
    with p show ?thesis by (simp add: db2_def u_def payments_findById_def)
  qed
  then have "payments_findById kg pid db3 = Some u" "pay_status u = PayFailed"
    by (simp_all add: db3_def payments_findById_def u_def failed_patch_def)
  moreover have "keys_ok db3"
    using keys by (simp add: keys_ok_def db3_def db2_def db1_def comp_def if_distrib failed_patch_def cong: if_cong)
  moreover have "db_accounts db3 = db_accounts db" by (simp add: db3_def db2_def db1_def)
  ultimately show ?thesis using run by blast
qed

text \<open>A payment that has its verdict.\<close>

lemma deliver_final:
  assumes uniq: "distinct (map pay_id (db_payments db))" and p: "payments_findById kg pid db = Some p"
    and fin: "pay_status p \<notin> {PayInitiated, PayProcessing}"
  shows "\<exists>db'. deliver E kg pid verified db = Inr ((), db') \<and> untouched db' db"
proof (cases "vw_status verified")
  case WhProcessing
  with observe_untouched[OF p, of E "vw_raw verified"] show ?thesis
    by (auto simp: deliver_def settleVerified_def op_simps)
next
  case WhFailed
  let ?db1 = "db\<lparr>db_locks := db_locks db @ [''billing:payment:'' @ kg @ '':'' @ pay_invoiceId p]\<rparr>"
  have "applyFailedPayment E kg pid verified db = Inr (p, ?db1)"
    using p fin by (cases "pay_status p") (auto simp: applyFailedPayment_def Let_def op_simps lock_defs payments_findById_def)
  with WhFailed show ?thesis by (auto simp: deliver_def settleVerified_def op_simps untouched_def)
next
  case WhCompleted
  show ?thesis
  proof (cases "pay_status p = PayFailed")
    case False
    with fin have "pay_status p \<in> {PayCompleted, PayRefunded}" by (cases "pay_status p") auto
    from settlement_replay[OF p this, of E verified] WhCompleted show ?thesis
      by (auto simp: deliver_def settleVerified_def op_simps untouched_def)
  next
    case True
    let ?now = "env_clock E (db_clockReads db)"
    define db1 where "db1 = db\<lparr>db_locks := db_locks db @ [''billing:payment:'' @ kg @ '':'' @ pay_invoiceId p],
      db_clockReads := Suc (db_clockReads db)\<rparr>"
    have t: "payment_transition [PayInitiated, PayProcessing] (completed_patch (vw_providerPaymentId verified) ?now
        (Some (obj_merge (payload_of p) (vw_raw verified))) ?now) PayCompleted"
      by (rule payment_transition.intros)
    have "payments_markCompletedConditional kg pid (vw_providerPaymentId verified) ?now
        (Some (obj_merge (payload_of p) (vw_raw verified))) ?now db1 = Inr (None, db1)"
      using payments.cas_unique[OF t p[unfolded payments_findById_def] uniq] fin
      by (simp add: payments_markCompletedConditional_def payments_transitionConditional_def db1_def)
    then have "applyCompletedPayment E kg pid verified db = Inr (p, db1)"
      using p True by (auto simp: applyCompletedPayment_def op_simps lock_defs payments_findById_def db1_def)
    with WhCompleted show ?thesis
      by (auto simp: deliver_def settleVerified_def op_simps untouched_def db1_def)
  qed
qed


lemma untouched_paid: "untouched db' db \<Longrightarrow> paid_view db' = paid_view db \<and> balances db' = balances db"
  by (simp add: untouched_def books_def balances_def)

lemma deliveries_final:
  assumes "distinct (map pay_id (db_payments db))" "payments_findById kg pid db = Some p"
    "pay_status p \<notin> {PayInitiated, PayProcessing}"
  shows "\<exists>db'. forM ds (deliver E kg pid) db = Inr ((), db') \<and> untouched db' db"
  using assms
proof (induction ds arbitrary: db p)
  case Nil
  then show ?case by (simp add: op_simps untouched_def)
next
  case (Cons d ds)
  obtain db1 where d: "deliver E kg pid d db = Inr ((), db1)" and u: "untouched db1 db"
    using deliver_final[OF Cons.prems, of E d] by blast
  note same = conjunct1[OF untouched_paid[OF u]]
  obtain q where "payments_findById kg pid db1 = Some q" "pay_status q = pay_status p"
    using find_by_view[OF Cons.prems(2,1) same] by blast
  then have "\<exists>db'. forM ds (deliver E kg pid) db1 = Inr ((), db') \<and> untouched db' db1"
    using Cons.prems view_ids(1)[OF same] by (intro Cons.IH[of db1 q]) simp_all
  then obtain db' where "forM ds (deliver E kg pid) db1 = Inr ((), db')" "untouched db' db1" by blast
  with d u show ?case by (auto simp: op_simps untouched_def)
qed

lemma final_tail:
  assumes uniq: "distinct (map pay_id (db_payments db1))" and q: "payments_findById kg pid db1 = Some q"
    and fin: "pay_status q \<notin> {PayInitiated, PayProcessing}"
  shows "\<exists>db' p'. forM ds (deliver E kg pid) db1 = Inr ((), db') \<and> payments_findById kg pid db' = Some p'
    \<and> pay_status p' = pay_status q \<and> balances db' = balances db1"
proof -
  obtain db' where r: "forM ds (deliver E kg pid) db1 = Inr ((), db')" "untouched db' db1"
    using deliveries_final[OF uniq q fin] by blast
  note same = untouched_paid[OF r(2)]
  from find_by_view[OF q uniq] same r(1) show ?thesis by metis
qed

text \<open>Any deliveries in any order.\<close>

lemma deliveries:
  assumes D: "decimal_ok (env_decimal E)" and keys: "keys_ok db"
    and p: "payments_findById kg pid db = Some p" and opn: "pay_status p \<in> {PayInitiated, PayProcessing}"
    and v: "invoices_findById kg (pay_invoiceId p) db = Some v"
    and acc: "accounts_findById kg (inv_paymentAccountId v) db = Some acc"
    and amt: "cents (acc_balance acc)" "cents (pay_amount p)" "cents (acc_balance acc + pay_amount p)" "0 < pay_amount p"
  shows "\<exists>db' p'. forM ds (deliver E kg pid) db = Inr ((), db') \<and> payments_findById kg pid db' = Some p'
    \<and> pay_status p' = verdict (pay_status p) (map vw_status ds)
    \<and> balances db' = (if pay_status p' = PayCompleted
        then credited (inv_paymentAccountId v) (pay_amount p) (balances db) else balances db)"
  using keys p opn v amt acc
proof (induction ds arbitrary: db p)
  case Nil
  then show ?case by (auto simp: op_simps)
next
  case (Cons d ds)
  note keys = Cons.prems(1) and p = Cons.prems(2) and opn = Cons.prems(3) and v = Cons.prems(4)
    and amt = Cons.prems(5-8) and acc = Cons.prems(9)
  have uniq: "distinct (map pay_id (db_payments db))" using keys by (simp add: keys_ok_def)
  have v1: "(pay_status p = PayInitiated \<or> pay_status p = PayProcessing) = True" using opn by auto
  show ?case
  proof (cases "vw_status d")
    case WhProcessing
    obtain x db1 where d: "applyProviderObservation E kg pid (vw_raw d) db = Inr (x, db1)" and u: "untouched db1 db"
      using observe_untouched[OF p] by blast
    note same = untouched_paid[OF u]
    obtain q where q: "payments_findById kg pid db1 = Some q" "pay_status q = pay_status p"
      "pay_invoiceId q = pay_invoiceId p" "pay_amount q = pay_amount p"
      using find_by_view[OF p uniq conjunct1[OF same]] by blast
    have "keys_ok db1" "invoices_findById kg (pay_invoiceId q) db1 = Some v"
      "accounts_findById kg (inv_paymentAccountId v) db1 = Some acc"
      using u keys v acc q keys_ok_books[of db1 db]
      by (auto simp: untouched_def invoices_findById_def accounts_findById_def books_def)
    then have "\<exists>db' p'. forM ds (deliver E kg pid) db1 = Inr ((), db') \<and> payments_findById kg pid db' = Some p'
      \<and> pay_status p' = verdict (pay_status p) (map vw_status ds)
      \<and> balances db' = (if pay_status p' = PayCompleted
        then credited (inv_paymentAccountId v) (pay_amount p) (balances db) else balances db)"
      using Cons.IH[of db1 q] q amt opn same by (simp cong: if_cong split del: if_split)
    moreover have "deliver E kg pid d db = Inr ((), db1)"
      using d WhProcessing by (simp add: deliver_def settleVerified_def op_simps)
    ultimately show ?thesis using WhProcessing by (simp add: op_simps v1 split del: if_split)
  next
    case WhFailed
    obtain x db1 q where d: "applyFailedPayment E kg pid d db = Inr (x, db1)" and a: "db_accounts db1 = db_accounts db"
      and k: "keys_ok db1" and q: "payments_findById kg pid db1 = Some q" "pay_status q = PayFailed"
      using fail_open[OF keys p opn] by blast
    have "distinct (map pay_id (db_payments db1))" "balances db1 = balances db"
      using k a by (simp_all add: keys_ok_def balances_def)
    with final_tail[OF this(1) q(1), of ds E] q
    obtain db' p' where "forM ds (deliver E kg pid) db1 = Inr ((), db')" "payments_findById kg pid db' = Some p'"
      "pay_status p' = PayFailed" "balances db' = balances db" by auto
    moreover have "deliver E kg pid d db = Inr ((), db1)"
      using d WhFailed by (simp add: deliver_def settleVerified_def op_simps)
    ultimately show ?thesis using WhFailed
      by (intro exI[of _ db'] exI[of _ p']) (simp add: op_simps v1 verdict_final)
  next
    case WhCompleted
    obtain x db1 where d: "applyCompletedPayment E kg pid d db = Inr (x, db1)"
      and b: "balances db1 = credited (inv_paymentAccountId v) (pay_amount p) (balances db)"
      and pv: "paid_view db1 = settled pid (paid_view db)"
      using settlement_credits[OF D keys p opn v acc amt] by blast
    obtain q where q: "payments_findById kg pid db1 = Some q" "pay_status q = PayCompleted"
      "distinct (map pay_id (db_payments db1))"
      using findById_completed[OF p uniq pv] by blast
    with final_tail[OF q(3,1), of ds E] b
    obtain db' p' where "forM ds (deliver E kg pid) db1 = Inr ((), db')" "payments_findById kg pid db' = Some p'"
      "pay_status p' = PayCompleted" "balances db' = credited (inv_paymentAccountId v) (pay_amount p) (balances db)" by auto
    moreover have "deliver E kg pid d db = Inr ((), db1)"
      using d WhCompleted by (simp add: deliver_def settleVerified_def op_simps)
    ultimately show ?thesis using WhCompleted
      by (intro exI[of _ db'] exI[of _ p']) (simp add: op_simps v1 verdict_final)
  qed
qed

end
