(* ===== verification/Op_Rules.thy ===== *)
theory Op_Rules
  imports Billing_Frames
begin

text \<open>
  Reading a run backwards: when an operation has returned, each of its steps has returned. The rules
  turn \<open>m db = Inr (x, db')\<close> into what the guards and reads of \<open>m\<close> found.
\<close>

named_theorems op_inv \<open>inverting a run that returned\<close>

lemma op_inv_rules [op_inv]:
  "bindM m k db = Inr r \<longleftrightarrow> (\<exists>y s. m db = Inr (y, s) \<and> k y s = Inr r)"
  "returnM x db = Inr r \<longleftrightarrow> r = (x, db)" "throwM e db = Inr r \<longleftrightarrow> False"
  "readM f db = Inr r \<longleftrightarrow> r = (f db, db)" "modifyM h db = Inr u \<longleftrightarrow> u = ((), h db)"
  "orThrow v e db = Inr r \<longleftrightarrow> v = Some (fst r) \<and> snd r = db"
  "liftE g w db = Inr r \<longleftrightarrow> w = Inr (fst r) \<and> snd r = db"
  "whenM b m' db = Inr u \<longleftrightarrow> (if b then m' db = Inr u else u = ((), db))"
  by (cases r; auto simp: op_simps and_then_eq_Inr orThrow_def liftE_def whenM_def split: option.splits sum.splits)+

lemma op_inv_state [op_inv]:
  "nowM E db = Inr r \<longleftrightarrow> r = (env_clock E (db_clockReads db), db\<lparr>db_clockReads := Suc (db_clockReads db)\<rparr>)"
  "randomUUID E db = Inr q \<longleftrightarrow> q = (env_uuid E (db_uuidDraws db), db\<lparr>db_uuidDraws := Suc (db_uuidDraws db)\<rparr>)"
  "emitM ev db = Inr u \<longleftrightarrow> u = ((), db\<lparr>db_outbox := db_outbox db @ [ev]\<rparr>)"
  "lockM s db = Inr u \<longleftrightarrow> u = ((), db\<lparr>db_locks := db_locks db @ [s]\<rparr>)"
  by (auto simp: op_simps)

text \<open>Replacing the one row with a key: how a count and a search change.\<close>

definition put_row :: "('r \<Rightarrow> 'k) \<Rightarrow> 'k \<Rightarrow> 'r \<Rightarrow> 'r list \<Rightarrow> 'r list" where
  "put_row k i t rows = map (\<lambda>r. if k r = i then t else r) rows"

lemma map_put_row: "g t = g r \<Longrightarrow> (\<And>x. x \<in> set rows \<Longrightarrow> k x = i \<Longrightarrow> x = r) \<Longrightarrow> map g (put_row k i t rows) = map g rows"
  by (auto simp: put_row_def)

lemma put_row_absent: "i \<notin> k ` set rows \<Longrightarrow> put_row k i t rows = rows"
  unfolding put_row_def by (intro map_idI) auto

lemma put_row_Cons: "put_row k i t (x # xs) = (if k x = i then t else x) # put_row k i t xs"
  by (simp add: put_row_def)

lemma count_put_row:
  assumes "distinct (map k rows)" "r \<in> set rows" "k r = i"
  shows "length (filter P (put_row k i t rows)) + (if P r then 1 else 0) = length (filter P rows) + (if P t then 1 else 0)"
  using assms
proof (induction rows)
  case (Cons x xs)
  show ?case
  proof (cases "k x = i")
    case True
    with Cons.prems have "i \<notin> k ` set xs" "x = r" by (auto simp: image_iff)
    then show ?thesis using True by (simp add: put_row_Cons put_row_absent)
  next
    case False
    with Cons.prems have "r \<in> set xs" "distinct (map k xs)" by auto
    from Cons.IH[OF this(2,1) Cons.prems(3)] False show ?thesis by (simp add: put_row_Cons)
  qed
qed simp

lemma find_put_row:
  assumes "k t = i" "P t" "\<exists>r\<in>set rows. k r = i" "\<And>x. x \<in> set rows \<Longrightarrow> P x \<Longrightarrow> k x = i"
  shows "find P (put_row k i t rows) = Some t"
  using assms unfolding put_row_def by (induction rows) auto

end
