(* ===== verification/Approval_Rights.thy ===== *)
theory Approval_Rights
  imports Guardian_Service Op_Rules
begin

text \<open>
  The approval rights of guardians (\<open>src/modules/child/child.service.ts\<close>, and the login of
  \<open>src/modules/auth/auth.service.ts\<close>): at most two approvers per child and one more for every primary
  that was approved without looking at the ceiling, and writes guarded by the status that was read.
\<close>

definition guardians_ok :: "billing_db \<Rightarrow> bool" where
  "guardians_ok db \<longleftrightarrow> distinct (map gd_id (db_guardians db))
     \<and> list_all (\<lambda>g. gd_status g = PendingApproval \<longrightarrow> \<not> gd_hasApprovalRights g) (db_guardians db)"

lemma guardian_row:
  assumes "guardians_ok db" "guardians_findById kg i db = Some g"
  shows "g \<in> set (db_guardians db)" "gd_id g = i" "gd_kindergartenId g = kg"
    "\<And>x. x \<in> set (db_guardians db) \<Longrightarrow> gd_id x = i \<Longrightarrow> x = g"
    "gd_status g = PendingApproval \<Longrightarrow> \<not> gd_hasApprovalRights g"
  using assms find_SomeD[OF assms(2)[unfolded guardians_findById_def]]
  by (auto simp: guardians_ok_def list_all_iff distinct_map dest: inj_onD)

text \<open>Both UPDATEs put the new state into the one row with the key.\<close>

lemma columns_row: "guardian_ident t = guardian_ident g \<Longrightarrow> gd_createdAt t = gd_createdAt g \<Longrightarrow> guardian_columns t g = t"
  by (cases t; cases g) (simp add: guardian_columns_def guardian_ident_def)

lemma write_guarded_row:
  assumes ok: "guardians_ok db" and g: "guardians_findById kg i db = Some g"
    and t: "guardian_ident t = guardian_ident g" "gd_createdAt t = gd_createdAt g"
    and w: "write_guarded g t db = Inr (u, db')"
  shows "db' = db\<lparr>db_guardians := put_row gd_id i t (db_guardians db)\<rparr>"
proof -
  let ?P = "\<lambda>r. gd_id r = gd_id t \<and> gd_kindergartenId r = gd_kindergartenId t \<and> gd_status r = gd_status g"
  have "db' = db\<lparr>db_guardians := update_where ?P (guardian_columns t) (db_guardians db)\<rparr>"
    using w by (auto simp: write_guarded_def op_inv guardians_updateWithExpectedStatus_def Let_def split: if_splits)
  moreover have "update_where ?P (guardian_columns t) (db_guardians db) = put_row gd_id i t (db_guardians db)"
    unfolding update_where_def put_row_def
  proof (rule map_cong[OF refl])
    fix x assume x: "x \<in> set (db_guardians db)"
    have key: "gd_id t = i" "gd_kindergartenId t = kg"
      using guardian_row(2,3)[OF ok g] t(1) by (simp_all add: guardian_ident_def)
    show "(if ?P x then guardian_columns t x else x) = (if gd_id x = i then t else x)"
    proof (cases "gd_id x = i")
      case True
      have "x = g" by (rule guardian_row(4)[OF ok g x True])
      then show ?thesis using key columns_row[OF t] guardian_row(2,3)[OF ok g] by simp
    qed (simp add: key)
  qed
  ultimately show ?thesis by simp
qed

lemma write_plain_row:
  assumes ok: "guardians_ok db" and g: "guardians_findById kg i db = Some g"
    and t: "guardian_ident t = guardian_ident g" "gd_createdAt t = gd_createdAt g"
    and w: "guardians_update t db = Inr (u, db')"
  shows "db' = db\<lparr>db_guardians := put_row gd_id i t (db_guardians db)\<rparr>"
proof -
  let ?P = "\<lambda>r. gd_id r = gd_id t \<and> gd_kindergartenId r = gd_kindergartenId t"
  have "db' = db\<lparr>db_guardians := update_where ?P (guardian_columns t) (db_guardians db)\<rparr>"
    using w by (auto simp: guardians_update_def Let_def split: if_splits)
  moreover have "update_where ?P (guardian_columns t) (db_guardians db) = put_row gd_id i t (db_guardians db)"
    unfolding update_where_def put_row_def
  proof (rule map_cong[OF refl])
    fix x assume x: "x \<in> set (db_guardians db)"
    have key: "gd_id t = i" "gd_kindergartenId t = kg"
      using guardian_row(2,3)[OF ok g] t(1) by (simp_all add: guardian_ident_def)
    show "(if ?P x then guardian_columns t x else x) = (if gd_id x = i then t else x)"
    proof (cases "gd_id x = i")
      case True
      have "x = g" by (rule guardian_row(4)[OF ok g x True])
      then show ?thesis using key columns_row[OF t] guardian_row(2,3)[OF ok g] by simp
    qed (simp add: key)
  qed
  ultimately show ?thesis by simp
qed

text \<open>So one write adds at most the one row to the approvers of the child, and none elsewhere.\<close>

lemma count_after_write:
  assumes ok: "guardians_ok db" and g: "guardians_findById kg i db = Some g"
    and t: "guardian_ident t = guardian_ident g"
  shows "length (filter (approver_of k c) (put_row gd_id i t (db_guardians db))) + (if approver_of k c g then 1 else 0)
    = guardians_countApprovalRights k c db + (if approver_of k c t then 1 else 0)"
  using count_put_row[of gd_id "db_guardians db" g i "approver_of k c" t] guardian_row(1,2)[OF ok g] ok
  by (simp add: guardians_countApprovalRights_def guardians_ok_def)

lemma guardians_ok_write:
  assumes ok: "guardians_ok db" and g: "guardians_findById kg i db = Some g"
    and t: "guardian_ident t = guardian_ident g" "gd_status t = PendingApproval \<longrightarrow> \<not> gd_hasApprovalRights t"
  shows "guardians_ok (db\<lparr>db_guardians := put_row gd_id i t (db_guardians db)\<rparr>)"
proof -
  have "map gd_id (put_row gd_id i t (db_guardians db)) = map gd_id (db_guardians db)"
    using t(1) guardian_row(4)[OF ok g] by (intro map_put_row[of gd_id t g]) (simp_all add: guardian_ident_def)
  moreover have "list_all (\<lambda>g. gd_status g = PendingApproval \<longrightarrow> \<not> gd_hasApprovalRights g) (put_row gd_id i t (db_guardians db))"
    using ok t(2) by (auto simp: guardians_ok_def list_all_iff put_row_def)
  ultimately show ?thesis using ok by (simp add: guardians_ok_def)
qed

lemma guardian_reads [simp]:
  "guardians_findById k i (db\<lparr>db_locks := l\<rparr>) = guardians_findById k i db"
  "guardians_findById k i (db\<lparr>db_clockReads := n\<rparr>) = guardians_findById k i db"
  "guardians_ok (db\<lparr>db_locks := l\<rparr>) = guardians_ok db" "guardians_ok (db\<lparr>db_clockReads := n\<rparr>) = guardians_ok db"
  "guardians_ok (db\<lparr>db_outbox := ev\<rparr>) = guardians_ok db"
  "guardians_countApprovalRights k c (db\<lparr>db_locks := l\<rparr>) = guardians_countApprovalRights k c db"
  "guardians_countApprovalRights k c (db\<lparr>db_clockReads := n\<rparr>) = guardians_countApprovalRights k c db"
  "guardians_countApprovalRights k c (db\<lparr>db_outbox := ev\<rparr>) = guardians_countApprovalRights k c db"
  by (simp_all add: guardians_findById_def guardians_ok_def guardians_countApprovalRights_def)

lemma guardian_of_primary_inv:
  "guardian_of_primary kg u i db = Inr (g, db') \<Longrightarrow> db' = db \<and> guardians_findById kg i db = Some g
    \<and> (\<exists>c. guardians_findActiveByChildAndUser kg (gd_childId g) u db = Some c
         \<and> gd_role c = PrimaryGuardian \<and> gd_status c = GuardianApproved)"
  by (auto simp: guardian_of_primary_def guardian_or_throw_def assertCallerIsApprovedPrimary_def op_inv
      split: if_splits option.splits)

lemma cap_inv:
  "check_approval_cap kg c db = Inr (u, db') \<Longrightarrow> guardians_countApprovalRights kg c db < 2 \<and> (\<exists>l. db' = db\<lparr>db_locks := l\<rparr>)"
  by (auto simp: check_approval_cap_def guardians_acquireApprovalRightsLock_def op_inv split: if_splits)

lemma whenM_cap_inv:
  "whenM b (check_approval_cap kg c) db = Inr (u, db') \<Longrightarrow>
    (b \<longrightarrow> guardians_countApprovalRights kg c db < 2) \<and> db_guardians db' = db_guardians db"
  by (cases b) (auto simp: whenM_def op_inv dest: cap_inv)

text \<open>Granting through the cap leaves at most two approvers; every other child keeps its own.\<close>

lemma capped:
  assumes ok: "guardians_ok db" and g: "guardians_findById kg i db = Some g"
    and t: "guardian_ident t = guardian_ident g" "approver_of kg (gd_childId g) t \<longrightarrow> approver_of kg (gd_childId g) g \<or> guardians_countApprovalRights kg (gd_childId g) db < 2"
  shows "length (filter (approver_of k c) (put_row gd_id i t (db_guardians db))) \<le> max 2 (guardians_countApprovalRights k c db)"
proof (cases "k = kg \<and> c = gd_childId g")
  case True
  with count_after_write[OF ok g t(1), of k c] t(2) show ?thesis by (auto split: if_splits)
next
  case False
  then have "\<not> approver_of k c t" "\<not> approver_of k c g"
    using t(1) guardian_row(3)[OF ok g] by (auto simp: approver_of_def guardian_ident_def)
  with count_after_write[OF ok g t(1), of k c] show ?thesis by simp
qed

lemma parse_inv: "parse_uuid label i db = Inr r \<longleftrightarrow> UUID_RE i \<and> r = ((), db)"
  by (auto simp: parse_uuid_def op_simps)

text \<open>
  Every operation on an existing guardian reads the row, makes one step of the aggregate and saves the
  result: through the guarded UPDATE, or through the plain one.
\<close>

definition saved :: "ChildGuardianState \<Rightarrow> ChildGuardianState \<Rightarrow> billing_db \<Rightarrow> billing_db \<Rightarrow> bool" where
  "saved g x db db' \<longleftrightarrow> (\<exists>s t. (write_guarded g x s = Inr ((), t) \<or> guardians_update x s = Inr ((), t))
     \<and> db_guardians s = db_guardians db \<and> db_guardians db' = db_guardians t)"

lemma guardian_step_created: "guardian_step s t \<Longrightarrow> gd_createdAt t = gd_createdAt s"
  by (elim guardian_stepE) (auto simp: guardian_ops split: if_splits sum.splits)

lemma saved_row:
  assumes ok: "guardians_ok db" and g: "guardians_findById kg i db = Some g" and st: "guardian_step g x"
    and s: "saved g x db db'"
  shows "db_guardians db' = put_row gd_id i x (db_guardians db)"
proof -
  obtain s t where w: "write_guarded g x s = Inr ((), t) \<or> guardians_update x s = Inr ((), t)"
    and eq: "db_guardians s = db_guardians db" "db_guardians db' = db_guardians t"
    using s unfolding saved_def by blast
  have "guardians_ok s" "guardians_findById kg i s = Some g"
    using ok g eq(1) by (simp_all add: guardians_ok_def guardians_findById_def)
  note row = write_guarded_row[OF this guardian_step_ident[OF st] guardian_step_created[OF st]]
    write_plain_row[OF this guardian_step_ident[OF st] guardian_step_created[OF st]]
  from w row eq show ?thesis by auto
qed

definition guardian_change ::
  "(ChildGuardianState \<Rightarrow> ChildGuardianState \<Rightarrow> bool) \<Rightarrow> uuid \<Rightarrow> uuid \<Rightarrow> billing_db \<Rightarrow> ChildGuardianState \<Rightarrow> billing_db \<Rightarrow> bool" where
  "guardian_change Q kg i db x db' \<longleftrightarrow> (\<exists>g. guardians_findById kg i db = Some g \<and> guardian_step g x \<and> Q g x \<and> saved g x db db')"

lemma guardian_or_throw_inv:
  "guardian_or_throw kg c i db = Inr (g, db') \<Longrightarrow> db' = db \<and> guardians_findById kg i db = Some g \<and> (\<forall>k. c = Some k \<longrightarrow> gd_childId g = k)"
  by (auto simp: guardian_or_throw_def op_inv parse_inv split: if_splits option.splits)

lemmas change_inv = guardian_or_throw_inv guardian_of_primary_inv cap_inv

lemma saved_guarded: "write_guarded g x s = Inr ((), t) \<Longrightarrow> db_guardians s = db_guardians db \<Longrightarrow>
    db_guardians db' = db_guardians t \<Longrightarrow> saved g x db db'"
  and saved_plain: "guardians_update x s = Inr ((), t) \<Longrightarrow> db_guardians s = db_guardians db \<Longrightarrow>
    db_guardians db' = db_guardians t \<Longrightarrow> saved g x db db'"
  by (auto simp: saved_def)

text \<open>A change that makes nobody an approver.\<close>

definition approver :: "ChildGuardianState \<Rightarrow> bool" where
  "approver g \<longleftrightarrow> gd_status g = GuardianApproved \<and> gd_hasApprovalRights g"

abbreviation no_grant :: "ChildGuardianState \<Rightarrow> ChildGuardianState \<Rightarrow> bool" where
  "no_grant g x \<equiv> approver x \<longrightarrow> approver g"

lemma no_grants:
  "guardian_reject now g = Inr x \<Longrightarrow> no_grant g x" "guardian_revoke who now g = Inr x \<Longrightarrow> no_grant g x"
  "guardian_revokeBySelf now g = Inr x \<Longrightarrow> no_grant g x"
  "guardian_updateRoleAndPickup role pk now g = Inr x \<Longrightarrow> no_grant g x"
  "guardian_applyPermissionsPatch patch who now g = Inr x \<Longrightarrow> no_grant g x"
  "guardian_resetPermissions who now g = Inr x \<Longrightarrow> no_grant g x"
  by (auto simp: guardian_ops approver_def split: if_splits sum.splits)

lemma rejectGuardian_change:
  "rejectGuardian E kg u i db = Inr (x, db') \<Longrightarrow> guardian_change no_grant kg i db x db'"
  unfolding guardian_change_def rejectGuardian_def
  by (auto simp: op_inv parse_inv dest!: change_inv intro!: saved_guarded intro: guardian_step.reject no_grants[THEN mp])

lemma rejectGuardianByAdmin_change:
  "rejectGuardianByAdmin E kg c i u db = Inr (x, db') \<Longrightarrow> guardian_change no_grant kg i db x db'"
  unfolding guardian_change_def rejectGuardianByAdmin_def
  by (auto simp: op_inv parse_inv dest!: change_inv intro!: saved_guarded intro: guardian_step.reject no_grants[THEN mp])

lemma revokeGuardianByAdmin_change:
  "revokeGuardianByAdmin E kg c i u db = Inr (x, db') \<Longrightarrow> guardian_change no_grant kg i db x db'"
  unfolding guardian_change_def revokeGuardianByAdmin_def
  by (auto simp: op_inv parse_inv dest!: change_inv intro!: saved_guarded intro: guardian_step.revoke no_grants[THEN mp])

lemma revokeGuardianByPrimary_change:
  "revokeGuardianByPrimary E kg u i db = Inr (x, db') \<Longrightarrow> guardian_change no_grant kg i db x db'"
  unfolding guardian_change_def revokeGuardianByPrimary_def
  by (auto simp: op_inv parse_inv dest!: change_inv intro!: saved_guarded intro: guardian_step.revoke no_grants[THEN mp] split: if_splits)

lemma updateGuardianRoleAndPickup_change:
  "updateGuardianRoleAndPickup E kg c i role pk db = Inr (x, db') \<Longrightarrow> guardian_change no_grant kg i db x db'"
  unfolding guardian_change_def updateGuardianRoleAndPickup_def
  by (auto simp: op_inv parse_inv dest!: change_inv intro!: saved_plain intro: guardian_step.role_pickup no_grants[THEN mp])

lemma updateGuardianPermissions_change:
  "updateGuardianPermissions E kg u i obj db = Inr (r, db') \<Longrightarrow> guardian_change no_grant kg i db (fst r) db'"
  unfolding guardian_change_def updateGuardianPermissions_def save_permissions_def Let_def
  by (auto simp: op_inv parse_inv dest!: change_inv intro!: saved_plain intro: guardian_step.permissions no_grants[THEN mp])

lemma resetGuardianPermissions_change:
  assumes "resetGuardianPermissions E kg u i db = Inr (r, db')"
  shows "guardian_change no_grant kg i db (fst r) db'"
proof -
  obtain g s where g: "guardians_findById kg i db = Some g" and x: "guardian_resetPermissions u (env_clock E (db_clockReads db)) g = Inr (fst r)"
    and w: "guardians_update (fst r) (db\<lparr>db_clockReads := Suc (db_clockReads db)\<rparr>) = Inr ((), s)" "db_guardians db' = db_guardians s"
    using assms unfolding resetGuardianPermissions_def save_permissions_def Let_def
    by (auto simp: op_inv parse_inv dest!: change_inv)
  have "saved g (fst r) db db'" by (rule saved_plain[OF w(1)]) (simp_all add: w(2))
  with g guardian_step.reset[OF x] no_grants(6)[OF x] show ?thesis unfolding guardian_change_def by blast
qed

abbreviation room :: "uuid \<Rightarrow> billing_db \<Rightarrow> ChildGuardianState \<Rightarrow> ChildGuardianState \<Rightarrow> bool" where
  "room kg db g x \<equiv> approver x \<longrightarrow> approver g \<or> guardians_countApprovalRights kg (gd_childId g) db < 2"

lemma approve_fields:
  "guardian_approve who now grant g = Inr t \<Longrightarrow> gd_status g = PendingApproval \<and> gd_hasApprovalRights t = (grant \<or> gd_hasApprovalRights g)"
  by (auto simp: guardian_approve_def split: if_splits)

lemma toggle_fields:
  "guardian_toggleApprovalRights grant now g = Inr t \<Longrightarrow> gd_status g = GuardianApproved \<and> gd_hasApprovalRights t = grant"
  by (auto simp: guardian_toggleApprovalRights_def split: if_splits)

lemma approveGuardian_change:
  assumes ok: "guardians_ok db" and run: "approveGuardian E kg u i grant db = Inr (x, db')"
  shows "guardian_change (room kg db) kg i db x db'"
proof -
  obtain g s now t where g: "guardians_findById kg i db = Some g" and cap: "whenM grant (check_approval_cap kg (gd_childId g)) db = Inr ((), s)"
    and x: "guardian_approve u now grant g = Inr x"
    and w: "write_guarded g x (s\<lparr>db_clockReads := Suc (db_clockReads s)\<rparr>) = Inr ((), t)" "db_guardians db' = db_guardians t"
    using run unfolding approveGuardian_def
    by (auto simp: op_inv(1-7) op_inv_state parse_inv dest!: guardian_of_primary_inv)
  note c = whenM_cap_inv[OF cap]
  have "saved g x db db'" by (rule saved_guarded[OF w(1)]) (use w c in simp_all)
  with g guardian_step.approve[OF x] c approve_fields[OF x] guardian_row(5)[OF ok g] show ?thesis
    unfolding guardian_change_def approver_def by blast
qed

lemma toggle_change:
  assumes run: "toggleGuardianApprovalRights E kg u i grant db = Inr (x, db')"
  shows "guardian_change (room kg db) kg i db x db'"
proof -
  obtain g s now where g: "guardians_findById kg i db = Some g"
    and cap: "whenM (grant \<and> \<not> gd_hasApprovalRights g) (check_approval_cap kg (gd_childId g)) db = Inr ((), s)"
    and x: "guardian_toggleApprovalRights grant now g = Inr x"
    and w: "guardians_update x (s\<lparr>db_clockReads := Suc (db_clockReads s)\<rparr>) = Inr ((), db')"
    using run unfolding toggleGuardianApprovalRights_def
    by (auto simp: op_inv(1-7) op_inv_state parse_inv dest!: guardian_of_primary_inv)
  note c = whenM_cap_inv[OF cap]
  have "saved g x db db'" by (rule saved_plain[OF w]) (use c in simp_all)
  with g guardian_step.toggle[OF x] c toggle_fields[OF x] show ?thesis
    unfolding guardian_change_def approver_def by blast
qed

lemma guardian_found:
  assumes ok: "guardians_ok db" and g: "g \<in> set (db_guardians db)" "gd_kindergartenId g = kg"
  shows "guardians_findById kg (gd_id g) db = Some g"
  unfolding guardians_findById_def
proof (rule find_unique[OF g(1)])
  fix x assume "x \<in> set (db_guardians db)" "gd_id x = gd_id g \<and> gd_kindergartenId x = kg"
  moreover have "inj_on gd_id (set (db_guardians db))" using ok by (simp add: guardians_ok_def distinct_map)
  ultimately show "x = g" using g(1) by (simp add: inj_on_def)
qed (simp add: g(2))

lemma selfUnlink_change:
  assumes run: "selfUnlinkFromChild E kg u c db = Inr (x, db')" and ok: "guardians_ok db"
  shows "\<exists>i y. guardian_change no_grant kg i db y db'"
proof -
  obtain g y t where f: "guardians_findActiveByChildAndUser kg c u db = Some g"
    and y: "guardian_revokeBySelf (env_clock E (db_clockReads db)) g = Inr y"
    and w: "write_guarded g y (db\<lparr>db_clockReads := Suc (db_clockReads db)\<rparr>) = Inr ((), t)" "db_guardians db' = db_guardians t"
    using run unfolding selfUnlinkFromChild_def by (auto simp: op_inv split: option.splits if_splits)
  have "g \<in> set (db_guardians db)" "gd_kindergartenId g = kg"
    using f by (auto simp: guardians_findActiveByChildAndUser_def dest: find_SomeD)
  then have g: "guardians_findById kg (gd_id g) db = Some g" by (rule guardian_found[OF ok])
  have "saved g y db db'" by (rule saved_guarded[OF w(1)]) (simp_all add: w(2))
  with g guardian_step.self_revoke[OF y] no_grants(3)[OF y] show ?thesis unfolding guardian_change_def by blast
qed

subsection \<open>New guardians\<close>

definition guardian_added :: "billing_db \<Rightarrow> billing_db \<Rightarrow> bool" where
  "guardian_added db db' \<longleftrightarrow> (\<exists>g. db_guardians db' = db_guardians db @ [g] \<and> gd_id g \<notin> gd_id ` set (db_guardians db)
     \<and> gd_status g = PendingApproval \<and> \<not> gd_hasApprovalRights g)"

definition adds_guardian :: "'a op \<Rightarrow> bool" where
  "adds_guardian m \<longleftrightarrow> (\<forall>db x db'. m db = Inr (x, db') \<longrightarrow> guardian_added db db')"

named_theorems adding \<open>rules for adds_guardian\<close>

lemma adds_skip [adding]: "keeps db_guardians m \<Longrightarrow> (\<And>x. adds_guardian (k x)) \<Longrightarrow> adds_guardian (bindM m k)"
  unfolding adds_guardian_def keeps_def guardian_added_def op_inv by metis

lemma adds_control [adding]:
  "adds_guardian (throwM e)"
  "adds_guardian m \<Longrightarrow> adds_guardian n \<Longrightarrow> adds_guardian (if c then m else n)"
  "adds_guardian m \<Longrightarrow> (\<And>x. adds_guardian (k x)) \<Longrightarrow> adds_guardian (case v of None \<Rightarrow> m | Some x \<Rightarrow> k x)"
  "adds_guardian m \<Longrightarrow> (\<And>x ys. adds_guardian (h x ys)) \<Longrightarrow> adds_guardian (case xs of [] \<Rightarrow> m | x # ys \<Rightarrow> h x ys)"
  by (auto simp: adds_guardian_def op_inv split: option.splits list.splits)

lemma adds_pending [adding]:
  assumes "\<And>g x. keeps db_guardians (k g x)"
  shows "adds_guardian (bindM (liftE GuardianErr (guardian_createPending i kg c u role p now)) (\<lambda>g. bindM (guardians_create g) (k g)))"
  unfolding adds_guardian_def
proof (intro allI impI)
  fix db x db' assume run: "bindM (liftE GuardianErr (guardian_createPending i kg c u role p now)) (\<lambda>g. bindM (guardians_create g) (k g)) db = Inr (x, db')"
  then obtain g v s where g: "guardian_createPending i kg c u role p now = Inr g" "guardians_create g db = Inr (v, s)" "k g v s = Inr (x, db')"
    by (auto simp: op_inv)
  have "guardian_added db s"
    using g(1,2) by (auto simp: guardian_createPending_def guardians_create_def guardian_added_def list_ex_iff split: if_splits)
  moreover have "db_guardians db' = db_guardians s" using assms g(3) by (rule keepsD)
  ultimately show "guardian_added db db'" by (simp add: guardian_added_def)
qed

lemma keeps_announce_pending: "keeps db_guardians (announce_pending kg child u role)"
  unfolding announce_pending_def by (intro frame) simp

lemma keeps_parse_uuid: "keeps db_guardians (parse_uuid l i)"
  unfolding parse_uuid_def by (intro frame)

lemma keeps_invited_user: "keeps db_guardians (invited_user E input)"
  unfolding invited_user_def users_upsertByPhone_def parse_phone_def Let_def by (intro frame keeps_parse_uuid) simp_all

lemma keeps_child_or_throw: "keeps db_guardians (child_or_throw kg c)"
  unfolding child_or_throw_def by (intro frame)

lemma inviteGuardian_adds: "adds_guardian (inviteGuardian E kg input)"
  unfolding inviteGuardian_def Let_def
  by (intro adding frame keeps_parse_uuid keeps_child_or_throw keeps_invited_user keeps_announce_pending; simp)

lemma linkChildByIin_adds: "adds_guardian (linkChildByIin E exceeded u iin role p)"
  unfolding linkChildByIin_def Let_def
  by (intro adding frame keeps_parse_uuid keeps_announce_pending; simp)

subsection \<open>Histories of a family\<close>

text \<open>
  Every operation on guardians, with the approvals that are exempt from the check of the ceiling put on
  record by kindergarten and child: a primary guardian approved by staff, and the pending primaries of a
  user who logs in. Each row of a login is committed on its own, so a login may also end after some of
  them.
\<close>

definition exemptions :: "ChildGuardianState list \<Rightarrow> (uuid \<times> uuid) list" where
  "exemptions gs = map (\<lambda>g. (gd_kindergartenId g, gd_childId g)) gs"

inductive guardian_op :: "billing_db \<Rightarrow> (uuid \<times> uuid) list \<Rightarrow> billing_db \<Rightarrow> bool" where
  approve: "approveGuardian E kg u i grant db = Inr (x, db') \<Longrightarrow> guardian_op db [] db'"
| approveByAdmin: "approveGuardianByAdmin E kg c i u grant db = Inr (x, db') \<Longrightarrow>
    guardian_op db (if gd_role x = PrimaryGuardian then exemptions [x] else []) db'"
| toggle: "toggleGuardianApprovalRights E kg u i grant db = Inr (x, db') \<Longrightarrow> guardian_op db [] db'"
| reject: "rejectGuardian E kg u i db = Inr (x, db') \<Longrightarrow> guardian_op db [] db'"
| rejectByAdmin: "rejectGuardianByAdmin E kg c i u db = Inr (x, db') \<Longrightarrow> guardian_op db [] db'"
| revokeByAdmin: "revokeGuardianByAdmin E kg c i u db = Inr (x, db') \<Longrightarrow> guardian_op db [] db'"
| revokeByPrimary: "revokeGuardianByPrimary E kg u i db = Inr (x, db') \<Longrightarrow> guardian_op db [] db'"
| selfUnlink: "selfUnlinkFromChild E kg u c db = Inr (v, db') \<Longrightarrow> guardian_op db [] db'"
| role: "updateGuardianRoleAndPickup E kg c i role pk db = Inr (x, db') \<Longrightarrow> guardian_op db [] db'"
| permissions: "updateGuardianPermissions E kg u i obj db = Inr (r, db') \<Longrightarrow> guardian_op db [] db'"
| reset: "resetGuardianPermissions E kg u i db = Inr (r, db') \<Longrightarrow> guardian_op db [] db'"
| invite: "inviteGuardian E kg input db = Inr (x, db') \<Longrightarrow> guardian_op db [] db'"
| link: "linkChildByIin E exceeded u iin rel pk db = Inr (l, db') \<Longrightarrow> guardian_op db [] db'"
| login: "autoApprovePendingPrimaries u now db = Inr (v, db') \<Longrightarrow>
    guardian_op db (exemptions (guardians_findPendingPrimaryByUserIdCrossTenant u db)) db'"
| login_broken_off: "pending = take n (guardians_findPendingPrimaryByUserIdCrossTenant u db) \<Longrightarrow>
    forM pending (auto_approve_one now) db = Inr (v, db') \<Longrightarrow> guardian_op db (exemptions pending) db'"

text \<open>What an operation does to the approvers: it respects the ceiling, up to its exemptions.\<close>

definition granted_within :: "(uuid \<times> uuid) list \<Rightarrow> billing_db \<Rightarrow> billing_db \<Rightarrow> bool" where
  "granted_within exempt db db' \<longleftrightarrow> guardians_ok db' \<and> (\<forall>k c. guardians_countApprovalRights k c db'
     \<le> max 2 (guardians_countApprovalRights k c db) + count_list exempt (k, c))"

lemma guardian_step_pending: "guardian_step g x \<Longrightarrow> gd_status x = PendingApproval \<Longrightarrow> gd_status g = PendingApproval \<and> gd_hasApprovalRights x = gd_hasApprovalRights g"
  by (elim guardian_stepE) (auto simp: guardian_ops split: if_splits sum.splits)

lemma change_within:
  assumes ok: "guardians_ok db" and ch: "guardian_change (room kg db) kg i db x db'"
  shows "granted_within [] db db'"
proof -
  obtain g where g: "guardians_findById kg i db = Some g" "guardian_step g x" "room kg db g x" "saved g x db db'"
    using ch unfolding guardian_change_def by blast
  note row = saved_row[OF ok g(1,2,4)]
  note ident = guardian_step_ident[OF g(2)]
  have "guardians_countApprovalRights k c db' \<le> max 2 (guardians_countApprovalRights k c db)" for k c
    unfolding guardians_countApprovalRights_def[of k c db'] row
    using g(3) ident by (intro capped[OF ok g(1) ident]) (auto simp: approver_of_def approver_def guardian_ident_def)
  moreover have "guardians_ok db'"
    using guardians_ok_write[OF ok g(1) ident] guardian_step_pending[OF g(2)] guardian_row(5)[OF ok g(1)] row
    by (auto simp: guardians_ok_def)
  ultimately show ?thesis by (simp add: granted_within_def)
qed

lemma plain_within: "guardian_change no_grant kg i db x db' \<Longrightarrow> guardians_ok db \<Longrightarrow> granted_within [] db db'"
  by (rule change_within[of db kg i x]) (auto simp: guardian_change_def)

lemma added_within: "guardian_added db db' \<Longrightarrow> guardians_ok db \<Longrightarrow> granted_within [] db db'"
  by (auto simp: guardian_added_def granted_within_def guardians_ok_def guardians_countApprovalRights_def approver_of_def)

text \<open>An exempt approval adds its one row.\<close>

lemma exempt_within:
  assumes ok: "guardians_ok db" and g: "guardians_findById kg i db = Some g" and st: "guardian_step g x"
    and x: "gd_status x = GuardianApproved" and s: "saved g x db db'"
  shows "granted_within (exemptions [x]) db db'" and "db_guardians db' = put_row gd_id i x (db_guardians db)"
proof -
  show row: "db_guardians db' = put_row gd_id i x (db_guardians db)" by (rule saved_row[OF ok g st s])
  note ident = guardian_step_ident[OF st]
  have "guardians_countApprovalRights k c db' \<le> max 2 (guardians_countApprovalRights k c db) + count_list (exemptions [x]) (k, c)" for k c
    using count_after_write[OF ok g ident, of k c]
    unfolding guardians_countApprovalRights_def[of k c db'] row
    by (auto simp: exemptions_def approver_of_def split: if_splits)
  moreover have "guardians_ok db'"
    using guardians_ok_write[OF ok g ident] x row by (simp add: guardians_ok_def)
  ultimately show "granted_within (exemptions [x]) db db'" by (simp add: granted_within_def)
qed

lemma within_trans:
  assumes "granted_within a db s" "granted_within b s t"
  shows "granted_within (a @ b) db t"
proof -
  have "guardians_countApprovalRights k c t \<le> max 2 (guardians_countApprovalRights k c db) + count_list (a @ b) (k, c)" for k c
  proof -
    have "guardians_countApprovalRights k c s \<le> max 2 (guardians_countApprovalRights k c db) + count_list a (k, c)"
      "guardians_countApprovalRights k c t \<le> max 2 (guardians_countApprovalRights k c s) + count_list b (k, c)"
      using assms by (simp_all add: granted_within_def)
    then show ?thesis by (simp add: max_def split: if_splits)
  qed
  then show ?thesis using assms by (simp add: granted_within_def)
qed

lemma within_frame: "guardians_ok db \<Longrightarrow> db_guardians db' = db_guardians db \<Longrightarrow> granted_within ls db db'"
  by (auto simp: granted_within_def guardians_ok_def guardians_countApprovalRights_def intro: trans_le_add1)

lemma approveGuardianByAdmin_within:
  assumes ok: "guardians_ok db" and run: "approveGuardianByAdmin E kg c i u grant db = Inr (x, db')"
  shows "granted_within (if gd_role x = PrimaryGuardian then exemptions [x] else []) db db'"
proof -
  obtain g s now t grt where g: "guardians_findById kg i db = Some g"
    and cap: "whenM (grt \<and> gd_role g \<noteq> PrimaryGuardian) (check_approval_cap kg (gd_childId g)) db = Inr ((), s)"
    and x: "guardian_approve u now grt g = Inr x"
    and w: "write_guarded g x (s\<lparr>db_clockReads := Suc (db_clockReads s)\<rparr>) = Inr ((), t)" "db_guardians db' = db_guardians t"
    using run unfolding approveGuardianByAdmin_def Let_def
    by (auto simp: op_inv(1-7) op_inv_state parse_inv dest!: guardian_or_throw_inv)
  note c = whenM_cap_inv[OF cap] and st = guardian_step.approve[OF x]
  have sv: "saved g x db db'" by (rule saved_guarded[OF w(1)]) (use w c in simp_all)
  have role: "gd_role x = gd_role g" "gd_status x = GuardianApproved"
    using x by (auto simp: guardian_approve_def split: if_splits)
  show ?thesis
  proof (cases "gd_role g = PrimaryGuardian")
    case True
    then show ?thesis using exempt_within(1)[OF ok g st role(2) sv] role by simp
  next
    case False
    then have "room kg db g x"
      using c approve_fields[OF x] guardian_row(5)[OF ok g] by (auto simp: approver_def)
    then have "guardian_change (room kg db) kg i db x db'" using g st sv unfolding guardian_change_def by blast
    then show ?thesis using change_within[OF ok] False role by simp
  qed
qed

text \<open>The approvals of a login.\<close>

lemma auto_approve_one_within:
  assumes ok: "guardians_ok db" and g: "g \<in> set (db_guardians db)"
    and run: "auto_approve_one now g db = Inr (v, db')"
  shows "granted_within (exemptions [g]) db db'"
    and "h \<in> set (db_guardians db) \<Longrightarrow> gd_id h \<noteq> gd_id g \<Longrightarrow> h \<in> set (db_guardians db')"
proof -
  have "granted_within (exemptions [g]) db db' \<and> (h \<in> set (db_guardians db) \<longrightarrow> gd_id h \<noteq> gd_id g \<longrightarrow> h \<in> set (db_guardians db'))"
  proof (cases "UUID_RE (gd_kindergartenId g)")
    case False
    then have "db' = db" using run by (simp add: auto_approve_one_def op_inv)
    then show ?thesis using within_frame[OF ok] by simp
  next
    case True
    then obtain x t where x: "guardian_autoApproveAsPrimary now g = Inr x" and w: "guardians_update x db = Inr ((), t)"
      and t: "db_guardians db' = db_guardians t"
      using run by (auto simp: auto_approve_one_def op_inv)
    note st = guardian_step.auto_approve[OF x]
    have f: "guardians_findById (gd_kindergartenId g) (gd_id g) db = Some g" by (rule guardian_found[OF ok g refl])
    have sv: "saved g x db db'" by (rule saved_plain[OF w refl t])
    have "gd_status x = GuardianApproved" using x by (auto simp: guardian_autoApproveAsPrimary_def split: if_splits)
    note fin = exempt_within[OF ok f st this sv]
    have "exemptions [x] = exemptions [g]" using guardian_step_ident[OF st] by (simp add: exemptions_def guardian_ident_def)
    with fin show ?thesis by (force simp: put_row_def)
  qed
  then show "granted_within (exemptions [g]) db db'"
    "h \<in> set (db_guardians db) \<Longrightarrow> gd_id h \<noteq> gd_id g \<Longrightarrow> h \<in> set (db_guardians db')" by blast+
qed

lemma login_within:
  assumes "guardians_ok db" "set gs \<subseteq> set (db_guardians db)" "distinct (map gd_id gs)" "forM gs (auto_approve_one now) db = Inr (v, db')"
  shows "granted_within (exemptions gs) db db'"
  using assms
proof (induction gs arbitrary: db)
  case Nil
  then show ?case by (auto simp: op_inv intro: within_frame)
next
  case (Cons g gs)
  then obtain w s where one: "auto_approve_one now g db = Inr (w, s)" and rest: "forM gs (auto_approve_one now) s = Inr (v, db')"
    by (auto simp: op_inv)
  have g: "g \<in> set (db_guardians db)" using Cons.prems by simp
  note first = auto_approve_one_within[OF Cons.prems(1) g one]
  have "set gs \<subseteq> set (db_guardians s)"
  proof
    fix h assume h: "h \<in> set gs"
    then have "gd_id h \<in> gd_id ` set gs" by (rule imageI)
    then have "gd_id h \<noteq> gd_id g" using Cons.prems(3) by auto
    moreover have "h \<in> set (db_guardians db)" using h Cons.prems(2) by auto
    ultimately show "h \<in> set (db_guardians s)" by (intro first(2))
  qed
  moreover have "guardians_ok s" using first(1) by (simp add: granted_within_def)
  ultimately have "granted_within (exemptions gs) s db'" using Cons.prems(3) rest by (intro Cons.IH) simp_all
  from within_trans[OF first(1) this] show ?case by (simp add: exemptions_def)
qed

lemma pending_rows:
  assumes "guardians_ok db"
  shows "set (take n (guardians_findPendingPrimaryByUserIdCrossTenant u db)) \<subseteq> set (db_guardians db)"
    and "distinct (map gd_id (take n (guardians_findPendingPrimaryByUserIdCrossTenant u db)))"
proof -
  let ?rows = "guardians_findPendingPrimaryByUserIdCrossTenant u db"
  have sub: "set ?rows \<subseteq> set (db_guardians db)" by (auto simp: guardians_findPendingPrimaryByUserIdCrossTenant_def)
  then show "set (take n ?rows) \<subseteq> set (db_guardians db)" using set_take_subset by fastforce
  have "inj_on gd_id (set (db_guardians db))" "distinct (db_guardians db)" using assms by (simp_all add: guardians_ok_def distinct_map)
  moreover have "distinct ?rows"
    using calculation by (simp add: guardians_findPendingPrimaryByUserIdCrossTenant_def)
  ultimately have "distinct (map gd_id ?rows)" using sub by (auto simp: distinct_map intro: inj_on_subset)
  then show "distinct (map gd_id (take n ?rows))" by (simp flip: take_map)
qed

lemma guardian_op_within:
  assumes "guardian_op db ls db'" "guardians_ok db"
  shows "granted_within ls db db'"
  using assms
proof (induction rule: guardian_op.induct)
  case (approveByAdmin E kg c i u grant db x db')
  then show ?case by (intro approveGuardianByAdmin_within)
next
  case (selfUnlink E kg u c db v db')
  then show ?case using selfUnlink_change plain_within by blast
next
  case (invite E kg input db x db')
  then show ?case using inviteGuardian_adds added_within unfolding adds_guardian_def by blast
next
  case (link E exceeded u iin rel pk db l db')
  then show ?case using linkChildByIin_adds added_within unfolding adds_guardian_def by blast
next
  case (login u now db v db')
  then have "forM (guardians_findPendingPrimaryByUserIdCrossTenant u db) (auto_approve_one now) db = Inr (v, db')"
    by (simp add: autoApprovePendingPrimaries_def op_inv)
  moreover have "take (length (guardians_findPendingPrimaryByUserIdCrossTenant u db)) (guardians_findPendingPrimaryByUserIdCrossTenant u db)
      = guardians_findPendingPrimaryByUserIdCrossTenant u db" by simp
  ultimately show ?case using login_within[OF login(2)] pending_rows[OF login(2)] by metis
next
  case (login_broken_off pending n u db now v db')
  then show ?case using login_within pending_rows by blast
qed (blast intro: change_within plain_within dest: approveGuardian_change toggle_change rejectGuardian_change
    rejectGuardianByAdmin_change revokeGuardianByAdmin_change revokeGuardianByPrimary_change
    updateGuardianRoleAndPickup_change updateGuardianPermissions_change resetGuardianPermissions_change)+

definition at_most_two :: "billing_db \<Rightarrow> bool" where
  "at_most_two db \<longleftrightarrow> (\<forall>kg c. guardians_countApprovalRights kg c db \<le> 2)"

text \<open>
  Along every history a child has at most two approvers and one more for every exempt approval of a
  primary of that child; without such an approval the ceiling holds.
\<close>

lemma approval_ceiling:
  assumes "trace guardian_op db exempt db'" "guardians_ok db" "at_most_two db"
  shows "guardians_countApprovalRights kg c db' \<le> 2 + count_list exempt (kg, c)"
proof -
  have "granted_within exempt db db'"
  proof (rule trace_invariant[where I = "\<lambda>ls s. granted_within ls db s", OF assms(1)])
    show "granted_within [] db db" by (rule within_frame[OF assms(2) refl])
  next
    fix ls l and t u :: billing_db assume t: "granted_within ls db t" and step: "guardian_op t l u"
    have "guardians_ok t" using t by (simp add: granted_within_def)
    then show "granted_within (ls @ l) db u" by (rule within_trans[OF t guardian_op_within[OF step]])
  qed
  then have "guardians_countApprovalRights kg c db' \<le> max 2 (guardians_countApprovalRights kg c db) + count_list exempt (kg, c)"
    unfolding granted_within_def by blast
  moreover have "max 2 (guardians_countApprovalRights kg c db) = 2" using assms(3) unfolding at_most_two_def by (intro max_absorb1) blast
  ultimately show ?thesis by simp
qed

subsection \<open>Concurrent changes\<close>

text \<open>
  A guarded write whose row has left the expected status in the meantime changes nothing and reports
  the conflict; the plain one puts the stale row back.
\<close>

lemma guarded_write_conflict:
  assumes "\<And>r. r \<in> set (db_guardians db) \<Longrightarrow> gd_id r = gd_id g \<Longrightarrow> gd_status r \<noteq> gd_status g" "gd_id x = gd_id g"
  shows "write_guarded g x db = Inl (GuardianStatusConflict (gd_id g) (gd_status g))"
  using assms by (auto simp: write_guarded_def guardians_updateWithExpectedStatus_def op_simps list_ex_iff Let_def)

lemma find_put_guardian:
  assumes ok: "guardians_ok db" and g: "guardians_findById kg i db = Some g" and t: "guardian_ident t = guardian_ident g"
  shows "find (\<lambda>r. gd_id r = i \<and> gd_kindergartenId r = kg) (put_row gd_id i t (db_guardians db)) = Some t"
  using t guardian_row(1-3)[OF ok g] by (intro find_put_row) (auto simp: guardian_ident_def)

lemma plain_write_resurrects:
  assumes ok: "guardians_ok db" and g: "guardians_findById kg i db = Some g" and revoked: "guardian_revoke who now g = Inr r"
    and t: "guardian_toggleApprovalRights grant later g = Inr t"
    and db1: "db1 = db\<lparr>db_guardians := put_row gd_id i r (db_guardians db)\<rparr>" and alone: "\<not> guardian_clash t (db_guardians db1)"
  shows "guardians_findById kg i db1 = Some r \<and> gd_status r = GuardianRevoked
    \<and> (\<exists>db2. guardians_update t db1 = Inr ((), db2) \<and> guardians_findById kg i db2 = Some t \<and> gd_status t = GuardianApproved)"
proof -
  note st = guardian_step.revoke[OF revoked] guardian_step.toggle[OF t]
  note id = st[THEN guardian_step_ident] and cr = st[THEN guardian_step_created]
  have r: "guardians_findById kg i db1 = Some r"
    using find_put_guardian[OF ok g id(1)] by (simp add: db1 guardians_findById_def)
  have rr: "gd_status r = GuardianRevoked" "gd_status t = GuardianApproved"
    using revoked t by (auto simp: guardian_ops split: if_splits)
  have ok1: "guardians_ok db1"
    unfolding db1 using guardians_ok_write[OF ok g id(1)] rr by simp
  have id2: "guardian_ident t = guardian_ident r" "gd_createdAt t = gd_createdAt r" using id cr by simp_all
  obtain db2 where w: "guardians_update t db1 = Inr ((), db2)"
    using alone by (auto simp: guardians_update_def Let_def)
  have "guardians_findById kg i db2 = Some t"
    using find_put_guardian[OF ok1 r id2(1)] write_plain_row[OF ok1 r id2 w] by (simp add: guardians_findById_def)
  with r rr w show ?thesis by blast
qed

text \<open>
  Approving a pending primary grants the rights without looking at the ceiling, on both paths that
  approve one: with two approvers already there, the child has three.
\<close>

lemma primary_exceeds_ceiling:
  assumes ok: "guardians_ok db" and g: "guardians_findById kg i db = Some g"
    and pending: "gd_status g = PendingApproval" "gd_role g = PrimaryGuardian"
    and two: "guardians_countApprovalRights kg (gd_childId g) db = 2"
    and run: "approveGuardianByAdmin E kg (gd_childId g) i u grant db = Inr (x, db')"
  shows "guardians_countApprovalRights kg (gd_childId g) db' = 3"
proof -
  obtain now t where x: "guardian_approve u now True g = Inr x"
    and w: "write_guarded g x (db\<lparr>db_clockReads := Suc (db_clockReads db)\<rparr>) = Inr ((), t)" "db_guardians db' = db_guardians t"
    using run g pending unfolding approveGuardianByAdmin_def Let_def
    by (auto simp: op_inv(1-7) op_inv_state whenM_def parse_inv dest!: guardian_or_throw_inv)
  have step: "guardian_step g x" using guardian_step.approve[OF x] .
  have row: "db_guardians db' = put_row gd_id i x (db_guardians db)"
    by (rule saved_row[OF ok g step saved_guarded[OF w(1) _ w(2)]]) simp
  note ident = guardian_step_ident[OF step]
  have "\<not> approver_of kg (gd_childId g) g" using pending by (simp add: approver_of_def)
  moreover have "approver_of kg (gd_childId g) x"
    using x ident guardian_row(3)[OF ok g] by (auto simp: approver_of_def guardian_approve_def guardian_ident_def split: if_splits)
  ultimately show ?thesis
    using count_after_write[OF ok g ident, of kg "gd_childId g"] two row by (simp add: guardians_countApprovalRights_def)
qed

end
