(* ===== verification/Archive_Billing.thy ===== *)
theory Archive_Billing
  imports Child_Service Billing_Run Op_Rules
begin

text \<open>
  What archiving a child means for billing: \<open>archiveChild\<close> of \<open>src/modules/child/child.service.ts\<close>
  followed by the monthly run of \<open>src/modules/billing/invoice.service.ts\<close>.
\<close>

lemma archive_inv:
  assumes "archiveChild E kg c reason by u db = Inr (x, db')"
  shows "\<exists>now rows h. now = env_clock E (db_clockReads db)
    \<and> cas ch_kindergartenId ch_id ch_status kg c [ChildActive] (archive_patch now (trim reason)) (db_children db) = (Some x, rows)
    \<and> db_children db' = rows
    \<and> db_statusHistory db' = db_statusHistory db @ [h] \<and> hi_kindergartenId h = kg \<and> hi_childId h = c \<and> hi_changedAt h = now
    \<and> hi_previousStatus h = ChildActive \<and> hi_newStatus h = ChildArchived \<and> hi_archiveReason h = Some (trim reason)
    \<and> db_assignments db' = update_where (closes kg c (toDateColumn now))
         (\<lambda>r. r\<lparr>ta_validUntil := Some (toDateColumn now), ta_updatedAt := now\<rparr>) (db_assignments db)
    \<and> db_outbox db' = db_outbox db @ [ChildArchivedEv kg c now (trim reason) by]
    \<and> db_jobs db' = db_jobs db @ [(kg, c, now)] \<and> db_invoices db' = db_invoices db"
  using assms unfolding archiveChild_def Let_def
  by (auto simp: op_inv children_archive_def children_transition_def child_done_def record_transition_def
      closeActiveTariffAssignmentsForChild_def assignments_closeActiveForChild_def enqueue_refund_job_def
      statusHistory_recordStatusChange_def history_record_def Let_def
      split: if_splits prod.splits option.splits)

text \<open>After the archive no assignment of the child is active on any later day.\<close>

lemma archive_closes_assignments:
  assumes run: "archiveChild E kg c reason by u db = Inr (x, db')"
    and later: "toDateColumn (env_clock E (db_clockReads db)) < toDateColumn d"
  shows "assignments_findActiveForChild kg c d db' = None"
    and "\<forall>a\<in>set (assignments_findAllActiveAtDate kg d db'). ta_childId a \<noteq> c"
proof -
  let ?day = "toDateColumn (env_clock E (db_clockReads db))"
  have rows: "db_assignments db' = update_where (closes kg c ?day)
      (\<lambda>r. r\<lparr>ta_validUntil := Some ?day, ta_updatedAt := env_clock E (db_clockReads db)\<rparr>) (db_assignments db)"
    using archive_inv[OF run] by blast
  have none: "\<not> (ta_kindergartenId r = kg \<and> ta_childId r = c \<and> in_window (toDateColumn d) (ta_validFrom r) (ta_validUntil r))"
    if r: "r \<in> set (db_assignments db')" for r
  proof -
    obtain q where q: "r = (if closes kg c ?day q then q\<lparr>ta_validUntil := Some ?day, ta_updatedAt := env_clock E (db_clockReads db)\<rparr> else q)"
      using r unfolding rows set_update_where by blast
    show ?thesis
    proof (cases "closes kg c ?day q")
      case True
      then show ?thesis using q later by (simp add: in_window_def)
    next
      case False
      then show ?thesis using q later by (cases "ta_validUntil q") (auto simp: closes_def in_window_def)
    qed
  qed
  then have "filter (\<lambda>r. ta_kindergartenId r = kg \<and> ta_childId r = c
         \<and> in_window (toDateColumn d) (ta_validFrom r) (ta_validUntil r)) (db_assignments db') = []"
    by (simp add: filter_empty_conv)
  then show "assignments_findActiveForChild kg c d db' = None" by (simp add: assignments_findActiveForChild_def)
  show "\<forall>a\<in>set (assignments_findAllActiveAtDate kg d db'). ta_childId a \<noteq> c"
    using none by (auto simp: assignments_findAllActiveAtDate_def)
qed

lemma archived_child:
  assumes run: "archiveChild E kg c reason by u db = Inr (x, db')" and uniq: "distinct (map ch_id (db_children db))"
  shows "children_findById kg c db' = Some x \<and> ch_status x = ChildArchived
    \<and> (\<exists>y. children_findById kg c db = Some y \<and> ch_status y = ChildActive)"
proof -
  let ?now = "env_clock E (db_clockReads db)"
  have t: "child_transition [ChildActive] (archive_patch ?now (trim reason)) ChildArchived" by (rule child_transition.archive)
  have r: "cas ch_kindergartenId ch_id ch_status kg c [ChildActive] (archive_patch ?now (trim reason)) (db_children db)
      = (Some x, db_children db')" using archive_inv[OF run] by blast
  then obtain y where "y \<in> set (db_children db)" "ch_id y = c" "ch_kindergartenId y = kg"
    using update_returning_Some[OF r[unfolded cas_def]] by auto
  then obtain z where z: "find (\<lambda>r. ch_id r = c \<and> ch_kindergartenId r = kg) (db_children db) = Some z"
    by (cases "find (\<lambda>r. ch_id r = c \<and> ch_kindergartenId r = kg) (db_children db)") (auto simp: find_None_iff_set)
  have "ch_status z = ChildActive" "x = archive_patch ?now (trim reason) z"
    using children.cas_unique[OF t z uniq] r by (auto split: if_splits)
  moreover have "find (\<lambda>r. ch_id r = c \<and> ch_kindergartenId r = kg) (db_children db') = Some x"
    using r by (auto simp: cas_def update_returning_def Let_def split: if_splits)
  ultimately show ?thesis using z by (simp add: children_findById_def archive_patch_def)
qed

subsection \<open>The monthly run passes an archived child by\<close>

text \<open>The invoices of a child, in the state.\<close>

definition invoices_of :: "uuid \<Rightarrow> billing_db \<Rightarrow> InvoiceState list" where
  "invoices_of c db = filter (\<lambda>v. inv_childId v = c) (db_invoices db)"

lemma keeps_account [frame]:
  assumes "\<And>db x. f (db\<lparr>db_accounts := x\<rparr>) = f db" "\<And>db x. f (db\<lparr>db_clockReads := x\<rparr>) = f db"
    "\<And>db x. f (db\<lparr>db_uuidDraws := x\<rparr>) = f db"
  shows "keeps f (ensureForChild E kg c)"
  unfolding ensureForChild_def accounts_findOrCreateForChild_def by (intro frame assms)

lemma keeps_admit [frame]:
  assumes "\<And>db x. f (db\<lparr>db_discounts := x\<rparr>) = f db" "\<And>db x. f (db\<lparr>db_clockReads := x\<rparr>) = f db"
    "\<And>db x. f (db\<lparr>db_locks := x\<rparr>) = f db"
  shows "keeps f (admit E kg c b snaps)"
proof (induction snaps)
  case Nil
  show ?case by (simp add: frame)
next
  case (Cons s snaps)
  have "keeps f (per_child_guard kg c b s)" "keeps f (total_guard E kg b s)"
    unfolding per_child_guard_def total_guard_def lock_defs discounts_tryReserveUsage_def by (intro frame assms)+
  with Cons show ?case by (auto intro!: frame split: prod.splits)
qed


lemma keeps_filterDiscounts [frame]:
  assumes "\<And>db x. f (db\<lparr>db_clockReads := x\<rparr>) = f db"
  shows "keeps f (filterDiscountsForChild E kg c snaps)"
proof (induction snaps)
  case (Cons s snaps)
  have "keeps f (resolveByTargetType E kg t ids cond)" for t ids cond
    unfolding resolveByTargetType_def Let_def
    by (cases t; simp split del: if_split split: option.split prod.split) (intro frame assms allI impI conjI; simp)+
  with Cons show ?case by (auto intro!: frame)
qed (simp add: frame)


lemma keeps_invoices_create [frame]:
  "(\<And>db x. f (db\<lparr>db_invoices := db_invoices db @ [invoice_row D v], db_lineItems := x\<rparr>) = f db) \<Longrightarrow> keeps f (invoices_create D v items)"
  by (auto simp: keeps_def invoices_create_def Let_def split: option.splits)

lemma keeps_persistApplications [frame]:
  assumes "\<And>db x. f (db\<lparr>db_applications := x\<rparr>) = f db" "\<And>db x. f (db\<lparr>db_clockReads := x\<rparr>) = f db"
    "\<And>db x. f (db\<lparr>db_uuidDraws := x\<rparr>) = f db"
  shows "keeps f (persistCustomDiscountApplications E kg v l r)"
proof -
  have "keeps f (applications_create E kg d i l c a)" for d i l c a
    unfolding applications_create_def
    by (intro frame assms) (auto simp: keeps_def Let_def assms split: option.splits)
  then show ?thesis unfolding persistCustomDiscountApplications_def by (intro frame)
qed

lemma keeps_releaseUnused [frame]:
  assumes "\<And>db x. f (db\<lparr>db_discounts := x\<rparr>) = f db" "\<And>db x. f (db\<lparr>db_clockReads := x\<rparr>) = f db"
  shows "keeps f (releaseUnusedReservations E kg ids r)"
  unfolding releaseUnusedReservations_def discounts_releaseUsage_def by (intro frame assms)

lemma keeps_split [frame]: "(\<And>x y. keeps f (h x y)) \<Longrightarrow> keeps f (case p of (x, y) \<Rightarrow> h x y)"
  by (cases p) simp

lemma keeps_generate:
  assumes s: "\<And>db x. f (db\<lparr>db_accounts := x\<rparr>) = f db" "\<And>db x. f (db\<lparr>db_clockReads := x\<rparr>) = f db"
    "\<And>db x. f (db\<lparr>db_uuidDraws := x\<rparr>) = f db" "\<And>db x. f (db\<lparr>db_discounts := x\<rparr>) = f db"
    "\<And>db x. f (db\<lparr>db_locks := x\<rparr>) = f db" "\<And>db x. f (db\<lparr>db_outbox := x\<rparr>) = f db"
    "\<And>db x. f (db\<lparr>db_applications := x\<rparr>) = f db"
    and inv: "\<And>db v x. inv_childId v = ta_childId (ga_assignment a) \<Longrightarrow> inv_kindergartenId v = kg \<Longrightarrow>
      f (db\<lparr>db_invoices := db_invoices db @ [v], db_lineItems := x\<rparr>) = f db"
  shows "keeps f (generateAndPersistInvoice E kg a)"
  unfolding generateAndPersistInvoice_def buildCustomDiscountInputs_def emitInvoiceCreated_def Let_def
  by (intro frame s inv) (simp_all add: invoice_row_def)


lemma plans_findById_state: "plans_findById kg i db = Inr (r, db') \<Longrightarrow> db' = db"
  by (auto simp: plans_findById_def op_inv split: option.splits)

lemma monthly_one_skips:
  assumes x: "children_findById kg c db = Some x" "ch_status x = ChildArchived"
    and run: "monthly_one E kg periodStart nb covered a db = Inr (r, db')"
  shows "invoices_of c db' = invoices_of c db \<and> db_children db' = db_children db"
proof (cases "ta_childId a = c")
  case True
  with x run show ?thesis by (auto simp: monthly_one_def op_inv split: if_splits)
next
  case False
  have "keeps (\<lambda>db. (invoices_of c db, db_children db)) (monthly_one E kg periodStart nb covered a)"
    unfolding monthly_one_def Let_def plans_findById_def
    by (intro frame keeps_generate) (use False in \<open>auto simp: invoices_of_def\<close>)
  from keepsD[OF this run] show ?thesis by simp
qed

lemma monthly_loop_skips:
  assumes "children_findById kg c db = Some x" "ch_status x = ChildArchived"
    and "monthly_loop E kg periodStart nb covered as db = Inr (r, db')"
  shows "invoices_of c db' = invoices_of c db \<and> db_children db' = db_children db"
  using assms
proof (induction as arbitrary: db r)
  case Nil
  then show ?case by (simp add: op_inv)
next
  case (Cons a as)
  obtain b db1 r1 where one: "monthly_one E kg periodStart nb covered a db = Inr (b, db1)"
    and rest: "monthly_loop E kg periodStart nb covered as db1 = Inr (r1, db')"
    using Cons.prems(3) by (auto simp: op_inv split: prod.splits if_splits)
  note k = monthly_one_skips[OF Cons.prems(1,2) one]
  then have "children_findById kg c db1 = Some x" using Cons.prems(1) by (simp add: children_findById_def)
  from Cons.IH[OF this Cons.prems(2) rest] k show ?case by simp
qed

text \<open>The run after its lock: nothing to do, already done, or the loop.\<close>

definition monthly_locked :: "uuid \<Rightarrow> instant \<Rightarrow> billing_db \<Rightarrow> billing_db" where
  "monthly_locked kg periodStart db = db\<lparr>db_locks := db_locks db
     @ [''billing:monthly:'' @ kg @ '':'' @ take 7 (iso_date_string (utc_date_of periodStart))]\<rparr>"

lemma generateMonthly_run:
  fixes db periodStart kg defines "db0 \<equiv> monthly_locked kg periodStart db"
  shows "generateMonthly E kg periodStart db =
    (if assignments_findAllActiveAtDate kg periodStart db = [] then Inr ((0, 0), db0)
     else if invoices_existsMonthlyForPeriod kg periodStart db
     then Inr ((0, length (assignments_findAllActiveAtDate kg periodStart db)), db0)
     else monthly_loop E kg periodStart (holidays_countNonBillableInRange kg periodStart (endOfMonth periodStart) db0)
       (invoices_listChildIdsWithPaidPrepaymentCovering kg periodStart db0)
       (assignments_findAllActiveAtDate kg periodStart db) db0)"
proof -
  have "assignments_findAllActiveAtDate kg periodStart db0 = assignments_findAllActiveAtDate kg periodStart db"
    "invoices_existsMonthlyForPeriod kg periodStart db0 = invoices_existsMonthlyForPeriod kg periodStart db"
    by (simp_all add: db0_def monthly_locked_def assignments_findAllActiveAtDate_def invoices_existsMonthlyForPeriod_def)
  moreover have "invoices_acquireMonthlyGenerationAdvisoryLock kg periodStart db = Inr ((), db0)"
    by (simp add: invoices_acquireMonthlyGenerationAdvisoryLock_def op_simps db0_def monthly_locked_def)
  ultimately show ?thesis unfolding generateMonthly_def by (simp add: op_simps)
qed

lemma monthly_skips_archived:
  assumes x: "children_findById kg c db = Some x" "ch_status x = ChildArchived"
    and run: "generateMonthly E kg periodStart db = Inr (r, db')"
  shows "invoices_of c db' = invoices_of c db"
proof -
  define db0 where "db0 = monthly_locked kg periodStart db"
  have same: "invoices_of c db0 = invoices_of c db" "children_findById kg c db0 = Some x"
    using x(1) by (simp_all add: db0_def monthly_locked_def invoices_of_def children_findById_def)
  consider "db' = db0" | nb covered as where "monthly_loop E kg periodStart nb covered as db0 = Inr (r, db')"
    using run unfolding generateMonthly_run db0_def[symmetric] by (auto split: if_splits)
  then show ?thesis using monthly_loop_skips[OF same(2) x(2)] same(1) by cases auto
qed

end
