(* ===== verification/Monthly_Once.thy ===== *)
theory Monthly_Once
  imports Archive_Billing
begin

text \<open>
  The monthly run is idempotent: once a run has generated an invoice for a period, running it again for
  that period generates nothing and changes no table (\<open>generateMonthly\<close> of
  \<open>src/modules/billing/invoice.service.ts\<close>).
\<close>

definition grows :: "'a op \<Rightarrow> bool" where
  "grows m \<longleftrightarrow> (\<forall>db x db'. m db = Inr (x, db') \<longrightarrow> (\<exists>ys. db_invoices db' = db_invoices db @ ys))"

named_theorems grow \<open>operations that only append invoices\<close>

lemma grows_keeps: "keeps db_invoices m \<Longrightarrow> grows m"
  by (force simp: keeps_def grows_def)

lemma grows_bind [grow]: "grows m \<Longrightarrow> (\<And>x. grows (k x)) \<Longrightarrow> grows (bindM m k)"
  unfolding grows_def op_inv by (metis append_assoc)

lemma grows_if [grow]: "grows m \<Longrightarrow> grows n \<Longrightarrow> grows (if b then m else n)" by simp
lemma grows_let [grow]: "(\<And>x. grows (k x)) \<Longrightarrow> grows (let x = v in k x)" by simp
lemma grows_split [grow]: "(\<And>x y. grows (h x y)) \<Longrightarrow> grows (case p of (x, y) \<Rightarrow> h x y)" by (cases p) simp
lemma grows_option [grow]: "grows m \<Longrightarrow> (\<And>x. grows (k x)) \<Longrightarrow> grows (case v of None \<Rightarrow> m | Some x \<Rightarrow> k x)"
  by (cases v) simp_all

lemma grows_create [grow]: "grows (invoices_create D v items)"
  by (auto simp: grows_def invoices_create_def Let_def split: option.splits)

lemmas grow_basic [grow] = keeps_basic[THEN grows_keeps]

lemma grows_clock [grow]: "grows (nowM E)" "grows (randomUUID E)"
  by (auto intro!: grows_keeps frame)

lemma grows_parts [grow]:
  "grows (ensureForChild E kg c)" "grows (filterDiscountsForChild E kg c snaps)" "grows (admit E kg c b snaps)"
  "grows (releaseUnusedReservations E kg ids r)" "grows (persistCustomDiscountApplications E kg v l r)" "grows (emitM ev)"
  by (intro grows_keeps frame; simp)+

lemma grows_generate [grow]: "grows (generateAndPersistInvoice E kg a)"
  unfolding generateAndPersistInvoice_def buildCustomDiscountInputs_def emitInvoiceCreated_def Let_def
  by (intro grow)

lemma grows_monthly_one [grow]: "grows (monthly_one E kg ps nb covered a)"
  unfolding monthly_one_def plans_findById_def by (intro grow)

lemma grows_monthly_loop [grow]: "grows (monthly_loop E kg ps nb covered as)"
  by (induction as) (simp_all add: grow)

subsection \<open>What the builder leaves behind\<close>

definition creates :: "decimal_lib \<Rightarrow> (InvoiceState \<Rightarrow> bool) \<Rightarrow> InvoiceState option op \<Rightarrow> bool" where
  "creates D Q m \<longleftrightarrow> (\<forall>db v db'. m db = Inr (Some v, db') \<longrightarrow> Q v \<and> invoice_row D v \<in> set (db_invoices db'))"

lemma creates_bind: "(\<And>x. creates D Q (k x)) \<Longrightarrow> creates D Q (bindM m k)"
  unfolding creates_def op_inv by blast

lemma creates_if: "creates D Q m \<Longrightarrow> creates D Q n \<Longrightarrow> creates D Q (if b then m else n)" by simp
lemma creates_split: "(\<And>x y. creates D Q (h x y)) \<Longrightarrow> creates D Q (case p of (x, y) \<Rightarrow> h x y)" by (cases p) simp
lemma creates_none: "creates D Q (returnM None)" by (simp add: creates_def op_simps)

lemma creates_invoice:
  assumes "Q v" and k: "\<And>w. keeps db_invoices (k w)" "\<And>w. keeps db_invoices (e w)"
  shows "creates D Q (bindM (invoices_create D v items) (\<lambda>w. bindM (k w) (\<lambda>_. bindM (e w) (\<lambda>_. returnM (Some w)))))"
  unfolding creates_def
proof (intro allI impI)
  fix db w db' assume "bindM (invoices_create D v items) (\<lambda>w. bindM (k w) (\<lambda>_. bindM (e w) (\<lambda>_. returnM (Some w)))) db = Inr (Some w, db')"
  then obtain db1 db2 x y where c: "invoices_create D v items db = Inr (w, db1)" and "k w db1 = Inr (x, db2)" "e w db2 = Inr (y, db')"
    by (auto simp: op_inv)
  then have "db_invoices db' = db_invoices db1" using keepsD[OF k(1)] keepsD[OF k(2)] by metis
  moreover from c have "w = v" "db_invoices db1 = db_invoices db @ [invoice_row D v]"
    by (auto simp: invoices_create_def Let_def split: option.splits)
  ultimately show "Q w \<and> invoice_row D w \<in> set (db_invoices db')" using assms(1) by simp
qed

lemma generate_creates:
  "creates (env_decimal E) (\<lambda>v. inv_kindergartenId v = kg \<and> inv_invoiceType v = ga_invoiceType a
     \<and> inv_periodStart v = ga_periodStart a \<and> inv_childId v = ta_childId (ga_assignment a)) (generateAndPersistInvoice E kg a)"
  unfolding generateAndPersistInvoice_def emitInvoiceCreated_def Let_def
  by (intro creates_invoice creates_bind creates_split creates_if creates_none; (intro frame)?; simp)

lemma monthly_one_creates:
  assumes "monthly_one E kg ps nb covered a db = Inr (True, db')"
  shows "invoices_existsMonthlyForPeriod kg ps db'"
proof -
  obtain g v db1 where "generateAndPersistInvoice E kg g db1 = Inr (Some v, db')" "ga_invoiceType g = Monthly" "ga_periodStart g = ps"
    using assms unfolding monthly_one_def Let_def by (auto simp: op_inv split: if_splits option.splits)
  with generate_creates[of E kg g] show ?thesis
    by (auto simp: creates_def invoices_existsMonthlyForPeriod_def list_ex_iff intro!: bexI[of _ "invoice_row (env_decimal E) v"])
      (auto simp: invoice_row_def)
qed

lemma monthly_loop_creates:
  assumes "monthly_loop E kg ps nb covered as db = Inr ((n, s), db')" "0 < n"
  shows "invoices_existsMonthlyForPeriod kg ps db'"
  using assms
proof (induction as arbitrary: db n s)
  case (Cons a as)
  obtain b db1 n1 s1 where one: "monthly_one E kg ps nb covered a db = Inr (b, db1)"
    and rest: "monthly_loop E kg ps nb covered as db1 = Inr ((n1, s1), db')" and n: "n = (if b then Suc n1 else n1)"
    using Cons.prems(1) by (auto simp: op_inv split: prod.splits if_splits)
  show ?case
  proof (cases b)
    case True
    obtain ys where "db_invoices db' = db_invoices db1 @ ys"
      using grows_monthly_loop[of E kg ps nb covered as] rest unfolding grows_def by blast
    with monthly_one_creates[of E kg ps nb covered a db db1] one True show ?thesis
      by (auto simp: invoices_existsMonthlyForPeriod_def)
  next
    case False
    with Cons.IH[OF rest] n Cons.prems(2) show ?thesis by simp
  qed
qed (simp add: op_inv)

text \<open>The assignments, and so what a second run sees, are not changed by a run.\<close>

lemma keeps_assignments_loop: "keeps db_assignments (monthly_loop E kg ps nb covered as)"
proof (induction as)
  case (Cons a as)
  have "keeps db_assignments (monthly_one E kg ps nb covered a)"
    unfolding monthly_one_def Let_def plans_findById_def by (intro frame keeps_generate) simp_all
  with Cons show ?case by (auto intro!: frame)
qed (simp add: frame)

lemma monthly_twice:
  assumes "generateMonthly E kg ps db = Inr ((n, s), db')" "0 < n"
  shows "generateMonthly E kg ps db' = Inr ((0, length (assignments_findAllActiveAtDate kg ps db')), monthly_locked kg ps db')"
proof -
  define db0 where "db0 = monthly_locked kg ps db"
  obtain nb covered where as: "assignments_findAllActiveAtDate kg ps db \<noteq> []"
    and loop: "monthly_loop E kg ps nb covered (assignments_findAllActiveAtDate kg ps db) db0 = Inr ((n, s), db')"
    using assms unfolding generateMonthly_run db0_def[symmetric] by (auto split: if_splits)
  have "db_assignments db' = db_assignments db"
    using keepsD[OF keeps_assignments_loop loop] by (simp add: db0_def monthly_locked_def)
  then have "assignments_findAllActiveAtDate kg ps db' \<noteq> []" using as by (simp add: assignments_findAllActiveAtDate_def)
  with monthly_loop_creates[OF loop assms(2)] show ?thesis by (simp add: generateMonthly_run)
qed

end
