(* ===== verification/Assignment_Windows.thy ===== *)
theory Assignment_Windows
  imports Tariff_Service Archive_Billing
begin

text \<open>
  At most one tariff assignment of a child is active on any day: what the overlap test of
  \<open>src/modules/billing/tariff-assignment.service.ts\<close> is for. Assigning, editing, closing and the
  closing on archive keep it, so the monthly run meets every child at most once.
\<close>

definition active_on :: "instant \<Rightarrow> TariffAssignmentState \<Rightarrow> bool" where
  "active_on d r \<longleftrightarrow> in_window d (ta_validFrom r) (ta_validUntil r)"

definition one_per_day :: "billing_db \<Rightarrow> bool" where
  "one_per_day db \<longleftrightarrow> distinct (map ta_id (db_assignments db)) \<and>
     (\<forall>r\<in>set (db_assignments db). \<forall>q\<in>set (db_assignments db). \<forall>d.
        ta_kindergartenId r = ta_kindergartenId q \<and> ta_childId r = ta_childId q \<and> active_on d r \<and> active_on d q
        \<longrightarrow> ta_id r = ta_id q)"

lemma overlap_common: "in_window d a u \<Longrightarrow> in_window d b v \<Longrightarrow> windows_overlap a u b v"
  by (auto simp: in_window_def windows_overlap_def split: option.splits)

lemma no_overlap:
  assumes "\<not> assignments_existsOverlap kg child from until ex db" "r \<in> set (db_assignments db)"
    "ta_kindergartenId r = kg" "ta_childId r = child" "\<forall>x. ex = Some x \<longrightarrow> ta_id r \<noteq> x"
    "in_window d (toDateColumn from) (map_option toDateColumn until)"
  shows "\<not> active_on d r"
  using assms overlap_common by (force simp: assignments_existsOverlap_def list_ex_iff active_on_def split: option.splits)

text \<open>One row changes its window: the others may not be active where the new one is.\<close>

lemma one_per_day_update:
  assumes ok: "one_per_day db" and r: "r \<in> set (db_assignments db)" "P r" and uniq: "\<And>x. x \<in> set (db_assignments db) \<Longrightarrow> P x \<Longrightarrow> ta_id x = ta_id r"
    and key: "ta_id (f r) = ta_id r" "ta_kindergartenId (f r) = ta_kindergartenId r" "ta_childId (f r) = ta_childId r"
    and apart: "\<And>q d. q \<in> set (db_assignments db) \<Longrightarrow> ta_id q \<noteq> ta_id r \<Longrightarrow> ta_kindergartenId q = ta_kindergartenId r \<Longrightarrow>
       ta_childId q = ta_childId r \<Longrightarrow> active_on d (f r) \<Longrightarrow> \<not> active_on d q"
    and db': "db_assignments db' = update_where P f (db_assignments db)"
  shows "one_per_day db'"
proof -
  have one: "x = r" if "x \<in> set (db_assignments db)" "P x" for x
    using that uniq[OF that] r(1) ok by (auto simp: one_per_day_def distinct_map dest: inj_onD)
  have P: "P x \<longleftrightarrow> x = r" if "x \<in> set (db_assignments db)" for x using one[OF that] r(2) by blast
  have upd: "db_assignments db' = map (\<lambda>x. if x = r then f r else x) (db_assignments db)"
    unfolding db' update_where_def by (rule map_cong[OF refl]) (simp add: P)
  have rows: "set (db_assignments db') = (\<lambda>x. if x = r then f r else x) ` set (db_assignments db)"
    by (simp add: upd)
  have ids: "map ta_id (db_assignments db') = map ta_id (db_assignments db)"
    unfolding upd by (simp add: key(1))
  show ?thesis
    unfolding one_per_day_def ids
  proof (intro conjI ballI allI impI)
    show "distinct (map ta_id (db_assignments db))" using ok by (simp add: one_per_day_def)
  next
    fix x y d assume x: "x \<in> set (db_assignments db')" and y: "y \<in> set (db_assignments db')"
      and a: "ta_kindergartenId x = ta_kindergartenId y \<and> ta_childId x = ta_childId y \<and> active_on d x \<and> active_on d y"
    obtain x0 where x0: "x0 \<in> set (db_assignments db)" "x = (if x0 = r then f r else x0)" using x rows by auto
    obtain y0 where y0: "y0 \<in> set (db_assignments db)" "y = (if y0 = r then f r else y0)" using y rows by auto
    consider "x0 = r" "y0 = r" | "x0 = r" "y0 \<noteq> r" | "x0 \<noteq> r" "y0 = r" | "x0 \<noteq> r" "y0 \<noteq> r" by blast
    then show "ta_id x = ta_id y"
    proof cases
      case 2
      then show ?thesis using x0 y0 a key apart[of y0 d] by (cases "ta_id y0 = ta_id r") auto
    next
      case 3
      then show ?thesis using x0 y0 a key apart[of x0 d] by (cases "ta_id x0 = ta_id r") auto
    next
      case 4
      then show ?thesis using x0 y0 a ok unfolding one_per_day_def by auto
    qed (use x0 y0 in simp)
  qed
qed

text \<open>Windows that only shrink.\<close>

lemma one_per_day_shrink:
  assumes ok: "one_per_day db" and db': "db_assignments db' = map f (db_assignments db)"
    and key: "\<And>r. ta_id (f r) = ta_id r \<and> ta_kindergartenId (f r) = ta_kindergartenId r \<and> ta_childId (f r) = ta_childId r"
    and shrink: "\<And>r d. active_on d (f r) \<Longrightarrow> active_on d r"
  shows "one_per_day db'"
  using ok key shrink unfolding one_per_day_def db' by (simp add: comp_def) blast


subsection \<open>The operations\<close>

lemma assign_inv:
  assumes "assign E kg input db = Inr (s, db')"
  shows "\<not> assignments_existsOverlap kg (at_childId input) (at_validFrom input) (at_validUntil input) None db
    \<and> (\<exists>row. db_assignments db' = db_assignments db @ [row] \<and> \<not> list_ex (\<lambda>r. ta_id r = ta_id row) (db_assignments db)
      \<and> ta_kindergartenId row = kg \<and> ta_childId row = at_childId input \<and> ta_validFrom row = toDateColumn (at_validFrom input)
      \<and> ta_validUntil row = map_option toDateColumn (at_validUntil input) \<and> tariffAssignment_fromState row = Inr s)"
  using assms unfolding assign_def assignments_create_def tariffPlan_get_def plans_findById_def
    assignments_acquireAssignChildAdvisoryLock_def assignments_existsOverlap_def Let_def
  by (auto simp: op_inv split: if_splits sum.splits option.splits)

lemma assign_one_per_day:
  assumes ok: "one_per_day db" and run: "assign E kg input db = Inr (s, db')"
  shows "one_per_day db'"
proof -
  obtain row where over: "\<not> assignments_existsOverlap kg (at_childId input) (at_validFrom input) (at_validUntil input) None db"
    and fresh: "\<not> list_ex (\<lambda>r. ta_id r = ta_id row) (db_assignments db)"
    and row: "ta_kindergartenId row = kg" "ta_childId row = at_childId input" "ta_validFrom row = toDateColumn (at_validFrom input)"
      "ta_validUntil row = map_option toDateColumn (at_validUntil input)"
    and db': "db_assignments db' = db_assignments db @ [row]"
    using assign_inv[OF run] by blast
  have apart: "\<not> active_on d r" if "r \<in> set (db_assignments db)" "ta_kindergartenId r = kg" "ta_childId r = at_childId input"
    "active_on d row" for r d
    using no_overlap[OF over that(1-3)] that(4) row by (simp add: active_on_def)
  have ids: "distinct (map ta_id (db_assignments db'))"
    using ok fresh by (auto simp: db' one_per_day_def list_ex_iff)
  show ?thesis
    unfolding one_per_day_def
  proof (intro conjI ballI allI impI)
    fix x y d assume x: "x \<in> set (db_assignments db')" and y: "y \<in> set (db_assignments db')"
      and a: "ta_kindergartenId x = ta_kindergartenId y \<and> ta_childId x = ta_childId y \<and> active_on d x \<and> active_on d y"
    consider "x = row" "y = row" | "x = row" "y \<in> set (db_assignments db)" | "x \<in> set (db_assignments db)" "y = row"
      | "x \<in> set (db_assignments db)" "y \<in> set (db_assignments db)" using x y by (auto simp: db')
    then show "ta_id x = ta_id y"
    proof cases
      case 2
      then show ?thesis using a apart[of y d] row(1,2) by simp
    next
      case 3
      then show ?thesis using a apart[of x d] row(1,2) by simp
    next
      case 4
      then show ?thesis using a ok unfolding one_per_day_def by blast
    qed simp
  qed (rule ids)
qed


text \<open>Closing all of a child, when it is archived.\<close>

lemma close_rows:
  assumes ok: "one_per_day db"
    and db': "db_assignments db' = update_where (closes kg c day) (\<lambda>r. r\<lparr>ta_validUntil := Some day, ta_updatedAt := t\<rparr>) (db_assignments db)"
  shows "one_per_day db'"
proof -
  let ?f = "\<lambda>r. if closes kg c day r then r\<lparr>ta_validUntil := Some day, ta_updatedAt := t\<rparr> else r"
  have eq: "db_assignments db' = map ?f (db_assignments db)" by (simp add: db' update_where_def)
  show ?thesis
  proof (rule one_per_day_shrink[OF ok eq])
    show "active_on d r" if "active_on d (?f r)" for d r
      using that by (cases "closes kg c day r"; cases "ta_validUntil r") (auto simp: active_on_def in_window_def closes_def)
  qed simp
qed

lemma archive_one_per_day:
  assumes "one_per_day db" and "archiveChild E kg c reason by u db = Inr (x, db')"
  shows "one_per_day db'"
  using archive_inv[OF assms(2)] close_rows[OF assms(1)] by blast

text \<open>Editing and closing one: rows hold whole days, so what is tested is what is stored.\<close>

definition whole_days :: "billing_db \<Rightarrow> bool" where
  "whole_days db \<longleftrightarrow> list_all (\<lambda>r. toDateColumn (ta_validFrom r) = ta_validFrom r
     \<and> map_option toDateColumn (ta_validUntil r) = ta_validUntil r) (db_assignments db)"

lemma toDateColumn_idem [simp]: "toDateColumn (toDateColumn t) = toDateColumn t"
  by (simp add: toDateColumn_def)

lemma assignment_get_inv:
  "assignment_get kg i db = Inr (r, db') \<Longrightarrow> db' = db \<and> assignment_by_id kg i db = Some r"
  by (auto simp: assignment_get_def assignments_findById_def op_inv tariffAssignment_fromState_def split: option.splits if_splits)

lemma tariffPlan_get_state: "tariffPlan_get kg i db = Inr (r, db') \<Longrightarrow> db' = db"
  by (auto simp: tariffPlan_get_def plans_findById_def op_inv split: option.splits)

lemma assignments_update_inv:
  "assignments_update D kg i patch now db = Inr (Some s, db') \<Longrightarrow>
    db' = db\<lparr>db_assignments := update_where (\<lambda>r. ta_id r = i \<and> ta_kindergartenId r = kg) (assignment_patch D patch now) (db_assignments db)\<rparr>
    \<and> tariffAssignment_fromState s = Inr s"
  unfolding assignments_update_def Let_def
  by (auto simp: tariffAssignment_fromState_def split: prod.splits option.splits if_splits sum.splits dest!: update_returning_Some)

lemma plan_check_inv: "plan_check kg r patch db = Inr (u, db') \<Longrightarrow> db' = db"
  unfolding plan_check_def by (auto simp: op_inv dest!: tariffPlan_get_state split: option.splits if_splits)

lemma window_check_inv:
  "window_check kg i r patch db = Inr (u, db') \<Longrightarrow> db_assignments db' = db_assignments db \<and>
    (uta_validFrom patch = None \<and> uta_validUntil patch = None
     \<or> \<not> assignments_existsOverlap kg (ta_childId r) (patched (uta_validFrom patch) (ta_validFrom r))
           (patched (uta_validUntil patch) (ta_validUntil r)) (Some i) db)"
  unfolding window_check_def
  by (auto simp: op_inv assignments_acquireAssignChildAdvisoryLock_def assignments_existsOverlap_def split: if_splits)

lemma assignment_update_inv:
  assumes "assignment_update E kg i patch db = Inr (s, db')"
  shows "\<exists>r now. assignment_by_id kg i db = Some r
    \<and> (uta_validFrom patch = None \<and> uta_validUntil patch = None
       \<or> \<not> assignments_existsOverlap kg (ta_childId r) (patched (uta_validFrom patch) (ta_validFrom r))
             (patched (uta_validUntil patch) (ta_validUntil r)) (Some i) db)
    \<and> db_assignments db' = update_where (\<lambda>r. ta_id r = i \<and> ta_kindergartenId r = kg)
        (assignment_patch (env_decimal E) patch now) (db_assignments db)"
  using assms unfolding assignment_update_def
  by (auto simp: op_inv split: option.splits dest!: assignment_get_inv plan_check_inv window_check_inv assignments_update_inv)

lemma assignment_by_id_row:
  "assignment_by_id kg i db = Some r \<Longrightarrow> r \<in> set (db_assignments db) \<and> ta_id r = i \<and> ta_kindergartenId r = kg"
  by (auto simp: assignment_by_id_def find_Some_iff)

lemma assignment_update_one_per_day:
  assumes ok: "one_per_day db" and whole: "whole_days db" and run: "assignment_update E kg i patch db = Inr (s, db')"
  shows "one_per_day db'"
proof -
  obtain r now where r: "assignment_by_id kg i db = Some r"
    and free: "uta_validFrom patch = None \<and> uta_validUntil patch = None
       \<or> \<not> assignments_existsOverlap kg (ta_childId r) (patched (uta_validFrom patch) (ta_validFrom r))
             (patched (uta_validUntil patch) (ta_validUntil r)) (Some i) db"
    and db': "db_assignments db' = update_where (\<lambda>r. ta_id r = i \<and> ta_kindergartenId r = kg)
        (assignment_patch (env_decimal E) patch now) (db_assignments db)"
    using assignment_update_inv[OF run] by blast
  note row = assignment_by_id_row[OF r]
  have whole_r: "toDateColumn (ta_validFrom r) = ta_validFrom r" "map_option toDateColumn (ta_validUntil r) = ta_validUntil r"
    using whole row by (auto simp: whole_days_def list_all_iff)
  show ?thesis
  proof (rule one_per_day_update[OF ok _ _ _ _ _ _ _ db'])
    fix q d
    assume q: "q \<in> set (db_assignments db)" "ta_id q \<noteq> ta_id r" "ta_kindergartenId q = ta_kindergartenId r"
      "ta_childId q = ta_childId r" and d: "active_on d (assignment_patch (env_decimal E) patch now r)"
    show "\<not> active_on d q"
    proof (cases "uta_validFrom patch = None \<and> uta_validUntil patch = None")
      case True
      then have "active_on d r" using d by (simp add: active_on_def assignment_patch_def patched_def)
      then show ?thesis using ok q row unfolding one_per_day_def by blast
    next
      case False
      have "in_window d (toDateColumn (patched (uta_validFrom patch) (ta_validFrom r)))
          (map_option toDateColumn (patched (uta_validUntil patch) (ta_validUntil r)))"
        using d whole_r by (auto simp: active_on_def assignment_patch_def patched_def split: option.splits)
      with False free show ?thesis using no_overlap[of kg _ _ _ "Some i" db q d] q row by auto
    qed
  qed (use row ok in \<open>auto simp: assignment_patch_def one_per_day_def\<close>)
qed

lemma close_day: "ta_validUntil (tariffAssignment_close now s) = (case ta_validUntil s of None \<Rightarrow> Some (toDateOnlyUtc now) | Some u \<Rightarrow> Some u)"
  by (simp add: tariffAssignment_close_def Let_def split: option.splits)

definition close_row :: "decimal_lib \<Rightarrow> TariffAssignmentState \<Rightarrow> TariffAssignmentState \<Rightarrow> TariffAssignmentState" where
  "close_row D c x = x\<lparr>ta_tariffPlanId := ta_tariffPlanId c, ta_customAmount := map_option (kzt_column D) (ta_customAmount c),
     ta_customReason := ta_customReason c, ta_validFrom := toDateColumn (ta_validFrom c),
     ta_validUntil := map_option toDateColumn (ta_validUntil c), ta_updatedAt := ta_updatedAt c\<rparr>"

lemma assignment_close_inv:
  assumes "assignment_close E kg i db = Inr (s, db')"
  shows "\<exists>r now. assignment_by_id kg i db = Some r \<and> db_assignments db' =
    update_where (\<lambda>x. ta_id x = i \<and> ta_kindergartenId x = kg) (close_row (env_decimal E) (tariffAssignment_close now r)) (db_assignments db)"
proof -
  obtain r now db1 where r: "assignment_by_id kg i db = Some r" and db1: "db_assignments db1 = db_assignments db"
    and save: "assignments_save (env_decimal E) (tariffAssignment_close now r) db1 = Inr ((), db')"
  proof -
    have "\<exists>r db1. assignment_by_id kg i db = Some r \<and> db_assignments db1 = db_assignments db
      \<and> assignments_save (env_decimal E) (tariffAssignment_close (env_clock E (db_clockReads db)) r) db1 = Inr ((), db')"
      using assms unfolding assignment_close_def Let_def
      by (auto simp: op_inv dest!: assignment_get_inv intro!: exI[of _ "db\<lparr>db_clockReads := Suc (db_clockReads db)\<rparr>"])
    then show ?thesis using that by blast
  qed
  have key: "ta_id (tariffAssignment_close now r) = i" "ta_kindergartenId (tariffAssignment_close now r) = kg"
    using assignment_by_id_row[OF r] by (simp_all add: tariffAssignment_close_def Let_def)
  have "db_assignments db' = update_where (\<lambda>x. ta_id x = i \<and> ta_kindergartenId x = kg)
      (close_row (env_decimal E) (tariffAssignment_close now r)) (db_assignments db)"
    using save unfolding assignments_save_def key close_row_def[abs_def] by (auto simp: op_inv db1)
  then show ?thesis using r by blast
qed

lemma assignment_close_one_per_day:
  assumes ok: "one_per_day db" and whole: "whole_days db" and run: "assignment_close E kg i db = Inr (s, db')"
  shows "one_per_day db'"
proof -
  obtain r now where r: "assignment_by_id kg i db = Some r"
    and rows: "db_assignments db' = update_where (\<lambda>x. ta_id x = i \<and> ta_kindergartenId x = kg)
      (close_row (env_decimal E) (tariffAssignment_close now r)) (db_assignments db)"
    using assignment_close_inv[OF run] by blast
  note row = assignment_by_id_row[OF r]
  have whole_r: "toDateColumn (ta_validFrom r) = ta_validFrom r" "map_option toDateColumn (ta_validUntil r) = ta_validUntil r"
    using whole row by (auto simp: whole_days_def list_all_iff)
  let ?c = "tariffAssignment_close now r"
  have key: "ta_id ?c = i" "ta_kindergartenId ?c = kg" "ta_validFrom ?c = ta_validFrom r"
    using row by (simp_all add: tariffAssignment_close_def Let_def)
  show ?thesis
  proof (rule one_per_day_update[OF ok _ _ _ _ _ _ _ rows])
    fix q d
    assume q: "q \<in> set (db_assignments db)" "ta_id q \<noteq> ta_id r" "ta_kindergartenId q = ta_kindergartenId r"
      "ta_childId q = ta_childId r"
      and d: "active_on d (close_row (env_decimal E) ?c r)"
    have "active_on d r"
      using d whole_r by (auto simp: active_on_def in_window_def close_day close_row_def key split: option.splits)
    then show "\<not> active_on d q" using ok q row unfolding one_per_day_def by blast
  qed (use row ok in \<open>auto simp: one_per_day_def close_row_def\<close>)
qed

text \<open>The monthly run: no child is listed twice among the assignments active at a date.\<close>

lemma active_once:
  assumes "one_per_day db"
  shows "distinct (map ta_childId (assignments_findAllActiveAtDate kg d db))"
proof -
  let ?rows = "filter (\<lambda>r. ta_kindergartenId r = kg \<and> in_window (toDateColumn d) (ta_validFrom r) (ta_validUntil r)) (db_assignments db)"
  have ids: "distinct (map ta_id ?rows)" using assms by (simp add: one_per_day_def distinct_map_filter)
  have "inj_on ta_childId (set ?rows)"
  proof (rule inj_onI)
    fix x y assume xy: "x \<in> set ?rows" "y \<in> set ?rows" "ta_childId x = ta_childId y"
    then have "active_on (toDateColumn d) x" "active_on (toDateColumn d) y" "ta_kindergartenId x = ta_kindergartenId y"
        "x \<in> set (db_assignments db)" "y \<in> set (db_assignments db)"
      by (auto simp: active_on_def)
    then have "ta_id x = ta_id y" using assms xy(3) unfolding one_per_day_def by blast
    then show "x = y" using ids xy(1,2) by (auto simp only: distinct_map dest: inj_onD)
  qed
  moreover have "distinct ?rows" using ids by (simp add: distinct_map)
  ultimately show ?thesis by (simp add: assignments_findAllActiveAtDate_def distinct_map)
qed

subsection \<open>Every operation on assignments\<close>

inductive assignment_op :: "billing_db \<Rightarrow> billing_db \<Rightarrow> bool" where
  assign: "assign E kg input db = Inr (s, db') \<Longrightarrow> assignment_op db db'"
| update: "assignment_update E kg i patch db = Inr (s, db') \<Longrightarrow> assignment_op db db'"
| close: "assignment_close E kg i db = Inr (s, db') \<Longrightarrow> assignment_op db db'"
| archive: "archiveChild E kg c reason who u db = Inr (x, db') \<Longrightarrow> assignment_op db db'"

lemma whole_where:
  assumes "list_all whole rows" "\<And>r. P r \<Longrightarrow> whole r \<Longrightarrow> whole (f r)"
  shows "list_all whole (update_where P f rows)"
  using assms by (induction rows) (auto simp: update_where_Cons)

definition whole_row :: "TariffAssignmentState \<Rightarrow> bool" where
  "whole_row r \<longleftrightarrow> toDateColumn (ta_validFrom r) = ta_validFrom r \<and> map_option toDateColumn (ta_validUntil r) = ta_validUntil r"

lemma whole_days_rows: "whole_days db \<longleftrightarrow> list_all whole_row (db_assignments db)"
  by (simp add: whole_days_def whole_row_def[abs_def])

lemma map_date_idem: "map_option toDateColumn (map_option toDateColumn u) = map_option toDateColumn u"
  by (cases u) simp_all

lemma whole_patches:
  "whole_row r \<Longrightarrow> whole_row (assignment_patch D patch now r)" "whole_row (close_row D c r)"
  "whole_row r \<Longrightarrow> whole_row (r\<lparr>ta_validUntil := Some (toDateColumn day), ta_updatedAt := now\<rparr>)"
  by (auto simp: whole_row_def assignment_patch_def close_row_def patched_def map_date_idem split: option.splits)

lemma assignment_op_ok:
  assumes "assignment_op db db'" "one_per_day db" "whole_days db"
  shows "one_per_day db' \<and> whole_days db'"
  using assms(1)
proof cases
  case (assign E kg input s)
  from assign_inv[OF assign] obtain row where "db_assignments db' = db_assignments db @ [row]"
    "ta_validFrom row = toDateColumn (at_validFrom input)" "ta_validUntil row = map_option toDateColumn (at_validUntil input)" by blast
  then have "whole_days db'" using assms(3) by (simp add: whole_days_rows whole_row_def map_date_idem)
  with assign_one_per_day[OF assms(2) assign] show ?thesis by blast
next
  case (update E kg i patch s)
  from assignment_update_inv[OF update] obtain now where
    "db_assignments db' = update_where (\<lambda>r. ta_id r = i \<and> ta_kindergartenId r = kg) (assignment_patch (env_decimal E) patch now) (db_assignments db)"
    by blast
  then have "whole_days db'" using assms(3) unfolding whole_days_rows by (auto intro!: whole_where whole_patches)
  with assignment_update_one_per_day[OF assms(2,3) update] show ?thesis by blast
next
  case (close E kg i s)
  from assignment_close_inv[OF close] obtain c where
    "db_assignments db' = update_where (\<lambda>x. ta_id x = i \<and> ta_kindergartenId x = kg) (close_row (env_decimal E) c) (db_assignments db)"
    by blast
  then have "whole_days db'" using assms(3) unfolding whole_days_rows by (auto intro!: whole_where whole_patches)
  with assignment_close_one_per_day[OF assms(2,3) close] show ?thesis by blast
next
  case (archive E kg c reason who u x)
  from archive_inv[OF archive] obtain now where
    "db_assignments db' = update_where (closes kg c (toDateColumn now))
         (\<lambda>r. r\<lparr>ta_validUntil := Some (toDateColumn now), ta_updatedAt := now\<rparr>) (db_assignments db)" by blast
  then have "whole_days db'" using assms(3) unfolding whole_days_rows by (auto intro!: whole_where whole_patches)
  with archive_one_per_day[OF assms(2) archive] show ?thesis by blast
qed

lemma assignments_invariant:
  assumes "assignment_op\<^sup>*\<^sup>* db db'" "one_per_day db" "whole_days db"
  shows "one_per_day db' \<and> whole_days db'"
  using assms by (induction rule: rtranclp_induct) (auto dest: assignment_op_ok)

end
