(* ===== verification/Tenant_Isolation.thy ===== *)
theory Tenant_Isolation
  imports Pro_Rata_Refund Billing_Jobs Payment_Initiation
    Discount_Service Prepayment Refund_Service Archive_Billing
begin

text \<open>
  Isolation of tenants. The database relies on row-level security for it; the code filters every query
  by tenant as well, and that alone is enough: an operation of one kindergarten never changes a row of
  another. \<open>tenant_view k\<close> is all that belongs to tenant \<open>k\<close>.
\<close>

definition tenant_money :: "uuid \<Rightarrow> billing_db \<Rightarrow> InvoiceState list \<times> InvoiceLineItemState list \<times> PaymentState list
    \<times> RefundState list \<times> PaymentAccountState list" where
  "tenant_money k db =
     (filter (\<lambda>r. inv_kindergartenId r = k) (db_invoices db), filter (\<lambda>r. li_kindergartenId r = k) (db_lineItems db),
      filter (\<lambda>r. pay_kindergartenId r = k) (db_payments db), filter (\<lambda>r. ref_kindergartenId r = k) (db_refunds db),
      filter (\<lambda>r. acc_kindergartenId r = k) (db_accounts db))"

definition tenant_catalogue :: "uuid \<Rightarrow> billing_db \<Rightarrow> CustomDiscountState list \<times> CustomDiscountApplicationState list
    \<times> TariffPlanState list \<times> TariffAssignmentState list \<times> KindergartenHolidayState list" where
  "tenant_catalogue k db =
     (filter (\<lambda>r. cd_kindergartenId r = k) (db_discounts db), filter (\<lambda>r. cda_kindergartenId r = k) (db_applications db),
      filter (\<lambda>r. tp_kindergartenId r = k) (db_plans db), filter (\<lambda>r. ta_kindergartenId r = k) (db_assignments db),
      filter (\<lambda>r. ho_kindergartenId r = k) (db_holidays db))"

definition tenant_people :: "uuid \<Rightarrow> billing_db \<Rightarrow> ChildState list \<times> ChildGuardianState list
    \<times> ChildStatusHistoryState list \<times> child_group_history list" where
  "tenant_people k db =
     (filter (\<lambda>r. ch_kindergartenId r = k) (db_children db), filter (\<lambda>r. gd_kindergartenId r = k) (db_guardians db),
      filter (\<lambda>r. hi_kindergartenId r = k) (db_statusHistory db), filter (\<lambda>r. gh_kindergartenId r = k) (db_groupHistory db))"

definition tenant_view where
  "tenant_view k db = (tenant_money k db, tenant_catalogue k db, tenant_people k db)"

lemma tenant_view_updates [simp]:
  "tenant_view k (db\<lparr>db_outbox := a\<rparr>) = tenant_view k db" "tenant_view k (db\<lparr>db_locks := b\<rparr>) = tenant_view k db"
  "tenant_view k (db\<lparr>db_clockReads := c\<rparr>) = tenant_view k db" "tenant_view k (db\<lparr>db_uuidDraws := c\<rparr>) = tenant_view k db"
  "tenant_view k (db\<lparr>db_jobs := j\<rparr>) = tenant_view k db" "tenant_view k (db\<lparr>db_users := us\<rparr>) = tenant_view k db"
  by (simp_all add: tenant_view_def tenant_money_def tenant_catalogue_def tenant_people_def)

abbreviation apart :: "uuid \<Rightarrow> 'a op \<Rightarrow> bool" where
  "apart k m \<equiv> keeps (tenant_view k) m"

text \<open>An operation is apart from a tenant when each table it writes keeps the rows of that tenant.\<close>

lemma tenant_viewI:
  assumes "tenant_money k db' = tenant_money k db" "tenant_catalogue k db' = tenant_catalogue k db"
    "tenant_people k db' = tenant_people k db"
  shows "tenant_view k db' = tenant_view k db"
  using assms by (simp add: tenant_view_def)

lemmas tenant_parts = tenant_view_def tenant_money_def tenant_catalogue_def tenant_people_def

lemma filter_update_other:
  "(\<And>r. P r \<Longrightarrow> kgOf r \<noteq> k \<and> kgOf (f r) = kgOf r) \<Longrightarrow>
    filter (\<lambda>r. kgOf r = k) (update_where P f rows) = filter (\<lambda>r. kgOf r = k) rows"
  by (intro filter_update_where_frame) auto

named_theorems apart \<open>operations of one tenant are apart from another\<close>

subsection \<open>Binding values to the reads they come from\<close>

lemma keeps_bind_read: "(\<And>db. keeps f (h (g db))) \<Longrightarrow> keeps f (bindM (readM g) h)"
  by (auto simp: keeps_def op_simps)

lemma keeps_bind_orThrow: "(\<And>x. v = Some x \<Longrightarrow> keeps f (h x)) \<Longrightarrow> keeps f (bindM (orThrow v e) h)"
  by (cases v) (auto simp: keeps_def op_simps)

lemma keeps_bind_lift: "(\<And>x. w = Inr x \<Longrightarrow> keeps f (h x)) \<Longrightarrow> keeps f (bindM (liftE g w) h)"
  by (cases w) (auto simp: keeps_def op_simps)

lemma keeps_case_prod: "(\<And>x y. keeps f (h x y)) \<Longrightarrow> keeps f (case p of (x, y) \<Rightarrow> h x y)"
  by (cases p) simp

lemma keeps_case_sum: "(\<And>x. keeps f (g x)) \<Longrightarrow> (\<And>x. keeps f (h x)) \<Longrightarrow> keeps f (case s of Inl x \<Rightarrow> g x | Inr x \<Rightarrow> h x)"
  by (cases s) simp_all

lemmas by_value = keeps_bind_read keeps_bind_orThrow keeps_bind_lift keeps_case_prod keeps_case_sum keeps_if keeps_option keeps_let

text \<open>What every result of an operation satisfies.\<close>

definition yields :: "('a \<Rightarrow> bool) \<Rightarrow> 'a op \<Rightarrow> bool" where
  "yields Q m \<longleftrightarrow> (\<forall>db x db'. m db = Inr (x, db') \<longrightarrow> Q x)"

lemma keeps_bind_yields: "yields Q m \<Longrightarrow> keeps f m \<Longrightarrow> (\<And>x. Q x \<Longrightarrow> keeps f (h x)) \<Longrightarrow> keeps f (bindM m h)"
  unfolding keeps_def yields_def bindM_def by (simp add: and_then_eq_Inr) metis

lemma yields_mapM: "(\<And>x. x \<in> set xs \<Longrightarrow> yields Q (g x)) \<Longrightarrow> yields (list_all Q) (mapM g xs)"
proof (induction xs)
  case (Cons x xs)
  then have "yields Q (g x)" "yields (list_all Q) (mapM g xs)" by simp_all
  then show ?case unfolding yields_def by (fastforce simp: op_inv)
qed (simp add: yields_def op_inv)

subsection \<open>Writes\<close>

lemma kg_of_found:
  "accounts_findById kg i db = Some a \<Longrightarrow> acc_kindergartenId a = kg"
  "invoices_findById kg i db = Some v \<Longrightarrow> inv_kindergartenId v = kg"
  by (auto simp: accounts_findById_def invoices_findById_def find_Some_iff)

lemma apart_flips [apart]:
  assumes "k \<noteq> kg"
  shows "apart k (invoices_transitionStatusConditional kg i expected nxt now)"
    and "apart k (discounts_transitionStatus kg i from to now)"
    and "apart k (payments_updateProviderPayload kg i p now)"
    and "apart k (payments_markRefundRequired kg i r d now)"
    and "apart k (payments_scheduleBccReconciliation kg i t now)"
  using assms
  by (auto simp: keeps_def tenant_parts invoices_transitionStatusConditional_def cas_def snd_update_returning
      discounts_transitionStatus_def payments_updateProviderPayload_def payments_markRefundRequired_def
      payments_scheduleBccReconciliation_def
      Let_def invoice_set_def discount_set_def refund_required_patch_def
      split: prod.splits dest!: arg_cong[of "update_returning _ _ _ _" _ snd]
      intro!: filter_update_other)

lemma apart_payment_flip:
  assumes "k \<noteq> kg" and "\<And>r. pay_kindergartenId (patch r) = pay_kindergartenId r"
  shows "apart k (payments_transitionConditional kg i expected patch)"
  using assms
  by (auto simp: keeps_def tenant_parts payments_transitionConditional_def cas_def snd_update_returning Let_def
      split: prod.splits dest!: arg_cong[of "update_returning _ _ _ _" _ snd] intro!: filter_update_other)

lemma apart_refund_flip:
  assumes "k \<noteq> kg" and "\<And>r. ref_kindergartenId (patch r) = ref_kindergartenId r"
  shows "apart k (refunds_transitionConditional kg i expected patch)"
  using assms
  by (auto simp: keeps_def tenant_parts refunds_transitionConditional_def cas_def snd_update_returning Let_def
      split: prod.splits dest!: arg_cong[of "update_returning _ _ _ _" _ snd] intro!: filter_update_other)

lemma apart_marks [apart]:
  assumes "k \<noteq> kg"
  shows "apart k (payments_markCompletedConditional kg i txn t p now)"
    and "apart k (payments_markFailedConditional kg i why p now)"
    and "apart k (payments_markRefundedConditional kg i rid now)"
    and "apart k (refunds_markApprovedConditional kg i who now)"
    and "apart k (refunds_markRejectedConditional kg i why now)"
    and "apart k (refunds_markProcessedConditional kg i ref now)"
    and "apart k (invoices_markPaidConditional kg i now)"
    and "apart k (invoices_markPartialConditional kg i now)"
    and "apart k (invoices_markCancelledConditional kg i now)"
    and "apart k (invoices_markRefundedConditional kg i now)"
  using assms unfolding payment_flip_defs refund_flip_defs invoice_flip_defs
  by (intro apart_payment_flip apart_refund_flip apart;
      simp add: completed_patch_def failed_patch_def refunded_patch_def approved_patch_def rejected_patch_def processed_patch_def)+

lemma apart_processing [apart]: "k \<noteq> kg \<Longrightarrow> apart k (payments_markProcessingConditional kg i now txn payload)"
  using apart_payment_flip[of k kg "processing_patch _ now txn payload"]
  by (auto simp: keeps_def payments_markProcessingConditional_def processing_patch_def Let_def split: option.splits)

lemma apart_inserts [apart]:
  "k \<noteq> pay_kindergartenId p \<Longrightarrow> apart k (payments_create D p)"
  "k \<noteq> ref_kindergartenId r \<Longrightarrow> apart k (refunds_create D r)"
  "k \<noteq> acc_kindergartenId a \<Longrightarrow> apart k (accounts_save D a)"
  "k \<noteq> inv_kindergartenId v \<Longrightarrow> list_all (\<lambda>l. li_kindergartenId l \<noteq> k) items \<Longrightarrow> apart k (invoices_create D v items)"
  by (auto simp: keeps_def tenant_parts payments_create_def refunds_create_def accounts_save_def invoices_create_def
      payment_row_def invoice_row_def lineItem_row_def filter_empty_conv list_all_iff Let_def
      split: option.splits if_splits intro!: filter_update_other)

lemma apart_account [apart]: "k \<noteq> kg \<Longrightarrow> apart k (ensureForChild E kg c)"
  unfolding ensureForChild_def accounts_findOrCreateForChild_def Let_def
  by (intro by_value frame) (auto simp: tenant_parts)

lemma apart_application [apart]: "k \<noteq> kg \<Longrightarrow> apart k (applications_create E kg d i l c a)"
  unfolding applications_create_def
  by (intro frame) (auto simp: keeps_def tenant_parts Let_def split: option.splits)

lemma apart_guarded:
  "(\<And>r. P r \<Longrightarrow> cd_kindergartenId r \<noteq> k \<and> cd_kindergartenId (f r) = cd_kindergartenId r) \<Longrightarrow> apart k (guarded_update P f)"
  by (auto simp: keeps_def tenant_parts guarded_update_def intro!: filter_update_other)

lemma apart_usage [apart]:
  assumes "k \<noteq> kg"
  shows "apart k (discounts_tryReserveUsage E kg i)" and "apart k (discounts_releaseUsage E kg i)"
    and "apart k (discounts_incrementUsedCount E kg i n)"
  using assms unfolding discounts_tryReserveUsage_def discounts_releaseUsage_def discounts_incrementUsedCount_def
  by (intro frame apart_guarded; simp)+

subsection \<open>Settlement, refunds, cash\<close>

lemma apart_balance [apart]:
  assumes "k \<noteq> kg"
  shows "apart k (creditFromPayment E kg a m)" and "apart k (debitForRefund E kg a m)"
proof -
  have save: "apart k (accounts_save D y)" if "accounts_findById kg a db = Some x" "acc_kindergartenId y = acc_kindergartenId x" for D y x db
    using apart_inserts(3)[of k y D] kg_of_found(1)[OF that(1)] that(2) assms by simp
  show "apart k (creditFromPayment E kg a m)"
    unfolding creditFromPayment_def accounts_acquireBalanceAdvisoryLock_def
    by (rule keeps_bind, intro frame tenant_view_updates)
      (rule keeps_bind_read keeps_bind_orThrow keeps_bind_lift keeps_now keeps_bind tenant_view_updates save
        | assumption | force simp: account_credit_def split: if_splits)+
  show "apart k (debitForRefund E kg a m)"
    unfolding debitForRefund_def accounts_acquireBalanceAdvisoryLock_def
    by (rule keeps_bind, intro frame tenant_view_updates)
      (rule keeps_bind_read keeps_bind_orThrow keeps_bind_lift keeps_now keeps_bind tenant_view_updates save
        | assumption | force simp: account_debit_def split: if_splits)+
qed

lemma apart_release [apart]: "k \<noteq> kg \<Longrightarrow> apart k (releaseCustomDiscountUsagesForInvoice E kg i)"
  unfolding releaseCustomDiscountUsagesForInvoice_def by (intro frame apart)

lemma apart_cancelMonthlies [apart]: "k \<noteq> kg \<Longrightarrow> apart k (cancelMonthliesCoveredByPrepayment E kg p now)"
  unfolding cancelMonthliesCoveredByPrepayment_def lock_defs by (intro frame apart tenant_view_updates)

lemma apart_settle [apart]: "k \<noteq> kg \<Longrightarrow> apart k (settleInvoice E kg p i now)"
  unfolding settleInvoice_def flipInvoice_def flagDoublePayment_def escalateSettleIntoVoidInvoice_def
    notifyRefundRequiredToAdmins_def lock_defs Let_def
  by (intro frame apart tenant_view_updates)

lemma apart_webhook [apart]: "k \<noteq> kg \<Longrightarrow> apart k (settleVerified E kg i v)"
  unfolding settleVerified_def applyCompletedPayment_def applyFailedPayment_def applyProviderObservation_def lock_defs Let_def
  by (cases "vw_status v") (simp_all, (intro frame apart tenant_view_updates; assumption?)+)

lemma apart_refunds [apart]:
  assumes "k \<noteq> kg"
  shows "apart k (refund_create E kg i a why)" and "apart k (refund_service_approve E kg i who)"
    and "apart k (refund_service_reject E kg i why)" and "apart k (refund_service_process E kg i ack ans)"
  unfolding refund_create_def refund_service_approve_def refund_service_reject_def refund_service_process_def
    unwindInvoice_def approved_or_throw_def refund_lost_def lock_defs Let_def
  using assms
  by (auto intro!: frame apart keeps_case_sum simp: o_def)

lemma apart_record_cash [apart]: "k \<noteq> kg \<Longrightarrow> apart k (record_cash E kg v a input now)"
  unfolding record_cash_def
  by (rule keeps_bind keeps_uuid keeps_basic keeps_bind_lift tenant_view_updates apart_inserts
      | force simp: payment_fromState_def cash_payment_def split: if_splits)+

lemma apart_cash [apart]: "k \<noteq> kg \<Longrightarrow> apart k (manualMarkPaid E kg i input)"
  unfolding manualMarkPaid_def cash_amount_def recordPartialCashPayment_def partial_flip_def settle_cash_def flip_lost_def
    notify_cash_def lock_defs Let_def
  by (intro frame apart tenant_view_updates)

lemma apart_cancel [apart]: "k \<noteq> kg \<Longrightarrow> apart k (invoice_service_cancel E kg i why)"
  unfolding invoice_service_cancel_def flip_lost_def by (intro frame apart tenant_view_updates)

subsection \<open>Invoices\<close>

lemma apart_admit [apart]: "k \<noteq> kg \<Longrightarrow> apart k (admit E kg c b snaps)"
proof (induction snaps)
  case Nil
  show ?case by (simp add: keeps_basic)
next
  case (Cons s snaps)
  have "apart k (per_child_guard kg c b s)" "apart k (total_guard E kg b s)"
    using Cons.prems unfolding per_child_guard_def total_guard_def lock_defs
    by (intro frame apart tenant_view_updates; assumption)+
  with Cons show ?case by (auto intro!: frame split: prod.splits)
qed

lemma apart_customInputs [apart]: "k \<noteq> kg \<Longrightarrow> apart k (buildCustomDiscountInputs E kg c now b)"
  unfolding buildCustomDiscountInputs_def by (intro apart frame tenant_view_updates)

lemma apart_reservations [apart]:
  assumes "k \<noteq> kg"
  shows "apart k (releaseUnusedReservations E kg ids r)" and "apart k (persistCustomDiscountApplications E kg v l r)"
  using assms unfolding releaseUnusedReservations_def persistCustomDiscountApplications_def
  by (intro apart frame; assumption)+

lemma apart_emitCreated [apart]: "apart k (emitInvoiceCreated E v)"
  unfolding emitInvoiceCreated_def by (intro frame tenant_view_updates)

lemma lineItem_kg: "lineItem_fromState D s = Inr l \<Longrightarrow> l = s"
  by (auto simp: lineItem_fromState_def Let_def split: if_splits)

lemma keeps_bind_lift_item:
  "keeps f (h s) \<Longrightarrow> keeps f (bindM (liftE g (lineItem_fromState D s)) h)"
  by (rule keeps_bind_lift) (auto dest: lineItem_kg)

lemma apart_oneOff [apart]: "k \<noteq> kg \<Longrightarrow> apart k (createOneOff E kg input)"
proof -
  assume k: "k \<noteq> kg"
  have "yields (\<lambda>l. li_kindergartenId l \<noteq> k) (one_off_item E kg i now x)" for i now x
    using k by (cases x) (auto simp: yields_def one_off_item_def Let_def op_inv dest!: lineItem_kg)
  then have items: "yields (list_all (\<lambda>l. li_kindergartenId l \<noteq> k)) (mapM (one_off_item E kg i now) xs)" for i now xs
    by (intro yields_mapM)
  have item: "apart k (one_off_item E kg i now x)" for i now x
    by (cases x) (simp add: one_off_item_def Let_def, intro frame tenant_view_updates)
  show ?thesis
    unfolding createOneOff_def Let_def
    by (rule keeps_bind_yields[OF items] keeps_mapM item keeps_bind keeps_basic keeps_now keeps_uuid tenant_view_updates apart
        | simp add: k)+
qed

lemma apart_lateFee [apart]: "k \<noteq> kg \<Longrightarrow> apart k (generateLatePickupInvoice E kg input)"
  unfolding generateLatePickupInvoice_def late_fee_def Let_def
  by (rule keeps_bind_lift_item keeps_split keeps_bind keeps_option keeps_basic keeps_now keeps_uuid tenant_view_updates apart | simp)+

lemma apart_generate [apart]: "k \<noteq> kg \<Longrightarrow> apart k (generateAndPersistInvoice E kg a)"
  unfolding generateAndPersistInvoice_def Let_def
  by (rule keeps_bind_lift_item keeps_split keeps_bind keeps_if keeps_option keeps_basic keeps_now keeps_uuid tenant_view_updates apart | simp)+

lemma apart_plans [apart]: "apart k (plans_findById kg i)"
  unfolding plans_findById_def by (intro frame)

lemma apart_monthly_loop: "k \<noteq> kg \<Longrightarrow> apart k (monthly_loop E kg p n cov as)"
proof (induction as)
  case (Cons a as)
  have "apart k (monthly_one E kg p n cov a)"
    using Cons.prems unfolding monthly_one_def Let_def by (intro frame apart)
  with Cons show ?case by (auto intro!: frame split: prod.splits)
qed (simp add: keeps_basic)

lemma apart_monthly [apart]: "k \<noteq> kg \<Longrightarrow> apart k (generateMonthly E kg p)"
  unfolding generateMonthly_def lock_defs by (intro frame apart_monthly_loop tenant_view_updates)

lemma apart_first [apart]: "k \<noteq> kg \<Longrightarrow> apart k (generateFirstInvoice E kg c d)"
  unfolding generateFirstInvoice_def Let_def by (intro frame apart)

lemma apart_quote [apart]: "k \<noteq> kg \<Longrightarrow> apart k (computePrepaymentQuote E kg c h b)"
  unfolding computePrepaymentQuote_def price_window_def Let_def
  by (intro frame apart tenant_view_updates)

lemma apart_prepay [apart]: "k \<noteq> kg \<Longrightarrow> apart k (prepayInvoice E kg c h)"
proof -
  assume k: "k \<noteq> kg"
  have "yields (\<lambda>l. li_kindergartenId l \<noteq> k) (share_item E kg i p now x)" for i p now x
    using k by (cases x) (auto simp: yields_def share_item_def op_inv dest!: lineItem_kg)
  then have items: "yields (list_all (\<lambda>l. li_kindergartenId l \<noteq> k)) (mapM (share_item E kg i p now) xs)" for i p now xs
    by (intro yields_mapM)
  have item: "apart k (share_item E kg i p now x)" for i p now x
    by (cases x) (simp add: share_item_def, intro frame tenant_view_updates)
  have q: "apart k (unblocked x)" for x by (cases x) (simp_all add: unblocked_def keeps_basic)
  have stale: "apart k (cancel_stale E kg now xs)" for now xs
    using k unfolding cancel_stale_def by (intro frame apart)
  have kg: "inv_kindergartenId (prepayment_invoice E i kg c a h x now) = kg" for i a x now
    by (simp add: prepayment_invoice_def)
  show ?thesis
    unfolding prepayInvoice_def Let_def lock_defs
    by (rule keeps_bind_yields[OF items] keeps_mapM item q stale keeps_split keeps_bind keeps_option keeps_basic keeps_now
        keeps_uuid keeps_lock tenant_view_updates apart | simp add: k kg)+
qed

lemma apart_overdue [apart]: "k \<noteq> kg \<Longrightarrow> apart k (overdue_run E now kg)"
proof -
  assume k: "k \<noteq> kg"
  have "apart k (invoices_markOverdueBatch D kg day now)" for D day
    using k by (auto simp: keeps_def tenant_parts invoices_markOverdueBatch_def overdue_due_def invoice_set_def intro!: filter_update_other)
  then show ?thesis unfolding overdue_run_def Let_def by (intro frame tenant_view_updates)
qed

subsection \<open>Paying, refunding after an archive, discounts\<close>

lemma keeps_known_payment: "keeps f (known_payment checkout p)"
  unfolding known_payment_def getExistingPaymentContinuation_def by (intro frame)

lemma apart_initiate [apart]: "k \<noteq> kg \<Longrightarrow> apart k (initiate E kg input cont ans)"
proof -
  assume k: "k \<noteq> kg"
  have create: "apart k (create_or_known E kg p)" if "pay_kindergartenId p = kg" for p
    using k that unfolding create_or_known_def
    by (auto intro!: frame apart split: billing_error.splits)
  have completed: "apart k (applyCompletedPayment E kg i v)" for i v
    using k unfolding applyCompletedPayment_def lock_defs by (intro frame apart tenant_view_updates)
  have answer: "apart k (apply_answer E kg p r)" for p r
    using k unfolding apply_answer_def Let_def
    by (cases "cp_status r") (simp_all add: completed, (intro frame apart tenant_view_updates; assumption?)+)
  have recall: "apart k (recallInFlightKaspiForPayer E kg i who)" for i who
    using k unfolding recallInFlightKaspiForPayer_def by (intro frame apart tenant_view_updates)
  have draft: "payment_fromState s = Inr d \<Longrightarrow> d = s" for s d by (auto simp: payment_fromState_def split: if_splits)
  have create': "apart k (create_or_known E kg d)"
    if "payment_fromState (initiated_payment i kg v a input now) = Inr d" for i v a now d
    using draft[OF that] by (intro create) (simp add: initiated_payment_def)
  have "apart k (initiate_new E kg input ans)"
    unfolding initiate_new_def Let_def forInitiation_def invoice_service_get_def payable_def amount_guard_def
    by (rule keeps_bind_lift create' answer recall k apart keeps_case_sum keeps_bind keeps_if keeps_option keeps_when
        keeps_basic keeps_now keeps_uuid tenant_view_updates | assumption)+
  then show ?thesis unfolding initiate_def by (intro frame keeps_known_payment)
qed

lemma apart_proRata [apart]: "k \<noteq> kg \<Longrightarrow> apart k (computeAndCreate E kg c t)"
  unfolding computeAndCreate_def refund_invoice_def create_pro_rata_def pro_rata_refund_def refunds_acquireProRataAdvisoryLock_def
  by (intro frame apart tenant_view_updates; simp)

lemma apart_resolve [apart]: "apart k (resolveTargetChildIds E kg d)"
  unfolding resolveTargetChildIds_def resolveByTargetType_def Let_def
  by (cases "cd_targetType d"; simp split del: if_split split: option.split prod.split)
    (intro frame tenant_view_updates allI impI conjI; simp)+

lemma apart_discount_service [apart]:
  assumes "k \<noteq> kg"
  shows "apart k (discount_service_activate E kg i)" and "apart k (discount_service_pause E kg i)"
    and "apart k (discount_service_resume E kg i)" and "apart k (discount_service_cancel E kg i)"
proof -
  have lost: "apart k (discount_lost kg i op_name r)" for op_name r
    unfolding discount_lost_def by (intro frame)
  have announce: "apart k (announce E kg d)" for d
    unfolding announce_def by (intro frame apart keeps_case_prod tenant_view_updates)
  have simple: "apart k (simpleTransition E kg i from to op_name)" for "from" to op_name
    using assms unfolding simpleTransition_def by (intro frame apart lost tenant_view_updates)
  show "apart k (discount_service_activate E kg i)"
    using assms unfolding discount_service_activate_def lock_defs by (intro frame apart announce tenant_view_updates)
  show "apart k (discount_service_pause E kg i)" "apart k (discount_service_resume E kg i)" "apart k (discount_service_cancel E kg i)"
    unfolding discount_service_pause_def discount_service_resume_def discount_service_cancel_def by (rule simple)+
qed

lemma fromState_kindergarten: "customDiscount_fromState s c = Inr d \<Longrightarrow> cd_kindergartenId d = cd_kindergartenId s"
  by (auto simp: customDiscount_fromState_def split: if_splits option.splits sum.splits)

lemma apart_discount_rows:
  assumes "k \<noteq> kg"
  shows "cd_kindergartenId input = kg \<Longrightarrow> apart k (discounts_create E input a c)"
    and "apart k (discounts_update E kg i patch expected)"
    and "apart k (discounts_markExpiredBatch kg now)"
  using assms
  by (auto simp: keeps_def tenant_parts discounts_create_def discounts_update_def discounts_markExpiredBatch_def op_inv Let_def
      discount_row_def merged_def expired_by_def discount_set_def split: option.splits if_splits sum.splits
      dest!: fromState_kindergarten find_SomeD intro!: filter_update_other)

lemma apart_discount_drafts [apart]:
  assumes "k \<noteq> kg"
  shows "apart k (discount_service_create E kg input who)" and "apart k (discount_service_update E kg i patch)"
    and "apart k (discount_service_expireOverdue kg now)"
proof -
  have lost: "apart k (discount_lost kg i op_name r)" for op_name r
    unfolding discount_lost_def by (intro frame)
  have "cd_kindergartenId (draft_of D kg input who t) = kg" for D t by (simp add: draft_of_def)
  then show "apart k (discount_service_create E kg input who)"
    unfolding discount_service_create_def Let_def
    by (intro frame tenant_view_updates apart_discount_rows(1)[OF assms])
  show "apart k (discount_service_update E kg i patch)"
    unfolding discount_service_update_def by (intro frame tenant_view_updates apart_discount_rows(2)[OF assms] lost)
  show "apart k (discount_service_expireOverdue kg now)"
    unfolding discount_service_expireOverdue_def by (rule apart_discount_rows(3)[OF assms])
qed


subsection \<open>Runs of the whole system\<close>

text \<open>One request or job of tenant \<open>kg\<close>.\<close>

inductive tenant_step :: "billing_env \<Rightarrow> uuid \<Rightarrow> billing_db \<Rightarrow> billing_db \<Rightarrow> bool" for E kg where
  webhook: "settleVerified E kg i v db = Inr (x, db') \<Longrightarrow> tenant_step E kg db db'"
| initiate: "initiate E kg input cont ans db = Inr (y, db') \<Longrightarrow> tenant_step E kg db db'"
| refund_create: "refund_create E kg i a why db = Inr (r, db') \<Longrightarrow> tenant_step E kg db db'"
| refund_approve: "refund_service_approve E kg i who db = Inr (r, db') \<Longrightarrow> tenant_step E kg db db'"
| refund_reject: "refund_service_reject E kg i why db = Inr (r, db') \<Longrightarrow> tenant_step E kg db db'"
| refund_process: "refund_service_process E kg i ack pans db = Inr (r, db') \<Longrightarrow> tenant_step E kg db db'"
| cash: "manualMarkPaid E kg i minput db = Inr (v, db') \<Longrightarrow> tenant_step E kg db db'"
| cancel: "invoice_service_cancel E kg i reason db = Inr (v, db') \<Longrightarrow> tenant_step E kg db db'"
| one_off: "createOneOff E kg oinput db = Inr (v, db') \<Longrightarrow> tenant_step E kg db db'"
| late_fee: "generateLatePickupInvoice E kg linput db = Inr (v, db') \<Longrightarrow> tenant_step E kg db db'"
| monthly: "generateMonthly E kg p db = Inr (n, db') \<Longrightarrow> tenant_step E kg db db'"
| first_invoice: "generateFirstInvoice E kg c d db = Inr (v, db') \<Longrightarrow> tenant_step E kg db db'"
| prepay: "prepayInvoice E kg c h db = Inr (v, db') \<Longrightarrow> tenant_step E kg db db'"
| overdue: "overdue_run E now kg db = Inr (m, db') \<Longrightarrow> tenant_step E kg db db'"
| pro_rata: "computeAndCreate E kg c t db = Inr (out, db') \<Longrightarrow> tenant_step E kg db db'"
| activate: "discount_service_activate E kg i db = Inr (cd, db') \<Longrightarrow> tenant_step E kg db db'"
| pause: "discount_service_pause E kg i db = Inr (cd, db') \<Longrightarrow> tenant_step E kg db db'"
| resume: "discount_service_resume E kg i db = Inr (cd, db') \<Longrightarrow> tenant_step E kg db db'"
| discount_cancel: "discount_service_cancel E kg i db = Inr (cd, db') \<Longrightarrow> tenant_step E kg db db'"
| discount_create: "discount_service_create E kg cinput who db = Inr (cd, db') \<Longrightarrow> tenant_step E kg db db'"
| discount_update: "discount_service_update E kg i patch db = Inr (cd, db') \<Longrightarrow> tenant_step E kg db db'"
| discount_expire: "discount_service_expireOverdue kg now db = Inr (ids, db') \<Longrightarrow> tenant_step E kg db db'"

lemma tenant_step_apart:
  assumes "tenant_step E kg db db'" and "k \<noteq> kg"
  shows "tenant_view k db' = tenant_view k db"
  using assms(1) by cases (erule keepsD[rotated], rule apart, rule assms(2))+

text \<open>Any sequence of steps of other tenants leaves a tenant's rows as they are.\<close>

lemma tenants_apart:
  assumes "(\<lambda>a b. \<exists>kg. kg \<noteq> k \<and> tenant_step E kg a b)\<^sup>*\<^sup>* db db'"
  shows "tenant_view k db' = tenant_view k db"
  using assms
proof (induction rule: rtranclp_induct)
  case (step a b)
  then obtain kg where "kg \<noteq> k" "tenant_step E kg a b" by blast
  then have "tenant_view k b = tenant_view k a" by (intro tenant_step_apart) auto
  with step.IH show ?case by simp
qed simp

end
