(* ===== verification/Discount_Usage.thy ===== *)
theory Discount_Usage
  imports Tenant_Isolation
begin

text \<open>
  The total cap of a custom discount holds in every reachable state: no request or job of any tenant
  ever makes \<open>used_count\<close> negative or larger than \<open>total_max_uses\<close>
  (\<open>src/modules/billing/infrastructure/persistence/relational/repositories\<close>, the guarded counters).
  The cap itself can be edited, but of a draft only, and a draft has not been used: slots are reserved
  for discounts that were active when they were read, and nothing makes a discount a draft again.
\<close>

definition slots_ok :: "CustomDiscountState \<Rightarrow> bool" where
  "slots_ok r \<longleftrightarrow> 0 \<le> cd_usedCount r \<and> (\<forall>m. cd_totalMaxUses r = Some m \<longrightarrow> cd_usedCount r \<le> max m 0)
     \<and> (cd_status r = CdDraft \<longrightarrow> cd_usedCount r = 0)"

definition usage_ok :: "billing_db \<Rightarrow> bool" where
  "usage_ok db \<longleftrightarrow> list_all slots_ok (db_discounts db) \<and> distinct (map cd_id (db_discounts db))"

subsection \<open>Operations that maintain an invariant\<close>

definition maintains :: "(billing_db \<Rightarrow> bool) \<Rightarrow> 'a op \<Rightarrow> bool" where
  "maintains I m \<longleftrightarrow> (\<forall>db x db'. I db \<longrightarrow> m db = Inr (x, db') \<longrightarrow> I db')"

named_theorems maintain \<open>rules for maintains\<close>

lemma maintainsD: "maintains I m \<Longrightarrow> m db = Inr (x, db') \<Longrightarrow> I db \<Longrightarrow> I db'"
  unfolding maintains_def by blast

lemma maintains_bind [maintain]: "maintains I m \<Longrightarrow> (\<And>x. maintains I (h x)) \<Longrightarrow> maintains I (bindM m h)"
  unfolding maintains_def op_inv by blast

lemma maintains_if [maintain]: "maintains I m \<Longrightarrow> maintains I n \<Longrightarrow> maintains I (if b then m else n)"
  by simp

lemma maintains_option [maintain]:
  "maintains I m \<Longrightarrow> (\<And>x. maintains I (h x)) \<Longrightarrow> maintains I (case v of None \<Rightarrow> m | Some x \<Rightarrow> h x)"
  by (cases v) simp_all

lemma maintains_prod [maintain]: "(\<And>x y. maintains I (g x y)) \<Longrightarrow> maintains I (case p of (x, y) \<Rightarrow> g x y)"
  by (cases p) simp

lemma maintains_sum [maintain]:
  "(\<And>x. maintains I (l x)) \<Longrightarrow> (\<And>x. maintains I (r x)) \<Longrightarrow> maintains I (case s of Inl x \<Rightarrow> l x | Inr x \<Rightarrow> r x)"
  by (cases s) simp_all

lemma maintains_when [maintain]: "maintains I m \<Longrightarrow> maintains I (whenM b m)"
  by (auto simp: maintains_def op_inv split: if_splits)

lemma maintains_forM [maintain]: "(\<And>x. x \<in> set xs \<Longrightarrow> maintains I (g x)) \<Longrightarrow> maintains I (forM xs g)"
proof (induction xs)
  case (Cons x xs)
  then have "maintains I (g x)" "maintains I (forM xs g)" by simp_all
  then show ?case by (simp, intro maintain)
qed (auto simp: maintains_def op_inv)

lemma maintains_mapM [maintain]: "(\<And>x. x \<in> set xs \<Longrightarrow> maintains I (g x)) \<Longrightarrow> maintains I (mapM g xs)"
proof (induction xs)
  case (Cons x xs)
  then have "maintains I (g x)" "maintains I (mapM g xs)" by simp_all
  moreover have "maintains I (returnM ys)" for ys :: "'b list" by (simp add: maintains_def op_inv)
  ultimately show ?case unfolding mapM.simps by (intro maintain)
qed (simp add: maintains_def op_inv)

text \<open>What does not touch the discounts maintains the cap.\<close>

lemma maintains_untouched: "keeps db_discounts m \<Longrightarrow> maintains usage_ok m"
  by (auto simp: maintains_def keeps_def usage_ok_def)

lemma maintains_basic [maintain]:
  "maintains usage_ok (returnM x)" "maintains usage_ok (throwM e)" "maintains usage_ok (readM g)"
  "maintains usage_ok (orThrow v e)" "maintains usage_ok (liftE h w)" "maintains usage_ok (nowM E)"
  "maintains usage_ok (randomUUID E)" "maintains usage_ok (emitM ev)" "maintains usage_ok (lockM s)"
  by (rule maintains_untouched, intro frame; simp)+

subsection \<open>The counters\<close>

lemma slots_where:
  assumes "list_all slots_ok rows" and "\<And>r. r \<in> set rows \<Longrightarrow> P r \<Longrightarrow> slots_ok r \<Longrightarrow> slots_ok (f r)"
  shows "list_all slots_ok (update_where P f rows)"
  using assms by (auto simp: list_all_iff set_update_where)

lemma usage_where:
  assumes "usage_ok db" and "\<And>r. r \<in> set (db_discounts db) \<Longrightarrow> P r \<Longrightarrow> slots_ok r \<Longrightarrow> slots_ok (f r)" and "\<And>r. P r \<Longrightarrow> cd_id (f r) = cd_id r"
  shows "usage_ok (db\<lparr>db_discounts := update_where P f (db_discounts db)\<rparr>)"
  using assms slots_where[of "db_discounts db" P f] by (simp add: usage_ok_def map_update_where[of P cd_id f])

lemma maintains_guarded:
  "(\<And>r. P r \<Longrightarrow> slots_ok r \<Longrightarrow> slots_ok (f r)) \<Longrightarrow> (\<And>r. cd_id (f r) = cd_id r) \<Longrightarrow> maintains usage_ok (guarded_update P f)"
  by (auto simp: maintains_def guarded_update_def intro!: usage_where)

lemma maintains_releaseUsage [maintain]: "maintains usage_ok (discounts_releaseUsage E kg i)"
  unfolding discounts_releaseUsage_def by (intro maintain maintains_guarded) (auto simp: slots_ok_def)

lemma maintains_transition: "next \<noteq> CdDraft \<Longrightarrow> maintains usage_ok (discounts_transitionStatus kg i from next now)"
  by (auto simp: maintains_def discounts_transitionStatus_def cas_def snd_update_returning Let_def
      slots_ok_def discount_set_def split: prod.splits
      dest!: arg_cong[of "update_returning _ _ _ _" _ snd] intro!: usage_where)

lemma maintains_transitions [maintain]:
  "maintains usage_ok (discounts_transitionStatus kg i from CdActive now)" "maintains usage_ok (discounts_transitionStatus kg i from CdPaused now)"
  "maintains usage_ok (discounts_transitionStatus kg i from CdCancelled now)"
  by (rule maintains_transition, simp)+

lemma maintains_expire [maintain]: "maintains usage_ok (discounts_markExpiredBatch kg now)"
  by (auto simp: maintains_def discounts_markExpiredBatch_def slots_ok_def discount_set_def intro!: usage_where)

lemma fromState_slots:
  "customDiscount_fromState s c = Inr d \<Longrightarrow> cd_usedCount d = cd_usedCount s \<and> cd_totalMaxUses d = cd_totalMaxUses s
    \<and> cd_id d = cd_id s \<and> cd_status d = cd_status s"
  by (auto simp: customDiscount_fromState_def split: if_splits option.splits sum.splits)

text \<open>A discount is created as a draft with a count of zero, whatever its cap.\<close>

lemma maintains_create [maintain]: "maintains usage_ok (discounts_create E input a c)"
  by (auto simp: maintains_def usage_ok_def discounts_create_def Let_def op_inv slots_ok_def insertable_def list_ex_iff
      split: option.splits if_splits dest!: fromState_slots) (blast | simp)+

text \<open>An edit may set any cap: it finds a draft, which has no uses.\<close>

lemma maintains_edit [maintain]: "maintains usage_ok (discounts_update E kg i patch CdDraft)"
proof -
  have "usage_ok (s\<lparr>db_clockReads := n, db_discounts := update_where (\<lambda>r. cd_id r = i \<and> cd_kindergartenId r = kg \<and> cd_status r = CdDraft) (\<lambda>_. d) (db_discounts s)\<rparr>)"
    if ok: "usage_ok s" and f: "find (\<lambda>r. cd_id r = i \<and> cd_kindergartenId r = kg \<and> cd_status r = CdDraft) (db_discounts s) = Some r"
      and d: "customDiscount_fromState (discount_row D patch now r) c = Inr d" for s n r D now c d
  proof -
    have r: "cd_id r = i" "cd_status r = CdDraft" "slots_ok r"
      using find_SomeD[OF f] ok by (auto simp: usage_ok_def list_all_iff)
    have "cd_usedCount d = 0" "cd_id d = i"
      using fromState_slots[OF d] r by (auto simp: discount_row_def merged_def slots_ok_def)
    moreover have "usage_ok (s\<lparr>db_clockReads := n\<rparr>)" using ok by (simp add: usage_ok_def)
    ultimately show ?thesis
      using usage_where[of "s\<lparr>db_clockReads := n\<rparr>" "\<lambda>r. cd_id r = i \<and> cd_kindergartenId r = kg \<and> cd_status r = CdDraft" "\<lambda>_. d"]
      by (simp add: slots_ok_def)
  qed
  then show ?thesis
    unfolding maintains_def discounts_update_def
    by (auto simp: op_inv Let_def usage_ok_def[of "_\<lparr>db_clockReads := _\<rparr>"] usage_ok_def[symmetric] split: option.splits if_splits sum.splits)
qed

subsection \<open>Reserving\<close>

text \<open>While slots are reserved, the discounts concerned are known not to be drafts.\<close>

definition published :: "uuid \<Rightarrow> uuid set \<Rightarrow> billing_db \<Rightarrow> bool" where
  "published kg S db \<longleftrightarrow> (\<forall>r \<in> set (db_discounts db). cd_kindergartenId r = kg \<and> cd_id r \<in> S \<longrightarrow> cd_status r \<noteq> CdDraft)"

definition reservable :: "uuid \<Rightarrow> uuid set \<Rightarrow> billing_db \<Rightarrow> bool" where
  "reservable kg S db \<longleftrightarrow> usage_ok db \<and> published kg S db"

lemma published_where:
  assumes "published kg S db" and "\<And>r. cd_kindergartenId (f r) = cd_kindergartenId r \<and> cd_id (f r) = cd_id r \<and> cd_status (f r) = cd_status r"
  shows "published kg S (db\<lparr>db_discounts := update_where P f (db_discounts db)\<rparr>)"
  using assms unfolding published_def by (auto simp: set_update_where)

lemma reservable_untouched: "keeps db_discounts m \<Longrightarrow> maintains (reservable kg S) m"
  by (auto simp: maintains_def keeps_def reservable_def usage_ok_def published_def)

lemma reservable_reserve:
  assumes "i \<in> S"
  shows "maintains (reservable kg S) (discounts_tryReserveUsage E kg i)"
proof -
  let ?P = "\<lambda>r. cd_id r = i \<and> cd_kindergartenId r = kg \<and> (case cd_totalMaxUses r of None \<Rightarrow> True | Some m \<Rightarrow> cd_usedCount r < m)"
  have "reservable kg S (db\<lparr>db_discounts := update_where ?P (\<lambda>r. r\<lparr>cd_usedCount := cd_usedCount r + 1, cd_updatedAt := now\<rparr>) (db_discounts db)\<rparr>)"
    if r: "reservable kg S db" for db now
  proof -
    have "usage_ok (db\<lparr>db_discounts := update_where ?P (\<lambda>r. r\<lparr>cd_usedCount := cd_usedCount r + 1, cd_updatedAt := now\<rparr>) (db_discounts db)\<rparr>)"
    proof (rule usage_where)
      show "usage_ok db" using r by (simp add: reservable_def)
      fix x assume x: "x \<in> set (db_discounts db)" "?P x" "slots_ok x"
      then have "cd_status x \<noteq> CdDraft" using r assms unfolding reservable_def published_def by blast
      then show "slots_ok (x\<lparr>cd_usedCount := cd_usedCount x + 1, cd_updatedAt := now\<rparr>)"
        using x by (auto simp: slots_ok_def split: option.splits)
    qed simp
    moreover have "published kg S (db\<lparr>db_discounts := update_where ?P (\<lambda>r. r\<lparr>cd_usedCount := cd_usedCount r + 1, cd_updatedAt := now\<rparr>) (db_discounts db)\<rparr>)"
      by (rule published_where) (use r in \<open>simp_all add: reservable_def\<close>)
    ultimately show ?thesis by (simp add: reservable_def)
  qed
  then have "maintains (reservable kg S) (guarded_update ?P (\<lambda>r. r\<lparr>cd_usedCount := cd_usedCount r + 1, cd_updatedAt := now\<rparr>))" for now
    by (auto simp: maintains_def guarded_update_def)
  moreover have "maintains (reservable kg S) (nowM E)" by (rule reservable_untouched, intro frame; simp)
  ultimately show ?thesis unfolding discounts_tryReserveUsage_def by (intro maintain)
qed

lemma reservable_admit:
  "snap_id ` set snaps \<subseteq> S \<Longrightarrow> maintains (reservable kg S) (admit E kg c b snaps)"
proof (induction snaps)
  case (Cons s snaps)
  have ret: "maintains (reservable kg S) (returnM x)" for x :: 'x by (rule reservable_untouched, intro frame)
  have "maintains (reservable kg S) (per_child_guard kg c b s)"
    unfolding per_child_guard_def lock_defs by (rule reservable_untouched, intro frame; simp)
  moreover have "maintains (reservable kg S) (total_guard E kg b s)"
    unfolding total_guard_def using Cons.prems by (intro maintain ret reservable_reserve) simp
  ultimately show ?case using Cons by (auto intro!: maintain ret)
qed (simp, rule reservable_untouched, intro frame)

lemma filterDiscounts_subset: "filterDiscountsForChild E kg c snaps db = Inr (out, db') \<Longrightarrow> set out \<subseteq> set snaps"
proof (induction snaps arbitrary: db out db')
  case (Cons s snaps)
  from Cons.prems have "\<exists>ids s1 out'. filterDiscountsForChild E kg c snaps s1 = Inr (out', db') \<and> out = (if List.member ids c then s # out' else out')"
    unfolding filterDiscountsForChild.simps op_inv by blast
  then obtain ids s1 out' where out: "filterDiscountsForChild E kg c snaps s1 = Inr (out', db')" "out = (if List.member ids c then s # out' else out')"
    by blast
  have "set out' \<subseteq> set snaps" by (rule Cons.IH[OF out(1)])
  then show ?case using out(2) by auto
qed (simp add: op_inv)

lemma active_published:
  assumes "usage_ok db"
  shows "published kg (cd_id ` set (discounts_findActiveCustomDiscounts kg now db)) db"
  unfolding published_def
proof (intro ballI impI)
  fix r assume r: "r \<in> set (db_discounts db)" "cd_kindergartenId r = kg \<and> cd_id r \<in> cd_id ` set (discounts_findActiveCustomDiscounts kg now db)"
  then obtain a where a: "a \<in> set (discounts_findActiveCustomDiscounts kg now db)" "cd_id r = cd_id a" by blast
  have act: "a \<in> set (db_discounts db)" "cd_status a = CdActive" using a(1) by (simp_all add: discounts_findActiveCustomDiscounts_def)
  have "inj_on cd_id (set (db_discounts db))" using assms by (simp add: usage_ok_def distinct_map)
  then have "r = a" using r(1) act(1) a(2) by (simp add: inj_on_def)
  with act show "cd_status r \<noteq> CdDraft" by simp
qed

subsection \<open>Every request and job\<close>

lemma maintains_parts [maintain]:
  "maintains usage_ok (invoices_transitionStatusConditional kg i iexp nxt now)"
  "maintains usage_ok (payments_transitionConditional kg i pexp ppatch)"
  "maintains usage_ok (refunds_transitionConditional kg i rexp rpatch)"
  "maintains usage_ok (payments_updateProviderPayload kg i pl now)" "maintains usage_ok (payments_markRefundRequired kg i why dup now)"
  "maintains usage_ok (payments_create D p)" "maintains usage_ok (accounts_save D a)" "maintains usage_ok (ensureForChild E kg c)"
  "maintains usage_ok (invoices_create D v items)" "maintains usage_ok (persistCustomDiscountApplications E kg v l r)"
  "maintains usage_ok (filterDiscountsForChild E kg c snaps)"
  by (rule maintains_untouched, intro frame; simp)+

lemma maintains_rest [maintain]:
  "maintains usage_ok (refunds_create D r)" "maintains usage_ok (payments_scheduleBccReconciliation kg i t now)"
  "maintains usage_ok (payments_markProcessingConditional kg i now txn pl)" "maintains usage_ok (plans_findById kg i)"
  "maintains usage_ok (invoices_markOverdueBatch D kg day now)"
  by (rule maintains_untouched; auto simp: keeps_def refunds_create_def payments_scheduleBccReconciliation_def
      payments_markProcessingConditional_def payments_transitionConditional_def plans_findById_def invoices_markOverdueBatch_def
      Let_def op_inv split: option.splits prod.splits)+

lemmas flip_defs = payment_flip_defs refund_flip_defs invoice_flip_defs

lemma maintains_balance [maintain]:
  "maintains usage_ok (creditFromPayment E kg a m)" "maintains usage_ok (debitForRefund E kg a m)"
  unfolding creditFromPayment_def debitForRefund_def lock_defs by (intro maintain)+

lemma maintains_release [maintain]: "maintains usage_ok (releaseCustomDiscountUsagesForInvoice E kg i)"
  unfolding releaseCustomDiscountUsagesForInvoice_def by (intro maintain)

lemma maintains_cancelMonthlies [maintain]: "maintains usage_ok (cancelMonthliesCoveredByPrepayment E kg p now)"
  unfolding cancelMonthliesCoveredByPrepayment_def lock_defs flip_defs by (intro maintain)

lemma maintains_settle [maintain]: "maintains usage_ok (settleInvoice E kg p i now)"
  unfolding settleInvoice_def flipInvoice_def flagDoublePayment_def escalateSettleIntoVoidInvoice_def
    notifyRefundRequiredToAdmins_def lock_defs flip_defs Let_def
  by (intro maintain)

lemma maintains_completed [maintain]: "maintains usage_ok (applyCompletedPayment E kg i v)"
  unfolding applyCompletedPayment_def lock_defs flip_defs by (intro maintain)

lemma maintains_webhook: "maintains usage_ok (settleVerified E kg i v)"
  unfolding settleVerified_def applyFailedPayment_def applyProviderObservation_def lock_defs flip_defs Let_def
  by (cases "vw_status v"; simp; intro maintain)

lemma maintains_initiate: "maintains usage_ok (initiate E kg input cont ans)"
proof -
  have create: "maintains usage_ok (create_or_known E kg p)" for p
    by (rule maintains_untouched) (auto simp: create_or_known_def intro!: frame split: billing_error.splits)
  have answer: "maintains usage_ok (apply_answer E kg p r)" for p r
    unfolding apply_answer_def flip_defs Let_def by (cases "cp_status r"; simp; intro maintain)
  show ?thesis
    unfolding initiate_def initiate_new_def forInitiation_def invoice_service_get_def payable_def amount_guard_def
      recallInFlightKaspiForPayer_def flip_defs Let_def
    by (intro maintain create answer maintains_untouched[OF keeps_known_payment])
qed

lemma maintains_refunds:
  "maintains usage_ok (refund_create E kg i a why)" "maintains usage_ok (refund_service_approve E kg i who)"
  "maintains usage_ok (refund_service_reject E kg i why)" "maintains usage_ok (refund_service_process E kg i ack ans)"
  unfolding refund_create_def refund_service_approve_def refund_service_reject_def refund_service_process_def
    unwindInvoice_def approved_or_throw_def refund_lost_def lock_defs flip_defs Let_def
  by (intro maintain; simp)+

lemma maintains_cash: "maintains usage_ok (manualMarkPaid E kg i input)" "maintains usage_ok (invoice_service_cancel E kg i why)"
  unfolding manualMarkPaid_def cash_amount_def recordPartialCashPayment_def partial_flip_def settle_cash_def flip_lost_def
    record_cash_def notify_cash_def lock_defs flip_defs Let_def invoice_service_cancel_def
  by (intro maintain; simp)+

lemma maintains_inputs [maintain]: "maintains usage_ok (buildCustomDiscountInputs E kg c now b)"
  unfolding maintains_def
proof (intro allI impI)
  fix db x db' assume ok: "usage_ok db" and run: "buildCustomDiscountInputs E kg c now b db = Inr (x, db')"
  let ?active = "discounts_findActiveCustomDiscounts kg now db"
  obtain snaps s r t where f: "filterDiscountsForChild E kg c (map toSnapshot ?active) db = Inr (snaps, s)"
    and a: "admit E kg c b snaps s = Inr (r, t)" and t: "db' = t"
    using run unfolding buildCustomDiscountInputs_def by (auto simp: op_inv split: prod.splits)
  have "keeps db_discounts (filterDiscountsForChild E kg c (map toSnapshot ?active))" by (intro frame; simp)
  then have same: "db_discounts s = db_discounts db" using f by (rule keepsD)
  have "snap_id ` set snaps \<subseteq> cd_id ` set ?active"
    using filterDiscounts_subset[OF f] by (force simp: toSnapshot_def)
  then have "maintains (reservable kg (cd_id ` set ?active)) (admit E kg c b snaps)" by (rule reservable_admit)
  moreover have "reservable kg (cd_id ` set ?active) s"
    using ok active_published[OF ok] same by (simp add: reservable_def usage_ok_def published_def)
  ultimately show "usage_ok db'" using a t by (auto simp: reservable_def dest: maintainsD)
qed

lemma maintains_unused [maintain]: "maintains usage_ok (releaseUnusedReservations E kg ids r)"
  unfolding releaseUnusedReservations_def Let_def by (intro maintain)

lemma maintains_invoices:
  "maintains usage_ok (createOneOff E kg oinput)" "maintains usage_ok (generateLatePickupInvoice E kg linput)"
  unfolding createOneOff_def one_off_item_def generateLatePickupInvoice_def late_fee_def emitInvoiceCreated_def Let_def
  by (intro maintain; auto intro!: maintain)+

lemma maintains_generate [maintain]: "maintains usage_ok (generateAndPersistInvoice E kg a)"
  unfolding generateAndPersistInvoice_def emitInvoiceCreated_def Let_def by (intro maintain)

lemma maintains_monthly: "maintains usage_ok (generateMonthly E kg p)" "maintains usage_ok (generateFirstInvoice E kg c d)"
proof -
  have "maintains usage_ok (monthly_loop E kg p n cov as)" for n cov as
    by (induction as) (auto simp: monthly_one_def Let_def intro!: maintain)
  then show "maintains usage_ok (generateMonthly E kg p)" unfolding generateMonthly_def lock_defs by (intro maintain)
  show "maintains usage_ok (generateFirstInvoice E kg c d)" unfolding generateFirstInvoice_def Let_def by (intro maintain)
qed

lemma maintains_prepay: "maintains usage_ok (prepayInvoice E kg c h)"
  unfolding prepayInvoice_def computePrepaymentQuote_def price_window_def unblocked_def share_item_def cancel_stale_def
    emitInvoiceCreated_def lock_defs flip_defs Let_def
  by (intro maintain; auto intro!: maintain split: PrepaymentQuote.splits)

lemma maintains_jobs: "maintains usage_ok (overdue_run E now kg)" "maintains usage_ok (computeAndCreate E kg c t)"
  unfolding overdue_run_def computeAndCreate_def refund_invoice_def create_pro_rata_def refunds_acquireProRataAdvisoryLock_def Let_def
  by (intro maintain; simp)+

lemma maintains_discounts:
  "maintains usage_ok (discount_service_activate E kg i)" "maintains usage_ok (discount_service_pause E kg i)"
  "maintains usage_ok (discount_service_resume E kg i)" "maintains usage_ok (discount_service_cancel E kg i)"
proof -
  have announce: "maintains usage_ok (announce E kg d)" for d
  proof -
    have "keeps db_discounts (resolveTargetChildIds E kg d)"
      unfolding resolveTargetChildIds_def resolveByTargetType_def Let_def
      by (cases "cd_targetType d"; simp split del: if_split split: option.split prod.split)
        (intro frame allI impI conjI; simp)+
    then have r: "maintains usage_ok (resolveTargetChildIds E kg d)" by (rule maintains_untouched)
    show ?thesis unfolding announce_def by (intro maintain r)
  qed
  show "maintains usage_ok (discount_service_activate E kg i)"
    unfolding discount_service_activate_def lock_defs by (intro maintain announce)
  show "maintains usage_ok (discount_service_pause E kg i)" "maintains usage_ok (discount_service_resume E kg i)"
    "maintains usage_ok (discount_service_cancel E kg i)"
    unfolding discount_service_pause_def discount_service_resume_def discount_service_cancel_def simpleTransition_def discount_lost_def
    by (intro maintain)+
qed

lemma maintains_drafts:
  "maintains usage_ok (discount_service_create E kg input who)" "maintains usage_ok (discount_service_update E kg i patch)"
  "maintains usage_ok (discount_service_expireOverdue kg now)"
  unfolding discount_service_create_def discount_service_update_def discount_lost_def discount_service_expireOverdue_def Let_def
  by (intro maintain)+

lemmas maintains_all = maintains_webhook maintains_initiate maintains_refunds maintains_cash maintains_invoices maintains_monthly
  maintains_prepay maintains_jobs maintains_discounts maintains_drafts

lemma step_usage: "tenant_step E kg db db' \<Longrightarrow> usage_ok db \<Longrightarrow> usage_ok db'"
  by (erule tenant_step.cases; hypsubst; erule maintainsD[rotated]; (rule maintains_all | assumption))

lemma usage_invariant:
  assumes "(\<lambda>a b. \<exists>kg. tenant_step E kg a b)\<^sup>*\<^sup>* db db'" "usage_ok db"
  shows "usage_ok db'"
  using assms by (induction rule: rtranclp_induct) (auto dest: step_usage)

end
