(* ===== verification/Repository_Refinement.thy ===== *)
theory Repository_Refinement
  imports Refund_Books Delivery_Order
begin

text \<open>
  The repositories implement the aggregates: a tenant's table is seen as a map from ids to aggregates,
  and every conditional UPDATE of a repository acts on the map as the method of the aggregate does,
  with its guard. What only the row carries (the provider's raw payload and the reconciliation
  schedule of a payment) is left out of the abstract aggregate.
\<close>

text \<open>The specification: apply a method to the aggregate with a key; a refused call changes nothing.\<close>

definition apply_method :: "('s \<Rightarrow> 'e + 's) \<Rightarrow> uuid \<Rightarrow> (uuid \<rightharpoonup> 's) \<Rightarrow> (uuid \<rightharpoonup> 's)" where
  "apply_method f i M = (case M i of None \<Rightarrow> M
     | Some s \<Rightarrow> (case f s of Inl e \<Rightarrow> M | Inr t \<Rightarrow> M(i \<mapsto> t)))"

definition accepts :: "('s \<Rightarrow> 'e + 's) \<Rightarrow> uuid \<Rightarrow> (uuid \<rightharpoonup> 's) \<Rightarrow> bool" where
  "accepts f i M \<longleftrightarrow> (\<exists>s t. M i = Some s \<and> f s = Inr t)"

definition table_of :: "('r \<Rightarrow> uuid) \<Rightarrow> ('r \<Rightarrow> uuid) \<Rightarrow> ('r \<Rightarrow> 's) \<Rightarrow> uuid \<Rightarrow> 'r list \<Rightarrow> (uuid \<rightharpoonup> 's)" where
  "table_of kgOf idOf view kg rows = (\<lambda>i. map_option view (find (\<lambda>r. idOf r = i \<and> kgOf r = kg) rows))"

context status_table
begin

text \<open>One conditional UPDATE against one method, once for all tables.\<close>

lemma cas_refines:
  assumes t: "transition expected patch nxt" and uniq: "distinct (map idOf rows)"
    and res: "attempt kg i expected patch rows = (res, rows')"
    and accept: "\<And>r. statusOf r \<in> set expected \<Longrightarrow> m (view r) = Inr (view (patch r))"
    and refuse: "\<And>r. statusOf r \<notin> set expected \<Longrightarrow> \<exists>e. m (view r) = Inl e"
  shows "table_of kgOf idOf view kg rows' = apply_method m i (table_of kgOf idOf view kg rows)
    \<and> (res \<noteq> None \<longleftrightarrow> accepts m i (table_of kgOf idOf view kg rows))"
proof (cases "find (\<lambda>r. idOf r = i \<and> kgOf r = kg) rows")
  case None
  then have "\<not> list_ex (\<lambda>r. (idOf r = i \<and> kgOf r = kg) \<and> List.member expected (statusOf r)) rows"
    by (auto simp: find_None_iff list_ex_iff)
  then have "res = None \<and> rows' = rows" using res by (simp add: cas_def update_returning_def)
  with None show ?thesis by (simp add: apply_method_def accepts_def table_of_def)
next
  case (Some r)
  note fd = find_SomeD[OF Some]
  have other: "find (\<lambda>r. idOf r = j \<and> kgOf r = kg) rows' = find (\<lambda>r. idOf r = j \<and> kgOf r = kg) rows" if "j \<noteq> i" for j
    using cas_find_other[OF t that, of kg kg rows] res by simp
  show ?thesis
  proof (cases "statusOf r \<in> set expected")
    case True
    then have r: "res = Some (patch r)" "rows' = map (\<lambda>x. if idOf x = i then patch x else x) rows"
      using cas_unique[OF t Some uniq] res by auto
    have one: "x = r" if "x \<in> set rows" "idOf x = i" for x
      using that fd uniq by (auto simp: distinct_map dest: inj_onD)
    have "find (\<lambda>x. idOf x = i \<and> kgOf x = kg) rows' = Some (patch r)"
    proof (rule find_unique)
      show "patch r \<in> set rows'" "idOf (patch r) = i \<and> kgOf (patch r) = kg"
        using fd r(2) patch_key[OF t, of r] by auto
      show "x = patch r" if "x \<in> set rows'" "idOf x = i \<and> kgOf x = kg" for x
        using that one r(2) patch_key[OF t] by (auto split: if_splits)
    qed
    with other Some accept[OF True] r(1) show ?thesis
      by (auto simp: apply_method_def accepts_def table_of_def fun_eq_iff)
  next
    case False
    with cas_unique[OF t Some uniq] res have "res = None" "rows' = rows" by auto
    with refuse[OF False] Some show ?thesis by (auto simp: apply_method_def accepts_def table_of_def)
  qed
qed

end

subsection \<open>Payments\<close>

definition payment_core :: "PaymentState \<Rightarrow> PaymentState" where
  "payment_core p = p\<lparr>pay_providerPayload := None, pay_nextReconciliationAt := None\<rparr>"

definition payments_of :: "uuid \<Rightarrow> billing_db \<Rightarrow> (uuid \<rightharpoonup> PaymentState)" where
  "payments_of kg db = table_of pay_kindergartenId pay_id payment_core kg (db_payments db)"

lemma payment_method:
  assumes uniq: "distinct (map pay_id (db_payments db))" and t: "payment_transition expected patch nxt"
    and run: "payments_transitionConditional kg i expected patch db = Inr (res, db')"
    and m: "\<And>r. pay_status r \<in> set expected \<Longrightarrow> m (payment_core r) = Inr (payment_core (patch r))"
      "\<And>r. pay_status r \<notin> set expected \<Longrightarrow> \<exists>e. m (payment_core r) = Inl e"
  shows "payments_of kg db' = apply_method m i (payments_of kg db) \<and> (res \<noteq> None \<longleftrightarrow> accepts m i (payments_of kg db))"
proof -
  obtain rows' where c: "cas pay_kindergartenId pay_id pay_status kg i expected patch (db_payments db) = (res, rows')"
    and db': "db' = db\<lparr>db_payments := rows'\<rparr>"
    using run by (auto simp: payments_transitionConditional_def Let_def split: prod.splits)
  show ?thesis
    using payments.cas_refines[OF t uniq c, where m = m and view = payment_core, OF m] by (simp add: db' payments_of_def)
qed

text \<open>The method of the aggregate, with the payload of the row left out of the result.\<close>

definition modulo_payload :: "(PaymentState \<Rightarrow> 'e + PaymentState) \<Rightarrow> PaymentState \<Rightarrow> 'e + PaymentState" where
  "modulo_payload f p = (case f p of Inl e \<Rightarrow> Inl e | Inr q \<Rightarrow> Inr (payment_core q))"

lemma completed_refines:
  assumes uniq: "distinct (map pay_id (db_payments db))" and run: "payments_markCompletedConditional kg i txn now payload now db = Inr (res, db')"
  shows "payments_of kg db' = apply_method (payment_markCompleted txn now) i (payments_of kg db)
    \<and> (res \<noteq> None \<longleftrightarrow> accepts (payment_markCompleted txn now) i (payments_of kg db))"
  by (rule payment_method[OF uniq payment_transition.intros(1) run[unfolded payment_flip_defs]];
      simp add: payment_ops payment_core_def completed_patch_def failed_patch_def refunded_patch_def modulo_payload_def)

lemma failed_refines:
  assumes uniq: "distinct (map pay_id (db_payments db))" and run: "payments_markFailedConditional kg i reason payload now db = Inr (res, db')"
  shows "payments_of kg db' = apply_method (modulo_payload (payment_markFailed reason now)) i (payments_of kg db)
    \<and> (res \<noteq> None \<longleftrightarrow> accepts (modulo_payload (payment_markFailed reason now)) i (payments_of kg db))"
  by (rule payment_method[OF uniq payment_transition.intros(2) run[unfolded payment_flip_defs]];
      simp add: payment_ops payment_core_def completed_patch_def failed_patch_def refunded_patch_def modulo_payload_def)

lemma refunded_refines:
  assumes uniq: "distinct (map pay_id (db_payments db))" and run: "payments_markRefundedConditional kg i rid now db = Inr (res, db')"
  shows "payments_of kg db' = apply_method (payment_markRefunded rid now) i (payments_of kg db)
    \<and> (res \<noteq> None \<longleftrightarrow> accepts (payment_markRefunded rid now) i (payments_of kg db))"
  by (rule payment_method[OF uniq payment_transition.intros(4) run[unfolded payment_flip_defs]];
      simp add: payment_ops payment_core_def completed_patch_def failed_patch_def refunded_patch_def modulo_payload_def)

text \<open>
  The update to \<open>processing\<close> also stores the id the provider gave the transaction, when there is one;
  the method of the aggregate has no such parameter.
\<close>

definition with_provider_txn :: "string option \<Rightarrow> (PaymentState \<Rightarrow> 'e + PaymentState) \<Rightarrow> PaymentState \<Rightarrow> 'e + PaymentState" where
  "with_provider_txn txn f p = (case f p of Inl e \<Rightarrow> Inl e
     | Inr q \<Rightarrow> Inr (case txn of None \<Rightarrow> q | Some t \<Rightarrow> q\<lparr>pay_providerTxnId := Some t\<rparr>))"

lemma processing_refines:
  assumes uniq: "distinct (map pay_id (db_payments db))" and run: "payments_markProcessingConditional kg i now txn payload db = Inr (res, db')"
  shows "payments_of kg db' = apply_method (with_provider_txn txn (payment_markProcessing now)) i (payments_of kg db)
    \<and> (res \<noteq> None \<longleftrightarrow> accepts (with_provider_txn txn (payment_markProcessing now)) i (payments_of kg db))"
  by (rule payment_method[OF uniq payment_transition.intros(3) run[unfolded payments_markProcessingConditional_def]];
      simp add: payment_ops payment_core_def processing_patch_def with_provider_txn_def Let_def split: option.split)

subsection \<open>Refunds\<close>

definition refunds_of :: "uuid \<Rightarrow> billing_db \<Rightarrow> (uuid \<rightharpoonup> RefundState)" where
  "refunds_of kg db = table_of ref_kindergartenId ref_id id kg (db_refunds db)"

lemma refund_method:
  assumes uniq: "distinct (map ref_id (db_refunds db))" and t: "refund_transition expected patch nxt"
    and run: "refunds_transitionConditional kg i expected patch db = Inr (res, db')"
    and m: "\<And>r. ref_status r \<in> set expected \<Longrightarrow> m r = Inr (patch r)" "\<And>r. ref_status r \<notin> set expected \<Longrightarrow> \<exists>e. m r = Inl e"
  shows "refunds_of kg db' = apply_method m i (refunds_of kg db) \<and> (res \<noteq> None \<longleftrightarrow> accepts m i (refunds_of kg db))"
proof -
  obtain rows' where c: "cas ref_kindergartenId ref_id ref_status kg i expected patch (db_refunds db) = (res, rows')"
    and db': "db' = db\<lparr>db_refunds := rows'\<rparr>"
    using run by (auto simp: refunds_transitionConditional_def Let_def split: prod.splits)
  show ?thesis
    using refunds.cas_refines[OF t uniq c, where m = m and view = id] m by (simp add: db' refunds_of_def)
qed

lemma approved_refines:
  assumes uniq: "distinct (map ref_id (db_refunds db))" and run: "refunds_markApprovedConditional kg i who now db = Inr (res, db')"
  shows "refunds_of kg db' = apply_method (refund_approve who now) i (refunds_of kg db)
    \<and> (res \<noteq> None \<longleftrightarrow> accepts (refund_approve who now) i (refunds_of kg db))"
  by (rule refund_method[OF uniq refund_transition.intros(1) run[unfolded refund_flip_defs]];
      simp add: refund_ops approved_patch_def rejected_patch_def processed_patch_def)

lemma rejected_refines:
  assumes uniq: "distinct (map ref_id (db_refunds db))" and run: "refunds_markRejectedConditional kg i why now db = Inr (res, db')"
  shows "refunds_of kg db' = apply_method (refund_reject why now) i (refunds_of kg db)
    \<and> (res \<noteq> None \<longleftrightarrow> accepts (refund_reject why now) i (refunds_of kg db))"
  by (rule refund_method[OF uniq refund_transition.intros(2) run[unfolded refund_flip_defs]];
      simp add: refund_ops approved_patch_def rejected_patch_def processed_patch_def)

lemma processed_refines:
  assumes uniq: "distinct (map ref_id (db_refunds db))" and run: "refunds_markProcessedConditional kg i ref now db = Inr (res, db')"
  shows "refunds_of kg db' = apply_method (refund_process ref now) i (refunds_of kg db)
    \<and> (res \<noteq> None \<longleftrightarrow> accepts (refund_process ref now) i (refunds_of kg db))"
  by (rule refund_method[OF uniq refund_transition.intros(3) run[unfolded refund_flip_defs]];
      simp add: refund_ops approved_patch_def rejected_patch_def processed_patch_def)

subsection \<open>Invoices\<close>

definition invoices_table :: "uuid \<Rightarrow> billing_db \<Rightarrow> (uuid \<rightharpoonup> InvoiceState)" where
  "invoices_table kg db = table_of inv_kindergartenId inv_id id kg (db_invoices db)"

lemma cancel_refines:
  assumes uniq: "distinct (map inv_id (db_invoices db))"
    and run: "invoices_markCancelledConditional kg i now db = Inr (res, db')"
  shows "invoices_table kg db' = apply_method (invoice_cancel now) i (invoices_table kg db)
    \<and> (res \<noteq> None \<longleftrightarrow> accepts (invoice_cancel now) i (invoices_table kg db))"
proof -
  have t: "invoice_transition [InvPending, InvPartial, InvOverdue] (invoice_set InvCancelled now) InvCancelled"
    by (rule invoice_transition.intros)
  obtain rows' where c: "cas inv_kindergartenId inv_id inv_status kg i [InvPending, InvPartial, InvOverdue]
      (invoice_set InvCancelled now) (db_invoices db) = (res, rows')" and db': "db' = db\<lparr>db_invoices := rows'\<rparr>"
    using run by (auto simp: invoices_markCancelledConditional_def invoices_transitionStatusConditional_def Let_def split: prod.splits)
  have "invoice_cancel now (id r) = Inr (id (invoice_set InvCancelled now r))"
    if "inv_status r \<in> set [InvPending, InvPartial, InvOverdue]" for r
    using that by (auto simp: invoice_cancel_def invoice_set_def)
  moreover have "\<exists>e. invoice_cancel now (id r) = Inl e" if "inv_status r \<notin> set [InvPending, InvPartial, InvOverdue]" for r
    using that by (auto simp: invoice_cancel_def)
  ultimately show ?thesis
    using invoices.cas_refines[OF t uniq c, where m = "invoice_cancel now" and view = id]
    unfolding db' invoices_table_def by simp
qed

end
