(* ===== verification/Tenant_Loop.thy ===== *)
theory Tenant_Loop
  imports Tenant_Isolation
begin

text \<open>
  The loop of a nightly job over the kindergartens (\<open>src/modules/billing/monthly-billing.processor.ts\<close>,
  \<open>overdue-invoice.processor.ts\<close>): a tenant whose run throws is counted and leaves no trace, the others
  run as if it were not there, and each ends up with what its own run made of its own rows.
\<close>

text \<open>The specification: run those that succeed, one after the other.\<close>

definition survives :: "(uuid \<Rightarrow> nat op) \<Rightarrow> billing_db \<Rightarrow> uuid \<Rightarrow> billing_db" where
  "survives run db kg = (case run kg db of Inl e \<Rightarrow> db | Inr (n, db') \<Rightarrow> db')"

primrec loop_counts :: "(uuid \<Rightarrow> nat op) \<Rightarrow> billing_db \<Rightarrow> uuid list \<Rightarrow> nat \<times> nat" where
  "loop_counts run db [] = (0, 0)"
| "loop_counts run db (kg # kgs) =
     (let (n, e) = loop_counts run (survives run db kg) kgs
      in case run kg db of Inl err \<Rightarrow> (n, Suc e) | Inr (m, db') \<Rightarrow> (m + n, e))"

lemma per_tenant_run:
  "per_tenant run kg db = Inr (case run kg db of Inl e \<Rightarrow> (0, 1) | Inr (n, db') \<Rightarrow> (n, 0), survives run db kg)"
  by (auto simp: per_tenant_def survives_def catchM_def op_simps returnM_def split: sum.splits prod.splits)

lemma over_tenants_run:
  "over_tenants run kgs db = Inr (loop_counts run db kgs, foldl (survives run) db kgs)"
proof (induction kgs arbitrary: db)
  case (Cons kg kgs)
  show ?case
    using Cons[of "survives run db kg"]
    by (auto simp: op_simps per_tenant_run survives_def Let_def split: sum.splits prod.splits)
qed (simp add: op_simps)

lemma loop_errors:
  "snd (loop_counts run db kgs) \<le> length kgs"
proof (induction kgs arbitrary: db)
  case (Cons kg kgs)
  have "snd (loop_counts run (survives run db kg) kgs) \<le> length kgs" by (rule Cons)
  then show ?case by (auto simp: Let_def split: sum.splits prod.splits)
qed simp

text \<open>A tenant that always throws may as well be left out of the list.\<close>

lemma failing_tenant_invisible:
  assumes "\<And>db. \<exists>e. run bad db = Inl e"
  shows "foldl (survives run) db kgs = foldl (survives run) db (filter (\<lambda>k. k \<noteq> bad) kgs)"
proof (induction kgs arbitrary: db)
  case (Cons kg kgs)
  show ?case
  proof (cases "kg = bad")
    case True
    obtain e where "run bad db = Inl e" using assms by blast
    then have "survives run db kg = db" by (simp add: survives_def True)
    then show ?thesis using Cons[of db] True by simp
  next
    case False
    then show ?thesis using Cons by simp
  qed
qed simp

text \<open>Once the loop has started it ends, whatever its tenants do.\<close>

lemma tick_run:
  "tick run db = Inr (\<lparr>ts_kindergartensProcessed = length (listAllKindergartens db),
      ts_done = fst (loop_counts run db (listAllKindergartens db)),
      ts_errors = snd (loop_counts run db (listAllKindergartens db))\<rparr>,
    foldl (survives run) db (listAllKindergartens db))"
  by (simp add: tick_def op_simps over_tenants_run case_prod_beta)

subsection \<open>What a tenant sees of the loop\<close>

text \<open>
  When the run of one tenant is apart from the others, every tenant ends up with what its own run made
  of its own rows.
\<close>

lemma survives_apart: "apart k (run kg) \<Longrightarrow> tenant_view k (survives run db kg) = tenant_view k db"
  by (auto simp: survives_def dest: keepsD split: sum.splits)

lemma loop_apart:
  assumes "\<And>kg. kg \<in> set kgs \<Longrightarrow> apart k (run kg)"
  shows "tenant_view k (foldl (survives run) db kgs) = tenant_view k db"
  using assms by (induction kgs arbitrary: db) (simp_all add: survives_apart)

lemma loop_own_run:
  assumes "\<And>k kg. k \<noteq> kg \<Longrightarrow> apart k (run kg)" "distinct (earlier @ kg # later)"
  shows "tenant_view kg (foldl (survives run) db earlier) = tenant_view kg db"
    and "tenant_view kg (foldl (survives run) db (earlier @ kg # later)) = tenant_view kg (survives run (foldl (survives run) db earlier) kg)"
proof -
  have other: "tenant_view kg (foldl (survives run) d kgs) = tenant_view kg d" if "kg \<notin> set kgs" for d kgs
    using that by (intro loop_apart assms(1)) auto
  show "tenant_view kg (foldl (survives run) db earlier) = tenant_view kg db" using assms(2) by (intro other) auto
  have "tenant_view kg (foldl (survives run) (survives run (foldl (survives run) db earlier) kg) later)
      = tenant_view kg (survives run (foldl (survives run) db earlier) kg)"
    using assms(2) by (intro other) auto
  then show "tenant_view kg (foldl (survives run) db (earlier @ kg # later)) = tenant_view kg (survives run (foldl (survives run) db earlier) kg)"
    by simp
qed

text \<open>The monthly job: started for a period, it returns, and bills every kindergarten by itself.\<close>

definition monthly_result :: "billing_env \<Rightarrow> instant \<Rightarrow> uuid \<Rightarrow> billing_db \<Rightarrow> billing_db" where
  "monthly_result E p kg before = (case generateMonthly E kg p before of Inl e \<Rightarrow> before | Inr (counts, after) \<Rightarrow> after)"

lemma distinct_listAll: "distinct (map fst (db_kindergartens db)) \<Longrightarrow> distinct (listAllKindergartens db)"
  by (simp add: listAllKindergartens_def distinct_map_filter)

lemma period_start_frame:
  "computePeriodStart E payload db = Inr (p, s) \<Longrightarrow> listAllKindergartens s = listAllKindergartens db \<and> tenant_view k s = tenant_view k db"
  by (auto simp: computePeriodStart_def op_inv listAllKindergartens_def split: option.splits)

lemma monthly_job_own_run:
  assumes p: "computePeriodStart E payload db = Inr (p, s)" and dist: "distinct (map fst (db_kindergartens db))"
  shows "\<exists>sm db'. monthly_billing_process E payload db = Inr (sm, db')
    \<and> ts_kindergartensProcessed sm = length (listAllKindergartens db)
    \<and> (\<forall>earlier kg later. listAllKindergartens db = earlier @ kg # later \<longrightarrow>
        (let before = foldl (\<lambda>d k. monthly_result E p k d) s earlier
         in tenant_view kg before = tenant_view kg db \<and> tenant_view kg db' = tenant_view kg (monthly_result E p kg before)))
    \<and> (\<forall>kg. kg \<notin> set (listAllKindergartens db) \<longrightarrow> tenant_view kg db' = tenant_view kg db)"
proof -
  let ?run = "\<lambda>kg. bindM (generateMonthly E kg p) (\<lambda>(generated, skipped). returnM generated)"
  let ?kgs = "listAllKindergartens db"
  note fr = period_start_frame[OF p]
  have res: "survives ?run = (\<lambda>d k. monthly_result E p k d)"
    by (auto simp: fun_eq_iff survives_def monthly_result_def op_simps returnM_def split: sum.splits prod.splits)
  have ap: "apart k (?run kg)" if "k \<noteq> kg" for k kg
    using that by (intro keeps_bind keeps_case_prod keeps_basic apart)
  have "monthly_billing_process E payload db = tick ?run s"
    using p by (simp add: monthly_billing_process_def op_simps)
  then obtain sm where run: "monthly_billing_process E payload db = Inr (sm, foldl (survives ?run) s ?kgs)"
    and n: "ts_kindergartensProcessed sm = length ?kgs"
    using tick_run[of ?run s] fr by auto
  have own: "tenant_view kg (foldl (survives ?run) s earlier) = tenant_view kg db
      \<and> tenant_view kg (foldl (survives ?run) s ?kgs) = tenant_view kg (monthly_result E p kg (foldl (survives ?run) s earlier))"
    if l: "?kgs = earlier @ kg # later" for earlier kg later
  proof -
    have "distinct (earlier @ kg # later)" using distinct_listAll[OF dist] by (simp only: l)
    from loop_own_run[of ?run, OF ap this, of s] show ?thesis unfolding l using fr res by simp
  qed
  have "tenant_view kg (foldl (survives ?run) s ?kgs) = tenant_view kg db" if "kg \<notin> set ?kgs" for kg
  proof -
    have "tenant_view kg (foldl (survives ?run) s ?kgs) = tenant_view kg s" using that by (intro loop_apart ap) auto
    then show ?thesis using fr by simp
  qed
  with run n own show ?thesis unfolding Let_def res[symmetric] by blast
qed

end
