(* ===== verification/Settlement_Status.thy ===== *)
theory Settlement_Status
  imports Refund_Books Op_Rules Delivery_Order
begin

text \<open>
  What a settlement does to its invoice: the sum of the completed payments, this one included, decides
  between paid, partial and no change (\<open>applyCompletedPayment\<close> of
  \<open>src/modules/billing/payment.service.ts\<close>, step 3).
\<close>

definition settled_status :: "kzt \<Rightarrow> kzt \<Rightarrow> InvoiceStatus \<Rightarrow> InvoiceStatus" where
  "settled_status paid due st =
     (if paid \<ge> due then (if st \<in> {InvPending, InvPartial, InvOverdue} then InvPaid else st)
      else if 0 < paid \<and> st \<in> {InvPending, InvOverdue} then InvPartial else st)"

lemma keeps_invoices_escalate: "keeps db_invoices (escalateSettleIntoVoidInvoice E kg p i)"
  unfolding escalateSettleIntoVoidInvoice_def notifyRefundRequiredToAdmins_def by (intro frame; simp)

lemma escalate_returns: "total (escalateSettleIntoVoidInvoice E kg p i)"
  unfolding escalateSettleIntoVoidInvoice_def notifyRefundRequiredToAdmins_def Let_def by (intro totals)

lemma escalate_invoices: "escalateSettleIntoVoidInvoice E kg p i s = Inr (u, s') \<Longrightarrow> db_invoices s' = db_invoices s"
  using keeps_invoices_escalate unfolding keeps_def by blast

text \<open>Which flip is attempted; everything else leaves the invoices alone.\<close>

lemma flipInvoice_inv:
  assumes "flipInvoice E kg p v paid now db = Inr (x, db')"
  shows "if paid \<ge> inv_amountAfterDiscount v
    then \<exists>s y s'. db_invoices s = db_invoices db \<and> invoices_markPaidConditional kg (inv_id v) now s = Inr (y, s') \<and> db_invoices db' = db_invoices s'
    else if isPositive paid \<and> (inv_status v = InvPending \<or> inv_status v = InvOverdue)
    then \<exists>s y s'. db_invoices s = db_invoices db \<and> invoices_markPartialConditional kg (inv_id v) now s = Inr (y, s') \<and> db_invoices db' = db_invoices s'
    else db_invoices db' = db_invoices db"
proof (cases "paid \<ge> inv_amountAfterDiscount v")
  case True
  obtain u s y s' w where "whenM (isPrepayment (inv_invoiceType v)) (invoices_acquireChildPrepaymentAdvisoryLock kg (inv_childId v)) db = Inr (u, s)"
    and flip: "invoices_markPaidConditional kg (inv_id v) now s = Inr (y, s')"
    and esc: "whenM (y = None) (escalateSettleIntoVoidInvoice E kg p (inv_id v)) s' = Inr (w, db')"
    using assms True unfolding flipInvoice_def by (auto simp: op_inv(1,2))
  then have "db_invoices s = db_invoices db" "db_invoices db' = db_invoices s'"
    by (auto simp: op_inv lock_defs split: if_splits dest: escalate_invoices)
  with flip True show ?thesis by auto
next
  case False
  note part = this
  show ?thesis
  proof (cases "isPositive paid \<and> (inv_status v = InvPending \<or> inv_status v = InvOverdue)")
    case True
    obtain y s' w where flip: "invoices_markPartialConditional kg (inv_id v) now db = Inr (y, s')"
      and esc: "whenM (y = None) (escalateSettleIntoVoidInvoice E kg p (inv_id v)) s' = Inr (w, db')"
      using assms True part unfolding flipInvoice_def by (auto simp: op_inv(1,2))
    then have "db_invoices db' = db_invoices s'" by (auto simp: op_inv split: if_splits dest: escalate_invoices)
    with flip True part show ?thesis by auto
  next
    case False
    with assms part show ?thesis
      unfolding flipInvoice_def by (auto simp: op_inv split: if_splits dest: escalate_invoices)
  qed
qed

lemma markPaid_status:
  assumes v: "invoices_findById kg i db = Some v" and uniq: "distinct (map inv_id (db_invoices db))"
    and s: "db_invoices s = db_invoices db" and r: "invoices_markPaidConditional kg i now s = Inr (y, s')"
    and e: "db_invoices db' = db_invoices s'"
  shows "\<exists>v'. invoices_findById kg i db' = Some v'
    \<and> inv_status v' = (if inv_status v \<in> {InvPending, InvPartial, InvOverdue} then InvPaid else inv_status v)"
  using flip_status[OF _ _ invoice_transition.intros(1), of kg i s v now] v uniq s r e
  by (auto simp: invoices_findById_def invoices_markPaidConditional_def)

lemma markPartial_status:
  assumes v: "invoices_findById kg i db = Some v" and uniq: "distinct (map inv_id (db_invoices db))"
    and s: "db_invoices s = db_invoices db" and r: "invoices_markPartialConditional kg i now s = Inr (y, s')"
    and e: "db_invoices db' = db_invoices s'"
  shows "\<exists>v'. invoices_findById kg i db' = Some v'
    \<and> inv_status v' = (if inv_status v \<in> {InvPending, InvOverdue} then InvPartial else inv_status v)"
  using flip_status[OF _ _ invoice_transition.intros(2), of kg i s v now] v uniq s r e
  by (auto simp: invoices_findById_def invoices_markPartialConditional_def)

lemma flipInvoice_status:
  assumes v: "invoices_findById kg i db = Some v" and uniq: "distinct (map inv_id (db_invoices db))"
    and r: "flipInvoice E kg p v paid now db = Inr (x, db')"
  shows "\<exists>v'. invoices_findById kg i db' = Some v' \<and> inv_status v' = settled_status paid (inv_amountAfterDiscount v) (inv_status v)"
proof -
  have i: "inv_id v = i" using v by (auto simp: invoices_findById_def find_Some_iff)
  show ?thesis
    using flipInvoice_inv[OF r] markPaid_status[OF v uniq] markPartial_status[OF v uniq] v unfolding i
    by (auto simp: settled_status_def money_simps invoices_findById_def split: if_splits)
qed

text \<open>What runs after the flip keeps the invoices, when the invoice is not a prepayment.\<close>

lemma keeps_credit_invoices: "keeps db_invoices (creditFromPayment E kg a m)"
  unfolding creditFromPayment_def lock_defs by (intro frame; simp)

lemma settleInvoice_status:
  assumes v: "invoices_findById kg i db = Some v" and uniq: "distinct (map inv_id (db_invoices db))"
    and np: "\<not> isPrepayment (inv_invoiceType v)"
    and r: "settleInvoice E kg p i now db = Inr (u, db')"
  shows "\<exists>v'. invoices_findById kg i db' = Some v' \<and> inv_status v' =
    settled_status (fromKzt_number (env_decimal E) (invoices_getPaidSumForInvoice (env_decimal E) kg i db)) (inv_amountAfterDiscount v) (inv_status v)"
proof -
  let ?sum = "fromKzt_number (env_decimal E) (invoices_getPaidSumForInvoice (env_decimal E) kg i db)"
  obtain x s where flip: "flipInvoice E kg p v ?sum now db = Inr (x, s)" and rest: "db_invoices db' = db_invoices s"
  proof -
    obtain x s a s1 s2 where flip: "flipInvoice E kg p v ?sum now db = Inr (x, s)"
      and credit: "creditFromPayment E kg (inv_paymentAccountId v) (pay_amount p) s = Inr (a, s1)"
      and tail: "settlement_tail E kg p v ?sum i now s1 = Inr (u, db')"
      using r np v unfolding settleInvoice_def settlement_tail_def
      by (auto simp: op_inv(1) op_inv_rules(4,6) op_inv_rules(8)[where b = False] whenM_def op_inv_rules(2))
    have "db_invoices s1 = db_invoices s" using keeps_credit_invoices credit unfolding keeps_def by blast
    moreover have "db_invoices db' = db_invoices s1"
    proof -
      have "keeps db_invoices (settlement_tail E kg p v ?sum i now)"
        unfolding settlement_tail_def by (intro frame) simp_all
      then show ?thesis using tail unfolding keeps_def by blast
    qed
    ultimately show ?thesis using that flip by simp
  qed
  show ?thesis using flipInvoice_status[OF v uniq flip] rest by (simp add: invoices_findById_def)
qed


text \<open>The completed payments of the invoice once this one has been flipped.\<close>

lemma completed_sum_settled:
  assumes p: "payments_findById kg pid db = Some p" and uniq: "distinct (map pay_id (db_payments db))"
    and opn: "pay_status p \<in> {PayInitiated, PayProcessing}"
  shows "completed_sum kg (pay_invoiceId p)
      (db\<lparr>db_payments := map (\<lambda>x. if pay_id x = pid then completed_patch t pa pl n x else x) (db_payments db)\<rparr>)
    = completed_sum kg (pay_invoiceId p) db + pay_amount p"
proof -
  note fd = find_SomeD[OF p[unfolded payments_findById_def]]
  let ?g = "\<lambda>x. if pay_kindergartenId x = kg \<and> pay_invoiceId x = pay_invoiceId p \<and> pay_status x = PayCompleted then pay_amount x else 0"
  have sum: "completed_sum kg (pay_invoiceId p) d = sum_list (map ?g (db_payments d))" for d
    unfolding completed_sum_def completed_payments_def by (simp add: sum_list_map_filter')
  have "pay_id p = pid" using fd by simp
  then show ?thesis
    unfolding sum using sum_map_one[OF uniq, of p ?g "completed_patch t pa pl n"] fd opn by auto
qed

theorem settlement_status:
  assumes D: "decimal_ok (env_decimal E)" and keys: "keys_ok db"
    and p: "payments_findById kg pid db = Some p" and opn: "pay_status p \<in> {PayInitiated, PayProcessing}"
    and invoice: "invoices_findById kg (pay_invoiceId p) db = Some v" and np: "\<not> isPrepayment (inv_invoiceType v)"
    and sum: "cents (completed_sum kg (pay_invoiceId p) db + pay_amount p)"
    and run: "applyCompletedPayment E kg pid verified db = Inr (p', db')"
  shows "\<exists>v'. invoices_findById kg (pay_invoiceId p) db' = Some v' \<and> inv_status v' =
    settled_status (completed_sum kg (pay_invoiceId p) db + pay_amount p) (inv_amountAfterDiscount v) (inv_status v)"
proof -
  let ?now = "env_clock E (db_clockReads db)"
  let ?patch = "completed_patch (vw_providerPaymentId verified) ?now (Some (obj_merge (payload_of p) (vw_raw verified))) ?now"
  let ?db0 = "db\<lparr>db_locks := db_locks db @ [''billing:payment:'' @ kg @ '':'' @ pay_invoiceId p], db_clockReads := Suc (db_clockReads db)\<rparr>"
  let ?db1 = "?db0\<lparr>db_payments := map (\<lambda>x. if pay_id x = pid then ?patch x else x) (db_payments ?db0)\<rparr>"
  have r: "settleInvoice E kg (?patch p) (pay_invoiceId p) ?now ?db1 = Inr ((), db')"
    using run p opn keys
    by (auto simp: applyCompletedPayment_def op_simps lock_defs payments_findById_def keys_ok_def
        markCompleted_run[unfolded payments_findById_def, where p = p] returnM_def and_then_eq_Inr)
  have "completed_sum kg (pay_invoiceId p) ?db1 = completed_sum kg (pay_invoiceId p) ?db0 + pay_amount p"
    by (rule completed_sum_settled) (use p keys opn in \<open>auto simp: payments_findById_def keys_ok_def\<close>)
  also have "completed_sum kg (pay_invoiceId p) ?db0 = completed_sum kg (pay_invoiceId p) db"
    by (simp add: completed_sum_def completed_payments_def)
  finally have s: "fromKzt_number (env_decimal E) (invoices_getPaidSumForInvoice (env_decimal E) kg (pay_invoiceId p) ?db1)
      = completed_sum kg (pay_invoiceId p) db + pay_amount p"
    using decimal_arith.fromKzt_sql[OF decimal_arith.intro[OF D]] sum
    by (simp add: invoices_getPaidSumForInvoice_def completed_sum_def)
  show ?thesis
    using settleInvoice_status[OF _ _ np r] s invoice keys by (simp add: invoices_findById_def keys_ok_def)
qed

end
