(* ===== verification/Initiation_Facts.thy ===== *)
theory Initiation_Facts
  imports Tenant_Isolation
begin

text \<open>
  Starting a payment (\<open>initiate\<close> of \<open>src/modules/billing/payment.service.ts\<close>): the amount asked for
  is positive and at most what is left to pay, and repeating a request with the same key starts
  nothing new.
\<close>

subsection \<open>The amount\<close>

lemma forInitiation_inv: "forInitiation E pr db = Inr (u, db') \<Longrightarrow> db' = db \<and> pr \<in> set (env_enabledProviders E)"
  by (auto simp: forInitiation_def op_inv split: if_splits)

lemma payable_inv: "payable E v db = Inr (u, db') \<Longrightarrow> db' = db \<and> unpaid_status (inv_status v)"
  by (auto simp: payable_def op_inv split: if_splits)

lemma amount_guard_inv:
  "amount_guard E v mode remaining amount db = Inr (u, db') \<Longrightarrow> db' = db \<and> 0 < amount \<and> amount \<le> remaining
    \<and> (mode = FullPayment \<longrightarrow> amount = remaining) \<and> (isPrepayment (inv_invoiceType v) \<longrightarrow> mode = FullPayment)"
  by (cases mode) (auto simp: amount_guard_def op_inv money_simps split: if_splits)

text \<open>The payments by key, with their ids and amounts.\<close>

definition key_view :: "billing_db \<Rightarrow> (uuid \<times> uuid \<times> string \<times> uuid \<times> kzt) list" where
  "key_view db = map (\<lambda>p. (pay_kindergartenId p, pay_id p, pay_idempotencyKey p, pay_invoiceId p, pay_amount p)) (db_payments db)"

lemma key_view_updates [simp]:
  "key_view (db\<lparr>db_outbox := a\<rparr>) = key_view db" "key_view (db\<lparr>db_locks := b\<rparr>) = key_view db"
  "key_view (db\<lparr>db_clockReads := c\<rparr>) = key_view db" "key_view (db\<lparr>db_uuidDraws := c\<rparr>) = key_view db"
  "key_view (db\<lparr>db_invoices := i\<rparr>) = key_view db" "key_view (db\<lparr>db_accounts := r\<rparr>) = key_view db"
  "key_view (db\<lparr>db_discounts := d\<rparr>) = key_view db"
  by (simp_all add: key_view_def)

lemma keeps_key_flip:
  assumes "\<And>r. (pay_kindergartenId (patch r), pay_id (patch r), pay_idempotencyKey (patch r), pay_invoiceId (patch r), pay_amount (patch r))
    = (pay_kindergartenId r, pay_id r, pay_idempotencyKey r, pay_invoiceId r, pay_amount r)"
  shows "keeps key_view (payments_transitionConditional kg i expected patch)"
  using assms
  by (auto simp: keeps_def key_view_def payments_transitionConditional_def cas_def Let_def
      split: prod.splits dest!: arg_cong[of "update_returning _ _ _ _" _ snd] simp: snd_update_returning
      intro!: map_update_where)

lemma keeps_key_marks:
  "keeps key_view (payments_markCompletedConditional kg i txn t pl now)"
  "keeps key_view (payments_markFailedConditional kg i why pl now)"
  "keeps key_view (payments_markProcessingConditional kg i now tx pl)"
  "keeps key_view (payments_updateProviderPayload kg i obj now)"
  "keeps key_view (payments_markRefundRequired kg i why dup now)"
  "keeps key_view (payments_scheduleBccReconciliation kg i t now)"
proof -
  show "keeps key_view (payments_markCompletedConditional kg i txn t pl now)" "keeps key_view (payments_markFailedConditional kg i why pl now)"
    unfolding payment_flip_defs by (rule keeps_key_flip; simp add: completed_patch_def failed_patch_def)+
  have "keeps key_view (payments_transitionConditional kg i [PayInitiated] (processing_patch cur now tx pl))" for cur
    by (rule keeps_key_flip) (simp add: processing_patch_def Let_def split: option.splits)
  then show "keeps key_view (payments_markProcessingConditional kg i now tx pl)"
    by (auto simp: keeps_def payments_markProcessingConditional_def)
  show "keeps key_view (payments_updateProviderPayload kg i obj now)" "keeps key_view (payments_markRefundRequired kg i why dup now)"
    "keeps key_view (payments_scheduleBccReconciliation kg i t now)"
    by (auto simp: keeps_def key_view_def payments_updateProviderPayload_def payments_markRefundRequired_def
        payments_scheduleBccReconciliation_def refund_required_patch_def Let_def
        split: prod.splits dest!: arg_cong[of "update_returning _ _ _ _" _ snd] simp: snd_update_returning
        intro!: map_update_where)
qed

lemma keeps_key_settle: "keeps key_view (settleInvoice E kg p i now)"
  unfolding settleInvoice_def flipInvoice_def flagDoublePayment_def escalateSettleIntoVoidInvoice_def
    notifyRefundRequiredToAdmins_def creditFromPayment_def lock_defs invoice_flip_defs Let_def
  by (intro frame keeps_key_marks key_view_updates)

lemma keeps_key_completed: "keeps key_view (applyCompletedPayment E kg i v)"
  unfolding applyCompletedPayment_def lock_defs by (intro frame keeps_key_marks keeps_key_settle key_view_updates)

lemma keeps_key_answer: "keeps key_view (apply_answer E kg p r)"
  unfolding apply_answer_def Let_def
  by (cases "cp_status r"; simp; intro frame keeps_key_marks keeps_key_completed key_view_updates)

lemma keeps_key_recall: "keeps key_view (recallInFlightKaspiForPayer E kg i who)"
  unfolding recallInFlightKaspiForPayer_def by (intro frame keeps_key_marks key_view_updates)

subsection \<open>The payment a request ends with\<close>

lemma found_payment_id: "payments_findById kg i db = Some p \<Longrightarrow> pay_id p = i"
  by (auto simp: payments_findById_def find_Some_iff)

named_theorems yield \<open>rules for yields\<close>

lemma yields_any: "(\<And>x. Q x) \<Longrightarrow> yields Q m" by (simp add: yields_def)
lemma yields_bind: "(\<And>x. yields Q (h x)) \<Longrightarrow> yields Q (bindM m h)"
  unfolding yields_def op_inv by blast
lemma yields_bind_with: "yields R m \<Longrightarrow> (\<And>x. R x \<Longrightarrow> yields Q (h x)) \<Longrightarrow> yields Q (bindM m h)"
  unfolding yields_def op_inv by blast
lemma yields_bind_read: "(\<And>db. yields Q (h (g db))) \<Longrightarrow> yields Q (bindM (readM g) h)"
  by (auto simp: yields_def op_inv)
lemma yields_bind_orThrow: "(\<And>x. v = Some x \<Longrightarrow> yields Q (h x)) \<Longrightarrow> yields Q (bindM (orThrow v e) h)"
  by (auto simp: yields_def op_inv)
lemma yields_return: "Q x \<Longrightarrow> yields Q (returnM x)" by (simp add: yields_def op_inv)
lemma yields_throw: "yields Q (throwM e)" by (simp add: yields_def op_inv)
lemma yields_orThrow: "(\<And>x. v = Some x \<Longrightarrow> Q x) \<Longrightarrow> yields Q (orThrow v e)" by (auto simp: yields_def op_inv)
lemma yields_if: "yields Q m \<Longrightarrow> yields Q n \<Longrightarrow> yields Q (if b then m else n)" by simp
lemma yields_option: "(v = None \<Longrightarrow> yields Q m) \<Longrightarrow> (\<And>x. v = Some x \<Longrightarrow> yields Q (h x)) \<Longrightarrow> yields Q (case v of None \<Rightarrow> m | Some x \<Rightarrow> h x)"
  by (cases v) simp_all

text \<open>An optional row is the one with the id.\<close>

definition of_id :: "uuid \<Rightarrow> PaymentState option \<Rightarrow> bool" where
  "of_id i r \<longleftrightarrow> (\<forall>q. r = Some q \<longrightarrow> pay_id q = i)"

lemma yields_flip:
  assumes "\<And>r. pay_id (patch r) = pay_id r"
  shows "yields (of_id i) (payments_transitionConditional kg i expected patch)"
  using assms by (auto simp: yields_def of_id_def payments_transitionConditional_def cas_def Let_def
      split: prod.splits dest!: update_returning_Some)

lemma yields_marks:
  "yields (of_id i) (payments_markCompletedConditional kg i txn t pl now)"
  "yields (of_id i) (payments_markFailedConditional kg i why pl now)"
  "yields (of_id i) (payments_updateProviderPayload kg i obj now)"
  "yields (of_id i) (payments_scheduleBccReconciliation kg i t now)"
proof -
  show "yields (of_id i) (payments_markCompletedConditional kg i txn t pl now)" "yields (of_id i) (payments_markFailedConditional kg i why pl now)"
    unfolding payment_flip_defs by (rule yields_flip, simp add: completed_patch_def failed_patch_def)+
  show "yields (of_id i) (payments_updateProviderPayload kg i obj now)" "yields (of_id i) (payments_scheduleBccReconciliation kg i t now)"
    by (auto simp: yields_def of_id_def payments_updateProviderPayload_def payments_scheduleBccReconciliation_def Let_def
        split: prod.splits dest!: update_returning_Some)
qed

lemma yields_completed: "yields (\<lambda>q. pay_id q = i) (applyCompletedPayment E kg i v)"
  unfolding applyCompletedPayment_def
  by (rule yields_bind_read yields_bind_orThrow yields_bind_with[OF yields_marks(1)] yields_bind_with[OF yields_marks(3)] yields_bind
      yields_if yields_option yields_return yields_orThrow | force simp: of_id_def dest: found_payment_id split: option.splits)+

lemma of_id_default: "of_id i r \<Longrightarrow> pay_id p = i \<Longrightarrow> pay_id (case r of None \<Rightarrow> p | Some q \<Rightarrow> q) = i"
  by (cases r) (simp_all add: of_id_def)

lemma of_id_found: "of_id i (payments_findById kg i db)"
  by (auto simp: of_id_def dest: found_payment_id)

lemma yields_answer:
  assumes p: "pay_id p = i"
  shows "yields (\<lambda>q. pay_id q = i) (apply_answer E kg p r)"
proof (cases "cp_status r")
  case CreateInitiated
  have found: "pay_id (case payments_findById kg i db of None \<Rightarrow> p | Some q \<Rightarrow> q) = i" for db
    by (rule of_id_default[OF of_id_found p])
  show ?thesis
    unfolding apply_answer_def Let_def CreateInitiated CreatePaymentStatus.case p
    by (rule yields_bind, rule yields_bind, rule yields_bind_read, unfold found, rule yields_if)
      (rule yields_bind_with[OF yields_marks(4)], rule yields_return, erule of_id_default, rule found, rule yields_return, rule found)
next
  case CreateCompleted
  show ?thesis unfolding apply_answer_def Let_def CreateCompleted CreatePaymentStatus.case p by (rule yields_completed)
next
  case CreateFailed
  show ?thesis
    unfolding apply_answer_def Let_def CreateFailed CreatePaymentStatus.case p
    by (rule yields_bind, rule yields_bind_with[OF yields_marks(2)], rule yields_return, rule of_id_default) (auto simp: p)
qed

subsection \<open>The request\<close>

definition owned :: "uuid \<Rightarrow> InitiatePaymentInput \<Rightarrow> decimal_lib \<Rightarrow> uuid \<times> uuid \<times> string \<times> uuid \<times> kzt \<Rightarrow> bool" where
  "owned kg input D = (\<lambda>(k, i, key, v, a). k = kg \<and> key = ip_idempotencyKey input \<and> v = ip_invoiceId input \<and> a = fromKzt_number D (ip_amount input))"

lemma create_or_known_inv:
  assumes "create_or_known E kg p db = Inr (c, db')"
  shows "(\<exists>w. c = Inl w \<and> db' = db \<and> payments_findByIdempotencyKey kg (pay_idempotencyKey p) db = Some w)
    \<or> (c = Inr p \<and> db' = db\<lparr>db_payments := db_payments db @ [payment_row (env_decimal E) p]\<rparr>
       \<and> \<not> list_ex (\<lambda>r. pay_idempotencyKey r = pay_idempotencyKey p) (db_payments db))"
  using assms
  by (auto simp: create_or_known_def catchM_def op_inv payments_create_def throwM_def returnM_def readM_def bindM_def and_then_def
      split: sum.splits option.splits if_splits billing_error.splits prod.splits)


text \<open>A request that has returned, backwards: a known key, or one new payment.\<close>

lemma initiate_new_inv:
  assumes run: "initiate_new E kg input ans db = Inr (r, db')"
  shows "(\<exists>s. key_view s = key_view db \<and> key_view db' = key_view s
        \<and> (\<exists>w. payments_findByIdempotencyKey kg (ip_idempotencyKey input) s = Some w \<and> r = readRedirectFromPayload w))
    \<or> (\<exists>v i. invoices_findById kg (ip_invoiceId input) db = Some v \<and> unpaid_status (inv_status v)
        \<and> ip_provider input \<in> set (env_enabledProviders E)
        \<and> 0 < fromKzt_number (env_decimal E) (ip_amount input)
        \<and> fromKzt_number (env_decimal E) (ip_amount input) \<le> kzt_sub (env_decimal E) (inv_amountAfterDiscount v)
             (fromKzt_number (env_decimal E) (invoices_getPaidSumForInvoice (env_decimal E) kg (ip_invoiceId input) db))
        \<and> (isPrepayment (inv_invoiceType v) \<longrightarrow> ip_paymentMode input = FullPayment)
        \<and> key_view db' = key_view db @ [(kg, i, ip_idempotencyKey input, ip_invoiceId input,
             kzt_column (env_decimal E) (fromKzt_number (env_decimal E) (ip_amount input)))]
        \<and> (\<forall>x\<in>set (key_view db). fst (snd (snd x)) \<noteq> ip_idempotencyKey input)
        \<and> pay_id (ir_payment r) = i)"
proof -
  let ?D = "env_decimal E"
  let ?a = "fromKzt_number ?D (ip_amount input)"
  let ?recall = "\<lambda>v. case ip_payerUserId input of
              Some payer \<Rightarrow> whenM (ip_provider input = KaspiPay \<and> payer \<noteq> []) (recallInFlightKaspiForPayer E kg (inv_id v) payer)
            | None \<Rightarrow> returnM ()"
  have kr: "keeps key_view (?recall v)" for v by (intro frame keeps_key_recall)
  let ?rest = "\<lambda>c now. (case c of
       Inl winner \<Rightarrow> returnM (readRedirectFromPayload winner)
     | Inr payment \<Rightarrow>
         (case ans of
            Inl reason \<Rightarrow>
              bindM (payments_markFailedConditional kg (pay_id payment) reason None now) (\<lambda>_.
              throwM (PaymentProviderError (ip_provider input) reason))
          | Inr r \<Rightarrow>
              bindM (apply_answer E kg payment r) (\<lambda>p.
              returnM \<lparr>ir_payment = p, ir_redirectUrl = cp_redirectUrl r, ir_deeplink = cp_deeplink r\<rparr>)))"
  have "\<exists>v s0 u draft c s2. invoices_findById kg (ip_invoiceId input) db = Some v \<and> unpaid_status (inv_status v)
      \<and> ip_provider input \<in> set (env_enabledProviders E) \<and> 0 < ?a
      \<and> ?a \<le> kzt_sub ?D (inv_amountAfterDiscount v) (fromKzt_number ?D (invoices_getPaidSumForInvoice ?D kg (inv_id v) db))
      \<and> (isPrepayment (inv_invoiceType v) \<longrightarrow> ip_paymentMode input = FullPayment)
      \<and> ?recall v db = Inr (u, s0)
      \<and> payment_fromState (initiated_payment (env_uuid E (db_uuidDraws s0)) kg v ?a input (env_clock E (db_clockReads s0))) = Inr draft
      \<and> create_or_known E kg draft (s0\<lparr>db_clockReads := Suc (db_clockReads s0), db_uuidDraws := Suc (db_uuidDraws s0)\<rparr>) = Inr (c, s2)
      \<and> ?rest c (env_clock E (db_clockReads s0)) s2 = Inr (r, db')"
  proof -
    obtain v where v: "invoices_findById kg (ip_invoiceId input) db = Some v" "unpaid_status (inv_status v)"
        "ip_provider input \<in> set (env_enabledProviders E)"
      and tail: "bindM (amount_guard E v (ip_paymentMode input) (kzt_sub ?D (inv_amountAfterDiscount v)
          (fromKzt_number ?D (invoices_getPaidSumForInvoice ?D kg (inv_id v) db))) ?a) (\<lambda>_.
        bindM (?recall v) (\<lambda>_. bindM (nowM E) (\<lambda>now. bindM (randomUUID E) (\<lambda>i.
        bindM (liftE PaymentErr (payment_fromState (initiated_payment i kg v ?a input now))) (\<lambda>draft.
        bindM (create_or_known E kg draft) (\<lambda>c. ?rest c now)))))) db = Inr (r, db')"
      using run unfolding initiate_new_def Let_def invoice_service_get_def
      by (auto simp: op_inv(1) op_inv_rules(2-4,6) split: if_splits dest!: forInitiation_inv payable_inv)
    let ?create = "bindM (nowM E) (\<lambda>now. bindM (randomUUID E) (\<lambda>i.
        bindM (liftE PaymentErr (payment_fromState (initiated_payment i kg v ?a input now))) (\<lambda>draft.
        bindM (create_or_known E kg draft) (\<lambda>c. ?rest c now))))"
    obtain w where guard: "amount_guard E v (ip_paymentMode input) (kzt_sub ?D (inv_amountAfterDiscount v)
          (fromKzt_number ?D (invoices_getPaidSumForInvoice ?D kg (inv_id v) db))) ?a db = Inr (w, db)"
      and more: "bindM (?recall v) (\<lambda>_. ?create) db = Inr (r, db')"
      using tail amount_guard_inv by (subst (asm) op_inv_rules(1)) blast
    note g = amount_guard_inv[OF guard]
    obtain u s0 where rc: "?recall v db = Inr (u, s0)" and tail: "?create s0 = Inr (r, db')"
      using more by (subst (asm) op_inv_rules(1)) blast
    obtain draft c s2 where "payment_fromState (initiated_payment (env_uuid E (db_uuidDraws s0)) kg v ?a input (env_clock E (db_clockReads s0))) = Inr draft"
      "create_or_known E kg draft (s0\<lparr>db_clockReads := Suc (db_clockReads s0), db_uuidDraws := Suc (db_uuidDraws s0)\<rparr>) = Inr (c, s2)"
      "?rest c (env_clock E (db_clockReads s0)) s2 = Inr (r, db')"
      using tail by (auto simp: op_inv(1) op_inv_state(1,2) op_inv_rules(7))
    with v g rc show ?thesis by blast
  qed
  then obtain v s0 u draft c s2 where v: "invoices_findById kg (ip_invoiceId input) db = Some v" "unpaid_status (inv_status v)"
      "ip_provider input \<in> set (env_enabledProviders E)"
    and amt: "0 < ?a" "?a \<le> kzt_sub ?D (inv_amountAfterDiscount v) (fromKzt_number ?D (invoices_getPaidSumForInvoice ?D kg (inv_id v) db))"
      "isPrepayment (inv_invoiceType v) \<longrightarrow> ip_paymentMode input = FullPayment"
    and rc: "?recall v db = Inr (u, s0)"
    and d: "payment_fromState (initiated_payment (env_uuid E (db_uuidDraws s0)) kg v ?a input (env_clock E (db_clockReads s0))) = Inr draft"
    and c: "create_or_known E kg draft (s0\<lparr>db_clockReads := Suc (db_clockReads s0), db_uuidDraws := Suc (db_uuidDraws s0)\<rparr>) = Inr (c, s2)"
    and rest: "?rest c (env_clock E (db_clockReads s0)) s2 = Inr (r, db')"
    by blast
  define s1 where "s1 = s0\<lparr>db_clockReads := Suc (db_clockReads s0), db_uuidDraws := Suc (db_uuidDraws s0)\<rparr>"
  define i where "i = env_uuid E (db_uuidDraws s0)"
  define now where "now = env_clock E (db_clockReads s0)"
  note d = d[folded i_def now_def] and c = c[folded s1_def] and rest = rest[folded now_def]
  have "key_view s0 = key_view db" using kr rc unfolding keeps_def by blast
  then have s1: "key_view s1 = key_view db" by (simp add: s1_def)
  have idv: "inv_id v = ip_invoiceId input" using v(1) by (auto simp: invoices_findById_def find_Some_iff)
  have dr: "draft = initiated_payment i kg v ?a input now" using d by (auto simp: payment_fromState_def split: if_splits)
  have key: "pay_idempotencyKey draft = ip_idempotencyKey input" by (simp add: dr initiated_payment_def)
  show ?thesis
  proof (cases c)
    case (Inl w)
    with create_or_known_inv[OF c] rest s1 key show ?thesis by (intro disjI1 exI[of _ s1]) (auto simp: op_inv)
  next
    case (Inr p)
    with create_or_known_inv[OF c] have p: "p = draft" and s2: "s2 = s1\<lparr>db_payments := db_payments s1 @ [payment_row ?D draft]\<rparr>"
      and fresh: "\<not> list_ex (\<lambda>r. pay_idempotencyKey r = pay_idempotencyKey draft) (db_payments s1)" by auto
    obtain a where a: "ans = Inr a" using rest Inr by (cases ans) (auto simp: op_inv)
    with rest Inr obtain q where q: "apply_answer E kg p a s2 = Inr (q, db')" "ir_payment r = q" by (auto simp: op_inv)
    have "key_view db' = key_view s2" using keeps_key_answer q(1) unfolding keeps_def by blast
    also have "\<dots> = key_view s1 @ [(kg, i, ip_idempotencyKey input, ip_invoiceId input, kzt_column ?D ?a)]"
      by (simp add: s2 key_view_def payment_row_def dr initiated_payment_def idv)
    finally have kv: "key_view db' = key_view db @ [(kg, i, ip_idempotencyKey input, ip_invoiceId input, kzt_column ?D ?a)]"
      using s1 by simp
    have "pay_id p = i" by (simp add: p dr initiated_payment_def)
    then have "pay_id q = i" using yields_answer[of p i E kg a] q(1) unfolding yields_def by blast
    moreover have "\<forall>x\<in>set (key_view db). fst (snd (snd x)) \<noteq> ip_idempotencyKey input"
      using fresh key unfolding s1[symmetric] by (auto simp: key_view_def list_ex_iff)
    ultimately show ?thesis using v amt kv q(2) unfolding idv by (intro disjI2) blast
  qed
qed


subsection \<open>What a caller sees\<close>

lemma find_map_rows: "find Q (map f xs) = map_option f (find (\<lambda>x. Q (f x)) xs)"
  by (induction xs) auto

lemma find_key_view:
  "map_option (\<lambda>p. (pay_kindergartenId p, pay_id p, pay_idempotencyKey p, pay_invoiceId p, pay_amount p)) (payments_findByIdempotencyKey kg key db)
    = find (\<lambda>(k, i, ky, v, a). k = kg \<and> ky = key) (key_view db)"
  by (simp add: payments_findByIdempotencyKey_def key_view_def find_map_rows)

lemma find_append_new: "(\<And>x. x \<in> set xs \<Longrightarrow> \<not> P x) \<Longrightarrow> P y \<Longrightarrow> find P (xs @ [y]) = Some y"
  by (induction xs) auto

lemma same_key_same_id:
  assumes "key_view db' = key_view db" "payments_findByIdempotencyKey kg key db = Some p"
  shows "\<exists>q. payments_findByIdempotencyKey kg key db' = Some q \<and> pay_id q = pay_id p"
proof -
  have "map_option (\<lambda>p. (pay_kindergartenId p, pay_id p, pay_idempotencyKey p, pay_invoiceId p, pay_amount p)) (payments_findByIdempotencyKey kg key db')
    = map_option (\<lambda>p. (pay_kindergartenId p, pay_id p, pay_idempotencyKey p, pay_invoiceId p, pay_amount p)) (payments_findByIdempotencyKey kg key db)"
    unfolding find_key_view assms(1) ..
  with assms(2) show ?thesis by auto
qed

lemma known_payment_run:
  "known_payment c p db = (if pay_provider p = BccProvider
     then (case c of None \<Rightarrow> Inl BccCheckoutExpired | Some url \<Rightarrow> Inr (\<lparr>ir_payment = p, ir_redirectUrl = Some url, ir_deeplink = None\<rparr>, db))
     else Inr (readRedirectFromPayload p, db))"
  by (simp add: known_payment_def getExistingPaymentContinuation_def orThrow_def op_simps split: option.split)

lemma redirect_payment: "ir_payment (readRedirectFromPayload p) = p"
  by (simp add: readRedirectFromPayload_def)

lemma known_payment_inv: "known_payment c p db = Inr (r, db') \<Longrightarrow> ir_payment r = p \<and> db' = db"
  by (auto simp: known_payment_run redirect_payment split: if_splits option.splits)

text \<open>A fresh key: exactly one payment is added, for a positive amount that is at most the remainder.\<close>

lemma initiate_amount:
  assumes fresh: "payments_findByIdempotencyKey kg (ip_idempotencyKey input) db = None"
    and run: "initiate E kg input cont ans db = Inr (r, db')"
  shows "\<exists>v i. invoices_findById kg (ip_invoiceId input) db = Some v \<and> unpaid_status (inv_status v)
        \<and> ip_provider input \<in> set (env_enabledProviders E)
        \<and> 0 < fromKzt_number (env_decimal E) (ip_amount input)
        \<and> fromKzt_number (env_decimal E) (ip_amount input) \<le> kzt_sub (env_decimal E) (inv_amountAfterDiscount v)
             (fromKzt_number (env_decimal E) (invoices_getPaidSumForInvoice (env_decimal E) kg (ip_invoiceId input) db))
        \<and> (isPrepayment (inv_invoiceType v) \<longrightarrow> ip_paymentMode input = FullPayment)
        \<and> key_view db' = key_view db @ [(kg, i, ip_idempotencyKey input, ip_invoiceId input,
             kzt_column (env_decimal E) (fromKzt_number (env_decimal E) (ip_amount input)))]
        \<and> pay_id (ir_payment r) = i"
proof -
  have new: "initiate_new E kg input ans db = Inr (r, db')" using run fresh by (simp add: initiate_def op_inv)
  have "payments_findByIdempotencyKey kg (ip_idempotencyKey input) s = None" if "key_view s = key_view db" for s
    using find_key_view[of kg "ip_idempotencyKey input" s] find_key_view[of kg "ip_idempotencyKey input" db] fresh that by auto
  then show ?thesis using initiate_new_inv[OF new] by (metis option.distinct(1))
qed

text \<open>
  The same request again: nothing happens, and the same payment is answered, unless it is a BCC payment
  whose checkout is gone.
\<close>

lemma initiate_twice:
  assumes run: "initiate E kg input cont ans db = Inr (r, db')"
  shows "\<exists>p. payments_findByIdempotencyKey kg (ip_idempotencyKey input) db' = Some p \<and> pay_id p = pay_id (ir_payment r)
    \<and> initiate E kg input checkout ans2 db' = (if pay_provider p = BccProvider
        then (case checkout of None \<Rightarrow> Inl BccCheckoutExpired
          | Some url \<Rightarrow> Inr (\<lparr>ir_payment = p, ir_redirectUrl = Some url, ir_deeplink = None\<rparr>, db'))
        else Inr (readRedirectFromPayload p, db'))"
proof -
  have "\<exists>q. payments_findByIdempotencyKey kg (ip_idempotencyKey input) db' = Some q \<and> pay_id q = pay_id (ir_payment r)"
  proof (cases "payments_findByIdempotencyKey kg (ip_idempotencyKey input) db")
    case (Some p)
    then show ?thesis using run by (auto simp: initiate_def op_inv dest!: known_payment_inv)
  next
    case None
    then have new: "initiate_new E kg input ans db = Inr (r, db')" using run by (simp add: initiate_def op_inv)
    from initiate_new_inv[OF new] show ?thesis
    proof (elim disjE exE conjE)
      fix s w assume "key_view db' = key_view s" "payments_findByIdempotencyKey kg (ip_idempotencyKey input) s = Some w"
        "r = readRedirectFromPayload w"
      then show ?thesis using same_key_same_id[of db' s] by (auto simp: redirect_payment)
    next
      fix v i assume kv: "key_view db' = key_view db @ [(kg, i, ip_idempotencyKey input, ip_invoiceId input,
             kzt_column (env_decimal E) (fromKzt_number (env_decimal E) (ip_amount input)))]"
        and none: "\<forall>x\<in>set (key_view db). fst (snd (snd x)) \<noteq> ip_idempotencyKey input" and i: "pay_id (ir_payment r) = i"
      have "find (\<lambda>(k, j, ky, u, a). k = kg \<and> ky = ip_idempotencyKey input) (key_view db') = Some (kg, i, ip_idempotencyKey input,
          ip_invoiceId input, kzt_column (env_decimal E) (fromKzt_number (env_decimal E) (ip_amount input)))"
        unfolding kv using none by (intro find_append_new) auto
      then show ?thesis using find_key_view[of kg "ip_idempotencyKey input" db'] i by auto
    qed
  qed
  then show ?thesis by (auto simp: initiate_def op_simps known_payment_run)
qed

end
