(* ===== verification/Pro_Rata_Bounds.thy ===== *)
theory Pro_Rata_Bounds
  imports Pro_Rata_Refund Op_Rules
begin

text \<open>
  The pro-rata refund of an archived child asks for a positive part of the invoice, at most all of it,
  against a completed payment of that invoice, and a second job for the same archive asks for nothing
  (\<open>src/modules/billing/pro-rata-refund.processor.ts\<close>).
\<close>

context decimal_arith
begin

lemma pro_rata_amount:
  assumes a: "cents a" "0 \<le> a" and r: "0 \<le> r" "r \<le> t" and t: "0 < t" "t \<le> 10 ^ 12"
  shows "\<exists>q. kzt_div D (kzt_mul D a (of_int r)) (of_int t) = Inr q \<and> 0 \<le> q \<and> q \<le> a"
proof -
  obtain k :: int where k: "a = of_int k / 100" "\<bar>k\<bar> \<le> 10 ^ 15" using a by (auto simp: cents_def)
  have "\<bar>k * r\<bar> \<le> 10 ^ 15 * 10 ^ 12" using k(2) r t unfolding abs_mult by (intro mult_mono) simp_all
  then have "\<bar>k * r\<bar> < 10 ^ 30" by simp
  then have "d_times D a (of_int r) = a * of_int r"
    using digits_rep_frac[of "k * r" 2] by (intro exact) (simp add: k(1))
  moreover have "d_of_number D (of_int r) = of_int r" "d_of_number D (of_int t) = of_int t"
    using r t number_int(1)[of r] number_int(1)[of t] by simp_all
  moreover have "0 \<le> a * of_int r / of_int t" "a * of_int r / of_int t \<le> a"
    using a r t by (simp_all add: divide_le_eq mult_left_mono)
  then have "0 \<le> d_div D (a * of_int r) (of_int t)" "d_div D (a * of_int r) (of_int t) \<le> a"
    using t nearest_ge[OF near(4) digits_rep_0] nearest_le[OF near(4) cents_rep[OF a(1)]] by auto
  ultimately show ?thesis using t by (simp add: kzt_div_def kzt_mul_def Let_def)
qed

end

lemma billable_days_bounds:
  assumes "computeBillableDays tz kg s e t db = Some d"
  shows "0 \<le> bd_refundableDays d \<and> bd_refundableDays d \<le> bd_totalBillableDays d"
proof -
  obtain x y where "d = \<lparr>bd_totalBillableDays = max 0 x, bd_refundableDays = max 0 (max 0 x - max 0 y)\<rparr>"
    using assms unfolding computeBillableDays_def Let_def
    by (cases "startOfDayInTimezone tz s"; cases "startOfDayInTimezone tz e"; cases "startOfDayInTimezone tz t")
      (simp_all only: prod.case option.case option.simps, blast)
  then show ?thesis by simp
qed

lemma current_invoice:
  assumes "invoices_findCurrentInvoiceForChildAt kg c t db = Some v"
  shows "v \<in> set (db_invoices db) \<and> inv_kindergartenId v = kg \<and> inv_childId v = c \<and> unpaid_status (inv_status v)
    \<and> inv_periodStart v \<le> toDateColumn t \<and> toDateColumn t \<le> inv_periodEnd v"
proof -
  let ?rows = "sort_key (\<lambda>r. - inv_periodStart r)
        (filter (\<lambda>r. inv_kindergartenId r = kg \<and> inv_childId r = c
           \<and> inv_periodStart r \<le> toDateColumn t \<and> inv_periodEnd r \<ge> toDateColumn t
           \<and> unpaid_status (inv_status r)) (db_invoices db))"
  obtain rest where "?rows = v # rest"
    using assms by (auto simp: invoices_findCurrentInvoiceForChildAt_def split: list.splits)
  then have "v \<in> set ?rows" by (simp only: list.set_intros)
  then show ?thesis by simp
qed

text \<open>What a job that has created a refund found.\<close>

lemma refunds_create_inv:
  "refunds_create D r db = Inr (x, db') \<Longrightarrow>
     db' = db\<lparr>db_refunds := db_refunds db @ [r\<lparr>ref_amount := kzt_column D (ref_amount r)\<rparr>]\<rparr> \<and> 0 < kzt_column D (ref_amount r)"
  by (auto simp: refunds_create_def insertable_def Let_def split: option.splits if_splits)

lemma create_pro_rata_inv:
  assumes "create_pro_rata E kg v amount db = Inr (ProRataCreated rid n vid, db')"
  shows "\<exists>p now. p \<in> set (db_payments db) \<and> pay_kindergartenId p = kg \<and> pay_invoiceId p = inv_id v \<and> pay_status p = PayCompleted
    \<and> vid = inv_id v \<and> now = env_clock E (db_clockReads db)
    \<and> db_refunds db' = db_refunds db @ [(pro_rata_refund rid kg p v amount now)\<lparr>ref_amount := kzt_column (env_decimal E) amount\<rparr>]
    \<and> 0 < kzt_column (env_decimal E) amount \<and> db_invoices db' = db_invoices db \<and> db_children db' = db_children db"
proof -
  have "p \<in> set (payments_findByInvoiceId kg (inv_id v) db) \<Longrightarrow> p \<in> set (db_payments db) \<and> pay_kindergartenId p = kg \<and> pay_invoiceId p = inv_id v" for p
    by (auto simp: payments_findByInvoiceId_def)
  with assms show ?thesis
    by (force simp: create_pro_rata_def op_inv pro_rata_refund_def split: option.splits dest!: refunds_create_inv find_SomeD)
qed

lemma reads_cong:
  assumes "db_invoices db' = db_invoices db" "db_children db' = db_children db" "db_holidays db' = db_holidays db"
  shows "invoices_findCurrentInvoiceForChildAt kg c t db' = invoices_findCurrentInvoiceForChildAt kg c t db"
    and "computeBillableDays z kg s e t db' = computeBillableDays z kg s e t db"
    and "children_findById kg c db' = children_findById kg c db"
  unfolding invoices_findCurrentInvoiceForChildAt_def computeBillableDays_def holidays_countNonBillableInRange_def
    children_findById_def assms by (rule refl)+

lemma computeAndCreate_inv:
  assumes "computeAndCreate E kg c t db = Inr (ProRataCreated rid n vid, db')"
  shows "\<exists>v d q p now row. invoices_findCurrentInvoiceForChildAt kg c t db = Some v
    \<and> computeBillableDays (env_zone E) kg (inv_periodStart v) (inv_periodEnd v) t db = Some d \<and> 0 < bd_totalBillableDays d
    \<and> kzt_div (env_decimal E) (kzt_mul (env_decimal E) (inv_amountAfterDiscount v) (of_int (bd_refundableDays d)))
         (of_int (bd_totalBillableDays d)) = Inr q
    \<and> p \<in> set (db_payments db) \<and> pay_kindergartenId p = kg \<and> pay_invoiceId p = vid \<and> pay_status p = PayCompleted \<and> vid = inv_id v
    \<and> db_refunds db' = db_refunds db @ [row] \<and> row = (pro_rata_refund rid kg p v q now)\<lparr>ref_amount := kzt_column (env_decimal E) q\<rparr>
    \<and> now = env_clock E (db_clockReads db) \<and> 0 < ref_amount row
    \<and> db_invoices db' = db_invoices db \<and> db_children db' = db_children db
    \<and> (\<exists>x. children_findById kg c db = Some x \<and> ch_status x = ChildArchived)"
proof -
  define db1 where "db1 = db\<lparr>db_locks := db_locks db @ [''billing:pro-rata:'' @ kg @ '':'' @ c]\<rparr>"
  have tables: "db_payments db1 = db_payments db" "db_refunds db1 = db_refunds db" "db_invoices db1 = db_invoices db"
    "db_children db1 = db_children db" "db_clockReads db1 = db_clockReads db" "db_holidays db1 = db_holidays db"
    by (simp_all add: db1_def)
  note same = reads_cong[OF tables(3,4,6)] tables
  have lock: "refunds_acquireProRataAdvisoryLock kg c db = Inr ((), db1)"
    by (simp add: refunds_acquireProRataAdvisoryLock_def op_simps db1_def)
  have tail: "(if (case children_findById kg c db1 of None \<Rightarrow> True | Some x \<Rightarrow> ch_status x \<noteq> ChildArchived)
     then
       bindM (nowM E) (\<lambda>now.
       if max 0 (now - t) < PRO_RATA_COMMIT_GRACE_MS then throwM (ChildNotYetArchived c)
       else returnM (ProRataSkipped SkipChildNotArchived))
     else
       bindM (readM (refunds_findPendingProRataForChildSinceArchive kg c t)) (\<lambda>existing.
       if existing \<noteq> [] then returnM (ProRataSkipped SkipRefundAlreadyExists)
       else
         bindM (readM (invoices_findCurrentInvoiceForChildAt kg c t)) (\<lambda>found.
         case found of
           None \<Rightarrow> returnM (ProRataSkipped SkipNoCurrentInvoice)
         | Some invoice \<Rightarrow> refund_invoice E kg t invoice))) db1 = Inr (ProRataCreated rid n vid, db')"
    using assms unfolding computeAndCreate_def by (simp add: op_simps lock)
  obtain v where v: "invoices_findCurrentInvoiceForChildAt kg c t db = Some v"
    and ri: "refund_invoice E kg t v db1 = Inr (ProRataCreated rid n vid, db')"
    and x: "\<exists>x. children_findById kg c db = Some x \<and> ch_status x = ChildArchived"
    using tail same(1,3) by (auto simp: op_inv split: if_splits option.splits)
  obtain d q where d: "computeBillableDays (env_zone E) kg (inv_periodStart v) (inv_periodEnd v) t db = Some d" "0 < bd_totalBillableDays d"
    and q: "kzt_div (env_decimal E) (kzt_mul (env_decimal E) (inv_amountAfterDiscount v) (of_int (bd_refundableDays d)))
         (of_int (bd_totalBillableDays d)) = Inr q"
    and r: "create_pro_rata E kg v q db1 = Inr (ProRataCreated rid n vid, db')"
    using ri unfolding refund_invoice_def by (auto simp: op_inv same(2) not_le split: if_splits)
  from create_pro_rata_inv[OF r] obtain p now where p: "p \<in> set (db_payments db)" "pay_kindergartenId p = kg" "pay_invoiceId p = inv_id v"
    "pay_status p = PayCompleted" "vid = inv_id v" "now = env_clock E (db_clockReads db)"
    "db_refunds db' = db_refunds db @ [(pro_rata_refund rid kg p v q now)\<lparr>ref_amount := kzt_column (env_decimal E) q\<rparr>]"
    "0 < kzt_column (env_decimal E) q" "db_invoices db' = db_invoices db" "db_children db' = db_children db" unfolding same by auto
  then show ?thesis using v d q x
    by (intro exI[of _ v] exI[of _ d] exI[of _ q] exI[of _ p] exI[of _ now]
        exI[of _ "(pro_rata_refund rid kg p v q now)\<lparr>ref_amount := kzt_column (env_decimal E) q\<rparr>"]) simp
qed

lemma pro_rata_created:
  assumes D: "decimal_ok (env_decimal E)" and run: "computeAndCreate E kg c t db = Inr (ProRataCreated rid n vid, db')"
    and money: "\<forall>v\<in>set (db_invoices db). cents (inv_amountAfterDiscount v) \<and> 0 \<le> inv_amountAfterDiscount v"
    and days: "\<forall>v\<in>set (db_invoices db). \<forall>d. computeBillableDays (env_zone E) kg (inv_periodStart v) (inv_periodEnd v) t db = Some d
      \<longrightarrow> bd_totalBillableDays d \<le> 10 ^ 12"
  shows "\<exists>v p row. v \<in> set (db_invoices db) \<and> inv_id v = vid \<and> inv_childId v = c \<and> p \<in> set (db_payments db)
    \<and> pay_id p = ref_paymentId row \<and> pay_invoiceId p = vid \<and> pay_status p = PayCompleted
    \<and> db_refunds db' = db_refunds db @ [row] \<and> ref_id row = rid \<and> ref_status row = RefPending
    \<and> 0 < ref_amount row \<and> ref_amount row \<le> inv_amountAfterDiscount v"
proof -
  from computeAndCreate_inv[OF run] obtain v d q p now row where
    v: "invoices_findCurrentInvoiceForChildAt kg c t db = Some v"
    and d: "computeBillableDays (env_zone E) kg (inv_periodStart v) (inv_periodEnd v) t db = Some d" "0 < bd_totalBillableDays d"
    and q: "kzt_div (env_decimal E) (kzt_mul (env_decimal E) (inv_amountAfterDiscount v) (of_int (bd_refundableDays d)))
         (of_int (bd_totalBillableDays d)) = Inr q"
    and p: "p \<in> set (db_payments db)" "pay_invoiceId p = vid" "pay_status p = PayCompleted" "vid = inv_id v"
    and row: "db_refunds db' = db_refunds db @ [row]"
      "row = (pro_rata_refund rid kg p v q now)\<lparr>ref_amount := kzt_column (env_decimal E) q\<rparr>" "0 < ref_amount row"
    by blast
  note ar = decimal_arith.intro[OF D]
  have vm: "v \<in> set (db_invoices db)" "inv_childId v = c" using current_invoice[OF v] by auto
  with money have a: "cents (inv_amountAfterDiscount v)" "0 \<le> inv_amountAfterDiscount v" by auto
  have "0 \<le> q \<and> q \<le> inv_amountAfterDiscount v"
    using decimal_arith.pro_rata_amount[OF ar a, of "bd_refundableDays d" "bd_totalBillableDays d"] billable_days_bounds[OF d(1)] d(2)
      days vm(1) d(1) q by auto
  then have "kzt_column (env_decimal E) q \<le> kzt_column (env_decimal E) (inv_amountAfterDiscount v)"
    using decimal_arith.toDP_mono[OF ar] by (simp add: kzt_column_def)
  also have "\<dots> = inv_amountAfterDiscount v" using decimal_arith.cents_toDP[OF ar a(1)] by (simp add: kzt_column_def)
  finally have "ref_amount row \<le> inv_amountAfterDiscount v" using row(2) by simp
  then show ?thesis
    using vm p row by (intro exI[of _ v] exI[of _ p] exI[of _ row]) (auto simp: pro_rata_refund_def)
qed

text \<open>A second job for the same archive.\<close>

lemma pro_rata_twice:
  assumes run: "computeAndCreate E kg c t db = Inr (ProRataCreated rid n vid, db')"
    and clock: "t \<le> env_clock E (db_clockReads db)"
  shows "\<exists>db2. computeAndCreate E kg c t db' = Inr (ProRataSkipped SkipRefundAlreadyExists, db2) \<and> db_refunds db2 = db_refunds db'"
proof -
  from computeAndCreate_inv[OF run] obtain v p q now row x where
    v: "invoices_findCurrentInvoiceForChildAt kg c t db = Some v" and vid: "vid = inv_id v"
    and row: "db_refunds db' = db_refunds db @ [row]"
      "row = (pro_rata_refund rid kg p v q now)\<lparr>ref_amount := kzt_column (env_decimal E) q\<rparr>" "now = env_clock E (db_clockReads db)"
    and same: "db_invoices db' = db_invoices db" "db_children db' = db_children db"
    and x: "children_findById kg c db = Some x" "ch_status x = ChildArchived" by blast
  let ?db1 = "db'\<lparr>db_locks := db_locks db' @ [''billing:pro-rata:'' @ kg @ '':'' @ c]\<rparr>"
  have "row \<in> set (refunds_findPendingProRataForChildSinceArchive kg c t ?db1)"
    using current_invoice[OF v] row clock same
    by (force simp: refunds_findPendingProRataForChildSinceArchive_def pro_rata_refund_def list_ex_iff)
  then have "refunds_findPendingProRataForChildSinceArchive kg c t ?db1 \<noteq> []" by auto
  then have "computeAndCreate E kg c t db' = Inr (ProRataSkipped SkipRefundAlreadyExists, ?db1)"
    using x same unfolding computeAndCreate_def refunds_acquireProRataAdvisoryLock_def
    by (simp add: op_simps children_findById_def)
  then show ?thesis by auto
qed

end
