(* ===== verification/Samples.thy ===== *)
theory Samples
  imports Bookkeeping
begin

text \<open>
  A small kindergarten to run the operations on: one child, one account, one invoice and one payment,
  at noon UTC on 15 January 2025 in a zone five hours ahead of UTC.
\<close>

definition noon :: instant where "noon = 1736942400000"

definition january :: instant where "january = 1735689600000"

definition E0 :: billing_env where
  "E0 = \<lparr>env_decimal = decimal30, env_clock = (\<lambda>n. noon + int n), env_uuid = (\<lambda>n. ''fresh-'' @ nat_string n),
     env_zone = (\<lambda>t. 18000000), env_sessionZone = (\<lambda>t. 0), env_archivedMeanwhile = (\<lambda>kg c. False),
     env_admins = (\<lambda>kg. [''admin'']), env_enabledProviders = [KaspiPay, HalykEpay], env_bccActive = (\<lambda>kg. False)\<rparr>"

definition no_rows :: billing_db where
  "no_rows = \<lparr>db_invoices = [], db_lineItems = [], db_payments = [], db_refunds = [], db_accounts = [], db_discounts = [],
     db_applications = [], db_plans = [], db_assignments = [], db_holidays = [], db_children = [], db_guardians = [],
     db_statusHistory = [], db_groupHistory = [], db_kindergartens = [(''kg'', False)], db_groups = [], db_users = [],
     db_outbox = [], db_jobs = [], db_locks = [], db_clockReads = 0, db_uuidDraws = 0\<rparr>"

definition sample_invoice :: "InvoiceStatus \<Rightarrow> kzt \<Rightarrow> InvoiceState" where
  "sample_invoice st due = \<lparr>inv_id = ''inv'', inv_kindergartenId = ''kg'', inv_childId = ''child'', inv_paymentAccountId = ''acc'',
     inv_tariffPlanId = None, inv_invoiceType = Monthly, inv_periodStart = 1735689600000, inv_periodEnd = 1738281600000,
     inv_amountDue = due, inv_discountPct = None, inv_discountReason = None, inv_amountAfterDiscount = due, inv_status = st,
     inv_dueDate = 1736467200000, inv_description = None, inv_proratedForDays = None, inv_createdAt = 0, inv_updatedAt = 0\<rparr>"

definition sample_payment :: "PaymentStatus \<Rightarrow> kzt \<Rightarrow> PaymentState" where
  "sample_payment st amount = \<lparr>pay_id = ''pay'', pay_kindergartenId = ''kg'', pay_invoiceId = ''inv'', pay_childId = ''child'',
     pay_payerUserId = Some ''payer'', pay_amount = amount, pay_provider = HalykEpay, pay_providerTxnId = None,
     pay_idempotencyKey = ''key'', pay_status = st, pay_providerPayload = None, pay_paidAt = None, pay_refundId = None,
     pay_reconciliationAttempts = 0, pay_lastReconciledAt = None, pay_nextReconciliationAt = None,
     pay_manualReviewRequiredAt = None, pay_refundRequired = False, pay_refundReason = None, pay_duplicateOfPaymentId = None,
     pay_createdAt = 0, pay_updatedAt = 0\<rparr>"

definition sample_refund :: "RefundStatus \<Rightarrow> kzt \<Rightarrow> RefundState" where
  "sample_refund st amount = \<lparr>ref_id = ''ref'', ref_kindergartenId = ''kg'', ref_paymentId = ''pay'', ref_invoiceId = Some ''inv'',
     ref_amount = amount, ref_reason = ''overpaid'', ref_status = st, ref_processedBy = Some ''admin'', ref_providerRef = None,
     ref_createdAt = 0, ref_updatedAt = 0\<rparr>"

definition sample_account :: "kzt \<Rightarrow> PaymentAccountState" where
  "sample_account b = \<lparr>acc_id = ''acc'', acc_kindergartenId = ''kg'', acc_childId = ''child'', acc_balance = b,
     acc_createdAt = 0, acc_updatedAt = 0\<rparr>"

definition sample_child :: "ChildStatus \<Rightarrow> ChildState" where
  "sample_child st = \<lparr>ch_id = ''child'', ch_kindergartenId = ''kg'', ch_iin = None, ch_fullName = ''Aliya'',
     ch_dateOfBirth = 1577836800000, ch_gender = None, ch_photoUrl = None, ch_status = st, ch_currentGroupId = None,
     ch_enrollmentDate = (if st = CardCreated then None else Some 1725148800000),
     ch_archivedAt = (if st = ChildArchived then Some noon else None),
     ch_archiveReason = (if st = ChildArchived then Some ''moved away'' else None),
     ch_medicalNotes = None, ch_allergyNotes = None, ch_createdAt = 0, ch_updatedAt = 0\<rparr>"

definition sample_plan :: "kzt \<Rightarrow> TariffPlanState" where
  "sample_plan amount = \<lparr>tp_id = ''plan'', tp_kindergartenId = ''kg'', tp_name = ''Full day'', tp_description = [],
     tp_tariffType = TariffMonthly, tp_amount = amount, tp_currency = ''KZT'', tp_appliesTo = AppliesAllChildren,
     tp_groupId = None, tp_ageMinMonths = None, tp_ageMaxMonths = None, tp_isActive = True, tp_validFrom = 1704067200000,
     tp_validUntil = None, tp_discountRules = \<lparr>sibling_discount_pct = None, prepay_3m_pct = None, prepay_6m_pct = None,
     prepay_12m_pct = None, prepay_24m_pct = None, benefit_category = None\<rparr>, tp_createdAt = 0, tp_updatedAt = 0\<rparr>"

definition sample_assignment :: "uuid \<Rightarrow> instant \<Rightarrow> instant option \<Rightarrow> TariffAssignmentState" where
  "sample_assignment i from until = \<lparr>ta_id = i, ta_kindergartenId = ''kg'', ta_childId = ''child'', ta_tariffPlanId = ''plan'',
     ta_customAmount = None, ta_customReason = None, ta_validFrom = from, ta_validUntil = until, ta_assignedBy = ''admin'',
     ta_createdAt = 0, ta_updatedAt = 0\<rparr>"

definition sample_discount :: "kzt \<Rightarrow> int option \<Rightarrow> int \<Rightarrow> CustomDiscountState" where
  "sample_discount amount cap used = \<lparr>cd_id = ''disc'', cd_kindergartenId = ''kg'', cd_name = [], cd_description = None,
     cd_discountType = FixedAmount, cd_amount = amount, cd_conditions = CEmpty, cd_targetType = TargetAll, cd_targetIds = None,
     cd_validFrom = 1704067200000, cd_validUntil = None, cd_maxUsesPerChild = None, cd_totalMaxUses = cap, cd_usedCount = used,
     cd_priority = 0, cd_stackable = False, cd_notifyOnActivation = False, cd_notificationTitle = None,
     cd_notificationBody = None, cd_status = CdActive, cd_createdBy = None, cd_createdAt = 0, cd_updatedAt = 0\<rparr>"

text \<open>Where the operations check that their arguments are UUIDs.\<close>

definition kindergarten :: uuid where "kindergarten = ''6f9619ff-8b86-4011-b42d-00cf4fc964ff''"
definition administrator :: uuid where "administrator = ''7d444840-9dc0-41d1-b245-5ffdce74fad2''"
definition aliya :: uuid where "aliya = ''0b8f6a52-1c9e-4f57-9a57-0e6d1f0c2a11''"
definition her_mother :: uuid where "her_mother = ''c56a4180-65aa-42ec-a945-5fd21dec0538''"
definition her_father :: uuid where "her_father = ''d9b2d63d-a233-4123-847a-7090d1f9d3b7''"
definition her_aunt :: uuid where "her_aunt = ''e4eaaaf2-d142-11e1-b3e4-080027620cdd''"

definition sample_guardian :: "uuid \<Rightarrow> GuardianRelation \<Rightarrow> GuardianStatus \<Rightarrow> bool \<Rightarrow> ChildGuardianState" where
  "sample_guardian i role st rights = \<lparr>gd_id = i, gd_kindergartenId = kindergarten,
     gd_childId = aliya, gd_userId = i, gd_role = role, gd_status = st, gd_hasApprovalRights = rights,
     gd_approvedBy = (if st = PendingApproval then None else Some ''admin''),
     gd_approvedAt = (if st = PendingApproval then None else Some 0),
     gd_revokedBy = (if st = GuardianRevoked then Some ''admin'' else None), gd_revokedAt = (if st = GuardianRevoked then Some 0 else None),
     gd_canPickup = True, gd_permissions = [], gd_permissionsUpdatedBy = None, gd_permissionsUpdatedAt = None,
     gd_createdAt = 0, gd_updatedAt = 0\<rparr>"

text \<open>One open payment of 40000 on an unpaid invoice of 40000.\<close>

definition billed :: "InvoiceStatus \<Rightarrow> PaymentStatus \<Rightarrow> kzt \<Rightarrow> billing_db" where
  "billed ist pst balance = no_rows\<lparr>db_invoices := [sample_invoice ist 40000], db_payments := [sample_payment pst 40000],
     db_accounts := [sample_account balance], db_children := [sample_child ChildActive]\<rparr>"

named_theorems samples \<open>the sample rows, unfolded\<close>

lemmas [samples] = noon_def no_rows_def sample_invoice_def sample_payment_def sample_refund_def sample_account_def
  sample_child_def sample_plan_def sample_assignment_def sample_discount_def sample_guardian_def billed_def
  kindergarten_def administrator_def aliya_def her_mother_def her_father_def her_aunt_def

lemma E0_decimal [simp]: "env_decimal E0 = decimal30" "decimal_ok (env_decimal E0)"
  by (simp_all add: E0_def decimal30_ok)

lemma decimals_ok [simp]: "decimal_ok decimal30" by (rule decimal30_ok)

lemma cents_whole: "\<bar>n\<bar> \<le> 10 ^ 13 \<Longrightarrow> cents (of_int n)"
  by (rule centsI[of _ "n * 100"]) (simp_all add: abs_mult)

lemma cents_samples [simp]: "cents 0" "cents 40000" "cents 80000" "cents 10000" "cents 30000"
  using cents_whole[of 0] cents_whole[of 40000] cents_whole[of 80000] cents_whole[of 10000] cents_whole[of 30000] by simp_all

text \<open>Rounding to thirty digits changes nothing on an amount of whole cents: a faster code equation.\<close>

definition on_grid :: "rat \<Rightarrow> bool" where
  "on_grid x \<longleftrightarrow> (case quotient_of x of (a, b) \<Rightarrow> 100 mod b = 0 \<and> \<bar>a * (100 div b)\<bar> < 10 ^ 30)"

lemma on_grid_rep: "on_grid x \<Longrightarrow> digits_rep 10 30 x"
proof -
  assume g: "on_grid x"
  obtain a b where q: "quotient_of x = (a, b)" by force
  have b: "b dvd 100" "\<bar>a * (100 div b)\<bar> < 10 ^ 30" using g q by (auto simp: on_grid_def mod_eq_0_iff_dvd)
  have pos: "0 < b" by (rule quotient_of_denom_pos[OF q])
  have "b * (100 div b) = 100" using b(1) by simp
  then have e: "(of_int b :: rat) * of_int (100 div b) = 100" by (metis of_int_mult of_int_numeral)
  have "x = of_int a / of_int b" by (rule quotient_of_div[OF q])
  also have "\<dots> = of_int (a * (100 div b)) / 10 ^ 2"
    using e pos by (simp add: field_simps)
  finally show ?thesis using digits_rep_frac[OF b(2), of 2] by (simp only:)
qed

lemma rnd_sig_code [code]:
  "rnd_sig b p x = (if b = 10 \<and> p = 30 \<and> on_grid x then x else if x = 0 then 0
      else (let u = of_nat b powi (lead_exp b x + 1 - int p) in of_int (half_even (x / u)) * u))"
proof (cases "b = 10 \<and> p = 30 \<and> on_grid x")
  case True
  have "nearest 10 30 x (rnd_sig 10 30 x)" by (rule rnd_sig_nearest) simp_all
  then have "rnd_sig 10 30 x = x" using nearest_exact on_grid_rep True by blast
  with True show ?thesis by simp
next
  case False
  show ?thesis unfolding if_not_P[OF False] rnd_sig_def ..
qed

text \<open>What the queries find there.\<close>

lemma billed_reads [simp]:
  "payments_findById ''kg'' ''pay'' (billed ist pst b) = Some (sample_payment pst 40000)"
  "invoices_findById ''kg'' ''inv'' (billed ist pst b) = Some (sample_invoice ist 40000)"
  "accounts_findById ''kg'' ''acc'' (billed ist pst b) = Some (sample_account b)"
  "balances (billed ist pst b) = [(''kg'', ''acc'', b)]" "keys_ok (billed ist pst b)"
  by (simp_all add: samples payments_findById_def invoices_findById_def accounts_findById_def balances_def keys_ok_def)

lemma sample_fields [simp]:
  "pay_status (sample_payment pst x) = pst" "pay_amount (sample_payment pst x) = x" "pay_invoiceId (sample_payment pst x) = ''inv''"
  "pay_id (sample_payment pst x) = ''pay''" "pay_provider (sample_payment pst x) = HalykEpay"
  "inv_status (sample_invoice ist x) = ist" "inv_amountAfterDiscount (sample_invoice ist x) = x" "inv_id (sample_invoice ist x) = ''inv''"
  "inv_paymentAccountId (sample_invoice ist x) = ''acc''" "inv_invoiceType (sample_invoice ist x) = Monthly"
  "acc_balance (sample_account b) = b" "ref_status (sample_refund rst x) = rst" "ref_amount (sample_refund rst x) = x"
  "ref_paymentId (sample_refund rst x) = ''pay''" "ref_invoiceId (sample_refund rst x) = Some ''inv''"
  by (simp_all add: samples)

lemma billed_ledger: "ledger_ok (billed ist PayInitiated 0)" "ledger_ok (billed ist PayCompleted 40000)"
  by (simp_all add: samples ledger_ok_def ledger_balance_def balances_def paid_view_def billed_view_def money_in_def money_out_def billed_to_def)

text \<open>A run that returns, and what holds of its result and of the state it leaves.\<close>

definition returns :: "billing_error + 'a \<times> billing_db \<Rightarrow> ('a \<Rightarrow> billing_db \<Rightarrow> bool) \<Rightarrow> bool" where
  "returns r P = (case r of Inl e \<Rightarrow> False | Inr (x, s) \<Rightarrow> P x s)"

lemma returnsE: "returns r P \<Longrightarrow> (\<And>x s. r = Inr (x, s) \<Longrightarrow> P x s \<Longrightarrow> Q) \<Longrightarrow> Q"
  by (auto simp: returns_def split: sum.splits)

text \<open>A provider's answer.\<close>

definition answer :: "WebhookStatus \<Rightarrow> VerifyWebhookResult" where
  "answer s = \<lparr>vw_providerPaymentId = ''txn'', vw_status = s, vw_raw = [], vw_failureReason = None\<rparr>"

lemma returns_bind: "m s = Inr (x, s') \<Longrightarrow> returns (f x s') P \<Longrightarrow> returns (bindM m f s) P"
  by (simp add: returns_def op_simps)

lemma returns_lift: "v = Inr x \<Longrightarrow> returns (f x s) P \<Longrightarrow> returns (bindM (liftE h v) f s) P"
  by (simp add: returns_def op_simps liftE_def)

lemma answer_status [simp]: "vw_status (answer s) = s"
  by (simp add: answer_def)

end
