(* ===== verification/Sample_Month.thy ===== *)
theory Sample_Month
  imports Samples Monthly_Once
begin

text \<open>
  One monthly run, evaluated: a child with a plan of 60000 a month from September 2024, no discounts,
  no holidays, and the run for January 2025. The steps of the shared builder are computed one by one.
\<close>

definition enrolled :: billing_db where
  "enrolled = no_rows\<lparr>db_children := [sample_child ChildActive], db_plans := [sample_plan 60000],
     db_assignments := [sample_assignment ''asg'' 1725148800000 None], db_accounts := [sample_account 0]\<rparr>"

definition january_args :: generate_args where
  "january_args = \<lparr>ga_assignment = sample_assignment ''asg'' 1725148800000 None, ga_tariffPlan = sample_plan 60000,
     ga_invoiceType = Monthly, ga_periodStart = january, ga_periodEnd = endOfMonth january, ga_dueDate = due_date january,
     ga_totalDays = daysBetweenInclusive january (endOfMonth january), ga_nonBillableHolidays = 0, ga_prepaymentMonths = None,
     ga_proratedBillableDays = None\<rparr>"

definition no_discounts :: custom_inputs where
  "no_discounts = \<lparr>ci_customDiscounts = [], ci_childContext = Some \<lparr>cc_birthDate = 1577836800000, cc_ageInMonths = 60,
     cc_currentGroupId = None, cc_benefitCategory = None\<rparr>,
     ci_familyContext = \<lparr>fc_siblingsInKgCount = 0, fc_isFirstInvoiceForChild = True\<rparr>, ci_reservedDiscountIds = []\<rparr>"

definition enrolled' :: billing_db where
  "enrolled' = enrolled\<lparr>db_locks := [''billing:monthly:kg:'' @ take 7 (iso_date_string (utc_date_of january))], db_clockReads := 1\<rparr>"

lemma jan_steps:
  "ensureForChild E0 ''kg'' ''child'' enrolled' = Inr (sample_account 0, enrolled')"
  "effectiveAmount (sample_assignment ''asg'' 1725148800000 None) (sample_plan 60000) = 60000"
  "prorate decimal30 60000 (effective_days (daysBetweenInclusive january (endOfMonth january)) None 0) (daysBetweenInclusive january (endOfMonth january)) = Inr (60000, None)"
  by code_simp+

lemma jan_inputs: "buildCustomDiscountInputs E0 ''kg'' ''child'' noon True enrolled' = Inr (no_discounts, enrolled')"
  by code_simp

lemma jan_discount: "\<exists>d. evaluateSync decimal30 (engine_input ''kg'' january_args 60000 no_discounts) = Inr d
    \<and> der_customApplicationsToWrite d = [] \<and> der_discountPct d = None \<and> der_discountReason d = None \<and> discounted decimal30 60000 d = Inr 60000"
proof -
  have "(case evaluateSync decimal30 (engine_input ''kg'' january_args 60000 no_discounts) of Inl e \<Rightarrow> False
     | Inr d \<Rightarrow> der_customApplicationsToWrite d = [] \<and> der_discountPct d = None \<and> der_discountReason d = None \<and> discounted decimal30 60000 d = Inr 60000)" by code_simp
  then show ?thesis by (auto split: sum.splits)
qed



lemma jan_generates: "returns (generateAndPersistInvoice E0 ''kg'' january_args (monthly_locked ''kg'' january enrolled)) (\<lambda>r s. r \<noteq> None)"
proof -
  obtain d where d: "evaluateSync decimal30 (engine_input ''kg'' january_args 60000 no_discounts) = Inr d"
    "der_customApplicationsToWrite d = []" "der_discountPct d = None" "der_discountReason d = None"
    "discounted decimal30 60000 d = Inr 60000" using jan_discount by blast
  have now: "nowM E0 (monthly_locked ''kg'' january enrolled) = Inr (noon, enrolled')"
    by (simp add: op_simps E0_def enrolled'_def enrolled_def monthly_locked_def no_rows_def)
  have uuids: "randomUUID E0 enrolled' = Inr (''fresh-0'', enrolled'\<lparr>db_uuidDraws := 1\<rparr>)"
    "randomUUID E0 (enrolled'\<lparr>db_uuidDraws := 1\<rparr>) = Inr (''fresh-1'', enrolled'\<lparr>db_uuidDraws := 2\<rparr>)" by code_simp+
  have args: "ga_assignment january_args = sample_assignment ''asg'' 1725148800000 None" "ga_tariffPlan january_args = sample_plan 60000"
    "ga_totalDays january_args = daysBetweenInclusive january (endOfMonth january)" "ga_nonBillableHolidays january_args = 0"
    "ga_proratedBillableDays january_args = None" "ta_childId (sample_assignment ''asg'' 1725148800000 None) = ''child''"
    "ga_invoiceType january_args = Monthly" "ci_reservedDiscountIds no_discounts = []"
    by (simp_all add: january_args_def sample_assignment_def no_discounts_def)
  show ?thesis
    unfolding generateAndPersistInvoice_def Let_def args E0_decimal jan_steps(2)
    apply (rule returns_bind, rule now)
    apply (rule returns_bind, rule jan_steps(1))
    apply (rule returns_bind, rule jan_inputs)
    apply (rule returns_lift, rule d(1))
    apply (rule returns_bind[where x = "()" and s' = enrolled'], simp add: releaseUnusedReservations_def args op_simps)
    apply (rule returns_lift, rule d(5))
    apply (rule returns_lift, rule jan_steps(3))
    unfolding split_conv
    apply (rule returns_bind, rule uuids(1))
    apply (rule returns_bind, rule uuids(2))
    unfolding d persistCustomDiscountApplications_def forM.simps
    apply code_simp
    done
qed

lemma jan_reads:
  "assignments_findAllActiveAtDate ''kg'' january enrolled = [sample_assignment ''asg'' 1725148800000 None]"
  "invoices_existsMonthlyForPeriod ''kg'' january enrolled = False"
  "holidays_countNonBillableInRange ''kg'' january (endOfMonth january) (monthly_locked ''kg'' january enrolled) = 0"
  "invoices_listChildIdsWithPaidPrepaymentCovering ''kg'' january (monthly_locked ''kg'' january enrolled) = []"
  "children_findById ''kg'' ''child'' (monthly_locked ''kg'' january enrolled) = Some (sample_child ChildActive)"
  "plans_findById ''kg'' ''plan'' (monthly_locked ''kg'' january enrolled) = Inr (Some (sample_plan 60000), monthly_locked ''kg'' january enrolled)"
  by code_simp+

lemma january_runs: "\<exists>db'. generateMonthly E0 ''kg'' january enrolled = Inr ((1, 0), db')"
proof -
  obtain x db' where g: "generateAndPersistInvoice E0 ''kg'' january_args (monthly_locked ''kg'' january enrolled) = Inr (Some x, db')"
    using jan_generates by (auto simp: returns_def split: sum.splits)
  have fields: "ta_childId (sample_assignment ''asg'' 1725148800000 None) = ''child''"
    "ta_tariffPlanId (sample_assignment ''asg'' 1725148800000 None) = ''plan''" "ch_status (sample_child ChildActive) = ChildActive"
    by (simp_all add: samples)
  have "monthly_one E0 ''kg'' january 0 [] (sample_assignment ''asg'' 1725148800000 None) (monthly_locked ''kg'' january enrolled) = Inr (True, db')"
    using g by (simp add: monthly_one_def Let_def fields op_simps jan_reads january_args_def)
  then show ?thesis by (simp add: generateMonthly_run jan_reads op_simps)
qed
end
