(* ===== verification/Act.thy ===== *)
theory Act
  imports Prelude
begin

text \<open>
  Operations of the services outside billing: over the tables of their module, with an error type of
  their own. The combinators are those of a transaction that is rolled back when something throws,
  \<open>actOn\<close> runs an operation of another module on its part of the state.
\<close>

type_synonym ('e, 's, 'a) act = "'s \<Rightarrow> ('e, 'a, 's) outcome"

definition returnA :: "'a \<Rightarrow> ('e, 's, 'a) act" where "returnA x = (\<lambda>s. Inr (x, s))"
definition throwA :: "'e \<Rightarrow> ('e, 's, 'a) act" where "throwA e = (\<lambda>s. Inl e)"
definition bindA :: "('e, 's, 'a) act \<Rightarrow> ('a \<Rightarrow> ('e, 's, 'b) act) \<Rightarrow> ('e, 's, 'b) act" where
  "bindA m k = (\<lambda>s. and_then (m s) k)"
definition readA :: "('s \<Rightarrow> 'a) \<Rightarrow> ('e, 's, 'a) act" where "readA f = (\<lambda>s. Inr (f s, s))"
definition modifyA :: "('s \<Rightarrow> 's) \<Rightarrow> ('e, 's, unit) act" where "modifyA f = (\<lambda>s. Inr ((), f s))"

definition foundA :: "'a option \<Rightarrow> 'e \<Rightarrow> ('e, 's, 'a) act" where
  "foundA v e = (case v of None \<Rightarrow> throwA e | Some x \<Rightarrow> returnA x)"

definition guardA :: "bool \<Rightarrow> 'e \<Rightarrow> ('e, 's, unit) act" where
  "guardA ok e = (if ok then returnA () else throwA e)"

definition liftA :: "('f \<Rightarrow> 'e) \<Rightarrow> 'f + 'a \<Rightarrow> ('e, 's, 'a) act" where
  "liftA h v = (case v of Inl e \<Rightarrow> throwA (h e) | Inr x \<Rightarrow> returnA x)"

definition whenA :: "bool \<Rightarrow> ('e, 's, unit) act \<Rightarrow> ('e, 's, unit) act" where
  "whenA b m = (if b then m else returnA ())"

primrec eachA :: "'a list \<Rightarrow> ('a \<Rightarrow> ('e, 's, unit) act) \<Rightarrow> ('e, 's, unit) act" where
  "eachA [] f = returnA ()"
| "eachA (x # xs) f = bindA (f x) (\<lambda>_. eachA xs f)"

definition actOn :: "('s \<Rightarrow> 't) \<Rightarrow> ('t \<Rightarrow> 's \<Rightarrow> 's) \<Rightarrow> ('f \<Rightarrow> 'e) \<Rightarrow> ('f, 't, 'a) act \<Rightarrow> ('e, 's, 'a) act" where
  "actOn get put h m = (\<lambda>s. case m (get s) of Inl e \<Rightarrow> Inl (h e) | Inr (x, t) \<Rightarrow> Inr (x, put t s))"

named_theorems act_run \<open>running an act\<close>
named_theorems act_inv \<open>inverting an act that returned\<close>

lemma act_run_rules [act_run]:
  "returnA x s = Inr (x, s)" "throwA e s = Inl e" "readA f s = Inr (f s, s)" "modifyA g s = Inr ((), g s)"
  "foundA None e s = Inl e" "foundA (Some x) e s = Inr (x, s)"
  "guardA ok e s = (if ok then Inr ((), s) else Inl e)"
  "liftA h (Inl d) s = Inl (h d)" "liftA h (Inr w) s = Inr (w, s)"
  "whenA b m' s = (if b then m' s else Inr ((), s))"
  by (simp_all add: returnA_def throwA_def readA_def modifyA_def foundA_def guardA_def liftA_def whenA_def)

lemma bindA_run [act_run]: "bindA m k s = and_then (m s) k"
  by (simp add: bindA_def)

lemma act_inv_rules [act_inv]:
  "bindA m k s = Inr r \<longleftrightarrow> (\<exists>y t. m s = Inr (y, t) \<and> k y t = Inr r)"
  by (auto simp: act_run and_then_eq_Inr)

lemma act_inv_basic [act_inv]:
  "returnA x s = Inr r \<longleftrightarrow> r = (x, s)" "throwA e s = Inr r \<longleftrightarrow> False" "readA f s = Inr q \<longleftrightarrow> q = (f s, s)"
  "modifyA g s = Inr u \<longleftrightarrow> u = ((), g s)" "foundA v e s = Inr r \<longleftrightarrow> v = Some (fst r) \<and> snd r = s"
  "guardA ok e s = Inr u \<longleftrightarrow> ok \<and> u = ((), s)" "liftA h w s = Inr r \<longleftrightarrow> w = Inr (fst r) \<and> snd r = s"
  by (cases r; cases u; auto simp: act_run foundA_def liftA_def split: option.splits sum.splits)+

lemma act_inv_when [act_inv]: "whenA b m s = Inr u \<longleftrightarrow> (if b then m s = Inr u else u = ((), s))"
  by (auto simp: act_run)

lemma act_inv_actOn [act_inv]:
  "actOn get put h m s = Inr r \<longleftrightarrow> (\<exists>t. m (get s) = Inr (fst r, t) \<and> snd r = put t s)"
  by (cases r) (auto simp: actOn_def split: sum.splits)

text \<open>What an act preserves, by its structure.\<close>

definition preserves :: "('s \<Rightarrow> bool) \<Rightarrow> ('e, 's, 'a) act \<Rightarrow> bool" where
  "preserves I m \<longleftrightarrow> (\<forall>s x t. I s \<longrightarrow> m s = Inr (x, t) \<longrightarrow> I t)"

named_theorems preserve \<open>rules for preserves\<close>

lemma preservesD: "preserves I m \<Longrightarrow> I s \<Longrightarrow> m s = Inr (x, t) \<Longrightarrow> I t"
  by (auto simp: preserves_def)

lemma preserves_bind [preserve]: "preserves I m \<Longrightarrow> (\<And>x. preserves I (k x)) \<Longrightarrow> preserves I (bindA m k)"
  unfolding preserves_def by (metis act_inv_rules)

lemma preserves_basic [preserve]:
  "preserves I (returnA x)" "preserves I (throwA e)" "preserves I (readA f)" "preserves I (foundA v e)"
  "preserves I (liftA h w)"
  by (simp_all add: preserves_def act_inv)

lemma preserves_guard [preserve]: "preserves I (guardA b e)"
  by (simp add: preserves_def act_inv)

lemma preserves_when [preserve]: "preserves I m \<Longrightarrow> preserves I (whenA b m)"
  by (simp add: preserves_def act_inv)

lemma preserves_if [preserve]: "preserves I m \<Longrightarrow> preserves I m' \<Longrightarrow> preserves I (if b then m else m')"
  by simp

lemma preserves_option [preserve]:
  "preserves I m \<Longrightarrow> (\<And>x. preserves I (f x)) \<Longrightarrow> preserves I (case v of None \<Rightarrow> m | Some x \<Rightarrow> f x)"
  by (cases v) auto

lemma preserves_each [preserve]: "(\<And>x. preserves I (f x)) \<Longrightarrow> preserves I (eachA xs f)"
  by (induction xs) (auto intro: preserve)

end
