(* ===== verification/Staff.thy ===== *)
theory Staff
  imports Child Discount_Repo Act
begin

text \<open>
  Staff members, groups and mentors: the three aggregates (\<open>src/modules/staff/domain\<close>,
  \<open>src/modules/group/domain\<close>) and their tables. The timestamps the database fills in by itself
  (\<open>created_at\<close>, \<open>updated_at\<close>) are left out; rows are listed in the order they were inserted in.
\<close>

subsection \<open>Aggregates\<close>

datatype StaffRole = RoleAdmin | RoleMentor | RoleSpecialist | RoleReception

record StaffMemberState =
  sm_id :: uuid
  sm_kindergartenId :: uuid
  sm_userId :: uuid
  sm_fullName :: "string option"
  sm_phone :: "string option"
  sm_role :: StaffRole
  sm_specialistType :: "string option"
  sm_isActive :: bool
  sm_hiredAt :: "instant option"
  sm_firedAt :: "instant option"
  sm_archivedAt :: "instant option"

record GroupState =
  gr_id :: uuid
  gr_kindergartenId :: uuid
  gr_name :: string
  gr_capacity :: int
  gr_ageRangeMin :: "int option"
  gr_ageRangeMax :: "int option"
  gr_currentLocationId :: "uuid option"
  gr_archivedAt :: "instant option"

record GroupMentorState =
  gm_id :: uuid
  gm_kindergartenId :: uuid
  gm_groupId :: uuid
  gm_staffMemberId :: uuid
  gm_isPrimary :: bool
  gm_assignedAt :: instant
  gm_unassignedAt :: "instant option"

definition staff_validateRoleMatrix :: "StaffRole \<Rightarrow> string option \<Rightarrow> string + unit" where
  "staff_validateRoleMatrix role specialistType =
     (if role = RoleSpecialist
      then (if (case specialistType of None \<Rightarrow> True | Some s \<Rightarrow> trim s = [])
            then Inl ''role=specialist requires specialist_type'' else Inr ())
      else if specialistType \<noteq> None then Inl ''role forbids specialist_type'' else Inr ())"

definition staff_hydrate :: "StaffMemberState \<Rightarrow> string + StaffMemberState" where
  "staff_hydrate s = (case staff_validateRoleMatrix (sm_role s) (sm_specialistType s) of Inl e \<Rightarrow> Inl e | Inr _ \<Rightarrow> Inr s)"

definition staff_isArchived :: "StaffMemberState \<Rightarrow> bool" where
  "staff_isArchived s \<longleftrightarrow> sm_archivedAt s \<noteq> None"

definition staff_deactivate :: "instant \<Rightarrow> StaffMemberState \<Rightarrow> StaffMemberState" where
  "staff_deactivate now s = (if \<not> sm_isActive s then s else s\<lparr>sm_isActive := False, sm_firedAt := Some now\<rparr>)"

definition staff_activate :: "StaffMemberState \<Rightarrow> StaffMemberState" where
  "staff_activate s = (if sm_isActive s then s else s\<lparr>sm_isActive := True, sm_firedAt := None\<rparr>)"

definition staff_archive :: "instant \<Rightarrow> StaffMemberState \<Rightarrow> StaffMemberState" where
  "staff_archive now s = (if sm_archivedAt s \<noteq> None then s else s\<lparr>sm_archivedAt := Some now, sm_isActive := False\<rparr>)"

definition staff_restore :: "StaffMemberState \<Rightarrow> StaffMemberState" where
  "staff_restore s = (if sm_archivedAt s = None then s else s\<lparr>sm_archivedAt := None, sm_isActive := True\<rparr>)"

definition group_validateCapacity :: "int \<Rightarrow> string + unit" where
  "group_validateCapacity capacity =
     (if capacity \<le> 0 then Inl ''group capacity must be a positive integer'' else Inr ())"

definition group_validateAgeRange :: "int option \<Rightarrow> int option \<Rightarrow> string + unit" where
  "group_validateAgeRange mn mx =
     (case (mn, mx) of (Some a, Some b) \<Rightarrow> if a \<ge> b then Inl ''invalid age range'' else Inr () | _ \<Rightarrow> Inr ())"

definition group_hydrate :: "GroupState \<Rightarrow> string + GroupState" where
  "group_hydrate s =
     (case group_validateCapacity (gr_capacity s) of Inl e \<Rightarrow> Inl e
      | Inr _ \<Rightarrow> (case group_validateAgeRange (gr_ageRangeMin s) (gr_ageRangeMax s) of Inl e \<Rightarrow> Inl e | Inr _ \<Rightarrow> Inr s))"

definition group_isArchived :: "GroupState \<Rightarrow> bool" where
  "group_isArchived s \<longleftrightarrow> gr_archivedAt s \<noteq> None"

definition group_archive :: "instant \<Rightarrow> GroupState \<Rightarrow> GroupState" where
  "group_archive now s = (if gr_archivedAt s \<noteq> None then s else s\<lparr>gr_archivedAt := Some now\<rparr>)"

definition group_restore :: "GroupState \<Rightarrow> GroupState" where
  "group_restore s = (if gr_archivedAt s = None then s else s\<lparr>gr_archivedAt := None\<rparr>)"

definition mentor_isActive :: "GroupMentorState \<Rightarrow> bool" where
  "mentor_isActive m \<longleftrightarrow> gm_unassignedAt m = None"

subsection \<open>Tables\<close>

record school =
  sc_staff :: "StaffMemberState list"
  sc_groups :: "GroupState list"
  sc_mentors :: "GroupMentorState list"
  sc_locations :: "(uuid \<times> uuid) list" \<comment> \<open>tenant and id\<close>
  sc_specialistTypes :: "(uuid \<times> string \<times> bool) list" \<comment> \<open>tenant, code, whether active\<close>
  sc_users :: "(uuid \<times> string) list" \<comment> \<open>id and phone\<close>
  sc_clockReads :: nat
  sc_uuidDraws :: nat

datatype school_error =
    SchoolInvariant string
  | StaffNotFound uuid
  | StaffArchived uuid
  | StaffAlreadyExists uuid uuid
  | SchoolUniqueViolation string
  | SchoolGroupNotFound uuid
  | GroupArchived uuid
  | LocationNotFound uuid
  | MentorNotEligible uuid
  | MentorAlreadyActive uuid

type_synonym 'a school_act = "(school_error, school, 'a) act"

definition school_now :: "billing_env \<Rightarrow> instant school_act" where
  "school_now E = (\<lambda>s. Inr (env_clock E (sc_clockReads s), s\<lparr>sc_clockReads := Suc (sc_clockReads s)\<rparr>))"

definition school_uuid :: "billing_env \<Rightarrow> uuid school_act" where
  "school_uuid E = (\<lambda>s. Inr (env_uuid E (sc_uuidDraws s), s\<lparr>sc_uuidDraws := Suc (sc_uuidDraws s)\<rparr>))"

definition hydrated :: "('r \<Rightarrow> string + 'r) \<Rightarrow> 'r option \<Rightarrow> 'r option school_act" where
  "hydrated check found =
     (case found of None \<Rightarrow> returnA None | Some r \<Rightarrow> bindA (liftA SchoolInvariant (check r)) (\<lambda>x. returnA (Some x)))"

subsection \<open>Staff members\<close>

definition staff_findById :: "uuid \<Rightarrow> uuid \<Rightarrow> StaffMemberState option school_act" where
  "staff_findById kg i =
     bindA (readA (\<lambda>s. find (\<lambda>r. sm_id r = i \<and> sm_kindergartenId r = kg) (sc_staff s))) (hydrated staff_hydrate)"

definition staff_findActiveByUserAndKindergarten :: "uuid \<Rightarrow> uuid \<Rightarrow> StaffMemberState option school_act" where
  "staff_findActiveByUserAndKindergarten userId kg =
     bindA (readA (\<lambda>s. find (\<lambda>r. sm_userId r = userId \<and> sm_kindergartenId r = kg \<and> sm_isActive r) (sc_staff s)))
       (hydrated staff_hydrate)"

text \<open>The partial unique index: one active row per tenant and user.\<close>

definition staff_clash :: "StaffMemberState \<Rightarrow> StaffMemberState list \<Rightarrow> bool" where
  "staff_clash r rows \<longleftrightarrow> sm_isActive r \<and> list_ex (\<lambda>q. sm_id q \<noteq> sm_id r \<and> sm_isActive q
     \<and> sm_kindergartenId q = sm_kindergartenId r \<and> sm_userId q = sm_userId r) rows"

definition staff_create :: "StaffMemberState \<Rightarrow> StaffMemberState school_act" where
  "staff_create r s =
     (let row = r\<lparr>sm_hiredAt := map_option toDateColumn (sm_hiredAt r)\<rparr> in
      if list_ex (\<lambda>q. sm_id q = sm_id r) (sc_staff s) \<or> staff_clash row (sc_staff s)
      then Inl (StaffAlreadyExists (sm_kindergartenId r) (sm_userId r))
      else Inr (row, s\<lparr>sc_staff := sc_staff s @ [row]\<rparr>))"

definition staff_row :: "StaffMemberState \<Rightarrow> StaffMemberState \<Rightarrow> StaffMemberState" where
  "staff_row r q = q\<lparr>sm_fullName := sm_fullName r, sm_phone := sm_phone r, sm_role := sm_role r,
     sm_specialistType := sm_specialistType r, sm_isActive := sm_isActive r,
     sm_hiredAt := map_option toDateColumn (sm_hiredAt r), sm_firedAt := map_option toDateColumn (sm_firedAt r),
     sm_archivedAt := sm_archivedAt r\<rparr>"

definition staff_key :: "uuid \<Rightarrow> uuid \<Rightarrow> StaffMemberState \<Rightarrow> bool" where
  "staff_key kg i q \<longleftrightarrow> sm_id q = i \<and> sm_kindergartenId q = kg"

definition staff_write :: "uuid \<Rightarrow> uuid \<Rightarrow> (StaffMemberState \<Rightarrow> StaffMemberState) \<Rightarrow> unit school_act" where
  "staff_write kg i f s =
     (if list_ex (\<lambda>q. staff_key kg i q \<and> staff_clash (f q) (sc_staff s)) (sc_staff s)
      then Inl (SchoolUniqueViolation ''staff_members'')
      else Inr ((), s\<lparr>sc_staff := update_where (staff_key kg i) f (sc_staff s)\<rparr>))"

definition staff_save :: "StaffMemberState \<Rightarrow> StaffMemberState school_act" where
  "staff_save r =
     bindA (staff_write (sm_kindergartenId r) (sm_id r) (staff_row r)) (\<lambda>_.
     bindA (staff_findById (sm_kindergartenId r) (sm_id r)) (\<lambda>found.
     foundA found (StaffNotFound (sm_id r))))"

record UpdateStaffInput =
  us_fullName :: "string option"
  us_role :: "StaffRole option"
  us_specialistType :: "string option option"
  us_hiredAt :: "instant option option"
  us_firedAt :: "instant option option"

definition staff_patch :: "UpdateStaffInput \<Rightarrow> StaffMemberState \<Rightarrow> StaffMemberState" where
  "staff_patch p q = q\<lparr>
     sm_fullName := (case us_fullName p of None \<Rightarrow> sm_fullName q | Some n \<Rightarrow> Some n),
     sm_role := (case us_role p of None \<Rightarrow> sm_role q | Some r \<Rightarrow> r),
     sm_specialistType := (case us_specialistType p of None \<Rightarrow> sm_specialistType q | Some v \<Rightarrow> v),
     sm_hiredAt := (case us_hiredAt p of None \<Rightarrow> sm_hiredAt q | Some v \<Rightarrow> map_option toDateColumn v),
     sm_firedAt := (case us_firedAt p of None \<Rightarrow> sm_firedAt q | Some v \<Rightarrow> map_option toDateColumn v)\<rparr>"

definition staff_update :: "uuid \<Rightarrow> uuid \<Rightarrow> UpdateStaffInput \<Rightarrow> StaffMemberState option school_act" where
  "staff_update kg i p =
     bindA (staff_write kg i (staff_patch p)) (\<lambda>_. staff_findById kg i)"

definition staff_deactivateAllByKindergarten :: "uuid \<Rightarrow> instant \<Rightarrow> nat school_act" where
  "staff_deactivateAllByKindergarten kg now s =
     (let P = (\<lambda>q. sm_kindergartenId q = kg \<and> sm_isActive q)
      in Inr (length (filter P (sc_staff s)),
           s\<lparr>sc_staff := update_where P (\<lambda>q. q\<lparr>sm_isActive := False, sm_firedAt := Some (toDateColumn now)\<rparr>) (sc_staff s)\<rparr>))"

definition staff_countActive :: "uuid \<Rightarrow> school \<Rightarrow> nat" where
  "staff_countActive kg s = length (filter (\<lambda>r. sm_kindergartenId r = kg \<and> sm_isActive r \<and> sm_archivedAt r = None) (sc_staff s))"

subsection \<open>Groups and mentors\<close>

definition school_group_findById :: "uuid \<Rightarrow> uuid \<Rightarrow> GroupState option school_act" where
  "school_group_findById kg i =
     bindA (readA (\<lambda>s. find (\<lambda>r. gr_id r = i \<and> gr_kindergartenId r = kg) (sc_groups s))) (hydrated group_hydrate)"

definition group_list :: "uuid \<Rightarrow> bool option \<Rightarrow> school \<Rightarrow> GroupState list" where
  "group_list kg archived s =
     filter (\<lambda>r. gr_kindergartenId r = kg \<and> (case archived of None \<Rightarrow> True | Some b \<Rightarrow> (gr_archivedAt r \<noteq> None) = b)) (sc_groups s)"

definition group_insert :: "GroupState \<Rightarrow> GroupState school_act" where
  "group_insert r s =
     (if list_ex (\<lambda>q. gr_id q = gr_id r) (sc_groups s) then Inl (SchoolUniqueViolation ''groups'')
      else Inr (r, s\<lparr>sc_groups := sc_groups s @ [r]\<rparr>))"

definition group_write :: "uuid \<Rightarrow> uuid \<Rightarrow> (GroupState \<Rightarrow> GroupState) \<Rightarrow> GroupState option school_act" where
  "group_write kg i f =
     bindA (modifyA (\<lambda>s. s\<lparr>sc_groups := update_where (\<lambda>q. gr_id q = i \<and> gr_kindergartenId q = kg) f (sc_groups s)\<rparr>)) (\<lambda>_.
     school_group_findById kg i)"

record UpdateGroupInput =
  ug_name :: "string option"
  ug_capacity :: "int option"
  ug_ageRangeMin :: "int option option"
  ug_ageRangeMax :: "int option option"
  ug_currentLocationId :: "uuid option option"

definition group_patch :: "UpdateGroupInput \<Rightarrow> GroupState \<Rightarrow> GroupState" where
  "group_patch p q = q\<lparr>
     gr_name := (case ug_name p of None \<Rightarrow> gr_name q | Some n \<Rightarrow> n),
     gr_capacity := (case ug_capacity p of None \<Rightarrow> gr_capacity q | Some n \<Rightarrow> n),
     gr_ageRangeMin := (case ug_ageRangeMin p of None \<Rightarrow> gr_ageRangeMin q | Some v \<Rightarrow> v),
     gr_ageRangeMax := (case ug_ageRangeMax p of None \<Rightarrow> gr_ageRangeMax q | Some v \<Rightarrow> v),
     gr_currentLocationId := (case ug_currentLocationId p of None \<Rightarrow> gr_currentLocationId q | Some v \<Rightarrow> v)\<rparr>"

definition group_save :: "GroupState \<Rightarrow> GroupState school_act" where
  "group_save r =
     bindA (group_write (gr_kindergartenId r) (gr_id r) (\<lambda>q. r)) (\<lambda>found. foundA found (SchoolGroupNotFound (gr_id r)))"

definition active_slot :: "uuid \<Rightarrow> uuid \<Rightarrow> GroupMentorState \<Rightarrow> bool" where
  "active_slot kg groupId m \<longleftrightarrow> gm_kindergartenId m = kg \<and> gm_groupId m = groupId \<and> gm_unassignedAt m = None"

definition close_slots :: "(GroupMentorState \<Rightarrow> bool) \<Rightarrow> instant \<Rightarrow> GroupMentorState list \<Rightarrow> GroupMentorState list" where
  "close_slots P now rows = update_where P (\<lambda>m. m\<lparr>gm_unassignedAt := Some now\<rparr>) rows"

text \<open>The insert obeys the partial unique index: one open row per group.\<close>

definition mentor_insert :: "GroupMentorState \<Rightarrow> GroupMentorState school_act" where
  "mentor_insert m s =
     (if list_ex (\<lambda>q. gm_id q = gm_id m \<or> gm_groupId q = gm_groupId m \<and> gm_unassignedAt q = None) (sc_mentors s)
      then Inl (MentorAlreadyActive (gm_groupId m))
      else Inr (m, s\<lparr>sc_mentors := sc_mentors s @ [m]\<rparr>))"

definition group_assignMentor :: "billing_env \<Rightarrow> uuid \<Rightarrow> uuid \<Rightarrow> uuid \<Rightarrow> instant \<Rightarrow> GroupMentorState school_act" where
  "group_assignMentor E kg groupId staffMemberId now =
     bindA (modifyA (\<lambda>s. s\<lparr>sc_mentors := close_slots (active_slot kg groupId) now (sc_mentors s)\<rparr>)) (\<lambda>_.
     bindA (school_uuid E) (\<lambda>i.
     mentor_insert \<lparr>gm_id = i, gm_kindergartenId = kg, gm_groupId = groupId, gm_staffMemberId = staffMemberId,
       gm_isPrimary = True, gm_assignedAt = now, gm_unassignedAt = None\<rparr>))"

definition group_findActiveMentor :: "uuid \<Rightarrow> uuid \<Rightarrow> school \<Rightarrow> GroupMentorState option" where
  "group_findActiveMentor kg groupId s = find (active_slot kg groupId) (sc_mentors s)"

definition group_unassignMentor :: "uuid \<Rightarrow> uuid \<Rightarrow> instant \<Rightarrow> GroupMentorState option school_act" where
  "group_unassignMentor kg groupId now =
     bindA (readA (group_findActiveMentor kg groupId)) (\<lambda>found.
     case found of
       None \<Rightarrow> returnA None
     | Some m \<Rightarrow>
         bindA (modifyA (\<lambda>s. s\<lparr>sc_mentors := close_slots (\<lambda>q. gm_id q = gm_id m) now (sc_mentors s)\<rparr>)) (\<lambda>_.
         returnA (Some (m\<lparr>gm_unassignedAt := Some now\<rparr>))))"

definition group_unassignMentorByStaffMember :: "uuid \<Rightarrow> uuid \<Rightarrow> instant \<Rightarrow> nat school_act" where
  "group_unassignMentorByStaffMember kg staffMemberId now s =
     (let P = (\<lambda>m. gm_kindergartenId m = kg \<and> gm_staffMemberId m = staffMemberId \<and> gm_unassignedAt m = None)
      in Inr (length (filter P (sc_mentors s)), s\<lparr>sc_mentors := close_slots P now (sc_mentors s)\<rparr>))"

definition group_listMentorHistory :: "uuid \<Rightarrow> uuid \<Rightarrow> school \<Rightarrow> GroupMentorState list" where
  "group_listMentorHistory kg groupId s =
     sort_key (\<lambda>m. - gm_assignedAt m) (filter (\<lambda>m. gm_kindergartenId m = kg \<and> gm_groupId m = groupId) (sc_mentors s))"

definition isUserActiveMentorForGroup :: "uuid \<Rightarrow> uuid \<Rightarrow> uuid \<Rightarrow> school \<Rightarrow> bool" where
  "isUserActiveMentorForGroup kg userId groupId s \<longleftrightarrow>
     list_ex (\<lambda>m. active_slot kg groupId m
       \<and> list_ex (\<lambda>r. sm_id r = gm_staffMemberId m \<and> sm_userId r = userId) (sc_staff s)) (sc_mentors s)"

definition group_countActive :: "uuid \<Rightarrow> school \<Rightarrow> nat" where
  "group_countActive kg s = length (filter (\<lambda>r. gr_kindergartenId r = kg \<and> gr_archivedAt r = None) (sc_groups s))"

end
