(* ===== verification/Staff_Service.thy ===== *)
theory Staff_Service
  imports Staff Guardian_Service
begin

text \<open>
  The staff and group services (\<open>src/modules/staff/staff.service.ts\<close>,
  \<open>src/modules/group/group.service.ts\<close>), and what they keep: a group has at most one mentor, and only
  staff members who are active and not archived hold a group. The welcome SMS and the display overlay
  of names are left out.
\<close>

subsection \<open>Staff\<close>

definition staff_or_throw :: "uuid \<Rightarrow> uuid \<Rightarrow> StaffMemberState school_act" where
  "staff_or_throw kg i = bindA (staff_findById kg i) (\<lambda>found. foundA found (StaffNotFound i))"

record CreateStaffInput =
  cs_fullName :: string
  cs_phone :: string
  cs_role :: StaffRole
  cs_specialistType :: "string option"
  cs_hiredAt :: "instant option"

definition assertUsableCode :: "uuid \<Rightarrow> string \<Rightarrow> unit school_act" where
  "assertUsableCode kg code =
     bindA (readA (\<lambda>s. list_ex (\<lambda>t. t = (kg, code, True)) (sc_specialistTypes s))) (\<lambda>ok.
     guardA ok (SchoolInvariant ''specialist_type_unknown''))"

definition find_or_create_user :: "billing_env \<Rightarrow> string \<Rightarrow> uuid school_act" where
  "find_or_create_user E phone =
     bindA (readA (\<lambda>s. find (\<lambda>u. snd u = phone) (sc_users s))) (\<lambda>found.
     case found of
       Some u \<Rightarrow> returnA (fst u)
     | None \<Rightarrow>
         bindA (school_uuid E) (\<lambda>i.
         bindA (modifyA (\<lambda>s. s\<lparr>sc_users := sc_users s @ [(i, phone)]\<rparr>)) (\<lambda>_. returnA i)))"

definition staff_service_create :: "billing_env \<Rightarrow> uuid \<Rightarrow> CreateStaffInput \<Rightarrow> StaffMemberState school_act" where
  "staff_service_create E kg input =
     bindA (guardA (E164_RE (cs_phone input)) (SchoolInvariant ''phone must be E.164'')) (\<lambda>_.
     bindA (liftA SchoolInvariant (staff_validateRoleMatrix (cs_role input) (cs_specialistType input))) (\<lambda>_.
     bindA (case cs_specialistType input of
              Some code \<Rightarrow> whenA (cs_role input = RoleSpecialist) (assertUsableCode kg code) | None \<Rightarrow> returnA ()) (\<lambda>_.
     bindA (find_or_create_user E (cs_phone input)) (\<lambda>userId.
     bindA (case cs_hiredAt input of Some t \<Rightarrow> returnA t | None \<Rightarrow> school_now E) (\<lambda>hired.
     bindA (school_uuid E) (\<lambda>i.
     staff_create \<lparr>sm_id = i, sm_kindergartenId = kg, sm_userId = userId, sm_fullName = Some (cs_fullName input),
       sm_phone = Some (cs_phone input), sm_role = cs_role input, sm_specialistType = cs_specialistType input,
       sm_isActive = True, sm_hiredAt = Some hired, sm_firedAt = None, sm_archivedAt = None\<rparr>))))))"

definition staff_service_update :: "uuid \<Rightarrow> uuid \<Rightarrow> UpdateStaffInput \<Rightarrow> StaffMemberState school_act" where
  "staff_service_update kg i p =
     bindA (staff_or_throw kg i) (\<lambda>current.
     bindA (guardA (\<not> staff_isArchived current) (StaffArchived i)) (\<lambda>_.
     let mergedRole = (case us_role p of None \<Rightarrow> sm_role current | Some r \<Rightarrow> r);
         mergedSpecialist = (case us_specialistType p of None \<Rightarrow> sm_specialistType current | Some v \<Rightarrow> v) in
     bindA (liftA SchoolInvariant (staff_validateRoleMatrix mergedRole mergedSpecialist)) (\<lambda>_.
     bindA (case mergedSpecialist of
              Some code \<Rightarrow> whenA (mergedRole = RoleSpecialist \<and> code \<noteq> [] \<and> (us_specialistType p \<noteq> None \<or> us_role p \<noteq> None))
                (assertUsableCode kg code)
            | None \<Rightarrow> returnA ()) (\<lambda>_.
     bindA (staff_update kg i p) (\<lambda>updated. foundA updated (StaffNotFound i))))))"

definition staff_service_deactivate :: "billing_env \<Rightarrow> uuid \<Rightarrow> uuid \<Rightarrow> StaffMemberState school_act" where
  "staff_service_deactivate E kg i =
     bindA (staff_or_throw kg i) (\<lambda>current.
     bindA (guardA (\<not> staff_isArchived current) (StaffArchived i)) (\<lambda>_.
     if \<not> sm_isActive current then returnA current
     else
       bindA (school_now E) (\<lambda>now.
       bindA (staff_save (staff_deactivate now current)) (\<lambda>saved.
       bindA (group_unassignMentorByStaffMember kg i now) (\<lambda>_. returnA saved)))))"

definition staff_service_activate :: "uuid \<Rightarrow> uuid \<Rightarrow> StaffMemberState school_act" where
  "staff_service_activate kg i =
     bindA (staff_or_throw kg i) (\<lambda>current.
     bindA (guardA (\<not> staff_isArchived current) (StaffArchived i)) (\<lambda>_.
     if sm_isActive current then returnA current else staff_save (staff_activate current)))"

definition staff_service_archive :: "billing_env \<Rightarrow> uuid \<Rightarrow> uuid \<Rightarrow> StaffMemberState school_act" where
  "staff_service_archive E kg i =
     bindA (staff_or_throw kg i) (\<lambda>current.
     if staff_isArchived current then returnA current
     else
       bindA (school_now E) (\<lambda>now.
       bindA (staff_save (staff_archive now current)) (\<lambda>saved.
       bindA (group_unassignMentorByStaffMember kg i now) (\<lambda>_. returnA saved))))"

definition staff_service_restore :: "uuid \<Rightarrow> uuid \<Rightarrow> StaffMemberState school_act" where
  "staff_service_restore kg i =
     bindA (staff_or_throw kg i) (\<lambda>current.
     if \<not> staff_isArchived current then returnA current else staff_save (staff_restore current))"

subsection \<open>Groups\<close>

definition school_group_or_throw :: "uuid \<Rightarrow> uuid \<Rightarrow> GroupState school_act" where
  "school_group_or_throw kg i = bindA (school_group_findById kg i) (\<lambda>found. foundA found (SchoolGroupNotFound i))"

definition location_or_throw :: "uuid \<Rightarrow> uuid \<Rightarrow> unit school_act" where
  "location_or_throw kg i =
     bindA (readA (\<lambda>s. List.member (sc_locations s) (kg, i))) (\<lambda>ok. guardA ok (LocationNotFound i))"

record CreateGroupInput =
  cg_name :: string
  cg_capacity :: int
  cg_ageRangeMin :: "int option"
  cg_ageRangeMax :: "int option"
  cg_currentLocationId :: "uuid option"

definition group_service_create :: "billing_env \<Rightarrow> uuid \<Rightarrow> CreateGroupInput \<Rightarrow> GroupState school_act" where
  "group_service_create E kg input =
     bindA (liftA SchoolInvariant (group_validateCapacity (cg_capacity input))) (\<lambda>_.
     bindA (liftA SchoolInvariant (group_validateAgeRange (cg_ageRangeMin input) (cg_ageRangeMax input))) (\<lambda>_.
     bindA (case cg_currentLocationId input of
              Some l \<Rightarrow> whenA (l \<noteq> []) (location_or_throw kg l) | None \<Rightarrow> returnA ()) (\<lambda>_.
     bindA (school_uuid E) (\<lambda>i.
     group_insert \<lparr>gr_id = i, gr_kindergartenId = kg, gr_name = cg_name input, gr_capacity = cg_capacity input,
       gr_ageRangeMin = cg_ageRangeMin input, gr_ageRangeMax = cg_ageRangeMax input,
       gr_currentLocationId = cg_currentLocationId input, gr_archivedAt = None\<rparr>))))"

definition group_service_update :: "uuid \<Rightarrow> uuid \<Rightarrow> UpdateGroupInput \<Rightarrow> GroupState school_act" where
  "group_service_update kg i p =
     bindA (school_group_or_throw kg i) (\<lambda>current.
     bindA (guardA (\<not> group_isArchived current) (GroupArchived i)) (\<lambda>_.
     bindA (case ug_capacity p of Some c \<Rightarrow> liftA SchoolInvariant (group_validateCapacity c) | None \<Rightarrow> returnA ()) (\<lambda>_.
     let mergedMin = (case ug_ageRangeMin p of None \<Rightarrow> gr_ageRangeMin current | Some v \<Rightarrow> v);
         mergedMax = (case ug_ageRangeMax p of None \<Rightarrow> gr_ageRangeMax current | Some v \<Rightarrow> v) in
     bindA (liftA SchoolInvariant (group_validateAgeRange mergedMin mergedMax)) (\<lambda>_.
     bindA (case ug_currentLocationId p of Some (Some l) \<Rightarrow> location_or_throw kg l | _ \<Rightarrow> returnA ()) (\<lambda>_.
     bindA (group_write kg i (group_patch p)) (\<lambda>updated. foundA updated (SchoolGroupNotFound i)))))))"

definition group_service_archive :: "billing_env \<Rightarrow> uuid \<Rightarrow> uuid \<Rightarrow> GroupState school_act" where
  "group_service_archive E kg i =
     bindA (school_group_or_throw kg i) (\<lambda>current.
     if group_isArchived current then returnA current
     else bindA (school_now E) (\<lambda>now. group_save (group_archive now current)))"

definition group_service_restore :: "uuid \<Rightarrow> uuid \<Rightarrow> GroupState school_act" where
  "group_service_restore kg i =
     bindA (school_group_or_throw kg i) (\<lambda>current.
     if \<not> group_isArchived current then returnA current else group_save (group_restore current))"

definition service_assignMentor :: "billing_env \<Rightarrow> uuid \<Rightarrow> uuid \<Rightarrow> uuid \<Rightarrow> GroupMentorState school_act" where
  "service_assignMentor E kg groupId staffMemberId =
     bindA (school_group_or_throw kg groupId) (\<lambda>group.
     bindA (guardA (\<not> group_isArchived group) (GroupArchived groupId)) (\<lambda>_.
     bindA (staff_or_throw kg staffMemberId) (\<lambda>staff.
     bindA (guardA (sm_isActive staff \<and> \<not> staff_isArchived staff) (MentorNotEligible staffMemberId)) (\<lambda>_.
     bindA (guardA (sm_role staff = RoleMentor) (MentorNotEligible staffMemberId)) (\<lambda>_.
     bindA (school_now E) (\<lambda>now.
     group_assignMentor E kg groupId staffMemberId now))))))"

definition service_unassignMentor :: "billing_env \<Rightarrow> uuid \<Rightarrow> uuid \<Rightarrow> GroupMentorState option school_act" where
  "service_unassignMentor E kg groupId =
     bindA (school_group_or_throw kg groupId) (\<lambda>_.
     bindA (school_now E) (\<lambda>now. group_unassignMentor kg groupId now))"

definition getActiveMentor :: "uuid \<Rightarrow> uuid \<Rightarrow> GroupMentorState option school_act" where
  "getActiveMentor kg groupId =
     bindA (school_group_or_throw kg groupId) (\<lambda>_. readA (group_findActiveMentor kg groupId))"

definition getMentorHistory :: "uuid \<Rightarrow> uuid \<Rightarrow> GroupMentorState list school_act" where
  "getMentorHistory kg groupId =
     bindA (school_group_or_throw kg groupId) (\<lambda>_. readA (group_listMentorHistory kg groupId))"

subsection \<open>Who holds a group\<close>

text \<open>
  The invariant: ids are unique, a group has at most one open slot, and the holder of an open slot is a
  staff member of the same kindergarten, active and not archived unless the kindergarten is one of \<open>A\<close>,
  those that have been archived: that deactivates the staff and leaves the slots open.
\<close>

definition holds_rightly :: "uuid set \<Rightarrow> StaffMemberState list \<Rightarrow> GroupMentorState \<Rightarrow> bool" where
  "holds_rightly A rows m \<longleftrightarrow> gm_unassignedAt m = None \<longrightarrow>
     (\<exists>r\<in>set rows. staff_key (gm_kindergartenId m) (gm_staffMemberId m) r
        \<and> (gm_kindergartenId m \<notin> A \<longrightarrow> sm_isActive r \<and> sm_archivedAt r = None))"

definition one_mentor :: "GroupMentorState list \<Rightarrow> bool" where
  "one_mentor ms \<longleftrightarrow> distinct (map gm_groupId (filter mentor_isActive ms))"

definition mentors_ok :: "uuid set \<Rightarrow> school \<Rightarrow> bool" where
  "mentors_ok A s \<longleftrightarrow> distinct (map sm_id (sc_staff s)) \<and> one_mentor (sc_mentors s)
     \<and> (\<forall>m\<in>set (sc_mentors s). holds_rightly A (sc_staff s) m)"

text \<open>
  The operations of the two services, and what the kindergarten service does to the staff: the first
  member of a new kindergarten, and the cascade of archiving one, which is put on record.
\<close>

inductive school_step :: "school \<Rightarrow> uuid list \<Rightarrow> school \<Rightarrow> bool" where
  create: "staff_service_create E kg ci s = Inr (r, t) \<Longrightarrow> school_step s [] t"
| update: "staff_service_update kg i p s = Inr (r, t) \<Longrightarrow> school_step s [] t"
| deactivate: "staff_service_deactivate E kg i s = Inr (r, t) \<Longrightarrow> school_step s [] t"
| activate: "staff_service_activate kg i s = Inr (r, t) \<Longrightarrow> school_step s [] t"
| archive: "staff_service_archive E kg i s = Inr (r, t) \<Longrightarrow> school_step s [] t"
| restore: "staff_service_restore kg i s = Inr (r, t) \<Longrightarrow> school_step s [] t"
| group_create: "group_service_create E kg gi s = Inr (g, t) \<Longrightarrow> school_step s [] t"
| group_update: "group_service_update kg i q s = Inr (g, t) \<Longrightarrow> school_step s [] t"
| group_archive: "group_service_archive E kg i s = Inr (g, t) \<Longrightarrow> school_step s [] t"
| group_restore: "group_service_restore kg i s = Inr (g, t) \<Longrightarrow> school_step s [] t"
| assign: "service_assignMentor E kg g i s = Inr (m, t) \<Longrightarrow> school_step s [] t"
| unassign: "service_unassignMentor E kg g s = Inr (v, t) \<Longrightarrow> school_step s [] t"
| provision: "staff_create row s = Inr (r, t) \<Longrightarrow> school_step s [] t"
| kindergarten_archive: "staff_deactivateAllByKindergarten kg now s = Inr (n, t) \<Longrightarrow> school_step s [kg] t"

text \<open>What the steps can do to the two tables that matter.\<close>

lemma mentors_ok_updates [simp]:
  "mentors_ok A (s\<lparr>sc_groups := gs\<rparr>) = mentors_ok A s" "mentors_ok A (s\<lparr>sc_users := us\<rparr>) = mentors_ok A s"
  "mentors_ok A (s\<lparr>sc_clockReads := n\<rparr>) = mentors_ok A s" "mentors_ok A (s\<lparr>sc_uuidDraws := n\<rparr>) = mentors_ok A s"
  by (simp_all add: mentors_ok_def)

lemma preserves_draws [preserve]: "preserves (mentors_ok A) (school_now E)" "preserves (mentors_ok A) (school_uuid E)"
  by (simp_all add: preserves_def school_now_def school_uuid_def)

lemma preserves_hydrated [preserve]: "preserves I (hydrated check found)"
  unfolding hydrated_def by (intro preserve)

lemma preserves_reads [preserve]:
  "preserves I (staff_findById kg i)" "preserves I (school_group_findById kg i)" "preserves I (staff_or_throw kg i)"
  "preserves I (school_group_or_throw kg i)" "preserves I (location_or_throw kg i)" "preserves I (assertUsableCode kg code)"
  unfolding staff_findById_def school_group_findById_def staff_or_throw_def school_group_or_throw_def location_or_throw_def
    assertUsableCode_def by (intro preserve)+

lemma preserves_group_tables [preserve]:
  "preserves (mentors_ok A) (group_insert r)" "preserves (mentors_ok A) (group_write kg i f)" "preserves (mentors_ok A) (group_save r)"
proof -
  show "preserves (mentors_ok A) (group_insert r)" by (auto simp: preserves_def group_insert_def split: if_splits)
  have "preserves (mentors_ok A) (modifyA (\<lambda>s. s\<lparr>sc_groups := update_where P f (sc_groups s)\<rparr>))" for P :: "GroupState \<Rightarrow> bool" and f
    by (simp add: preserves_def act_inv)
  then show w: "preserves (mentors_ok A) (group_write kg i f)" for kg i f unfolding group_write_def by (intro preserve)
  show "preserves (mentors_ok A) (group_save r)" unfolding group_save_def by (intro preserve w)
qed

lemma preserves_case_option_option [preserve]:
  "preserves I m \<Longrightarrow> preserves I n \<Longrightarrow> (\<And>x. preserves I (f x)) \<Longrightarrow>
    preserves I (case v of None \<Rightarrow> m | Some w \<Rightarrow> (case w of None \<Rightarrow> n | Some x \<Rightarrow> f x))"
  by (auto split: option.splits)

lemma groups_preserve:
  "preserves (mentors_ok A) (group_service_create E kg gi)" "preserves (mentors_ok A) (group_service_update kg i q)"
  "preserves (mentors_ok A) (group_service_archive E kg i)" "preserves (mentors_ok A) (group_service_restore kg i)"
  unfolding group_service_create_def group_service_update_def group_service_archive_def group_service_restore_def Let_def
  by (intro preserve)+

text \<open>A write to one staff row that keeps its key and does not dismiss it.\<close>

lemma staff_write_ok:
  assumes ok: "mentors_ok A s" and keep: "\<And>q. sm_id (f q) = sm_id q \<and> sm_kindergartenId (f q) = sm_kindergartenId q"
    and stay: "\<And>q. q \<in> set (sc_staff s) \<Longrightarrow> staff_key kg i q \<Longrightarrow> sm_isActive q \<Longrightarrow> sm_archivedAt q = None \<Longrightarrow> sm_isActive (f q) \<and> sm_archivedAt (f q) = None"
  shows "mentors_ok A (s\<lparr>sc_staff := update_where (staff_key kg i) f (sc_staff s)\<rparr>)"
proof -
  let ?rows = "update_where (staff_key kg i) f (sc_staff s)"
  have ids: "map sm_id ?rows = map sm_id (sc_staff s)" using keep by (simp add: update_where_def)
  have "holds_rightly A ?rows m" if h: "holds_rightly A (sc_staff s) m" for m
    unfolding holds_rightly_def
  proof
    assume "gm_unassignedAt m = None"
    with h obtain r where r: "r \<in> set (sc_staff s)" "staff_key (gm_kindergartenId m) (gm_staffMemberId m) r"
      "gm_kindergartenId m \<notin> A \<longrightarrow> sm_isActive r \<and> sm_archivedAt r = None"
      by (auto simp: holds_rightly_def)
    let ?r = "if staff_key kg i r then f r else r"
    have "?r \<in> set ?rows" using r(1) by (auto simp: update_where_def)
    moreover have "staff_key (gm_kindergartenId m) (gm_staffMemberId m) ?r
      \<and> (gm_kindergartenId m \<notin> A \<longrightarrow> sm_isActive ?r \<and> sm_archivedAt ?r = None)"
      using r keep stay[of r] by (auto simp: staff_key_def)
    ultimately show "\<exists>r\<in>set ?rows. staff_key (gm_kindergartenId m) (gm_staffMemberId m) r
      \<and> (gm_kindergartenId m \<notin> A \<longrightarrow> sm_isActive r \<and> sm_archivedAt r = None)" by blast
  qed
  with ok ids show ?thesis by (simp add: mentors_ok_def)
qed

lemma staff_write_inv:
  "staff_write kg i f s = Inr (u, t) \<longleftrightarrow> u = () \<and> t = s\<lparr>sc_staff := update_where (staff_key kg i) f (sc_staff s)\<rparr>
    \<and> \<not> list_ex (\<lambda>q. staff_key kg i q \<and> staff_clash (f q) (sc_staff s)) (sc_staff s)"
  by (auto simp: staff_write_def)

lemma staff_find_inv:
  assumes "staff_findById kg i s = Inr (v, t)"
  shows "t = s \<and> v = find (staff_key kg i) (sc_staff s)"
proof -
  have f: "(\<lambda>r. sm_id r = i \<and> sm_kindergartenId r = kg) = staff_key kg i" by (simp add: fun_eq_iff staff_key_def)
  from assms show ?thesis unfolding staff_findById_def f
    by (auto simp: act_inv hydrated_def staff_hydrate_def split: option.splits sum.splits)
qed

lemma staff_or_throw_inv:
  assumes "staff_or_throw kg i s = Inr (r, t)"
  shows "t = s \<and> r \<in> set (sc_staff s) \<and> staff_key kg i r"
  using assms by (auto simp: staff_or_throw_def act_inv dest!: staff_find_inv dest: find_SomeD[OF sym])

lemma group_or_throw_state: "school_group_or_throw kg i s = Inr (g, t) \<Longrightarrow> t = s"
  by (auto simp: school_group_or_throw_def school_group_findById_def hydrated_def act_inv group_hydrate_def split: option.splits sum.splits)

text \<open>Closing slots.\<close>

lemma close_slots_active: "filter mentor_isActive (close_slots P now ms) = filter (\<lambda>m. mentor_isActive m \<and> \<not> P m) ms"
  by (induction ms) (auto simp: close_slots_def update_where_def mentor_isActive_def)

lemma one_mentor_close: "one_mentor ms \<Longrightarrow> one_mentor (close_slots P now ms)"
  unfolding one_mentor_def close_slots_active filter_filter[symmetric]
  by (metis (no_types, lifting) distinct_map_filter filter_filter conj_commute)

lemma close_slots_mem: "m \<in> set (close_slots P now ms) \<Longrightarrow> gm_unassignedAt m = None \<Longrightarrow> m \<in> set ms \<and> \<not> P m"
  by (auto simp: close_slots_def update_where_def split: if_splits)

lemma mentors_ok_close: "mentors_ok A s \<Longrightarrow> mentors_ok A (s\<lparr>sc_mentors := close_slots P now (sc_mentors s)\<rparr>)"
  unfolding mentors_ok_def using close_slots_mem[of _ P now "sc_mentors s"]
  by (auto simp: one_mentor_close holds_rightly_def)

text \<open>The operations on staff.\<close>

lemma staff_save_inv:
  "staff_save r s = Inr (x, t) \<Longrightarrow> t = s\<lparr>sc_staff := update_where (staff_key (sm_kindergartenId r) (sm_id r)) (staff_row r) (sc_staff s)\<rparr>"
  by (auto simp: staff_save_def act_inv staff_write_inv dest: staff_find_inv)

lemma staff_row_key: "sm_id (staff_row r q) = sm_id q \<and> sm_kindergartenId (staff_row r q) = sm_kindergartenId q"
  by (simp add: staff_row_def)

lemma staff_save_ok:
  assumes ok: "mentors_ok A s" and run: "staff_save r s = Inr (x, t)" and stay: "sm_isActive r" "sm_archivedAt r = None"
  shows "mentors_ok A t"
  unfolding staff_save_inv[OF run] by (rule staff_write_ok[OF ok staff_row_key]) (simp add: staff_row_def stay)

text \<open>A dismissal: the row is written and the slots of that person are closed.\<close>

lemma dismissal_ok:
  assumes ok: "mentors_ok A s" and keep: "\<And>q. sm_id (f q) = sm_id q \<and> sm_kindergartenId (f q) = sm_kindergartenId q"
  shows "mentors_ok A (s\<lparr>sc_staff := update_where (staff_key kg i) f (sc_staff s),
    sc_mentors := close_slots (\<lambda>m. gm_kindergartenId m = kg \<and> gm_staffMemberId m = i \<and> gm_unassignedAt m = None) now (sc_mentors s)\<rparr>)"
proof -
  let ?rows = "update_where (staff_key kg i) f (sc_staff s)"
  let ?P = "\<lambda>m. gm_kindergartenId m = kg \<and> gm_staffMemberId m = i \<and> gm_unassignedAt m = None"
  have ids: "map sm_id ?rows = map sm_id (sc_staff s)" using keep by (simp add: update_where_def)
  have "holds_rightly A ?rows m" if m: "m \<in> set (close_slots ?P now (sc_mentors s))" for m
    unfolding holds_rightly_def
  proof
    assume a: "gm_unassignedAt m = None"
    with close_slots_mem[OF m] ok obtain r where r: "r \<in> set (sc_staff s)" "staff_key (gm_kindergartenId m) (gm_staffMemberId m) r"
      "gm_kindergartenId m \<notin> A \<longrightarrow> sm_isActive r \<and> sm_archivedAt r = None" "\<not> ?P m"
      by (auto simp: mentors_ok_def holds_rightly_def)
    then have "\<not> staff_key kg i r" using a by (auto simp: staff_key_def)
    then have "r \<in> set ?rows" using r(1) by (force simp: update_where_def)
    with r show "\<exists>r\<in>set ?rows. staff_key (gm_kindergartenId m) (gm_staffMemberId m) r
      \<and> (gm_kindergartenId m \<notin> A \<longrightarrow> sm_isActive r \<and> sm_archivedAt r = None)" by blast
  qed
  with ok ids show ?thesis by (simp add: mentors_ok_def one_mentor_close)
qed

lemma dismiss_run_ok:
  assumes ok: "mentors_ok A s" and r: "staff_key kg i r"
    and save: "staff_save r s = Inr (x, s1)" and cl: "group_unassignMentorByStaffMember kg i now s1 = Inr (n, t)"
  shows "mentors_ok A t"
proof -
  have "t = s\<lparr>sc_staff := update_where (staff_key kg i) (staff_row r) (sc_staff s),
    sc_mentors := close_slots (\<lambda>m. gm_kindergartenId m = kg \<and> gm_staffMemberId m = i \<and> gm_unassignedAt m = None) now (sc_mentors s)\<rparr>"
    using cl staff_save_inv[OF save] r by (auto simp: group_unassignMentorByStaffMember_def Let_def staff_key_def)
  then show ?thesis using dismissal_ok[OF ok staff_row_key] by simp
qed

lemma now_ok: "mentors_ok A s \<Longrightarrow> school_now E s = Inr (now, t) \<Longrightarrow> mentors_ok A t"
  by (auto simp: school_now_def)

lemma lifecycle_preserve:
  "preserves (mentors_ok A) (staff_service_deactivate E kg i)" "preserves (mentors_ok A) (staff_service_activate kg i)"
  "preserves (mentors_ok A) (staff_service_archive E kg i)" "preserves (mentors_ok A) (staff_service_restore kg i)"
proof -
  have "mentors_ok A t" if ok: "mentors_ok A s" and run: "staff_service_deactivate E kg i s = Inr (x, t)" for s x t
  proof -
    obtain r where r: "staff_key kg i r" and rest: "(if \<not> sm_isActive r then returnA r else bindA (school_now E) (\<lambda>now.
       bindA (staff_save (staff_deactivate now r)) (\<lambda>saved.
       bindA (group_unassignMentorByStaffMember kg i now) (\<lambda>_. returnA saved)))) s = Inr (x, t)"
      using run unfolding staff_service_deactivate_def by (auto simp only: act_inv fst_conv snd_conv dest!: staff_or_throw_inv)
    show ?thesis
    proof (cases "sm_isActive r")
      case True
      then obtain now s1 y s2 n where run: "school_now E s = Inr (now, s1)" "staff_save (staff_deactivate now r) s1 = Inr (y, s2)"
        "group_unassignMentorByStaffMember kg i now s2 = Inr (n, t)"
        using rest by (auto simp: act_inv)
      have "staff_key kg i (staff_deactivate now r)" using r by (simp add: staff_key_def staff_deactivate_def)
      from dismiss_run_ok[OF now_ok[OF ok run(1)] this run(2,3)] show ?thesis .
    qed (use ok rest in \<open>simp add: act_inv\<close>)
  qed
  then show "preserves (mentors_ok A) (staff_service_deactivate E kg i)" by (auto simp: preserves_def)
  have "mentors_ok A t" if ok: "mentors_ok A s" and run: "staff_service_archive E kg i s = Inr (x, t)" for s x t
  proof -
    obtain r where r: "staff_key kg i r" and rest: "(if staff_isArchived r then returnA r else bindA (school_now E) (\<lambda>now.
       bindA (staff_save (staff_archive now r)) (\<lambda>saved.
       bindA (group_unassignMentorByStaffMember kg i now) (\<lambda>_. returnA saved)))) s = Inr (x, t)"
      using run unfolding staff_service_archive_def by (auto simp only: act_inv fst_conv snd_conv dest!: staff_or_throw_inv)
    show ?thesis
    proof (cases "staff_isArchived r")
      case False
      then obtain now s1 y s2 n where run: "school_now E s = Inr (now, s1)" "staff_save (staff_archive now r) s1 = Inr (y, s2)"
        "group_unassignMentorByStaffMember kg i now s2 = Inr (n, t)"
        using rest by (auto simp: act_inv)
      have "staff_key kg i (staff_archive now r)" using r by (simp add: staff_key_def staff_archive_def)
      from dismiss_run_ok[OF now_ok[OF ok run(1)] this run(2,3)] show ?thesis .
    qed (use ok rest in \<open>simp add: act_inv\<close>)
  qed
  then show "preserves (mentors_ok A) (staff_service_archive E kg i)" by (auto simp: preserves_def)
  have active: "sm_isActive (staff_activate r) \<and> sm_archivedAt (staff_activate r) = sm_archivedAt r" for r
    by (simp add: staff_activate_def)
  show "preserves (mentors_ok A) (staff_service_activate kg i)"
    unfolding preserves_def staff_service_activate_def
    by (auto simp: act_inv staff_isArchived_def active dest!: staff_or_throw_inv split: if_splits intro: staff_save_ok)
  have restored: "staff_isArchived r \<Longrightarrow> sm_isActive (staff_restore r) \<and> sm_archivedAt (staff_restore r) = None" for r
    by (auto simp: staff_restore_def staff_isArchived_def)
  show "preserves (mentors_ok A) (staff_service_restore kg i)"
    unfolding preserves_def staff_service_restore_def
    by (auto simp: act_inv dest!: staff_or_throw_inv restored split: if_splits intro: staff_save_ok)
qed

lemma staff_patch_key: "sm_id (staff_patch p q) = sm_id q \<and> sm_kindergartenId (staff_patch p q) = sm_kindergartenId q"
  by (simp add: staff_patch_def)

lemma staff_update_preserve [preserve]: "preserves (mentors_ok A) (staff_update kg i p)"
proof -
  have "preserves (mentors_ok A) (staff_write kg i (staff_patch p))"
    unfolding preserves_def staff_write_inv
    by (auto intro!: staff_write_ok[OF _ staff_patch_key] simp: staff_patch_def)
  then show ?thesis unfolding staff_update_def by (intro preserve)
qed

lemma staff_create_preserve [preserve]: "preserves (mentors_ok A) (staff_create r)"
  by (fastforce simp: preserves_def staff_create_def Let_def mentors_ok_def holds_rightly_def list_ex_iff split: if_splits)

lemma user_preserve [preserve]: "preserves (mentors_ok A) (find_or_create_user E phone)"
proof -
  have "preserves (mentors_ok A) (modifyA (\<lambda>s. s\<lparr>sc_users := sc_users s @ [x]\<rparr>))" for x
    by (simp add: preserves_def act_inv)
  then show ?thesis unfolding find_or_create_user_def by (intro preserve)
qed

lemma hiring_preserve:
  "preserves (mentors_ok A) (staff_service_create E kg ci)" "preserves (mentors_ok A) (staff_service_update kg i p)"
  unfolding staff_service_create_def staff_service_update_def Let_def by (intro preserve)+

text \<open>The operations on mentors.\<close>

lemma mentor_insert_ok:
  assumes ok: "mentors_ok A s" and run: "mentor_insert m s = Inr (x, t)" and h: "holds_rightly A (sc_staff s) m"
  shows "mentors_ok A t"
  using assms unfolding mentor_insert_def mentors_ok_def one_mentor_def
  by (auto simp: list_ex_iff mentor_isActive_def split: if_splits) (metis option.distinct(1))

lemma assign_ok:
  assumes ok: "mentors_ok A s" and run: "service_assignMentor E kg g i s = Inr (m, t)"
  shows "mentors_ok A t"
proof -
  obtain r s1 now where r: "r \<in> set (sc_staff s)" "staff_key kg i r" "sm_isActive r" "sm_archivedAt r = None"
    and now: "school_now E s = Inr (now, s1)" and a: "group_assignMentor E kg g i now s1 = Inr (m, t)"
    using run by (auto simp: service_assignMentor_def act_inv staff_isArchived_def dest!: group_or_throw_state staff_or_throw_inv)
  define s2 where "s2 = s1\<lparr>sc_mentors := close_slots (active_slot kg g) now (sc_mentors s1)\<rparr>"
  obtain j s3 where u: "school_uuid E s2 = Inr (j, s3)" and ins: "mentor_insert \<lparr>gm_id = j, gm_kindergartenId = kg, gm_groupId = g,
      gm_staffMemberId = i, gm_isPrimary = True, gm_assignedAt = now, gm_unassignedAt = None\<rparr> s3 = Inr (m, t)"
    using a by (auto simp: group_assignMentor_def act_inv s2_def)
  have "mentors_ok A s3" using mentors_ok_close[OF now_ok[OF ok now]] u by (auto simp: school_uuid_def s2_def)
  moreover have "sc_staff s3 = sc_staff s" using now u by (auto simp: school_now_def school_uuid_def s2_def)
  ultimately show ?thesis using mentor_insert_ok[OF _ ins] r by (auto simp: holds_rightly_def)
qed

lemma unassign_preserve: "preserves (mentors_ok A) (service_unassignMentor E kg g)"
proof -
  have "preserves (mentors_ok A) (modifyA (\<lambda>s. s\<lparr>sc_mentors := close_slots P now (sc_mentors s)\<rparr>))" for P now
    by (simp add: preserves_def act_inv mentors_ok_close)
  then show ?thesis unfolding service_unassignMentor_def group_unassignMentor_def by (intro preserve)
qed

text \<open>Archiving a kindergarten moves it to the exceptions.\<close>

lemma mentors_ok_more: "mentors_ok A s \<Longrightarrow> A \<subseteq> B \<Longrightarrow> mentors_ok B s"
  unfolding mentors_ok_def holds_rightly_def by blast

lemma kindergarten_archive_ok:
  assumes ok: "mentors_ok A s" and run: "staff_deactivateAllByKindergarten kg now s = Inr (n, t)"
  shows "mentors_ok (insert kg A) t"
proof -
  let ?P = "\<lambda>q. sm_kindergartenId q = kg \<and> sm_isActive q"
  let ?f = "\<lambda>q. q\<lparr>sm_isActive := False, sm_firedAt := Some (toDateColumn now)\<rparr>"
  have t: "t = s\<lparr>sc_staff := update_where ?P ?f (sc_staff s)\<rparr>"
    using run by (simp add: staff_deactivateAllByKindergarten_def Let_def)
  have "holds_rightly (insert kg A) (update_where ?P ?f (sc_staff s)) m" if h: "holds_rightly A (sc_staff s) m" for m
    unfolding holds_rightly_def
  proof
    assume "gm_unassignedAt m = None"
    with h obtain r where r: "r \<in> set (sc_staff s)" "staff_key (gm_kindergartenId m) (gm_staffMemberId m) r"
      "gm_kindergartenId m \<notin> A \<longrightarrow> sm_isActive r \<and> sm_archivedAt r = None"
      by (auto simp: holds_rightly_def)
    let ?r = "if ?P r then ?f r else r"
    have "?r \<in> set (update_where ?P ?f (sc_staff s))" using r(1) by (auto simp: update_where_def)
    moreover have "staff_key (gm_kindergartenId m) (gm_staffMemberId m) ?r
      \<and> (gm_kindergartenId m \<notin> insert kg A \<longrightarrow> sm_isActive ?r \<and> sm_archivedAt ?r = None)"
      using r by (auto simp: staff_key_def)
    ultimately show "\<exists>r\<in>set (update_where ?P ?f (sc_staff s)). staff_key (gm_kindergartenId m) (gm_staffMemberId m) r
      \<and> (gm_kindergartenId m \<notin> insert kg A \<longrightarrow> sm_isActive r \<and> sm_archivedAt r = None)" by blast
  qed
  moreover have "map sm_id (update_where ?P ?f (sc_staff s)) = map sm_id (sc_staff s)" by (rule map_update_where) simp
  ultimately show ?thesis using ok by (simp add: mentors_ok_def t)
qed

lemma school_step_ok: "school_step s ls t \<Longrightarrow> mentors_ok A s \<Longrightarrow> mentors_ok (A \<union> set ls) t"
  by (induction rule: school_step.induct)
    (auto intro: preservesD[OF hiring_preserve(1)] preservesD[OF hiring_preserve(2)] preservesD[OF lifecycle_preserve(1)]
      preservesD[OF lifecycle_preserve(2)] preservesD[OF lifecycle_preserve(3)] preservesD[OF lifecycle_preserve(4)]
      preservesD[OF groups_preserve(1)] preservesD[OF groups_preserve(2)] preservesD[OF groups_preserve(3)]
      preservesD[OF groups_preserve(4)] preservesD[OF unassign_preserve] preservesD[OF staff_create_preserve] assign_ok
      kindergarten_archive_ok)

lemma mentors_invariant: "trace school_step s archived t \<Longrightarrow> mentors_ok {} s \<Longrightarrow> mentors_ok (set archived) t"
  by (erule trace_invariant) (auto dest: school_step_ok)

text \<open>
  What the invariant does not say: the role. A mentor who is given another role keeps the group, and is
  still let through by the check the timeline and the stories use.
\<close>

lemma list_ex_update_where: "(\<And>q. P (f q) = P q) \<Longrightarrow> list_ex P (update_where R f rows) = list_ex P rows"
  by (induction rows) (auto simp: update_where_def)

lemma demoted_mentor_keeps_group:
  assumes ok: "distinct (map sm_id (sc_staff s))" and r: "find (staff_key kg i) (sc_staff s) = Some r"
    and st: "sm_archivedAt r = None" "sm_role r = RoleMentor" "sm_specialistType r = None"
    and slot: "isUserActiveMentorForGroup kg (sm_userId r) g s" and role: "us_role p = Some RoleReception" "us_specialistType p = None"
    and run: "staff_service_update kg i p s = Inr (x, t)"
  shows "sm_role x = RoleReception \<and> isUserActiveMentorForGroup kg (sm_userId r) g t"
proof -
  have f: "staff_findById kg i s = Inr (Some r, s)"
    using r st by (simp add: staff_findById_def act_run hydrated_def staff_hydrate_def staff_validateRoleMatrix_def staff_key_def[abs_def])
  obtain t1 where w: "staff_write kg i (staff_patch p) s = Inr ((), t1)" and x: "staff_findById kg i t1 = Inr (Some x, t)"
    using run f by (auto simp: staff_service_update_def staff_or_throw_def act_inv Let_def staff_update_def role st(3))
  have t: "t = s\<lparr>sc_staff := update_where (staff_key kg i) (staff_patch p) (sc_staff s)\<rparr>"
    and fx: "find (staff_key kg i) (sc_staff t) = Some x"
    using w staff_find_inv[OF x] by (auto simp: staff_write_inv)
  from find_SomeD[OF fx] t obtain q where "x = staff_patch p q"
    by (auto simp: update_where_def staff_key_def staff_patch_def split: if_splits)
  then have "sm_role x = RoleReception" by (simp add: staff_patch_def role)
  moreover have "list_ex (\<lambda>r. sm_id r = a \<and> sm_userId r = b) (sc_staff t) = list_ex (\<lambda>r. sm_id r = a \<and> sm_userId r = b) (sc_staff s)" for a b
    unfolding t by (simp add: list_ex_update_where staff_patch_def)
  ultimately show ?thesis using slot by (simp add: isUserActiveMentorForGroup_def t[THEN arg_cong[of _ _ sc_mentors]])
qed

text \<open>The slot a group is found to have: the only open one, and its holder.\<close>

lemma active_mentor_holds:
  assumes ok: "mentors_ok A t" and m: "group_findActiveMentor kg g t = Some m"
  shows "filter (\<lambda>x. gm_groupId x = g \<and> mentor_isActive x) (sc_mentors t) = [m]
    \<and> (\<exists>r\<in>set (sc_staff t). staff_key kg (gm_staffMemberId m) r \<and> (kg \<in> A \<or> sm_isActive r \<and> sm_archivedAt r = None))"
proof -
  have f: "m \<in> set (sc_mentors t)" "gm_kindergartenId m = kg" "gm_groupId m = g" "gm_unassignedAt m = None"
    using find_SomeD[OF m[unfolded group_findActiveMentor_def]] by (auto simp: active_slot_def)
  have d: "distinct (map gm_groupId (filter mentor_isActive (sc_mentors t)))" using ok by (simp add: mentors_ok_def one_mentor_def)
  define L where "L = filter (\<lambda>x. gm_groupId x = g) (filter mentor_isActive (sc_mentors t))"
  have all: "\<forall>x\<in>set L. gm_groupId x = g" and mem: "m \<in> set L" using f by (simp_all add: L_def mentor_isActive_def)
  have dist: "distinct (map gm_groupId L)" unfolding L_def using d by (rule distinct_map_filter)
  obtain a l where L: "L = a # l" using mem by (cases L) auto
  have "l = []" using all dist by (cases l) (simp_all add: L)
  then have "L = [m]" using mem L by simp
  then have "filter (\<lambda>x. gm_groupId x = g \<and> mentor_isActive x) (sc_mentors t) = [m]" by (simp add: L_def conj_commute)
  then show ?thesis using ok f by (auto simp: mentors_ok_def holds_rightly_def)
qed

end
