(* ===== verification/Enrollment.thy ===== *)
theory Enrollment
  imports Child Status_Machine
begin

text \<open>
  Leads of the enrolment funnel (\<open>src/modules/enrollment/domain\<close>): the status with its diagram, the
  aggregate, the entries of the status log, and the replay of a log.
\<close>

subsection \<open>Statuses\<close>

datatype EnrollmentStatus = EnNew | EnInProcessing | EnWaitlist | EnCardCreated | EnCancelled | EnArchive

fun enrollment_transitions :: "EnrollmentStatus \<Rightarrow> EnrollmentStatus list" where
  "enrollment_transitions EnNew = [EnInProcessing]"
| "enrollment_transitions EnInProcessing = [EnWaitlist, EnCardCreated, EnCancelled]"
| "enrollment_transitions EnWaitlist = [EnInProcessing]"
| "enrollment_transitions EnCardCreated = [EnArchive]"
| "enrollment_transitions EnCancelled = [EnArchive]"
| "enrollment_transitions EnArchive = []"

definition canTransitionTo :: "EnrollmentStatus \<Rightarrow> EnrollmentStatus \<Rightarrow> bool" where
  "canTransitionTo s nxt = List.member (enrollment_transitions s) nxt"

definition enrollment_isTerminal :: "EnrollmentStatus \<Rightarrow> bool" where
  "enrollment_isTerminal s \<longleftrightarrow> s = EnArchive"

definition LOCKED_STATUSES :: "EnrollmentStatus list" where
  "LOCKED_STATUSES = [EnCardCreated, EnCancelled, EnArchive]"

subsection \<open>The aggregate\<close>

record EnrollmentState =
  en_id :: uuid
  en_kindergartenId :: uuid
  en_childId :: "uuid option"
  en_contactName :: string
  en_contactPhone :: string
  en_childName :: "string option"
  en_childDob :: "instant option"
  en_childIin :: "string option"
  en_status :: EnrollmentStatus
  en_source :: "string option"
  en_notes :: "string option"
  en_assignedTo :: "uuid option"
  en_statusChangedAt :: instant
  en_createdAt :: instant
  en_updatedAt :: instant

record CreateEnrollmentInput =
  ce_contactName :: string
  ce_contactPhone :: string
  ce_childName :: "string option"
  ce_childDob :: "instant option"
  ce_childIin :: "string option"
  ce_source :: "string option"
  ce_notes :: "string option"
  ce_assignedTo :: "uuid option"

text \<open>A field of a patch: absent, or the new value.\<close>

record UpdateEnrollmentPatch =
  ue_contactName :: "string option"
  ue_contactPhone :: "string option"
  ue_childName :: "string option option"
  ue_childDob :: "instant option option"
  ue_childIin :: "string option option"
  ue_source :: "string option option"
  ue_notes :: "string option option"
  ue_assignedTo :: "uuid option option"

record EnrollmentStatusLogEntry =
  el_enrollmentId :: uuid
  el_kindergartenId :: uuid
  el_fromStatus :: "EnrollmentStatus option"
  el_toStatus :: EnrollmentStatus
  el_changedBy :: uuid
  el_comment :: "string option"
  el_createdAt :: instant

datatype enrollment_fault =
    InvalidEnrollmentStatusTransition EnrollmentStatus EnrollmentStatus
  | EnrollmentAlreadyConverted uuid uuid
  | EnrollmentMissingRequiredFields "string list"
  | EnrollmentLocked EnrollmentStatus

definition isBlankString :: "string option \<Rightarrow> bool" where
  "isBlankString v = (case v of None \<Rightarrow> True | Some s \<Rightarrow> trim s = [])"

definition enrollment_createNew :: "uuid \<Rightarrow> uuid \<Rightarrow> CreateEnrollmentInput \<Rightarrow> instant \<Rightarrow> EnrollmentState" where
  "enrollment_createNew i kg input now =
     \<lparr>en_id = i, en_kindergartenId = kg, en_childId = None, en_contactName = ce_contactName input,
      en_contactPhone = ce_contactPhone input, en_childName = ce_childName input, en_childDob = ce_childDob input,
      en_childIin = ce_childIin input, en_status = EnNew, en_source = ce_source input, en_notes = ce_notes input,
      en_assignedTo = ce_assignedTo input, en_statusChangedAt = now, en_createdAt = now, en_updatedAt = now\<rparr>"

text \<open>The fields a lead must have before its card is created.\<close>

definition missing_fields :: "EnrollmentState \<Rightarrow> string list" where
  "missing_fields s =
     (if isBlankString (en_childName s) then [''childName''] else []) @
     (if en_childDob s = None then [''childDob''] else []) @
     (if isBlankString (Some (en_contactName s)) then [''contactName''] else []) @
     (if isBlankString (Some (en_contactPhone s)) then [''contactPhone''] else [])"

definition conversion_fault :: "EnrollmentState \<Rightarrow> enrollment_fault option" where
  "conversion_fault s =
     (case en_childId s of
        Some c \<Rightarrow> Some (EnrollmentAlreadyConverted (en_id s) c)
      | None \<Rightarrow> if missing_fields s \<noteq> [] then Some (EnrollmentMissingRequiredFields (missing_fields s)) else None)"

definition enrollment_transitionTo ::
  "EnrollmentStatus \<Rightarrow> uuid \<Rightarrow> string option \<Rightarrow> instant \<Rightarrow> EnrollmentState
    \<Rightarrow> enrollment_fault + EnrollmentState \<times> EnrollmentStatusLogEntry" where
  "enrollment_transitionTo nxt by comment now s =
     (if \<not> canTransitionTo (en_status s) nxt then Inl (InvalidEnrollmentStatusTransition (en_status s) nxt)
      else
        (case (if nxt = EnCardCreated then conversion_fault s else None) of
           Some f \<Rightarrow> Inl f
         | None \<Rightarrow>
             Inr (s\<lparr>en_status := nxt, en_statusChangedAt := now, en_updatedAt := now\<rparr>,
               \<lparr>el_enrollmentId = en_id s, el_kindergartenId = en_kindergartenId s, el_fromStatus = Some (en_status s),
                el_toStatus = nxt, el_changedBy = by, el_comment = comment, el_createdAt = now\<rparr>)))"

definition enrollment_assignChild :: "uuid \<Rightarrow> instant \<Rightarrow> EnrollmentState \<Rightarrow> EnrollmentState" where
  "enrollment_assignChild child now s = s\<lparr>en_childId := Some child, en_updatedAt := now\<rparr>"

definition enrollment_assignTo :: "uuid \<Rightarrow> instant \<Rightarrow> EnrollmentState \<Rightarrow> enrollment_fault + EnrollmentState" where
  "enrollment_assignTo staff now s =
     (if enrollment_isTerminal (en_status s) then Inl (EnrollmentLocked (en_status s))
      else Inr (s\<lparr>en_assignedTo := Some staff, en_updatedAt := now\<rparr>))"

definition patched :: "'a \<Rightarrow> 'a option \<Rightarrow> 'a" where
  "patched old v = (case v of None \<Rightarrow> old | Some x \<Rightarrow> x)"

definition enrollment_update :: "UpdateEnrollmentPatch \<Rightarrow> instant \<Rightarrow> EnrollmentState \<Rightarrow> enrollment_fault + EnrollmentState" where
  "enrollment_update p now s =
     (if List.member LOCKED_STATUSES (en_status s) then Inl (EnrollmentLocked (en_status s))
      else Inr (s\<lparr>en_contactName := patched (en_contactName s) (ue_contactName p),
                 en_contactPhone := patched (en_contactPhone s) (ue_contactPhone p),
                 en_childName := patched (en_childName s) (ue_childName p),
                 en_childDob := patched (en_childDob s) (ue_childDob p),
                 en_childIin := patched (en_childIin s) (ue_childIin p),
                 en_source := patched (en_source s) (ue_source p),
                 en_notes := patched (en_notes s) (ue_notes p),
                 en_assignedTo := patched (en_assignedTo s) (ue_assignedTo p), en_updatedAt := now\<rparr>))"

subsection \<open>Replaying a log\<close>

text \<open>The status a list of entries leads to, oldest entry first; \<open>None\<close> when an entry does not continue the
  one before it or is not an edge of the diagram.\<close>

fun replay :: "EnrollmentStatus \<Rightarrow> EnrollmentStatusLogEntry list \<Rightarrow> EnrollmentStatus option" where
  "replay s [] = Some s"
| "replay s (e # es) =
     (if el_fromStatus e = Some s \<and> canTransitionTo s (el_toStatus e) then replay (el_toStatus e) es else None)"

lemma replay_append: "replay s (es @ fs) = (case replay s es of None \<Rightarrow> None | Some t \<Rightarrow> replay t fs)"
  by (induction es arbitrary: s) auto

lemma replay_path: "replay s es = Some t \<Longrightarrow> canTransitionTo\<^sup>*\<^sup>* s t"
  by (induction es arbitrary: s) (auto split: if_splits intro: converse_rtranclp_into_rtranclp)

lemma transition_fields:
  assumes "enrollment_transitionTo nxt by comment now s = Inr (t, e)"
  shows "canTransitionTo (en_status s) nxt" "en_status t = nxt" "en_id t = en_id s" "en_kindergartenId t = en_kindergartenId s"
    "en_childId t = en_childId s" "nxt = EnCardCreated \<Longrightarrow> en_childId s = None \<and> missing_fields s = []"
    "el_enrollmentId e = en_id s" "el_kindergartenId e = en_kindergartenId s" "el_fromStatus e = Some (en_status s)" "el_toStatus e = nxt"
  using assms by (auto simp: enrollment_transitionTo_def conversion_fault_def split: if_splits option.splits)

lemmas enrollment_methods = enrollment_createNew_def enrollment_assignChild_def enrollment_assignTo_def enrollment_update_def

subsection \<open>The state machine\<close>

inductive enrollment_step :: "EnrollmentState \<Rightarrow> EnrollmentState \<Rightarrow> bool" where
  transition: "enrollment_transitionTo nxt by comment now s = Inr (t, e) \<Longrightarrow> enrollment_step s t"
| assignChild: "enrollment_step s (enrollment_assignChild child now s)"
| assignTo: "enrollment_assignTo staff now s = Inr t \<Longrightarrow> enrollment_step s t"
| update: "enrollment_update p now s = Inr t \<Longrightarrow> enrollment_step s t"

inductive_cases enrollment_stepE: "enrollment_step s t"

definition enrollment_edge :: "EnrollmentStatus \<Rightarrow> EnrollmentStatus \<Rightarrow> bool" where
  "enrollment_edge a b \<longleftrightarrow> a = b \<or> canTransitionTo a b"

definition enrollment_ident :: "EnrollmentState \<Rightarrow> uuid \<times> uuid \<times> instant" where
  "enrollment_ident s = (en_id s, en_kindergartenId s, en_createdAt s)"

lemma enrollment_step_edge: "enrollment_step s t \<Longrightarrow> enrollment_edge (en_status s) (en_status t)"
  by (elim enrollment_stepE) (auto simp: enrollment_edge_def enrollment_methods dest: transition_fields(1,2) split: if_splits)

lemma enrollment_step_ident: "enrollment_step s t \<Longrightarrow> enrollment_ident t = enrollment_ident s"
  by (elim enrollment_stepE)
    (auto simp: enrollment_ident_def enrollment_methods enrollment_transitionTo_def split: if_splits option.splits)

interpretation enrollment: status_machine enrollment_step en_status enrollment_edge enrollment_ident
  by unfold_locales (rule enrollment_step_edge, assumption, rule enrollment_step_ident, assumption)

text \<open>A lead that was closed (archived, or converted or cancelled and then archived) is never reopened.\<close>

lemma closed_lead_stays:
  assumes "enrollment_step\<^sup>*\<^sup>* s t" and "en_status s \<in> {EnCardCreated, EnCancelled, EnArchive}"
  shows "en_status t \<in> {EnCardCreated, EnCancelled, EnArchive}"
  by (rule enrollment.steps_closed[OF _ assms]) (auto simp: enrollment_edge_def canTransitionTo_def)

end
