(* ===== verification/Enrollment_Service.thy ===== *)
theory Enrollment_Service
  imports Enrollment Staff Guardian_Service Billing_Run
begin

text \<open>
  The enrolment service (\<open>src/modules/enrollment/enrollment.service.ts\<close>) and its two tables, over the
  state of the billing part (children, guardians, invoices) and of the staff part. A transition to
  \<open>card_created\<close> runs operations of three other services inside the same transaction. Then: the log of
  a lead explains its status, and a lead is converted at most once.
\<close>

subsection \<open>State\<close>

record front_desk =
  fd_billing :: billing_db
  fd_school :: school
  fd_enrollments :: "EnrollmentState list"
  fd_log :: "EnrollmentStatusLogEntry list"
  fd_skipped :: "(uuid \<times> uuid \<times> uuid \<times> uuid list) list" \<comment> \<open>tenant, lead, child, recipients\<close>

datatype desk_error =
    DeskBilling billing_error
  | DeskSchool school_error
  | EnrollmentErr enrollment_fault
  | EnrollmentNotFound uuid
  | EnrollmentTransitionConflict uuid EnrollmentStatus EnrollmentStatus
  | DeskStaffNotFound uuid
  | DeskGroupNotFound uuid
  | DeskFailure string

type_synonym 'a desk_act = "(desk_error, front_desk, 'a) act"

definition inBilling :: "'a op \<Rightarrow> 'a desk_act" where
  "inBilling = actOn fd_billing (\<lambda>b d. d\<lparr>fd_billing := b\<rparr>) DeskBilling"

definition inSchool :: "'a school_act \<Rightarrow> 'a desk_act" where
  "inSchool = actOn fd_school (\<lambda>b d. d\<lparr>fd_school := b\<rparr>) DeskSchool"

subsection \<open>Tables\<close>

definition lead_key :: "uuid \<Rightarrow> uuid \<Rightarrow> EnrollmentState \<Rightarrow> bool" where
  "lead_key kg i r \<longleftrightarrow> en_id r = i \<and> en_kindergartenId r = kg"

definition enrollments_findById :: "uuid \<Rightarrow> uuid \<Rightarrow> front_desk \<Rightarrow> EnrollmentState option" where
  "enrollments_findById kg i d = find (lead_key kg i) (fd_enrollments d)"

definition enrollments_create :: "EnrollmentState \<Rightarrow> EnrollmentState desk_act" where
  "enrollments_create r d =
     (if list_ex (\<lambda>q. en_id q = en_id r) (fd_enrollments d) then Inl (DeskFailure ''enrollments'')
      else Inr (r, d\<lparr>fd_enrollments := fd_enrollments d @ [r]\<rparr>))"

text \<open>Every column but the key and \<open>created_at\<close>.\<close>

definition lead_row :: "EnrollmentState \<Rightarrow> EnrollmentState \<Rightarrow> EnrollmentState" where
  "lead_row r q = r\<lparr>en_id := en_id q, en_kindergartenId := en_kindergartenId q, en_createdAt := en_createdAt q\<rparr>"

definition enrollments_update :: "uuid \<Rightarrow> EnrollmentState \<Rightarrow> EnrollmentState desk_act" where
  "enrollments_update kg r =
     bindA (modifyA (\<lambda>d. d\<lparr>fd_enrollments := update_where (lead_key kg (en_id r)) (lead_row r) (fd_enrollments d)\<rparr>)) (\<lambda>_.
     bindA (readA (enrollments_findById kg (en_id r))) (\<lambda>found.
     foundA found (DeskFailure ''enrollment_update_readback_failed'')))"

definition enrollments_updateWithExpectedStatus :: "uuid \<Rightarrow> EnrollmentState \<Rightarrow> EnrollmentStatus \<Rightarrow> bool desk_act" where
  "enrollments_updateWithExpectedStatus kg r expected d =
     (let P = (\<lambda>q. lead_key kg (en_id r) q \<and> en_status q = expected)
      in Inr (list_ex P (fd_enrollments d), d\<lparr>fd_enrollments := update_where P (lead_row r) (fd_enrollments d)\<rparr>))"

definition enrollments_countInProcessing :: "uuid \<Rightarrow> front_desk \<Rightarrow> nat" where
  "enrollments_countInProcessing kg d =
     length (filter (\<lambda>r. en_kindergartenId r = kg \<and> en_status r \<in> {EnNew, EnInProcessing, EnWaitlist}) (fd_enrollments d))"

definition log_append :: "uuid \<Rightarrow> EnrollmentStatusLogEntry \<Rightarrow> unit desk_act" where
  "log_append kg e = modifyA (\<lambda>d. d\<lparr>fd_log := fd_log d @ [e\<lparr>el_kindergartenId := kg\<rparr>]\<rparr>)"

text \<open>Newest first; entries of the same instant in an order of the database (here: the later one first).\<close>

definition log_listForEnrollment :: "uuid \<Rightarrow> uuid \<Rightarrow> front_desk \<Rightarrow> EnrollmentStatusLogEntry list" where
  "log_listForEnrollment kg i d =
     rev (sort_key el_createdAt (filter (\<lambda>e. el_kindergartenId e = kg \<and> el_enrollmentId e = i) (fd_log d)))"

subsection \<open>The service\<close>

definition assertStaffExists :: "uuid \<Rightarrow> uuid \<Rightarrow> unit desk_act" where
  "assertStaffExists kg staffId =
     bindA (inSchool (staff_findById kg staffId)) (\<lambda>found.
     guardA (found \<noteq> None) (DeskStaffNotFound staffId))"

definition resolveCallerStaffMemberId :: "uuid \<Rightarrow> uuid \<Rightarrow> uuid desk_act" where
  "resolveCallerStaffMemberId kg callerUserId =
     bindA (inSchool (staff_findActiveByUserAndKindergarten callerUserId kg)) (\<lambda>found.
     bindA (foundA found (DeskStaffNotFound callerUserId)) (\<lambda>s. returnA (sm_id s)))"

definition lead_or_throw :: "uuid \<Rightarrow> uuid \<Rightarrow> EnrollmentState desk_act" where
  "lead_or_throw kg i =
     bindA (readA (enrollments_findById kg i)) (\<lambda>found. foundA found (EnrollmentNotFound i))"

definition enrollment_service_create :: "billing_env \<Rightarrow> uuid \<Rightarrow> CreateEnrollmentInput \<Rightarrow> EnrollmentState desk_act" where
  "enrollment_service_create E kg input =
     bindA (case ce_assignedTo input of None \<Rightarrow> returnA () | Some staff \<Rightarrow> assertStaffExists kg staff) (\<lambda>_.
     bindA (inBilling (nowM E)) (\<lambda>now.
     bindA (inBilling (randomUUID E)) (\<lambda>i.
     enrollments_create (enrollment_createNew i kg input now))))"

definition enrollment_service_update :: "billing_env \<Rightarrow> uuid \<Rightarrow> uuid \<Rightarrow> UpdateEnrollmentPatch \<Rightarrow> EnrollmentState desk_act" where
  "enrollment_service_update E kg i p =
     bindA (lead_or_throw kg i) (\<lambda>enrollment.
     bindA (case ue_assignedTo p of Some (Some staff) \<Rightarrow> assertStaffExists kg staff | _ \<Rightarrow> returnA ()) (\<lambda>_.
     bindA (inBilling (nowM E)) (\<lambda>now.
     bindA (liftA EnrollmentErr (enrollment_update p now enrollment)) (\<lambda>updated.
     enrollments_update kg updated))))"

definition enrollment_service_getById :: "uuid \<Rightarrow> uuid \<Rightarrow> (EnrollmentState \<times> EnrollmentStatusLogEntry list) desk_act" where
  "enrollment_service_getById kg i =
     bindA (lead_or_throw kg i) (\<lambda>enrollment.
     bindA (readA (log_listForEnrollment kg i)) (\<lambda>log. returnA (enrollment, log)))"

definition enrollment_service_assign :: "billing_env \<Rightarrow> uuid \<Rightarrow> uuid \<Rightarrow> uuid \<Rightarrow> EnrollmentState desk_act" where
  "enrollment_service_assign E kg i staffId =
     bindA (lead_or_throw kg i) (\<lambda>enrollment.
     bindA (assertStaffExists kg staffId) (\<lambda>_.
     bindA (inBilling (nowM E)) (\<lambda>now.
     bindA (liftA EnrollmentErr (enrollment_assignTo staffId now enrollment)) (\<lambda>updated.
     enrollments_update kg updated))))"

subsection \<open>The transition\<close>

record TransitionEnrollmentInput =
  te_toStatus :: EnrollmentStatus
  te_comment :: "string option"
  te_currentGroupId :: "uuid option"

definition validateCardCreatedPayload :: "EnrollmentState \<Rightarrow> TransitionEnrollmentInput \<Rightarrow> unit desk_act" where
  "validateCardCreatedPayload enrollment input =
     (let missing = missing_fields enrollment @ (if te_currentGroupId input = None then [''currentGroupId''] else [])
      in guardA (missing = []) (EnrollmentErr (EnrollmentMissingRequiredFields missing)))"

text \<open>The first invoice: a missing tariff is reported to the administrators, other errors go on.\<close>

definition first_invoice_or_notice ::
  "billing_env \<Rightarrow> uuid \<Rightarrow> uuid \<Rightarrow> uuid \<Rightarrow> instant \<Rightarrow> unit desk_act" where
  "first_invoice_or_notice E kg enrollmentId childId enrollmentDate d =
     (case inBilling (generateFirstInvoice E kg childId enrollmentDate) d of
        Inr (_, d') \<Rightarrow> Inr ((), d')
      | Inl e \<Rightarrow>
          if (case e of DeskBilling (TariffAssignmentNotFound _) \<Rightarrow> True | _ \<Rightarrow> False)
          then Inr ((), d\<lparr>fd_skipped := fd_skipped d @ [(kg, enrollmentId, childId,
                 remdups (map sm_userId (filter (\<lambda>r. sm_kindergartenId r = kg \<and> sm_role r = RoleAdmin \<and> sm_isActive r)
                   (sc_staff (fd_school d)))))]\<rparr>)
          else Inl e)"

definition convert_lead ::
  "billing_env \<Rightarrow> uuid \<Rightarrow> EnrollmentState \<Rightarrow> TransitionEnrollmentInput \<Rightarrow> uuid \<Rightarrow> EnrollmentState desk_act" where
  "convert_lead E kg enrollment input callerUserId =
     bindA (inBilling (createChild E kg \<lparr>cc_fullName = the (en_childName enrollment), cc_iin = en_childIin enrollment,
       cc_dateOfBirth = the (en_childDob enrollment), cc_gender = None, cc_photoUrl = None,
       cc_groupId = te_currentGroupId input, cc_medicalNotes = None, cc_allergyNotes = None\<rparr>)) (\<lambda>child.
     bindA (inBilling (inviteGuardian E kg \<lparr>ig_childId = ch_id child, ig_userPhone = Some (en_contactPhone enrollment),
       ig_userId = None, ig_role = PrimaryGuardian, ig_canPickup = Some True, ig_invitedByUserId = callerUserId\<rparr>)) (\<lambda>_.
     bindA (inBilling (nowM E)) (\<lambda>now.
     let linked = enrollment_assignChild (ch_id child) now enrollment in
     bindA (inBilling (nowM E)) (\<lambda>enrollmentDate.
     bindA (first_invoice_or_notice E kg (en_id enrollment) (ch_id child) enrollmentDate) (\<lambda>_.
     returnA linked)))))"

definition enrollment_service_transition ::
  "billing_env \<Rightarrow> uuid \<Rightarrow> uuid \<Rightarrow> TransitionEnrollmentInput \<Rightarrow> uuid \<Rightarrow> EnrollmentState desk_act" where
  "enrollment_service_transition E kg i input callerUserId =
     bindA (lead_or_throw kg i) (\<lambda>enrollment.
     bindA (resolveCallerStaffMemberId kg callerUserId) (\<lambda>callerStaffId.
     let nxt = te_toStatus input in
     bindA (whenA (nxt = EnCardCreated)
       (bindA (validateCardCreatedPayload enrollment input) (\<lambda>_.
        bindA (readA (\<lambda>d. groups_findById kg (the (te_currentGroupId input)) (fd_billing d))) (\<lambda>found.
        guardA found (DeskGroupNotFound (the (te_currentGroupId input))))))) (\<lambda>_.
     let oldStatus = en_status enrollment in
     bindA (inBilling (nowM E)) (\<lambda>now.
     bindA (liftA EnrollmentErr (enrollment_transitionTo nxt callerStaffId (te_comment input) now enrollment)) (\<lambda>(moved, logEntry).
     bindA (if nxt = EnCardCreated then convert_lead E kg moved input callerUserId else returnA moved) (\<lambda>result.
     bindA (enrollments_updateWithExpectedStatus kg result oldStatus) (\<lambda>written.
     bindA (guardA written (EnrollmentTransitionConflict (en_id result) oldStatus nxt)) (\<lambda>_.
     bindA (log_append kg logEntry) (\<lambda>_.
     bindA (readA (enrollments_findById kg (en_id result))) (\<lambda>updated.
     foundA updated (EnrollmentNotFound (en_id result))))))))))))"

subsection \<open>The log explains the status\<close>

inductive desk_step :: "front_desk \<Rightarrow> front_desk \<Rightarrow> bool" where
  create: "enrollment_service_create E kg ci d = Inr (r, d') \<Longrightarrow> desk_step d d'"
| update: "enrollment_service_update E kg i p d = Inr (r, d') \<Longrightarrow> desk_step d d'"
| assign: "enrollment_service_assign E kg i staff d = Inr (r, d') \<Longrightarrow> desk_step d d'"
| transition: "enrollment_service_transition E kg i ti u d = Inr (r, d') \<Longrightarrow> desk_step d d'"

definition log_of :: "uuid \<Rightarrow> uuid \<Rightarrow> front_desk \<Rightarrow> EnrollmentStatusLogEntry list" where
  "log_of kg i d = filter (\<lambda>e. el_kindergartenId e = kg \<and> el_enrollmentId e = i) (fd_log d)"

definition link_ok :: "EnrollmentState \<Rightarrow> bool" where
  "link_ok r \<longleftrightarrow> (en_childId r \<noteq> None \<longrightarrow> en_status r \<in> {EnCardCreated, EnArchive}) \<and> (en_status r = EnCardCreated \<longrightarrow> en_childId r \<noteq> None)"

definition desk_ok :: "front_desk \<Rightarrow> bool" where
  "desk_ok d \<longleftrightarrow> distinct (map en_id (fd_enrollments d))
     \<and> (\<forall>e\<in>set (fd_log d). \<exists>r\<in>set (fd_enrollments d). en_id r = el_enrollmentId e)
     \<and> (\<forall>r\<in>set (fd_enrollments d). link_ok r \<and> replay EnNew (log_of (en_kindergartenId r) (en_id r) d) = Some (en_status r))"

lemma desk_ok_cong: "fd_enrollments d' = fd_enrollments d \<Longrightarrow> fd_log d' = fd_log d \<Longrightarrow> desk_ok d' = desk_ok d"
  by (simp add: desk_ok_def log_of_def)

text \<open>What an act leaves alone: leads and log.\<close>

definition files :: "front_desk \<Rightarrow> EnrollmentState list \<times> EnrollmentStatusLogEntry list" where
  "files d = (fd_enrollments d, fd_log d)"

definition quiet :: "'a desk_act \<Rightarrow> bool" where
  "quiet m \<longleftrightarrow> (\<forall>d x d'. m d = Inr (x, d') \<longrightarrow> files d' = files d)"

named_theorems quiets \<open>acts that leave the leads alone\<close>

lemma quietD: "quiet m \<Longrightarrow> m d = Inr (x, d') \<Longrightarrow> fd_enrollments d' = fd_enrollments d \<and> fd_log d' = fd_log d"
  by (auto simp: quiet_def files_def)

lemma quiet_bind [quiets]: "quiet m \<Longrightarrow> (\<And>x. quiet (k x)) \<Longrightarrow> quiet (bindA m k)"
  unfolding quiet_def by (metis act_inv_rules)

lemma quiet_basic [quiets]:
  "quiet (inBilling m)" "quiet (inSchool m')" "quiet (returnA x)" "quiet (readA g)" "quiet (foundA v e)" "quiet (guardA b e')"
  by (auto simp: quiet_def inBilling_def inSchool_def act_inv files_def)

lemma quiet_when [quiets]: "quiet m \<Longrightarrow> quiet (whenA b m)"
  by (simp add: quiet_def act_inv)

lemma quiet_option [quiets]: "quiet m \<Longrightarrow> (\<And>x. quiet (f x)) \<Longrightarrow> quiet (case v of None \<Rightarrow> m | Some x \<Rightarrow> f x)"
  by (cases v) auto

lemma quiet_first_invoice [quiets]: "quiet (first_invoice_or_notice E kg i c t)"
  unfolding quiet_def first_invoice_or_notice_def
  using quiet_basic(1)[of "generateFirstInvoice E kg c t", unfolded quiet_def]
  by (auto simp: files_def split: sum.splits if_splits)

lemma quiet_parts [quiets]:
  "quiet (assertStaffExists kg staff)" "quiet (resolveCallerStaffMemberId kg u)" "quiet (validateCardCreatedPayload r ti)"
  "quiet (lead_or_throw kg i)" "quiet (convert_lead E kg r ti u)"
  unfolding assertStaffExists_def resolveCallerStaffMemberId_def validateCardCreatedPayload_def lead_or_throw_def convert_lead_def Let_def
  by (intro quiets)+

lemma lead_or_throw_inv: "lead_or_throw kg i d = Inr (r, d') \<Longrightarrow> d' = d \<and> r \<in> set (fd_enrollments d) \<and> lead_key kg i r"
  by (auto simp: lead_or_throw_def enrollments_findById_def act_inv dest: find_SomeD)

lemma lead_unique: "distinct (map en_id rows) \<Longrightarrow> r \<in> set rows \<Longrightarrow> q \<in> set rows \<Longrightarrow> lead_key kg i r \<Longrightarrow> lead_key kg i q \<Longrightarrow> q = r"
  by (auto simp: lead_key_def distinct_map dest: inj_onD)

lemma lead_row_fields [simp]:
  "en_id (lead_row t q) = en_id q" "en_kindergartenId (lead_row t q) = en_kindergartenId q"
  "en_status (lead_row t q) = en_status t" "en_childId (lead_row t q) = en_childId t"
  by (simp_all add: lead_row_def)

text \<open>Writing one lead: it is enough to look at that lead.\<close>

lemma desk_ok_write:
  assumes ok: "desk_ok d" and r: "r \<in> set (fd_enrollments d)" "lead_key kg i r"
    and P: "\<And>q. P q \<Longrightarrow> lead_key kg i q" "P r"
    and rows: "fd_enrollments d' = update_where P (lead_row t) (fd_enrollments d)"
    and log: "fd_log d' = fd_log d @ es" "\<forall>e\<in>set es. el_kindergartenId e = kg \<and> el_enrollmentId e = i"
    and link: "link_ok t" and path: "replay (en_status r) es = Some (en_status t)"
  shows "desk_ok d'"
proof -
  have ids: "map en_id (fd_enrollments d') = map en_id (fd_enrollments d)" by (simp add: rows update_where_def)
  have uniq: "distinct (map en_id (fd_enrollments d))" using ok by (simp add: desk_ok_def)
  have mem: "q' \<in> set (fd_enrollments d') \<Longrightarrow> q' = lead_row t r \<or> q' \<in> set (fd_enrollments d) \<and> \<not> lead_key kg i q'" for q'
  proof -
    assume "q' \<in> set (fd_enrollments d')"
    then obtain q where q: "q \<in> set (fd_enrollments d)" "q' = (if P q then lead_row t q else q)"
      unfolding rows update_where_def set_map by (elim imageE) simp
    have "lead_key kg i q \<Longrightarrow> q = r" using lead_unique[OF uniq r(1) q(1) r(2)] by simp
    then show ?thesis using q P by (cases "lead_key kg i q") auto
  qed
  have old: "log_of k j d' = (if k = kg \<and> j = i then log_of k j d @ es else log_of k j d)" for k j
  proof -
    have "filter (\<lambda>e. el_kindergartenId e = k \<and> el_enrollmentId e = j) es = (if k = kg \<and> j = i then es else [])"
    proof (cases "k = kg \<and> j = i")
      case True
      then have "filter (\<lambda>e. el_kindergartenId e = k \<and> el_enrollmentId e = j) es = es" using log(2) by (intro filter_True) simp
      then show ?thesis unfolding if_P[OF True] .
    next
      case False
      then have "filter (\<lambda>e. el_kindergartenId e = k \<and> el_enrollmentId e = j) es = []" using log(2) by (intro filter_False) metis
      then show ?thesis unfolding if_not_P[OF False] .
    qed
    then show ?thesis unfolding log_of_def log(1) filter_append by (simp only: append_Nil2 split: if_split) blast
  qed
  have "link_ok q \<and> replay EnNew (log_of (en_kindergartenId q) (en_id q) d') = Some (en_status q)"
    if "q \<in> set (fd_enrollments d')" for q
    using mem[OF that]
  proof
    assume q: "q = lead_row t r"
    have "replay EnNew (log_of (en_kindergartenId r) (en_id r) d) = Some (en_status r)" using ok r(1) unfolding desk_ok_def by blast
    then have "replay EnNew (log_of kg i d) = Some (en_status r)" using r(2) by (simp add: lead_key_def)
    moreover have "en_id q = i" "en_kindergartenId q = kg" "en_status q = en_status t" "link_ok q"
      using q link r(2) by (simp_all add: lead_key_def link_ok_def)
    ultimately show ?thesis using path by (simp add: old replay_append)
  next
    assume "q \<in> set (fd_enrollments d) \<and> \<not> lead_key kg i q"
    then have "link_ok q" "replay EnNew (log_of (en_kindergartenId q) (en_id q) d) = Some (en_status q)"
      "\<not> (en_kindergartenId q = kg \<and> en_id q = i)"
      using ok unfolding desk_ok_def lead_key_def by blast+
    then show ?thesis by (simp only: old if_False simp_thms)
  qed
  moreover have "\<exists>q\<in>set (fd_enrollments d'). en_id q = el_enrollmentId e" if "e \<in> set (fd_log d')" for e
  proof -
    have "el_enrollmentId e \<in> set (map en_id (fd_enrollments d))"
    proof (cases "e \<in> set es")
      case True
      then show ?thesis using log(2) r by (auto simp: lead_key_def)
    next
      case False
      then have "e \<in> set (fd_log d)" using that log(1) by simp
      then obtain q where "q \<in> set (fd_enrollments d)" "en_id q = el_enrollmentId e" using ok unfolding desk_ok_def by blast
      then show ?thesis by force
    qed
    then show ?thesis unfolding ids[symmetric] by auto
  qed
  ultimately show ?thesis unfolding desk_ok_def ids using uniq by blast
qed

lemma update_inv:
  assumes "enrollments_update kg t d = Inr (x, d')"
  shows "fd_enrollments d' = update_where (lead_key kg (en_id t)) (lead_row t) (fd_enrollments d) \<and> fd_log d' = fd_log d"
  using assms by (auto simp: enrollments_update_def act_inv)

lemma desk_edit_ok:
  assumes ok: "desk_ok d" and r: "r \<in> set (fd_enrollments d)" "lead_key kg i r"
    and same: "fd_enrollments d1 = fd_enrollments d" "fd_log d1 = fd_log d"
    and t: "en_id t = i" "en_status t = en_status r" "en_childId t = en_childId r"
    and run: "enrollments_update kg t d1 = Inr (x, d')"
  shows "desk_ok d'"
proof (rule desk_ok_write[OF ok r, where P = "lead_key kg i" and t = t and es = "[]"])
  have "link_ok r" using ok r by (auto simp: desk_ok_def)
  then show "link_ok t" using t by (simp add: link_ok_def)
  show "fd_enrollments d' = update_where (lead_key kg i) (lead_row t) (fd_enrollments d)" "fd_log d' = fd_log d @ []"
    using update_inv[OF run] same t(1) by simp_all
qed (use r t in simp_all)

lemma bindA_returned:
  assumes "bindA m k s = Inr r"
  obtains y t where "m s = Inr (y, t)" "k y t = Inr r"
  using assms by (auto simp: act_inv)

lemma lead_or_throw_returned:
  assumes "lead_or_throw kg i d = Inr (r, d')"
  shows "d' = d" "r \<in> set (fd_enrollments d)" "lead_key kg i r"
  using lead_or_throw_inv[OF assms] by simp_all

lemma liftA_returned: "liftA h w s = Inr (x, t) \<Longrightarrow> w = Inr x \<and> t = s"
  by (simp add: act_inv)

lemma step_update:
  assumes run: "enrollment_service_update E kg i p d = Inr (x, d')" and ok: "desk_ok d"
  shows "desk_ok d'"
proof -
  let ?check = "case ue_assignedTo p of Some (Some staff) \<Rightarrow> assertStaffExists kg staff | _ \<Rightarrow> returnA ()"
  obtain r d0 u d1 now d2 t d3 where r0: "lead_or_throw kg i d = Inr (r, d0)" and d1: "?check d0 = Inr (u, d1)"
    and d2: "inBilling (nowM E) d1 = Inr (now, d2)" and t0: "liftA EnrollmentErr (enrollment_update p now r) d2 = Inr (t, d3)"
    and w: "enrollments_update kg t d3 = Inr (x, d')"
    using run unfolding enrollment_service_update_def by (elim bindA_returned)
  note r = lead_or_throw_returned[OF r0] and t = liftA_returned[OF t0]
  have "quiet ?check" by (auto split: option.splits intro: quiets)
  from quietD[OF this d1] quietD[OF quiet_basic(1) d2] r(1) t
  have same: "fd_enrollments d3 = fd_enrollments d" "fd_log d3 = fd_log d" by simp_all
  show ?thesis
    using t r(3) by (intro desk_edit_ok[OF ok r(2,3) same _ _ _ w]) (auto simp: enrollment_update_def lead_key_def Let_def split: if_splits)
qed

lemma step_assign:
  assumes run: "enrollment_service_assign E kg i staff d = Inr (x, d')" and ok: "desk_ok d"
  shows "desk_ok d'"
proof -
  obtain r d0 u d1 now d2 t d3 where r0: "lead_or_throw kg i d = Inr (r, d0)" and d1: "assertStaffExists kg staff d0 = Inr (u, d1)"
    and d2: "inBilling (nowM E) d1 = Inr (now, d2)" and t0: "liftA EnrollmentErr (enrollment_assignTo staff now r) d2 = Inr (t, d3)"
    and w: "enrollments_update kg t d3 = Inr (x, d')"
    using run unfolding enrollment_service_assign_def by (elim bindA_returned)
  note r = lead_or_throw_returned[OF r0] and t = liftA_returned[OF t0]
  from quietD[OF quiet_parts(1) d1] quietD[OF quiet_basic(1) d2] r(1) t
  have same: "fd_enrollments d3 = fd_enrollments d" "fd_log d3 = fd_log d" by simp_all
  show ?thesis
    using t r(3) by (intro desk_edit_ok[OF ok r(2,3) same _ _ _ w]) (auto simp: enrollment_assignTo_def lead_key_def Let_def split: if_splits)
qed

lemma step_create:
  assumes run: "enrollment_service_create E kg ci d = Inr (x, d')" and ok: "desk_ok d"
  shows "desk_ok d'"
proof -
  let ?check = "case ce_assignedTo ci of None \<Rightarrow> returnA () | Some staff \<Rightarrow> assertStaffExists kg staff"
  obtain u d1 now d2 i d3 where d1: "?check d = Inr (u, d1)"
    and d2: "inBilling (nowM E) d1 = Inr (now, d2)" and d3: "inBilling (randomUUID E) d2 = Inr (i, d3)"
    and w: "enrollments_create (enrollment_createNew i kg ci now) d3 = Inr (x, d')"
    using run unfolding enrollment_service_create_def by (elim bindA_returned)
  have "quiet ?check" by (intro quiets)
  from quietD[OF this d1] quietD[OF quiet_basic(1) d2] quietD[OF quiet_basic(1) d3]
  have same: "fd_enrollments d3 = fd_enrollments d" "fd_log d3 = fd_log d" by simp_all
  let ?r = "enrollment_createNew i kg ci now"
  have d': "fd_enrollments d' = fd_enrollments d @ [?r]" "fd_log d' = fd_log d" and new: "\<forall>q\<in>set (fd_enrollments d). en_id q \<noteq> i"
    using w same by (auto simp: enrollments_create_def enrollment_createNew_def list_ex_iff split: if_splits)
  have "log_of kg i d = []" using ok new by (auto simp: desk_ok_def log_of_def filter_empty_conv)
  then have r: "link_ok ?r \<and> replay EnNew (log_of (en_kindergartenId ?r) (en_id ?r) d) = Some (en_status ?r)"
    by (simp add: enrollment_createNew_def link_ok_def)
  have "distinct (map en_id (fd_enrollments d'))"
    using ok new by (auto simp: desk_ok_def d' enrollment_createNew_def)
  moreover have "\<forall>e\<in>set (fd_log d'). \<exists>q\<in>set (fd_enrollments d'). en_id q = el_enrollmentId e"
    using ok unfolding desk_ok_def d' by (auto dest: bspec)
  moreover have "log_of k j d' = log_of k j d" for k j by (simp add: log_of_def d')
  ultimately show ?thesis using ok r unfolding desk_ok_def by (simp add: d')
qed

text \<open>The transition: the conditional update and the log entry belong together.\<close>

lemma convert_returned:
  assumes run: "convert_lead E kg r ti u d = Inr (t, d')"
  shows "\<exists>c now. t = enrollment_assignChild c now r"
  using run unfolding convert_lead_def Let_def by (elim bindA_returned) (auto simp: act_inv)

lemma conditional_update_returned:
  assumes "enrollments_updateWithExpectedStatus kg t old d = Inr (w, d')"
  shows "fd_enrollments d' = update_where (\<lambda>q. lead_key kg (en_id t) q \<and> en_status q = old) (lead_row t) (fd_enrollments d) \<and> fd_log d' = fd_log d"
  using assms by (auto simp: enrollments_updateWithExpectedStatus_def Let_def)

lemma step_transition:
  assumes run: "enrollment_service_transition E kg i ti u d = Inr (x, d')" and ok: "desk_ok d"
  shows "desk_ok d'"
proof -
  let ?nxt = "te_toStatus ti"
  let ?check = "\<lambda>enrollment. whenA (?nxt = EnCardCreated)
       (bindA (validateCardCreatedPayload enrollment ti) (\<lambda>_.
        bindA (readA (\<lambda>d. groups_findById kg (the (te_currentGroupId ti)) (fd_billing d))) (\<lambda>found.
        guardA found (DeskGroupNotFound (the (te_currentGroupId ti))))))"
  obtain r d0 s d1 v d2 now d3 me d4 t d5 written d6 v' d7 v'' d8 found d9 where r0: "lead_or_throw kg i d = Inr (r, d0)"
    and d1: "resolveCallerStaffMemberId kg u d0 = Inr (s, d1)" and d2: "?check r d1 = Inr (v, d2)"
    and d3: "inBilling (nowM E) d2 = Inr (now, d3)"
    and m0: "liftA EnrollmentErr (enrollment_transitionTo ?nxt s (te_comment ti) now r) d3 = Inr (me, d4)"
    and d5: "(if ?nxt = EnCardCreated then convert_lead E kg (fst me) ti u else returnA (fst me)) d4 = Inr (t, d5)"
    and d6: "enrollments_updateWithExpectedStatus kg t (en_status r) d5 = Inr (written, d6)"
    and d7: "guardA written (EnrollmentTransitionConflict (en_id t) (en_status r) ?nxt) d6 = Inr (v', d7)"
    and d8: "log_append kg (snd me) d7 = Inr (v'', d8)"
    and d9: "readA (enrollments_findById kg (en_id t)) d8 = (Inr (found, d9) :: (desk_error, _, _) outcome)"
    and d': "foundA found (EnrollmentNotFound (en_id t)) d9 = Inr (x, d')"
    using run unfolding enrollment_service_transition_def Let_def case_prod_beta
    by (elim bindA_returned)
  note r = lead_or_throw_returned[OF r0] and m = liftA_returned[OF m0]
  obtain moved e where me: "me = (moved, e)" by (cases me)
  note f = transition_fields[OF m[unfolded me, THEN conjunct1]]
  have "quiet (?check r)" by (intro quiets)
  from quietD[OF quiet_parts(2) d1] quietD[OF this d2] quietD[OF quiet_basic(1) d3] r(1) m
  have same: "fd_enrollments d4 = fd_enrollments d" "fd_log d4 = fd_log d" by simp_all
  have "quiet (if ?nxt = EnCardCreated then convert_lead E kg (fst me) ti u else returnA (fst me))"
    by (cases "?nxt = EnCardCreated") (simp_all add: quiet_parts(5) quiet_basic(3))
  from quietD[OF this d5] same have same': "fd_enrollments d5 = fd_enrollments d" "fd_log d5 = fd_log d" by simp_all
  have ids: "en_id t = i" "en_status t = ?nxt" and
    child: "?nxt = EnCardCreated \<Longrightarrow> en_childId t \<noteq> None" "?nxt \<noteq> EnCardCreated \<Longrightarrow> en_childId t = en_childId r"
    using d5 me f(2,3,5) r(3)
    by (auto simp: act_inv lead_key_def enrollment_assignChild_def dest!: convert_returned split: if_splits)
  have lr: "link_ok r" using ok r unfolding desk_ok_def by blast
  have link: "link_ok t"
    using lr child f(1) ids(2) by (cases "en_status r"; cases ?nxt) (auto simp: link_ok_def canTransitionTo_def)
  have key: "el_enrollmentId e = i" using f(7) r(3) by (simp add: lead_key_def)
  have rows: "fd_enrollments d' = update_where (\<lambda>q. lead_key kg i q \<and> en_status q = en_status r) (lead_row t) (fd_enrollments d)"
    and log: "fd_log d' = fd_log d @ [e\<lparr>el_kindergartenId := kg\<rparr>]"
    using conditional_update_returned[OF d6] d7 d8 d9 d' same' ids me by (simp_all add: log_append_def act_inv)
  show ?thesis
  proof (rule desk_ok_write[OF ok r(2,3) _ _ rows log _ link])
    show "replay (en_status r) [e\<lparr>el_kindergartenId := kg\<rparr>] = Some (en_status t)"
      using f(1,9,10) ids(2) by simp
  qed (use key r(3) in simp_all)
qed

lemma desk_step_ok: "desk_step d d' \<Longrightarrow> desk_ok d \<Longrightarrow> desk_ok d'"
  by (induction rule: desk_step.induct) (blast intro: step_update step_assign step_create step_transition)+

lemma desk_invariant: "desk_step\<^sup>*\<^sup>* d d' \<Longrightarrow> desk_ok d \<Longrightarrow> desk_ok d'"
  by (induction rule: rtranclp_induct) (blast intro: desk_step_ok)+

end
