(* ===== verification/Sample_School.thy ===== *)
theory Sample_School
  imports Samples Staff_Service Enrollment_Service
begin

text \<open>
  The small kindergarten of \<open>Samples\<close> with its people: an administrator, a mentor and a group, and a
  front desk that has no leads yet.
\<close>

definition sample_staff :: "uuid \<Rightarrow> uuid \<Rightarrow> StaffRole \<Rightarrow> StaffMemberState" where
  "sample_staff i u role = \<lparr>sm_id = i, sm_kindergartenId = ''kg'', sm_userId = u, sm_fullName = Some ''Dana'', sm_phone = None,
     sm_role = role, sm_specialistType = None, sm_isActive = True, sm_hiredAt = None, sm_firedAt = None, sm_archivedAt = None\<rparr>"

definition sample_group :: GroupState where
  "sample_group = \<lparr>gr_id = ''group'', gr_kindergartenId = ''kg'', gr_name = ''Stars'', gr_capacity = 20,
     gr_ageRangeMin = None, gr_ageRangeMax = None, gr_currentLocationId = None, gr_archivedAt = None\<rparr>"

definition sample_slot :: GroupMentorState where
  "sample_slot = \<lparr>gm_id = ''slot'', gm_kindergartenId = ''kg'', gm_groupId = ''group'', gm_staffMemberId = ''mentor'',
     gm_isPrimary = True, gm_assignedAt = 0, gm_unassignedAt = None\<rparr>"

definition small_school :: "GroupMentorState list \<Rightarrow> school" where
  "small_school ms = \<lparr>sc_staff = [sample_staff ''admin'' ''user-1'' RoleAdmin, sample_staff ''mentor'' ''user-2'' RoleMentor],
     sc_groups = [sample_group], sc_mentors = ms, sc_locations = [], sc_specialistTypes = [], sc_users = [],
     sc_clockReads = 0, sc_uuidDraws = 0\<rparr>"

definition small_desk :: front_desk where
  "small_desk = \<lparr>fd_billing = no_rows, fd_school = small_school [], fd_enrollments = [], fd_log = [], fd_skipped = []\<rparr>"

definition sample_lead :: CreateEnrollmentInput where
  "sample_lead = \<lparr>ce_contactName = ''Aigul'', ce_contactPhone = ''+77010000000'', ce_childName = None, ce_childDob = None,
     ce_childIin = None, ce_source = None, ce_notes = None, ce_assignedTo = None\<rparr>"

definition to_processing :: TransitionEnrollmentInput where
  "to_processing = \<lparr>te_toStatus = EnInProcessing, te_comment = None, te_currentGroupId = None\<rparr>"

definition lead_created :: "EnrollmentState \<times> front_desk" where
  "lead_created = projr (enrollment_service_create E0 ''kg'' sample_lead small_desk)"

definition lead_moved :: "EnrollmentState \<times> front_desk" where
  "lead_moved = projr (enrollment_service_transition E0 ''kg'' (en_id (fst lead_created)) to_processing ''user-1'' (snd lead_created))"

lemma lead_created_run: "enrollment_service_create E0 ''kg'' sample_lead small_desk = Inr lead_created"
  by code_simp

lemma lead_moved_run:
  "enrollment_service_transition E0 ''kg'' (en_id (fst lead_created)) to_processing ''user-1'' (snd lead_created) = Inr lead_moved"
  by code_simp

lemma lead_steps: "desk_step\<^sup>*\<^sup>* small_desk (snd lead_moved)"
proof -
  have "desk_step small_desk (snd lead_created)"
    by (rule desk_step.create[where E = E0 and kg = "''kg''" and ci = sample_lead and r = "fst lead_created"]) (simp add: lead_created_run)
  moreover have "desk_step (snd lead_created) (snd lead_moved)"
    by (rule desk_step.transition[where E = E0 and kg = "''kg''" and i = "en_id (fst lead_created)" and ti = to_processing
        and u = "''user-1''" and r = "fst lead_moved"]) (simp add: lead_moved_run)
  ultimately show ?thesis by simp
qed

lemma small_desk_ok: "desk_ok small_desk"
  by (simp add: small_desk_def desk_ok_def)

definition mentor_deactivated :: "StaffMemberState \<times> school" where
  "mentor_deactivated = projr (staff_service_deactivate E0 ''kg'' ''mentor'' (small_school [sample_slot]))"

lemma mentor_deactivated_run: "staff_service_deactivate E0 ''kg'' ''mentor'' (small_school [sample_slot]) = Inr mentor_deactivated"
  by code_simp

lemma small_school_ok: "mentors_ok {} (small_school [sample_slot])"
  by (simp add: mentors_ok_def one_mentor_def holds_rightly_def small_school_def sample_slot_def sample_staff_def staff_key_def mentor_isActive_def)

text \<open>A second mentor takes over the group.\<close>

definition two_mentors :: school where
  "two_mentors = (small_school [sample_slot])\<lparr>sc_staff := [sample_staff ''admin'' ''user-1'' RoleAdmin,
     sample_staff ''mentor'' ''user-2'' RoleMentor, sample_staff ''second'' ''user-3'' RoleMentor]\<rparr>"

lemma two_mentors_ok: "mentors_ok {} two_mentors"
  by (simp add: mentors_ok_def one_mentor_def holds_rightly_def two_mentors_def small_school_def sample_slot_def sample_staff_def
      staff_key_def mentor_isActive_def)

definition mentor_replaced :: "GroupMentorState \<times> school" where
  "mentor_replaced = projr (service_assignMentor E0 ''kg'' ''group'' ''second'' two_mentors)"

lemma mentor_replaced_run: "service_assignMentor E0 ''kg'' ''group'' ''second'' two_mentors = Inr mentor_replaced"
  by code_simp

definition to_reception :: UpdateStaffInput where
  "to_reception = \<lparr>us_fullName = None, us_role = Some RoleReception, us_specialistType = None, us_hiredAt = None,
     us_firedAt = None\<rparr>"

definition mentor_demoted :: "StaffMemberState \<times> school" where
  "mentor_demoted = projr (staff_service_update ''kg'' ''mentor'' to_reception (small_school [sample_slot]))"

lemma mentor_demoted_run: "staff_service_update ''kg'' ''mentor'' to_reception (small_school [sample_slot]) = Inr mentor_demoted"
  by code_simp

end
