(* ===== verification/Attendance.thy ===== *)
theory Attendance
  imports Status_Machine Json Strings
begin

text \<open>
  Attendance (\<open>src/modules/attendance/domain\<close>): the check-in and check-out events, the status of a child
  for one day and the entries of the timeline, with their methods. The fields of an event, of a day and
  of an entry are those of the state interfaces of the classes.
\<close>

subsection \<open>Events\<close>

datatype AttendanceEventType = CheckIn | CheckOut
datatype AttendanceMethod = FaceId | Manual | OtpPickup

record AttendanceEventState =
  ev_id :: uuid
  ev_kindergartenId :: uuid
  ev_childId :: uuid
  ev_eventType :: AttendanceEventType
  ev_method :: AttendanceMethod
  ev_recordedBy :: "uuid option"
  ev_pickupUserId :: "uuid option"
  ev_pickupRequestId :: "uuid option"
  ev_notes :: "string option"
  ev_recordedAt :: instant
  ev_createdAt :: instant
  ev_deletedAt :: "instant option"

definition event_createCheckIn ::
  "uuid \<Rightarrow> uuid \<Rightarrow> uuid \<Rightarrow> AttendanceMethod \<Rightarrow> uuid option \<Rightarrow> string option \<Rightarrow> instant \<Rightarrow> instant \<Rightarrow> AttendanceEventState" where
  "event_createCheckIn i kg child method recordedBy notes recordedAt now =
     \<lparr>ev_id = i, ev_kindergartenId = kg, ev_childId = child, ev_eventType = CheckIn, ev_method = method,
      ev_recordedBy = recordedBy, ev_pickupUserId = None, ev_pickupRequestId = None, ev_notes = notes,
      ev_recordedAt = recordedAt, ev_createdAt = now, ev_deletedAt = None\<rparr>"

definition event_createCheckOut ::
  "uuid \<Rightarrow> uuid \<Rightarrow> uuid \<Rightarrow> AttendanceMethod \<Rightarrow> uuid option \<Rightarrow> uuid option \<Rightarrow> uuid option \<Rightarrow> string option
    \<Rightarrow> instant \<Rightarrow> instant \<Rightarrow> AttendanceEventState" where
  "event_createCheckOut i kg child method recordedBy pickupUserId pickupRequestId notes recordedAt now =
     \<lparr>ev_id = i, ev_kindergartenId = kg, ev_childId = child, ev_eventType = CheckOut, ev_method = method,
      ev_recordedBy = recordedBy, ev_pickupUserId = pickupUserId, ev_pickupRequestId = pickupRequestId, ev_notes = notes,
      ev_recordedAt = recordedAt, ev_createdAt = now, ev_deletedAt = None\<rparr>"

text \<open>A field of a patch: absent, or the new value.\<close>

definition or_old :: "'a option \<Rightarrow> 'a \<Rightarrow> 'a" where
  "or_old v old = (case v of None \<Rightarrow> old | Some x \<Rightarrow> x)"

record UpdateAttendanceEventPatch =
  ap_recordedAt :: "instant option"
  ap_notes :: "string option option"
  ap_pickupUserId :: "uuid option option"
  ap_childId :: "uuid option"
  ap_eventType :: "AttendanceEventType option"

text \<open>A check-in never carries a picker: the last assignment clears both fields.\<close>

definition event_applyPatch :: "UpdateAttendanceEventPatch \<Rightarrow> AttendanceEventState \<Rightarrow> AttendanceEventState" where
  "event_applyPatch p s =
     (let t = s\<lparr>ev_recordedAt := or_old (ap_recordedAt p) (ev_recordedAt s), ev_notes := or_old (ap_notes p) (ev_notes s),
                ev_childId := or_old (ap_childId p) (ev_childId s), ev_eventType := or_old (ap_eventType p) (ev_eventType s),
                ev_pickupUserId := or_old (ap_pickupUserId p) (ev_pickupUserId s)\<rparr>
      in if ev_eventType t = CheckIn then t\<lparr>ev_pickupUserId := None, ev_pickupRequestId := None\<rparr> else t)"

definition event_softDelete :: "instant \<Rightarrow> AttendanceEventState \<Rightarrow> AttendanceEventState" where
  "event_softDelete when s = (if ev_deletedAt s = None then s\<lparr>ev_deletedAt := Some when\<rparr> else s)"

text \<open>The invariant of the class: a check-in has no picker, neither a user nor a pickup request.\<close>

definition event_wf :: "AttendanceEventState \<Rightarrow> bool" where
  "event_wf s \<longleftrightarrow> (ev_eventType s = CheckIn \<longrightarrow> ev_pickupUserId s = None \<and> ev_pickupRequestId s = None)"

lemma event_wf_methods:
  "event_wf (event_createCheckIn i kg child method recordedBy notes recordedAt now)"
  "event_wf (event_createCheckOut i kg child method recordedBy pickupUserId pickupRequestId notes recordedAt now)"
  "event_wf (event_applyPatch p s)" "event_wf s \<Longrightarrow> event_wf (event_softDelete when s)"
  by (simp_all add: event_wf_def event_createCheckIn_def event_createCheckOut_def event_applyPatch_def event_softDelete_def Let_def)

subsection \<open>The status of a day\<close>

datatype ChildIntradayStatus = Present | Absent | Sick | Late | EarlyPickup | OnVacation

definition isPromotableByCheckIn :: "ChildIntradayStatus \<Rightarrow> bool" where
  "isPromotableByCheckIn s \<longleftrightarrow> s = Absent \<or> s = Late"

record ChildDailyStatusState =
  ds_id :: uuid
  ds_kindergartenId :: uuid
  ds_childId :: uuid
  ds_date :: string
  ds_status :: ChildIntradayStatus
  ds_note :: "string option"
  ds_setBy :: "uuid option"
  ds_updatedAt :: instant

definition daily_createNew ::
  "uuid \<Rightarrow> uuid \<Rightarrow> uuid \<Rightarrow> string \<Rightarrow> ChildIntradayStatus \<Rightarrow> string option \<Rightarrow> uuid option \<Rightarrow> instant \<Rightarrow> ChildDailyStatusState" where
  "daily_createNew i kg child date st note setBy now =
     \<lparr>ds_id = i, ds_kindergartenId = kg, ds_childId = child, ds_date = date, ds_status = st, ds_note = note,
      ds_setBy = setBy, ds_updatedAt = now\<rparr>"

definition daily_markPresent :: "uuid option \<Rightarrow> instant \<Rightarrow> ChildDailyStatusState \<Rightarrow> bool \<times> ChildDailyStatusState" where
  "daily_markPresent setter now s =
     (if \<not> isPromotableByCheckIn (ds_status s) then (False, s)
      else (True, s\<lparr>ds_status := Present, ds_setBy := setter, ds_updatedAt := now\<rparr>))"

definition daily_setStatus ::
  "ChildIntradayStatus \<Rightarrow> string option \<Rightarrow> uuid option \<Rightarrow> instant \<Rightarrow> ChildDailyStatusState \<Rightarrow> ChildDailyStatusState" where
  "daily_setStatus st note setter now s = s\<lparr>ds_status := st, ds_note := note, ds_setBy := setter, ds_updatedAt := now\<rparr>"

subsection \<open>The timeline\<close>

datatype TimelineEntryType = TlCheckIn | TlCheckOut | TlActivity | TlMeal | TlNap | TlNote | TlPhoto | TlMood | TlMedication

definition RESERVED_ENTRY_TYPES :: "TimelineEntryType list" where
  "RESERVED_ENTRY_TYPES = [TlCheckIn, TlCheckOut]"

record TimelineEntryState =
  tl_id :: uuid
  tl_kindergartenId :: uuid
  tl_childId :: uuid
  tl_entryType :: TimelineEntryType
  tl_title :: "string option"
  tl_body :: "string option"
  tl_mediaUrls :: "string list option"
  tl_metadata :: "json_object option"
  tl_recordedBy :: "uuid option"
  tl_entryTime :: instant
  tl_createdAt :: instant
  tl_sourceEventId :: "uuid option"

record CreateTimelineEntryInput =
  ct_entryType :: TimelineEntryType
  ct_title :: "string option"
  ct_body :: "string option"
  ct_mediaUrls :: "string list option"
  ct_metadata :: "json_object option"

definition timeline_createNew ::
  "uuid \<Rightarrow> uuid \<Rightarrow> uuid \<Rightarrow> CreateTimelineEntryInput \<Rightarrow> uuid option \<Rightarrow> instant \<Rightarrow> uuid option \<Rightarrow> instant \<Rightarrow> TimelineEntryState" where
  "timeline_createNew i kg child input recordedBy entryTime sourceEventId now =
     \<lparr>tl_id = i, tl_kindergartenId = kg, tl_childId = child, tl_entryType = ct_entryType input, tl_title = ct_title input,
      tl_body = ct_body input, tl_mediaUrls = ct_mediaUrls input, tl_metadata = ct_metadata input,
      tl_recordedBy = recordedBy, tl_entryTime = entryTime, tl_createdAt = now, tl_sourceEventId = sourceEventId\<rparr>"

definition assertEditableBy :: "uuid option \<Rightarrow> bool \<Rightarrow> TimelineEntryState \<Rightarrow> bool" where
  "assertEditableBy staffMemberId isAdmin s \<longleftrightarrow>
     isAdmin \<or> (tl_recordedBy s \<noteq> None \<and> staffMemberId \<noteq> None \<and> tl_recordedBy s = staffMemberId)"

record TimelinePatch =
  tlp_title :: "string option option"
  tlp_body :: "string option option"
  tlp_mediaUrls :: "string list option option"
  tlp_metadata :: "json_object option option"
  tlp_entryTime :: "instant option"
  tlp_childId :: "uuid option"

definition timeline_applyPatch :: "TimelinePatch \<Rightarrow> TimelineEntryState \<Rightarrow> TimelineEntryState" where
  "timeline_applyPatch p s = s\<lparr>tl_title := or_old (tlp_title p) (tl_title s), tl_body := or_old (tlp_body p) (tl_body s),
     tl_mediaUrls := or_old (tlp_mediaUrls p) (tl_mediaUrls s), tl_metadata := or_old (tlp_metadata p) (tl_metadata s),
     tl_entryTime := or_old (tlp_entryTime p) (tl_entryTime s), tl_childId := or_old (tlp_childId p) (tl_childId s)\<rparr>"

text \<open>The typed keys of the metadata of mood and meal entries; everything else is free.\<close>

definition metadata_key_ok :: "string \<Rightarrow> string list \<Rightarrow> json_object \<Rightarrow> bool" where
  "metadata_key_ok key allowed metadata =
     (case map_of metadata key of None \<Rightarrow> True | Some (JStr v) \<Rightarrow> List.member allowed v | Some _ \<Rightarrow> False)"

definition assertTimelineMetadata :: "TimelineEntryType \<Rightarrow> json_object option \<Rightarrow> bool" where
  "assertTimelineMetadata entryType metadata =
     (case metadata of
        None \<Rightarrow> True
      | Some m \<Rightarrow>
          (if entryType = TlMood then metadata_key_ok ''mood'' [''happy'', ''ok'', ''sad''] m
           else if entryType = TlMeal then metadata_key_ok ''ate'' [''all'', ''half'', ''little''] m
           else True))"

end
