(* ===== verification/Pickup.thy ===== *)
theory Pickup
  imports Status_Machine
begin

text \<open>
  Handing over a child to somebody who is not a guardian (\<open>src/modules/pickup/domain/entities\<close>): the
  trusted people of a child and the pickup requests, which are confirmed with a one-time code.
\<close>

subsection \<open>Trusted people\<close>

record TrustedPersonState =
  tr_id :: uuid
  tr_kindergartenId :: uuid
  tr_childId :: uuid
  tr_addedByUserId :: uuid
  tr_fullName :: string
  tr_phone :: string
  tr_iin :: "string option"
  tr_relation :: string
  tr_photoUrl :: "string option"
  tr_isActive :: bool
  tr_isOneTime :: bool
  tr_usedAt :: "instant option"
  tr_createdAt :: instant
  tr_revokedAt :: "instant option"

definition trusted_isRevoked :: "TrustedPersonState \<Rightarrow> bool" where
  "trusted_isRevoked s \<longleftrightarrow> tr_revokedAt s \<noteq> None"

definition isAvailableForPickup :: "TrustedPersonState \<Rightarrow> bool" where
  "isAvailableForPickup s \<longleftrightarrow> tr_isActive s \<and> tr_revokedAt s = None \<and> \<not> (tr_isOneTime s \<and> tr_usedAt s \<noteq> None)"

text \<open>\<open>None\<close> is the error that the person was revoked or deactivated before.\<close>

definition trusted_revoke :: "instant \<Rightarrow> TrustedPersonState \<Rightarrow> TrustedPersonState option" where
  "trusted_revoke now s =
     (if trusted_isRevoked s then None else if \<not> tr_isActive s then None
      else Some (s\<lparr>tr_isActive := False, tr_revokedAt := Some now\<rparr>))"

definition trusted_markUsed :: "instant \<Rightarrow> TrustedPersonState \<Rightarrow> TrustedPersonState" where
  "trusted_markUsed now s = s\<lparr>tr_isActive := (if tr_isOneTime s then False else tr_isActive s), tr_usedAt := Some now\<rparr>"

subsection \<open>Pickup requests\<close>

datatype PickupRequestStatus = OtpSent | Validated | PickupExpired | PickupCancelled

record PickupRequestState =
  pk_id :: uuid
  pk_kindergartenId :: uuid
  pk_childId :: uuid
  pk_requestedByUserId :: uuid
  pk_trustedPersonId :: "uuid option"
  pk_trustedPersonPhone :: string
  pk_trustedPersonName :: string
  pk_trustedPersonIin :: "string option"
  pk_otpRef :: "string option"
  pk_status :: PickupRequestStatus
  pk_validatedBy :: "uuid option"
  pk_validatedAt :: "instant option"
  pk_attendanceEventId :: "uuid option"
  pk_parentRequestId :: "uuid option"
  pk_expiresAt :: instant
  pk_createdAt :: instant

datatype pickup_fault =
    PickupRequestAlreadyValidated
  | PickupRequestStatusInvalid PickupRequestStatus PickupRequestStatus string
  | PickupRequestExpired

definition pickup_isExpired :: "instant \<Rightarrow> PickupRequestState \<Rightarrow> bool" where
  "pickup_isExpired now s \<longleftrightarrow> now \<ge> pk_expiresAt s"

definition pickup_isPending :: "instant \<Rightarrow> PickupRequestState \<Rightarrow> bool" where
  "pickup_isPending now s \<longleftrightarrow> pk_status s = OtpSent \<and> \<not> pickup_isExpired now s"

definition pickup_guard :: "instant \<Rightarrow> PickupRequestState \<Rightarrow> pickup_fault option" where
  "pickup_guard now s =
     (if pk_status s = Validated then Some PickupRequestAlreadyValidated
      else if pk_status s \<noteq> OtpSent then Some (PickupRequestStatusInvalid (pk_status s) OtpSent ''validate'')
      else if pickup_isExpired now s then Some PickupRequestExpired
      else None)"

definition pickup_validate :: "uuid \<Rightarrow> uuid \<Rightarrow> instant \<Rightarrow> PickupRequestState \<Rightarrow> pickup_fault + PickupRequestState" where
  "pickup_validate staffMemberId attendanceEventId now s =
     (case pickup_guard now s of
        Some f \<Rightarrow> Inl f
      | None \<Rightarrow> Inr (s\<lparr>pk_status := Validated, pk_validatedBy := Some staffMemberId, pk_validatedAt := Some now,
                       pk_attendanceEventId := Some attendanceEventId\<rparr>))"

definition pickup_expire :: "PickupRequestState \<Rightarrow> pickup_fault + PickupRequestState" where
  "pickup_expire s =
     (if pk_status s \<noteq> OtpSent then Inl (PickupRequestStatusInvalid (pk_status s) OtpSent ''expire'')
      else Inr (s\<lparr>pk_status := PickupExpired\<rparr>))"

definition pickup_cancel :: "PickupRequestState \<Rightarrow> pickup_fault + PickupRequestState" where
  "pickup_cancel s =
     (if pk_status s \<noteq> OtpSent then Inl (PickupRequestStatusInvalid (pk_status s) OtpSent ''cancel'')
      else Inr (s\<lparr>pk_status := PickupCancelled\<rparr>))"

definition pickup_attachOtpRef :: "string \<Rightarrow> PickupRequestState \<Rightarrow> pickup_fault + PickupRequestState" where
  "pickup_attachOtpRef otpRef s =
     (if pk_status s \<noteq> OtpSent then Inl (PickupRequestStatusInvalid (pk_status s) OtpSent ''attachOtpRef'')
      else Inr (s\<lparr>pk_otpRef := Some otpRef\<rparr>))"

subsection \<open>The state machine\<close>

inductive pickup_step :: "PickupRequestState \<Rightarrow> PickupRequestState \<Rightarrow> bool" where
  validate: "pickup_validate staff ev now s = Inr t \<Longrightarrow> pickup_step s t"
| expire: "pickup_expire s = Inr t \<Longrightarrow> pickup_step s t"
| cancel: "pickup_cancel s = Inr t \<Longrightarrow> pickup_step s t"
| attach: "pickup_attachOtpRef ref s = Inr t \<Longrightarrow> pickup_step s t"

inductive_cases pickup_stepE: "pickup_step s t"

lemmas pickup_methods = pickup_validate_def pickup_guard_def pickup_expire_def pickup_cancel_def pickup_attachOtpRef_def

definition pickup_edge :: "PickupRequestStatus \<Rightarrow> PickupRequestStatus \<Rightarrow> bool" where
  "pickup_edge a b \<longleftrightarrow> a = OtpSent"

definition pickup_ident :: "PickupRequestState \<Rightarrow> uuid \<times> uuid \<times> uuid \<times> uuid option \<times> instant" where
  "pickup_ident s = (pk_id s, pk_kindergartenId s, pk_childId s, pk_trustedPersonId s, pk_expiresAt s)"

interpretation pickup: status_machine pickup_step pk_status pickup_edge pickup_ident
proof
  show "pickup_edge (pk_status s) (pk_status t)" if "pickup_step s t" for s t
    using that by (elim pickup_stepE) (auto simp: pickup_methods pickup_edge_def split: if_splits)
  show "pickup_ident t = pickup_ident s" if "pickup_step s t" for s t
    using that by (elim pickup_stepE) (auto simp: pickup_methods pickup_ident_def split: if_splits)
qed

text \<open>A request that left \<open>otp_sent\<close> never changes again: \<open>validate\<close> succeeds at most once.\<close>

lemma pickup_terminal: "pickup_step\<^sup>*\<^sup>* s t \<Longrightarrow> pk_status s \<noteq> OtpSent \<Longrightarrow> t = s"
  by (rule pickup.terminal_stays) (simp_all add: pickup_edge_def)

end
