(* ===== verification/Keyset.thy ===== *)
theory Keyset
  imports Prelude
begin

text \<open>
  Keyset pagination, as the repositories with a cursor do it: rows in descending order of a key, one row
  more than the page is fetched, and the key of the last row of a page is the cursor of the next. A
  client that follows the cursors reads every row exactly once, because no two rows share a key.
\<close>

definition before_cursor :: "('r \<Rightarrow> 'k::linorder) \<Rightarrow> 'k option \<Rightarrow> 'r \<Rightarrow> bool" where
  "before_cursor key c r \<longleftrightarrow> (case c of None \<Rightarrow> True | Some k \<Rightarrow> key r < k)"

definition keyset_page :: "('r \<Rightarrow> 'k::linorder) \<Rightarrow> nat \<Rightarrow> 'k option \<Rightarrow> 'r list \<Rightarrow> 'r list \<times> 'k option" where
  "keyset_page key limit c rows =
     (let fetched = take (Suc limit) (rev (sort_key key (filter (before_cursor key c) rows)));
          hasMore = length fetched > limit;
          items = (if hasMore then take limit fetched else fetched)
      in (items, if hasMore \<and> items \<noteq> [] then Some (key (last items)) else None))"

text \<open>The client: at most the given number of pages.\<close>

primrec follow_pages :: "('c option \<Rightarrow> 'r list \<times> 'c option) \<Rightarrow> nat \<Rightarrow> 'c option \<Rightarrow> 'r list" where
  "follow_pages page 0 c = []"
| "follow_pages page (Suc n) c =
     fst (page c) @ (case snd (page c) of None \<Rightarrow> [] | Some k \<Rightarrow> follow_pages page n (Some k))"

definition descending :: "('r \<Rightarrow> 'k::linorder) \<Rightarrow> 'r list \<Rightarrow> bool" where
  "descending key rows \<longleftrightarrow> sorted_wrt (\<lambda>r q. key q < key r) rows"

lemma descending_rev_sort:
  assumes "distinct (map key rows)"
  shows "descending key (rev (sort_key key rows))"
proof -
  have "sorted (map key (sort_key key rows))" by simp
  moreover have "distinct (map key (sort_key key rows))"
    using assms by (simp add: distinct_map inj_on_def)
  ultimately have "sorted_wrt (<) (map key (sort_key key rows))"
    by (simp add: strict_sorted_iff)
  thus ?thesis by (simp add: descending_def sorted_wrt_rev sorted_wrt_map)
qed

lemma rev_sort_filter: "rev (sort_key key (filter P rows)) = filter P (rev (sort_key key rows))"
  by (metis filter_sort rev_filter)

lemma descending_filter: "descending key rows \<Longrightarrow> descending key (filter P rows)"
  by (simp add: descending_def sorted_wrt_filter)

text \<open>Behind the last row of a page is the rest.\<close>

lemma descending_rest:
  assumes "descending key rows" and "0 < n" "n \<le> length rows"
  shows "filter (\<lambda>r. key r < key (last (take n rows))) rows = drop n rows"
proof -
  let ?x = "last (take n rows)"
  have sw: "sorted_wrt (\<lambda>r q. key q < key r) (take n rows @ drop n rows)"
    using assms(1) by (simp add: descending_def)
  have ne: "take n rows \<noteq> []" using assms by auto
  have x: "?x \<in> set (take n rows)" by (rule last_in_set[OF ne])
  have below: "\<forall>q \<in> set (drop n rows). key q < key ?x"
    using sw x by (auto simp only: sorted_wrt_append)
  have tk: "take n rows = butlast (take n rows) @ [?x]" using ne by simp
  have "sorted_wrt (\<lambda>r q. key q < key r) (butlast (take n rows) @ [?x])"
    using sw tk by (metis sorted_wrt_append)
  hence above: "\<forall>r \<in> set (take n rows). \<not> key r < key ?x"
    using tk by (metis (no_types, lifting) Un_iff empty_iff empty_set less_irrefl list.set_intros(1) order_less_asym'
        set_ConsD set_append sorted_wrt_append)
  have "filter (\<lambda>r. key r < key ?x) (take n rows) = []" using above by (simp only: filter_empty_conv not_False_eq_True)
  moreover have "filter (\<lambda>r. key r < key ?x) (drop n rows) = drop n rows" by (rule filter_True[OF below])
  ultimately have "filter (\<lambda>r. key r < key ?x) (take n rows @ drop n rows) = drop n rows"
    by (simp only: filter_append append_Nil)
  thus ?thesis by simp
qed

lemma follow_from:
  assumes desc: "descending key S" and pos: "0 < limit"
    and page: "\<And>c. page c = (let fetched = take (Suc limit) (filter (before_cursor key c) S)
        in (if length fetched > limit then take limit fetched else fetched,
            if length fetched > limit \<and> (if length fetched > limit then take limit fetched else fetched) \<noteq> []
            then Some (key (last (take limit fetched))) else None))"
  shows "length (filter (before_cursor key c) S) \<le> n * limit + limit \<Longrightarrow>
    follow_pages page (Suc n) c = filter (before_cursor key c) S"
proof (induction n arbitrary: c)
  case 0
  thus ?case by (simp add: page Let_def)
next
  case (Suc n)
  let ?D = "filter (before_cursor key c) S"
  show ?case
  proof (cases "length ?D > limit")
    case False
    thus ?thesis by (simp add: page Let_def)
  next
    case True
    let ?k = "key (last (take limit ?D))"
    have tt: "take limit (take (Suc limit) ?D) = take limit ?D" by (simp add: min_def)
    have ne: "take limit ?D \<noteq> []" using True pos by auto
    have pg: "page c = (take limit ?D, Some ?k)"
      using True tt ne by (simp add: page Let_def)
    have inD: "last (take limit ?D) \<in> set ?D" using ne by (meson in_set_takeD last_in_set)
    have "filter (before_cursor key (Some ?k)) S = filter (\<lambda>r. key r < ?k) ?D"
      using inD by (auto simp: before_cursor_def intro!: filter_cong split: option.splits)
    also have "\<dots> = drop limit ?D"
      using descending_rest[OF descending_filter[OF desc] pos] True by simp
    finally have rest: "filter (before_cursor key (Some ?k)) S = drop limit ?D" .
    have "follow_pages page (Suc n) (Some ?k) = drop limit ?D"
      using Suc.IH[of "Some ?k"] Suc.prems unfolding rest by simp
    thus ?thesis using pg by simp
  qed
qed

theorem follow_keyset_pages:
  assumes "distinct (map key rows)" and "0 < limit" and "length rows \<le> n * limit + limit"
  shows "follow_pages (\<lambda>c. keyset_page key limit c rows) (Suc n) None = rev (sort_key key rows)"
proof -
  have "follow_pages (\<lambda>c. keyset_page key limit c rows) (Suc n) None
      = filter (before_cursor key None) (rev (sort_key key rows))"
  proof (rule follow_from[OF descending_rev_sort[OF assms(1)] assms(2)])
    show "keyset_page key limit c rows = (let fetched = take (Suc limit) (filter (before_cursor key c) (rev (sort_key key rows)))
        in (if length fetched > limit then take limit fetched else fetched,
            if length fetched > limit \<and> (if length fetched > limit then take limit fetched else fetched) \<noteq> []
            then Some (key (last (take limit fetched))) else None))" for c
      by (simp add: keyset_page_def rev_sort_filter Let_def)
  qed (use assms(3) in \<open>simp add: before_cursor_def\<close>)
  thus ?thesis by (simp add: before_cursor_def)
qed

end
