(* ===== verification/House.thy ===== *)
theory House
  imports Attendance Pickup Keyset "HOL-Library.Product_Lexorder" "HOL-Library.List_Lexorder" "HOL-Library.Char_ord" Staff_Service
begin

text \<open>
  The state the services around the door of a kindergarten share, and the repositories of attendance
  events, daily statuses, timeline entries, trusted people and pickup requests
  (\<open>src/modules/attendance/infrastructure\<close>, \<open>src/modules/pickup/infrastructure\<close>). Children and guardians
  are those of the billing part, staff and groups those of the staff part.
\<close>

subsection \<open>State\<close>

datatype AuditAction = AuditCreate | AuditUpdate | AuditDelete

datatype audit_snapshot = EventSnapshot AttendanceEventState | DailySnapshot ChildDailyStatusState

record audit_entry =
  au_kindergartenId :: uuid
  au_entityType :: string
  au_entityId :: uuid
  au_action :: AuditAction
  au_actorUserId :: uuid
  au_actorStaffId :: uuid
  au_before :: "audit_snapshot option"
  au_after :: "audit_snapshot option"

text \<open>The calls of the notification port, with the fields of their payload the code sets.\<close>

datatype house_notice =
    NotifyCheckIn uuid uuid uuid instant "uuid option"
  | NotifyCheckOut uuid uuid uuid instant "uuid option" "uuid option" "uuid option"
  | NotifyTimelineEntryCreated uuid uuid uuid TimelineEntryType instant "uuid option"
  | NotifyDailyStatusChanged uuid uuid string ChildIntradayStatus uuid
  | NotifyPickupOtpSent uuid uuid uuid uuid string
  | NotifyPickupValidated uuid uuid uuid uuid string uuid instant

record house =
  hs_billing :: billing_db
  hs_school :: school
  hs_events :: "AttendanceEventState list"
  hs_daily :: "ChildDailyStatusState list"
  hs_timeline :: "TimelineEntryState list"
  hs_trusted :: "TrustedPersonState list"
  hs_pickups :: "PickupRequestState list"
  hs_audit :: "audit_entry list"
  hs_notices :: "house_notice list"
  hs_locks :: "string list"

datatype house_error =
    HouseBilling billing_error
  | HouseSchool school_error
  | HouseChildNotFound uuid
  | HouseStaffNotFound uuid
  | AttendanceEventNotFound uuid
  | AttendanceEditWindowExpired uuid
  | AttendanceCorrectionAdminOnly uuid string
  | InvalidAttendancePickup string
  | InvalidAttendanceTimestamp instant instant
  | PickupUserNotAllowed uuid uuid
  | InvalidTimelineEntryType TimelineEntryType
  | InvalidTimelineMetadata TimelineEntryType
  | MentorScopeViolated uuid
  | TimelineEntryNotFound uuid
  | TimelineEntryNotAuthor uuid
  | TrustedPersonNotFound uuid
  | TrustedPersonNotForChild
  | TrustedPersonRevoked
  | PickupRequestNotFound uuid
  | PickupFault pickup_fault
  | PickupOtpExpired
  | OtpInvalid
  | OtpLocked
  | OtpRateLimited
  | HouseForbidden string
  | HouseFailure string

type_synonym 'a house_act = "(house_error, house, 'a) act"

definition ofBilling :: "'a op \<Rightarrow> 'a house_act" where
  "ofBilling = actOn hs_billing (\<lambda>b h. h\<lparr>hs_billing := b\<rparr>) HouseBilling"

definition ofSchool :: "'a school_act \<Rightarrow> 'a house_act" where
  "ofSchool = actOn hs_school (\<lambda>b h. h\<lparr>hs_school := b\<rparr>) HouseSchool"

definition house_now :: "billing_env \<Rightarrow> instant house_act" where
  "house_now E = ofBilling (nowM E)"

definition house_uuid :: "billing_env \<Rightarrow> uuid house_act" where
  "house_uuid E = ofBilling (randomUUID E)"

definition house_notify :: "house_notice \<Rightarrow> unit house_act" where
  "house_notify n = modifyA (\<lambda>h. h\<lparr>hs_notices := hs_notices h @ [n]\<rparr>)"

text \<open>The id and the time of an audit record are left out.\<close>

definition audit_record :: "audit_entry \<Rightarrow> unit house_act" where
  "audit_record e = modifyA (\<lambda>h. h\<lparr>hs_audit := hs_audit h @ [e]\<rparr>)"

definition house_lock :: "string \<Rightarrow> unit house_act" where
  "house_lock k = modifyA (\<lambda>h. h\<lparr>hs_locks := hs_locks h @ [k]\<rparr>)"

text \<open>Newest first by a key, as \<open>ORDER BY \<dots> DESC\<close> (rows of the same key: the later one first).\<close>

definition newest :: "('r \<Rightarrow> 'k::linorder) \<Rightarrow> 'r list \<Rightarrow> 'r list" where
  "newest key rows = rev (sort_key key rows)"

definition paged :: "nat \<Rightarrow> nat \<Rightarrow> 'r list \<Rightarrow> 'r list" where
  "paged offset limit rows = take limit (drop offset rows)"

definition child_group :: "billing_db \<Rightarrow> uuid \<Rightarrow> uuid option" where
  "child_group db childId = (case find (\<lambda>c. ch_id c = childId) (db_children db) of None \<Rightarrow> None | Some c \<Rightarrow> ch_currentGroupId c)"

subsection \<open>Attendance events\<close>

definition events_DEFAULT_LIMIT :: int where "events_DEFAULT_LIMIT = 100"
definition events_MAX_LIMIT :: int where "events_MAX_LIMIT = 500"

definition events_clampLimit :: "int option \<Rightarrow> nat" where
  "events_clampLimit raw =
     nat (case raw of None \<Rightarrow> events_DEFAULT_LIMIT
          | Some n \<Rightarrow> if n \<le> 0 then events_DEFAULT_LIMIT else min n events_MAX_LIMIT)"

definition event_key :: "uuid \<Rightarrow> uuid \<Rightarrow> AttendanceEventState \<Rightarrow> bool" where
  "event_key kg i r \<longleftrightarrow> ev_id r = i \<and> ev_kindergartenId r = kg"

definition live_event :: "AttendanceEventState \<Rightarrow> bool" where
  "live_event r \<longleftrightarrow> ev_deletedAt r = None"

definition events_create :: "uuid \<Rightarrow> AttendanceEventState \<Rightarrow> AttendanceEventState house_act" where
  "events_create kg r h =
     (let row = r\<lparr>ev_kindergartenId := kg\<rparr> in
      if list_ex (\<lambda>q. ev_id q = ev_id row) (hs_events h) then Inl (HouseFailure ''attendance_events'')
      else Inr (row, h\<lparr>hs_events := hs_events h @ [row]\<rparr>))"

definition events_findById :: "uuid \<Rightarrow> uuid \<Rightarrow> house \<Rightarrow> AttendanceEventState option" where
  "events_findById kg i h = find (\<lambda>r. event_key kg i r \<and> live_event r) (hs_events h)"

text \<open>The columns an update writes: not the method, the recorder and the creation time.\<close>

definition event_row :: "AttendanceEventState \<Rightarrow> AttendanceEventState \<Rightarrow> AttendanceEventState" where
  "event_row r q = q\<lparr>ev_childId := ev_childId r, ev_eventType := ev_eventType r, ev_recordedAt := ev_recordedAt r,
     ev_notes := ev_notes r, ev_pickupUserId := ev_pickupUserId r, ev_pickupRequestId := ev_pickupRequestId r,
     ev_deletedAt := ev_deletedAt r\<rparr>"

definition events_update :: "uuid \<Rightarrow> AttendanceEventState \<Rightarrow> AttendanceEventState house_act" where
  "events_update kg r =
     bindA (modifyA (\<lambda>h. h\<lparr>hs_events := update_where (event_key kg (ev_id r)) (event_row r) (hs_events h)\<rparr>)) (\<lambda>_.
     bindA (readA (\<lambda>h. find (event_key kg (ev_id r)) (hs_events h))) (\<lambda>found.
     foundA found (HouseFailure ''attendance_event_update_readback_failed'')))"

record ListAttendanceEventsFilter =
  lf_from :: "instant option"
  lf_to :: "instant option"
  lf_eventType :: "AttendanceEventType option"
  lf_limit :: "int option"
  lf_offset :: nat

definition in_range :: "instant option \<Rightarrow> instant option \<Rightarrow> instant \<Rightarrow> bool" where
  "in_range start fin t \<longleftrightarrow> (case start of None \<Rightarrow> True | Some a \<Rightarrow> a \<le> t) \<and> (case fin of None \<Rightarrow> True | Some b \<Rightarrow> t < b)"

definition events_matching :: "uuid \<Rightarrow> ListAttendanceEventsFilter \<Rightarrow> (AttendanceEventState \<Rightarrow> bool) \<Rightarrow> house \<Rightarrow> AttendanceEventState list" where
  "events_matching kg f P h =
     filter (\<lambda>r. ev_kindergartenId r = kg \<and> live_event r \<and> P r \<and> in_range (lf_from f) (lf_to f) (ev_recordedAt r)
       \<and> (case lf_eventType f of None \<Rightarrow> True | Some ty \<Rightarrow> ev_eventType r = ty)) (hs_events h)"

definition events_listByChild :: "uuid \<Rightarrow> uuid \<Rightarrow> ListAttendanceEventsFilter \<Rightarrow> house \<Rightarrow> AttendanceEventState list" where
  "events_listByChild kg childId f h =
     paged (lf_offset f) (events_clampLimit (lf_limit f)) (newest ev_recordedAt (events_matching kg f (\<lambda>r. ev_childId r = childId) h))"

definition events_listByKindergarten :: "uuid \<Rightarrow> ListAttendanceEventsFilter \<Rightarrow> house \<Rightarrow> AttendanceEventState list" where
  "events_listByKindergarten kg f h =
     paged (lf_offset f) (events_clampLimit (lf_limit f)) (newest (\<lambda>r. (ev_recordedAt r, ev_id r)) (events_matching kg f (\<lambda>r. True) h))"

definition events_listByGroup :: "uuid \<Rightarrow> uuid \<Rightarrow> ListAttendanceEventsFilter \<Rightarrow> house \<Rightarrow> AttendanceEventState list" where
  "events_listByGroup kg groupId f h =
     paged (lf_offset f) (events_clampLimit (lf_limit f))
       (newest ev_recordedAt (events_matching kg f (\<lambda>r. child_group (hs_billing h) (ev_childId r) = Some groupId) h))"

text \<open>
  \<open>DISTINCT ON (child_id) \<dots> ORDER BY recorded_at DESC, event_type DESC\<close>: the last live event of a child in
  the window; at the same instant a check-out comes before a check-in.
\<close>

definition in_group :: "uuid option \<Rightarrow> billing_db \<Rightarrow> uuid \<Rightarrow> uuid \<Rightarrow> bool" where
  "in_group groupId db kg childId \<longleftrightarrow>
     (case groupId of None \<Rightarrow> True
      | Some g \<Rightarrow> g = [] \<or> list_ex (\<lambda>c. ch_id c = childId \<and> ch_kindergartenId c = kg \<and> ch_currentGroupId c = Some g) (db_children db))"

definition events_of_day :: "uuid \<Rightarrow> instant \<Rightarrow> instant \<Rightarrow> uuid option \<Rightarrow> house \<Rightarrow> AttendanceEventState list" where
  "events_of_day kg a b groupId h =
     filter (\<lambda>r. ev_kindergartenId r = kg \<and> live_event r \<and> a \<le> ev_recordedAt r \<and> ev_recordedAt r < b
       \<and> in_group groupId (hs_billing h) kg (ev_childId r)) (hs_events h)"

definition later_event :: "AttendanceEventState \<Rightarrow> AttendanceEventState \<Rightarrow> bool" where
  "later_event r q \<longleftrightarrow> ev_recordedAt q < ev_recordedAt r
     \<or> ev_recordedAt q = ev_recordedAt r \<and> ev_eventType r = CheckOut \<and> ev_eventType q = CheckIn"

definition last_event :: "AttendanceEventState list \<Rightarrow> uuid \<Rightarrow> AttendanceEventState option" where
  "last_event rows childId =
     (let own = filter (\<lambda>r. ev_childId r = childId) rows in find (\<lambda>r. \<not> list_ex (\<lambda>q. later_event q r) own) own)"

definition lastEventBucketsForDate :: "uuid \<Rightarrow> instant \<Rightarrow> instant \<Rightarrow> uuid option \<Rightarrow> house \<Rightarrow> nat \<times> nat" where
  "lastEventBucketsForDate kg a b groupId h =
     (let rows = events_of_day kg a b groupId h;
          last_ev = map (last_event rows) (remdups (map ev_childId rows));
          count = (\<lambda>ty. length (filter (\<lambda>v. case v of Some r \<Rightarrow> ev_eventType r = ty | None \<Rightarrow> False) last_ev))
      in (count CheckIn, count CheckOut))"

subsection \<open>Daily statuses\<close>

definition daily_key :: "uuid \<Rightarrow> uuid \<Rightarrow> string \<Rightarrow> ChildDailyStatusState \<Rightarrow> bool" where
  "daily_key kg childId date r \<longleftrightarrow> ds_kindergartenId r = kg \<and> ds_childId r = childId \<and> ds_date r = date"

definition daily_findByChildAndDate :: "uuid \<Rightarrow> uuid \<Rightarrow> string \<Rightarrow> house \<Rightarrow> ChildDailyStatusState option" where
  "daily_findByChildAndDate kg childId date h = find (daily_key kg childId date) (hs_daily h)"

text \<open>\<open>INSERT \<dots> ON CONFLICT (child_id, date) DO UPDATE\<close>: the conflict looks at no tenant; the id of the row stays.\<close>

definition daily_row :: "ChildDailyStatusState \<Rightarrow> ChildDailyStatusState \<Rightarrow> ChildDailyStatusState" where
  "daily_row r q = q\<lparr>ds_status := ds_status r, ds_note := ds_note r, ds_setBy := ds_setBy r, ds_updatedAt := ds_updatedAt r\<rparr>"

definition daily_conflict :: "ChildDailyStatusState \<Rightarrow> ChildDailyStatusState \<Rightarrow> bool" where
  "daily_conflict r q \<longleftrightarrow> ds_childId q = ds_childId r \<and> ds_date q = ds_date r"

definition daily_put :: "ChildDailyStatusState \<Rightarrow> ChildDailyStatusState list \<Rightarrow> ChildDailyStatusState list" where
  "daily_put r rows =
     (if list_ex (daily_conflict r) rows then update_where (daily_conflict r) (daily_row r) rows else rows @ [r])"

definition daily_upsert :: "uuid \<Rightarrow> ChildDailyStatusState \<Rightarrow> ChildDailyStatusState house_act" where
  "daily_upsert kg r =
     bindA (modifyA (\<lambda>h. h\<lparr>hs_daily := daily_put (r\<lparr>ds_kindergartenId := kg\<rparr>) (hs_daily h)\<rparr>)) (\<lambda>_.
     bindA (readA (daily_findByChildAndDate kg (ds_childId r) (ds_date r))) (\<lambda>found.
     foundA found (HouseFailure ''child_daily_status_upsert_readback_failed'')))"

definition daily_updatePresentIfAbsentOrLate ::
  "uuid \<Rightarrow> uuid \<Rightarrow> string \<Rightarrow> uuid option \<Rightarrow> instant \<Rightarrow> (bool \<times> ChildDailyStatusState option) house_act" where
  "daily_updatePresentIfAbsentOrLate kg childId date setBy now h =
     (let P = (\<lambda>r. daily_key kg childId date r \<and> isPromotableByCheckIn (ds_status r));
          h' = h\<lparr>hs_daily := update_where P (\<lambda>r. r\<lparr>ds_status := Present, ds_setBy := setBy, ds_updatedAt := now\<rparr>) (hs_daily h)\<rparr>
      in Inr ((list_ex P (hs_daily h), daily_findByChildAndDate kg childId date h'), h'))"

text \<open>An absent child with a live check-in in the window is not counted.\<close>

definition checked_in :: "AttendanceEventState list \<Rightarrow> uuid \<Rightarrow> uuid \<Rightarrow> instant \<Rightarrow> instant \<Rightarrow> bool" where
  "checked_in events kg childId a b \<longleftrightarrow>
     list_ex (\<lambda>e. ev_kindergartenId e = kg \<and> ev_childId e = childId \<and> ev_eventType e = CheckIn \<and> live_event e
       \<and> a \<le> ev_recordedAt e \<and> ev_recordedAt e < b) events"

definition countByStatusForDate ::
  "uuid \<Rightarrow> string \<Rightarrow> instant \<Rightarrow> instant \<Rightarrow> uuid option \<Rightarrow> house \<Rightarrow> ChildIntradayStatus \<Rightarrow> nat" where
  "countByStatusForDate kg date a b groupId h st =
     length (filter (\<lambda>r. ds_kindergartenId r = kg \<and> ds_date r = date \<and> in_group groupId (hs_billing h) kg (ds_childId r)
       \<and> \<not> (ds_status r = Absent \<and> checked_in (hs_events h) kg (ds_childId r) a b) \<and> ds_status r = st) (hs_daily h))"

subsection \<open>Timeline entries\<close>

definition timeline_key :: "uuid \<Rightarrow> uuid \<Rightarrow> TimelineEntryState \<Rightarrow> bool" where
  "timeline_key kg i r \<longleftrightarrow> tl_id r = i \<and> tl_kindergartenId r = kg"

definition timeline_create :: "uuid \<Rightarrow> TimelineEntryState \<Rightarrow> TimelineEntryState house_act" where
  "timeline_create kg r h =
     (let row = r\<lparr>tl_kindergartenId := kg\<rparr> in
      if list_ex (\<lambda>q. tl_id q = tl_id row) (hs_timeline h) then Inl (HouseFailure ''timeline_entries'')
      else Inr (row, h\<lparr>hs_timeline := hs_timeline h @ [row]\<rparr>))"

definition timeline_findById :: "uuid \<Rightarrow> uuid \<Rightarrow> house \<Rightarrow> TimelineEntryState option" where
  "timeline_findById kg i h = find (timeline_key kg i) (hs_timeline h)"

definition mirrors :: "uuid \<Rightarrow> uuid \<Rightarrow> TimelineEntryState \<Rightarrow> bool" where
  "mirrors kg eventId r \<longleftrightarrow> tl_sourceEventId r = Some eventId \<and> tl_kindergartenId r = kg"

definition timeline_findBySourceEventId :: "uuid \<Rightarrow> uuid \<Rightarrow> house \<Rightarrow> TimelineEntryState option" where
  "timeline_findBySourceEventId kg eventId h = find (mirrors kg eventId) (hs_timeline h)"

definition timeline_row :: "TimelineEntryState \<Rightarrow> TimelineEntryState \<Rightarrow> TimelineEntryState" where
  "timeline_row r q = q\<lparr>tl_childId := tl_childId r, tl_title := tl_title r, tl_body := tl_body r,
     tl_mediaUrls := tl_mediaUrls r, tl_metadata := tl_metadata r, tl_entryTime := tl_entryTime r\<rparr>"

definition timeline_update :: "uuid \<Rightarrow> TimelineEntryState \<Rightarrow> TimelineEntryState house_act" where
  "timeline_update kg r =
     bindA (modifyA (\<lambda>h. h\<lparr>hs_timeline := update_where (timeline_key kg (tl_id r)) (timeline_row r) (hs_timeline h)\<rparr>)) (\<lambda>_.
     bindA (readA (timeline_findById kg (tl_id r))) (\<lambda>found.
     foundA found (HouseFailure ''timeline_entry_update_readback_failed'')))"

definition timeline_delete :: "uuid \<Rightarrow> uuid \<Rightarrow> unit house_act" where
  "timeline_delete kg i = modifyA (\<lambda>h. h\<lparr>hs_timeline := filter (\<lambda>r. \<not> timeline_key kg i r) (hs_timeline h)\<rparr>)"

definition timeline_DEFAULT_LIMIT :: int where "timeline_DEFAULT_LIMIT = 50"
definition timeline_MAX_LIMIT :: int where "timeline_MAX_LIMIT = 200"

definition timeline_clampLimit :: "int option \<Rightarrow> nat" where
  "timeline_clampLimit raw =
     nat (case raw of None \<Rightarrow> timeline_DEFAULT_LIMIT
          | Some n \<Rightarrow> if n \<le> 0 then timeline_DEFAULT_LIMIT else min n timeline_MAX_LIMIT)"

text \<open>The cursor is the pair of time and id it encodes.\<close>

definition timeline_rows :: "uuid \<Rightarrow> uuid \<Rightarrow> instant option \<Rightarrow> instant option \<Rightarrow> house \<Rightarrow> TimelineEntryState list" where
  "timeline_rows kg childId start fin h =
     filter (\<lambda>r. tl_kindergartenId r = kg \<and> tl_childId r = childId \<and> in_range start fin (tl_entryTime r)) (hs_timeline h)"

definition timeline_order :: "TimelineEntryState \<Rightarrow> instant \<times> uuid" where
  "timeline_order r = (tl_entryTime r, tl_id r)"

definition timeline_findByChild ::
  "uuid \<Rightarrow> uuid \<Rightarrow> instant option \<Rightarrow> instant option \<Rightarrow> int option \<Rightarrow> (instant \<times> uuid) option \<Rightarrow> house
    \<Rightarrow> TimelineEntryState list \<times> (instant \<times> uuid) option" where
  "timeline_findByChild kg childId start fin limit cursor h =
     keyset_page timeline_order (timeline_clampLimit limit) cursor (timeline_rows kg childId start fin h)"

subsection \<open>Lists of daily statuses\<close>

record ListDailyStatusFilter =
  ld_childId :: "uuid option"
  ld_groupId :: "uuid option"
  ld_from :: "string option"
  ld_to :: "string option"
  ld_limit :: "int option"
  ld_offset :: nat

definition daily_limit :: "int option \<Rightarrow> nat" where
  "daily_limit raw = nat (case raw of None \<Rightarrow> events_DEFAULT_LIMIT | Some n \<Rightarrow> min (max n 1) events_MAX_LIMIT)"

text \<open>Latest day first, then by child.\<close>

definition daily_list :: "uuid \<Rightarrow> ListDailyStatusFilter \<Rightarrow> house \<Rightarrow> ChildDailyStatusState list" where
  "daily_list kg f h =
     paged (ld_offset f) (daily_limit (ld_limit f))
       (newest ds_date (rev (sort_key ds_childId (filter (\<lambda>r. ds_kindergartenId r = kg
          \<and> (case ld_childId f of None \<Rightarrow> True | Some c \<Rightarrow> c = [] \<or> ds_childId r = c)
          \<and> (case ld_groupId f of None \<Rightarrow> True | Some g \<Rightarrow> g = [] \<or> child_group (hs_billing h) (ds_childId r) = Some g)
          \<and> (case ld_from f of None \<Rightarrow> True | Some a \<Rightarrow> a = [] \<or> a \<le> ds_date r)
          \<and> (case ld_to f of None \<Rightarrow> True | Some b \<Rightarrow> b = [] \<or> ds_date r \<le> b)) (hs_daily h)))))"

end
