(* ===== verification/Attendance_Service.thy ===== *)
theory Attendance_Service
  imports House Dates
begin

text \<open>
  The attendance service (\<open>src/modules/attendance/attendance.service.ts\<close>): check-in and check-out,
  the correction and the deletion of an event with their effects on the timeline and on the status of
  the day, the explicit status of a day, the lists and the summary of a day. The overlays of display
  names are left out.
\<close>

subsection \<open>Days\<close>

text \<open>\<open>formatLocalIsoDate\<close> asks the time-zone database; the bounds of a day use a fixed offset of five hours.\<close>

definition formatLocalIsoDate :: "billing_env \<Rightarrow> instant \<Rightarrow> string" where
  "formatLocalIsoDate E t = formatDateInTimezone (env_zone E) t"

definition ALMATY_OFFSET_MS :: int where "ALMATY_OFFSET_MS = 5 * 60 * 60 * 1000"

definition almatyToday :: "instant \<Rightarrow> string" where
  "almatyToday now = formatDateInTimezone (\<lambda>_. ALMATY_OFFSET_MS) now"

text \<open>\<open>YYYY-MM-DD\<close>; the numbers between the dashes.\<close>

definition almatyDayStartUtc :: "string \<Rightarrow> int \<Rightarrow> instant" where
  "almatyDayStartUtc date addDays =
     Date_UTC (int (parse_digits (take 4 date))) (int (parse_digits (take 2 (drop 5 date))) - 1)
       (int (parse_digits (drop 8 date)) + addDays) - ALMATY_OFFSET_MS"

subsection \<open>Guards\<close>

definition house_staff :: "uuid \<Rightarrow> uuid \<Rightarrow> uuid house_act" where
  "house_staff kg callerUserId =
     bindA (ofSchool (staff_findActiveByUserAndKindergarten callerUserId kg)) (\<lambda>found.
     bindA (foundA found (HouseStaffNotFound callerUserId)) (\<lambda>s. returnA (sm_id s)))"

definition house_child :: "uuid \<Rightarrow> uuid \<Rightarrow> ChildState house_act" where
  "house_child kg childId =
     bindA (readA (\<lambda>h. children_findById kg childId (hs_billing h))) (\<lambda>found. foundA found (HouseChildNotFound childId))"

definition assertPickupAllowed :: "uuid \<Rightarrow> uuid \<Rightarrow> uuid \<Rightarrow> unit house_act" where
  "assertPickupAllowed kg childId pickupUserId =
     bindA (readA (\<lambda>h. guardians_findApprovedActivePickupGuardian kg childId pickupUserId (hs_billing h))) (\<lambda>guardian.
     guardA (guardian \<noteq> None) (PickupUserNotAllowed childId pickupUserId))"

definition SKEW_MS :: int where "SKEW_MS = 5 * 60 * 1000"

definition assertNotFuture :: "billing_env \<Rightarrow> instant \<Rightarrow> unit house_act" where
  "assertNotFuture E t =
     bindA (house_now E) (\<lambda>now. guardA (\<not> t > now + SKEW_MS) (InvalidAttendanceTimestamp t now))"

subsection \<open>Check-in and check-out\<close>

record CheckOpts =
  co_notify :: bool
  co_recordedAt :: "instant option"
  co_notes :: "string option"
  co_pickupRequestId :: "uuid option"
  co_method :: "AttendanceMethod option"

record AttendanceFlowResult =
  fr_event :: AttendanceEventState
  fr_dailyStatus :: "ChildDailyStatusState option"
  fr_timelineEntry :: TimelineEntryState

definition mirror_input :: "AttendanceEventType \<Rightarrow> CreateTimelineEntryInput" where
  "mirror_input ty = \<lparr>ct_entryType = (if ty = CheckIn then TlCheckIn else TlCheckOut),
     ct_title = Some (if ty = CheckIn then ''Check-in'' else ''Check-out''), ct_body = None, ct_mediaUrls = None, ct_metadata = None\<rparr>"

definition event_audit ::
  "uuid \<Rightarrow> uuid \<Rightarrow> AuditAction \<Rightarrow> uuid \<Rightarrow> uuid \<Rightarrow> AttendanceEventState option \<Rightarrow> AttendanceEventState option \<Rightarrow> unit house_act" where
  "event_audit kg i action callerUserId staff before after =
     audit_record \<lparr>au_kindergartenId = kg, au_entityType = ''attendance_event'', au_entityId = i, au_action = action,
       au_actorUserId = callerUserId, au_actorStaffId = staff, au_before = map_option EventSnapshot before,
       au_after = map_option EventSnapshot after\<rparr>"

text \<open>The status of the day at a check-in: a new row is present, an absent or late one is promoted.\<close>

definition promote_day ::
  "billing_env \<Rightarrow> uuid \<Rightarrow> uuid \<Rightarrow> string \<Rightarrow> uuid \<Rightarrow> ChildDailyStatusState option house_act" where
  "promote_day E kg childId isoDate staff =
     bindA (readA (daily_findByChildAndDate kg childId isoDate)) (\<lambda>existing.
     case existing of
       None \<Rightarrow>
         bindA (house_uuid E) (\<lambda>i.
         bindA (house_now E) (\<lambda>now.
         bindA (daily_upsert kg (daily_createNew i kg childId isoDate Present None (Some staff) now)) (\<lambda>d. returnA (Some d))))
     | Some e \<Rightarrow>
         bindA (house_now E) (\<lambda>now.
         bindA (daily_updatePresentIfAbsentOrLate kg childId isoDate (Some staff) now) (\<lambda>(updated, current).
         returnA (case current of None \<Rightarrow> Some e | Some c \<Rightarrow> Some c))))"

definition recorded_time :: "billing_env \<Rightarrow> instant option \<Rightarrow> instant house_act" where
  "recorded_time E v = (case v of Some t \<Rightarrow> returnA t | None \<Rightarrow> house_now E)"

definition checkIn :: "billing_env \<Rightarrow> uuid \<Rightarrow> uuid \<Rightarrow> uuid \<Rightarrow> CheckOpts \<Rightarrow> AttendanceFlowResult house_act" where
  "checkIn E kg childId callerUserId opts =
     bindA (recorded_time E (co_recordedAt opts)) (\<lambda>recordedAt.
     bindA (assertNotFuture E recordedAt) (\<lambda>_.
     bindA (house_staff kg callerUserId) (\<lambda>staff.
     bindA (house_child kg childId) (\<lambda>_.
     bindA (house_uuid E) (\<lambda>i.
     bindA (house_now E) (\<lambda>now.
     bindA (events_create kg (event_createCheckIn i kg childId Manual (Some staff) (co_notes opts) recordedAt now)) (\<lambda>event.
     bindA (house_uuid E) (\<lambda>j.
     bindA (house_now E) (\<lambda>now'.
     bindA (timeline_create kg (timeline_createNew j kg childId (mirror_input CheckIn) (Some staff) recordedAt (Some (ev_id event)) now')) (\<lambda>timeline.
     bindA (promote_day E kg childId (formatLocalIsoDate E recordedAt) staff) (\<lambda>dailyStatus.
     bindA (event_audit kg (ev_id event) AuditCreate callerUserId staff None (Some event)) (\<lambda>_.
     bindA (whenA (co_notify opts)
       (bindA (house_notify (NotifyCheckIn kg childId (ev_id event) (ev_recordedAt event) (ev_recordedBy event))) (\<lambda>_.
        house_notify (NotifyTimelineEntryCreated kg childId (tl_id timeline) (tl_entryType timeline) (tl_entryTime timeline)
          (tl_recordedBy timeline))))) (\<lambda>_.
     returnA \<lparr>fr_event = event, fr_dailyStatus = dailyStatus, fr_timelineEntry = timeline\<rparr>)))))))))))))"

definition checkOut :: "billing_env \<Rightarrow> uuid \<Rightarrow> uuid \<Rightarrow> uuid \<Rightarrow> uuid option \<Rightarrow> CheckOpts \<Rightarrow> AttendanceFlowResult house_act" where
  "checkOut E kg childId callerUserId pickupUserId opts =
     bindA (recorded_time E (co_recordedAt opts)) (\<lambda>recordedAt.
     bindA (assertNotFuture E recordedAt) (\<lambda>_.
     bindA (house_staff kg callerUserId) (\<lambda>staff.
     bindA (house_child kg childId) (\<lambda>_.
     let method = (case co_method opts of None \<Rightarrow> Manual | Some m \<Rightarrow> m) in
     bindA (whenA (co_pickupRequestId opts = None)
       (bindA (foundA pickupUserId (InvalidAttendancePickup ''pickupUserId is required when pickupRequestId is null''))
         (assertPickupAllowed kg childId))) (\<lambda>_.
     bindA (house_uuid E) (\<lambda>i.
     bindA (house_now E) (\<lambda>now.
     bindA (events_create kg (event_createCheckOut i kg childId method (Some staff) pickupUserId (co_pickupRequestId opts)
       (co_notes opts) recordedAt now)) (\<lambda>event.
     bindA (house_uuid E) (\<lambda>j.
     bindA (house_now E) (\<lambda>now'.
     bindA (timeline_create kg (timeline_createNew j kg childId (mirror_input CheckOut) (Some staff) recordedAt (Some (ev_id event)) now')) (\<lambda>timeline.
     bindA (event_audit kg (ev_id event) AuditCreate callerUserId staff None (Some event)) (\<lambda>_.
     bindA (whenA (co_notify opts)
       (bindA (house_notify (NotifyCheckOut kg childId (ev_id event) (ev_recordedAt event) (ev_recordedBy event) pickupUserId
          (co_pickupRequestId opts))) (\<lambda>_.
        house_notify (NotifyTimelineEntryCreated kg childId (tl_id timeline) (tl_entryType timeline) (tl_entryTime timeline)
          (tl_recordedBy timeline))))) (\<lambda>_.
     returnA \<lparr>fr_event = event, fr_dailyStatus = None, fr_timelineEntry = timeline\<rparr>)))))))))))))"

subsection \<open>The cascade of a correction\<close>

definition recomputeDailyStatus :: "billing_env \<Rightarrow> uuid \<Rightarrow> uuid \<Rightarrow> string \<Rightarrow> uuid \<Rightarrow> unit house_act" where
  "recomputeDailyStatus E kg childId isoDate staff =
     bindA (readA (events_listByChild kg childId \<lparr>lf_from = Some (almatyDayStartUtc isoDate 0), lf_to = Some (almatyDayStartUtc isoDate 1),
       lf_eventType = Some CheckIn, lf_limit = Some 1, lf_offset = 0\<rparr>)) (\<lambda>liveCheckIns.
     bindA (readA (daily_findByChildAndDate kg childId isoDate)) (\<lambda>existing.
     if liveCheckIns \<noteq> [] then
       (case existing of
          None \<Rightarrow>
            bindA (house_uuid E) (\<lambda>i.
            bindA (house_now E) (\<lambda>now.
            bindA (daily_upsert kg (daily_createNew i kg childId isoDate Present None (Some staff) now)) (\<lambda>_. returnA ())))
        | Some e \<Rightarrow>
            bindA (house_now E) (\<lambda>now.
            bindA (daily_updatePresentIfAbsentOrLate kg childId isoDate (Some staff) now) (\<lambda>_. returnA ())))
     else
       (case existing of
          None \<Rightarrow> returnA ()
        | Some e \<Rightarrow>
            if ds_status e = Present
            then bindA (house_now E) (\<lambda>now.
                 bindA (daily_upsert kg (daily_createNew (ds_id e) kg childId isoDate Absent (ds_note e) (Some staff) now)) (\<lambda>_. returnA ()))
            else returnA ())))"

text \<open>The (child, day) pairs a correction touched, each once, in the order of the map.\<close>

definition recomputeAffectedDailyStatuses ::
  "billing_env \<Rightarrow> uuid \<Rightarrow> AttendanceEventState \<Rightarrow> AttendanceEventState \<Rightarrow> uuid \<Rightarrow> unit house_act" where
  "recomputeAffectedDailyStatuses E kg before after staff =
     (let bucket = (\<lambda>s. (ev_childId s, formatLocalIsoDate E (ev_recordedAt s)));
          buckets = (if bucket before = bucket after then [bucket before] else [bucket before, bucket after])
      in eachA buckets (\<lambda>(childId, date). recomputeDailyStatus E kg childId date staff))"

definition cascadeTimeline :: "billing_env \<Rightarrow> uuid \<Rightarrow> AttendanceEventState \<Rightarrow> AttendanceEventState \<Rightarrow> unit house_act" where
  "cascadeTimeline E kg before after =
     bindA (readA (timeline_findBySourceEventId kg (ev_id after))) (\<lambda>found.
     case found of
       None \<Rightarrow> returnA ()
     | Some entry \<Rightarrow>
         if ev_eventType before = ev_eventType after then
           (if ev_childId before = ev_childId after \<and> ev_recordedAt before = ev_recordedAt after then returnA ()
            else bindA (timeline_update kg (timeline_applyPatch \<lparr>tlp_title = None, tlp_body = None, tlp_mediaUrls = None,
                   tlp_metadata = None, tlp_entryTime = Some (ev_recordedAt after), tlp_childId = Some (ev_childId after)\<rparr> entry))
                   (\<lambda>_. returnA ()))
         else
           bindA (timeline_delete kg (tl_id entry)) (\<lambda>_.
           bindA (house_uuid E) (\<lambda>j.
           bindA (house_now E) (\<lambda>now.
           bindA (timeline_create kg (timeline_createNew j kg (ev_childId after) (mirror_input (ev_eventType after))
             (tl_recordedBy entry) (ev_recordedAt after) (Some (ev_id after)) now)) (\<lambda>_. returnA ())))))"

subsection \<open>Correction and deletion\<close>

record PatchEventOpts =
  po_skipEditWindow :: bool
  po_allowStructuralCorrection :: bool

record PatchAttendanceEventInput =
  pa_recordedAt :: "instant option"
  pa_notes :: "string option option"
  pa_pickupUserId :: "uuid option"
  pa_childId :: "uuid option"
  pa_eventType :: "AttendanceEventType option"

definition event_or_throw :: "uuid \<Rightarrow> uuid \<Rightarrow> AttendanceEventState house_act" where
  "event_or_throw kg i = bindA (readA (events_findById kg i)) (\<lambda>found. foundA found (AttendanceEventNotFound i))"

definition assertEditWindow :: "billing_env \<Rightarrow> AttendanceEventState \<Rightarrow> unit house_act" where
  "assertEditWindow E event =
     bindA (house_now E) (\<lambda>now.
     guardA (formatLocalIsoDate E (ev_recordedAt event) = formatLocalIsoDate E now) (AttendanceEditWindowExpired (ev_id event)))"

definition patchEvent ::
  "billing_env \<Rightarrow> uuid \<Rightarrow> uuid \<Rightarrow> uuid \<Rightarrow> PatchAttendanceEventInput \<Rightarrow> PatchEventOpts \<Rightarrow> AttendanceEventState house_act" where
  "patchEvent E kg eventId callerUserId patch opts =
     bindA (house_staff kg callerUserId) (\<lambda>staff.
     bindA (case pa_recordedAt patch of None \<Rightarrow> returnA () | Some t \<Rightarrow> assertNotFuture E t) (\<lambda>_.
     bindA (event_or_throw kg eventId) (\<lambda>before.
     bindA (guardA (po_allowStructuralCorrection opts \<or> pa_childId patch = None) (AttendanceCorrectionAdminOnly eventId ''child_id'')) (\<lambda>_.
     bindA (guardA (po_allowStructuralCorrection opts \<or> pa_eventType patch = None) (AttendanceCorrectionAdminOnly eventId ''event_type'')) (\<lambda>_.
     bindA (whenA (\<not> po_skipEditWindow opts) (assertEditWindow E before)) (\<lambda>_.
     let nextChildId = or_old (pa_childId patch) (ev_childId before);
         nextEventType = or_old (pa_eventType patch) (ev_eventType before);
         nextPickupUserId = (case pa_pickupUserId patch of None \<Rightarrow> ev_pickupUserId before | Some u \<Rightarrow> Some u) in
     bindA (if nextChildId \<noteq> ev_childId before then bindA (house_child kg nextChildId) (\<lambda>_. returnA ()) else returnA ()) (\<lambda>_.
     bindA (guardA (\<not> (pa_pickupUserId patch \<noteq> None \<and> nextEventType = CheckIn))
       (InvalidAttendancePickup ''cannot set pickup_user_id on a check_in event'')) (\<lambda>_.
     bindA (case nextPickupUserId of
              None \<Rightarrow> returnA ()
            | Some u \<Rightarrow> whenA (nextEventType = CheckOut \<and> (nextChildId \<noteq> ev_childId before \<or> Some u \<noteq> ev_pickupUserId before))
                (assertPickupAllowed kg nextChildId u)) (\<lambda>_.
     bindA (events_update kg (event_applyPatch \<lparr>ap_recordedAt = pa_recordedAt patch, ap_notes = pa_notes patch,
       ap_pickupUserId = map_option Some (pa_pickupUserId patch), ap_childId = pa_childId patch, ap_eventType = pa_eventType patch\<rparr> before)) (\<lambda>updated.
     bindA (cascadeTimeline E kg before updated) (\<lambda>_.
     bindA (recomputeAffectedDailyStatuses E kg before updated staff) (\<lambda>_.
     bindA (event_audit kg eventId AuditUpdate callerUserId staff (Some before) (Some updated)) (\<lambda>_.
     returnA updated)))))))))))))"

definition deleteEvent :: "billing_env \<Rightarrow> uuid \<Rightarrow> uuid \<Rightarrow> uuid \<Rightarrow> unit house_act" where
  "deleteEvent E kg eventId callerUserId =
     bindA (house_staff kg callerUserId) (\<lambda>staff.
     bindA (event_or_throw kg eventId) (\<lambda>before.
     bindA (house_now E) (\<lambda>now.
     bindA (events_update kg (event_softDelete now before)) (\<lambda>_.
     bindA (readA (timeline_findBySourceEventId kg eventId)) (\<lambda>entry.
     bindA (case entry of None \<Rightarrow> returnA () | Some t \<Rightarrow> timeline_delete kg (tl_id t)) (\<lambda>_.
     bindA (recomputeDailyStatus E kg (ev_childId before) (formatLocalIsoDate E (ev_recordedAt before)) staff) (\<lambda>_.
     event_audit kg eventId AuditDelete callerUserId staff (Some before) None)))))))"

definition isBackdated :: "billing_env \<Rightarrow> instant option \<Rightarrow> bool house_act" where
  "isBackdated E recordedAt =
     (case recordedAt of
        None \<Rightarrow> returnA False
      | Some t \<Rightarrow> bindA (house_now E) (\<lambda>now. returnA (formatLocalIsoDate E t \<noteq> formatLocalIsoDate E now)))"

subsection \<open>The explicit status and the reads\<close>

record SetDailyStatusInput =
  si_childId :: uuid
  si_date :: string
  si_status :: ChildIntradayStatus
  si_note :: "string option"

definition setDailyStatus :: "billing_env \<Rightarrow> uuid \<Rightarrow> uuid \<Rightarrow> SetDailyStatusInput \<Rightarrow> ChildDailyStatusState house_act" where
  "setDailyStatus E kg callerUserId input =
     bindA (house_staff kg callerUserId) (\<lambda>staff.
     bindA (house_child kg (si_childId input)) (\<lambda>_.
     bindA (readA (daily_findByChildAndDate kg (si_childId input) (si_date input))) (\<lambda>previous.
     bindA (house_uuid E) (\<lambda>i.
     bindA (house_now E) (\<lambda>now.
     bindA (daily_upsert kg (daily_createNew i kg (si_childId input) (si_date input) (si_status input) (si_note input) (Some staff) now)) (\<lambda>upserted.
     bindA (audit_record \<lparr>au_kindergartenId = kg, au_entityType = ''child_daily_status'', au_entityId = ds_id upserted,
       au_action = (if previous = None then AuditCreate else AuditUpdate), au_actorUserId = callerUserId, au_actorStaffId = staff,
       au_before = map_option DailySnapshot previous, au_after = Some (DailySnapshot upserted)\<rparr>) (\<lambda>_.
     bindA (house_notify (NotifyDailyStatusChanged kg (si_childId input) (si_date input) (si_status input) staff)) (\<lambda>_.
     returnA upserted))))))))"

record ListEventsFilter = ListAttendanceEventsFilter +
  le_childId :: "uuid option"
  le_groupId :: "uuid option"

text \<open>The list of the administrator passes no event type on; empty strings count as no filter.\<close>

definition listEvents :: "uuid \<Rightarrow> ListEventsFilter \<Rightarrow> house \<Rightarrow> AttendanceEventState list" where
  "listEvents kg f h =
     (let g = \<lparr>lf_from = lf_from f, lf_to = lf_to f, lf_eventType = None, lf_limit = lf_limit f, lf_offset = lf_offset f\<rparr>;
          given = (\<lambda>v. v \<noteq> None \<and> v \<noteq> Some [])
      in if given (le_groupId f) then events_listByGroup kg (the (le_groupId f)) g h
         else if given (le_childId f) then events_listByChild kg (the (le_childId f)) g h
         else events_listByKindergarten kg g h)"

definition getDailyStatusByChildAndDate :: "uuid \<Rightarrow> uuid \<Rightarrow> string \<Rightarrow> ChildDailyStatusState option house_act" where
  "getDailyStatusByChildAndDate kg childId date =
     bindA (house_child kg childId) (\<lambda>_. readA (daily_findByChildAndDate kg childId date))"

record AttendanceDaySummaryResult =
  in_kindergarten :: nat
  checked_out :: nat
  sum_absent :: nat
  sum_on_vacation :: nat
  sum_sick :: nat
  sum_late :: nat

definition getDaySummary :: "billing_env \<Rightarrow> uuid \<Rightarrow> uuid option \<Rightarrow> string option \<Rightarrow> AttendanceDaySummaryResult house_act" where
  "getDaySummary E kg groupId date =
     bindA (case date of Some d \<Rightarrow> returnA d | None \<Rightarrow> bindA (house_now E) (\<lambda>now. returnA (almatyToday now))) (\<lambda>d.
     let a = almatyDayStartUtc d 0; b = almatyDayStartUtc d 1 in
     bindA (readA (countByStatusForDate kg d a b groupId)) (\<lambda>counts.
     bindA (readA (lastEventBucketsForDate kg a b groupId)) (\<lambda>buckets.
     returnA \<lparr>in_kindergarten = fst buckets, checked_out = snd buckets, sum_absent = counts Absent,
       sum_on_vacation = counts OnVacation, sum_sick = counts Sick, sum_late = counts Late\<rparr>)))"

end
