(* ===== verification/Otp_Store.thy ===== *)
theory Otp_Store
  imports Act
begin

text \<open>
  The one-time codes kept in Redis (\<open>src/modules/pickup/infrastructure/otp\<close>,
  \<open>src/modules/parent-request/infrastructure/otp\<close>). Redis is not part of the database transaction: what
  an operation does to it stays, also when the operation throws. An act over Redis and the database
  therefore returns a Redis state in any case. Keys that expire are a step of the environment.
\<close>

subsection \<open>The store\<close>

record redis =
  rd_codes :: "(string \<times> string) list"
  rd_attempts :: "(string \<times> nat) list"
  rd_locks :: "string list"
  rd_counts :: "(string \<times> nat) list" \<comment> \<open>requests within the current rate-limit window\<close>
  rd_sms :: "(string \<times> string) list" \<comment> \<open>not Redis, but as little undone: the messages sent, phone and code\<close>

definition put_key :: "string \<Rightarrow> 'v \<Rightarrow> (string \<times> 'v) list \<Rightarrow> (string \<times> 'v) list" where
  "put_key k v kvs = (k, v) # filter (\<lambda>p. fst p \<noteq> k) kvs"

definition del_key :: "string \<Rightarrow> (string \<times> 'v) list \<Rightarrow> (string \<times> 'v) list" where
  "del_key k kvs = filter (\<lambda>p. fst p \<noteq> k) kvs"

lemma map_of_put_key [simp]: "map_of (put_key k v kvs) j = (if j = k then Some v else map_of kvs j)"
  by (induction kvs) (auto simp: put_key_def)

lemma map_of_del_key [simp]: "map_of (del_key k kvs) j = (if j = k then None else map_of kvs j)"
  by (induction kvs) (auto simp: del_key_def)

definition otp_storeCode :: "string \<Rightarrow> string \<Rightarrow> redis \<Rightarrow> string \<times> redis" where
  "otp_storeCode k code r = (k, r\<lparr>rd_codes := put_key k code (rd_codes r), rd_attempts := del_key k (rd_attempts r)\<rparr>)"

text \<open>An empty string reads as no code.\<close>

definition otp_readCode :: "string \<Rightarrow> redis \<Rightarrow> string option" where
  "otp_readCode k r = (case map_of (rd_codes r) k of None \<Rightarrow> None | Some c \<Rightarrow> if c = [] then None else Some c)"

definition otp_clearCode :: "string \<Rightarrow> redis \<Rightarrow> unit \<times> redis" where
  "otp_clearCode k r = ((), r\<lparr>rd_codes := del_key k (rd_codes r)\<rparr>)"

definition otp_attempts :: "string \<Rightarrow> redis \<Rightarrow> nat" where
  "otp_attempts k r = (case map_of (rd_attempts r) k of None \<Rightarrow> 0 | Some n \<Rightarrow> n)"

definition otp_incrementAttempts :: "string \<Rightarrow> redis \<Rightarrow> nat \<times> redis" where
  "otp_incrementAttempts k r =
     (let n = Suc (otp_attempts k r) in (n, r\<lparr>rd_attempts := put_key k n (rd_attempts r)\<rparr>))"

definition otp_lock :: "string \<Rightarrow> redis \<Rightarrow> unit \<times> redis" where
  "otp_lock k r = ((), r\<lparr>rd_locks := k # rd_locks r\<rparr>)"

definition otp_isLocked :: "string \<Rightarrow> redis \<Rightarrow> bool" where
  "otp_isLocked k r = List.member (rd_locks r) k"

text \<open>Counts the request, then compares; \<open>True\<close> is exceeded.\<close>

definition checkRateLimit :: "string \<Rightarrow> nat \<Rightarrow> redis \<Rightarrow> bool \<times> redis" where
  "checkRateLimit k limit r =
     (let n = Suc (case map_of (rd_counts r) k of None \<Rightarrow> 0 | Some n \<Rightarrow> n)
      in (n > limit, r\<lparr>rd_counts := put_key k n (rd_counts r)\<rparr>))"

subsection \<open>Acts over Redis and the database\<close>

type_synonym ('e, 's, 'a) ract = "redis \<Rightarrow> 's \<Rightarrow> ('e, 'a, 's) outcome \<times> redis"

definition bindR :: "('e, 's, 'a) ract \<Rightarrow> ('a \<Rightarrow> ('e, 's, 'b) ract) \<Rightarrow> ('e, 's, 'b) ract" where
  "bindR m k = (\<lambda>r s. case m r s of (Inl e, r') \<Rightarrow> (Inl e, r') | (Inr (x, t), r') \<Rightarrow> k x r' t)"

definition inDb :: "('e, 's, 'a) act \<Rightarrow> ('e, 's, 'a) ract" where
  "inDb m = (\<lambda>r s. (m s, r))"

definition inRedis :: "(redis \<Rightarrow> 'a \<times> redis) \<Rightarrow> ('e, 's, 'a) ract" where
  "inRedis f = (\<lambda>r s. (Inr (fst (f r), s), snd (f r)))"

definition askRedis :: "(redis \<Rightarrow> 'a) \<Rightarrow> ('e, 's, 'a) ract" where
  "askRedis f = (\<lambda>r s. (Inr (f r, s), r))"

lemma inDb_returned: "inDb m r s = (Inr (x, t), r') \<longleftrightarrow> m s = Inr (x, t) \<and> r' = r"
  by (auto simp: inDb_def)

lemma inRedis_returned: "inRedis f r s = (Inr (x, t), r') \<longleftrightarrow> t = s \<and> f r = (x, r')"
  by (auto simp: inRedis_def prod_eq_iff)

lemma askRedis_returned: "askRedis f r s = (Inr (x, t), r') \<longleftrightarrow> t = s \<and> r' = r \<and> x = f r"
  by (auto simp: askRedis_def)

lemma bindR_returned:
  assumes "bindR m k r s = (Inr x, r'')"
  obtains y t r' where "m r s = (Inr (y, t), r')" "k y r' t = (Inr x, r'')"
  using assms by (auto simp: bindR_def split: prod.splits sum.splits)

lemma bindR_runs [simp]: "m r s = (Inr (y, t), r') \<Longrightarrow> bindR m k r s = k y r' t" "m r s = (Inl e, r') \<Longrightarrow> bindR m k r s = (Inl e, r')"
  by (simp_all add: bindR_def)

text \<open>What the database part keeps, by the structure of the act.\<close>

definition preservesR :: "('s \<Rightarrow> bool) \<Rightarrow> ('e, 's, 'a) ract \<Rightarrow> bool" where
  "preservesR I m \<longleftrightarrow> (\<forall>r s x t r'. I s \<longrightarrow> m r s = (Inr (x, t), r') \<longrightarrow> I t)"

lemma preservesR_bind [preserve]: "preservesR I m \<Longrightarrow> (\<And>x. preservesR I (k x)) \<Longrightarrow> preservesR I (bindR m k)"
  unfolding preservesR_def by (blast elim: bindR_returned)

lemma preservesR_basic [preserve]: "preserves I m \<Longrightarrow> preservesR I (inDb m)" "preservesR I (inRedis f)" "preservesR I (askRedis g)"
  by (auto simp: preservesR_def preserves_def inDb_returned inRedis_returned askRedis_returned)

lemma preservesR_if [preserve]: "preservesR I m \<Longrightarrow> preservesR I m' \<Longrightarrow> preservesR I (if b then m else m')"
  by simp

lemma preservesR_option [preserve]:
  "preservesR I m \<Longrightarrow> (\<And>x. preservesR I (f x)) \<Longrightarrow> preservesR I (case v of None \<Rightarrow> m | Some x \<Rightarrow> f x)"
  by (cases v) auto

lemma preservesRD: "preservesR I m \<Longrightarrow> I s \<Longrightarrow> m r s = (Inr (x, t), r') \<Longrightarrow> I t"
  unfolding preservesR_def by blast

end
