(* ===== verification/Pickup_Service.thy ===== *)
theory Pickup_Service
  imports Attendance_Service Otp_Store
begin

text \<open>
  The services of handing over (\<open>src/modules/pickup/trusted-person.service.ts\<close>,
  \<open>src/modules/pickup/pickup-request.service.ts\<close>) and their repositories. The one-time code lives in
  Redis, so a wrong code counts although the transaction of the request is rolled back. Log lines and
  the names in the text message are left out.
\<close>

subsection \<open>Repositories\<close>

text \<open>Ids and creation times of these rows are defaults of the database.\<close>

definition trusted_create :: "TrustedPersonState \<Rightarrow> TrustedPersonState house_act" where
  "trusted_create r h =
     (if list_ex (\<lambda>q. tr_id q = tr_id r) (hs_trusted h) then Inl (HouseFailure ''trusted_people'')
      else Inr (r, h\<lparr>hs_trusted := hs_trusted h @ [r]\<rparr>))"

definition trusted_findById :: "uuid \<Rightarrow> house \<Rightarrow> TrustedPersonState option" where
  "trusted_findById i h = find (\<lambda>r. tr_id r = i) (hs_trusted h)"

definition trusted_listByChild :: "uuid \<Rightarrow> uuid \<Rightarrow> house \<Rightarrow> TrustedPersonState list" where
  "trusted_listByChild kg childId h =
     newest tr_createdAt (filter (\<lambda>r. tr_kindergartenId r = kg \<and> tr_childId r = childId \<and> tr_isActive r \<and> tr_revokedAt r = None)
       (hs_trusted h))"

record TrustedPersonPatch =
  tq_fullName :: "string option"
  tq_phone :: "string option"
  tq_iin :: "string option option"
  tq_relation :: "string option"
  tq_photoUrl :: "string option option"
  tq_isOneTime :: "bool option"

definition trusted_patch :: "TrustedPersonPatch \<Rightarrow> TrustedPersonState \<Rightarrow> TrustedPersonState" where
  "trusted_patch p r = r\<lparr>tr_fullName := or_old (tq_fullName p) (tr_fullName r), tr_phone := or_old (tq_phone p) (tr_phone r),
     tr_iin := or_old (tq_iin p) (tr_iin r), tr_relation := or_old (tq_relation p) (tr_relation r),
     tr_photoUrl := or_old (tq_photoUrl p) (tr_photoUrl r), tr_isOneTime := or_old (tq_isOneTime p) (tr_isOneTime r)\<rparr>"

definition trusted_update :: "uuid \<Rightarrow> TrustedPersonPatch \<Rightarrow> TrustedPersonState option house_act" where
  "trusted_update i p =
     bindA (modifyA (\<lambda>h. h\<lparr>hs_trusted := update_where (\<lambda>r. tr_id r = i) (trusted_patch p) (hs_trusted h)\<rparr>)) (\<lambda>_.
     readA (trusted_findById i))"

definition trusted_markRevoked :: "uuid \<Rightarrow> instant \<Rightarrow> unit house_act" where
  "trusted_markRevoked i now = modifyA (\<lambda>h. h\<lparr>hs_trusted := update_where (\<lambda>r. tr_id r = i \<and> tr_revokedAt r = None)
     (\<lambda>r. r\<lparr>tr_revokedAt := Some now, tr_isActive := False\<rparr>) (hs_trusted h)\<rparr>)"

definition trusted_claim :: "uuid \<Rightarrow> bool \<Rightarrow> TrustedPersonState \<Rightarrow> bool" where
  "trusted_claim i deactivate r \<longleftrightarrow> tr_id r = i \<and> tr_revokedAt r = None \<and> tr_isActive r \<and> (deactivate \<longrightarrow> tr_usedAt r = None)"

definition trusted_repo_markUsed :: "uuid \<Rightarrow> instant \<Rightarrow> bool \<Rightarrow> bool house_act" where
  "trusted_repo_markUsed i now deactivate h =
     Inr (list_ex (trusted_claim i deactivate) (hs_trusted h),
       h\<lparr>hs_trusted := update_where (trusted_claim i deactivate)
         (\<lambda>r. r\<lparr>tr_usedAt := Some now, tr_isActive := (if deactivate then False else tr_isActive r)\<rparr>) (hs_trusted h)\<rparr>)"

definition pickups_create :: "PickupRequestState \<Rightarrow> PickupRequestState house_act" where
  "pickups_create r h =
     (if list_ex (\<lambda>q. pk_id q = pk_id r) (hs_pickups h) then Inl (HouseFailure ''pickup_requests'')
      else Inr (r, h\<lparr>hs_pickups := hs_pickups h @ [r]\<rparr>))"

definition pickups_findById :: "uuid \<Rightarrow> house \<Rightarrow> PickupRequestState option" where
  "pickups_findById i h = find (\<lambda>r. pk_id r = i) (hs_pickups h)"

text \<open>The list joins the children, so with a group filter only rows of a child of that group are left.\<close>

definition pickups_listByKindergarten ::
  "uuid \<Rightarrow> uuid option \<Rightarrow> PickupRequestStatus option \<Rightarrow> house \<Rightarrow> PickupRequestState list" where
  "pickups_listByKindergarten kg groupId st h =
     newest pk_createdAt (filter (\<lambda>r. pk_kindergartenId r = kg
       \<and> (case st of None \<Rightarrow> True | Some x \<Rightarrow> pk_status r = x)
       \<and> (case groupId of None \<Rightarrow> True | Some g \<Rightarrow> g = [] \<or> child_group (hs_billing h) (pk_childId r) = Some g)) (hs_pickups h))"

record PickupRequestPatch =
  pp_status :: "PickupRequestStatus option"
  pp_otpRef :: "string option option"
  pp_validatedBy :: "uuid option option"
  pp_validatedAt :: "instant option option"
  pp_attendanceEventId :: "uuid option option"

definition pickup_patch :: "PickupRequestPatch \<Rightarrow> PickupRequestState \<Rightarrow> PickupRequestState" where
  "pickup_patch p r = r\<lparr>pk_status := or_old (pp_status p) (pk_status r), pk_otpRef := or_old (pp_otpRef p) (pk_otpRef r),
     pk_validatedBy := or_old (pp_validatedBy p) (pk_validatedBy r), pk_validatedAt := or_old (pp_validatedAt p) (pk_validatedAt r),
     pk_attendanceEventId := or_old (pp_attendanceEventId p) (pk_attendanceEventId r)\<rparr>"

definition pickups_update :: "uuid \<Rightarrow> PickupRequestPatch \<Rightarrow> PickupRequestStatus option \<Rightarrow> bool house_act" where
  "pickups_update i p expected h =
     (let P = (\<lambda>r. pk_id r = i \<and> (case expected of None \<Rightarrow> True | Some st \<Rightarrow> pk_status r = st))
      in Inr (list_ex P (hs_pickups h), h\<lparr>hs_pickups := update_where P (pickup_patch p) (hs_pickups h)\<rparr>))"

subsection \<open>Trusted people\<close>

definition assertParentGuardianLink :: "uuid \<Rightarrow> uuid \<Rightarrow> uuid \<Rightarrow> ChildGuardianState house_act" where
  "assertParentGuardianLink kg childId parentUserId =
     bindA (readA (\<lambda>h. guardians_findActiveByChildAndUser kg childId parentUserId (hs_billing h))) (\<lambda>found.
     bindA (foundA found (HouseForbidden ''parent_not_a_guardian'')) (\<lambda>link.
     bindA (guardA (gd_status link = GuardianApproved \<and> gd_revokedAt link = None) (HouseForbidden ''parent_guardian_not_approved'')) (\<lambda>_.
     returnA link)))"

definition assertCanManageTrustedPeople :: "uuid \<Rightarrow> uuid \<Rightarrow> uuid \<Rightarrow> unit house_act" where
  "assertCanManageTrustedPeople kg childId parentUserId =
     bindA (assertParentGuardianLink kg childId parentUserId) (\<lambda>link.
     guardA (map_of (permissions_effective (gd_permissions link) (gd_role link)) ''trusted_people_manage'' = Some True)
       (HouseForbidden ''trusted_people_manage_required''))"

definition trusted_service_listByChild :: "uuid \<Rightarrow> uuid \<Rightarrow> uuid \<Rightarrow> TrustedPersonState list house_act" where
  "trusted_service_listByChild kg childId parentUserId =
     bindA (house_child kg childId) (\<lambda>_.
     bindA (assertParentGuardianLink kg childId parentUserId) (\<lambda>_.
     readA (trusted_listByChild kg childId)))"

record AddTrustedPersonInput =
  at_fullName :: string
  at_phone :: string
  at_iin :: "string option"
  at_relation :: string
  at_photoUrl :: "string option"
  at_isOneTime :: bool

definition addByParent :: "billing_env \<Rightarrow> uuid \<Rightarrow> uuid \<Rightarrow> uuid \<Rightarrow> AddTrustedPersonInput \<Rightarrow> TrustedPersonState house_act" where
  "addByParent E kg childId parentUserId input =
     bindA (house_child kg childId) (\<lambda>_.
     bindA (assertCanManageTrustedPeople kg childId parentUserId) (\<lambda>_.
     bindA (house_uuid E) (\<lambda>i.
     bindA (house_now E) (\<lambda>now.
     trusted_create \<lparr>tr_id = i, tr_kindergartenId = kg, tr_childId = childId, tr_addedByUserId = parentUserId,
       tr_fullName = at_fullName input, tr_phone = at_phone input, tr_iin = at_iin input, tr_relation = at_relation input,
       tr_photoUrl = at_photoUrl input, tr_isActive = True, tr_isOneTime = at_isOneTime input, tr_usedAt = None,
       tr_createdAt = now, tr_revokedAt = None\<rparr>))))"

definition trusted_of_tenant :: "uuid \<Rightarrow> uuid \<Rightarrow> TrustedPersonState house_act" where
  "trusted_of_tenant kg i =
     bindA (readA (trusted_findById i)) (\<lambda>found.
     bindA (foundA found (TrustedPersonNotFound i)) (\<lambda>tp.
     bindA (guardA (tr_kindergartenId tp = kg) (TrustedPersonNotFound i)) (\<lambda>_. returnA tp)))"

definition trusted_service_update :: "uuid \<Rightarrow> uuid \<Rightarrow> uuid \<Rightarrow> TrustedPersonPatch \<Rightarrow> TrustedPersonState house_act" where
  "trusted_service_update kg i parentUserId p =
     bindA (trusted_of_tenant kg i) (\<lambda>tp.
     bindA (assertCanManageTrustedPeople (tr_kindergartenId tp) (tr_childId tp) parentUserId) (\<lambda>_.
     bindA (guardA (\<not> (trusted_isRevoked tp \<or> \<not> tr_isActive tp)) TrustedPersonRevoked) (\<lambda>_.
     bindA (trusted_update i p) (\<lambda>updated. foundA updated (TrustedPersonNotFound i)))))"

definition trusted_service_revoke :: "billing_env \<Rightarrow> uuid \<Rightarrow> uuid \<Rightarrow> uuid \<Rightarrow> TrustedPersonState house_act" where
  "trusted_service_revoke E kg i parentUserId =
     bindA (trusted_of_tenant kg i) (\<lambda>tp.
     bindA (assertCanManageTrustedPeople (tr_kindergartenId tp) (tr_childId tp) parentUserId) (\<lambda>_.
     bindA (house_now E) (\<lambda>now.
     bindA (foundA (trusted_revoke now tp) TrustedPersonRevoked) (\<lambda>revoked.
     bindA (trusted_markRevoked (tr_id tp) now) (\<lambda>_. returnA revoked)))))"

subsection \<open>Requests\<close>

definition PICKUP_OTP_TTL_SEC :: int where "PICKUP_OTP_TTL_SEC = 30 * 60"
definition PICKUP_OTP_MAX_FAILED_ATTEMPTS :: nat where "PICKUP_OTP_MAX_FAILED_ATTEMPTS = 3"

record CreatePickupRequestInput =
  cp_childId :: uuid
  cp_trustedPersonId :: "uuid option"
  cp_trustedPersonName :: "string option"
  cp_trustedPersonPhone :: "string option"
  cp_trustedPersonIin :: "string option"

text \<open>The snapshot of whoever collects the child: id, phone, name and IIN.\<close>

definition pickup_snapshot :: "uuid \<Rightarrow> CreatePickupRequestInput \<Rightarrow> (uuid option \<times> string \<times> string \<times> string option) house_act" where
  "pickup_snapshot kg input =
     (if cp_trustedPersonId input \<noteq> None \<and> cp_trustedPersonId input \<noteq> Some [] then
        let i = the (cp_trustedPersonId input) in
        bindA (readA (trusted_findById i)) (\<lambda>found.
        bindA (foundA found (TrustedPersonNotFound i)) (\<lambda>tp.
        bindA (guardA (tr_kindergartenId tp = kg \<and> tr_childId tp = cp_childId input) TrustedPersonNotForChild) (\<lambda>_.
        bindA (guardA (isAvailableForPickup tp) TrustedPersonRevoked) (\<lambda>_.
        returnA (Some (tr_id tp), tr_phone tp, tr_fullName tp, tr_iin tp)))))
      else
        bindA (guardA (cp_trustedPersonName input \<noteq> None \<and> cp_trustedPersonName input \<noteq> Some []) (HouseForbidden ''trusted_person_name_required'')) (\<lambda>_.
        bindA (guardA (cp_trustedPersonPhone input \<noteq> None \<and> cp_trustedPersonPhone input \<noteq> Some []) (HouseForbidden ''trusted_person_phone_required'')) (\<lambda>_.
        returnA (None, the (cp_trustedPersonPhone input), the (cp_trustedPersonName input), cp_trustedPersonIin input))))"

definition pickup_createInternal :: "billing_env \<Rightarrow> uuid \<Rightarrow> uuid \<Rightarrow> CreatePickupRequestInput \<Rightarrow> PickupRequestState house_act" where
  "pickup_createInternal E kg requestedByUserId input =
     bindA (pickup_snapshot kg input) (\<lambda>(tpId, phone, name, iin).
     bindA (house_now E) (\<lambda>now.
     bindA (house_uuid E) (\<lambda>i.
     bindA (house_now E) (\<lambda>created.
     pickups_create \<lparr>pk_id = i, pk_kindergartenId = kg, pk_childId = cp_childId input, pk_requestedByUserId = requestedByUserId,
       pk_trustedPersonId = tpId, pk_trustedPersonPhone = phone, pk_trustedPersonName = name, pk_trustedPersonIin = iin,
       pk_otpRef = None, pk_status = OtpSent, pk_validatedBy = None, pk_validatedAt = None, pk_attendanceEventId = None,
       pk_parentRequestId = None, pk_expiresAt = now + PICKUP_OTP_TTL_SEC * 1000, pk_createdAt = created\<rparr>))))"

definition pickup_createByStaff :: "billing_env \<Rightarrow> uuid \<Rightarrow> uuid \<Rightarrow> CreatePickupRequestInput \<Rightarrow> PickupRequestState house_act" where
  "pickup_createByStaff E kg callerUserId input =
     bindA (house_child kg (cp_childId input)) (\<lambda>_.
     bindA (house_staff kg callerUserId) (\<lambda>_.
     pickup_createInternal E kg callerUserId input))"

definition pickup_createByParent :: "billing_env \<Rightarrow> uuid \<Rightarrow> uuid \<Rightarrow> CreatePickupRequestInput \<Rightarrow> PickupRequestState house_act" where
  "pickup_createByParent E kg parentUserId input =
     bindA (house_child kg (cp_childId input)) (\<lambda>_.
     bindA (readA (\<lambda>h. guardians_findApprovedActivePickupGuardian kg (cp_childId input) parentUserId (hs_billing h))) (\<lambda>guardian.
     bindA (guardA (guardian \<noteq> None) (HouseForbidden ''parent_not_authorized_for_pickup'')) (\<lambda>_.
     pickup_createInternal E kg parentUserId input)))"

definition pickup_getById :: "uuid \<Rightarrow> uuid \<Rightarrow> PickupRequestState house_act" where
  "pickup_getById kg i =
     bindA (readA (pickups_findById i)) (\<lambda>found.
     bindA (foundA found (PickupRequestNotFound i)) (\<lambda>pr.
     bindA (guardA (pk_kindergartenId pr = kg) (PickupRequestNotFound i)) (\<lambda>_. returnA pr)))"

text \<open>The request under the advisory lock that send, validate and cancel share.\<close>

definition pickup_locked :: "uuid \<Rightarrow> uuid \<Rightarrow> PickupRequestState house_act" where
  "pickup_locked kg i = bindA (house_lock (''pickup:validate:'' @ i)) (\<lambda>_. pickup_getById kg i)"

subsection \<open>Sending the code\<close>

definition pickup_code :: "nat \<Rightarrow> string" where
  "pickup_code n = padStart0 6 (nat_string n)"

text \<open>\<open>draw\<close> is what \<open>randomInt(0, 1000000)\<close> returns, \<open>limit\<close> the configured number of requests per window.\<close>

definition sendOtp :: "billing_env \<Rightarrow> nat \<Rightarrow> nat \<Rightarrow> uuid \<Rightarrow> uuid \<Rightarrow> (house_error, house, string \<times> int) ract" where
  "sendOtp E limit draw kg i =
     bindR (inDb (pickup_locked kg i)) (\<lambda>pr.
     bindR (inDb (guardA (pk_status pr = OtpSent) (PickupFault (PickupRequestStatusInvalid (pk_status pr) OtpSent ''send_otp'')))) (\<lambda>_.
     bindR (inDb (house_now E)) (\<lambda>now.
     bindR (inDb (guardA (\<not> pickup_isExpired now pr) (PickupFault PickupRequestExpired))) (\<lambda>_.
     bindR (askRedis (otp_isLocked i)) (\<lambda>locked.
     bindR (inDb (guardA (\<not> locked) OtpLocked)) (\<lambda>_.
     bindR (inRedis (checkRateLimit (pk_trustedPersonPhone pr) limit)) (\<lambda>exceeded.
     bindR (inDb (guardA (\<not> exceeded) OtpRateLimited)) (\<lambda>_.
     bindR (inRedis (otp_storeCode i (pickup_code draw))) (\<lambda>key.
     bindR (inDb (pickups_update i \<lparr>pp_status = None, pp_otpRef = Some (Some (''otp:pickup:'' @ key)), pp_validatedBy = None,
       pp_validatedAt = None, pp_attendanceEventId = None\<rparr> None)) (\<lambda>_.
     bindR (inRedis (\<lambda>r. ((), r\<lparr>rd_sms := rd_sms r @ [(pk_trustedPersonPhone pr, pickup_code draw)]\<rparr>))) (\<lambda>_.
     bindR (inDb (house_notify (NotifyPickupOtpSent kg (pk_childId pr) (pk_id pr) (pk_requestedByUserId pr) (pk_trustedPersonName pr)))) (\<lambda>_.
     inDb (returnA (''otp:pickup:'' @ key, PICKUP_OTP_TTL_SEC))))))))))))))"

subsection \<open>Validating the code\<close>

text \<open>The right code passes; a wrong one counts, and the third locks the request and drops the code.\<close>

definition check_code :: "uuid \<Rightarrow> string \<Rightarrow> (house_error, house, unit) ract" where
  "check_code i code =
     bindR (askRedis (otp_isLocked i)) (\<lambda>locked.
     bindR (inDb (guardA (\<not> locked) OtpLocked)) (\<lambda>_.
     bindR (askRedis (otp_readCode i)) (\<lambda>stored.
     bindR (inDb (foundA stored PickupOtpExpired)) (\<lambda>right.
     if right = code then inDb (returnA ())
     else
       bindR (inRedis (otp_incrementAttempts i)) (\<lambda>attempts.
       if attempts \<ge> PICKUP_OTP_MAX_FAILED_ATTEMPTS then
         bindR (inRedis (otp_lock i)) (\<lambda>_. bindR (inRedis (otp_clearCode i)) (\<lambda>_. inDb (throwA OtpLocked)))
       else inDb (throwA OtpInvalid))))))"

definition validate_trusted :: "PickupRequestState \<Rightarrow> TrustedPersonState option house_act" where
  "validate_trusted pr =
     (case pk_trustedPersonId pr of
        None \<Rightarrow> returnA None
      | Some t \<Rightarrow>
          bindA (readA (trusted_findById t)) (\<lambda>found.
          bindA (foundA found (TrustedPersonNotFound t)) (\<lambda>tp.
          bindA (guardA (isAvailableForPickup tp) TrustedPersonRevoked) (\<lambda>_. returnA (Some tp)))))"

definition hand_over ::
  "billing_env \<Rightarrow> uuid \<Rightarrow> uuid \<Rightarrow> uuid \<Rightarrow> uuid \<Rightarrow> instant \<Rightarrow> PickupRequestState \<Rightarrow> TrustedPersonState option
    \<Rightarrow> (PickupRequestState \<times> uuid) house_act" where
  "hand_over E kg i callerUserId staff now pr trusted =
     bindA (checkOut E kg (pk_childId pr) callerUserId None \<lparr>co_notify = True, co_recordedAt = Some now, co_notes = None,
       co_pickupRequestId = Some i, co_method = Some OtpPickup\<rparr>) (\<lambda>out.
     bindA (liftA PickupFault (pickup_validate staff (ev_id (fr_event out)) now pr)) (\<lambda>validated.
     bindA (pickups_update i \<lparr>pp_status = Some (pk_status validated), pp_otpRef = None, pp_validatedBy = Some (pk_validatedBy validated),
       pp_validatedAt = Some (pk_validatedAt validated), pp_attendanceEventId = Some (pk_attendanceEventId validated)\<rparr> None) (\<lambda>_.
     bindA (case trusted of
              None \<Rightarrow> returnA ()
            | Some tp \<Rightarrow>
                bindA (trusted_repo_markUsed (tr_id tp) now (tr_isOneTime tp)) (\<lambda>claimed.
                guardA (\<not> (\<not> claimed \<and> tr_isOneTime tp)) TrustedPersonRevoked)) (\<lambda>_.
     returnA (validated, ev_id (fr_event out))))))"

definition validateOtp ::
  "billing_env \<Rightarrow> uuid \<Rightarrow> uuid \<Rightarrow> string \<Rightarrow> uuid \<Rightarrow> (house_error, house, PickupRequestState \<times> uuid) ract" where
  "validateOtp E kg i code callerUserId =
     bindR (inDb (house_staff kg callerUserId)) (\<lambda>staff.
     bindR (inDb (pickup_locked kg i)) (\<lambda>pr.
     bindR (inDb (house_now E)) (\<lambda>now.
     bindR (inDb (case pickup_guard now pr of Some f \<Rightarrow> throwA (PickupFault f) | None \<Rightarrow> returnA ())) (\<lambda>_.
     bindR (inDb (validate_trusted pr)) (\<lambda>trusted.
     bindR (check_code i code) (\<lambda>_.
     bindR (inDb (hand_over E kg i callerUserId staff now pr trusted)) (\<lambda>(validated, eventId).
     bindR (inRedis (otp_clearCode i)) (\<lambda>_.
     bindR (inDb (house_notify (NotifyPickupValidated kg (pk_childId pr) (pk_id pr) (pk_requestedByUserId pr)
       (pk_trustedPersonName pr) eventId now))) (\<lambda>_.
     inDb (returnA (validated, eventId)))))))))))"

definition pickup_service_cancel :: "billing_env \<Rightarrow> uuid \<Rightarrow> uuid \<Rightarrow> (house_error, house, PickupRequestState) ract" where
  "pickup_service_cancel E kg i =
     bindR (inDb (pickup_locked kg i)) (\<lambda>pr.
     bindR (inDb (house_now E)) (\<lambda>now.
     bindR (inDb (liftA PickupFault (pickup_cancel pr))) (\<lambda>cancelled.
     bindR (inDb (pickups_update i \<lparr>pp_status = Some (pk_status cancelled), pp_otpRef = None, pp_validatedBy = None, pp_validatedAt = None,
       pp_attendanceEventId = None\<rparr> (Some OtpSent))) (\<lambda>updated.
     bindR (inDb (bindA (readA (pickups_findById i)) (\<lambda>fresh.
       guardA updated (case fresh of None \<Rightarrow> HouseFailure ''pickup_request_status_invalid:unknown''
         | Some f \<Rightarrow> PickupFault (PickupRequestStatusInvalid (pk_status f) OtpSent ''cancel''))))) (\<lambda>_.
     bindR (inRedis (otp_clearCode i)) (\<lambda>_.
     inDb (returnA cancelled)))))))"

end
