(* ===== verification/Timeline_Service.thy ===== *)
theory Timeline_Service
  imports Attendance_Service
begin

text \<open>
  The timeline service (\<open>src/modules/attendance/timeline.service.ts\<close>): the entries staff write by hand.
  Then: a client that follows the cursors of the list reads every entry of the child exactly once.
\<close>

record TimelineEntryOpts =
  te_isAdmin :: bool
  te_callerRole :: "string option"

definition assertMentorScopeForChild :: "uuid \<Rightarrow> uuid \<Rightarrow> uuid option \<Rightarrow> uuid \<Rightarrow> unit house_act" where
  "assertMentorScopeForChild kg callerUserId currentGroupId childId =
     (case currentGroupId of
        None \<Rightarrow> throwA (MentorScopeViolated childId)
      | Some g \<Rightarrow>
          if g = [] then throwA (MentorScopeViolated childId)
          else bindA (readA (\<lambda>h. isUserActiveMentorForGroup kg callerUserId g (hs_school h))) (\<lambda>isMentor.
               guardA isMentor (MentorScopeViolated childId)))"

text \<open>Only the role of a mentor is bound to a group.\<close>

definition mentor_bound :: "TimelineEntryOpts \<Rightarrow> bool" where
  "mentor_bound opts \<longleftrightarrow> \<not> te_isAdmin opts \<and> te_callerRole opts = Some ''mentor''"

definition entry_or_throw :: "uuid \<Rightarrow> uuid \<Rightarrow> TimelineEntryState house_act" where
  "entry_or_throw kg i = bindA (readA (timeline_findById kg i)) (\<lambda>found. foundA found (TimelineEntryNotFound i))"

definition createEntry ::
  "billing_env \<Rightarrow> uuid \<Rightarrow> uuid \<Rightarrow> uuid \<Rightarrow> CreateTimelineEntryInput \<Rightarrow> instant option \<Rightarrow> TimelineEntryOpts \<Rightarrow> TimelineEntryState house_act" where
  "createEntry E kg childId callerUserId dto dtoEntryTime opts =
     bindA (guardA (\<not> List.member RESERVED_ENTRY_TYPES (ct_entryType dto)) (InvalidTimelineEntryType (ct_entryType dto))) (\<lambda>_.
     bindA (guardA (assertTimelineMetadata (ct_entryType dto) (ct_metadata dto)) (InvalidTimelineMetadata (ct_entryType dto))) (\<lambda>_.
     bindA (house_staff kg callerUserId) (\<lambda>staff.
     bindA (house_child kg childId) (\<lambda>child.
     bindA (whenA (mentor_bound opts) (assertMentorScopeForChild kg callerUserId (ch_currentGroupId child) childId)) (\<lambda>_.
     bindA (recorded_time E dtoEntryTime) (\<lambda>entryTime.
     bindA (assertNotFuture E entryTime) (\<lambda>_.
     bindA (house_uuid E) (\<lambda>i.
     bindA (house_now E) (\<lambda>now.
     bindA (timeline_create kg (timeline_createNew i kg childId dto (Some staff) entryTime None now)) (\<lambda>entry.
     bindA (house_notify (NotifyTimelineEntryCreated kg childId (tl_id entry) (tl_entryType entry) (tl_entryTime entry) (tl_recordedBy entry))) (\<lambda>_.
     returnA entry)))))))))))"

text \<open>The right to change an entry: its author or an administrator; a mentor only for his own groups.\<close>

definition authorise_edit :: "uuid \<Rightarrow> uuid \<Rightarrow> uuid \<Rightarrow> TimelineEntryOpts \<Rightarrow> TimelineEntryState house_act" where
  "authorise_edit kg entryId callerUserId opts =
     bindA (entry_or_throw kg entryId) (\<lambda>entry.
     bindA (if te_isAdmin opts then returnA None else bindA (house_staff kg callerUserId) (\<lambda>s. returnA (Some s))) (\<lambda>staff.
     bindA (guardA (assertEditableBy staff (te_isAdmin opts) entry) (TimelineEntryNotAuthor entryId)) (\<lambda>_.
     bindA (whenA (mentor_bound opts)
       (bindA (house_child kg (tl_childId entry)) (\<lambda>child.
        assertMentorScopeForChild kg callerUserId (ch_currentGroupId child) (tl_childId entry)))) (\<lambda>_.
     returnA entry))))"

record UpdateTimelineEntryInput =
  ut_title :: "string option option"
  ut_body :: "string option option"
  ut_mediaUrls :: "string list option option"
  ut_metadata :: "json_object option option"
  ut_entryTime :: "instant option"

definition updateEntry ::
  "billing_env \<Rightarrow> uuid \<Rightarrow> uuid \<Rightarrow> uuid \<Rightarrow> UpdateTimelineEntryInput \<Rightarrow> TimelineEntryOpts \<Rightarrow> TimelineEntryState house_act" where
  "updateEntry E kg entryId callerUserId dto opts =
     bindA (authorise_edit kg entryId callerUserId opts) (\<lambda>entry.
     bindA (case ut_entryTime dto of None \<Rightarrow> returnA () | Some t \<Rightarrow> assertNotFuture E t) (\<lambda>_.
     bindA (case ut_metadata dto of None \<Rightarrow> returnA ()
            | Some m \<Rightarrow> guardA (assertTimelineMetadata (tl_entryType entry) m) (InvalidTimelineMetadata (tl_entryType entry))) (\<lambda>_.
     timeline_update kg (timeline_applyPatch \<lparr>tlp_title = ut_title dto, tlp_body = ut_body dto, tlp_mediaUrls = ut_mediaUrls dto,
       tlp_metadata = ut_metadata dto, tlp_entryTime = ut_entryTime dto, tlp_childId = None\<rparr> entry))))"

definition deleteEntry :: "uuid \<Rightarrow> uuid \<Rightarrow> uuid \<Rightarrow> TimelineEntryOpts \<Rightarrow> unit house_act" where
  "deleteEntry kg entryId callerUserId opts =
     bindA (authorise_edit kg entryId callerUserId opts) (\<lambda>_. timeline_delete kg entryId)"

definition timeline_listByChild ::
  "uuid \<Rightarrow> uuid \<Rightarrow> instant option \<Rightarrow> instant option \<Rightarrow> int option \<Rightarrow> (instant \<times> uuid) option
    \<Rightarrow> (TimelineEntryState list \<times> (instant \<times> uuid) option) house_act" where
  "timeline_listByChild kg childId start fin limit cursor =
     bindA (house_child kg childId) (\<lambda>_. readA (timeline_findByChild kg childId start fin limit cursor))"

subsection \<open>Reading the list page by page\<close>

lemma timeline_clampLimit_pos: "0 < timeline_clampLimit limit"
  by (auto simp: timeline_clampLimit_def timeline_DEFAULT_LIMIT_def timeline_MAX_LIMIT_def split: option.splits)

lemma timeline_pages_complete:
  assumes "distinct (map tl_id (hs_timeline h))"
    and "length (timeline_rows kg childId start fin h) \<le> n * timeline_clampLimit limit + timeline_clampLimit limit"
  shows "follow_pages (\<lambda>c. timeline_findByChild kg childId start fin limit c h) (Suc n) None
    = rev (sort_key timeline_order (timeline_rows kg childId start fin h))"
proof -
  have "distinct (map tl_id (timeline_rows kg childId start fin h))"
    unfolding timeline_rows_def using assms(1) by (simp add: distinct_map_filter)
  hence "distinct (map timeline_order (timeline_rows kg childId start fin h))"
    by (auto simp: distinct_map inj_on_def timeline_order_def)
  thus ?thesis unfolding timeline_findByChild_def
    by (rule follow_keyset_pages[OF _ timeline_clampLimit_pos assms(2)])
qed

end
