(* ===== verification/Act_Triple.thy ===== *)
theory Act_Triple
  imports Act
begin

text \<open>
  Triples for acts: when the precondition holds and the act returns, the postcondition holds of the
  result and the new state. The rules follow the structure of an act, reads and guards become facts.
\<close>

definition triple :: "('s \<Rightarrow> bool) \<Rightarrow> ('e, 's, 'a) act \<Rightarrow> ('a \<Rightarrow> 's \<Rightarrow> bool) \<Rightarrow> bool" where
  "triple P m Q \<longleftrightarrow> (\<forall>s x t. P s \<longrightarrow> m s = Inr (x, t) \<longrightarrow> Q x t)"

named_theorems triples \<open>rules for triples\<close>

lemma tripleI: "(\<And>s x t. P s \<Longrightarrow> m s = Inr (x, t) \<Longrightarrow> Q x t) \<Longrightarrow> triple P m Q"
  by (simp add: triple_def)

lemma tripleD: "triple P m Q \<Longrightarrow> P s \<Longrightarrow> m s = Inr (x, t) \<Longrightarrow> Q x t"
  unfolding triple_def by blast

lemma triple_bind: "triple P m R \<Longrightarrow> (\<And>x. triple (R x) (k x) Q) \<Longrightarrow> triple P (bindA m k) Q"
  unfolding triple_def by (metis act_inv_rules)

lemma triple_conseq: "triple P' m Q' \<Longrightarrow> (\<And>s. P s \<Longrightarrow> P' s) \<Longrightarrow> (\<And>x s. Q' x s \<Longrightarrow> Q x s) \<Longrightarrow> triple P m Q"
  unfolding triple_def by blast

lemma triple_keep: "preserves I m \<Longrightarrow> (\<And>x s. I s \<Longrightarrow> Q x s) \<Longrightarrow> triple I m Q"
  unfolding triple_def preserves_def by blast

lemma triple_preserves: "triple I m (\<lambda>_. I) \<longleftrightarrow> preserves I m"
  unfolding triple_def preserves_def by blast

text \<open>A step that keeps what is known so far.\<close>

lemma triple_keep_bind: "preserves I m \<Longrightarrow> (\<And>x. triple I (k x) Q) \<Longrightarrow> triple I (bindA m k) Q"
  by (rule triple_bind[of _ _ "\<lambda>_. I"]) (auto intro: triple_keep)

lemma triple_return [triples]: "(\<And>s. P s \<Longrightarrow> Q x s) \<Longrightarrow> triple P (returnA x) Q"
  by (simp add: triple_def act_inv)

lemma triple_throw [triples]: "triple P (throwA e) Q"
  by (simp add: triple_def act_inv)

lemma triple_read_bind [triples]:
  "(\<And>x. triple (\<lambda>s. P s \<and> f s = x) (k x) Q) \<Longrightarrow> triple P (bindA (readA f) k) Q"
  by (simp add: triple_def act_inv)

lemma triple_guard_bind [triples]: "(b \<Longrightarrow> triple P (k ()) Q) \<Longrightarrow> triple P (bindA (guardA b e) k) Q"
  by (auto simp: triple_def act_inv)

lemma triple_found_bind [triples]: "(\<And>x. v = Some x \<Longrightarrow> triple P (k x) Q) \<Longrightarrow> triple P (bindA (foundA v e) k) Q"
  by (auto simp: triple_def act_inv)

lemma triple_found [triples]: "(\<And>x s. v = Some x \<Longrightarrow> P s \<Longrightarrow> Q x s) \<Longrightarrow> triple P (foundA v e) Q"
  by (auto simp: triple_def act_inv)

lemma triple_modify [triples]: "(\<And>s. P s \<Longrightarrow> Q () (f s)) \<Longrightarrow> triple P (modifyA f) Q"
  by (auto simp: triple_def act_inv)

lemma triple_if [triples]: "(b \<Longrightarrow> triple P m Q) \<Longrightarrow> (\<not> b \<Longrightarrow> triple P m' Q) \<Longrightarrow> triple P (if b then m else m') Q"
  by simp

lemma triple_option [triples]:
  "(v = None \<Longrightarrow> triple P m Q) \<Longrightarrow> (\<And>x. v = Some x \<Longrightarrow> triple P (f x) Q) \<Longrightarrow>
    triple P (case v of None \<Rightarrow> m | Some x \<Rightarrow> f x) Q"
  by (cases v) auto

lemma triple_pre_false: "(\<And>s. \<not> P s) \<Longrightarrow> triple P m Q"
  by (simp add: triple_def)

lemma preserves_actOn: "(\<And>s t. I s \<Longrightarrow> I (put t s)) \<Longrightarrow> preserves I (actOn get put h m)"
  by (auto simp: preserves_def act_inv)

lemma preserves_modify: "(\<And>s. I s \<Longrightarrow> I (f s)) \<Longrightarrow> preserves I (modifyA f)"
  by (auto simp: preserves_def act_inv)

end
