(* ===== verification/Pickup_Facts.thy ===== *)
theory Pickup_Facts
  imports Pickup_Service Timeline_Service Act_Triple
begin

text \<open>
  What handing over guarantees, over every sequence of operations of the door, failed ones and expired
  Redis keys included: a pickup request is behind at most one attendance event, a one-time person
  collects at most once, and three wrong codes lock a request.
\<close>

subsection \<open>Steps\<close>

inductive hand_step :: "redis \<times> house \<Rightarrow> redis \<times> house \<Rightarrow> bool" where
  check_in: "checkIn E kg c u opts h = Inr (x1, h') \<Longrightarrow> hand_step (r, h) (r, h')"
| check_out: "checkOut E kg c u p opts h = Inr (x1, h') \<Longrightarrow> co_pickupRequestId opts = None \<Longrightarrow> hand_step (r, h) (r, h')"
| patch: "patchEvent E kg i u pt po h = Inr (x2, h') \<Longrightarrow> hand_step (r, h) (r, h')"
| delete: "deleteEvent E kg i u h = Inr (x3, h') \<Longrightarrow> hand_step (r, h) (r, h')"
| daily: "setDailyStatus E kg u ds h = Inr (x4, h') \<Longrightarrow> hand_step (r, h) (r, h')"
| entry: "createEntry E kg c u dto v eo h = Inr (x5, h') \<Longrightarrow> hand_step (r, h) (r, h')"
| entry_update: "updateEntry E kg i u ut eo h = Inr (x5, h') \<Longrightarrow> hand_step (r, h) (r, h')"
| entry_delete: "deleteEntry kg i u eo h = Inr (x3, h') \<Longrightarrow> hand_step (r, h) (r, h')"
| trust: "addByParent E kg c u ad h = Inr (x6, h') \<Longrightarrow> hand_step (r, h) (r, h')"
| trust_update: "trusted_service_update kg i u tq h = Inr (x6, h') \<Longrightarrow> hand_step (r, h) (r, h')"
| trust_revoke: "trusted_service_revoke E kg i u h = Inr (x6, h') \<Longrightarrow> hand_step (r, h) (r, h')"
| request_staff: "pickup_createByStaff E kg u cp h = Inr (x7, h') \<Longrightarrow> hand_step (r, h) (r, h')"
| request_parent: "pickup_createByParent E kg u cp h = Inr (x7, h') \<Longrightarrow> hand_step (r, h) (r, h')"
| send: "sendOtp E limit draw kg i r h = (Inr (x8, h'), r') \<Longrightarrow> hand_step (r, h) (r', h')"
| send_failed: "sendOtp E limit draw kg i r h = (Inl err, r') \<Longrightarrow> hand_step (r, h) (r', h)"
| validate: "validateOtp E kg i code u r h = (Inr (x9, h'), r') \<Longrightarrow> hand_step (r, h) (r', h')"
| validate_failed: "validateOtp E kg i code u r h = (Inl err, r') \<Longrightarrow> hand_step (r, h) (r', h)"
| cancel: "pickup_service_cancel E kg i r h = (Inr (x7, h'), r') \<Longrightarrow> hand_step (r, h) (r', h')"
| cancel_failed: "pickup_service_cancel E kg i r h = (Inl err, r') \<Longrightarrow> hand_step (r, h) (r', h)"
| expire: "hand_step (r, h) (r', h)"
| other: "hs_events h' = hs_events h \<Longrightarrow> hs_pickups h' = hs_pickups h \<Longrightarrow> hs_trusted h' = hs_trusted h \<Longrightarrow> hand_step (r, h) (r, h')"

inductive_cases hand_stepE: "hand_step s t"

subsection \<open>A spent person stays spent\<close>

definition spent :: "uuid \<Rightarrow> house \<Rightarrow> bool" where
  "spent t h \<longleftrightarrow> (\<exists>r. trusted_findById t h = Some r \<and> \<not> tr_isActive r)"

lemma find_update_where:
  "(\<And>r. Q (f r) = Q r) \<Longrightarrow> find Q (update_where P f rows) = map_option (\<lambda>r. if P r then f r else r) (find Q rows)"
  by (induction rows) (auto simp: update_where_Cons)

lemma find_snoc: "find Q rows = Some r \<Longrightarrow> find Q (rows @ [x]) = Some r"
  by (induction rows) (auto split: if_splits)

lemma spent_update:
  assumes "spent t h" "hs_trusted h' = update_where P f (hs_trusted h)"
    and "\<And>r. tr_id (f r) = tr_id r" "\<And>r. \<not> tr_isActive r \<Longrightarrow> \<not> tr_isActive (f r)"
  shows "spent t h'"
proof -
  from assms(1) obtain r where r: "find (\<lambda>r. tr_id r = t) (hs_trusted h) = Some r" "\<not> tr_isActive r"
    unfolding spent_def trusted_findById_def by blast
  have "find (\<lambda>r. tr_id r = t) (hs_trusted h') = Some (if P r then f r else r)"
    unfolding assms(2) by (subst find_update_where) (simp_all add: assms(3) r)
  moreover have "\<not> tr_isActive (if P r then f r else r)" using assms(4) r(2) by simp
  ultimately show ?thesis unfolding spent_def trusted_findById_def by blast
qed

lemma spent_parts [preserve]:
  "preserves (spent t) (ofBilling m1)" "preserves (spent t) (ofSchool m2)" "preserves (spent t) (house_notify n)"
  "preserves (spent t) (audit_record a)" "preserves (spent t) (house_lock k)"
  "preserves (spent t) (events_create kg e)" "preserves (spent t) (events_update kg e)"
  "preserves (spent t) (timeline_create kg te)" "preserves (spent t) (timeline_update kg te)" "preserves (spent t) (timeline_delete kg i)"
  "preserves (spent t) (daily_upsert kg d)" "preserves (spent t) (daily_updatePresentIfAbsentOrLate kg c dt s now)"
  "preserves (spent t) (pickups_create p)" "preserves (spent t) (pickups_update i pp ex)"
  by (auto simp: preserves_def spent_def trusted_findById_def ofBilling_def ofSchool_def house_notify_def audit_record_def house_lock_def
      events_create_def events_update_def timeline_create_def timeline_update_def timeline_delete_def daily_upsert_def
      daily_updatePresentIfAbsentOrLate_def pickups_create_def pickups_update_def act_inv Let_def split: if_splits)

lemma spent_trusted [preserve]:
  "preserves (spent t) (trusted_create r)" "preserves (spent t) (trusted_update i p)" "preserves (spent t) (trusted_markRevoked i now)"
  "preserves (spent t) (trusted_repo_markUsed i now b)"
proof -
  show "preserves (spent t) (trusted_create r)"
    by (auto simp: preserves_def spent_def trusted_findById_def trusted_create_def find_snoc split: if_splits)
  have upd: "preserves (spent t) (modifyA (\<lambda>h. h\<lparr>hs_trusted := update_where P f (hs_trusted h)\<rparr>))"
    if "\<And>r. tr_id (f r) = tr_id r" "\<And>r. \<not> tr_isActive r \<Longrightarrow> \<not> tr_isActive (f r)" for P f
    using that by (auto simp: preserves_def act_inv intro: spent_update[where P = P and f = f])
  show "preserves (spent t) (trusted_update i p)"
    unfolding trusted_update_def by (intro preserve upd) (simp_all add: trusted_patch_def)
  show "preserves (spent t) (trusted_markRevoked i now)" unfolding trusted_markRevoked_def by (rule upd) simp_all
  show "preserves (spent t) (trusted_repo_markUsed i now b)"
    unfolding preserves_def trusted_repo_markUsed_def
  proof (intro allI impI)
    let ?f = "\<lambda>r. r\<lparr>tr_usedAt := Some now, tr_isActive := (if b then False else tr_isActive r)\<rparr>"
    fix s x s'
    assume s: "spent t s" and run: "Inr (list_ex (trusted_claim i b) (hs_trusted s),
      s\<lparr>hs_trusted := update_where (trusted_claim i b) ?f (hs_trusted s)\<rparr>) = (Inr (x, s') :: (house_error, bool, house) outcome)"
    from run have "hs_trusted s' = update_where (trusted_claim i b) ?f (hs_trusted s)" by (simp only: sum.inject prod.inject) auto
    with s show "spent t s'" by (rule spent_update) simp_all
  qed
qed

lemma preserve_pair [preserve]: "(\<And>a b. preserves I (f a b)) \<Longrightarrow> preserves I (case p of (a, b) \<Rightarrow> f a b)"
  by (cases p) simp

lemmas house_defs = house_now_def house_uuid_def house_staff_def house_child_def assertPickupAllowed_def assertNotFuture_def
  recorded_time_def event_audit_def promote_day_def recomputeDailyStatus_def recomputeAffectedDailyStatuses_def assertEditWindow_def
  cascadeTimeline_def event_or_throw_def authorise_edit_def entry_or_throw_def assertMentorScopeForChild_def
  assertParentGuardianLink_def assertCanManageTrustedPeople_def trusted_of_tenant_def pickup_snapshot_def pickup_createInternal_def
  pickup_getById_def pickup_locked_def validate_trusted_def check_code_def

lemma spent_ops:
  "preserves (spent t) (checkIn E kg c u opts)" "preserves (spent t) (checkOut E kg c u p opts)"
  "preserves (spent t) (patchEvent E kg i u pt po)" "preserves (spent t) (deleteEvent E kg i u)"
  "preserves (spent t) (setDailyStatus E kg u ds)" "preserves (spent t) (createEntry E kg c u dto v eo)"
  "preserves (spent t) (updateEntry E kg i u ut eo)" "preserves (spent t) (deleteEntry kg i u eo)"
  "preserves (spent t) (addByParent E kg c u ad)" "preserves (spent t) (trusted_service_update kg i u tq)"
  "preserves (spent t) (trusted_service_revoke E kg i u)" "preserves (spent t) (pickup_createByStaff E kg u cp)"
  "preserves (spent t) (pickup_createByParent E kg u cp)"
  unfolding checkIn_def checkOut_def patchEvent_def deleteEvent_def setDailyStatus_def createEntry_def updateEntry_def deleteEntry_def
    addByParent_def trusted_service_update_def trusted_service_revoke_def pickup_createByStaff_def pickup_createByParent_def house_defs Let_def
  by (intro preserve)+

lemma spent_check_out [preserve]: "preserves (spent t) (checkOut E kg c u p opts)"
  by (rule spent_ops)

lemma preservesR_pair [preserve]: "(\<And>a b. preservesR I (f a b)) \<Longrightarrow> preservesR I (case p of (a, b) \<Rightarrow> f a b)"
  by (cases p) simp

lemma spent_otp_ops:
  "preservesR (spent t) (sendOtp E limit draw kg i)" "preservesR (spent t) (pickup_service_cancel E kg i)"
  "preservesR (spent t) (validateOtp E kg i code u)"
  unfolding sendOtp_def pickup_service_cancel_def validateOtp_def hand_over_def house_defs Let_def
  by (intro preserve)+

lemmas spentD = spent_ops[THEN preservesD, rotated] spent_otp_ops[THEN preservesRD, rotated]

lemma spent_step:
  assumes "hand_step (r, h) (r', h')" "spent t h"
  shows "spent t h'"
  using assms(1)
proof (rule hand_stepE)
  show "spent t h'" if "(r', h') = (rr, h2)" "hs_trusted h2 = hs_trusted hh" "(r, h) = (rr, hh)" for rr h2 hh
    using that assms(2) by (simp add: spent_def trusted_findById_def)
qed (use assms(2) in \<open>auto dest: spentD\<close>)

lemma spent_steps: "hand_step\<^sup>*\<^sup>* s t \<Longrightarrow> spent p (snd s) \<Longrightarrow> spent p (snd t)"
proof (induction rule: rtranclp_induct)
  case (step t u)
  thus ?case by (metis prod.collapse spent_step)
qed simp

subsection \<open>What a validation knows\<close>

definition tables :: "house \<Rightarrow> AttendanceEventState list \<times> TimelineEntryState list \<times> TrustedPersonState list \<times> PickupRequestState list" where
  "tables h = (hs_events h, hs_timeline h, hs_trusted h, hs_pickups h)"

lemma tables_kept:
  "house_staff kg u h = Inr (x1, h1) \<Longrightarrow> tables h1 = tables h" "house_now E h = Inr (x2, h2) \<Longrightarrow> tables h2 = tables h"
  "house_lock k h = Inr (x3, h3) \<Longrightarrow> tables h3 = tables h" "house_notify n h = Inr (x4, h4) \<Longrightarrow> tables h4 = tables h"
  "house_child kg c h = Inr (x5, h5) \<Longrightarrow> tables h5 = tables h" "assertNotFuture E t h = Inr (x6, h6) \<Longrightarrow> tables h6 = tables h"
  "house_uuid E h = Inr (x7, h7) \<Longrightarrow> tables h7 = tables h" "audit_record a h = Inr (x8, h8) \<Longrightarrow> tables h8 = tables h"
  by (auto simp: tables_def house_staff_def house_now_def house_lock_def house_notify_def house_child_def assertNotFuture_def
      house_uuid_def audit_record_def ofBilling_def ofSchool_def act_inv)

lemma pickup_locked_returned:
  "pickup_locked kg i h = Inr (pr, h') \<Longrightarrow> tables h' = tables h \<and> pickups_findById i h = Some pr \<and> pk_kindergartenId pr = kg"
  by (auto simp: pickup_locked_def pickup_getById_def act_inv house_lock_def tables_def pickups_findById_def)

lemma validate_trusted_returned:
  "validate_trusted pr h = Inr (tp, h') \<Longrightarrow> h' = h \<and> (case pk_trustedPersonId pr of None \<Rightarrow> tp = None
    | Some t \<Rightarrow> (\<exists>x. tp = Some x \<and> trusted_findById t h = Some x \<and> isAvailableForPickup x))"
  by (auto simp: validate_trusted_def act_inv split: option.splits)

lemma check_code_returned:
  assumes "check_code i code r h = (Inr (x, h'), r')"
  shows "h' = h \<and> r' = r \<and> \<not> otp_isLocked i r \<and> otp_readCode i r = Some code"
  using assms unfolding check_code_def
  by (elim bindR_returned) (auto simp: inDb_returned askRedis_returned act_inv split: if_splits elim!: bindR_returned)

lemma validate_returned:
  assumes "validateOtp E kg i code u r h = (Inr (x, h'), r')"
  obtains staff pr now tp h1 h2 where "pickups_findById i h = Some pr" "pk_kindergartenId pr = kg" "pickup_guard now pr = None"
    and "\<not> otp_isLocked i r" "otp_readCode i r = Some code" "tables h1 = tables h"
    and "case pk_trustedPersonId pr of None \<Rightarrow> tp = None
      | Some t \<Rightarrow> (\<exists>y. tp = Some y \<and> trusted_findById t h = Some y \<and> isAvailableForPickup y)"
    and "hand_over E kg i u staff now pr tp h1 = Inr (x, h2)" "tables h' = tables h2" "r' = snd (otp_clearCode i r)"
proof -
  from assms obtain staff h3 pr h4 now h5 h6 tp h7 r7 h8 r8 y h9 where
    st: "house_staff kg u h = Inr (staff, h3)" and pr: "pickup_locked kg i h3 = Inr (pr, h4)" and now: "house_now E h4 = Inr (now, h5)"
    and gd: "(case pickup_guard now pr of Some f \<Rightarrow> throwA (PickupFault f) | None \<Rightarrow> returnA ()) h5 = (Inr ((), h6) :: (house_error, unit, house) outcome)"
    and tp: "validate_trusted pr h6 = Inr (tp, h7)" and cc: "check_code i code r h7 = (Inr ((), h8), r8)"
    and ho: "hand_over E kg i u staff now pr tp h8 = Inr (y, h9)"
    and fin: "(\<lambda>(validated, eventId). bindR (inRedis (otp_clearCode i)) (\<lambda>_.
       bindR (inDb (house_notify (NotifyPickupValidated kg (pk_childId pr) (pk_id pr) (pk_requestedByUserId pr)
       (pk_trustedPersonName pr) eventId now))) (\<lambda>_. inDb (returnA (validated, eventId))))) y r8 h9 = (Inr (x, h'), r')"
    unfolding validateOtp_def by (elim bindR_returned) (auto simp: inDb_returned)
  have g: "pickup_guard now pr = None" "h6 = h5" using gd by (auto simp: act_inv split: option.splits)
  have c: "h8 = h7" "r8 = r" "\<not> otp_isLocked i r" "otp_readCode i r = Some code" using check_code_returned[OF cc] by auto
  have t1: "tables h3 = tables h" "tables h4 = tables h3" "tables h5 = tables h4" "h7 = h6"
    using tables_kept(1)[OF st] pickup_locked_returned[OF pr] tables_kept(2)[OF now] validate_trusted_returned[OF tp] by auto
  obtain a b where y: "y = (a, b)" by (cases y)
  from fin obtain h10 where f: "house_notify (NotifyPickupValidated kg (pk_childId pr) (pk_id pr) (pk_requestedByUserId pr)
       (pk_trustedPersonName pr) b now) h9 = Inr ((), h10)" "h' = h10" "x = y" "r' = snd (otp_clearCode i r)"
    unfolding y c(2) by (auto elim!: bindR_returned simp: inDb_returned inRedis_returned act_inv)
  have pk: "pickups_findById i h = Some pr" "pk_kindergartenId pr = kg"
    using pickup_locked_returned[OF pr] t1 by (simp_all add: pickups_findById_def tables_def)
  have tr: "case pk_trustedPersonId pr of None \<Rightarrow> tp = None
      | Some t \<Rightarrow> (\<exists>y. tp = Some y \<and> trusted_findById t h = Some y \<and> isAvailableForPickup y)"
    using validate_trusted_returned[OF tp] t1 g(2) by (auto simp: trusted_findById_def tables_def split: option.splits)
  have "tables h8 = tables h" using c t1 g by simp
  moreover have "tables h' = tables h9" using tables_kept(4)[OF f(1)] f(2) by simp
  ultimately show ?thesis using that[OF pk g(1) c(3,4) _ tr] ho f(3,4) by blast
qed

lemma keep_tables:
  "preserves (\<lambda>s. J (tables s)) (house_now E)" "preserves (\<lambda>s. J (tables s)) (house_uuid E)" "preserves (\<lambda>s. J (tables s)) (house_staff kg u)"
  "preserves (\<lambda>s. J (tables s)) (house_child kg c)" "preserves (\<lambda>s. J (tables s)) (assertNotFuture E t)"
  "preserves (\<lambda>s. J (tables s)) (assertPickupAllowed kg c p)" "preserves (\<lambda>s. J (tables s)) (recorded_time E v)"
  "preserves (\<lambda>s. J (tables s)) (house_notify n)" "preserves (\<lambda>s. J (tables s)) (event_audit kg i a u st b af)"
  by (auto simp: preserves_def tables_kept event_audit_def assertPickupAllowed_def recorded_time_def act_inv dest!: tables_kept split: option.splits)

lemma checkOut_event:
  assumes "checkOut E kg c u p opts h = Inr (out, h')"
  shows "ev_id (fr_event out) \<notin> ev_id ` set (hs_events h) \<and> ev_kindergartenId (fr_event out) = kg \<and> ev_childId (fr_event out) = c
    \<and> ev_eventType (fr_event out) = CheckOut \<and> ev_pickupRequestId (fr_event out) = co_pickupRequestId opts
    \<and> hs_events h' = hs_events h @ [fr_event out] \<and> hs_trusted h' = hs_trusted h \<and> hs_pickups h' = hs_pickups h"
proof -
  define K where "K = (\<lambda>T. T = tables h)"
  let ?I = "\<lambda>e T. \<exists>ts. T = (hs_events h @ [e], ts, hs_trusted h, hs_pickups h) \<and> ev_id e \<notin> ev_id ` set (hs_events h)
    \<and> ev_kindergartenId e = kg \<and> ev_childId e = c \<and> ev_eventType e = CheckOut \<and> ev_pickupRequestId e = co_pickupRequestId opts"
  have new: "triple (\<lambda>s. K (tables s)) (events_create kg (event_createCheckOut i kg c m st p (co_pickupRequestId opts) n t now))
      (\<lambda>e s. ?I e (tables s))" for i m st n t now
    by (rule tripleI)
      (auto simp: events_create_def event_createCheckOut_def K_def tables_def Let_def list_ex_iff split: if_splits)
  have line: "triple (\<lambda>s. ?I e (tables s)) (timeline_create kg x) (\<lambda>_ s. ?I e (tables s))" for e x
    by (rule tripleI) (auto simp: timeline_create_def tables_def Let_def split: if_splits)
  have "triple (\<lambda>s. K (tables s)) (checkOut E kg c u p opts) (\<lambda>out s. ?I (fr_event out) (tables s))"
    unfolding checkOut_def Let_def
    by ((rule triple_keep_bind[where I = "\<lambda>s. K (tables s)"], (intro preserve keep_tables; fail))+,
        rule triple_bind[OF new],
        (rule triple_keep_bind[where I = "\<lambda>s. ?I e (tables s)" for e], (intro preserve keep_tables[where J = "?I e" for e]; fail))+,
        rule triple_bind[OF line],
        (rule triple_keep_bind[where I = "\<lambda>s. ?I e (tables s)" for e], (intro preserve keep_tables[where J = "?I e" for e]; fail))+,
        rule triple_return, simp)
  from tripleD[OF this _ assms] show ?thesis by (auto simp: K_def tables_def)
qed

text \<open>A hand-over: one event that names the request, the request validated with that event, the person claimed.\<close>

definition validated_by :: "uuid \<Rightarrow> uuid \<Rightarrow> instant \<Rightarrow> PickupRequestState \<Rightarrow> PickupRequestState" where
  "validated_by staff ev now p = p\<lparr>pk_status := Validated, pk_validatedBy := Some staff, pk_validatedAt := Some now,
     pk_attendanceEventId := Some ev\<rparr>"

lemma hand_over_returned:
  assumes "hand_over E kg i u staff now pr tp h = Inr ((p, ev), h')" and "pickup_guard now pr = None"
  obtains e where "ev_id e = ev" "ev_id e \<notin> ev_id ` set (hs_events h)" "ev_pickupRequestId e = Some i" "ev_childId e = pk_childId pr"
    and "ev_kindergartenId e = kg" "ev_eventType e = CheckOut" "hs_events h' = hs_events h @ [e]" "p = validated_by staff ev now pr"
    and "hs_pickups h' = update_where (\<lambda>r. pk_id r = i) (validated_by staff ev now) (hs_pickups h)"
    and "case tp of None \<Rightarrow> hs_trusted h' = hs_trusted h
      | Some y \<Rightarrow> hs_trusted h' = update_where (trusted_claim (tr_id y) (tr_isOneTime y))
          (\<lambda>r. r\<lparr>tr_usedAt := Some now, tr_isActive := (if tr_isOneTime y then False else tr_isActive r)\<rparr>) (hs_trusted h)"
proof -
  let ?opts = "\<lparr>co_notify = True, co_recordedAt = Some now, co_notes = None, co_pickupRequestId = Some i, co_method = Some OtpPickup\<rparr>"
  from assms(1) obtain out h1 h2 where out: "checkOut E kg (pk_childId pr) u None ?opts h = Inr (out, h1)"
    and v: "pickup_validate staff (ev_id (fr_event out)) now pr = Inr p" and ev: "ev = ev_id (fr_event out)"
    and h2: "h2 = h1\<lparr>hs_pickups := update_where (\<lambda>r. pk_id r = i) (pickup_patch \<lparr>pp_status = Some (pk_status p), pp_otpRef = None,
       pp_validatedBy = Some (pk_validatedBy p), pp_validatedAt = Some (pk_validatedAt p),
       pp_attendanceEventId = Some (pk_attendanceEventId p)\<rparr>) (hs_pickups h1)\<rparr>"
    and tr: "(case tp of None \<Rightarrow> returnA () | Some y \<Rightarrow> bindA (trusted_repo_markUsed (tr_id y) now (tr_isOneTime y)) (\<lambda>claimed.
                guardA (\<not> (\<not> claimed \<and> tr_isOneTime y)) TrustedPersonRevoked)) h2 = (Inr ((), h') :: (house_error, unit, house) outcome)"
    unfolding hand_over_def by (auto simp: act_inv pickups_update_def Let_def)
  note c = checkOut_event[OF out]
  have p: "p = validated_by staff (ev_id (fr_event out)) now pr"
    using v assms(2) by (simp add: pickup_validate_def validated_by_def)
  have patch: "pickup_patch \<lparr>pp_status = Some (pk_status p), pp_otpRef = None, pp_validatedBy = Some (pk_validatedBy p),
       pp_validatedAt = Some (pk_validatedAt p), pp_attendanceEventId = Some (pk_attendanceEventId p)\<rparr> = validated_by staff ev now"
    by (rule ext) (simp add: pickup_patch_def p validated_by_def or_old_def ev)
  have "hs_events h' = hs_events h2" "hs_pickups h' = hs_pickups h2"
    and "case tp of None \<Rightarrow> hs_trusted h' = hs_trusted h2
      | Some y \<Rightarrow> hs_trusted h' = update_where (trusted_claim (tr_id y) (tr_isOneTime y))
          (\<lambda>r. r\<lparr>tr_usedAt := Some now, tr_isActive := (if tr_isOneTime y then False else tr_isActive r)\<rparr>) (hs_trusted h2)"
    using tr by (auto simp: act_inv trusted_repo_markUsed_def split: option.splits)
  thus ?thesis using that[of "fr_event out"] c p ev unfolding h2 patch by (simp split: option.splits)
qed

text \<open>So a one-time person is spent by it, and a spent person hands nobody over.\<close>

lemma validate_spends:
  assumes run: "validateOtp E kg i code u r h = (Inr (x, h'), r')"
    and "pickups_findById i h = Some pr" "pk_trustedPersonId pr = Some t" "trusted_findById t h = Some y" "tr_isOneTime y"
  shows "spent t h'"
proof -
  from run obtain staff now tp h1 h2 where f: "pickup_guard now pr = None" "tables h1 = tables h" "tp = Some y" "isAvailableForPickup y"
    "hand_over E kg i u staff now pr tp h1 = Inr (x, h2)" "tables h' = tables h2"
    using assms(2-4) by (elim validate_returned) auto
  obtain p ev where x: "x = (p, ev)" by (cases x)
  have id: "tr_id y = t" using assms(4) by (simp add: trusted_findById_def find_Some_iff) blast
  let ?f = "\<lambda>r. r\<lparr>tr_usedAt := Some now, tr_isActive := (if tr_isOneTime y then False else tr_isActive r)\<rparr>"
  have "case tp of None \<Rightarrow> hs_trusted h2 = hs_trusted h1
      | Some y \<Rightarrow> hs_trusted h2 = update_where (trusted_claim (tr_id y) (tr_isOneTime y))
          (\<lambda>r. r\<lparr>tr_usedAt := Some now, tr_isActive := (if tr_isOneTime y then False else tr_isActive r)\<rparr>) (hs_trusted h1)"
    by (rule hand_over_returned[OF f(5)[unfolded x] f(1)])
  hence "hs_trusted h2 = update_where (trusted_claim t True) ?f (hs_trusted h1)"
    unfolding f(3) option.case id using assms(5) by (simp only:)
  moreover have "find (\<lambda>r. tr_id r = t) (hs_trusted h1) = Some y" using assms(4) f(2) by (simp add: trusted_findById_def tables_def)
  ultimately have "find (\<lambda>r. tr_id r = t) (hs_trusted h2) = Some (if trusted_claim t True y then ?f y else y)"
    by (simp add: find_update_where)
  moreover have "trusted_claim t True y" using f(4) id assms(5) by (simp add: trusted_claim_def isAvailableForPickup_def)
  ultimately have "trusted_findById t h2 = Some (?f y)" by (simp add: trusted_findById_def)
  thus ?thesis using assms(5) f(6) by (simp add: spent_def trusted_findById_def tables_def)
qed

lemma spent_refuses:
  assumes "spent t h" "pickups_findById i h = Some pr" "pk_trustedPersonId pr = Some t"
  shows "validateOtp E kg i code u r h \<noteq> (Inr (x, h'), r')"
proof
  assume "validateOtp E kg i code u r h = (Inr (x, h'), r')"
  thus False using assms by (elim validate_returned) (auto simp: spent_def isAvailableForPickup_def)
qed

subsection \<open>One event per request\<close>

definition hand_lists :: "AttendanceEventState list \<times> PickupRequestState list \<Rightarrow> bool" where
  "hand_lists v \<longleftrightarrow> (case v of (es, ps) \<Rightarrow> distinct (map ev_id es) \<and> distinct (map pk_id ps)
     \<and> (\<forall>e \<in> set es. \<forall>i. ev_pickupRequestId e = Some i \<longrightarrow>
          (\<exists>p \<in> set ps. pk_id p = i \<and> pk_status p = Validated \<and> pk_attendanceEventId p = Some (ev_id e))))"

definition hand_view :: "house \<Rightarrow> AttendanceEventState list \<times> PickupRequestState list" where
  "hand_view h = (hs_events h, hs_pickups h)"

definition handed :: "house \<Rightarrow> bool" where
  "handed h \<longleftrightarrow> hand_lists (hand_view h)"

lemma handed_once:
  assumes "handed h" "e \<in> set (hs_events h)" "d \<in> set (hs_events h)" "ev_pickupRequestId e = Some i" "ev_pickupRequestId d = Some i"
  shows "d = e"
proof -
  have req: "\<exists>p \<in> set (hs_pickups h). pk_id p = i \<and> pk_attendanceEventId p = Some (ev_id x)"
    if "x \<in> set (hs_events h)" "ev_pickupRequestId x = Some i" for x
    using assms(1) that unfolding handed_def hand_lists_def hand_view_def by fastforce
  from req[OF assms(2,4)] obtain p where p: "p \<in> set (hs_pickups h)" "pk_id p = i" "pk_attendanceEventId p = Some (ev_id e)" by blast
  from req[OF assms(3,5)] obtain q where q: "q \<in> set (hs_pickups h)" "pk_id q = i" "pk_attendanceEventId q = Some (ev_id d)" by blast
  have inj: "inj_on pk_id (set (hs_pickups h))" "inj_on ev_id (set (hs_events h))"
    using assms(1) by (simp_all add: handed_def hand_lists_def hand_view_def distinct_map)
  have "q = p" by (rule inj_onD[OF inj(1) _ q(1) p(1)]) (simp add: p q)
  hence "ev_id d = ev_id e" using p q by simp
  thus ?thesis by (rule inj_onD[OF inj(2) _ assms(3,2)])
qed

named_theorems hand_keep \<open>acts that touch neither events nor requests\<close>

lemma hand_keep_parts [hand_keep]:
  "preserves (\<lambda>s. J (hand_view s)) (ofBilling m1)" "preserves (\<lambda>s. J (hand_view s)) (ofSchool m2)"
  "preserves (\<lambda>s. J (hand_view s)) (house_notify n)" "preserves (\<lambda>s. J (hand_view s)) (audit_record a)"
  "preserves (\<lambda>s. J (hand_view s)) (house_lock k)" "preserves (\<lambda>s. J (hand_view s)) (timeline_create kg te)"
  "preserves (\<lambda>s. J (hand_view s)) (timeline_update kg te)" "preserves (\<lambda>s. J (hand_view s)) (timeline_delete kg i)"
  "preserves (\<lambda>s. J (hand_view s)) (daily_upsert kg d)" "preserves (\<lambda>s. J (hand_view s)) (daily_updatePresentIfAbsentOrLate kg c dt st now)"
  "preserves (\<lambda>s. J (hand_view s)) (trusted_create tp)" "preserves (\<lambda>s. J (hand_view s)) (trusted_update i tq)"
  "preserves (\<lambda>s. J (hand_view s)) (trusted_markRevoked i now)" "preserves (\<lambda>s. J (hand_view s)) (trusted_repo_markUsed i now b)"
  by (auto simp: preserves_def hand_view_def ofBilling_def ofSchool_def house_notify_def audit_record_def house_lock_def
      timeline_create_def timeline_update_def timeline_delete_def daily_upsert_def daily_updatePresentIfAbsentOrLate_def
      trusted_create_def trusted_update_def trusted_markRevoked_def trusted_repo_markUsed_def act_inv Let_def split: if_splits)

lemma hand_keep_helpers [hand_keep]:
  "preserves (\<lambda>s. J (hand_view s)) (house_now E)" "preserves (\<lambda>s. J (hand_view s)) (house_uuid E)"
  "preserves (\<lambda>s. J (hand_view s)) (house_staff kg u)" "preserves (\<lambda>s. J (hand_view s)) (house_child kg c)"
  "preserves (\<lambda>s. J (hand_view s)) (assertPickupAllowed kg c p)" "preserves (\<lambda>s. J (hand_view s)) (assertNotFuture E t)"
  "preserves (\<lambda>s. J (hand_view s)) (recorded_time E v)" "preserves (\<lambda>s. J (hand_view s)) (event_audit kg i a u st b af)"
  "preserves (\<lambda>s. J (hand_view s)) (promote_day E kg c dt st)" "preserves (\<lambda>s. J (hand_view s)) (recomputeDailyStatus E kg c dt st)"
  "preserves (\<lambda>s. J (hand_view s)) (recomputeAffectedDailyStatuses E kg eb ea st)"
  "preserves (\<lambda>s. J (hand_view s)) (cascadeTimeline E kg eb ea)" "preserves (\<lambda>s. J (hand_view s)) (assertEditWindow E ev)"
  "preserves (\<lambda>s. J (hand_view s)) (pickup_snapshot kg cp)" "preserves (\<lambda>s. J (hand_view s)) (pickup_locked kg i)"
  "preserves (\<lambda>s. J (hand_view s)) (validate_trusted pr)" "preserves (\<lambda>s. J (hand_view s)) (setDailyStatus E kg u ds)"
  "preserves (\<lambda>s. J (hand_view s)) (createEntry E kg c u dto v eo)" "preserves (\<lambda>s. J (hand_view s)) (updateEntry E kg i u ut eo)"
  "preserves (\<lambda>s. J (hand_view s)) (deleteEntry kg i u eo)" "preserves (\<lambda>s. J (hand_view s)) (addByParent E kg c u ad)"
  "preserves (\<lambda>s. J (hand_view s)) (trusted_service_update kg i u tq)" "preserves (\<lambda>s. J (hand_view s)) (trusted_service_revoke E kg i u)"
  unfolding house_defs setDailyStatus_def createEntry_def updateEntry_def deleteEntry_def addByParent_def trusted_service_update_def
    trusted_service_revoke_def Let_def
  by (intro preserve hand_keep_parts[where J = J])+

lemmas handed_keep [preserve] = hand_keep[where J = hand_lists, folded handed_def]

lemma handed_event_create [preserve]: "ev_pickupRequestId r = None \<Longrightarrow> preserves handed (events_create kg r)"
  by (auto simp: preserves_def handed_def hand_lists_def hand_view_def events_create_def Let_def list_ex_iff split: if_splits)

definition hand_event :: "AttendanceEventState \<Rightarrow> AttendanceEventState list \<times> PickupRequestState list \<Rightarrow> bool" where
  "hand_event e v \<longleftrightarrow> hand_lists v \<and> e \<in> set (fst v)"

lemma handed_event_update:
  assumes r: "ev_id r = ev_id e" "ev_pickupRequestId r = None \<or> ev_pickupRequestId r = ev_pickupRequestId e"
  shows "triple (\<lambda>s. hand_event e (hand_view s)) (events_update kg r) (\<lambda>_. handed)"
  unfolding events_update_def
proof (rule triple_bind, rule triple_modify)
  fix h :: house assume "hand_event e (hand_view h)"
  hence hl: "hand_lists (hs_events h, hs_pickups h)" and e: "e \<in> set (hs_events h)" by (simp_all add: hand_event_def hand_view_def)
  let ?es = "update_where (event_key kg (ev_id r)) (event_row r) (hs_events h)"
  have ids: "map ev_id ?es = map ev_id (hs_events h)" by (rule map_update_where) (simp add: event_row_def)
  have req: "\<exists>q \<in> set (hs_events h). ev_id q = ev_id x \<and> (ev_pickupRequestId x = None \<or> ev_pickupRequestId x = ev_pickupRequestId q)"
    if x: "x \<in> set ?es" for x
  proof -
    from x obtain q where q: "q \<in> set (hs_events h)" "x = (if event_key kg (ev_id r) q then event_row r q else q)"
      unfolding set_update_where by auto
    show ?thesis
    proof (cases "event_key kg (ev_id r) q")
      case True
      hence "ev_id q = ev_id e" using r(1) by (simp add: event_key_def)
      moreover have "inj_on ev_id (set (hs_events h))" using hl by (simp add: hand_lists_def distinct_map)
      ultimately have "q = e" using q(1) e by (meson inj_onD)
      thus ?thesis using q True r(2) e by (auto simp: event_row_def)
    qed (use q in auto)
  qed
  have "hand_lists (?es, hs_pickups h)"
    using hl req unfolding hand_lists_def prod.case ids by (metis option.distinct(1))
  thus "handed (h\<lparr>hs_events := ?es\<rparr>)" by (simp add: handed_def hand_view_def)
next
  show "triple handed (bindA (readA (\<lambda>h. find (event_key kg (ev_id r)) (hs_events h))) (\<lambda>found.
     foundA found (HouseFailure ''attendance_event_update_readback_failed''))) (\<lambda>_. handed)"
    unfolding triple_preserves by (intro preserve)
qed

lemma handed_event_found:
  assumes "\<And>e. triple (\<lambda>s. hand_event e (hand_view s)) (k e) Q"
  shows "triple handed (bindA (event_or_throw kg i) k) Q"
proof (rule triple_bind[OF _ assms])
  show "triple handed (event_or_throw kg i) (\<lambda>e s. hand_event e (hand_view s))"
    unfolding event_or_throw_def
    by (intro triples) (auto simp: events_findById_def handed_def hand_event_def hand_view_def find_Some_iff)
qed

lemma patch_request: "ev_id (event_applyPatch p s) = ev_id s"
  "ev_pickupRequestId (event_applyPatch p s) = None \<or> ev_pickupRequestId (event_applyPatch p s) = ev_pickupRequestId s"
  "ev_id (event_softDelete t s) = ev_id s" "ev_pickupRequestId (event_softDelete t s) = ev_pickupRequestId s"
  by (auto simp: event_applyPatch_def event_softDelete_def Let_def)

lemma new_event_request [simp]:
  "ev_pickupRequestId (event_createCheckIn i kg c m s n t now) = None"
  "ev_pickupRequestId (event_createCheckOut i kg c m s p q n t now) = q"
  by (simp_all add: event_createCheckIn_def event_createCheckOut_def)

lemma handed_attendance:
  "preserves handed (checkIn E kg c u opts)"
  "co_pickupRequestId opts = None \<Longrightarrow> preserves handed (checkOut E kg c u p opts)"
  "preserves handed (patchEvent E kg i u pt po)" "preserves handed (deleteEvent E kg i u)"
proof -
  show "preserves handed (checkIn E kg c u opts)" unfolding checkIn_def by (intro preserve new_event_request)
  show "preserves handed (checkOut E kg c u p opts)" if "co_pickupRequestId opts = None"
    unfolding checkOut_def Let_def that by (intro preserve new_event_request)
  show "preserves handed (patchEvent E kg i u pt po)"
    unfolding patchEvent_def Let_def triple_preserves[symmetric]
    by ((rule triple_keep_bind, (intro preserve; fail))+, rule handed_event_found,
        (rule triple_keep_bind, (intro preserve hand_keep[where J = "hand_event e" for e]; fail))+,
        rule triple_bind[OF handed_event_update], rule patch_request, rule patch_request, unfold triple_preserves, intro preserve)
  show "preserves handed (deleteEvent E kg i u)"
    unfolding deleteEvent_def triple_preserves[symmetric]
    by ((rule triple_keep_bind, (intro preserve; fail))+, rule handed_event_found,
        (rule triple_keep_bind, (intro preserve hand_keep[where J = "hand_event e" for e]; fail))+,
        rule triple_bind[OF handed_event_update], rule patch_request, simp add: patch_request, unfold triple_preserves, intro preserve)
qed

lemma handed_requests [preserve]:
  "preserves handed (pickups_create p)"
  "pp_status pp = None \<Longrightarrow> pp_attendanceEventId pp = None \<Longrightarrow> preserves handed (pickups_update i pp ex)"
  "preserves handed (pickups_update i pp (Some OtpSent))"
proof -
  show "preserves handed (pickups_create p)"
    by (auto simp: preserves_def handed_def hand_lists_def hand_view_def pickups_create_def list_ex_iff split: if_splits)
  have upd: "preserves handed ((\<lambda>h. Inr (list_ex P (hs_pickups h), h\<lparr>hs_pickups := update_where P f (hs_pickups h)\<rparr>)) :: bool house_act)"
    if f: "\<And>q. pk_id (f q) = pk_id q"
      "\<And>q. P q \<Longrightarrow> pk_status q = Validated \<Longrightarrow> pk_status (f q) = Validated \<and> pk_attendanceEventId (f q) = pk_attendanceEventId q" for P f
    unfolding preserves_def
  proof (intro allI impI)
    fix s x s'
    assume s: "handed s" and run: "Inr (list_ex P (hs_pickups s), s\<lparr>hs_pickups := update_where P f (hs_pickups s)\<rparr>) = (Inr (x, s') :: (house_error, bool, house) outcome)"
    from run have s': "s' = s\<lparr>hs_pickups := update_where P f (hs_pickups s)\<rparr>" by auto
    have ids: "map pk_id (update_where P f (hs_pickups s)) = map pk_id (hs_pickups s)" by (rule map_update_where) (rule f(1))
    have val: "\<exists>p' \<in> set (update_where P f (hs_pickups s)). pk_id p' = i \<and> pk_status p' = Validated \<and> pk_attendanceEventId p' = v"
      if "p \<in> set (hs_pickups s)" "pk_id p = i" "pk_status p = Validated" "pk_attendanceEventId p = v" for p i v
      using that f by (intro bexI[of _ "if P p then f p else p"]) (auto simp: set_update_where)
    show "handed s'" using s unfolding handed_def hand_lists_def hand_view_def s' by (auto simp: ids intro: val)
  qed
  show "preserves handed (pickups_update i pp ex)" if "pp_status pp = None" "pp_attendanceEventId pp = None"
    unfolding pickups_update_def Let_def by (rule upd) (simp_all add: pickup_patch_def or_old_def that)
  show "preserves handed (pickups_update i pp (Some OtpSent))"
    unfolding pickups_update_def Let_def by (rule upd) (auto simp: pickup_patch_def)
qed

lemma handed_create:
  "preserves handed (pickup_createByStaff E kg u cp)" "preserves handed (pickup_createByParent E kg u cp)"
  unfolding pickup_createByStaff_def pickup_createByParent_def pickup_createInternal_def by (intro preserve)+

lemma handed_otp:
  "preservesR handed (sendOtp E limit draw kg i)" "preservesR handed (pickup_service_cancel E kg i)"
  unfolding sendOtp_def pickup_service_cancel_def by (intro preserve PickupRequestPatch.select_convs)+

lemma handed_hand_over:
  assumes h: "handed h" and pr: "pickups_findById i h = Some pr" "pickup_guard now pr = None"
    and run: "hand_over E kg i u staff now pr tp h = Inr (x, h')"
  shows "handed h'"
proof -
  obtain p ev where x: "x = (p, ev)" by (cases x)
  obtain e where e: "ev_id e = ev" "ev_id e \<notin> ev_id ` set (hs_events h)"
    "ev_pickupRequestId e = Some i" "hs_events h' = hs_events h @ [e]"
    "hs_pickups h' = update_where (\<lambda>r. pk_id r = i) (validated_by staff ev now) (hs_pickups h)"
    by (rule hand_over_returned[OF run[unfolded x] pr(2)]) (rule that; assumption)
  have l: "distinct (map ev_id (hs_events h))" "distinct (map pk_id (hs_pickups h))"
    and req: "\<And>d j. d \<in> set (hs_events h) \<Longrightarrow> ev_pickupRequestId d = Some j \<Longrightarrow>
      \<exists>q \<in> set (hs_pickups h). pk_id q = j \<and> pk_status q = Validated \<and> pk_attendanceEventId q = Some (ev_id d)"
    using h by (simp_all add: handed_def hand_lists_def hand_view_def)
  have in_pr: "pr \<in> set (hs_pickups h)" "pk_id pr = i" "pk_status pr \<noteq> Validated"
    using pr by (auto simp: pickups_findById_def find_Some_iff pickup_guard_def split: if_splits)
  have ids: "map pk_id (hs_pickups h') = map pk_id (hs_pickups h)"
    unfolding e(5) by (rule map_update_where) (simp add: validated_by_def)
  have mine: "validated_by staff ev now pr \<in> set (hs_pickups h')"
    unfolding e(5) set_update_where using in_pr by (intro image_eqI[of _ _ pr]) simp_all
  have other: "q \<in> set (hs_pickups h')" if "q \<in> set (hs_pickups h)" "pk_id q \<noteq> i" for q
    unfolding e(5) set_update_where using that by (intro image_eqI[of _ _ q]) simp_all
  have none: "j \<noteq> i" if d: "d \<in> set (hs_events h)" "ev_pickupRequestId d = Some j" for d j
  proof
    assume "j = i"
    with req[OF d] obtain q where q: "q \<in> set (hs_pickups h)" "pk_id q = i" "pk_status q = Validated" by blast
    have "inj_on pk_id (set (hs_pickups h))" using l(2) by (simp add: distinct_map)
    hence "q = pr" by (rule inj_onD) (use q in_pr in simp_all)
    thus False using q in_pr by simp
  qed
  have all: "\<exists>q \<in> set (hs_pickups h'). pk_id q = j \<and> pk_status q = Validated \<and> pk_attendanceEventId q = Some (ev_id d)"
    if d: "d \<in> set (hs_events h')" "ev_pickupRequestId d = Some j" for d j
  proof (cases "d = e")
    case True
    thus ?thesis using mine in_pr d e by (intro bexI[OF _ mine]) (simp add: validated_by_def)
  next
    case False
    hence "d \<in> set (hs_events h)" using d e by simp
    from req[OF this d(2)] none[OF this d(2)] other show ?thesis by metis
  qed
  show ?thesis unfolding handed_def hand_lists_def hand_view_def prod.case
    using l e all ids by simp
qed

lemma handed_validate:
  assumes "handed h" "validateOtp E kg i code u r h = (Inr (x, h'), r')"
  shows "handed h'"
proof -
  from assms(2) obtain staff pr now tp h1 h2 where f: "pickups_findById i h = Some pr" "pickup_guard now pr = None" "tables h1 = tables h"
    "hand_over E kg i u staff now pr tp h1 = Inr (x, h2)" "tables h' = tables h2" by (rule validate_returned)
  have "handed h1" "pickups_findById i h1 = Some pr"
    using assms(1) f(1,3) by (simp_all add: handed_def hand_view_def tables_def pickups_findById_def)
  from handed_hand_over[OF this f(2,4)] show ?thesis using f(5) by (simp add: handed_def hand_view_def tables_def)
qed

lemmas handedD = handed_attendance(1,3,4)[THEN preservesD, rotated] handed_attendance(2)[THEN preservesD, rotated 2]
  handed_keep[THEN preservesD, rotated] handed_create[THEN preservesD, rotated] handed_otp[THEN preservesRD, rotated]

lemma handed_step:
  assumes "hand_step (r, h) (r', h')" "handed h"
  shows "handed h'"
  using assms(1)
proof (rule hand_stepE)
  show "handed h'" if "(r', h') = (rr, h2)" "hs_events h2 = hs_events hh" "hs_pickups h2 = hs_pickups hh" "(r, h) = (rr, hh)" for rr h2 hh
    using that assms(2) by (simp add: handed_def hand_view_def)
qed (use assms(2) in \<open>auto dest: handedD handed_validate\<close>)

lemma handed_steps: "hand_step\<^sup>*\<^sup>* s t \<Longrightarrow> handed (snd s) \<Longrightarrow> handed (snd t)"
proof (induction rule: rtranclp_induct)
  case (step t u)
  thus ?case by (metis prod.collapse handed_step)
qed simp

subsection \<open>Guessing the code\<close>

text \<open>Codes tried one after the other, until one passes.\<close>

primrec guess :: "uuid \<Rightarrow> string list \<Rightarrow> redis \<Rightarrow> house \<Rightarrow> bool \<times> redis" where
  "guess i [] r h = (False, r)"
| "guess i (w # ws) r h = (case check_code i w r h of (Inr _, r') \<Rightarrow> (True, r') | (Inl _, r') \<Rightarrow> guess i ws r' h)"

lemma locked_refuses: "otp_isLocked i r \<Longrightarrow> check_code i w r h = (Inl OtpLocked, r)"
  by (simp add: check_code_def bindR_def askRedis_def inDb_def act_run)

lemma guess_locked: "otp_isLocked i r \<Longrightarrow> guess i ws r h = (False, r)"
  by (induction ws) (simp_all add: locked_refuses)

lemma wrong_code:
  assumes "\<not> otp_isLocked i r" "otp_readCode i r = Some c" "w \<noteq> c"
  shows "check_code i w r h =
    (if otp_attempts i r \<ge> 2
     then (Inl OtpLocked, snd (otp_clearCode i (snd (otp_lock i (snd (otp_incrementAttempts i r))))))
     else (Inl OtpInvalid, snd (otp_incrementAttempts i r)))"
  using assms
  by (simp add: check_code_def bindR_def askRedis_def inDb_def inRedis_def act_run PICKUP_OTP_MAX_FAILED_ATTEMPTS_def
      otp_incrementAttempts_def otp_lock_def otp_clearCode_def Let_def)

lemma after_wrong [simp]:
  "otp_attempts i (snd (otp_incrementAttempts i r)) = Suc (otp_attempts i r)"
  "otp_readCode i (snd (otp_incrementAttempts i r)) = otp_readCode i r"
  "otp_isLocked i (snd (otp_incrementAttempts i r)) = otp_isLocked i r"
  "otp_isLocked i (snd (otp_clearCode i (snd (otp_lock i r))))"
  by (simp_all add: otp_incrementAttempts_def otp_attempts_def otp_readCode_def otp_isLocked_def otp_clearCode_def otp_lock_def Let_def)

lemma guess_bounded:
  "otp_readCode i r = Some c \<Longrightarrow> otp_attempts i r + n = 3 \<Longrightarrow> 0 < n \<Longrightarrow> c \<notin> set (take n ws) \<Longrightarrow> \<not> fst (guess i ws r h)"
proof (induction ws arbitrary: r n)
  case (Cons w ws)
  show ?case
  proof (cases "otp_isLocked i r")
    case False
    show ?thesis
    proof (cases n)
      case 0
      thus ?thesis using Cons.prems by simp
    next
      case (Suc m)
      hence w: "w \<noteq> c" "c \<notin> set (take m ws)" using Cons.prems by auto
      show ?thesis
      proof (cases "otp_attempts i r \<ge> 2")
        case True
        thus ?thesis using w(1) Cons.prems False by (simp add: wrong_code guess_locked)
      next
        case few: False
        have "\<not> fst (guess i ws (snd (otp_incrementAttempts i r)) h)"
          by (rule Cons.IH[of _ m]) (use Cons.prems Suc w few in simp_all)
        thus ?thesis using w(1) Cons.prems False few by (simp add: wrong_code)
      qed
    qed
  qed (simp add: locked_refuses guess_locked)
qed simp

lemma three_wrong_lock:
  assumes "otp_readCode i r = Some c" "otp_attempts i r = 0" "w1 \<noteq> c" "w2 \<noteq> c" "w3 \<noteq> c" "\<not> otp_isLocked i r"
  shows "guess i (w1 # w2 # w3 # ws) r h = (False, snd (guess i [w1, w2, w3] r h)) \<and> otp_isLocked i (snd (guess i [w1, w2, w3] r h))"
  using assms by (simp add: wrong_code guess_locked)

text \<open>Sending a code starts the count again.\<close>

lemma fresh_code:
  "otp_readCode i (snd (otp_storeCode i (pickup_code n) r)) = Some (pickup_code n)"
  "otp_attempts i (snd (otp_storeCode i code r)) = 0"
proof -
  have "pickup_code n \<noteq> []" unfolding pickup_code_def padStart0_def by (subst nat_string.simps) auto
  thus "otp_readCode i (snd (otp_storeCode i (pickup_code n) r)) = Some (pickup_code n)"
    by (simp add: otp_readCode_def otp_storeCode_def)
qed (simp add: otp_attempts_def otp_storeCode_def)

lemma send_returned:
  assumes "sendOtp E limit draw kg i r h = (Inr (x, h'), r')"
  shows "\<not> otp_isLocked i r' \<and> otp_readCode i r' = Some (pickup_code draw) \<and> otp_attempts i r' = 0"
proof -
  from assms obtain p ex key r1 r2 sms where l: "\<not> otp_isLocked i r" and c1: "checkRateLimit p limit r = (ex, r1)"
    and c2: "otp_storeCode i (pickup_code draw) r1 = (key, r2)" and c3: "r' = r2\<lparr>rd_sms := sms\<rparr>"
    unfolding sendOtp_def
    by (elim bindR_returned) (auto simp: inDb_returned inRedis_returned askRedis_returned act_inv)
  have r1: "r1 = snd (checkRateLimit p limit r)" and r2: "r2 = snd (otp_storeCode i (pickup_code draw) r1)" using c1 c2 by simp_all
  have r': "rd_codes r' = rd_codes r2" "rd_attempts r' = rd_attempts r2" "rd_locks r' = rd_locks r2" using c3 by simp_all
  have "otp_isLocked i r' = otp_isLocked i r"
    unfolding otp_isLocked_def r'(3) r2 r1 by (simp add: otp_storeCode_def checkRateLimit_def Let_def)
  moreover have "otp_readCode i r' = otp_readCode i r2" "otp_attempts i r' = otp_attempts i r2"
    unfolding otp_readCode_def otp_attempts_def r' by simp_all
  ultimately show ?thesis using l fresh_code unfolding r2 by simp
qed

end
