(* ===== verification/Timeline_Mirror.thy ===== *)
theory Timeline_Mirror
  imports Pickup_Facts
begin

text \<open>
  The timeline as a mirror of the register: the entries that attendance writes by itself are exactly the
  live events, each with its child, time and type. Check-in, check-out, the handing over of a child,
  correction and deletion keep it so, and so do the entries staff write, edit and delete by hand, as long
  as they leave the entries of the register alone. Nothing in the code stops them from retiming or
  deleting one of those.
\<close>

subsection \<open>The correspondence\<close>

definition mirror_of :: "AttendanceEventState \<Rightarrow> TimelineEntryState \<Rightarrow> bool" where
  "mirror_of e t \<longleftrightarrow> tl_sourceEventId t = Some (ev_id e) \<and> tl_kindergartenId t = ev_kindergartenId e \<and> tl_childId t = ev_childId e
     \<and> tl_entryTime t = ev_recordedAt e \<and> tl_entryType t = (if ev_eventType e = CheckIn then TlCheckIn else TlCheckOut)"

definition mirror_sets :: "AttendanceEventState set \<Rightarrow> TimelineEntryState set \<Rightarrow> bool" where
  "mirror_sets es ts \<longleftrightarrow>
     (\<forall>e \<in> es. live_event e \<longrightarrow> (\<exists>t \<in> ts. mirror_of e t))
     \<and> (\<forall>t \<in> ts. tl_sourceEventId t \<noteq> None \<longrightarrow> (\<exists>e \<in> es. live_event e \<and> mirror_of e t))
     \<and> inj_on ev_id es \<and> inj_on tl_sourceEventId {t \<in> ts. tl_sourceEventId t \<noteq> None}"

definition mirror_lists :: "AttendanceEventState list \<Rightarrow> TimelineEntryState list \<Rightarrow> bool" where
  "mirror_lists es ts \<longleftrightarrow> mirror_sets (set es) (set ts) \<and> distinct (map ev_id es) \<and> distinct (map tl_id ts)"

definition mirrored :: "house \<Rightarrow> bool" where
  "mirrored h \<longleftrightarrow> mirror_lists (hs_events h) (hs_timeline h)"

lemma mirror_add:
  assumes m: "mirror_sets es ts" and fresh: "ev_id e \<notin> ev_id ` es" and mir: "live_event e" "mirror_of e t"
  shows "mirror_sets (insert e es) (insert t ts)"
proof -
  have src: "tl_sourceEventId t \<noteq> tl_sourceEventId u" if "u \<in> ts" "tl_sourceEventId u \<noteq> None" for u
  proof -
    from that m obtain d where "d \<in> es" "mirror_of d u" unfolding mirror_sets_def by blast
    hence "tl_sourceEventId u = Some (ev_id d)" by (simp add: mirror_of_def)
    moreover have "ev_id d \<noteq> ev_id e" using fresh \<open>d \<in> es\<close> by (metis image_eqI)
    ultimately show ?thesis using mir by (simp add: mirror_of_def)
  qed
  have "inj_on tl_sourceEventId {u \<in> insert t ts. tl_sourceEventId u \<noteq> None}"
    using m src unfolding mirror_sets_def inj_on_def by fastforce
  moreover have "inj_on ev_id (insert e es)" using m fresh by (auto simp: mirror_sets_def)
  ultimately show ?thesis using m mir unfolding mirror_sets_def by blast
qed

lemma mirror_note:
  assumes m: "mirror_sets es ts" and "tl_sourceEventId t = None"
  shows "mirror_sets es (insert t ts)"
proof -
  have "{u \<in> insert t ts. tl_sourceEventId u \<noteq> None} = {u \<in> ts. tl_sourceEventId u \<noteq> None}" using assms by auto
  thus ?thesis using assms unfolding mirror_sets_def by auto
qed

lemma mirror_unique:
  assumes "mirror_sets es ts" "t \<in> ts" "u \<in> ts" "tl_sourceEventId t = Some i" "tl_sourceEventId u = Some i"
  shows "u = t"
  using assms unfolding mirror_sets_def inj_on_def by auto

text \<open>An event leaves with its entry, or both are replaced.\<close>

lemma mirror_remove:
  assumes m: "mirror_sets es ts" and e: "e \<in> es" "ev_id e' = ev_id e" "\<not> live_event e'"
    and t: "t \<in> ts" "tl_sourceEventId t = Some (ev_id e)"
  shows "mirror_sets (insert e' (es - {e})) (ts - {t})"
  unfolding mirror_sets_def
proof (intro conjI ballI impI)
  fix d assume d: "d \<in> insert e' (es - {e})" "live_event d"
  hence de: "d \<in> es" "d \<noteq> e" using e by auto
  then obtain u where u: "u \<in> ts" "mirror_of d u" using m d unfolding mirror_sets_def by blast
  have "ev_id d \<noteq> ev_id e" using de e m unfolding mirror_sets_def inj_on_def by blast
  thus "\<exists>u \<in> ts - {t}. mirror_of d u" using u t by (auto simp: mirror_of_def)
next
  fix u assume u: "u \<in> ts - {t}" "tl_sourceEventId u \<noteq> None"
  then obtain d where d: "d \<in> es" "live_event d" "mirror_of d u" using m unfolding mirror_sets_def by blast
  have "d \<noteq> e"
  proof
    assume "d = e"
    hence "tl_sourceEventId u = Some (ev_id e)" using d by (simp add: mirror_of_def)
    thus False using mirror_unique[OF m t(1) _ t(2)] u by blast
  qed
  thus "\<exists>d \<in> insert e' (es - {e}). live_event d \<and> mirror_of d u" using d by blast
next
  show "inj_on ev_id (insert e' (es - {e}))" using m e unfolding mirror_sets_def inj_on_def by auto
  show "inj_on tl_sourceEventId {u \<in> ts - {t}. tl_sourceEventId u \<noteq> None}"
    using m unfolding mirror_sets_def by (auto simp: inj_on_def)
qed

lemma mirror_replace:
  assumes m: "mirror_sets es ts" and e: "e \<in> es" "ev_id e' = ev_id e" "live_event e'"
    and t: "t \<in> ts" "tl_sourceEventId t = Some (ev_id e)" and mir: "mirror_of e' t'"
  shows "mirror_sets (insert e' (es - {e})) (insert t' (ts - {t}))"
proof -
  let ?dead = "e\<lparr>ev_deletedAt := Some 0\<rparr>"
  have "mirror_sets (insert ?dead (es - {e})) (ts - {t})"
    by (rule mirror_remove[OF m e(1) _ _ t]) (simp_all add: live_event_def)
  hence m': "mirror_sets (es - {e}) (ts - {t})"
    unfolding mirror_sets_def live_event_def by (auto simp: inj_on_def)
  have "ev_id e' \<notin> ev_id ` (es - {e})" using m e unfolding mirror_sets_def inj_on_def by auto
  thus ?thesis by (rule mirror_add[OF m' _ e(3) mir])
qed

subsection \<open>Rows\<close>

lemma key_row:
  assumes "distinct (map key rows)" "r \<in> set rows" "\<And>q. P q \<Longrightarrow> key q = key r" "P r" and q: "q \<in> set rows"
  shows "P q \<longleftrightarrow> q = r"
proof
  assume "P q"
  hence "key q = key r" by (rule assms(3))
  moreover have "inj_on key (set rows)" using assms(1) by (simp add: distinct_map)
  ultimately show "q = r" using q assms(2) by (meson inj_onD)
qed (use assms(4) in simp)

lemma set_update_one:
  assumes "distinct (map key rows)" "r \<in> set rows" "\<And>q. P q \<Longrightarrow> key q = key r" "P r"
  shows "set (update_where P f rows) = insert (f r) (set rows - {r})"
proof -
  have one: "P q \<longleftrightarrow> q = r" if "q \<in> set rows" for q by (rule key_row[where P = P and key = key, OF assms that])
  have "(\<lambda>q. if P q then f q else q) ` set rows = (\<lambda>q. if q = r then f r else q) ` set rows"
    by (rule image_cong) (simp_all add: one)
  also have "\<dots> = insert (f r) (set rows - {r})" using assms(2) by auto
  finally show ?thesis by (simp only: set_update_where)
qed

lemma set_filter_one:
  assumes "distinct (map key rows)" "r \<in> set rows" "\<And>q. P q \<Longrightarrow> key q = key r" "P r"
  shows "set (filter (\<lambda>q. \<not> P q) rows) = set rows - {r}"
proof -
  have "filter (\<lambda>q. \<not> P q) rows = filter (\<lambda>q. q \<noteq> r) rows"
    by (rule filter_cong[OF refl]) (simp add: key_row[where P = P and key = key, OF assms])
  thus ?thesis by auto
qed

subsection \<open>What writes neither events nor entries\<close>

abbreviation register :: "AttendanceEventState list \<Rightarrow> TimelineEntryState list \<Rightarrow> house \<Rightarrow> bool" where
  "register es ts h \<equiv> hs_events h = es \<and> hs_timeline h = ts"

definition keeps_register :: "(house_error, house, 'a) act \<Rightarrow> bool" where
  "keeps_register m \<longleftrightarrow> (\<forall>h x h'. m h = Inr (x, h') \<longrightarrow> hs_events h' = hs_events h \<and> hs_timeline h' = hs_timeline h)"

named_theorems unregistered \<open>acts that keep the register\<close>

lemma keeps_registerI:
  "(\<And>h x h'. m h = Inr (x, h') \<Longrightarrow> hs_events h' = hs_events h \<and> hs_timeline h' = hs_timeline h) \<Longrightarrow> keeps_register m"
  unfolding keeps_register_def by blast

lemma keeps_registerD:
  "keeps_register m \<Longrightarrow> m h = Inr (x, h') \<Longrightarrow> hs_events h' = hs_events h \<and> hs_timeline h' = hs_timeline h"
  unfolding keeps_register_def by blast

lemma unregistered_parts [unregistered]:
  "keeps_register (ofBilling m1)" "keeps_register (ofSchool m2)" "keeps_register (house_notify n)"
  "keeps_register (audit_record a)" "keeps_register (house_lock k)" "keeps_register (readA f)" "keeps_register (returnA x)"
  "keeps_register (throwA e)" "keeps_register (foundA v e)" "keeps_register (guardA b e)"
  by (rule keeps_registerI,
      auto simp: ofBilling_def ofSchool_def house_notify_def audit_record_def house_lock_def act_inv)+

lemma unregistered_bind [unregistered]: "keeps_register m \<Longrightarrow> (\<And>x. keeps_register (k x)) \<Longrightarrow> keeps_register (bindA m k)"
  unfolding keeps_register_def by (metis act_inv_rules)

lemma unregistered_control [unregistered]:
  "keeps_register m \<Longrightarrow> keeps_register (whenA b m)"
  "keeps_register p \<Longrightarrow> keeps_register p' \<Longrightarrow> keeps_register (if b then p else p')"
  "keeps_register q \<Longrightarrow> (\<And>x. keeps_register (f x)) \<Longrightarrow> keeps_register (case v of None \<Rightarrow> q | Some x \<Rightarrow> f x)"
  "(\<And>a b. keeps_register (r a b)) \<Longrightarrow> keeps_register (case ab of (a, b) \<Rightarrow> r a b)"
  by (auto simp: whenA_def unregistered split: prod.split option.split)

lemma unregistered_each [unregistered]: "(\<And>x. keeps_register (g x)) \<Longrightarrow> keeps_register (eachA xs g)"
  by (induction xs) (auto intro: unregistered)

lemma unregistered_daily [unregistered]:
  "keeps_register (daily_upsert kg d)" "keeps_register (daily_updatePresentIfAbsentOrLate kg c date s now)"
  by (rule keeps_registerI, auto simp: daily_upsert_def daily_updatePresentIfAbsentOrLate_def act_inv Let_def)+

lemma unregistered_helpers [unregistered]:
  "keeps_register (house_now E)" "keeps_register (house_uuid E)" "keeps_register (house_staff kg u)"
  "keeps_register (house_child kg c)" "keeps_register (assertPickupAllowed kg c p)" "keeps_register (assertNotFuture E t)"
  "keeps_register (recorded_time E v)" "keeps_register (event_audit kg i a u s b af)" "keeps_register (promote_day E kg c d st)"
  "keeps_register (recomputeDailyStatus E kg c d st)" "keeps_register (recomputeAffectedDailyStatuses E kg b' a' st)"
  "keeps_register (assertEditWindow E ev)"
  unfolding house_now_def house_uuid_def house_staff_def house_child_def assertPickupAllowed_def assertNotFuture_def
    recorded_time_def event_audit_def promote_day_def recomputeDailyStatus_def recomputeAffectedDailyStatuses_def assertEditWindow_def Let_def
  by (intro unregistered)+

lemma triple_unregistered:
  "keeps_register m \<Longrightarrow> (\<And>x. triple (\<lambda>h. I (hs_events h) (hs_timeline h)) (k x) Q)
    \<Longrightarrow> triple (\<lambda>h. I (hs_events h) (hs_timeline h)) (bindA m k) Q"
  by (rule triple_keep_bind) (auto simp: preserves_def dest: keeps_registerD)

lemma mirrored_skip:
  "keeps_register m \<Longrightarrow> (\<And>x. triple mirrored (k x) Q) \<Longrightarrow> triple mirrored (bindA m k) Q"
  unfolding mirrored_def by (rule triple_unregistered)

lemma mirrored_stay: "keeps_register m \<Longrightarrow> triple mirrored m (\<lambda>_. mirrored)"
  by (rule tripleI) (auto simp: mirrored_def dest: keeps_registerD)

subsection \<open>Recording an event with its entry\<close>

lemma triple_events_create:
  "triple (\<lambda>h. I (hs_events h) (hs_timeline h)) (events_create kg r)
     (\<lambda>e h. \<exists>es. hs_events h = es @ [e] \<and> I es (hs_timeline h) \<and> e = r\<lparr>ev_kindergartenId := kg\<rparr> \<and> ev_id e \<notin> ev_id ` set es)"
  by (rule tripleI) (auto simp: events_create_def Let_def list_ex_iff split: if_splits)

lemma triple_timeline_create:
  "triple (\<lambda>h. I (hs_events h) (hs_timeline h)) (timeline_create kg r)
     (\<lambda>t h. \<exists>ts. hs_timeline h = ts @ [t] \<and> I (hs_events h) ts \<and> t = r\<lparr>tl_kindergartenId := kg\<rparr> \<and> tl_id t \<notin> tl_id ` set ts)"
  by (rule tripleI) (auto simp: timeline_create_def Let_def list_ex_iff split: if_splits)

lemma mirror_lists_add:
  "mirror_lists es ts \<Longrightarrow> ev_id e \<notin> ev_id ` set es \<Longrightarrow> tl_id t \<notin> tl_id ` set ts \<Longrightarrow> live_event e \<Longrightarrow> mirror_of e t
    \<Longrightarrow> mirror_lists (es @ [e]) (ts @ [t])"
  by (auto simp: mirror_lists_def intro: mirror_add)

lemma mirror_new:
  assumes "e = r\<lparr>ev_kindergartenId := kg\<rparr>"
  shows "mirror_of e ((timeline_createNew j kg (ev_childId r) (mirror_input (ev_eventType r)) who (ev_recordedAt r) (Some (ev_id e)) now)
    \<lparr>tl_kindergartenId := kg\<rparr>)"
  using assms by (simp add: mirror_of_def timeline_createNew_def mirror_input_def)

lemma logged_event:
  assumes live: "live_event r"
    and k: "\<And>ev t. triple mirrored (k ev t) (\<lambda>_. mirrored)"
  shows "triple mirrored (bindA (events_create kg r) (\<lambda>ev. bindA (house_uuid E) (\<lambda>j. bindA (house_now E) (\<lambda>now.
    bindA (timeline_create kg (timeline_createNew j kg (ev_childId r) (mirror_input (ev_eventType r)) who (ev_recordedAt r)
      (Some (ev_id ev)) now)) (k ev))))) (\<lambda>_. mirrored)"
proof (rule triple_bind)
  show "triple mirrored (events_create kg r) (\<lambda>e h. \<exists>es. hs_events h = es @ [e] \<and> mirror_lists es (hs_timeline h)
      \<and> e = r\<lparr>ev_kindergartenId := kg\<rparr> \<and> ev_id e \<notin> ev_id ` set es)"
    unfolding mirrored_def by (rule triple_events_create)
  fix e
  let ?I = "\<lambda>es' ts. \<exists>es. es' = es @ [e] \<and> mirror_lists es ts \<and> e = r\<lparr>ev_kindergartenId := kg\<rparr> \<and> ev_id e \<notin> ev_id ` set es"
  show "triple (\<lambda>h. ?I (hs_events h) (hs_timeline h)) (bindA (house_uuid E) (\<lambda>j. bindA (house_now E) (\<lambda>now.
    bindA (timeline_create kg (timeline_createNew j kg (ev_childId r) (mirror_input (ev_eventType r)) who (ev_recordedAt r)
      (Some (ev_id e)) now)) (k e)))) (\<lambda>_. mirrored)"
  proof (rule triple_unregistered[where I = ?I], rule unregistered, rule triple_unregistered[where I = ?I], rule unregistered,
      rule triple_bind, rule triple_timeline_create[where I = ?I])
    fix j now t
    show "triple (\<lambda>h. \<exists>ts. hs_timeline h = ts @ [t] \<and> ?I (hs_events h) ts \<and> t = (timeline_createNew j kg (ev_childId r)
        (mirror_input (ev_eventType r)) who (ev_recordedAt r) (Some (ev_id e)) now)\<lparr>tl_kindergartenId := kg\<rparr> \<and> tl_id t \<notin> tl_id ` set ts)
      (k e t) (\<lambda>_. mirrored)"
    proof (rule triple_conseq[OF k])
      fix h :: house assume "\<exists>ts. hs_timeline h = ts @ [t] \<and> ?I (hs_events h) ts \<and> t = (timeline_createNew j kg (ev_childId r)
        (mirror_input (ev_eventType r)) who (ev_recordedAt r) (Some (ev_id e)) now)\<lparr>tl_kindergartenId := kg\<rparr> \<and> tl_id t \<notin> tl_id ` set ts"
      then obtain es ts where h: "hs_events h = es @ [e]" "hs_timeline h = ts @ [t]" "mirror_lists es ts" "ev_id e \<notin> ev_id ` set es"
        "tl_id t \<notin> tl_id ` set ts" "e = r\<lparr>ev_kindergartenId := kg\<rparr>" "t = (timeline_createNew j kg (ev_childId r)
        (mirror_input (ev_eventType r)) who (ev_recordedAt r) (Some (ev_id e)) now)\<lparr>tl_kindergartenId := kg\<rparr>" by blast
      have "live_event e" using live h(6) by (simp add: live_event_def)
      moreover have "mirror_of e t" using mirror_new[OF h(6)] h(7) by simp
      ultimately show "mirrored h" using h by (simp add: mirrored_def mirror_lists_add)
    qed
  qed
qed

lemma new_event_fields [simp]:
  "live_event (event_createCheckIn i kg c m s n t now)" "live_event (event_createCheckOut i kg c m s p q n t now)"
  "ev_childId (event_createCheckIn i kg c m s n t now) = c" "ev_childId (event_createCheckOut i kg c m s p q n t now) = c"
  "ev_eventType (event_createCheckIn i kg c m s n t now) = CheckIn" "ev_eventType (event_createCheckOut i kg c m s p q n t now) = CheckOut"
  "ev_recordedAt (event_createCheckIn i kg c m s n t now) = t" "ev_recordedAt (event_createCheckOut i kg c m s p q n t now) = t"
  by (simp_all add: live_event_def event_createCheckIn_def event_createCheckOut_def)

lemma mirrored_notify:
  "keeps_register m \<Longrightarrow> triple mirrored (bindA m (\<lambda>_. returnA x)) (\<lambda>_. mirrored)"
  by (rule mirrored_skip, assumption, rule triple_return)

lemma checkIn_mirrored: "triple mirrored (checkIn E kg c u opts) (\<lambda>_. mirrored)"
  unfolding checkIn_def
  by (intro mirrored_skip unregistered logged_event[where r = "event_createCheckIn i kg c m s n t now" for i m s n t now, simplified]
      mirrored_notify)

lemma checkOut_mirrored: "triple mirrored (checkOut E kg c u p opts) (\<lambda>_. mirrored)"
  unfolding checkOut_def Let_def
  by (intro mirrored_skip unregistered logged_event[where r = "event_createCheckOut i kg c m s p q n t now" for i m s p q n t now, simplified]
      mirrored_notify)

lemma createEntry_mirrored: "triple mirrored (createEntry E kg c u dto v opts) (\<lambda>_. mirrored)"
proof -
  have entry: "triple mirrored (bindA (timeline_create kg (timeline_createNew i kg c dto s t None now)) k) (\<lambda>_. mirrored)"
    if k: "\<And>x. triple mirrored (k x) (\<lambda>_. mirrored)" for i s t now and k :: "TimelineEntryState \<Rightarrow> TimelineEntryState house_act"
  proof (rule triple_bind)
    show "triple mirrored (timeline_create kg (timeline_createNew i kg c dto s t None now)) (\<lambda>_. mirrored)"
    proof (rule triple_conseq[OF triple_timeline_create[where I = mirror_lists]])
      fix x and h :: house
      assume "\<exists>ts. hs_timeline h = ts @ [x] \<and> mirror_lists (hs_events h) ts
        \<and> x = (timeline_createNew i kg c dto s t None now)\<lparr>tl_kindergartenId := kg\<rparr> \<and> tl_id x \<notin> tl_id ` set ts"
      then obtain ts where h: "hs_timeline h = ts @ [x]" "mirror_lists (hs_events h) ts" "tl_id x \<notin> tl_id ` set ts"
        and x: "tl_sourceEventId x = None" by (auto simp: timeline_createNew_def)
      thus "mirrored h" by (auto simp: mirrored_def mirror_lists_def intro: mirror_note)
    qed (simp add: mirrored_def)
  qed (rule k)
  have scope: "keeps_register (assertMentorScopeForChild kg u g c)" for g
    unfolding assertMentorScopeForChild_def by (intro unregistered)
  show ?thesis unfolding createEntry_def by (intro mirrored_skip unregistered scope entry mirrored_notify)
qed

subsection \<open>Correction and deletion\<close>

text \<open>Between the update of the event and that of its entry.\<close>

definition moved :: "AttendanceEventState \<Rightarrow> AttendanceEventState \<Rightarrow> AttendanceEventState list \<Rightarrow> TimelineEntryState list \<Rightarrow> bool" where
  "moved before after es' ts \<longleftrightarrow> (\<exists>es. mirror_lists es ts \<and> before \<in> set es \<and> live_event before \<and> ev_id after = ev_id before
     \<and> ev_kindergartenId after = ev_kindergartenId before \<and> map ev_id es' = map ev_id es \<and> set es' = insert after (set es - {before}))"

definition found_event :: "uuid \<Rightarrow> uuid \<Rightarrow> AttendanceEventState \<Rightarrow> AttendanceEventState list \<Rightarrow> TimelineEntryState list \<Rightarrow> bool" where
  "found_event kg i e es ts \<longleftrightarrow> mirror_lists es ts \<and> e \<in> set es \<and> event_key kg i e \<and> live_event e"

lemma triple_event_or_throw:
  "triple mirrored (event_or_throw kg i) (\<lambda>e h. found_event kg i e (hs_events h) (hs_timeline h))"
  unfolding event_or_throw_def
  by (intro triples) (auto simp: events_findById_def mirrored_def found_event_def find_Some_iff)

lemma event_row_key [simp]: "ev_id (event_row r q) = ev_id q" "ev_kindergartenId (event_row r q) = ev_kindergartenId q"
  by (simp_all add: event_row_def)

lemma triple_events_update:
  assumes key: "ev_id r = i"
  shows "triple (\<lambda>h. found_event kg i e (hs_events h) (hs_timeline h)) (events_update kg r)
    (\<lambda>u h. u = event_row r e \<and> moved e u (hs_events h) (hs_timeline h) \<and> event_key kg i e)"
  unfolding events_update_def
proof -
  have readback: "u = event_row r e"
    if m: "moved e (event_row r e) es' ts" and k: "event_key kg i e" and u: "find (event_key kg (ev_id r)) es' = Some u" for u es' ts
  proof -
    from m have "distinct (map ev_id es')" "event_row r e \<in> set es'" unfolding moved_def mirror_lists_def by auto
    moreover have "u \<in> set es'" "ev_id u = i" using u key by (auto simp: find_Some_iff event_key_def)
    moreover have "ev_id (event_row r e) = i" using k by (simp add: event_key_def)
    ultimately show ?thesis by (metis distinct_map inj_onD)
  qed
  show "triple (\<lambda>h. found_event kg i e (hs_events h) (hs_timeline h))
    (bindA (modifyA (\<lambda>h. h\<lparr>hs_events := update_where (event_key kg (ev_id r)) (event_row r) (hs_events h)\<rparr>)) (\<lambda>_.
     bindA (readA (\<lambda>h. find (event_key kg (ev_id r)) (hs_events h))) (\<lambda>found.
     foundA found (HouseFailure ''attendance_event_update_readback_failed''))))
    (\<lambda>u h. u = event_row r e \<and> moved e u (hs_events h) (hs_timeline h) \<and> event_key kg i e)"
proof (rule triple_bind[where R = "\<lambda>_ h. moved e (event_row r e) (hs_events h) (hs_timeline h) \<and> event_key kg i e"], rule triple_modify)
  fix h assume f: "found_event kg i e (hs_events h) (hs_timeline h)"
  have ids: "distinct (map ev_id (hs_events h))" "e \<in> set (hs_events h)" "ev_id e = i" "event_key kg i e"
    using f by (simp_all add: found_event_def mirror_lists_def event_key_def)
  have "set (update_where (event_key kg (ev_id r)) (event_row r) (hs_events h)) = insert (event_row r e) (set (hs_events h) - {e})"
    by (rule set_update_one[where key = ev_id, OF ids(1,2)]) (use ids key in \<open>simp_all add: event_key_def\<close>)
  moreover have "map ev_id (update_where (event_key kg (ev_id r)) (event_row r) (hs_events h)) = map ev_id (hs_events h)"
    by (rule map_update_where) simp
  ultimately show "moved e (event_row r e) (hs_events (h\<lparr>hs_events := update_where (event_key kg (ev_id r)) (event_row r) (hs_events h)\<rparr>))
      (hs_timeline (h\<lparr>hs_events := update_where (event_key kg (ev_id r)) (event_row r) (hs_events h)\<rparr>)) \<and> event_key kg i e"
    using f ids unfolding moved_def found_event_def by auto
next
  fix x :: unit
  show "triple (\<lambda>h. moved e (event_row r e) (hs_events h) (hs_timeline h) \<and> event_key kg i e)
    (bindA (readA (\<lambda>h. find (event_key kg (ev_id r)) (hs_events h))) (\<lambda>found. foundA found (HouseFailure ''attendance_event_update_readback_failed'')))
    (\<lambda>u h. u = event_row r e \<and> moved e u (hs_events h) (hs_timeline h) \<and> event_key kg i e)"
    by (intro triples) (auto dest: readback)
qed
qed

lemma mirror_partner:
  assumes "mirror_lists es ts" "e \<in> set es" "live_event e"
  obtains t where "t \<in> set ts" "mirror_of e t" "find (mirrors (ev_kindergartenId e) (ev_id e)) ts = Some t"
proof -
  obtain t where t: "t \<in> set ts" "mirror_of e t" using assms unfolding mirror_lists_def mirror_sets_def by blast
  hence "mirrors (ev_kindergartenId e) (ev_id e) t" by (simp add: mirrors_def mirror_of_def)
  then obtain u where u: "find (mirrors (ev_kindergartenId e) (ev_id e)) ts = Some u"
    using t(1) by (metis find_None_iff2 not_Some_eq)
  hence "u \<in> set ts" "tl_sourceEventId u = Some (ev_id e)" by (auto simp: find_Some_iff mirrors_def)
  moreover have "tl_sourceEventId t = Some (ev_id e)" using t by (simp add: mirror_of_def)
  ultimately have "u = t" using assms(1) t(1) mirror_unique unfolding mirror_lists_def by blast
  thus ?thesis using that t u by blast
qed

lemma mirror_of_source: "mirror_of e t \<Longrightarrow> tl_sourceEventId t = Some (ev_id e) \<and> tl_kindergartenId t = ev_kindergartenId e"
  by (simp add: mirror_of_def)

lemma moved_replace:
  assumes "moved before after es' ts" "live_event after" "t \<in> set ts" "mirror_of before t" "mirror_of after t'"
    and "set ts' = insert t' (set ts - {t})" "distinct (map tl_id ts')"
  shows "mirror_lists es' ts'"
  using assms mirror_of_source[OF assms(4)] unfolding moved_def mirror_lists_def by (auto intro: mirror_replace)

lemma moved_remove:
  assumes "moved before after es' ts" "\<not> live_event after" "t \<in> set ts" "mirror_of before t"
    and "set ts' = set ts - {t}" "distinct (map tl_id ts')"
  shows "mirror_lists es' ts'"
  using assms mirror_of_source[OF assms(4)] unfolding moved_def mirror_lists_def by (auto intro: mirror_remove)

lemma moved_partner:
  assumes "moved before after es' ts"
  obtains t where "t \<in> set ts" "mirror_of before t" "find (mirrors (ev_kindergartenId after) (ev_id after)) ts = Some t"
    and "distinct (map tl_id ts)"
proof -
  from assms obtain es where m: "mirror_lists es ts" "before \<in> set es" "live_event before" "ev_id after = ev_id before"
    "ev_kindergartenId after = ev_kindergartenId before" unfolding moved_def by blast
  show ?thesis using mirror_partner[OF m(1,2,3)] that m by (metis mirror_lists_def)
qed

text \<open>The entry that mirrors the event, when the cascade starts.\<close>

definition paired :: "AttendanceEventState \<Rightarrow> AttendanceEventState \<Rightarrow> TimelineEntryState \<Rightarrow> AttendanceEventState list \<Rightarrow> TimelineEntryState list \<Rightarrow> bool" where
  "paired before after t es ts \<longleftrightarrow> moved before after es ts \<and> t \<in> set ts \<and> mirror_of before t \<and> distinct (map tl_id ts)"

lemma triple_partner:
  assumes kg: "ev_kindergartenId after = kg" "ev_id after = i"
    and k: "\<And>t. triple (\<lambda>h. paired before after t (hs_events h) (hs_timeline h)) (k (Some t)) Q"
  shows "triple (\<lambda>h. moved before after (hs_events h) (hs_timeline h)) (bindA (readA (timeline_findBySourceEventId kg i)) k) Q"
proof (rule triple_read_bind, rule tripleI, elim conjE)
  fix found h x h'
  assume m: "moved before after (hs_events h) (hs_timeline h)" and f: "timeline_findBySourceEventId kg i h = found"
    and run: "k found h = Inr (x, h')"
  from m obtain t where t: "t \<in> set (hs_timeline h)" "mirror_of before t"
    "find (mirrors (ev_kindergartenId after) (ev_id after)) (hs_timeline h) = Some t" "distinct (map tl_id (hs_timeline h))"
    by (rule moved_partner)
  have "found = Some t" using t f kg by (simp add: timeline_findBySourceEventId_def)
  show "Q x h'" by (rule tripleD[OF k[of t]]) (use \<open>found = Some t\<close> t m run in \<open>simp_all add: paired_def\<close>)
qed

lemma triple_timeline_delete:
  "triple (\<lambda>h. I (hs_events h) (hs_timeline h)) (timeline_delete kg i)
     (\<lambda>_ h. \<exists>ts. hs_timeline h = filter (\<lambda>r. \<not> timeline_key kg i r) ts \<and> I (hs_events h) ts)"
  unfolding timeline_delete_def by (rule triple_modify) auto

lemma timeline_row_id [simp]: "tl_id (timeline_row r q) = tl_id q"
  by (simp add: timeline_row_def)

lemma filter_paired:
  assumes p: "paired before after t es ts" and kg: "ev_kindergartenId after = kg"
  shows "set (filter (\<lambda>r. \<not> timeline_key kg (tl_id t) r) ts) = set ts - {t}"
proof (rule set_filter_one[where key = tl_id])
  have "tl_kindergartenId t = kg" using p kg unfolding paired_def moved_def mirror_of_def by auto
  thus "timeline_key kg (tl_id t) t" by (simp add: timeline_key_def)
qed (use p in \<open>simp_all add: paired_def timeline_key_def\<close>)

lemma update_paired:
  assumes p: "paired before after t es ts" and kg: "ev_kindergartenId after = kg"
  shows "set (update_where (timeline_key kg (tl_id t)) f ts) = insert (f t) (set ts - {t})"
proof (rule set_update_one[where key = tl_id])
  have "tl_kindergartenId t = kg" using p kg unfolding paired_def moved_def mirror_of_def by auto
  thus "timeline_key kg (tl_id t) t" by (simp add: timeline_key_def)
qed (use p in \<open>simp_all add: paired_def timeline_key_def\<close>)

lemma cascade_mirrored:
  assumes live: "live_event after" and kg: "ev_kindergartenId after = kg"
  shows "triple (\<lambda>h. moved before after (hs_events h) (hs_timeline h)) (cascadeTimeline E kg before after) (\<lambda>_. mirrored)"
  unfolding cascadeTimeline_def
proof (rule triple_partner[OF kg refl], simp only: option.case, intro triple_if)
  fix t :: TimelineEntryState assume same: "ev_eventType before = ev_eventType after" "ev_childId before = ev_childId after \<and> ev_recordedAt before = ev_recordedAt after"
  show "triple (\<lambda>h. paired before after t (hs_events h) (hs_timeline h)) (returnA ()) (\<lambda>_. mirrored)"
  proof (rule triple_return)
    fix h :: house assume p: "paired before after t (hs_events h) (hs_timeline h)"
    hence "mirror_of after t" using same unfolding paired_def moved_def by (auto simp: mirror_of_def)
    with p live show "mirrored h" unfolding mirrored_def paired_def
      by (intro moved_replace[where ts = "hs_timeline h" and t = t and t' = t and before = before and after = after]) auto
  qed
next
  fix t :: TimelineEntryState assume same: "ev_eventType before = ev_eventType after"
  let ?p = "timeline_applyPatch \<lparr>tlp_title = None, tlp_body = None, tlp_mediaUrls = None, tlp_metadata = None,
    tlp_entryTime = Some (ev_recordedAt after), tlp_childId = Some (ev_childId after)\<rparr> t"
  have id: "tl_id ?p = tl_id t" by (simp add: timeline_applyPatch_def)
  show "triple (\<lambda>h. paired before after t (hs_events h) (hs_timeline h)) (bindA (timeline_update kg ?p) (\<lambda>_. returnA ())) (\<lambda>_. mirrored)"
    unfolding timeline_update_def id
  proof (rule triple_bind[OF triple_bind[OF triple_modify]])
    fix h :: house assume p: "paired before after t (hs_events h) (hs_timeline h)"
    let ?ts = "update_where (timeline_key kg (tl_id t)) (timeline_row ?p) (hs_timeline h)"
    have "mirror_of before t" "ev_id after = ev_id before" "ev_kindergartenId after = ev_kindergartenId before"
      using p unfolding paired_def moved_def by auto
    hence "mirror_of after (timeline_row ?p t)"
      using same by (simp add: mirror_of_def timeline_row_def timeline_applyPatch_def or_old_def)
    moreover have "distinct (map tl_id ?ts)" using p by (simp add: map_update_where paired_def)
    ultimately have "mirror_lists (hs_events h) ?ts"
      using p live update_paired[OF p kg] unfolding paired_def by (blast intro: moved_replace)
    thus "mirrored (h\<lparr>hs_timeline := ?ts\<rparr>)" by (simp add: mirrored_def)
  qed ((rule mirrored_stay, intro unregistered), rule triple_return)
next
  fix t :: TimelineEntryState assume flip: "ev_eventType before \<noteq> ev_eventType after"
  let ?new = "\<lambda>j now. timeline_createNew j kg (ev_childId after) (mirror_input (ev_eventType after)) (tl_recordedBy t)
    (ev_recordedAt after) (Some (ev_id after)) now"
  let ?I = "\<lambda>es ts'. \<exists>ts. paired before after t es ts \<and> ts' = filter (\<lambda>r. \<not> timeline_key kg (tl_id t) r) ts"
  show "triple (\<lambda>h. paired before after t (hs_events h) (hs_timeline h)) (bindA (timeline_delete kg (tl_id t)) (\<lambda>_.
      bindA (house_uuid E) (\<lambda>j. bindA (house_now E) (\<lambda>now. bindA (timeline_create kg (?new j now)) (\<lambda>_. returnA ()))))) (\<lambda>_. mirrored)"
  proof (rule triple_bind)
    show "triple (\<lambda>h. paired before after t (hs_events h) (hs_timeline h)) (timeline_delete kg (tl_id t))
      (\<lambda>_ h. ?I (hs_events h) (hs_timeline h))"
      by (rule triple_conseq[OF triple_timeline_delete[where I = "paired before after t"]]) auto
    show "triple (\<lambda>h. ?I (hs_events h) (hs_timeline h)) (bindA (house_uuid E) (\<lambda>j. bindA (house_now E) (\<lambda>now.
      bindA (timeline_create kg (?new j now)) (\<lambda>_. returnA ())))) (\<lambda>_. mirrored)"
    proof (rule triple_unregistered[where I = ?I], rule unregistered, rule triple_unregistered[where I = ?I], rule unregistered,
        rule triple_bind, rule triple_timeline_create[where I = ?I], rule triple_return)
      fix j now u and h :: house
      assume "\<exists>ts. hs_timeline h = ts @ [u] \<and> ?I (hs_events h) ts \<and> u = (?new j now)\<lparr>tl_kindergartenId := kg\<rparr> \<and> tl_id u \<notin> tl_id ` set ts"
      then obtain ts ts0 where h: "hs_timeline h = ts @ [u]" "tl_id u \<notin> tl_id ` set ts" "paired before after t (hs_events h) ts0"
        "ts = filter (\<lambda>r. \<not> timeline_key kg (tl_id t) r) ts0" and u: "u = (?new j now)\<lparr>tl_kindergartenId := kg\<rparr>" by blast
      have "mirror_of after u" unfolding u by (simp add: mirror_of_def timeline_createNew_def mirror_input_def kg)
      moreover have "set (hs_timeline h) = insert u (set ts0 - {t})" using h(1,4) filter_paired[OF h(3) kg] by simp
      moreover have "distinct (map tl_id (hs_timeline h))" using h by (simp add: paired_def distinct_map_filter)
      ultimately show "mirrored h" using h(3) live unfolding mirrored_def paired_def by (blast intro: moved_replace)
    qed
  qed
qed

lemma found_skip:
  "keeps_register m \<Longrightarrow> (\<And>x. triple (\<lambda>h. found_event kg i e (hs_events h) (hs_timeline h)) (k x) Q)
    \<Longrightarrow> triple (\<lambda>h. found_event kg i e (hs_events h) (hs_timeline h)) (bindA m k) Q"
  by (rule triple_unregistered)

lemma applyPatch_fields [simp]:
  "ev_id (event_applyPatch p s) = ev_id s" "ev_deletedAt (event_applyPatch p s) = ev_deletedAt s"
  by (simp_all add: event_applyPatch_def Let_def)

lemma softDelete_fields [simp]: "ev_id (event_softDelete t s) = ev_id s" "\<not> live_event (event_softDelete t s)"
  by (auto simp: event_softDelete_def live_event_def)

lemma live_event_row [simp]: "live_event (event_row r q) = live_event r" "live_event (event_applyPatch p s) = live_event s"
  by (simp_all add: live_event_def event_row_def)

lemma triple_event_found:
  assumes k: "\<And>e. ev_id e = i \<Longrightarrow> ev_kindergartenId e = kg \<Longrightarrow> live_event e
    \<Longrightarrow> triple (\<lambda>h. found_event kg i e (hs_events h) (hs_timeline h)) (k e) Q"
  shows "triple mirrored (bindA (event_or_throw kg i) k) Q"
proof (rule triple_bind[OF triple_event_or_throw], rule tripleI)
  fix e s x t
  assume f: "found_event kg i e (hs_events s) (hs_timeline s)" and run: "k e s = Inr (x, t)"
  hence "ev_id e = i" "ev_kindergartenId e = kg" "live_event e" by (simp_all add: found_event_def event_key_def)
  from tripleD[OF k[OF this] f run] show "Q x t" .
qed

lemma patchEvent_mirrored: "triple mirrored (patchEvent E kg i u patch opts) (\<lambda>_. mirrored)"
  unfolding patchEvent_def Let_def
proof ((rule mirrored_skip, (intro unregistered; fail))+, rule triple_event_found, (rule found_skip, (intro unregistered; fail))+)
  fix e p st
  assume e: "ev_id e = i" "ev_kindergartenId e = kg" "live_event e"
  show "triple (\<lambda>h. found_event kg i e (hs_events h) (hs_timeline h)) (bindA (events_update kg (event_applyPatch p e)) (\<lambda>updated.
    bindA (cascadeTimeline E kg e updated) (\<lambda>_. bindA (recomputeAffectedDailyStatuses E kg e updated st) (\<lambda>_.
    bindA (event_audit kg i AuditUpdate u st (Some e) (Some updated)) (\<lambda>_. returnA updated))))) (\<lambda>_. mirrored)"
  proof (rule triple_bind[OF triple_events_update])
    show "ev_id (event_applyPatch p e) = i" using e by simp
    fix v
    show "triple (\<lambda>h. v = event_row (event_applyPatch p e) e \<and> moved e v (hs_events h) (hs_timeline h) \<and> event_key kg i e)
      (bindA (cascadeTimeline E kg e v) (\<lambda>_. bindA (recomputeAffectedDailyStatuses E kg e v st) (\<lambda>_.
       bindA (event_audit kg i AuditUpdate u st (Some e) (Some v)) (\<lambda>_. returnA v)))) (\<lambda>_. mirrored)"
    proof (cases "v = event_row (event_applyPatch p e) e")
      case True
      hence live: "live_event v" "ev_kindergartenId v = kg" using e by simp_all
      show ?thesis
        by (rule triple_conseq[OF triple_bind[OF cascade_mirrored[OF live]]]) ((rule mirrored_stay, intro unregistered), metis, assumption)
    next
      case False
      thus ?thesis by (intro triple_pre_false) simp
    qed
  qed
qed

lemma deleteEvent_mirrored: "triple mirrored (deleteEvent E kg i u) (\<lambda>_. mirrored)"
  unfolding deleteEvent_def
proof ((rule mirrored_skip, (intro unregistered; fail))+, rule triple_event_found, (rule found_skip, (intro unregistered; fail))+)
  fix e st now
  assume e: "ev_id e = i" "ev_kindergartenId e = kg" "live_event e"
  let ?rest = "\<lambda>_. bindA (recomputeDailyStatus E kg (ev_childId e) (formatLocalIsoDate E (ev_recordedAt e)) st)
    (\<lambda>_. event_audit kg i AuditDelete u st (Some e) None)"
  let ?gone = "event_row (event_softDelete now e) e"
  show "triple (\<lambda>h. found_event kg i e (hs_events h) (hs_timeline h)) (bindA (events_update kg (event_softDelete now e)) (\<lambda>_.
    bindA (readA (timeline_findBySourceEventId kg i)) (\<lambda>entry.
    bindA (case entry of None \<Rightarrow> returnA () | Some t \<Rightarrow> timeline_delete kg (tl_id t)) ?rest))) (\<lambda>_. mirrored)"
  proof (rule triple_bind[OF triple_conseq[OF triple_events_update]])
    show "ev_id (event_softDelete now e) = i" using e by simp
    show "moved e ?gone (hs_events h) (hs_timeline h)"
      if "v = ?gone \<and> moved e v (hs_events h) (hs_timeline h) \<and> event_key kg i e" for v and h :: house using that by metis
    show "triple (\<lambda>h. moved e ?gone (hs_events h) (hs_timeline h)) (bindA (readA (timeline_findBySourceEventId kg i)) (\<lambda>entry.
      bindA (case entry of None \<Rightarrow> returnA () | Some t \<Rightarrow> timeline_delete kg (tl_id t)) ?rest)) (\<lambda>_. mirrored)"
    proof (rule triple_partner, simp_all only: event_row_key e option.case)
      fix t
      show "triple (\<lambda>h. paired e ?gone t (hs_events h) (hs_timeline h)) (bindA (timeline_delete kg (tl_id t)) ?rest) (\<lambda>_. mirrored)"
      proof (rule triple_bind[OF triple_conseq[OF triple_timeline_delete[where I = "paired e ?gone t"]]])
        fix h :: house
        assume "\<exists>ts. hs_timeline h = filter (\<lambda>r. \<not> timeline_key kg (tl_id t) r) ts \<and> paired e ?gone t (hs_events h) ts"
        then obtain ts where h: "hs_timeline h = filter (\<lambda>r. \<not> timeline_key kg (tl_id t) r) ts" "paired e ?gone t (hs_events h) ts" by blast
        have "ev_kindergartenId ?gone = kg" using e by simp
        hence "set (hs_timeline h) = set ts - {t}" unfolding h(1) by (rule filter_paired[OF h(2)])
        moreover have "distinct (map tl_id (hs_timeline h))" using h by (simp add: paired_def distinct_map_filter)
        moreover have "\<not> live_event ?gone" by simp
        ultimately show "mirrored h" using h(2) unfolding mirrored_def paired_def by (blast intro: moved_remove)
      qed (auto intro: mirrored_skip mirrored_stay unregistered)
    qed
  qed
qed

lemma setDailyStatus_mirrored: "triple mirrored (setDailyStatus E kg u input) (\<lambda>_. mirrored)"
  unfolding setDailyStatus_def by (intro mirrored_stay unregistered)

subsection \<open>Entries edited and deleted by hand\<close>

lemma authorise_edit_returned:
  "authorise_edit kg i u opts h = Inr (t, h') \<Longrightarrow> timeline_findById kg i h = Some t \<and> hs_events h' = hs_events h \<and> hs_timeline h' = hs_timeline h"
proof -
  assume run: "authorise_edit kg i u opts h = Inr (t, h')"
  have "keeps_register (authorise_edit kg i u opts)"
    unfolding authorise_edit_def entry_or_throw_def assertMentorScopeForChild_def by (intro unregistered)
  from keeps_registerD[OF this run] have "hs_events h' = hs_events h \<and> hs_timeline h' = hs_timeline h" .
  moreover have "triple (\<lambda>s. s = h) (authorise_edit kg i u opts) (\<lambda>t _. timeline_findById kg i h = Some t)"
    unfolding authorise_edit_def
  proof (rule triple_bind)
    show "triple (\<lambda>s. s = h) (entry_or_throw kg i) (\<lambda>t _. timeline_findById kg i h = Some t)"
      unfolding entry_or_throw_def by (intro triples) auto
  qed ((rule triple_keep_bind, simp add: preserves_def)+, rule triple_return)
  from tripleD[OF this refl run] have "timeline_findById kg i h = Some t" .
  ultimately show ?thesis by simp
qed

text \<open>The patch of an edit, and the timeline after it.\<close>

abbreviation edit_patch :: "UpdateTimelineEntryInput \<Rightarrow> TimelinePatch" where
  "edit_patch dto \<equiv> \<lparr>tlp_title = ut_title dto, tlp_body = ut_body dto, tlp_mediaUrls = ut_mediaUrls dto,
     tlp_metadata = ut_metadata dto, tlp_entryTime = ut_entryTime dto, tlp_childId = None\<rparr>"

lemma updateEntry_returned:
  assumes run: "updateEntry E kg i u dto opts h = Inr (x, h')"
  obtains t where "timeline_findById kg i h = Some t" "hs_events h' = hs_events h"
    "hs_timeline h' = update_where (timeline_key kg i) (timeline_row (timeline_applyPatch (edit_patch dto) t)) (hs_timeline h)"
proof -
  from run obtain t h1 h2 h3 where a: "authorise_edit kg i u opts h = Inr (t, h1)"
    and n: "(case ut_entryTime dto of None \<Rightarrow> returnA () | Some t \<Rightarrow> assertNotFuture E t) h1 = (Inr ((), h2) :: (house_error, unit, house) outcome)"
    and g: "(case ut_metadata dto of None \<Rightarrow> returnA () | Some m \<Rightarrow> guardA (assertTimelineMetadata (tl_entryType t) m)
      (InvalidTimelineMetadata (tl_entryType t))) h2 = (Inr ((), h3) :: (house_error, unit, house) outcome)"
    and w: "timeline_update kg (timeline_applyPatch (edit_patch dto) t) h3 = Inr (x, h')"
    unfolding updateEntry_def by (auto simp: act_inv)
  have h2: "hs_events h2 = hs_events h1 \<and> hs_timeline h2 = hs_timeline h1"
    by (rule keeps_registerD[where m = "case ut_entryTime dto of None \<Rightarrow> returnA () | Some t \<Rightarrow> assertNotFuture E t"])
      (intro unregistered, rule n)
  have h3: "hs_events h3 = hs_events h2 \<and> hs_timeline h3 = hs_timeline h2"
    by (rule keeps_registerD[where m = "case ut_metadata dto of None \<Rightarrow> returnA () | Some m \<Rightarrow>
        guardA (assertTimelineMetadata (tl_entryType t) m) (InvalidTimelineMetadata (tl_entryType t))"])
      (intro unregistered, rule g)
  note a' = authorise_edit_returned[OF a]
  then have "tl_id t = i" by (auto simp: timeline_findById_def timeline_key_def find_Some_iff)
  then have id: "tl_id (timeline_applyPatch (edit_patch dto) t) = i" by (simp add: timeline_applyPatch_def)
  show ?thesis
    by (rule that[of t]) (use a' h2 h3 w in \<open>auto simp: timeline_update_def id act_inv\<close>)
qed

lemma found_entry:
  assumes "timeline_findById kg i h = Some t"
  shows "t \<in> set (hs_timeline h)" "timeline_key kg i t" "tl_id t = i"
  using assms by (auto simp: timeline_findById_def find_Some_iff timeline_key_def)

text \<open>An entry of the register may be replaced by one that says the same of its event; a note may leave.\<close>

lemma mirror_forget:
  assumes "mirror_sets es ts" "tl_sourceEventId t = None"
  shows "mirror_sets es (ts - {t})"
  unfolding mirror_sets_def
proof (intro conjI ballI impI)
  fix e assume "e \<in> es" "live_event e"
  then obtain u where "u \<in> ts" "mirror_of e u" using assms(1) unfolding mirror_sets_def by blast
  moreover have "u \<noteq> t" using calculation(2) assms(2) by (auto dest: mirror_of_source)
  ultimately show "\<exists>u \<in> ts - {t}. mirror_of e u" by blast
next
  fix u assume "u \<in> ts - {t}" "tl_sourceEventId u \<noteq> None"
  then show "\<exists>e \<in> es. live_event e \<and> mirror_of e u" using assms(1) unfolding mirror_sets_def by blast
next
  show "inj_on ev_id es" using assms(1) by (simp add: mirror_sets_def)
  show "inj_on tl_sourceEventId {u \<in> ts - {t}. tl_sourceEventId u \<noteq> None}"
    using assms(1) unfolding mirror_sets_def by (auto intro: inj_on_subset)
qed

lemma mirror_same:
  assumes m: "mirror_sets es ts" and t: "t \<in> ts" "tl_sourceEventId t' = tl_sourceEventId t"
    and same: "\<And>e. tl_sourceEventId t \<noteq> None \<Longrightarrow> mirror_of e t' = mirror_of e t"
  shows "mirror_sets es (insert t' (ts - {t}))"
proof (cases "tl_sourceEventId t")
  case None
  then show ?thesis using mirror_note[OF mirror_forget[OF m None]] t(2) by simp
next
  case (Some i)
  then have eq: "mirror_of e t' = mirror_of e t" for e using same by simp
  have src: "tl_sourceEventId t' = Some i" using t(2) Some by simp
  have uniq: "u = t" if "u \<in> ts" "tl_sourceEventId u = Some i" for u using mirror_unique[OF m t(1) that(1) Some that(2)] .
  show ?thesis
    unfolding mirror_sets_def
  proof (intro conjI ballI impI)
    fix e assume "e \<in> es" "live_event e"
    then obtain u where "u \<in> ts" "mirror_of e u" using m unfolding mirror_sets_def by blast
    then show "\<exists>u \<in> insert t' (ts - {t}). mirror_of e u" using eq by (cases "u = t") auto
  next
    fix u assume "u \<in> insert t' (ts - {t})" "tl_sourceEventId u \<noteq> None"
    then show "\<exists>e \<in> es. live_event e \<and> mirror_of e u" using m t(1) eq Some unfolding mirror_sets_def by (cases "u = t'") auto
  next
    show "inj_on ev_id es" using m by (simp add: mirror_sets_def)
    show "inj_on tl_sourceEventId {u \<in> insert t' (ts - {t}). tl_sourceEventId u \<noteq> None}"
      using m uniq src unfolding mirror_sets_def inj_on_def by (auto; metis)
  qed
qed

lemma updateEntry_mirrored:
  assumes m: "mirrored h" and run: "updateEntry E kg i u dto opts h = Inr (x, h')"
    and kept: "\<And>t. timeline_findById kg i h = Some t \<Longrightarrow> tl_sourceEventId t \<noteq> None
      \<Longrightarrow> ut_entryTime dto = None \<or> ut_entryTime dto = Some (tl_entryTime t)"
  shows "mirrored h'"
  using run
proof (rule updateEntry_returned)
  fix t assume t: "timeline_findById kg i h = Some t" and es: "hs_events h' = hs_events h"
    and ts: "hs_timeline h' = update_where (timeline_key kg i) (timeline_row (timeline_applyPatch (edit_patch dto) t)) (hs_timeline h)"
  let ?t = "timeline_row (timeline_applyPatch (edit_patch dto) t) t"
  have d: "distinct (map tl_id (hs_timeline h))" and ms: "mirror_sets (set (hs_events h)) (set (hs_timeline h))"
    using m by (simp_all add: mirrored_def mirror_lists_def)
  have "set (hs_timeline h') = insert ?t (set (hs_timeline h) - {t})"
    unfolding ts by (rule set_update_one[where key = tl_id, OF d found_entry(1)[OF t]])
      (use found_entry(2,3)[OF t] in \<open>simp_all add: timeline_key_def\<close>)
  moreover have "mirror_sets (set (hs_events h)) (insert ?t (set (hs_timeline h) - {t}))"
  proof (rule mirror_same[OF ms found_entry(1)[OF t]])
    show "tl_sourceEventId ?t = tl_sourceEventId t" by (simp add: timeline_row_def timeline_applyPatch_def or_old_def)
    fix e assume "tl_sourceEventId t \<noteq> None"
    then have "ut_entryTime dto = None \<or> ut_entryTime dto = Some (tl_entryTime t)" by (rule kept[OF t])
    then show "mirror_of e ?t = mirror_of e t"
      by (auto simp: mirror_of_def timeline_row_def timeline_applyPatch_def or_old_def)
  qed
  moreover have "distinct (map tl_id (hs_timeline h'))" unfolding ts by (subst map_update_where) (simp_all add: d)
  ultimately show ?thesis using m es by (simp add: mirrored_def mirror_lists_def)
qed

lemma deleteEntry_mirrored:
  assumes m: "mirrored h" and run: "deleteEntry kg i u opts h = Inr (x, h')"
    and note_only: "\<And>t. timeline_findById kg i h = Some t \<Longrightarrow> tl_sourceEventId t = None"
  shows "mirrored h'"
proof -
  obtain t h1 where a: "authorise_edit kg i u opts h = Inr (t, h1)" and w: "timeline_delete kg i h1 = Inr (x, h')"
    using run by (auto simp: deleteEntry_def act_inv)
  note a' = authorise_edit_returned[OF a]
  have t: "timeline_findById kg i h = Some t" using a' by simp
  have post: "hs_events h' = hs_events h" "hs_timeline h' = filter (\<lambda>r. \<not> timeline_key kg i r) (hs_timeline h)"
    using a' w by (auto simp: timeline_delete_def act_inv)
  have d: "distinct (map tl_id (hs_timeline h))" and ms: "mirror_sets (set (hs_events h)) (set (hs_timeline h))"
    using m by (simp_all add: mirrored_def mirror_lists_def)
  have "set (hs_timeline h') = set (hs_timeline h) - {t}"
    unfolding post(2) by (rule set_filter_one[where key = tl_id, OF d found_entry(1)[OF t]])
      (use found_entry(2,3)[OF t] in \<open>simp_all add: timeline_key_def\<close>)
  then show ?thesis
    using m post d mirror_forget[OF ms note_only[OF t]] by (simp add: mirrored_def mirror_lists_def distinct_map_filter)
qed

subsection \<open>Handing a child over\<close>

lemma mirrored_parts [preserve]:
  "preserves mirrored (checkOut E kg c u p opts)" "preserves mirrored (ofBilling m1)" "preserves mirrored (ofSchool m2)"
  "preserves mirrored (house_notify n)" "preserves mirrored (house_lock k)" "preserves mirrored (pickups_update i pp ex)"
  "preserves mirrored (trusted_repo_markUsed i now b)"
  using checkOut_mirrored[of E kg c u p opts]
  by (auto simp: triple_preserves preserves_def mirrored_def ofBilling_def ofSchool_def house_notify_def house_lock_def
      pickups_update_def trusted_repo_markUsed_def act_inv Let_def split: if_splits)

lemma validateOtp_mirrored: "preservesR mirrored (validateOtp E kg i code u)"
  unfolding validateOtp_def hand_over_def house_defs Let_def by (intro preserve)

subsection \<open>Every sequence of operations\<close>

text \<open>
  Every operation that writes the events or the timeline, the edits and deletions by hand restricted to
  those that neither retime nor delete an entry of the register; \<open>other\<close> is what writes neither table.
\<close>

inductive door_step :: "house \<Rightarrow> house \<Rightarrow> bool" where
  check_in: "checkIn E kg c u opts h = Inr (r, h') \<Longrightarrow> door_step h h'"
| check_out: "checkOut E kg c u p opts h = Inr (r, h') \<Longrightarrow> door_step h h'"
| hand_over: "validateOtp E kg i code u rd h = (Inr (q, h'), rd') \<Longrightarrow> door_step h h'"
| patch: "patchEvent E kg i u pt po h = Inr (e, h') \<Longrightarrow> door_step h h'"
| delete: "deleteEvent E kg i u h = Inr (x, h') \<Longrightarrow> door_step h h'"
| daily: "setDailyStatus E kg u input h = Inr (d, h') \<Longrightarrow> door_step h h'"
| entry: "createEntry E kg c u dto v eo h = Inr (t, h') \<Longrightarrow> door_step h h'"
| entry_update: "updateEntry E kg i u ut eo h = Inr (t, h')
    \<Longrightarrow> (\<forall>s. timeline_findById kg i h = Some s \<and> tl_sourceEventId s \<noteq> None
          \<longrightarrow> ut_entryTime ut = None \<or> ut_entryTime ut = Some (tl_entryTime s)) \<Longrightarrow> door_step h h'"
| entry_delete: "deleteEntry kg i u eo h = Inr (x, h')
    \<Longrightarrow> (\<forall>s. timeline_findById kg i h = Some s \<longrightarrow> tl_sourceEventId s = None) \<Longrightarrow> door_step h h'"
| other: "hs_events h' = hs_events h \<Longrightarrow> hs_timeline h' = hs_timeline h \<Longrightarrow> door_step h h'"

inductive_cases door_stepE: "door_step h h'"

lemmas door_triples = checkIn_mirrored checkOut_mirrored patchEvent_mirrored deleteEvent_mirrored setDailyStatus_mirrored
  createEntry_mirrored

lemmas door_returned = door_triples[THEN tripleD, rotated]

lemma door_step_mirrored:
  assumes "door_step h h'" "mirrored h"
  shows "mirrored h'"
  using assms
proof (induction rule: door_step.induct)
  case (hand_over E kg i code u rd h q h' rd')
  show ?case by (rule preservesRD[OF validateOtp_mirrored hand_over(2,1)])
next
  case (entry_update E kg i u ut eo h t h')
  show ?case by (rule updateEntry_mirrored[OF entry_update(3,1)]) (use entry_update(2) in blast)
next
  case (entry_delete kg i u eo h x h')
  show ?case by (rule deleteEntry_mirrored[OF entry_delete(3,1)]) (use entry_delete(2) in blast)
next
  case (other h' h)
  then show ?case by (simp add: mirrored_def)
qed (erule door_returned; assumption)+

lemma door_steps_mirrored: "door_step\<^sup>*\<^sup>* h h' \<Longrightarrow> mirrored h \<Longrightarrow> mirrored h'"
  by (induction rule: rtranclp_induct) (auto intro: door_step_mirrored)

text \<open>In a mirrored house the entry of a live event is the only one with that source.\<close>

lemma mirrored_entry:
  assumes "mirrored h" "e \<in> set (hs_events h)" "live_event e"
  shows "\<exists>!t. t \<in> set (hs_timeline h) \<and> tl_sourceEventId t = Some (ev_id e)"
proof -
  from assms obtain t where "t \<in> set (hs_timeline h)" "mirror_of e t"
    unfolding mirrored_def mirror_lists_def mirror_sets_def by blast
  hence "t \<in> set (hs_timeline h)" "tl_sourceEventId t = Some (ev_id e)" by (simp_all add: mirror_of_def)
  moreover have "mirror_sets (set (hs_events h)) (set (hs_timeline h))" using assms(1) by (simp add: mirrored_def mirror_lists_def)
  ultimately show ?thesis using mirror_unique by metis
qed

lemma mirrored_source:
  assumes "mirrored h" "t \<in> set (hs_timeline h)" "tl_sourceEventId t = Some i"
  shows "\<exists>e \<in> set (hs_events h). ev_id e = i \<and> live_event e \<and> mirror_of e t"
  using assms unfolding mirrored_def mirror_lists_def mirror_sets_def by (fastforce simp: mirror_of_def)

subsection \<open>An edit by staff\<close>

text \<open>
  The edit of an entry has no guard for the entries attendance writes: a new time on one of them, by
  its author or an administrator, breaks the correspondence.
\<close>

lemma edited_time_unmirrors:
  assumes m: "mirrored h" and t: "t \<in> set (hs_timeline h)" "tl_sourceEventId t = Some i"
    and run: "updateEntry E kg (tl_id t) u dto opts h = Inr (x, h')" and v: "ut_entryTime dto = Some v" "v \<noteq> tl_entryTime t"
  shows "\<not> mirrored h'"
proof
  assume m': "mirrored h'"
  have dist: "inj_on tl_id (set (hs_timeline h))" "inj_on ev_id (set (hs_events h))"
    using m by (simp_all add: mirrored_def mirror_lists_def distinct_map)
  from run obtain s where f: "timeline_findById kg (tl_id t) h = Some s" and es: "hs_events h' = hs_events h"
    and ts: "hs_timeline h' = update_where (timeline_key kg (tl_id t)) (timeline_row (timeline_applyPatch (edit_patch dto) s)) (hs_timeline h)"
    by (rule updateEntry_returned)
  have "s = t" by (rule inj_onD[OF dist(1) found_entry(3)[OF f] found_entry(1)[OF f] t(1)])
  let ?t = "timeline_row (timeline_applyPatch (edit_patch dto) t) t"
  have "?t \<in> set (hs_timeline h')"
    unfolding ts set_update_where \<open>s = t\<close> using t(1) found_entry(2)[OF f] \<open>s = t\<close> by (intro image_eqI[of _ _ t]) simp_all
  moreover have g: "tl_sourceEventId ?t = Some i" "tl_entryTime ?t = v"
    using t(2) v(1) by (simp_all add: timeline_row_def timeline_applyPatch_def or_old_def)
  ultimately obtain d where d: "d \<in> set (hs_events h)" "ev_id d = i" "mirror_of d ?t"
    using mirrored_source[OF m'] es by metis
  obtain d' where d': "d' \<in> set (hs_events h)" "ev_id d' = i" "mirror_of d' t" using mirrored_source[OF m t] by blast
  have "d' = d" by (rule inj_onD[OF dist(2) _ d'(1) d(1)]) (simp add: d d')
  hence "tl_entryTime t = v" using d(3) d'(3) g(2) by (simp add: mirror_of_def)
  thus False using v(2) by simp
qed

end
