(* ===== verification/Attendance_Facts.thy ===== *)
theory Attendance_Facts
  imports Timeline_Mirror
begin

text \<open>
  More about attendance: a status somebody decided on is never overwritten by an event, the summary of a
  day counts every child once, and a check-out has a guardian who may pick up or a pickup request.
\<close>

subsection \<open>A decided status stays\<close>

definition decided :: "ChildDailyStatusState \<Rightarrow> bool" where
  "decided r \<longleftrightarrow> ds_status r \<noteq> Present \<and> ds_status r \<noteq> Absent \<and> ds_status r \<noteq> Late"

abbreviation day_of :: "ChildDailyStatusState \<Rightarrow> uuid \<times> string" where
  "day_of q \<equiv> (ds_childId q, ds_date q)"

definition has_day :: "ChildDailyStatusState \<Rightarrow> house \<Rightarrow> bool" where
  "has_day r h \<longleftrightarrow> r \<in> set (hs_daily h) \<and> distinct (map day_of (hs_daily h))"

lemma day_row [simp]: "day_of (daily_row r q) = day_of q"
  by (simp add: daily_row_def)

lemma distinct_daily_put: "distinct (map day_of rows) \<Longrightarrow> distinct (map day_of (daily_put r rows))"
  by (auto simp: daily_put_def map_update_where daily_conflict_def list_ex_iff)

lemma daily_put_keeps:
  assumes "r \<in> set rows" "\<not> daily_conflict d r"
  shows "r \<in> set (daily_put d rows)"
  using assms by (auto simp: daily_put_def set_update_where intro!: image_eqI[of r _ r])

text \<open>What does not write the table.\<close>

lemma day_parts [preserve]:
  "preserves (has_day r) (ofBilling m1)" "preserves (has_day r) (ofSchool m2)" "preserves (has_day r) (house_notify n)"
  "preserves (has_day r) (audit_record a)" "preserves (has_day r) (events_create kg e)" "preserves (has_day r) (events_update kg e)"
  "preserves (has_day r) (timeline_create kg t)" "preserves (has_day r) (timeline_update kg t)" "preserves (has_day r) (timeline_delete kg i)"
  by (auto simp: preserves_def has_day_def ofBilling_def ofSchool_def house_notify_def audit_record_def events_create_def
      events_update_def timeline_create_def timeline_update_def timeline_delete_def act_inv Let_def split: if_splits)

lemma day_helpers [preserve]:
  "preserves (has_day r) (house_now E)" "preserves (has_day r) (house_uuid E)" "preserves (has_day r) (house_staff kg u)"
  "preserves (has_day r) (house_child kg c)" "preserves (has_day r) (assertPickupAllowed kg c p)"
  "preserves (has_day r) (assertNotFuture E t)" "preserves (has_day r) (recorded_time E v)"
  "preserves (has_day r) (event_audit kg i a u s b af)" "preserves (has_day r) (cascadeTimeline E kg b' a')"
  "preserves (has_day r) (assertEditWindow E ev)" "preserves (has_day r) (event_or_throw kg i)"
  unfolding house_now_def house_uuid_def house_staff_def house_child_def assertPickupAllowed_def assertNotFuture_def
    recorded_time_def event_audit_def cascadeTimeline_def assertEditWindow_def event_or_throw_def
  by (intro preserve)+

lemma day_upsert:
  assumes "\<And>h. P h \<Longrightarrow> has_day r h \<and> \<not> daily_conflict d r"
  shows "triple P (daily_upsert kg d) (\<lambda>_. has_day r)"
  by (rule tripleI)
    (auto simp: daily_upsert_def act_inv has_day_def daily_conflict_def dest!: assms intro: distinct_daily_put intro!: daily_put_keeps)

lemma day_promote:
  "decided r \<Longrightarrow> preserves (has_day r) (daily_updatePresentIfAbsentOrLate kg c date s now)"
  by (auto simp: preserves_def daily_updatePresentIfAbsentOrLate_def Let_def has_day_def set_update_where decided_def
      isPromotableByCheckIn_def map_update_where intro!: image_eqI[of r _ r])

lemma no_conflict_missing:
  "find (daily_key kg c date) (hs_daily h) = None \<Longrightarrow> has_day r h \<Longrightarrow> ds_kindergartenId r = kg
    \<Longrightarrow> \<not> daily_conflict (daily_createNew i kg c date st n s now) r"
  by (auto simp: find_None_iff daily_key_def daily_conflict_def daily_createNew_def has_day_def)

lemma no_conflict_present:
  assumes "find (daily_key kg c date) (hs_daily h) = Some e" "has_day r h" "decided r" "ds_status e = Present"
  shows "\<not> daily_conflict (daily_createNew i kg c date st n s now) r"
proof
  assume "daily_conflict (daily_createNew i kg c date st n s now) r"
  hence "day_of r = day_of e" using assms(1) by (auto simp: find_Some_iff daily_key_def daily_conflict_def daily_createNew_def)
  moreover have "e \<in> set (hs_daily h)" "r \<in> set (hs_daily h)" "inj_on day_of (set (hs_daily h))"
    using assms(1,2) by (auto simp: find_Some_iff has_day_def distinct_map)
  ultimately have "r = e" by (meson inj_onD)
  thus False using assms(3,4) by (simp add: decided_def)
qed

lemma day_clock:
  "(\<And>x. triple (\<lambda>h. has_day r h \<and> daily_findByChildAndDate kg c date h = v) (k x) Q) \<Longrightarrow>
    triple (\<lambda>h. has_day r h \<and> daily_findByChildAndDate kg c date h = v) (bindA (house_now E) k) Q"
  "(\<And>x. triple (\<lambda>h. has_day r h \<and> daily_findByChildAndDate kg c date h = v) (l x) Q) \<Longrightarrow>
    triple (\<lambda>h. has_day r h \<and> daily_findByChildAndDate kg c date h = v) (bindA (house_uuid E) l) Q"
  by (rule triple_keep_bind;
      auto simp: preserves_def house_now_def house_uuid_def ofBilling_def act_inv has_day_def daily_findByChildAndDate_def)+

lemma day_write:
  assumes "\<And>h. P h \<Longrightarrow> has_day r h \<and> \<not> daily_conflict d r" and "\<And>x. preserves (has_day r) (k x)"
  shows "triple P (bindA (daily_upsert kg d) k) (\<lambda>_. has_day r)"
  by (rule triple_bind[OF day_upsert[OF assms(1)]]) (auto simp: triple_preserves assms(2))

lemma promote_keeps_day:
  assumes r: "decided r" "ds_kindergartenId r = kg"
  shows "preserves (has_day r) (promote_day E kg c date s)"
  unfolding promote_day_def triple_preserves[symmetric]
proof (rule triple_read_bind, rule triple_option)
  fix v :: "ChildDailyStatusState option" assume "v = None"
  thus "triple (\<lambda>h. has_day r h \<and> daily_findByChildAndDate kg c date h = v) (bindA (house_uuid E) (\<lambda>i. bindA (house_now E) (\<lambda>now.
      bindA (daily_upsert kg (daily_createNew i kg c date Present None (Some s) now)) (\<lambda>d. returnA (Some d))))) (\<lambda>_. has_day r)"
    by (intro day_clock day_write preserve)
      (use r in \<open>auto simp: daily_findByChildAndDate_def dest: no_conflict_missing\<close>)
next
  fix v :: "ChildDailyStatusState option" and e :: ChildDailyStatusState
  have "preserves (has_day r) (bindA (house_now E) (\<lambda>now. bindA (daily_updatePresentIfAbsentOrLate kg c date (Some s) now)
      (\<lambda>(updated, current). returnA (case current of None \<Rightarrow> Some e | Some x \<Rightarrow> Some x))))"
    by (rule preserves_bind, rule day_helpers, rule preserves_bind, rule day_promote[OF r(1)]) (simp add: preserve split: prod.split)
  thus "triple (\<lambda>h. has_day r h \<and> daily_findByChildAndDate kg c date h = v) (bindA (house_now E) (\<lambda>now.
      bindA (daily_updatePresentIfAbsentOrLate kg c date (Some s) now)
      (\<lambda>(updated, current). returnA (case current of None \<Rightarrow> Some e | Some x \<Rightarrow> Some x)))) (\<lambda>_. has_day r)"
    unfolding triple_preserves[symmetric] by (rule triple_conseq) auto
qed

lemma recompute_keeps_day:
  assumes r: "decided r" "ds_kindergartenId r = kg"
  shows "preserves (has_day r) (recomputeDailyStatus E kg c date s)"
  unfolding recomputeDailyStatus_def triple_preserves[symmetric]
proof (rule triple_keep_bind, rule preserve, rule triple_read_bind, intro triple_if triple_option)
  fix v :: "ChildDailyStatusState option" assume "v = None"
  thus "triple (\<lambda>h. has_day r h \<and> daily_findByChildAndDate kg c date h = v) (bindA (house_uuid E) (\<lambda>i. bindA (house_now E) (\<lambda>now.
      bindA (daily_upsert kg (daily_createNew i kg c date Present None (Some s) now)) (\<lambda>_. returnA ())))) (\<lambda>_. has_day r)"
    by (intro day_clock day_write preserve)
      (use r in \<open>auto simp: daily_findByChildAndDate_def dest: no_conflict_missing\<close>)
next
  fix v :: "ChildDailyStatusState option" and e :: ChildDailyStatusState
  have "preserves (has_day r) (bindA (house_now E) (\<lambda>now. bindA (daily_updatePresentIfAbsentOrLate kg c date (Some s) now)
      (\<lambda>_. returnA ())))"
    by (intro preserve day_promote r(1))
  thus "triple (\<lambda>h. has_day r h \<and> daily_findByChildAndDate kg c date h = v) (bindA (house_now E) (\<lambda>now.
      bindA (daily_updatePresentIfAbsentOrLate kg c date (Some s) now) (\<lambda>_. returnA ()))) (\<lambda>_. has_day r)"
    unfolding triple_preserves[symmetric] by (rule triple_conseq) auto
next
  fix v :: "ChildDailyStatusState option" show "triple (\<lambda>h. has_day r h \<and> daily_findByChildAndDate kg c date h = v) (returnA ()) (\<lambda>_. has_day r)"
    by (rule triple_return) simp
next
  fix v :: "ChildDailyStatusState option" and e assume "v = Some e" "ds_status e = Present"
  thus "triple (\<lambda>h. has_day r h \<and> daily_findByChildAndDate kg c date h = v) (bindA (house_now E) (\<lambda>now.
      bindA (daily_upsert kg (daily_createNew (ds_id e) kg c date Absent (ds_note e) (Some s) now)) (\<lambda>_. returnA ()))) (\<lambda>_. has_day r)"
    by (intro day_clock day_write preserve)
      (use r in \<open>auto simp: daily_findByChildAndDate_def dest: no_conflict_present\<close>)
next
  fix v :: "ChildDailyStatusState option" show "triple (\<lambda>h. has_day r h \<and> daily_findByChildAndDate kg c date h = v) (returnA ()) (\<lambda>_. has_day r)"
    by (rule triple_return) simp
qed

lemma recomputeAffected_keeps_day:
  "decided r \<Longrightarrow> ds_kindergartenId r = kg \<Longrightarrow> preserves (has_day r) (recomputeAffectedDailyStatuses E kg b a s)"
  unfolding recomputeAffectedDailyStatuses_def Let_def
  by (rule preserves_each) (simp add: recompute_keeps_day split: prod.split)

lemma events_keep_decided_day:
  assumes "decided r" "ds_kindergartenId r = kg"
  shows "preserves (has_day r) (checkIn E kg c u opts)" "preserves (has_day r) (checkOut E kg c u p opts)"
    "preserves (has_day r) (patchEvent E kg i u pt po)" "preserves (has_day r) (deleteEvent E kg i u)"
  unfolding checkIn_def checkOut_def patchEvent_def deleteEvent_def Let_def
  by (intro preserve promote_keeps_day recomputeAffected_keeps_day recompute_keeps_day assms)+

subsection \<open>The summary of a day\<close>

lemma later_event_trans: "later_event p q \<Longrightarrow> later_event q r \<Longrightarrow> later_event p r"
  by (auto simp: later_event_def)

lemma later_event_irrefl [simp]: "\<not> later_event r r"
  by (simp add: later_event_def)

lemma latest_exists: "rows \<noteq> [] \<Longrightarrow> \<exists>r \<in> set rows. \<forall>q \<in> set rows. \<not> later_event q r"
proof (induction rows)
  case (Cons p rows)
  show ?case
  proof (cases "rows = []")
    case False
    then obtain r where r: "r \<in> set rows" "\<forall>q \<in> set rows. \<not> later_event q r" using Cons by blast
    show ?thesis
    proof (cases "later_event p r")
      case True
      have "\<not> later_event q p" if "q \<in> set rows" for q
        using r(2) that later_event_trans[OF _ True] by blast
      thus ?thesis by auto
    qed (use r in auto)
  qed simp
qed simp

lemma last_event_found:
  assumes "c \<in> set (map ev_childId rows)"
  shows "\<exists>r. last_event rows c = Some r"
proof -
  have "filter (\<lambda>r. ev_childId r = c) rows \<noteq> []" using assms by (auto simp: filter_empty_conv)
  from latest_exists[OF this] show ?thesis
    unfolding last_event_def Let_def by (metis find_None_iff2 list_ex_iff not_Some_eq)
qed

lemma two_buckets:
  "(\<And>x. x \<in> set xs \<Longrightarrow> \<exists>r. x = Some r) \<Longrightarrow>
    length (filter (\<lambda>v. case v of Some r \<Rightarrow> ev_eventType r = CheckIn | None \<Rightarrow> False) xs)
    + length (filter (\<lambda>v. case v of Some r \<Rightarrow> ev_eventType r = CheckOut | None \<Rightarrow> False) xs) = length xs"
proof (induction xs)
  case (Cons x xs)
  then obtain r where "x = Some r" by (meson list.set_intros(1))
  with Cons show ?case by (cases "ev_eventType r") auto
qed simp

text \<open>Every child with an event on that day is in exactly one of the two buckets.\<close>

lemma buckets_partition:
  "fst (lastEventBucketsForDate kg a b g h) + snd (lastEventBucketsForDate kg a b g h)
    = card (ev_childId ` set (events_of_day kg a b g h))"
proof -
  let ?rows = "events_of_day kg a b g h"
  let ?last = "map (last_event ?rows) (remdups (map ev_childId ?rows))"
  have some: "\<exists>r. x = Some r" if "x \<in> set ?last" for x
  proof -
    from that obtain c where "x = last_event ?rows c" "c \<in> set (map ev_childId ?rows)" by auto
    thus ?thesis using last_event_found by simp
  qed
  have "fst (lastEventBucketsForDate kg a b g h) + snd (lastEventBucketsForDate kg a b g h) = length ?last"
    unfolding lastEventBucketsForDate_def Let_def fst_conv snd_conv by (rule two_buckets[OF some])
  also have "\<dots> = card (ev_childId ` set ?rows)" by (simp add: length_remdups_card_conv)
  finally show ?thesis .
qed

subsection \<open>Who takes a child home\<close>

lemma guardians_kept:
  "preserves (\<lambda>s. db_guardians (hs_billing s) = G) (house_now E)" "preserves (\<lambda>s. db_guardians (hs_billing s) = G) (house_staff kg u)"
  "preserves (\<lambda>s. db_guardians (hs_billing s) = G) (house_child kg c)"
  "preserves (\<lambda>s. db_guardians (hs_billing s) = G) (assertNotFuture E t)"
  "preserves (\<lambda>s. db_guardians (hs_billing s) = G) (recorded_time E v)"
  by (auto simp: preserves_def house_now_def house_staff_def house_child_def assertNotFuture_def recorded_time_def ofBilling_def
      ofSchool_def nowM_def act_inv split: option.splits)

lemma checkOut_authorised:
  assumes "checkOut E kg c u p opts h = Inr (r, h')"
  shows "co_pickupRequestId opts \<noteq> None
    \<or> (\<exists>w. p = Some w \<and> guardians_findApprovedActivePickupGuardian kg c w (hs_billing h) \<noteq> None)" (is ?C)
proof -
  let ?P = "\<lambda>s :: house. db_guardians (hs_billing s) = db_guardians (hs_billing h)"
  let ?check = "whenA (co_pickupRequestId opts = None)
    (bindA (foundA p (InvalidAttendancePickup ''pickupUserId is required when pickupRequestId is null'')) (assertPickupAllowed kg c))"
  have check: "triple ?P ?check (\<lambda>_ _. ?C)"
    by (rule tripleI)
      (auto simp: act_inv assertPickupAllowed_def guardians_findApprovedActivePickupGuardian_def split: if_splits)
  have rest: "triple (\<lambda>_. ?C) m (\<lambda>_ _. ?C)" for m :: "AttendanceFlowResult house_act"
    by (simp add: triple_def)
  have "triple ?P (checkOut E kg c u p opts) (\<lambda>_ _. ?C)"
    unfolding checkOut_def Let_def
    by (rule triple_keep_bind[OF guardians_kept(5)], rule triple_keep_bind[OF guardians_kept(4)],
        rule triple_keep_bind[OF guardians_kept(2)], rule triple_keep_bind[OF guardians_kept(3)], rule triple_bind[OF check], rule rest)
  from tripleD[OF this _ assms] show ?thesis by simp
qed

end
