(* ===== verification/Sample_House.thy ===== *)
theory Sample_House
  imports Sample_School Timeline_Mirror Attendance_Facts Pickup_Facts
begin

text \<open>
  The door of the small kindergarten: Aliya with her mother, a one-time person who may collect her, and
  runs of the operations.
\<close>

definition her_guardian :: ChildGuardianState where
  "her_guardian = (sample_guardian ''mother'' PrimaryGuardian GuardianApproved True)\<lparr>gd_kindergartenId := ''kg'', gd_childId := ''child'',
     gd_userId := ''user-9''\<rparr>"

definition her_neighbour :: TrustedPersonState where
  "her_neighbour = \<lparr>tr_id = ''neighbour'', tr_kindergartenId = ''kg'', tr_childId = ''child'', tr_addedByUserId = ''user-9'',
     tr_fullName = ''Saule'', tr_phone = ''+77010000001'', tr_iin = None, tr_relation = ''neighbour'', tr_photoUrl = None,
     tr_isActive = True, tr_isOneTime = True, tr_usedAt = None, tr_createdAt = 0, tr_revokedAt = None\<rparr>"

definition small_house :: house where
  "small_house = \<lparr>hs_billing = no_rows\<lparr>db_children := [sample_child ChildActive], db_guardians := [her_guardian]\<rparr>,
     hs_school = small_school [], hs_events = [], hs_daily = [], hs_timeline = [], hs_trusted = [her_neighbour], hs_pickups = [],
     hs_audit = [], hs_notices = [], hs_locks = []\<rparr>"

definition empty_redis :: redis where
  "empty_redis = \<lparr>rd_codes = [], rd_attempts = [], rd_locks = [], rd_counts = [], rd_sms = []\<rparr>"

definition plain_opts :: CheckOpts where
  "plain_opts = \<lparr>co_notify = True, co_recordedAt = None, co_notes = None, co_pickupRequestId = None, co_method = None\<rparr>"

subsection \<open>Aliya goes home with her mother, twice by mistake\<close>

definition went_home :: "AttendanceFlowResult \<times> house" where
  "went_home = projr (checkOut E0 ''kg'' ''child'' ''user-1'' (Some ''user-9'') plain_opts small_house)"

definition went_again :: "AttendanceFlowResult \<times> house" where
  "went_again = projr (checkOut E0 ''kg'' ''child'' ''user-1'' (Some ''user-9'') plain_opts (snd went_home))"

lemma went_home_run: "checkOut E0 ''kg'' ''child'' ''user-1'' (Some ''user-9'') plain_opts small_house = Inr went_home"
  by code_simp

lemma went_again_run: "checkOut E0 ''kg'' ''child'' ''user-1'' (Some ''user-9'') plain_opts (snd went_home) = Inr went_again"
  by code_simp

lemma door_steps: "door_step\<^sup>*\<^sup>* small_house (snd went_again)"
proof -
  have "door_step small_house (snd went_home)"
    by (rule door_step.check_out[where r = "fst went_home"]) (unfold prod.collapse, rule went_home_run)
  moreover have "door_step (snd went_home) (snd went_again)"
    by (rule door_step.check_out[where r = "fst went_again"]) (unfold prod.collapse, rule went_again_run)
  ultimately show ?thesis by simp
qed

lemma small_house_mirrored: "mirrored small_house"
  by (simp add: small_house_def mirrored_def mirror_lists_def mirror_sets_def)

subsection \<open>The neighbour collects Aliya\<close>

definition neighbour_request :: CreatePickupRequestInput where
  "neighbour_request = \<lparr>cp_childId = ''child'', cp_trustedPersonId = Some ''neighbour'', cp_trustedPersonName = None,
     cp_trustedPersonPhone = None, cp_trustedPersonIin = None\<rparr>"

definition asked :: "PickupRequestState \<times> house" where
  "asked = projr (pickup_createByParent E0 ''kg'' ''user-9'' neighbour_request small_house)"

definition asked_again :: "PickupRequestState \<times> house" where
  "asked_again = projr (pickup_createByParent E0 ''kg'' ''user-9'' neighbour_request (snd asked))"

definition sent :: "(house_error, string \<times> int, house) outcome \<times> redis" where
  "sent = sendOtp E0 5 7 ''kg'' (pk_id (fst asked)) empty_redis (snd asked_again)"

definition collected :: "(house_error, PickupRequestState \<times> uuid, house) outcome \<times> redis" where
  "collected = validateOtp E0 ''kg'' (pk_id (fst asked)) ''000007'' ''user-1'' (snd sent) (snd (projr (fst sent)))"

definition collected_house :: house where "collected_house = snd (projr (fst collected))"

lemma asked_run: "pickup_createByParent E0 ''kg'' ''user-9'' neighbour_request small_house = Inr asked"
  by code_simp

lemma asked_again_run: "pickup_createByParent E0 ''kg'' ''user-9'' neighbour_request (snd asked) = Inr asked_again"
  by code_simp

lemma sent_run:
  "sendOtp E0 5 7 ''kg'' (pk_id (fst asked)) empty_redis (snd asked_again) = (Inr (projr (fst sent)), snd sent)"
  by code_simp

lemma collected_run:
  "validateOtp E0 ''kg'' (pk_id (fst asked)) ''000007'' ''user-1'' (snd sent) (snd (projr (fst sent)))
    = (Inr (projr (fst collected)), snd collected)"
  by code_simp

lemma hand_steps: "hand_step\<^sup>*\<^sup>* (empty_redis, small_house) (snd collected, collected_house)"
proof -
  have "hand_step (empty_redis, small_house) (empty_redis, snd asked)"
    by (rule hand_step.request_parent[where ?x7.0 = "fst asked"]) (unfold prod.collapse, rule asked_run)
  moreover have "hand_step (empty_redis, snd asked) (empty_redis, snd asked_again)"
    by (rule hand_step.request_parent[where ?x7.0 = "fst asked_again"]) (unfold prod.collapse, rule asked_again_run)
  moreover have "hand_step (empty_redis, snd asked_again) (snd sent, snd (projr (fst sent)))"
    by (rule hand_step.send[where ?x8.0 = "fst (projr (fst sent))"]) (unfold prod.collapse, rule sent_run)
  moreover have "hand_step (snd sent, snd (projr (fst sent))) (snd collected, collected_house)"
    by (rule hand_step.validate[where ?x9.0 = "fst (projr (fst collected))"]) (unfold collected_house_def prod.collapse, rule collected_run)
  ultimately show ?thesis by simp
qed

lemma small_house_handed: "handed small_house"
  by (simp add: small_house_def handed_def hand_lists_def hand_view_def)

subsection \<open>Other samples\<close>

definition aliya_is_sick :: ChildDailyStatusState where
  "aliya_is_sick = \<lparr>ds_id = ''day'', ds_kindergartenId = ''kg'', ds_childId = ''child'', ds_date = ''2025-01-15'', ds_status = Sick,
     ds_note = None, ds_setBy = Some ''admin'', ds_updatedAt = 0\<rparr>"

definition sick_house :: house where
  "sick_house = small_house\<lparr>hs_daily := [aliya_is_sick]\<rparr>"

definition sick_went_home :: "AttendanceFlowResult \<times> house" where
  "sick_went_home = projr (checkOut E0 ''kg'' ''child'' ''user-1'' (Some ''user-9'') plain_opts sick_house)"

lemma sick_went_home_run: "checkOut E0 ''kg'' ''child'' ''user-1'' (Some ''user-9'') plain_opts sick_house = Inr sick_went_home"
  by code_simp

definition later_entry :: UpdateTimelineEntryInput where
  "later_entry = \<lparr>ut_title = None, ut_body = None, ut_mediaUrls = None, ut_metadata = None, ut_entryTime = Some (noon - 3600000)\<rparr>"

definition staff_edit :: TimelineEntryOpts where
  "staff_edit = \<lparr>te_isAdmin = False, te_callerRole = None\<rparr>"

definition edited :: "TimelineEntryState \<times> house" where
  "edited = projr (updateEntry E0 ''kg'' (tl_id (fr_timelineEntry (fst went_home))) ''user-1'' later_entry staff_edit (snd went_home))"

lemma edited_run:
  "updateEntry E0 ''kg'' (tl_id (fr_timelineEntry (fst went_home))) ''user-1'' later_entry staff_edit (snd went_home) = Inr edited"
  by code_simp

lemma went_home_mirrored: "mirrored (snd went_home)"
proof (rule tripleD[OF checkOut_mirrored small_house_mirrored])
  show "checkOut E0 ''kg'' ''child'' ''user-1'' (Some ''user-9'') plain_opts small_house = Inr (fst went_home, snd went_home)"
    unfolding prod.collapse by (rule went_home_run)
qed

definition no_patch :: PatchAttendanceEventInput where
  "no_patch = \<lparr>pa_recordedAt = None, pa_notes = None, pa_pickupUserId = None, pa_childId = None, pa_eventType = None\<rparr>"

definition no_rights :: PatchEventOpts where
  "no_rights = \<lparr>po_skipEditWindow = False, po_allowStructuralCorrection = False\<rparr>"

end
