(* ===== verification/Spec2Isabelle.thy ===== *)
theory Spec2Isabelle
  imports Refund_Books Payment_Calendar Discount_Service Payment_Initiation Tariff_Service Billing_Jobs
    Pro_Rata_Refund Delivery_Order Approval_Rights Monthly_Once Assignment_Windows Discount_Usage
    Repository_Refinement Tenant_Loop Settlement_Status Initiation_Facts Pro_Rata_Bounds Sample_Month Sample_School
    Timeline_Mirror Attendance_Facts Pickup_Facts Sample_House
begin

text \<open>
  A verification library for the kindergarten back end (NestJS over PostgreSQL, all sources under
  \<open>src/\<close>, called \<open>src/modules/...\<close> below): its money, its billing module, the children and guardians the
  bills are about, the staff and groups, the enrolment of new children, and the door: who arrived, who left
  and with whom.

  \<^bold>\<open>The program and how its parts interact.\<close> An administrator assigns tariff plans to children; a nightly
  job writes the monthly invoices (\<open>invoice.service.ts\<close>, priced by the discount engine); a parent starts a
  payment (\<open>payment.service.ts\<close>), the provider answers through a webhook or a poller, the settlement marks
  payment and invoice and credits the account of the child; refunds undo it (\<open>refund.service.ts\<close>).
  Archiving a child (\<open>child.service.ts\<close>) closes its tariffs and enqueues a pro-rata refund job.
  Guardians (\<open>child.service.ts\<close>) decide who may pay and see what. A lead of the front desk
  (\<open>enrollment.service.ts\<close>) becomes a child with a guardian in one transaction. At the door staff record
  check-ins and check-outs (\<open>attendance.service.ts\<close>), which appear in the timeline of the child
  (\<open>timeline.service.ts\<close>) and set its status of the day; somebody who is not a guardian collects a child
  with a one-time code (\<open>pickup-request.service.ts\<close>, \<open>trusted-person.service.ts\<close>). Every request runs in
  one database transaction: when it throws, nothing it did to the tables stays.

  \<^bold>\<open>How the code is rendered.\<close> An operation is a function from the state to \<open>Inl\<close> an error or \<open>Inr\<close> a result
  and the new state (\<open>Prelude\<close>; \<open>Billing_Db\<close> for the operations \<open>'a op\<close> of billing, \<open>Act\<close> for those of the
  other modules). Every \<open>throw\<close> of the code is an \<open>Inl\<close>, so an operation that throws has no new state, which
  is the rollback. The state is the tables as lists of rows (\<open>billing_db\<close>, \<open>school\<close>, \<open>front_desk\<close>, \<open>house\<close>), with the
  unique indexes and checks the migrations declare, the outbox, the enqueued jobs and the advisory locks.
  A row is the plain state of its aggregate. A conditional UPDATE is \<open>update_where\<close> and reports whether a
  row matched. Amounts are exact rationals (\<open>kzt\<close>), instants are milliseconds since 1970 as \<open>int\<close>, ids are
  strings. The one-time codes live in Redis, which no transaction rolls back: an act over both (\<open>ract\<close>, \<open>Otp_Store\<close>)
  returns a Redis state also when it throws, so a wrong code counts. A set-returning query is a \<open>filter\<close>, with the ORDER BY written out where the code relies on it.

  \<^bold>\<open>Parameters.\<close> What is not under \<open>src/\<close> is in the record \<open>billing_env\<close>: \<open>env_decimal\<close> stands for
  decimal.js and is used under the laws of the locale \<open>decimal_arith\<close> (correct rounding to 30 digits,
  half to even), which \<open>decimal30\<close> satisfies; \<open>env_clock\<close> and \<open>env_uuid\<close> give the n-th reading of the clock
  and the n-th random UUID; \<open>env_zone\<close> and \<open>env_sessionZone\<close> are the offsets of the time-zone database.
  The answers of payment providers are arguments of the operations that receive them, and so is the
  address of the checkout that BCC's checkout store still holds for a payment. Theorems hold for
  every such parameter, under the hypotheses they name; each has a witness at concrete values.

  \<^bold>\<open>The theories\<close>, in the order of the imports:

  \<^item> Foundations. \<open>Prelude\<close> (results, sequencing, row operations, collections of rules), \<open>Act\<close>, \<open>Strings\<close>,
    \<open>Json\<close>, \<open>Calendar\<close> and \<open>Dates\<close> (\<open>day-of-week.vo.ts\<close> and the date helpers), \<open>Rounding\<close>, \<open>Decimal\<close> and
    \<open>Money\<close> (\<open>money-kzt.ts\<close>), \<open>Status_Machine\<close> (the locale of aggregates whose status moves along a
    diagram; every aggregate with a status interprets it).
  \<^item> Aggregates. \<open>Invoice\<close>, \<open>Payment\<close>, \<open>Refund\<close>, \<open>Ledger\<close> (line items, accounts, plans, assignments),
    \<open>Custom_Discount\<close>, \<open>Conditions\<close>, \<open>Holiday\<close>, \<open>Child\<close>, \<open>Guardian\<close>, \<open>Enrollment\<close>, \<open>Staff\<close>,
    \<open>Attendance\<close> (events, daily statuses, timeline entries), \<open>Pickup\<close> (trusted people, requests): the records, the
    construction checks and the methods of the classes of the same name under \<open>domain/entities\<close>.
  \<^item> Tables. \<open>Billing_Db\<close> (state, errors, the locale \<open>status_table\<close> of compare-and-set), \<open>Billing_Repo\<close>,
    \<open>Discount_Repo\<close>, \<open>Child_Repo\<close>, \<open>Staff\<close>, \<open>House\<close> (the tables of the door), \<open>Keyset\<close> (pages by cursor): the
    relational repositories, one definition per query.
  \<^item> Discounts. \<open>Discount_Engine\<close> (the engine and its stacking), \<open>Discount_Targets\<close>, \<open>Discount_Service\<close>.
  \<^item> Payments and refunds. \<open>Payment_Initiation\<close>, \<open>Payment_Service\<close>, \<open>Refund_Service\<close>.
  \<^item> Invoices. \<open>Invoice_Service\<close> (fees, cash, cancellation), \<open>Whole_Tenge\<close> (the split without remainder),
    \<open>Billing_Run\<close> (monthly run, first invoice), \<open>Prepayment\<close>, \<open>Payment_Calendar\<close>, \<open>Tariff_Service\<close>.
  \<^item> People. \<open>Child_Service\<close>, \<open>Guardian_Service\<close>, \<open>Staff_Service\<close>, \<open>Enrollment_Service\<close>.
  \<^item> The door. \<open>Attendance_Service\<close>, \<open>Timeline_Service\<close>, \<open>Pickup_Service\<close>.
  \<^item> Jobs. \<open>Billing_Jobs\<close> (the loop over kindergartens), \<open>Pro_Rata_Refund\<close>.
  \<^item> Facts that span operations. \<open>Billing_Frames\<close> and \<open>Op_Rules\<close> (what an operation leaves alone; reading a
    run backwards), \<open>Settlement\<close>, \<open>Refund_Books\<close>, \<open>Bookkeeping\<close> (balance = payments - refunds),
    \<open>Delivery_Order\<close> (any answers in any order), \<open>Settlement_Status\<close>, \<open>Repository_Refinement\<close> (a table
    implements a map of aggregates), \<open>Initiation_Facts\<close>, \<open>Tenant_Isolation\<close>, \<open>Tenant_Loop\<close> (a job bills each tenant by itself),
    \<open>Monthly_Once\<close>, \<open>Archive_Billing\<close>, \<open>Assignment_Windows\<close>, \<open>Discount_Usage\<close>, \<open>Approval_Rights\<close>,
    \<open>Pro_Rata_Bounds\<close>; \<open>Act_Triple\<close> (what an act establishes), \<open>Timeline_Mirror\<close> (the
    timeline mirrors the register), \<open>Attendance_Facts\<close> (decided statuses stay), \<open>Pickup_Facts\<close> (one event per
    request, one pickup per one-time person, bounded guessing).
  \<^item> \<open>Samples\<close>, \<open>Sample_Month\<close>, \<open>Sample_School\<close>, \<open>Sample_House\<close>: a small kindergarten the witnesses run the
    operations on.

  \<^bold>\<open>Sequences of operations.\<close> Invariants over arbitrary sequences of requests are proved by rule induction
  over inductive step relations. Which operations each of them takes:

  \<^item> \<open>tenant_step\<close> (22): webhooks, initiation, the four operations of refunds, cash, cancellation, one-off and
    late-fee invoices, monthly run, first invoice, prepayment, overdue run, pro-rata job, and all seven
    operations of the discount catalogue, the edits of \<open>total_max_uses\<close> included.
  \<^item> \<open>assignment_op\<close>: assigning, changing and closing a tariff, archiving a child: all that writes assignments.
  \<^item> \<open>guardian_op\<close>: all that writes guardians, on both sides of the API, and the login. It is labelled: an
    approval of a primary, which skips the count of approvers, is put on record, and \<open>trace\<close> (\<open>Prelude\<close>)
    collects the records of a history.
  \<^item> \<open>school_step\<close>: the services of staff and groups, the first administrator of a kindergarten, and the
    archiving of a kindergarten, which is put on record because it leaves slots open.
  \<^item> \<open>desk_step\<close>: the enrollment service. \<open>hand_step\<close>: all operations at the door, also failed ones.
  \<^item> \<open>door_step\<close>: all that writes attendance events or timeline entries, except that an edit or a deletion
    by hand must leave the time and the existence of an entry of the register alone. Without that the
    mirror breaks, which \<open>edited_time_unmirrors\<close> proves.

  \<^bold>\<open>Bounds and termination.\<close> Every definition is total and none uses fuel: the walk over the months
  between two dates (\<open>month_walk\<close>) and the search for the first month no prepayment covers
  (\<open>shift_window\<close>) are functions with a termination proof; the latter ends because the covered months lie
  in finitely many years. Condition trees have the depth limit of the
  code; \<open>accepted_conditions_evaluate\<close> shows that a validated tree never meets it. Amounts are bounded only
  where the code needs it: the ledger theorems ask for amounts in whole cents within the 30 digits
  (\<open>cents\<close>), since only those are added without rounding.

  \<^bold>\<open>Concurrency.\<close> Operations are atomic here. What the code does against races (conditional UPDATEs,
  advisory locks, unique indexes) is modelled as what a conditional UPDATE answers on any table, so the
  losing branch is a branch of the model; a stale read followed by an unconditional save is shown in
  \<open>stale_toggle_undoes_revocation\<close>. Interleavings inside one transaction are not modelled, with one
  exception: a child archived between the read and the insert of the monthly run
  (\<open>env_archivedMeanwhile\<close>).

  \<^bold>\<open>Not modelled.\<close> Controllers, presenters, DTO validation and module wiring (no state of their own);
  the bank adapters, Kaspi and BCC sessions, SMS, push and media storage (external services; their
  answers are arguments); paged listings and dashboards (read only); fiscal receipts; authentication
  (external cryptography) beyond the automatic approval of guardians at login; the modules of
  meals, schedule, diagnostics, content, cameras and parent requests (accepting one may also insert a trusted
  person and a pickup request, which \<open>hand_step\<close> does not cover), and the reading side of the audit log. Keys of Redis that expire are a step of the environment (\<open>hand_step\<close>), not a clock.
\<close>

subsection \<open>Money and invoices\<close>

text \<open>C1: Webhooks and poller answers of one payment, any number of them in any order: the first terminal
  one decides whether the open payment ends as completed or failed, and the invoice's account is
  credited with the amount once if it completed and not at all otherwise.\<close>

theorem payment_credited_once:
  assumes "decimal_ok (env_decimal E)" and "keys_ok db"
    and "payments_findById kg pid db = Some p" and "pay_status p \<in> {PayInitiated, PayProcessing}"
    and "invoices_findById kg (pay_invoiceId p) db = Some v"
    and "accounts_findById kg (inv_paymentAccountId v) db = Some acc"
    and "cents (acc_balance acc)" "cents (pay_amount p)" "cents (acc_balance acc + pay_amount p)" "0 < pay_amount p"
  shows "\<exists>db' p'. forM ds (deliver E kg pid) db = Inr ((), db') \<and> payments_findById kg pid db' = Some p'
    \<and> pay_status p' = verdict (pay_status p) (map vw_status ds)
    \<and> balances db' = (if pay_status p' = PayCompleted
        then credited (inv_paymentAccountId v) (pay_amount p) (balances db) else balances db)"
  by (rule deliveries[OF assms])

theorem payment_credited_once_witness:
  "\<exists>db' p'. forM [answer WhProcessing, answer WhCompleted, answer WhFailed, answer WhCompleted] (deliver E0 ''kg'' ''pay'') (billed InvPending PayInitiated 0) = Inr ((), db')
    \<and> payments_findById ''kg'' ''pay'' db' = Some p' \<and> pay_status p' = PayCompleted
    \<and> balances db' = [(''kg'', ''acc'', 40000)]"
  using payment_credited_once[where E = E0 and kg = "''kg''" and pid = "''pay''" and db = "billed InvPending PayInitiated 0"
        and ds = "[answer WhProcessing, answer WhCompleted, answer WhFailed, answer WhCompleted]"
        and p = "sample_payment PayInitiated 40000" and v = "sample_invoice InvPending 40000" and acc = "sample_account 0"]
  by (auto simp: credited_def simp del: forM.simps)

text \<open>C2: A settlement of an open payment returns, and leaves every account balance equal to what the
  completed payments of its invoices minus their processed refunds add up to.\<close>

theorem settlement_keeps_ledger:
  assumes "decimal_ok (env_decimal E)" and "keys_ok db" and "ledger_ok db"
    and "payments_findById kg pid db = Some p" and "pay_status p \<in> {PayInitiated, PayProcessing}"
    and "invoices_findById kg (pay_invoiceId p) db = Some v"
    and "accounts_findById kg (inv_paymentAccountId v) db = Some acc"
    and "cents (acc_balance acc)" "cents (pay_amount p)" "cents (acc_balance acc + pay_amount p)" "0 < pay_amount p"
  shows "\<exists>p' db'. applyCompletedPayment E kg pid verified db = Inr (p', db') \<and> ledger_ok db'"
  by (rule settlement_ledger[OF assms])

theorem settlement_keeps_ledger_witness:
  "\<exists>p' db'. applyCompletedPayment E0 ''kg'' ''pay'' (answer WhCompleted) (billed InvPending PayInitiated 0) = Inr (p', db') \<and> ledger_ok db'"
  by (rule settlement_keeps_ledger[where p = "sample_payment PayInitiated 40000" and v = "sample_invoice InvPending 40000" and acc = "sample_account 0"])
    (simp_all add: billed_ledger)

text \<open>C3: Processing an approved refund returns, and leaves every account balance equal to what the
  completed payments minus the processed refunds add up to.\<close>

theorem refund_keeps_ledger:
  assumes "decimal_ok (env_decimal E)" and "keys_ok db" and "ledger_ok db"
    and "refunds_findById kg rid db = Some r" "ref_status r = RefApproved" "ref_invoiceId r = Some (pay_invoiceId p)"
    and "payments_findById kg (ref_paymentId r) db = Some p" "pay_status p = PayCompleted"
    and "pay_provider p = KaspiPay \<longrightarrow> ack"
    and "invoices_findById kg (pay_invoiceId p) db = Some v"
    and "accounts_findById kg (inv_paymentAccountId v) db = Some acc"
    and "cents (acc_balance acc)" "cents (ref_amount r)" "cents (acc_balance acc - ref_amount r)" "0 < ref_amount r"
    and "cents (completed_sum kg (inv_id v) db - pay_amount p)" "cents (refunded_sum kg (inv_id v) db + ref_amount r)"
  shows "\<exists>x db'. refund_service_process E kg rid ack (Inr ref) db = Inr (x, db') \<and> ledger_ok db'"
  by (rule refund_ledger[OF assms])

definition refundable :: "kzt \<Rightarrow> billing_db" where
  "refundable amount = billed InvPaid PayCompleted 40000\<lparr>db_refunds := [sample_refund RefApproved amount]\<rparr>"

lemma refundable_reads [simp]:
  "refunds_findById ''kg'' ''ref'' (refundable x) = Some (sample_refund RefApproved x)"
  "payments_findById ''kg'' ''pay'' (refundable x) = Some (sample_payment PayCompleted 40000)"
  "invoices_findById ''kg'' ''inv'' (refundable x) = Some (sample_invoice InvPaid 40000)"
  "accounts_findById ''kg'' ''acc'' (refundable x) = Some (sample_account 40000)"
  "completed_sum ''kg'' ''inv'' (refundable x) = 40000" "refunded_sum ''kg'' ''inv'' (refundable x) = 0"
  "keys_ok (refundable x)" "ledger_ok (refundable x)" "balances (refundable x) = [(''kg'', ''acc'', 40000)]"
  by (simp_all add: refundable_def samples refunds_findById_def payments_findById_def invoices_findById_def accounts_findById_def
      completed_sum_def refunded_sum_def completed_payments_def keys_ok_def ledger_ok_def ledger_balance_def balances_def
      paid_view_def billed_view_def money_in_def money_out_def billed_to_def)

theorem refund_keeps_ledger_witness:
  "\<exists>x db'. refund_service_process E0 ''kg'' ''ref'' False (Inr ''provider-ref'') (refundable 10000) = Inr (x, db') \<and> ledger_ok db'"
  by (rule refund_keeps_ledger[where r = "sample_refund RefApproved 10000" and p = "sample_payment PayCompleted 40000"
        and v = "sample_invoice InvPaid 40000" and acc = "sample_account 40000"]) simp_all

text \<open>C4: Cash for the whole remainder of an unpaid invoice marks it paid, adds one completed payment,
  credits the account, and keeps every balance equal to the sum of its movements.\<close>

theorem cash_settles_and_keeps_ledger:
  assumes D: "decimal_ok (env_decimal E)" and ok: "ledger_ok db" and v: "invoices_findById kg i db = Some v"
    and uniq: "distinct (map inv_id (db_invoices db))" "distinct (map acc_id (db_accounts db))"
    and st: "unpaid_status (inv_status v)" and fresh: "fresh_receipt E i now db"
    and acc: "accounts_findById kg (inv_paymentAccountId v) db = Some acc"
    and amt: "cents (acc_balance acc)" "cents residual" "cents (acc_balance acc + residual)" "0 < residual"
  shows "\<exists>w db'. settle_cash E kg i residual input now db = Inr (w, db') \<and> inv_status w = InvPaid
    \<and> balances db' = credited (inv_paymentAccountId v) residual (balances db) \<and> ledger_ok db'"
proof -
  obtain w db' where "settle_cash E kg i residual input now db = Inr (w, db')" "inv_status w = InvPaid"
    "paid_view db' = paid_view db @ [(kg, env_uuid E (db_uuidDraws db), i, residual, PayCompleted)]"
    "balances db' = credited (inv_paymentAccountId v) residual (balances db)"
    "billed_view db' = billed_view db" "db_refunds db' = db_refunds db"
    using settle_cash_run[OF D v uniq st fresh acc amt] by blast
  with cash_ledger[OF ok v uniq(1)] show ?thesis by blast
qed

theorem cash_settles_and_keeps_ledger_witness:
  "\<exists>w db'. settle_cash E0 ''kg'' ''inv'' 40000 \<lparr>mm_paidAt = None, mm_payerUserId = None, mm_note = None, mm_amount = None\<rparr> noon
      (billed InvOverdue PayFailed 0) = Inr (w, db')
    \<and> inv_status w = InvPaid \<and> balances db' = credited ''acc'' 40000 [(''kg'', ''acc'', 0)] \<and> ledger_ok db'"
proof -
  have "fresh_receipt E0 ''inv'' noon (billed InvOverdue PayFailed 0)"
    by (simp add: fresh_receipt_def samples E0_def)
  moreover have "ledger_ok (billed InvOverdue PayFailed 0)"
    by (simp add: samples ledger_ok_def ledger_balance_def balances_def paid_view_def billed_view_def money_in_def)
  ultimately show ?thesis
    using cash_settles_and_keeps_ledger[of E0 "billed InvOverdue PayFailed 0" "''kg''" "''inv''" "sample_invoice InvOverdue 40000"
        noon "sample_account 0" 40000] keys_ok_def[of "billed InvOverdue PayFailed 0"]
    by (simp add: unpaid_status_def)
qed

text \<open>What a processed refund does: the refund and its payment are flipped, the account is debited
  with the amount of the refund, and the invoice's status is decided by the completed payments that
  remain minus all processed refunds.\<close>

theorem refund_processed:
  assumes D: "decimal_ok (env_decimal E)" and keys: "keys_ok db"
    and r: "refunds_findById kg rid db = Some r" "ref_status r = RefApproved" "ref_invoiceId r = Some (pay_invoiceId p)"
    and p: "payments_findById kg (ref_paymentId r) db = Some p" "pay_status p = PayCompleted"
    and kaspi: "pay_provider p = KaspiPay \<longrightarrow> ack"
    and v: "invoices_findById kg (pay_invoiceId p) db = Some v"
    and acc: "accounts_findById kg (inv_paymentAccountId v) db = Some acc"
    and amt: "cents (acc_balance acc)" "cents (ref_amount r)" "cents (acc_balance acc - ref_amount r)" "0 < ref_amount r"
    and sums: "cents (completed_sum kg (inv_id v) db - pay_amount p)" "cents (refunded_sum kg (inv_id v) db + ref_amount r)"
  shows "\<exists>x db' v'. refund_service_process E kg rid ack (Inr ref) db = Inr (x, db') \<and> ref_status x = RefProcessed
    \<and> paid_view db' = repaid (pay_id p) (paid_view db)
    \<and> balances db' = credited (inv_paymentAccountId v) (- ref_amount r) (balances db)
    \<and> invoices_findById kg (inv_id v) db' = Some v'
    \<and> inv_status v' = unwound (completed_sum kg (inv_id v) db - pay_amount p - (refunded_sum kg (inv_id v) db + ref_amount r))
                        (inv_amountAfterDiscount v) (inv_status v)"
  using refund_process_run[OF assms] by blast

theorem refund_processed_witness:
  "\<exists>x db' v'. refund_service_process E0 ''kg'' ''ref'' False (Inr ''provider-ref'') (refundable 40000) = Inr (x, db')
    \<and> balances db' = [(''kg'', ''acc'', 0)] \<and> invoices_findById ''kg'' ''inv'' db' = Some v' \<and> inv_status v' = InvRefunded"
  using refund_processed[of E0 "refundable 40000" "''kg''" "''ref''" "sample_refund RefApproved 40000" "sample_payment PayCompleted 40000"
      False "sample_invoice InvPaid 40000" "sample_account 40000" "''provider-ref''"]
  by (auto simp: unwound_def credited_def)

text \<open>C32: A partial refund of the only payment of a paid invoice marks the whole invoice refunded,
  although the rest of the money stays with the kindergarten.\<close>

theorem partial_refund_marks_refunded:
  assumes "decimal_ok (env_decimal E)" and "keys_ok db"
    and "refunds_findById kg rid db = Some r" "ref_status r = RefApproved" "ref_invoiceId r = Some (pay_invoiceId p)"
    and "payments_findById kg (ref_paymentId r) db = Some p" "pay_status p = PayCompleted"
    and "pay_provider p = KaspiPay \<longrightarrow> ack"
    and "invoices_findById kg (pay_invoiceId p) db = Some v" "inv_status v = InvPaid"
    and "accounts_findById kg (inv_paymentAccountId v) db = Some acc"
    and "cents (acc_balance acc)" "cents (ref_amount r)" "cents (acc_balance acc - ref_amount r)" "0 < ref_amount r"
    and only: "completed_sum kg (inv_id v) db = pay_amount p" "refunded_sum kg (inv_id v) db = 0"
    and part: "ref_amount r < pay_amount p"
  shows "\<exists>x db' v'. refund_service_process E kg rid ack (Inr ref) db = Inr (x, db')
    \<and> invoices_findById kg (inv_id v) db' = Some v' \<and> inv_status v' = InvRefunded"
proof -
  have "cents (completed_sum kg (inv_id v) db - pay_amount p)" "cents (refunded_sum kg (inv_id v) db + ref_amount r)"
    using only assms(13) cents_whole[of 0] by simp_all
  from refund_process_run[OF assms(1-9,11-15) this, of ref] obtain x db' v' where
    run: "refund_service_process E kg rid ack (Inr ref) db = Inr (x, db')" "invoices_findById kg (inv_id v) db' = Some v'"
    and "inv_status v' = unwound (completed_sum kg (inv_id v) db - pay_amount p - (refunded_sum kg (inv_id v) db + ref_amount r))
                        (inv_amountAfterDiscount v) (inv_status v)" by blast
  then have "inv_status v' = InvRefunded" using only assms(10,15) by (simp add: unwound_def)
  with run show ?thesis by blast
qed

theorem partial_refund_marks_refunded_witness:
  "\<exists>x db' v'. refund_service_process E0 ''kg'' ''ref'' False (Inr ''provider-ref'') (refundable 10000) = Inr (x, db')
    \<and> invoices_findById ''kg'' ''inv'' db' = Some v' \<and> inv_status v' = InvRefunded"
  using partial_refund_marks_refunded[of E0 "refundable 10000" "''kg''" "''ref''" "sample_refund RefApproved 10000"
      "sample_payment PayCompleted 40000" False "sample_invoice InvPaid 40000" "sample_account 40000" "''provider-ref''"]
  by simp

subsection \<open>Settlement, tenants, people, tariffs\<close>
text \<open>C5: An open payment that covers what is still due on an ordinary unpaid invoice settles it:
  the settlement returns, the payment is completed, the invoice is paid and the account credited.\<close>

theorem settlement_pays_invoice:
  assumes D: "decimal_ok (env_decimal E)" and keys: "keys_ok db"
    and p: "payments_findById kg pid db = Some p" "pay_status p \<in> {PayInitiated, PayProcessing}"
    and v: "invoices_findById kg (pay_invoiceId p) db = Some v" "\<not> isPrepayment (inv_invoiceType v)" "unpaid_status (inv_status v)"
    and acc: "accounts_findById kg (inv_paymentAccountId v) db = Some acc"
    and amt: "cents (acc_balance acc)" "cents (pay_amount p)" "cents (acc_balance acc + pay_amount p)" "0 < pay_amount p"
    and covers: "cents (completed_sum kg (pay_invoiceId p) db + pay_amount p)"
      "inv_amountAfterDiscount v \<le> completed_sum kg (pay_invoiceId p) db + pay_amount p"
  shows "\<exists>p' db' v'. applyCompletedPayment E kg pid verified db = Inr (p', db') \<and> pay_status p' = PayCompleted
    \<and> invoices_findById kg (pay_invoiceId p) db' = Some v' \<and> inv_status v' = InvPaid
    \<and> balances db' = credited (inv_paymentAccountId v) (pay_amount p) (balances db)"
proof -
  obtain p' db' where run: "applyCompletedPayment E kg pid verified db = Inr (p', db')" "pay_status p' = PayCompleted"
    "balances db' = credited (inv_paymentAccountId v) (pay_amount p) (balances db)"
    using settlement_credits[OF D keys p v(1) acc amt] by blast
  from settlement_status[OF D keys p v(1,2) covers(1) run(1)] covers(2) v(3) run show ?thesis
    by (auto simp: settled_status_def unpaid_status_def)
qed

theorem settlement_pays_invoice_witness:
  "\<exists>p' db' v'. applyCompletedPayment E0 ''kg'' ''pay'' (answer WhCompleted) (billed InvOverdue PayInitiated 0) = Inr (p', db')
    \<and> pay_status p' = PayCompleted \<and> invoices_findById ''kg'' ''inv'' db' = Some v' \<and> inv_status v' = InvPaid
    \<and> balances db' = credited ''acc'' 40000 [(''kg'', ''acc'', 0)]"
proof -
  have "completed_sum ''kg'' ''inv'' (billed InvOverdue PayInitiated 0) = 0"
    by (simp add: samples completed_sum_def completed_payments_def)
  then show ?thesis
    using settlement_pays_invoice[of E0 "billed InvOverdue PayInitiated 0" "''kg''" "''pay''" "sample_payment PayInitiated 40000"
        "sample_invoice InvOverdue 40000" "sample_account 0" "answer WhCompleted"]
    by (simp add: unpaid_status_def isPrepayment_def PREPAYMENT_TYPES_def)
qed

text \<open>C6: Whatever sequence of billing operations runs for other kindergartens, the rows one kindergarten
  can see (its money, its catalogue, its people) stay exactly as they were.\<close>

theorem tenants_isolated:
  assumes "(\<lambda>a b. \<exists>kg. kg \<noteq> k \<and> tenant_step E kg a b)\<^sup>*\<^sup>* db db'"
  shows "tenant_view k db' = tenant_view k db"
  by (rule tenants_apart[OF assms])

definition two_tenants :: billing_db where
  "two_tenants = billed InvPending PayFailed 0\<lparr>db_invoices :=
     [sample_invoice InvPending 40000, (sample_invoice InvPaid 7000)\<lparr>inv_id := ''inv2'', inv_kindergartenId := ''kg2''\<rparr>]\<rparr>"

theorem tenants_isolated_witness:
  "\<exists>w db'. invoice_service_cancel E0 ''kg'' ''inv'' None two_tenants = Inr (w, db') \<and> inv_status w = InvCancelled
    \<and> tenant_view ''kg2'' db' = tenant_view ''kg2'' two_tenants"
proof -
  have "invoices_findById ''kg'' ''inv'' two_tenants = Some (sample_invoice InvPending 40000)" "distinct (map inv_id (db_invoices two_tenants))"
    by (simp_all add: two_tenants_def samples invoices_findById_def)
  from cancel_run[OF this, of E0 None] obtain w db' where run: "invoice_service_cancel E0 ''kg'' ''inv'' None two_tenants = Inr (w, db')" "inv_status w = InvCancelled"
    by (auto simp: unpaid_status_def)
  from tenant_step.cancel[OF run(1)] have "(\<lambda>a b. \<exists>kg. kg \<noteq> ''kg2'' \<and> tenant_step E0 kg a b)\<^sup>*\<^sup>* two_tenants db'"
    by (intro r_into_rtranclp) (auto intro: exI[of _ "''kg''"])
  with tenants_isolated run show ?thesis by blast
qed

text \<open>C8: Along every history of operations on guardians (invitation, link by IIN, approval, rejection,
  revocation, unlinking, toggles, roles, permissions, logins), a child has at most two guardians with
  approval rights, and one more for every approval of one of its primaries by staff or at a login: those
  two paths grant the rights without the count, and the history puts each of them on record. Without them
  the ceiling of two holds.\<close>

theorem approval_rights_capped:
  assumes "trace guardian_op db exempt db'" "guardians_ok db" "at_most_two db"
  shows "guardians_countApprovalRights kg c db' \<le> 2 + count_list exempt (kg, c)"
  by (rule approval_ceiling[OF assms])

definition family :: "ChildGuardianState list \<Rightarrow> billing_db" where
  "family gs = no_rows\<lparr>db_children := [sample_child ChildActive], db_guardians := gs\<rparr>"

definition one_waiting :: billing_db where
  "one_waiting = family [sample_guardian her_mother PrimaryGuardian GuardianApproved True, sample_guardian her_father SecondaryGuardian PendingApproval False]"

theorem approval_rights_capped_witness:
  "returns (approveGuardianByAdmin E0 kindergarten aliya her_father administrator True one_waiting)
    (\<lambda>x db'. gd_hasApprovalRights x \<and> guardians_countApprovalRights kindergarten aliya db' \<le> 2)"
proof -
  have "returns (approveGuardianByAdmin E0 kindergarten aliya her_father administrator True one_waiting)
      (\<lambda>x db'. gd_hasApprovalRights x \<and> gd_role x \<noteq> PrimaryGuardian)"
    by code_simp
  then obtain x db' where run: "approveGuardianByAdmin E0 kindergarten aliya her_father administrator True one_waiting = Inr (x, db')"
    "gd_hasApprovalRights x \<and> gd_role x \<noteq> PrimaryGuardian"
    by (rule returnsE)
  have "guardian_op one_waiting [] db'" using guardian_op.approveByAdmin[OF run(1)] run(2) by simp
  from approval_rights_capped[OF trace_one[where R = guardian_op, OF this], of kindergarten aliya]
  have "guardians_countApprovalRights kindergarten aliya db' \<le> 2"
    by (simp add: guardians_ok_def at_most_two_def guardians_countApprovalRights_def one_waiting_def family_def samples)
  then show ?thesis using run by (simp add: returns_def)
qed

text \<open>C9: However tariffs are assigned, changed and closed and children archived, no child ever has two
  assignments in force on one day, and every window keeps starting and ending on whole days.\<close>

theorem assignments_stay_disjoint:
  assumes "assignment_op\<^sup>*\<^sup>* db db'" "one_per_day db" "whole_days db"
  shows "one_per_day db' \<and> whole_days db'"
  by (rule assignments_invariant[OF assms])

theorem assignments_stay_disjoint_witness:
  "returns (assign E0 ''kg'' \<lparr>at_childId = ''child'', at_tariffPlanId = ''plan'', at_customAmount = None, at_customReason = None,
      at_validFrom = january, at_validUntil = None, at_assignedBy = ''admin''\<rparr>
      (no_rows\<lparr>db_children := [sample_child ChildActive], db_plans := [sample_plan 60000]\<rparr>))
    (\<lambda>a db'. ta_childId a = ''child'' \<and> one_per_day db' \<and> whole_days db')"
proof -
  let ?db = "no_rows\<lparr>db_children := [sample_child ChildActive], db_plans := [sample_plan 60000]\<rparr>"
  have "returns (assign E0 ''kg'' \<lparr>at_childId = ''child'', at_tariffPlanId = ''plan'', at_customAmount = None, at_customReason = None,
      at_validFrom = january, at_validUntil = None, at_assignedBy = ''admin''\<rparr> ?db) (\<lambda>a db'. ta_childId a = ''child'')"
    by code_simp
  then obtain a db' where run: "assign E0 ''kg'' \<lparr>at_childId = ''child'', at_tariffPlanId = ''plan'', at_customAmount = None,
      at_customReason = None, at_validFrom = january, at_validUntil = None, at_assignedBy = ''admin''\<rparr> ?db = Inr (a, db')"
      "ta_childId a = ''child''"
    by (rule returnsE)
  moreover have "one_per_day ?db" "whole_days ?db" by (simp_all add: one_per_day_def whole_days_def samples)
  ultimately show ?thesis
    using assignments_stay_disjoint[OF r_into_rtranclp[of assignment_op, OF assignment_op.assign[OF run(1)]]] by (simp add: returns_def)
qed

text \<open>C10: No custom discount is ever used more often than its total cap allows, nor is its counter ever
  negative, whatever sequence of these operations runs: creating, editing, activating, pausing, resuming,
  cancelling and expiring discounts, the runs that reserve and release their slots, payments, refunds and
  the nightly jobs. The cap itself may be edited, but of a draft only, and a draft has no uses.\<close>

theorem discount_caps_kept:
  assumes "(\<lambda>a b. \<exists>kg. tenant_step E kg a b)\<^sup>*\<^sup>* db db'" "usage_ok db"
  shows "usage_ok db'"
  by (rule usage_invariant[OF assms])

definition draft_shelf :: billing_db where
  "draft_shelf = billed InvPending PayFailed 0\<lparr>db_discounts :=
     [(sample_discount 5000 (Some 3) 0)\<lparr>cd_status := CdDraft\<rparr>, (sample_discount 5000 (Some 3) 2)\<lparr>cd_id := ''disc2''\<rparr>]\<rparr>"

definition only_once :: UpdateCustomDiscountPatch where
  "only_once = \<lparr>dp_name = None, dp_description = None, dp_discountType = None, dp_amount = None, dp_conditions = None,
     dp_targetType = None, dp_targetIds = None, dp_validFrom = None, dp_validUntil = None, dp_maxUsesPerChild = None,
     dp_totalMaxUses = Some (Some 1), dp_priority = None, dp_stackable = None, dp_notifyOnActivation = None,
     dp_notificationTitle = None, dp_notificationBody = None\<rparr>"

theorem discount_caps_kept_witness:
  "returns (discount_service_update E0 ''kg'' ''disc'' only_once draft_shelf) (\<lambda>d db'. cd_totalMaxUses d = Some 1 \<and> usage_ok db')"
proof -
  have "returns (discount_service_update E0 ''kg'' ''disc'' only_once draft_shelf) (\<lambda>d db'. cd_totalMaxUses d = Some 1)" by code_simp
  then obtain d db' where run: "discount_service_update E0 ''kg'' ''disc'' only_once draft_shelf = Inr (d, db')" "cd_totalMaxUses d = Some 1"
    by (rule returnsE)
  have "(\<lambda>a b. \<exists>kg. tenant_step E0 kg a b)\<^sup>*\<^sup>* draft_shelf db'" by (intro r_into_rtranclp exI) (rule tenant_step.discount_update[OF run(1)])
  moreover have "usage_ok draft_shelf" by (simp add: usage_ok_def slots_ok_def draft_shelf_def samples)
  ultimately show ?thesis using discount_caps_kept run by (simp add: returns_def)
qed

subsection \<open>Monthly runs, initiation, refinement\<close>

text \<open>C7: A monthly run that generated something is not repeated: a second run for the same month
  generates no invoice, skips every assignment and leaves the tables as they are.\<close>

theorem monthly_run_once:
  assumes "generateMonthly E kg ps db = Inr ((n, s), db')" "0 < n"
  shows "generateMonthly E kg ps db' = Inr ((0, length (assignments_findAllActiveAtDate kg ps db')), monthly_locked kg ps db')"
  by (rule monthly_twice[OF assms])

theorem monthly_run_once_witness:
  "\<exists>db'. generateMonthly E0 ''kg'' january enrolled = Inr ((1, 0), db')
    \<and> generateMonthly E0 ''kg'' january db' = Inr ((0, length (assignments_findAllActiveAtDate ''kg'' january db')), monthly_locked ''kg'' january db')"
  using january_runs monthly_run_once zero_less_one by blast

text \<open>C16: A payment is only initiated for a positive amount not above what is left to pay, on an unpaid
  invoice of the same kindergarten, through a provider that is switched on; it adds exactly one row.\<close>

theorem initiation_bounded:
  assumes "payments_findByIdempotencyKey kg (ip_idempotencyKey input) db = None"
    and "initiate E kg input cont ans db = Inr (r, db')"
  shows "\<exists>v i. invoices_findById kg (ip_invoiceId input) db = Some v \<and> unpaid_status (inv_status v)
        \<and> ip_provider input \<in> set (env_enabledProviders E)
        \<and> 0 < fromKzt_number (env_decimal E) (ip_amount input)
        \<and> fromKzt_number (env_decimal E) (ip_amount input) \<le> kzt_sub (env_decimal E) (inv_amountAfterDiscount v)
             (fromKzt_number (env_decimal E) (invoices_getPaidSumForInvoice (env_decimal E) kg (ip_invoiceId input) db))
        \<and> (isPrepayment (inv_invoiceType v) \<longrightarrow> ip_paymentMode input = FullPayment)
        \<and> key_view db' = key_view db @ [(kg, i, ip_idempotencyKey input, ip_invoiceId input,
             kzt_column (env_decimal E) (fromKzt_number (env_decimal E) (ip_amount input)))]
        \<and> pay_id (ir_payment r) = i"
  by (rule initiate_amount[OF assms])

definition pay_all :: InitiatePaymentInput where
  "pay_all = \<lparr>ip_invoiceId = ''inv'', ip_amount = 40000, ip_paymentMode = FullPayment, ip_provider = KaspiPay,
     ip_idempotencyKey = ''k2'', ip_payerUserId = Some ''payer''\<rparr>"

definition accepted :: CreatePaymentResult where
  "accepted = \<lparr>cp_providerPaymentId = ''x'', cp_redirectUrl = None, cp_deeplink = None, cp_providerPayload = None,
     cp_status = CreateInitiated\<rparr>"

lemma pay_all_runs: "returns (initiate E0 ''kg'' pay_all None (Inr accepted) (billed InvPending PayFailed 0)) (\<lambda>r db'. pay_id (ir_payment r) = ''fresh-0'')"
  by code_simp

theorem initiation_bounded_witness:
  "returns (initiate E0 ''kg'' pay_all None (Inr accepted) (billed InvPending PayFailed 0))
    (\<lambda>r db'. \<exists>i a. key_view db' = key_view (billed InvPending PayFailed 0) @ [(''kg'', i, ''k2'', ''inv'', a)] \<and> pay_id (ir_payment r) = i)"
proof -
  obtain r db' where run: "initiate E0 ''kg'' pay_all None (Inr accepted) (billed InvPending PayFailed 0) = Inr (r, db')"
    using pay_all_runs by (rule returnsE)
  have "payments_findByIdempotencyKey ''kg'' (ip_idempotencyKey pay_all) (billed InvPending PayFailed 0) = None" by code_simp
  from initiation_bounded[OF this run] run show ?thesis by (auto simp: returns_def pay_all_def)
qed

text \<open>C17: Repeating an initiation that returned, with the same idempotency key: nothing changes, whatever
  the provider would answer now, and the row of the first request is answered again. The one exception is
  a BCC payment whose checkout is consumed or has expired: then the repetition is refused with the error
  that is answered as 410.\<close>

theorem initiation_idempotent:
  assumes "initiate E kg input cont ans db = Inr (r, db')"
  shows "\<exists>p. payments_findByIdempotencyKey kg (ip_idempotencyKey input) db' = Some p \<and> pay_id p = pay_id (ir_payment r)
    \<and> initiate E kg input checkout ans2 db' = (if pay_provider p = BccProvider
        then (case checkout of None \<Rightarrow> Inl BccCheckoutExpired
          | Some url \<Rightarrow> Inr (\<lparr>ir_payment = p, ir_redirectUrl = Some url, ir_deeplink = None\<rparr>, db'))
        else Inr (readRedirectFromPayload p, db'))"
  by (rule initiate_twice[OF assms])

definition bcc_started :: billing_db where
  "bcc_started = (billed InvPending PayFailed 0)\<lparr>db_payments :=
     [(sample_payment PayProcessing 40000)\<lparr>pay_provider := BccProvider, pay_idempotencyKey := ''k2''\<rparr>]\<rparr>"

theorem initiation_idempotent_witness:
  "\<exists>r. initiate E0 ''kg'' pay_all (Some ''https://checkout'') (Inr accepted) bcc_started = Inr (r, bcc_started)
    \<and> initiate E0 ''kg'' pay_all None (Inr accepted) bcc_started = Inl BccCheckoutExpired"
proof -
  let ?p = "(sample_payment PayProcessing 40000)\<lparr>pay_provider := BccProvider, pay_idempotencyKey := ''k2''\<rparr>"
  have found: "payments_findByIdempotencyKey ''kg'' (ip_idempotencyKey pay_all) bcc_started = Some ?p"
    by (simp add: payments_findByIdempotencyKey_def bcc_started_def pay_all_def samples)
  then have run: "initiate E0 ''kg'' pay_all (Some ''https://checkout'') (Inr accepted) bcc_started
      = Inr (\<lparr>ir_payment = ?p, ir_redirectUrl = Some ''https://checkout'', ir_deeplink = None\<rparr>, bcc_started)"
    by (simp add: initiate_def op_simps known_payment_run)
  from initiation_idempotent[OF run, of None "Inr accepted"] found run show ?thesis by auto
qed



subsection \<open>Prices, conditions, dates\<close>

text \<open>C19: The price after a discount percentage is never negative and never above the amount due,
  also when an absolute discount is taken off as well.\<close>

theorem price_bounds:
  assumes "decimal_ok D" and "0 \<le> amountDue" "digits_rep 10 30 amountDue"
    and "\<And>p. discountPct = Some p \<Longrightarrow> 0 \<le> p \<and> p \<le> 100"
  shows "\<exists>r. computeAmountAfterDiscount D amountDue discountPct absKzt = Inr r \<and> 0 \<le> r \<and> r \<le> amountDue"
  by (rule decimal_arith.computeAmountAfterDiscount_bounds[OF decimal_arith.intro[OF assms(1)] assms(2,3,4)])

theorem price_bounds_witness:
  "\<exists>r. computeAmountAfterDiscount decimal30 100000 (Some 15) (Some 3333) = Inr r \<and> 0 \<le> r \<and> r \<le> 100000"
  using digits_rep_int[of 100000 10 30] by (intro price_bounds[OF decimal30_ok]) simp_all

text \<open>C20: For a whole percentage and no absolute discount the routine computes the textbook price exactly:
  due * (100 - p) / 100. It does not round: 99.99 at 50 percent is 49.995, although its documentation says
  that the result is rounded to two decimal places; only the column of the table rounds it later.\<close>

theorem price_exact:
  assumes "decimal_ok D" and "cents amountDue" and "0 \<le> p" "p \<le> 100"
  shows "computeAmountAfterDiscount D amountDue (Some (of_int p)) None = Inr (amountDue * (100 - of_int p) / 100)"
  by (rule decimal_arith.computeAmountAfterDiscount_exact[OF decimal_arith.intro[OF assms(1)] assms(2-4)])

theorem price_exact_witness: "computeAmountAfterDiscount decimal30 40000 (Some 15) None = Inr 34000"
  using price_exact[of decimal30 40000 15] by simp

text \<open>C21: The discounts the engine stacks on an invoice are taken from the eligible ones, each grants
  a positive amount, and together they never exceed the amount due.\<close>

theorem stacked_discounts_bounded:
  assumes "decimal_ok D" and "cents due" "0 < due" and "\<forall>s\<in>set ms. snap_ok s"
  shows "\<exists>applied. applyStackingAndAmounts D due ms = Inr applied
    \<and> (\<forall>c\<in>set applied. ac_snapshot c \<in> set ms \<and> 0 < ac_amountApplied c)
    \<and> sum_list (map ac_amountApplied applied) \<le> due"
  using decimal_arith.applyStacking_ok[OF decimal_arith.intro[OF assms(1)] assms(2-4)] by blast

definition fixed_discount :: "uuid \<Rightarrow> kzt \<Rightarrow> int \<Rightarrow> CustomDiscountSnapshot" where
  "fixed_discount i a prio = \<lparr>snap_id = i, snap_name = [], snap_discountType = FixedAmount,
     snap_amount = a, snap_conditions = CEmpty, snap_targetType = TargetAll, snap_targetIds = None,
     snap_priority = prio, snap_stackable = True, snap_maxUsesPerChild = None,
     snap_totalMaxUses = None, snap_usedCount = 0, snap_createdAt = 0\<rparr>"

theorem stacked_discounts_bounded_witness:
  "\<exists>applied. applyStackingAndAmounts decimal30 40000 [fixed_discount ''a'' 10000 1, fixed_discount ''b'' 40000 2] = Inr applied
    \<and> (\<forall>c\<in>set applied. ac_snapshot c \<in> set [fixed_discount ''a'' 10000 1, fixed_discount ''b'' 40000 2]
         \<and> 0 < ac_amountApplied c)
    \<and> sum_list (map ac_amountApplied applied) \<le> 40000"
  by (intro stacked_discounts_bounded[OF decimal30_ok]) (simp_all add: snap_ok_def fixed_discount_def)

text \<open>C22: Splitting a whole amount of tenge over weighted lines gives whole, non-negative shares that add
  up to exactly the amount, each within 1.01 tenge of its exact proportion.\<close>

theorem whole_tenge_split:
  assumes "decimal_ok D" and "0 \<le> T" "T \<le> 10 ^ 12" and "\<forall>w\<in>set ws. 0 \<le> w" "length ws \<le> 24" and "0 < sum_list ws"
  shows "\<exists>ks. distributeWholeTenge D (of_int T) ws = Inr (map of_int ks)
    \<and> length ks = length ws \<and> sum_list ks = T \<and> (\<forall>k\<in>set ks. 0 \<le> k)
    \<and> (\<forall>i<length ws. \<bar>of_int (ks ! i) - ws ! i * of_int T / sum_list ws\<bar> \<le> 101 / 100)"
  by (rule decimal_arith.distributeWholeTenge_ok[OF decimal_arith.intro[OF assms(1)] assms(2-6)])

theorem whole_tenge_split_witness:
  "\<exists>ks. distributeWholeTenge decimal30 100 [1, 1, 1] = Inr (map of_int ks) \<and> length ks = 3 \<and> sum_list ks = 100"
  using whole_tenge_split[of decimal30 100 "[1, 1, 1]"] by auto

text \<open>C23: A condition tree that passed validation is evaluated to its truth value: the depth guard of the
  evaluator never fires on it.\<close>

theorem accepted_conditions_evaluate:
  assumes "validateConditionsSchema j = Inr c"
  shows "evaluateConditions c ctx 0 = Inr (cond_holds ctx c)"
  by (rule evaluateConditions_accepted[OF assms])

definition for_siblings :: DiscountCondition where
  "for_siblings = CAllOf [CLeaf (SiblingsCount OpGte 2), CLeaf (BenefitCategoryIn [''multi_child''])]"

lemma for_siblings_valid: "validateConditionsSchema (cond_json for_siblings) = Inr for_siblings"
  by code_simp

theorem accepted_conditions_evaluate_witness:
  "\<forall>ctx. evaluateConditions for_siblings ctx 0 = Inr (cond_holds ctx for_siblings)"
  using accepted_conditions_evaluate[OF for_siblings_valid] by blast

text \<open>C24: A well-formed condition tree survives being written as JSON and validated again.\<close>

theorem conditions_roundtrip:
  assumes "c = CEmpty \<or> cond_ok MAX_DEPTH c"
  shows "validateConditionsSchema (cond_json c) = Inr c"
  by (rule validate_cond_json[OF assms])

theorem conditions_roundtrip_witness:
  "cond_ok MAX_DEPTH for_siblings \<and> validateConditionsSchema (cond_json for_siblings) = Inr for_siblings"
proof -
  have "cond_ok MAX_DEPTH for_siblings" by code_simp
  with conditions_roundtrip show ?thesis by blast
qed

text \<open>C25: In a zone that changes its offset once, a date and a wall-clock time that exists on that date are
  combined into the instant whose local date and time they are.\<close>

theorem wall_clock_correct:
  assumes "1000 dvd a" "1000 dvd b" "\<bar>a\<bar> < ms_per_day" "\<bar>b\<bar> < ms_per_day"
    and "days_from_civil 101 1 1 * ms_per_day \<le> dt" "local_date (zone_step T a b) dt = (y, m, d)"
    and "0 \<le> h" "h \<le> 23" "0 \<le> mi" "mi \<le> 59" "0 \<le> s" "s \<le> 59"
    and "r0 + zone_step T a b r0 = Date_UTC_time y (m - 1) d h mi s"
  shows "\<exists>r. combineDateAndTimeInTimezone (Some dt) (wall_clock_string h mi (Some s)) (zone_step T a b) = Inr r
    \<and> local_date (zone_step T a b) r = (y, m, d) \<and> getUTCHours (r + zone_step T a b r) = h
    \<and> getUTCMinutes (r + zone_step T a b r) = mi \<and> getUTCSeconds (r + zone_step T a b r) = s"
  by (rule combineDateAndTime_correct[OF assms])

theorem wall_clock_correct_witness:
  "\<exists>r. combineDateAndTimeInTimezone (Some noon) (wall_clock_string 9 30 (Some 0)) (zone_step 1709229600000 21600000 18000000) = Inr r
    \<and> local_date (zone_step 1709229600000 21600000 18000000) r = (2025, 1, 15)"
proof -
  have zone: "(1000 :: int) dvd 21600000" "(1000 :: int) dvd 18000000" "\<bar>21600000\<bar> < ms_per_day" "\<bar>18000000\<bar> < ms_per_day"
    by code_simp+
  moreover have "days_from_civil 101 1 1 * ms_per_day \<le> noon" "local_date (zone_step 1709229600000 21600000 18000000) noon = (2025, 1, 15)"
    "1736915400000 + zone_step 1709229600000 21600000 18000000 1736915400000 = Date_UTC_time 2025 (1 - 1) 15 9 30 0"
    by code_simp+
  ultimately show ?thesis
    using wall_clock_correct[of 21600000 18000000 noon 1709229600000 2025 1 15 9 30 0 1736915400000] by auto
qed

text \<open>C26: The search for the first month of a prepayment ends, and ends at the first month from the given
  one on that no earlier prepayment covers.\<close>

theorem prepayment_window_found:
  assumes "1200 \<le> k"
  shows "\<exists>n. shift_window covered (month_start k) = month_start (k + int n)
    \<and> monthKey (month_start (k + int n)) \<notin> set covered
    \<and> (\<forall>i<n. monthKey (month_start (k + int i)) \<in> set covered)"
  by (rule shift_window_first[OF assms])

theorem prepayment_window_found_witness:
  "\<exists>n. shift_window [''2025-01'', ''2025-02''] january = month_start (24300 + int n)
    \<and> monthKey (month_start (24300 + int n)) \<notin> {''2025-01'', ''2025-02''}"
proof -
  have "month_start 24300 = january" by code_simp
  with prepayment_window_found[of 24300 "[''2025-01'', ''2025-02'']"] show ?thesis by auto
qed

subsection \<open>Archiving, refunds, jobs, errors\<close>

text \<open>C27: Archiving a child ends its tariff assignments: from the next day on none of them is in force, so the
  monthly run no longer sees the child.\<close>

theorem archiving_ends_assignments:
  assumes "archiveChild E kg c reason by u db = Inr (x, db')"
    and "toDateColumn (env_clock E (db_clockReads db)) < toDateColumn d"
  shows "assignments_findActiveForChild kg c d db' = None
    \<and> (\<forall>a\<in>set (assignments_findAllActiveAtDate kg d db'). ta_childId a \<noteq> c)"
  using archive_closes_assignments[OF assms] by blast

definition enrolled_child :: billing_db where
  "enrolled_child = no_rows\<lparr>db_children := [(sample_child ChildActive)\<lparr>ch_id := aliya, ch_kindergartenId := kindergarten\<rparr>],
     db_assignments := [(sample_assignment ''asg'' 1725148800000 None)\<lparr>ta_childId := aliya, ta_kindergartenId := kindergarten\<rparr>]\<rparr>"

theorem archiving_ends_assignments_witness:
  "returns (archiveChild E0 kindergarten aliya ''moved away'' administrator administrator enrolled_child)
    (\<lambda>x db'. assignments_findActiveForChild kindergarten aliya (noon + ms_per_day) db' = None)"
proof -
  have "returns (archiveChild E0 kindergarten aliya ''moved away'' administrator administrator enrolled_child)
    (\<lambda>x db'. ch_status x = ChildArchived)" by code_simp
  then obtain x db' where run: "archiveChild E0 kindergarten aliya ''moved away'' administrator administrator enrolled_child = Inr (x, db')"
    by (rule returnsE)
  have "toDateColumn (env_clock E0 (db_clockReads enrolled_child)) < toDateColumn (noon + ms_per_day)" by code_simp
  with archiving_ends_assignments[OF run] run show ?thesis by (simp add: returns_def)
qed

text \<open>The monthly run writes no invoice for an archived child.\<close>

theorem archived_child_not_billed:
  assumes "children_findById kg c db = Some x" "ch_status x = ChildArchived"
    and "generateMonthly E kg periodStart db = Inr (r, db')"
  shows "invoices_of c db' = invoices_of c db"
  by (rule monthly_skips_archived[OF assms])

theorem archived_child_not_billed_witness:
  "returns (generateMonthly E0 ''kg'' january (enrolled\<lparr>db_children := [sample_child ChildArchived]\<rparr>))
    (\<lambda>r db'. r = (0, 1) \<and> invoices_of ''child'' db' = [])"
proof -
  let ?db = "enrolled\<lparr>db_children := [sample_child ChildArchived]\<rparr>"
  have "returns (generateMonthly E0 ''kg'' january ?db) (\<lambda>r db'. r = (0, 1))" by code_simp
  then obtain r db' where run: "generateMonthly E0 ''kg'' january ?db = Inr (r, db')" "r = (0, 1)" by (rule returnsE)
  have "children_findById ''kg'' ''child'' ?db = Some (sample_child ChildArchived)" "ch_status (sample_child ChildArchived) = ChildArchived"
    by (simp_all add: children_findById_def samples)
  from archived_child_not_billed[OF this run(1)] have "invoices_of ''child'' db' = []"
    by (simp add: invoices_of_def enrolled_def no_rows_def)
  with run show ?thesis by (simp add: returns_def)
qed

text \<open>C28: The refund drafted for the days an archived child no longer attends is positive, pending, drawn on
  a completed payment of an invoice of that child, and never above what that invoice cost.\<close>

theorem pro_rata_refund_bounded:
  assumes "decimal_ok (env_decimal E)" and "computeAndCreate E kg c t db = Inr (ProRataCreated rid n vid, db')"
    and "\<forall>v\<in>set (db_invoices db). cents (inv_amountAfterDiscount v) \<and> 0 \<le> inv_amountAfterDiscount v"
    and "\<forall>v\<in>set (db_invoices db). \<forall>d. computeBillableDays (env_zone E) kg (inv_periodStart v) (inv_periodEnd v) t db = Some d
      \<longrightarrow> bd_totalBillableDays d \<le> 10 ^ 12"
  shows "\<exists>v p row. v \<in> set (db_invoices db) \<and> inv_id v = vid \<and> inv_childId v = c \<and> p \<in> set (db_payments db)
    \<and> pay_id p = ref_paymentId row \<and> pay_invoiceId p = vid \<and> pay_status p = PayCompleted
    \<and> db_refunds db' = db_refunds db @ [row] \<and> ref_id row = rid \<and> ref_status row = RefPending
    \<and> 0 < ref_amount row \<and> ref_amount row \<le> inv_amountAfterDiscount v"
  by (rule pro_rata_created[OF assms])

definition left_in_january :: billing_db where
  "left_in_january = no_rows\<lparr>db_invoices := [sample_invoice InvPartial 31000], db_payments := [sample_payment PayCompleted 10000],
     db_children := [sample_child ChildArchived]\<rparr>"

definition drafted :: "ProRataRefundOutcome \<Rightarrow> bool" where
  "drafted out = (case out of ProRataCreated rid n vid \<Rightarrow> n = 16000 | ProRataSkipped why \<Rightarrow> False)"

lemma left_in_january_run:
  "returns (computeAndCreate E0 ''kg'' ''child'' noon left_in_january) (\<lambda>out db'. drafted out)"
  by code_simp

lemma left_in_january_drafts:
  obtains rid n vid db' where "computeAndCreate E0 ''kg'' ''child'' noon left_in_january = Inr (ProRataCreated rid n vid, db')"
  using left_in_january_run by (rule returnsE) (auto simp: drafted_def split: ProRataRefundOutcome.splits)

theorem pro_rata_refund_bounded_witness:
  "\<exists>rid n vid db' row. computeAndCreate E0 ''kg'' ''child'' noon left_in_january = Inr (ProRataCreated rid n vid, db')
    \<and> db_refunds db' = [row] \<and> 0 < ref_amount row \<and> ref_amount row \<le> 31000"
proof -
  obtain rid n vid db' where run: "computeAndCreate E0 ''kg'' ''child'' noon left_in_january = Inr (ProRataCreated rid n vid, db')"
    by (rule left_in_january_drafts)
  have tables: "db_invoices left_in_january = [sample_invoice InvPartial 31000]" "db_refunds left_in_january = []"
    by (simp_all add: left_in_january_def no_rows_def)
  have "computeBillableDays (env_zone E0) ''kg'' (inv_periodStart (sample_invoice InvPartial 31000)) (inv_periodEnd (sample_invoice InvPartial 31000)) noon left_in_january
      = Some \<lparr>bd_totalBillableDays = 31, bd_refundableDays = 16\<rparr>" by code_simp
  then have days: "\<forall>v\<in>set (db_invoices left_in_january). \<forall>d. computeBillableDays (env_zone E0) ''kg'' (inv_periodStart v) (inv_periodEnd v) noon left_in_january = Some d
      \<longrightarrow> bd_totalBillableDays d \<le> 10 ^ 12" by (simp add: tables)
  have money: "\<forall>v\<in>set (db_invoices left_in_january). cents (inv_amountAfterDiscount v) \<and> 0 \<le> inv_amountAfterDiscount v"
    using cents_whole[of 31000] by (simp add: tables)
  from pro_rata_refund_bounded[OF E0_decimal(2) run money days] obtain row v where "v \<in> set (db_invoices left_in_january)"
    "db_refunds db' = [row]" "0 < ref_amount row" "ref_amount row \<le> inv_amountAfterDiscount v" by (auto simp: tables)
  with run show ?thesis by (auto simp: tables)
qed

text \<open>C29: The job for one archive drafts at most one refund: run again it reports that the refund exists and
  adds nothing.\<close>

theorem pro_rata_refund_once:
  assumes "computeAndCreate E kg c t db = Inr (ProRataCreated rid n vid, db')" and "t \<le> env_clock E (db_clockReads db)"
  shows "\<exists>db2. computeAndCreate E kg c t db' = Inr (ProRataSkipped SkipRefundAlreadyExists, db2) \<and> db_refunds db2 = db_refunds db'"
  by (rule pro_rata_twice[OF assms])

theorem pro_rata_refund_once_witness:
  "\<exists>out db' db2. computeAndCreate E0 ''kg'' ''child'' noon left_in_january = Inr (out, db')
    \<and> computeAndCreate E0 ''kg'' ''child'' noon db' = Inr (ProRataSkipped SkipRefundAlreadyExists, db2) \<and> db_refunds db2 = db_refunds db'"
proof -
  obtain rid n vid db' where run: "computeAndCreate E0 ''kg'' ''child'' noon left_in_january = Inr (ProRataCreated rid n vid, db')"
    by (rule left_in_january_drafts)
  have "noon \<le> env_clock E0 (db_clockReads left_in_january)" by (simp add: E0_def)
  from pro_rata_refund_once[OF run this] run show ?thesis by blast
qed

text \<open>C30: Once the monthly job has determined its period, it ends and has visited every active
  kindergarten in order, even when the runs of some of them throw; and every kindergarten is billed by
  itself: when its turn comes it finds the rows it had before the job, and what it sees afterwards is what
  its own run made of them, or just those rows when its run threw. A kindergarten that is not active sees
  no change.\<close>

theorem job_isolates_tenants:
  assumes "computePeriodStart E payload db = Inr (p, s)" and "distinct (map fst (db_kindergartens db))"
  shows "\<exists>sm db'. monthly_billing_process E payload db = Inr (sm, db')
    \<and> ts_kindergartensProcessed sm = length (listAllKindergartens db)
    \<and> (\<forall>earlier kg later. listAllKindergartens db = earlier @ kg # later \<longrightarrow>
        (let before = foldl (\<lambda>d k. monthly_result E p k d) s earlier
         in tenant_view kg before = tenant_view kg db \<and> tenant_view kg db' = tenant_view kg (monthly_result E p kg before)))
    \<and> (\<forall>kg. kg \<notin> set (listAllKindergartens db) \<longrightarrow> tenant_view kg db' = tenant_view kg db)"
  by (rule monthly_job_own_run[OF assms])

theorem job_isolates_tenants_witness:
  "\<exists>sm db'. monthly_billing_process E0 (Some january) (enrolled\<lparr>db_kindergartens := [(''kg'', False), (''old'', True)]\<rparr>) = Inr (sm, db')
    \<and> ts_kindergartensProcessed sm = 1
    \<and> tenant_view ''old'' db' = tenant_view ''old'' (enrolled\<lparr>db_kindergartens := [(''kg'', False), (''old'', True)]\<rparr>)
    \<and> tenant_view ''kg'' db' = tenant_view ''kg'' (monthly_result E0 (Date_UTC (getUTCFullYear january) (getUTCMonth january) 1) ''kg''
         (enrolled\<lparr>db_kindergartens := [(''kg'', False), (''old'', True)]\<rparr>))"
proof -
  let ?db = "enrolled\<lparr>db_kindergartens := [(''kg'', False), (''old'', True)]\<rparr>"
  let ?p = "Date_UTC (getUTCFullYear january) (getUTCMonth january) 1"
  have p: "computePeriodStart E0 (Some january) ?db = Inr (?p, ?db)"
    by (simp add: computePeriodStart_def op_simps)
  have l: "listAllKindergartens ?db = [] @ ''kg'' # []" by (simp add: listAllKindergartens_def)
  have d: "distinct (map fst (db_kindergartens ?db))" by simp
  from job_isolates_tenants[OF p d] obtain sm db' where r: "monthly_billing_process E0 (Some january) ?db = Inr (sm, db')"
    "ts_kindergartensProcessed sm = length (listAllKindergartens ?db)"
    "\<forall>earlier kg later. listAllKindergartens ?db = earlier @ kg # later \<longrightarrow>
        (let before = foldl (\<lambda>d k. monthly_result E0 ?p k d) ?db earlier
         in tenant_view kg before = tenant_view kg ?db \<and> tenant_view kg db' = tenant_view kg (monthly_result E0 ?p kg before))"
    "\<forall>kg. kg \<notin> set (listAllKindergartens ?db) \<longrightarrow> tenant_view kg db' = tenant_view kg ?db"
    by (elim exE conjE)
  have "ts_kindergartensProcessed sm = 1" using r(2) l by simp
  moreover have "tenant_view ''old'' db' = tenant_view ''old'' ?db" using r(4) l by simp
  moreover have "tenant_view ''kg'' db' = tenant_view ''kg'' (monthly_result E0 ?p ''kg'' ?db)"
    using r(3)[rule_format, OF l] by (simp only: Let_def foldl.simps)
  ultimately show ?thesis using r(1) by (intro exI[of _ sm] exI[of _ db'] conjI)
qed

text \<open>What cancelling an invoice does, on every branch: an unpaid invoice is cancelled, nothing else
  changes but the announcement; a paid one and a closed one are refused, each with its own error.\<close>

theorem cancel_on_every_branch:
  assumes "invoices_findById kg i db = Some v" and "distinct (map inv_id (db_invoices db))"
  shows "if unpaid_status (inv_status v)
    then \<exists>w db'. invoice_service_cancel E kg i reason db = Inr (w, db') \<and> inv_status w = InvCancelled
      \<and> db_invoices db' = map (\<lambda>x. if inv_id x = i then invoice_set InvCancelled (env_clock E (db_clockReads db)) x else x) (db_invoices db)
      \<and> db_outbox db' = db_outbox db @ [InvoiceCancelledEv kg i (inv_childId v) reason]
    else invoice_service_cancel E kg i reason db = Inl (InvoiceErr (if inv_status v = InvPaid then InvoiceAlreadyPaid i
      else InvoiceStatusInvalid (inv_status v) ''cancel''))"
  by (rule cancel_run[OF assms])

theorem cancel_on_every_branch_witness:
  "invoice_service_cancel E0 ''kg'' ''inv'' None (billed InvPaid PayCompleted 40000) = Inl (InvoiceErr (InvoiceAlreadyPaid ''inv''))"
proof -
  have "distinct (map inv_id (db_invoices (billed InvPaid PayCompleted 40000)))" by (simp add: samples)
  from cancel_on_every_branch[OF billed_reads(2) this, of E0 None] show ?thesis by (simp add: unpaid_status_def)
qed

text \<open>A cancelled or refunded invoice and its amounts never change again.\<close>

theorem closed_invoice_stays:
  assumes "invoice_isTerminal s"
  shows "{t. invoice_step\<^sup>*\<^sup>* s t} = {s}"
  using invoice_terminal[OF assms] by auto

theorem closed_invoice_stays_witness:
  "{t. invoice_step\<^sup>*\<^sup>* (sample_invoice InvCancelled 40000) t} = {sample_invoice InvCancelled 40000}"
proof -
  have "invoice_isTerminal (sample_invoice InvCancelled 40000)" by code_simp
  with closed_invoice_stays show ?thesis by blast
qed

text \<open>C31: The record of a child stays well formed under every method of the aggregate: archived exactly when
  it carries an archive date and an acceptable reason, enrolled exactly when it is no longer a mere card.\<close>

theorem child_stays_well_formed:
  assumes "child_step\<^sup>*\<^sup>* s t" and "child_wf s"
  shows "child_wf t"
  by (rule child_wf_steps[OF assms])

theorem child_stays_well_formed_witness:
  "\<exists>t. child_archive noon '' moved away '' (sample_child ChildActive) = Inr t \<and> ch_archiveReason t = Some ''moved away'' \<and> child_wf t"
proof -
  have "(case child_archive noon '' moved away '' (sample_child ChildActive) of Inl e \<Rightarrow> False | Inr t \<Rightarrow> ch_archiveReason t = Some ''moved away'')"
    by code_simp
  then obtain t where t: "child_archive noon '' moved away '' (sample_child ChildActive) = Inr t" "ch_archiveReason t = Some ''moved away''"
    by (auto split: sum.splits)
  have "child_wf (sample_child ChildActive)" by (simp add: child_wf_def samples)
  with child_stays_well_formed[OF r_into_rtranclp[of child_step, OF child_step.archive[OF t(1)]]] t show ?thesis by blast
qed

text \<open>A custom discount that could be rehydrated from its row is well formed: a positive amount, a window
  that is not empty, targets that fit its kind, conditions within the limits of depth and width.\<close>

theorem loaded_discount_well_formed:
  assumes "customDiscount_fromState s raw = Inr t"
  shows "discount_wf t \<and> t = s\<lparr>cd_conditions := cd_conditions t\<rparr>"
  using customDiscount_fromState_wf[OF assms] by blast

theorem loaded_discount_well_formed_witness:
  "\<exists>t. customDiscount_fromState (sample_discount 5000 (Some 3) 2) (cond_json for_siblings) = Inr t \<and> cd_conditions t = for_siblings \<and> discount_wf t"
proof -
  have "(case customDiscount_fromState (sample_discount 5000 (Some 3) 2) (cond_json for_siblings) of Inl e \<Rightarrow> False | Inr t \<Rightarrow> cd_conditions t = for_siblings)"
    by code_simp
  then obtain t where "customDiscount_fromState (sample_discount 5000 (Some 3) 2) (cond_json for_siblings) = Inr t" "cd_conditions t = for_siblings"
    by (auto split: sum.splits)
  with loaded_discount_well_formed show ?thesis by blast
qed

text \<open>The permission matrix of a guardian answers every known permission, by the latest override if there
  is one and by the default of the role otherwise.\<close>

theorem permission_matrix:
  assumes "k \<in> set ALL_PERMISSION_KEYS"
  shows "map_of (permissions_effective overrides role) k =
    (case map_of (rev overrides) k of None \<Rightarrow> Some (default_permission role k) | Some v \<Rightarrow> Some v)"
  by (rule permissions_effective_lookup[OF assms])

theorem permission_matrix_witness:
  "map_of (permissions_effective [(''view_payments'', True)] NannyGuardian) ''view_payments'' = Some True
    \<and> map_of (permissions_effective [(''view_payments'', True)] NannyGuardian) ''pay_invoices'' = Some False"
proof -
  have "''view_payments'' \<in> set ALL_PERMISSION_KEYS" "''pay_invoices'' \<in> set ALL_PERMISSION_KEYS" by code_simp+
  with permission_matrix show ?thesis by (simp add: default_permission_def)
qed

text \<open>C33: Approving a primary guardian as administrator bypasses the limit of two: a child with two approvers
  ends up with three.\<close>

theorem admin_approval_exceeds_limit:
  assumes "guardians_ok db" and "guardians_findById kg i db = Some g"
    and "gd_status g = PendingApproval" "gd_role g = PrimaryGuardian"
    and "guardians_countApprovalRights kg (gd_childId g) db = 2"
    and "approveGuardianByAdmin E kg (gd_childId g) i u grant db = Inr (x, db')"
  shows "guardians_countApprovalRights kg (gd_childId g) db' = 3"
  by (rule primary_exceeds_ceiling[OF assms])

definition two_approvers :: billing_db where
  "two_approvers = family [sample_guardian her_mother PrimaryGuardian GuardianApproved True,
     sample_guardian her_aunt SecondaryGuardian GuardianApproved True, sample_guardian her_father PrimaryGuardian PendingApproval False]"

theorem admin_approval_exceeds_limit_witness:
  "returns (approveGuardianByAdmin E0 kindergarten aliya her_father administrator False two_approvers)
    (\<lambda>x db'. guardians_countApprovalRights kindergarten aliya db' = 3)"
proof -
  have "returns (approveGuardianByAdmin E0 kindergarten aliya her_father administrator False two_approvers) (\<lambda>x db'. True)" by code_simp
  then obtain x db' where run: "approveGuardianByAdmin E0 kindergarten aliya her_father administrator False two_approvers = Inr (x, db')"
    by (rule returnsE)
  let ?g = "sample_guardian her_father PrimaryGuardian PendingApproval False"
  have "guardians_ok two_approvers" "guardians_findById kindergarten her_father two_approvers = Some ?g"
    "guardians_countApprovalRights kindergarten aliya two_approvers = 2"
    by (simp_all add: guardians_ok_def guardians_findById_def guardians_countApprovalRights_def approver_of_def two_approvers_def family_def samples)
  moreover have "gd_childId ?g = aliya" "gd_status ?g = PendingApproval" "gd_role ?g = PrimaryGuardian" by (simp_all add: sample_guardian_def)
  ultimately show ?thesis using admin_approval_exceeds_limit[of two_approvers kindergarten her_father ?g] run by (simp add: returns_def)
qed

text \<open>C34: The settings of a guardian are saved by an unconditional update: a toggle of the approval rights
  computed before a concurrent revocation and saved after it makes the revoked guardian approved again.\<close>

theorem stale_toggle_undoes_revocation:
  assumes "guardians_ok db" and "guardians_findById kg i db = Some g" and "guardian_revoke who now g = Inr r"
    and "guardian_toggleApprovalRights grant later g = Inr t"
    and "db1 = db\<lparr>db_guardians := put_row gd_id i r (db_guardians db)\<rparr>" and "\<not> guardian_clash t (db_guardians db1)"
  shows "guardians_findById kg i db1 = Some r \<and> gd_status r = GuardianRevoked
    \<and> (\<exists>db2. guardians_update t db1 = Inr ((), db2) \<and> guardians_findById kg i db2 = Some t \<and> gd_status t = GuardianApproved)"
  by (rule plain_write_resurrects[OF assms])

theorem stale_toggle_undoes_revocation_witness:
  "\<exists>r t db1 db2. guardian_revoke ''admin'' noon (sample_guardian her_mother PrimaryGuardian GuardianApproved False) = Inr r
    \<and> gd_status r = GuardianRevoked \<and> guardians_update t db1 = Inr ((), db2)
    \<and> guardians_findById kindergarten her_mother db1 = Some r
    \<and> guardians_findById kindergarten her_mother db2 = Some t \<and> gd_status t = GuardianApproved"
proof -
  let ?g = "sample_guardian her_mother PrimaryGuardian GuardianApproved False" and ?db = "family [sample_guardian her_mother PrimaryGuardian GuardianApproved False]"
  obtain r t where r: "guardian_revoke ''admin'' noon ?g = Inr r" and t: "guardian_toggleApprovalRights True noon ?g = Inr t"
    by (simp add: guardian_revoke_def guardian_toggleApprovalRights_def sample_guardian_def)
  have "gd_id t = her_mother" "gd_id r = her_mother" using r t by (auto simp: guardian_revoke_def guardian_toggleApprovalRights_def sample_guardian_def)
  then have "\<not> guardian_clash t (db_guardians (?db\<lparr>db_guardians := put_row gd_id her_mother r (db_guardians ?db)\<rparr>))"
    by (simp add: guardian_clash_def family_def put_row_def sample_guardian_def)
  moreover have "guardians_ok ?db" "guardians_findById kindergarten her_mother ?db = Some ?g"
    by (simp_all add: guardians_ok_def guardians_findById_def family_def samples)
  ultimately show ?thesis using stale_toggle_undoes_revocation[OF _ _ r t refl] r by blast
qed

text \<open>C36: An invoice discounted to zero can never be settled in cash: the receipt of zero violates a check of
  the payments table.\<close>

theorem free_invoice_never_settled:
  assumes "decimal_ok (env_decimal E)" and "invoices_findById kg i db = Some v" and "distinct (map inv_id (db_invoices db))"
    and "inv_amountAfterDiscount v = 0" "completed_payments kg i db = []"
    and "unpaid_status (inv_status v)" and "\<not> isPrepayment (inv_invoiceType v)"
  shows "manualMarkPaid E kg i \<lparr>mm_paidAt = t, mm_payerUserId = u, mm_note = n, mm_amount = None\<rparr> db
    = Inl (DbCheckViolation ''payments'')"
  by (rule zero_invoice_cash[OF assms])

theorem free_invoice_never_settled_witness:
  "manualMarkPaid E0 ''kg'' ''inv'' \<lparr>mm_paidAt = None, mm_payerUserId = None, mm_note = None, mm_amount = None\<rparr>
    (no_rows\<lparr>db_invoices := [sample_invoice InvPending 0]\<rparr>) = Inl (DbCheckViolation ''payments'')"
  by (rule free_invoice_never_settled[where v = "sample_invoice InvPending 0"])
    (simp_all add: invoices_findById_def completed_payments_def unpaid_status_def isPrepayment_def PREPAYMENT_TYPES_def samples)

subsection \<open>People and the front desk\<close>

text \<open>C37: Whatever the staff and group services do, a group has at most one open mentor slot: assigning a
  mentor closes the slot of the one before, so the code never keeps the several mentors per group that its
  documents allow. The holder of the slot is a staff member of that kindergarten, active and not archived,
  unless the kindergarten has been archived on the way: that deactivates its staff and leaves the slots
  open, and the history puts it on record.\<close>

theorem groups_rightly_held:
  assumes "mentors_ok {} s" and "trace school_step s archived t" and "group_findActiveMentor kg g t = Some m"
  shows "filter (\<lambda>x. gm_groupId x = g \<and> mentor_isActive x) (sc_mentors t) = [m]
    \<and> (\<exists>r\<in>set (sc_staff t). staff_key kg (gm_staffMemberId m) r \<and> (kg \<in> set archived \<or> sm_isActive r \<and> sm_archivedAt r = None))"
  by (rule active_mentor_holds[OF mentors_invariant[OF assms(2,1)] assms(3)])

theorem groups_rightly_held_witness:
  "service_assignMentor E0 ''kg'' ''group'' ''second'' two_mentors = Inr mentor_replaced
   \<and> filter (\<lambda>x. gm_groupId x = ''group'' \<and> mentor_isActive x) (sc_mentors (snd mentor_replaced)) = [fst mentor_replaced]
   \<and> (\<exists>r\<in>set (sc_staff (snd mentor_replaced)). staff_key ''kg'' ''second'' r \<and> sm_isActive r \<and> sm_archivedAt r = None)"
proof -
  have "school_step two_mentors [] (snd mentor_replaced)"
    using mentor_replaced_run by (intro school_step.assign[where m = "fst mentor_replaced"]) simp
  note st = trace_one[where R = school_step, OF this]
  have f: "group_findActiveMentor ''kg'' ''group'' (snd mentor_replaced) = Some (fst mentor_replaced)"
    "gm_staffMemberId (fst mentor_replaced) = ''second''" by code_simp+
  from groups_rightly_held[OF two_mentors_ok st f(1)] f(2) mentor_replaced_run show ?thesis by simp
qed

text \<open>C38: Whatever the front desk does, the log of a lead, read from the beginning, follows the edges of
  the status diagram and ends at the status the lead has; a lead whose card is created is linked to a
  child, and only those and archived ones are.\<close>

theorem lead_log_explains_status:
  assumes "desk_ok d" and "desk_step\<^sup>*\<^sup>* d d'" and "r \<in> set (fd_enrollments d')"
  shows "replay EnNew (log_of (en_kindergartenId r) (en_id r) d') = Some (en_status r) \<and> link_ok r"
  using desk_invariant[OF assms(2,1)] assms(3) unfolding desk_ok_def by blast

theorem lead_log_explains_status_witness:
  "replay EnNew (log_of ''kg'' ''fresh-0'' (snd lead_moved)) = Some EnInProcessing \<and> link_ok (fst lead_moved)"
proof -
  have r: "fst lead_moved \<in> set (fd_enrollments (snd lead_moved))" by code_simp
  have f: "en_kindergartenId (fst lead_moved) = ''kg''" "en_id (fst lead_moved) = ''fresh-0''" "en_status (fst lead_moved) = EnInProcessing"
    by code_simp+
  from lead_log_explains_status[OF small_desk_ok lead_steps r] show ?thesis by (simp only: f)
qed

text \<open>C39: A mentor who becomes a receptionist keeps the open slot of the group: the check that guards a
  mentor's access to the group still admits the user.\<close>

theorem demoted_mentor_still_admitted:
  assumes "distinct (map sm_id (sc_staff s))" and "find (staff_key kg i) (sc_staff s) = Some r"
    and "sm_archivedAt r = None" "sm_role r = RoleMentor" "sm_specialistType r = None"
    and "isUserActiveMentorForGroup kg (sm_userId r) g s"
    and "us_role p = Some RoleReception" "us_specialistType p = None"
    and "staff_service_update kg i p s = Inr (x, t)"
  shows "sm_role x = RoleReception \<and> isUserActiveMentorForGroup kg (sm_userId r) g t"
  by (rule demoted_mentor_keeps_group[OF assms])

theorem demoted_mentor_still_admitted_witness:
  "sm_role (fst mentor_demoted) = RoleReception \<and> isUserActiveMentorForGroup ''kg'' ''user-2'' ''group'' (snd mentor_demoted)"
proof -
  have u: "sm_userId (sample_staff ''mentor'' ''user-2'' RoleMentor) = ''user-2''" by code_simp
  have "sm_role (fst mentor_demoted) = RoleReception
    \<and> isUserActiveMentorForGroup ''kg'' (sm_userId (sample_staff ''mentor'' ''user-2'' RoleMentor)) ''group'' (snd mentor_demoted)"
    by (rule demoted_mentor_still_admitted[where s = "small_school [sample_slot]" and i = "''mentor''" and p = to_reception])
      (code_simp | simp add: mentor_demoted_run)+
  then show ?thesis by (simp only: u)
qed

subsection \<open>The door: attendance, timeline, handing over\<close>

text \<open>C11: As long as nobody retimes or deletes an entry of the register by hand (which the code permits, as
  the last property of this section shows), the automatic part of the timeline is a mirror of the register, whatever
  else happens at the door: check-ins, check-outs, children handed over against a code, corrections of the
  child, the time or the direction, deletions of events, explicit statuses, entries staff write, edit or
  delete. Every live event has exactly one entry, with its child, time and direction, and an entry that
  names an event names a live one.\<close>

theorem timeline_mirrors_register:
  assumes "mirrored h" and "door_step\<^sup>*\<^sup>* h h'"
  shows "(\<forall>e. e \<in> set (hs_events h') \<and> live_event e \<longrightarrow>
      (\<exists>!t. t \<in> set (hs_timeline h') \<and> tl_sourceEventId t = Some (ev_id e)) \<and> (\<exists>t \<in> set (hs_timeline h'). mirror_of e t))
    \<and> (\<forall>t i. t \<in> set (hs_timeline h') \<and> tl_sourceEventId t = Some i \<longrightarrow>
      (\<exists>e \<in> set (hs_events h'). ev_id e = i \<and> live_event e \<and> mirror_of e t))"
proof -
  have m: "mirrored h'" by (rule door_steps_mirrored[OF assms(2,1)])
  hence "mirror_sets (set (hs_events h')) (set (hs_timeline h'))" by (simp add: mirrored_def mirror_lists_def)
  thus ?thesis using mirrored_entry[OF m] mirrored_source[OF m] unfolding mirror_sets_def by blast
qed

theorem timeline_mirrors_register_witness:
  "(\<exists>t \<in> set (hs_timeline (snd went_again)). mirror_of (fr_event (fst went_again)) t)
   \<and> length (hs_events (snd went_again)) = 2"
proof -
  have e: "fr_event (fst went_again) \<in> set (hs_events (snd went_again)) \<and> live_event (fr_event (fst went_again))" by code_simp
  have "length (hs_events (snd went_again)) = 2" by code_simp
  with timeline_mirrors_register[OF small_house_mirrored door_steps] e show ?thesis by blast
qed

text \<open>C12: A pickup request is behind at most one attendance event: in every state the door reaches, failed
  operations and expired codes included, two events that name the same request are the same, and the
  request is validated with that event.\<close>

theorem one_event_per_pickup:
  assumes "handed h" and "hand_step\<^sup>*\<^sup>* (r, h) (r', h')" and "e \<in> set (hs_events h')" "ev_pickupRequestId e = Some i"
    and "d \<in> set (hs_events h')" "ev_pickupRequestId d = Some i"
  shows "d = e \<and> (\<exists>p \<in> set (hs_pickups h'). pk_id p = i \<and> pk_status p = Validated \<and> pk_attendanceEventId p = Some (ev_id e))"
proof -
  have h: "handed h'" using handed_steps[OF assms(2)] assms(1) by simp
  hence "hand_lists (hs_events h', hs_pickups h')" by (simp add: handed_def hand_view_def)
  thus ?thesis using handed_once[OF h assms(3,5,4,6)] assms(3,4) unfolding hand_lists_def by auto
qed

theorem one_event_per_pickup_witness:
  "\<exists>p \<in> set (hs_pickups collected_house). pk_id p = pk_id (fst asked) \<and> pk_status p = Validated
     \<and> pk_attendanceEventId p = Some (ev_id (hd (hs_events collected_house)))"
proof -
  have e: "hd (hs_events collected_house) \<in> set (hs_events collected_house)"
    "ev_pickupRequestId (hd (hs_events collected_house)) = Some (pk_id (fst asked))" by code_simp+
  from one_event_per_pickup[OF small_house_handed hand_steps e e] show ?thesis by blast
qed

text \<open>C13: A one-time person collects at most once: after a validation of a request for such a person, no
  validation of any request for the same person ever returns again, whatever happens in between.\<close>

theorem one_time_person_collects_once:
  assumes "validateOtp E kg i code u r h = (Inr (x, h1), r1)" and "pickups_findById i h = Some pr"
    and "pk_trustedPersonId pr = Some t" and "trusted_findById t h = Some y" and "tr_isOneTime y"
    and "hand_step\<^sup>*\<^sup>* (r1, h1) (r2, h2)" and "pickups_findById j h2 = Some q" and "pk_trustedPersonId q = Some t"
  shows "\<exists>err. fst (validateOtp E' kg' j code' u' r2 h2) = Inl err"
proof -
  have "spent t h2" using spent_steps[OF assms(6)] validate_spends[OF assms(1-5)] by simp
  hence no: "validateOtp E' kg' j code' u' r2 h2 \<noteq> (Inr (z, h3), r3)" for z h3 r3 using assms(7,8) by (rule spent_refuses)
  show ?thesis
  proof (cases "fst (validateOtp E' kg' j code' u' r2 h2)")
    case (Inr v)
    obtain z h3 where v: "v = (z, h3)" by (cases v)
    have "validateOtp E' kg' j code' u' r2 h2 = (Inr (z, h3), snd (validateOtp E' kg' j code' u' r2 h2))"
      using Inr v by (simp add: prod_eq_iff)
    thus ?thesis using no by blast
  qed simp
qed

theorem one_time_person_collects_once_witness:
  "\<exists>err. fst (validateOtp E0 ''kg'' (pk_id (fst asked_again)) ''123456'' ''user-1'' (snd collected) collected_house) = Inl err"
proof -
  have run: "validateOtp E0 ''kg'' (pk_id (fst asked)) ''000007'' ''user-1'' (snd sent) (snd (projr (fst sent)))
    = (Inr (fst (projr (fst collected)), collected_house), snd collected)"
    using collected_run by (simp add: collected_house_def)
  have pr: "pickups_findById (pk_id (fst asked)) (snd (projr (fst sent))) = Some (hd (hs_pickups (snd (projr (fst sent)))))"
    "pk_trustedPersonId (hd (hs_pickups (snd (projr (fst sent))))) = Some ''neighbour''"
    "trusted_findById ''neighbour'' (snd (projr (fst sent))) = Some her_neighbour" "tr_isOneTime her_neighbour" by code_simp+
  have q: "pickups_findById (pk_id (fst asked_again)) collected_house = Some (fst asked_again)"
    "pk_trustedPersonId (fst asked_again) = Some ''neighbour''" by code_simp+
  show ?thesis by (rule one_time_person_collects_once[OF run pr rtranclp.rtrancl_refl q])
qed

text \<open>C14: Guessing a pickup code: after the code was sent, a list of guesses whose first three are wrong never
  passes, however long it is; and three wrong guesses lock the request.\<close>

theorem pickup_code_guesses_bounded:
  assumes "sendOtp E limit draw kg i r h = (Inr (x, h'), r')" and "pickup_code draw \<notin> set (take 3 ws)"
  shows "\<not> fst (guess i ws r' h') \<and> (length ws = 3 \<longrightarrow> otp_isLocked i (snd (guess i ws r' h')))"
proof
  note f = send_returned[OF assms(1)]
  show "\<not> fst (guess i ws r' h')" by (rule guess_bounded[of _ _ "pickup_code draw" 3]) (use f assms(2) in simp_all)
  show "length ws = 3 \<longrightarrow> otp_isLocked i (snd (guess i ws r' h'))"
  proof
    assume "length ws = 3"
    then obtain w1 w2 w3 where ws: "ws = [w1, w2, w3]" by (auto simp: numeral_3_eq_3 length_Suc_conv)
    show "otp_isLocked i (snd (guess i ws r' h'))"
      unfolding ws by (rule three_wrong_lock[where c = "pickup_code draw", THEN conjunct2]) (use f assms(2) ws in auto)
  qed
qed

theorem pickup_code_guesses_bounded_witness:
  "\<not> fst (guess (pk_id (fst asked)) [''1'', ''2'', ''3'', ''000007''] (snd sent) (snd (projr (fst sent))))
   \<and> fst (guess (pk_id (fst asked)) [''1'', ''2'', ''000007''] (snd sent) (snd (projr (fst sent))))"
proof -
  have run: "sendOtp E0 5 7 ''kg'' (pk_id (fst asked)) empty_redis (snd asked_again) = (Inr (fst (projr (fst sent)), snd (projr (fst sent))), snd sent)"
    using sent_run by simp
  have w: "pickup_code 7 \<notin> set (take 3 [''1'', ''2'', ''3'', ''000007''])" by code_simp
  have "fst (guess (pk_id (fst asked)) [''1'', ''2'', ''000007''] (snd sent) (snd (projr (fst sent))))" by code_simp
  with pickup_code_guesses_bounded[OF run w] show ?thesis by blast
qed

text \<open>C15: A status of the day that somebody decided on (sick, on vacation, collected early) is never overwritten
  by an event of the register: check-in, check-out, correction and deletion leave the row as it is.\<close>

theorem decided_status_stays:
  assumes "decided r" and "ds_kindergartenId r = kg" and "has_day r h"
    and "(\<exists>x. checkIn E kg c u opts h = Inr (x, h')) \<or> (\<exists>x. checkOut E kg c u p opts h = Inr (x, h'))
      \<or> (\<exists>x. patchEvent E kg i u pt po h = Inr (x, h')) \<or> (\<exists>x. deleteEvent E kg i u h = Inr (x, h'))"
  shows "r \<in> set (hs_daily h')"
proof -
  note keep = events_keep_decided_day[OF assms(1,2), THEN preservesD, OF assms(3)]
  from assms(4) have "has_day r h'" by (elim disjE exE) (erule keep)+
  thus ?thesis by (simp add: has_day_def)
qed

theorem decided_status_stays_witness: "aliya_is_sick \<in> set (hs_daily (snd sick_went_home))"
proof (rule decided_status_stays)
  show "(\<exists>x. checkIn E0 ''kg'' ''child'' ''user-1'' plain_opts sick_house = Inr (x, snd sick_went_home))
      \<or> (\<exists>x. checkOut E0 ''kg'' ''child'' ''user-1'' (Some ''user-9'') plain_opts sick_house = Inr (x, snd sick_went_home))
      \<or> (\<exists>x. patchEvent E0 ''kg'' [] ''user-1'' no_patch no_rights sick_house = Inr (x, snd sick_went_home))
      \<or> (\<exists>x. deleteEvent E0 ''kg'' [] ''user-1'' sick_house = Inr (x, snd sick_went_home))"
    using sick_went_home_run by (metis prod.collapse)
  show "decided aliya_is_sick" by code_simp
  show "ds_kindergartenId aliya_is_sick = ''kg''" by code_simp
  show "has_day aliya_is_sick sick_house" by (simp add: has_day_def sick_house_def)
qed

text \<open>C35: A client that follows the cursors of a child's timeline reads every entry of the range exactly once,
  newest first, in as many pages as the rows need.\<close>

theorem timeline_read_completely:
  assumes "distinct (map tl_id (hs_timeline h))"
    and "length (timeline_rows kg c a b h) \<le> Suc n * timeline_clampLimit limit"
  shows "follow_pages (\<lambda>cur. timeline_findByChild kg c a b limit cur h) (Suc n) None
    = rev (sort_key timeline_order (timeline_rows kg c a b h))"
  by (rule timeline_pages_complete[OF assms(1)]) (use assms(2) in simp)

theorem timeline_read_completely_witness:
  "follow_pages (\<lambda>cur. timeline_findByChild ''kg'' ''child'' None None (Some 1) cur (snd went_again)) 2 None
     = rev (sort_key timeline_order (timeline_rows ''kg'' ''child'' None None (snd went_again)))
   \<and> length (timeline_rows ''kg'' ''child'' None None (snd went_again)) = 2"
proof -
  have d: "distinct (map tl_id (hs_timeline (snd went_again)))" by code_simp
  have l: "length (timeline_rows ''kg'' ''child'' None None (snd went_again)) = 2" by code_simp
  have "timeline_clampLimit (Some 1) = 1" by code_simp
  hence "length (timeline_rows ''kg'' ''child'' None None (snd went_again)) \<le> Suc 1 * timeline_clampLimit (Some 1)" using l by simp
  from timeline_read_completely[OF d this] l show ?thesis by (simp add: numeral_2_eq_2)
qed

text \<open>C40: Nothing stops the author or an administrator from giving an entry of the register another time:
  whenever that edit returns, the timeline is no longer a mirror of the register.\<close>

theorem edited_entry_leaves_register:
  assumes "mirrored h" and "t \<in> set (hs_timeline h)" "tl_sourceEventId t = Some i"
    and "updateEntry E kg (tl_id t) u dto opts h = Inr (x, h')" and "ut_entryTime dto = Some v" "v \<noteq> tl_entryTime t"
  shows "\<not> mirrored h'"
  by (rule edited_time_unmirrors[OF assms])

theorem edited_entry_leaves_register_witness: "mirrored (snd went_home) \<and> \<not> mirrored (snd edited)"
proof -
  have t: "fr_timelineEntry (fst went_home) \<in> set (hs_timeline (snd went_home))"
    "tl_sourceEventId (fr_timelineEntry (fst went_home)) = Some (ev_id (fr_event (fst went_home)))" by code_simp+
  have run: "updateEntry E0 ''kg'' (tl_id (fr_timelineEntry (fst went_home))) ''user-1'' later_entry staff_edit (snd went_home)
    = Inr (fst edited, snd edited)" using edited_run by simp
  have "ut_entryTime later_entry = Some (noon - 3600000)" "noon - 3600000 \<noteq> tl_entryTime (fr_timelineEntry (fst went_home))"
    by code_simp+
  from edited_entry_leaves_register[OF went_home_mirrored t run this] went_home_mirrored show ?thesis by blast
qed

end
